(* ===== verification/Prelude.thy ===== *)
theory Prelude
  imports Main "HOL-Library.List_Lexorder"
begin

text \<open>
  The vocabulary the component theories share.

  \<^item> Python strings are lists of code points (\<open>pystr\<close>); \<open>u ''abc''\<close> is the literal
    \<^verbatim>\<open>"abc"\<close>. Comparison of strings by code point is the lexicographic order of the library.
  \<^item> An exception is a value of \<open>py_error\<close>, an operation that may raise returns
    \<open>'a result\<close>, and a validator (a function that returns nothing or raises) returns
    \<open>py_error option\<close>. \<open>first_error\<close> runs a sequence of checks, as the statements of a
    validator run, and keeps the first one that raises.
  \<^item> A Python \<^verbatim>\<open>dict\<close> keeps insertion order: it is an association list with distinct keys.
    The locale \<open>ordered_dict\<close> states what clients rely on; it is interpreted on the association
    list operations at the end of the theory.
  \<^item> The locale \<open>invariant_machine\<close> lifts an invariant kept by every successful step to
    every reachable state and to every run; \<open>monotone_machine\<close> does the same for a preorder every
    step respects.
\<close>

named_theorems result_simps "rewriting rules for results and validators"
named_theorems dict_simps "rewriting rules for ordered dictionaries"

section \<open>Strings, exceptions and results\<close>

type_synonym pystr = "nat list"

definition u :: "string \<Rightarrow> pystr" where
  "u s = map of_char s"

lemma inj_of_char_nat: "inj (of_char :: char \<Rightarrow> nat)"
  by (rule injI) simp

lemma u_eq_iff [simp]: "u a = u b \<longleftrightarrow> a = b"
  unfolding u_def by (rule inj_map_eq_map [OF inj_of_char_nat])

lemma u_Nil_iff [simp]: "u a = [] \<longleftrightarrow> a = []" "[] = u a \<longleftrightarrow> a = []"
  by (auto simp: u_def)

lemma length_u [simp]: "length (u a) = length a"
  by (simp add: u_def)

text \<open>
  The exceptions of the code. \<open>ContractError code message\<close> stands for \<^verbatim>\<open>V3ContractError\<close> and its
  subclasses, which carry a stable code.
\<close>

datatype py_error =
    ValueError pystr | KeyError pystr | TypeError pystr | RecursionError | OverflowError
  | ContractError pystr pystr

type_synonym 'a result = "py_error + 'a"

definition rbind :: "'a result \<Rightarrow> ('a \<Rightarrow> 'b result) \<Rightarrow> 'b result" where
  "rbind r f = (case r of Inl e \<Rightarrow> Inl e | Inr x \<Rightarrow> f x)"

definition or_raise :: "py_error option \<Rightarrow> 'a result \<Rightarrow> 'a result" where
  "or_raise e r = (case e of None \<Rightarrow> r | Some x \<Rightarrow> Inl x)"

definition raise_if :: "bool \<Rightarrow> pystr \<Rightarrow> py_error option" where
  "raise_if b m = (if b then Some (ValueError m) else None)"

fun first_error :: "'e option list \<Rightarrow> 'e option" where
  "first_error [] = None"
| "first_error (None # xs) = first_error xs"
| "first_error (Some e # xs) = Some e"

fun rmap :: "('a \<Rightarrow> 'b result) \<Rightarrow> 'a list \<Rightarrow> 'b list result" where
  "rmap f [] = Inr []"
| "rmap f (x # xs) = rbind (f x) (\<lambda>y. rbind (rmap f xs) (\<lambda>ys. Inr (y # ys)))"

fun rfold :: "('a \<Rightarrow> 's \<Rightarrow> 's result) \<Rightarrow> 'a list \<Rightarrow> 's \<Rightarrow> 's result" where
  "rfold f [] s = Inr s"
| "rfold f (x # xs) s = rbind (f x s) (rfold f xs)"

lemma rbind_simps [simp]: "rbind (Inl e) f = Inl e" "rbind (Inr x) f = f x"
  by (simp_all add: rbind_def)

lemma rbind_Inr_iff [result_simps]: "rbind r f = Inr y \<longleftrightarrow> (\<exists>x. r = Inr x \<and> f x = Inr y)"
  by (cases r) auto

lemma rbind_Inl_iff [result_simps]:
  "rbind r f = Inl e \<longleftrightarrow> r = Inl e \<or> (\<exists>x. r = Inr x \<and> f x = Inl e)"
  by (cases r) auto

lemma or_raise_simps [simp]: "or_raise None r = r" "or_raise (Some e) r = Inl e"
  by (simp_all add: or_raise_def)

lemma or_raise_Inr_iff [result_simps]: "or_raise e r = Inr y \<longleftrightarrow> e = None \<and> r = Inr y"
  by (cases e) auto

lemma or_raise_Inl_iff [result_simps]:
  "or_raise e r = Inl x \<longleftrightarrow> e = Some x \<or> (e = None \<and> r = Inl x)"
  by (cases e) auto

lemma raise_if_None_iff [simp]: "raise_if b m = None \<longleftrightarrow> \<not> b"
  by (simp add: raise_if_def)

lemma raise_if_simps [simp]: "raise_if True m = Some (ValueError m)" "raise_if False m = None"
  by (simp_all add: raise_if_def)

lemma first_error_None_iff [simp]: "first_error xs = None \<longleftrightarrow> (\<forall>x\<in>set xs. x = None)"
  by (induction xs rule: first_error.induct) auto

lemma first_error_in_set: "first_error xs = Some e \<Longrightarrow> Some e \<in> set xs"
  by (induction xs rule: first_error.induct) auto

lemma first_error_append:
  "first_error (xs @ ys) = (case first_error xs of None \<Rightarrow> first_error ys | Some e \<Rightarrow> Some e)"
  by (induction xs rule: first_error.induct) auto

lemma rmap_cong [fundef_cong]:
  assumes "xs = ys" and "\<And>x. x \<in> set ys \<Longrightarrow> f x = g x"
  shows "rmap f xs = rmap g ys"
  using assms(2) unfolding assms(1) by (induction ys) auto

lemma rmap_Inr_iff:
  "rmap f xs = Inr ys \<longleftrightarrow> list_all2 (\<lambda>x y. f x = Inr y) xs ys"
  by (induction xs arbitrary: ys)
     (auto simp: result_simps list_all2_Cons1)

lemma rmap_Inr_length: "rmap f xs = Inr ys \<Longrightarrow> length ys = length xs"
  by (auto simp: rmap_Inr_iff dest: list_all2_lengthD)

lemma rfold_append: "rfold f (xs @ ys) s = rbind (rfold f xs s) (rfold f ys)"
proof (induction xs arbitrary: s)
  case (Cons x xs)
  then show ?case by (cases "f x s") auto
qed simp

lemma rfold_invariant:
  assumes "rfold f xs s = Inr t" and "P s"
    and "\<And>x s t. x \<in> set xs \<Longrightarrow> P s \<Longrightarrow> f x s = Inr t \<Longrightarrow> P t"
  shows "P t"
  using assms
proof (induction xs arbitrary: s)
  case (Cons x xs)
  from Cons.prems(1) obtain s' where s': "f x s = Inr s'" "rfold f xs s' = Inr t"
    by (auto simp: result_simps)
  have "P s'" using Cons.prems(3) [of x s s'] Cons.prems(2) s' by simp
  with s' Cons.prems(3) show ?case by (auto intro: Cons.IH)
qed simp

section \<open>Lists\<close>

text \<open>Keeping the first occurrence of every element, as an insertion-ordered set does.\<close>

fun add_new :: "'a list \<Rightarrow> 'a list \<Rightarrow> 'a list" where
  "add_new acc [] = acc"
| "add_new acc (x # xs) = add_new (if x \<in> set acc then acc else acc @ [x]) xs"

lemma set_add_new [simp]: "set (add_new acc xs) = set acc \<union> set xs"
  by (induction xs arbitrary: acc) auto

lemma distinct_add_new [simp]: "distinct acc \<Longrightarrow> distinct (add_new acc xs)"
  by (induction xs arbitrary: acc) auto

lemma add_new_append: "add_new acc (xs @ ys) = add_new (add_new acc xs) ys"
  by (induction xs arbitrary: acc) auto

lemma add_new_distinct:
  "distinct (acc @ xs) \<Longrightarrow> add_new acc xs = acc @ xs"
  by (induction xs arbitrary: acc) auto

lemma distinct_card_set: "card (set xs) \<noteq> length xs \<longleftrightarrow> \<not> distinct xs"
  using distinct_card card_distinct by metis

lemma sort_key_Nil_iff [simp]: "sort_key f xs = [] \<longleftrightarrow> xs = []" "[] = sort_key f xs \<longleftrightarrow> xs = []"
  by (metis length_0_conv length_sort)+

section \<open>Insertion-ordered dictionaries\<close>

type_synonym ('k, 'v) dict = "('k \<times> 'v) list"

abbreviation dict_get :: "('k, 'v) dict \<Rightarrow> 'k \<Rightarrow> 'v option" where
  "dict_get \<equiv> map_of"

definition dict_keys :: "('k, 'v) dict \<Rightarrow> 'k list" where
  "dict_keys d = map fst d"

definition dict_values :: "('k, 'v) dict \<Rightarrow> 'v list" where
  "dict_values d = map snd d"

definition dict_has :: "('k, 'v) dict \<Rightarrow> 'k \<Rightarrow> bool" where
  "dict_has d k \<longleftrightarrow> k \<in> set (map fst d)"

fun dict_set :: "'k \<Rightarrow> 'v \<Rightarrow> ('k, 'v) dict \<Rightarrow> ('k, 'v) dict" where
  "dict_set k v [] = [(k, v)]"
| "dict_set k v ((k', v') # d) = (if k' = k then (k, v) # d else (k', v') # dict_set k v d)"

definition dict_pop :: "'k \<Rightarrow> ('k, 'v) dict \<Rightarrow> ('k, 'v) dict" where
  "dict_pop k d = filter (\<lambda>kv. fst kv \<noteq> k) d"

definition dict_ok :: "('k, 'v) dict \<Rightarrow> bool" where
  "dict_ok d \<longleftrightarrow> distinct (map fst d)"

text \<open>\<^verbatim>\<open>d.update(e)\<close>: the entries of \<open>e\<close> in order.\<close>

definition dict_update :: "('k, 'v) dict \<Rightarrow> ('k, 'v) dict \<Rightarrow> ('k, 'v) dict" where
  "dict_update d e = fold (\<lambda>(k, v). dict_set k v) e d"

text \<open>What a client of a dictionary relies on, whatever represents it.\<close>

locale ordered_dict =
  fixes empty :: "'d"
    and get :: "'d \<Rightarrow> 'k \<Rightarrow> 'v option"
    and set_item :: "'k \<Rightarrow> 'v \<Rightarrow> 'd \<Rightarrow> 'd"
    and pop :: "'k \<Rightarrow> 'd \<Rightarrow> 'd"
    and keys :: "'d \<Rightarrow> 'k list"
    and ok :: "'d \<Rightarrow> bool"
  assumes get_empty: "get empty k = None"
    and get_set: "get (set_item k v d) k' = (if k' = k then Some v else get d k')"
    and get_pop: "ok d \<Longrightarrow> get (pop k d) k' = (if k' = k then None else get d k')"
    and keys_set: "keys (set_item k v d) = (if k \<in> set (keys d) then keys d else keys d @ [k])"
    and keys_get: "k \<in> set (keys d) \<longleftrightarrow> get d k \<noteq> None"
    and ok_empty: "ok empty"
    and ok_set: "ok d \<Longrightarrow> ok (set_item k v d)"
    and ok_pop: "ok d \<Longrightarrow> ok (pop k d)"
begin

lemma get_fold_set:
  "get (fold (\<lambda>(k, v). set_item k v) e d) k' =
     (case map_of (rev e) k' of Some v \<Rightarrow> Some v | None \<Rightarrow> get d k')"
  by (induction e arbitrary: d) (auto simp: get_set map_add_def split: option.splits)

lemma ok_fold_set: "ok d \<Longrightarrow> ok (fold (\<lambda>(k, v). set_item k v) e d)"
  by (induction e arbitrary: d) (auto simp: ok_set)

lemma keys_fold_set: "set (keys (fold (\<lambda>(k, v). set_item k v) e d)) = set (keys d) \<union> fst ` set e"
  by (induction e arbitrary: d) (auto simp: keys_set split: if_splits)

lemma keys_set_existing: "get d k \<noteq> None \<Longrightarrow> keys (set_item k v d) = keys d"
  using keys_get [of k d] by (simp add: keys_set)

end

lemma dict_has_iff [dict_simps]: "dict_has d k \<longleftrightarrow> dict_get d k \<noteq> None"
  by (auto simp: dict_has_def map_of_eq_None_iff)

lemma dict_get_set: "dict_get (dict_set k v d) k' = (if k' = k then Some v else dict_get d k')"
  by (induction k v d rule: dict_set.induct) auto

lemma dict_keys_set:
  "dict_keys (dict_set k v d) =
     (if k \<in> set (dict_keys d) then dict_keys d else dict_keys d @ [k])"
  by (induction k v d rule: dict_set.induct) (auto simp: dict_keys_def)

lemma dict_ok_set: "dict_ok d \<Longrightarrow> dict_ok (dict_set k v d)"
  using dict_keys_set [of k v d] by (auto simp: dict_ok_def dict_keys_def)

lemma dict_get_pop: "dict_get (dict_pop k d) k' = (if k' = k then None else dict_get d k')"
  by (induction d) (auto simp: dict_pop_def)

lemma dict_ok_pop: "dict_ok d \<Longrightarrow> dict_ok (dict_pop k d)"
  by (auto simp: dict_ok_def dict_pop_def distinct_map inj_on_def)

interpretation alist: ordered_dict "[]" dict_get dict_set dict_pop dict_keys dict_ok
proof unfold_locales
  fix k :: 'k and d :: "('k, 'v) dict"
  show "k \<in> set (dict_keys d) \<longleftrightarrow> dict_get d k \<noteq> None"
    by (auto simp: dict_keys_def map_of_eq_None_iff)
qed (auto simp: dict_get_set dict_get_pop dict_keys_set dict_ok_set dict_ok_pop, simp add: dict_ok_def)

lemmas [dict_simps] = dict_get_set dict_get_pop dict_keys_set
lemmas [intro] = dict_ok_set dict_ok_pop

lemma dict_get_update [dict_simps]:
  "dict_get (dict_update d e) k =
     (case dict_get (rev e) k of Some v \<Rightarrow> Some v | None \<Rightarrow> dict_get d k)"
  unfolding dict_update_def by (rule alist.get_fold_set)

lemma dict_ok_update [intro]: "dict_ok d \<Longrightarrow> dict_ok (dict_update d e)"
  unfolding dict_update_def by (rule alist.ok_fold_set)

lemma map_of_rev_eq: "distinct (map fst e) \<Longrightarrow> map_of (rev e) k = map_of e k"
proof (cases "map_of e k")
  case None
  then have "map_of (rev e) k = None" by (simp add: map_of_eq_None_iff)
  with None show ?thesis by simp
next
  case (Some v)
  assume d: "distinct (map fst e)"
  then have "distinct (map fst (rev e))" by (metis distinct_rev rev_map)
  moreover from d Some have "(k, v) \<in> set (rev e)" by simp
  ultimately have "map_of (rev e) k = Some v" by (rule map_of_is_SomeI)
  with Some show ?thesis by simp
qed

lemma dict_get_rev: "dict_ok e \<Longrightarrow> dict_get (rev e) = dict_get e"
  by (intro ext) (simp add: dict_ok_def map_of_rev_eq)

lemma dict_get_in: "dict_get d k = Some v \<Longrightarrow> (k, v) \<in> set d"
  by (rule map_of_SomeD)

lemma dict_in_get: "dict_ok d \<Longrightarrow> (k, v) \<in> set d \<longleftrightarrow> dict_get d k = Some v"
  unfolding dict_ok_def by (rule map_of_eq_Some_iff [symmetric])

lemma dict_values_in: "dict_ok d \<Longrightarrow> v \<in> set (dict_values d) \<longleftrightarrow> (\<exists>k. dict_get d k = Some v)"
  by (simp add: dict_values_def image_iff dict_in_get [symmetric] Bex_def)

section \<open>Machines\<close>

text \<open>
  A component as a machine: \<open>step op s\<close> either raises, and the state is unchanged, or returns
  the next state. \<open>exec\<close> is what a client sees: a raising operation leaves the state alone.
\<close>

locale machine =
  fixes step :: "'op \<Rightarrow> 's \<Rightarrow> 's result"
    and init :: "'s \<Rightarrow> bool"
begin

definition exec :: "'op \<Rightarrow> 's \<Rightarrow> 's" where
  "exec op s = (case step op s of Inl _ \<Rightarrow> s | Inr t \<Rightarrow> t)"

inductive reachable :: "'s \<Rightarrow> bool" where
  initial: "init s \<Longrightarrow> reachable s"
| step: "reachable s \<Longrightarrow> step op s = Inr t \<Longrightarrow> reachable t"

lemma exec_reachable: "reachable s \<Longrightarrow> reachable (exec op s)"
  by (auto simp: exec_def split: sum.splits intro: reachable.step)

lemma run_reachable: "reachable s \<Longrightarrow> reachable (fold exec ops s)"
  by (induction ops arbitrary: s) (auto simp: exec_reachable)

end

locale invariant_machine = machine step init
  for step :: "'op \<Rightarrow> 's \<Rightarrow> 's result" and init :: "'s \<Rightarrow> bool" +
  fixes inv :: "'s \<Rightarrow> bool"
  assumes inv_init: "init s \<Longrightarrow> inv s"
    and inv_step: "inv s \<Longrightarrow> step op s = Inr t \<Longrightarrow> inv t"
begin

lemma reachable_inv: "reachable s \<Longrightarrow> inv s"
  by (induction rule: reachable.induct) (auto intro: inv_init inv_step)

lemma run_inv: "init s \<Longrightarrow> inv (fold exec ops s)"
  by (rule reachable_inv) (rule run_reachable, rule reachable.initial)

end

text \<open>A machine whose steps only move up a preorder: what a client learnt stays true.\<close>

locale monotone_machine = invariant_machine step init inv
  for step :: "'op \<Rightarrow> 's \<Rightarrow> 's result" and init :: "'s \<Rightarrow> bool" and inv :: "'s \<Rightarrow> bool" +
  fixes le :: "'s \<Rightarrow> 's \<Rightarrow> bool"
  assumes le_refl: "le s s"
    and le_trans: "le s t \<Longrightarrow> le t v \<Longrightarrow> le s v"
    and le_step: "inv s \<Longrightarrow> step op s = Inr t \<Longrightarrow> le s t"
begin

lemma exec_le: "reachable s \<Longrightarrow> le s (exec op s)"
  by (auto simp: exec_def le_refl split: sum.splits intro: le_step reachable_inv)

lemma run_le: "reachable s \<Longrightarrow> le s (fold exec ops s)"
proof (induction ops arbitrary: s)
  case (Cons op ops)
  have "le (exec op s) (fold exec ops (exec op s))" by (rule Cons.IH) (rule exec_reachable [OF Cons.prems])
  with exec_le [OF Cons.prems] show ?case by (auto intro: le_trans)
qed (simp add: le_refl)

end

end
