(* ===== verification/PyText.thy ===== *)
theory PyText
  imports Complex_Main Prelude
begin

text \<open>
  The parts of Python's \<^verbatim>\<open>str\<close>, \<^verbatim>\<open>int\<close> and \<^verbatim>\<open>float\<close> that the program
  uses: \<^verbatim>\<open>str.strip\<close> and \<^verbatim>\<open>rstrip\<close> with Unicode white space, \<^verbatim>\<open>repr\<close> of a string,
  \<^verbatim>\<open>json.dumps\<close> of a string (ASCII output), the size of the UTF-8 encoding, decimal
  formatting, \<^verbatim>\<open>join\<close>, and numbers that are an \<^verbatim>\<open>int\<close> or a \<^verbatim>\<open>float\<close>.

  What depends on the host (the clock, the Unicode character database, the shortest decimal
  form of a float, the JSON decoder) is the record \<open>runtime\<close>, an argument of the operations
  that use it. Dynamic values, such as the arguments of a tool call or a decoded decision, are
  \<open>pyval\<close>.
\<close>

section \<open>White space\<close>

definition py_isspace :: "nat \<Rightarrow> bool" where
  "py_isspace c \<longleftrightarrow>
     9 \<le> c \<and> c \<le> 13 \<or> 28 \<le> c \<and> c \<le> 32 \<or>
     c \<in> {133, 160, 5760, 8232, 8233, 8239, 8287, 12288} \<or> 8192 \<le> c \<and> c \<le> 8202"

definition lstrip :: "pystr \<Rightarrow> pystr" where
  "lstrip s = dropWhile py_isspace s"

definition rstrip :: "pystr \<Rightarrow> pystr" where
  "rstrip s = rev (dropWhile py_isspace (rev s))"

definition strip :: "pystr \<Rightarrow> pystr" where
  "strip s = rstrip (lstrip s)"

text \<open>\<^verbatim>\<open>not value.strip()\<close>\<close>

definition blank :: "pystr \<Rightarrow> bool" where
  "blank s \<longleftrightarrow> strip s = []"

lemma rstrip_Nil_iff: "rstrip s = [] \<longleftrightarrow> (\<forall>c\<in>set s. py_isspace c)"
  by (simp add: rstrip_def dropWhile_eq_Nil_conv)

lemma blank_iff: "blank s \<longleftrightarrow> (\<forall>c\<in>set s. py_isspace c)"
proof -
  have "blank s \<longleftrightarrow> (\<forall>c\<in>set (dropWhile py_isspace s). py_isspace c)"
    by (simp add: blank_def strip_def lstrip_def rstrip_Nil_iff)
  also have "\<dots> \<longleftrightarrow> (\<forall>c\<in>set s. py_isspace c)"
    by (metis (mono_tags, lifting) dropWhile_eq_Nil_conv hd_dropWhile list.set_sel(1) list.set(1) empty_iff)
  finally show ?thesis .
qed

lemma blank_Nil [simp]: "blank []"
  by (simp add: blank_iff)

lemma blank_Cons [simp]: "blank (c # s) \<longleftrightarrow> py_isspace c \<and> blank s"
  by (simp add: blank_iff)

lemma blank_append [simp]: "blank (s @ t) \<longleftrightarrow> blank s \<and> blank t"
  by (auto simp: blank_iff)

lemma blank_u [simp]: "blank (u s) \<longleftrightarrow> (\<forall>c\<in>set s. py_isspace (of_char c))"
  by (simp add: blank_iff u_def)

lemma not_blank_not_Nil: "\<not> blank s \<Longrightarrow> s \<noteq> []"
  by auto

lemma length_rstrip_le: "length (rstrip s) \<le> length s"
  by (simp add: rstrip_def) (metis length_dropWhile_le length_rev)

section \<open>UTF-8\<close>

text \<open>The number of bytes of the UTF-8 encoding; surrogates cannot be encoded.\<close>

definition utf8_char_size :: "nat \<Rightarrow> nat option" where
  "utf8_char_size c =
     (if c < 128 then Some 1 else if c < 2048 then Some 2
      else if 55296 \<le> c \<and> c \<le> 57343 then None
      else if c < 65536 then Some 3 else Some 4)"

fun utf8_size :: "pystr \<Rightarrow> nat option" where
  "utf8_size [] = Some 0"
| "utf8_size (c # s) =
     (case (utf8_char_size c, utf8_size s) of (Some n, Some m) \<Rightarrow> Some (n + m) | _ \<Rightarrow> None)"

lemma utf8_char_size_pos: "utf8_char_size c = Some n \<Longrightarrow> 1 \<le> n \<and> n \<le> 4"
  by (auto simp: utf8_char_size_def split: if_splits)

lemma utf8_size_bounds: "utf8_size s = Some n \<Longrightarrow> length s \<le> n \<and> n \<le> 4 * length s"
  by (induction s arbitrary: n) (force split: option.splits dest: utf8_char_size_pos)+

section \<open>Decimal and hexadecimal digits\<close>

fun digits_rev :: "nat \<Rightarrow> nat \<Rightarrow> nat list" where
  "digits_rev b n = (if b < 2 \<or> n < b then [n] else n mod b # digits_rev b (n div b))"

declare digits_rev.simps [simp del]

definition dec_digits :: "nat \<Rightarrow> nat list" where
  "dec_digits n = rev (digits_rev 10 n)"

definition str_nat :: "nat \<Rightarrow> pystr" where
  "str_nat n = map (\<lambda>d. 48 + d) (dec_digits n)"

definition pad_left :: "nat \<Rightarrow> nat \<Rightarrow> pystr \<Rightarrow> pystr" where
  "pad_left c w s = replicate (w - length s) c @ s"

text \<open>\<^verbatim>\<open>f"{n:06d}"\<close>\<close>

definition format_06d :: "nat \<Rightarrow> pystr" where
  "format_06d n = pad_left 48 6 (str_nat n)"

definition hex_digit :: "nat \<Rightarrow> nat" where
  "hex_digit d = (if d < 10 then 48 + d else 87 + d)"

definition hex_pad :: "nat \<Rightarrow> nat \<Rightarrow> pystr" where
  "hex_pad w n = pad_left 48 w (map hex_digit (rev (digits_rev 16 n)))"

lemma digits_rev_bound: "2 \<le> b \<Longrightarrow> \<forall>d\<in>set (digits_rev b n). d < b"
proof (induction b n rule: digits_rev.induct)
  case (1 b n)
  then show ?case by (subst digits_rev.simps) auto
qed

fun digits_value :: "nat \<Rightarrow> nat list \<Rightarrow> nat" where
  "digits_value acc [] = acc"
| "digits_value acc (d # ds) = digits_value (10 * acc + d) ds"

lemma digits_value_append: "digits_value acc (xs @ ys) = digits_value (digits_value acc xs) ys"
  by (induction xs arbitrary: acc) auto

lemma digits_value_zeros: "digits_value 0 (replicate k 0 @ ds) = digits_value 0 ds"
  by (induction k) auto

lemma digits_value_rev: "digits_value 0 (rev (digits_rev 10 n)) = n"
proof (induction n rule: less_induct)
  case (less n)
  show ?case
  proof (cases "n < 10")
    case True
    then show ?thesis by (subst digits_rev.simps) simp
  next
    case False
    then have "digits_value 0 (rev (digits_rev 10 (n div 10))) = n div 10"
      by (intro less.IH) simp
    with False show ?thesis
      by (subst digits_rev.simps) (simp add: digits_value_append)
  qed
qed

section \<open>Joining\<close>

fun join :: "pystr \<Rightarrow> pystr list \<Rightarrow> pystr" where
  "join sep [] = []"
| "join sep [s] = s"
| "join sep (s # ss) = s @ sep @ join sep ss"

lemma join_Cons: "ss \<noteq> [] \<Longrightarrow> join sep (s # ss) = s @ sep @ join sep ss"
  by (cases ss) auto

abbreviation nl :: pystr where
  "nl \<equiv> [10]"

section \<open>Numbers\<close>

text \<open>
  A value of type \<^verbatim>\<open>int | float\<close>. A finite float is the rational it stands for, and Python
  compares ints and floats by value.
\<close>

datatype pynum = PyInt int | PyFloat rat | PyInf | PyNegInf | PyNaN

fun num_value :: "pynum \<Rightarrow> rat option" where
  "num_value (PyInt n) = Some (of_int n)"
| "num_value (PyFloat q) = Some q"
| "num_value _ = None"

text \<open>\<^verbatim>\<open>==\<close> on numbers: by value, and NaN is not equal to itself.\<close>

fun num_eq :: "pynum \<Rightarrow> pynum \<Rightarrow> bool" where
  "num_eq PyInf b = (b = PyInf)"
| "num_eq PyNegInf b = (b = PyNegInf)"
| "num_eq PyNaN b = False"
| "num_eq a b = (num_value a = num_value b)"

section \<open>Dynamic values\<close>

text \<open>
  \<open>PyOther\<close> stands for a value that is no JSON value (a tuple, a set, an object, ...), named by
  a tag.
\<close>

datatype pyval =
    PNone
  | PBool bool
  | PNum pynum
  | PStr pystr
  | PList "pyval list"
  | PDict "(pyval \<times> pyval) list"
  | PyOther nat

type_synonym pydict = "(pyval \<times> pyval) list"

text \<open>\<^verbatim>\<open>==\<close> on dynamic values: numbers and booleans by value, dictionaries whatever their order.\<close>

fun as_number :: "pyval \<Rightarrow> pynum option" where
  "as_number (PBool b) = Some (PyInt (if b then 1 else 0))"
| "as_number (PNum n) = Some n"
| "as_number _ = None"

function py_eq :: "pyval \<Rightarrow> pyval \<Rightarrow> bool" where
  "py_eq a b =
     (case (a, b) of
        (PNone, PNone) \<Rightarrow> True
      | (PStr s, PStr t) \<Rightarrow> s = t
      | (PyOther i, PyOther j) \<Rightarrow> i = j
      | (PList xs, PList ys) \<Rightarrow>
          length xs = length ys \<and> (\<forall>(x, y)\<in>set (zip xs ys). py_eq x y)
      | (PDict d, PDict e) \<Rightarrow>
          length d = length e \<and>
          (\<forall>(k, v)\<in>set d. \<exists>(k', v')\<in>set e. py_eq k k' \<and> py_eq v v')
      | _ \<Rightarrow> (case (as_number a, as_number b) of
                (Some m, Some n) \<Rightarrow> num_eq m n
              | _ \<Rightarrow> False))"
  by pat_completeness auto

lemma size_pair_in_list:
  "(k, v) \<in> set d \<Longrightarrow> size k + size v < Suc (size_list (size_prod size size) d)"
  using size_list_estimation' [of "(k, v)" d "size k + size v" "size_prod size size"] by simp

lemma size_in_list: "x \<in> set xs \<Longrightarrow> size x < Suc (size_list size xs)"
  using size_list_estimation' [of x xs "size x" size] by simp

termination py_eq
  by (relation "measure (\<lambda>(a, b). size a)")
     (auto dest: size_in_list [OF set_zip_leftD] size_pair_in_list)

declare py_eq.simps [simp del]

section \<open>The host\<close>

text \<open>An aware \<^verbatim>\<open>datetime\<close>: calendar fields and the offset from UTC in minutes.\<close>

record datetime =
  dt_year :: nat
  dt_month :: nat
  dt_day :: nat
  dt_hour :: nat
  dt_minute :: nat
  dt_second :: nat
  dt_microsecond :: nat
  dt_offset :: int

text \<open>
  What \<^verbatim>\<open>json.loads\<close> makes of a text: a syntax error with its message, exhaustion of the
  recursion limit, or a value whose objects still hold every pair of the text in its order, as
  \<^verbatim>\<open>object_pairs_hook\<close> receives them.
\<close>

datatype json_outcome = JsonSyntaxError pystr | JsonTooDeep | JsonValue pyval

record runtime =
  rt_now :: datetime                        \<comment> \<open>\<^verbatim>\<open>datetime.now(timezone.utc)\<close>\<close>
  rt_is_printable :: "nat \<Rightarrow> bool"          \<comment> \<open>\<^verbatim>\<open>str.isprintable\<close> of a code point beyond ASCII\<close>
  rt_casefold :: "pystr \<Rightarrow> pystr"           \<comment> \<open>\<^verbatim>\<open>str.casefold\<close>\<close>
  rt_lower :: "pystr \<Rightarrow> pystr"              \<comment> \<open>\<^verbatim>\<open>str.lower\<close>\<close>
  rt_is_word :: "nat \<Rightarrow> bool"               \<comment> \<open>a code point that the pattern \<^verbatim>\<open>\w\<close> matches\<close>
  rt_decimal :: "nat \<Rightarrow> nat option"         \<comment> \<open>the value of a code point that \<^verbatim>\<open>\d\<close> matches\<close>
  rt_format_number :: "pynum \<Rightarrow> pystr"      \<comment> \<open>\<^verbatim>\<open>str\<close> of an int or float\<close>
  rt_max_str_digits :: nat                   \<comment> \<open>\<^verbatim>\<open>sys.get_int_max_str_digits()\<close>, 0 for no limit\<close>
  rt_is_identifier :: "pystr \<Rightarrow> bool"        \<comment> \<open>\<^verbatim>\<open>str.isidentifier\<close>\<close>
  rt_json_loads :: "pystr \<Rightarrow> json_outcome"  \<comment> \<open>\<^verbatim>\<open>json.loads\<close>\<close>

text \<open>The Unicode standard gives the ten ASCII digits their decimal values.\<close>

definition ascii_decimals :: "runtime \<Rightarrow> bool" where
  "ascii_decimals rt \<longleftrightarrow> (\<forall>d<10. rt_decimal rt (48 + d) = Some d)"

text \<open>\<^verbatim>\<open>re.fullmatch(prefix + r"(\d+)", s)\<close> and \<^verbatim>\<open>int\<close> of the group.\<close>

definition parse_decimal :: "runtime \<Rightarrow> pystr \<Rightarrow> nat option" where
  "parse_decimal rt s =
     (if s \<noteq> [] \<and> (\<forall>c\<in>set s. rt_decimal rt c \<noteq> None)
      then Some (digits_value 0 (map (\<lambda>c. the (rt_decimal rt c)) s)) else None)"

definition strip_prefix :: "pystr \<Rightarrow> pystr \<Rightarrow> pystr option" where
  "strip_prefix p s = (if take (length p) s = p then Some (drop (length p) s) else None)"

lemma strip_prefix_append [simp]: "strip_prefix p (p @ s) = Some s"
  by (simp add: strip_prefix_def)

lemma parse_decimal_format:
  assumes "ascii_decimals rt"
  shows "parse_decimal rt (format_06d n) = Some n"
proof -
  let ?ds = "replicate (6 - length (str_nat n)) 0 @ dec_digits n"
  have fmt: "format_06d n = map (\<lambda>d. 48 + d) ?ds"
    by (simp add: format_06d_def pad_left_def str_nat_def)
  have small: "\<forall>d\<in>set ?ds. d < 10"
    using digits_rev_bound [of 10 n] by (auto simp: dec_digits_def)
  have dec: "rt_decimal rt (48 + d) = Some d" if "d \<in> set ?ds" for d
    using assms small that by (auto simp: ascii_decimals_def)
  have "map (\<lambda>c. the (rt_decimal rt c)) (format_06d n) = ?ds"
    unfolding fmt map_map by (rule map_idI) (simp only: comp_apply dec option.sel)
  moreover have "\<forall>c\<in>set (format_06d n). rt_decimal rt c \<noteq> None"
    unfolding fmt set_map using dec by blast
  moreover have "format_06d n \<noteq> []"
    unfolding fmt by (subst dec_digits_def, subst digits_rev.simps) simp
  ultimately show ?thesis
    by (simp add: parse_decimal_def digits_value_zeros) (simp add: dec_digits_def digits_value_rev)
qed

section \<open>Literals for output\<close>

text \<open>\<^verbatim>\<open>repr\<close> of a string.\<close>

definition repr_char :: "runtime \<Rightarrow> nat \<Rightarrow> nat \<Rightarrow> pystr" where
  "repr_char rt q c =
     (if c = q \<or> c = 92 then [92, c]
      else if c = 9 then [92, 116] else if c = 10 then [92, 110] else if c = 13 then [92, 114]
      else if c < 32 \<or> c = 127 then [92, 120] @ hex_pad 2 c
      else if c < 127 \<or> rt_is_printable rt c then [c]
      else if c \<le> 255 then [92, 120] @ hex_pad 2 c
      else if c \<le> 65535 then [92, 117] @ hex_pad 4 c
      else [92, 85] @ hex_pad 8 c)"

definition py_repr :: "runtime \<Rightarrow> pystr \<Rightarrow> pystr" where
  "py_repr rt s =
     (let q = (if 39 \<in> set s \<and> 34 \<notin> set s then 34 else 39)
      in [q] @ concat (map (repr_char rt q) s) @ [q])"

lemma py_repr_not_blank [simp]: "\<not> blank (py_repr rt s)"
  by (auto simp: py_repr_def Let_def py_isspace_def)

text \<open>\<^verbatim>\<open>json.dumps\<close> of a string, with its default \<^verbatim>\<open>ensure_ascii=True\<close>.\<close>

definition json_char :: "nat \<Rightarrow> pystr" where
  "json_char c =
     (if c = 34 \<or> c = 92 then [92, c]
      else if c = 10 then [92, 110] else if c = 13 then [92, 114] else if c = 9 then [92, 116]
      else if c = 12 then [92, 102] else if c = 8 then [92, 98]
      else if 32 \<le> c \<and> c \<le> 126 then [c]
      else if c \<le> 65535 then [92, 117] @ hex_pad 4 c
      else [92, 117] @ hex_pad 4 (55296 + (c - 65536) div 1024) @
           [92, 117] @ hex_pad 4 (56320 + (c - 65536) mod 1024))"

definition json_dumps_str :: "pystr \<Rightarrow> pystr" where
  "json_dumps_str s = [34] @ concat (map json_char s) @ [34]"

text \<open>\<^verbatim>\<open>json.dumps\<close> of a mapping of strings to strings, in the order given.\<close>

definition json_dumps_str_dict :: "(pystr \<times> pystr) list \<Rightarrow> pystr" where
  "json_dumps_str_dict d =
     u ''{'' @ join (u '', '') (map (\<lambda>(k, v). json_dumps_str k @ u '': '' @ json_dumps_str v) d) @ u ''}''"

text \<open>Every character written is printable ASCII: no line break can be smuggled through it.\<close>

lemma hex_digit_ascii: "d < 16 \<Longrightarrow> 48 \<le> hex_digit d \<and> hex_digit d \<le> 102"
  by (auto simp: hex_digit_def)

lemma hex_pad_ascii: "c \<in> set (hex_pad w n) \<Longrightarrow> 32 \<le> c \<and> c \<le> 126"
  using digits_rev_bound [of 16 n] hex_digit_ascii
  by (fastforce simp: hex_pad_def pad_left_def split: if_splits)

lemma u_ascii: "list_all (\<lambda>c. 32 \<le> (of_char c :: nat) \<and> of_char c \<le> (126::nat)) s \<Longrightarrow> c \<in> set (u s) \<Longrightarrow> 32 \<le> c \<and> c \<le> 126"
  by (auto simp: u_def list_all_iff)

lemma json_char_ascii: "c \<in> set (json_char x) \<Longrightarrow> 32 \<le> c \<and> c \<le> 126"
  by (auto simp: json_char_def u_def split: if_splits dest: hex_pad_ascii)

lemma json_dumps_str_ascii: "c \<in> set (json_dumps_str s) \<Longrightarrow> 32 \<le> c \<and> c \<le> 126"
  by (auto simp: json_dumps_str_def dest: json_char_ascii)

end
