(* ===== verification/Timestamps.thy ===== *)
theory Timestamps
  imports PyText "HOL-Library.Monad_Syntax"
begin

text \<open>
  RFC 3339 timestamps, from \<^verbatim>\<open>_timestamps.py\<close>: the accepted syntax together with the
  calendar checks of \<^verbatim>\<open>datetime.fromisoformat\<close>, and the text that \<^verbatim>\<open>utc_timestamp\<close> makes
  of the clock. Every timestamp the program writes is one it accepts.
\<close>

section \<open>The calendar\<close>

definition is_leap :: "nat \<Rightarrow> bool" where
  "is_leap y \<longleftrightarrow> 4 dvd y \<and> (\<not> 100 dvd y \<or> 400 dvd y)"

definition days_in_month :: "nat \<Rightarrow> nat \<Rightarrow> nat" where
  "days_in_month y m =
     (if m = 2 then (if is_leap y then 29 else 28)
      else if m \<in> {4, 6, 9, 11} then 30 else 31)"

text \<open>The range checks of the constructors \<^verbatim>\<open>datetime\<close> and \<^verbatim>\<open>timezone\<close>.\<close>

definition valid_datetime :: "datetime \<Rightarrow> bool" where
  "valid_datetime d \<longleftrightarrow>
     1 \<le> dt_year d \<and> dt_year d \<le> 9999 \<and> 1 \<le> dt_month d \<and> dt_month d \<le> 12 \<and>
     1 \<le> dt_day d \<and> dt_day d \<le> days_in_month (dt_year d) (dt_month d) \<and>
     dt_hour d \<le> 23 \<and> dt_minute d \<le> 59 \<and> dt_second d \<le> 59 \<and> dt_microsecond d \<le> 999999 \<and>
     -1440 < dt_offset d \<and> dt_offset d < 1440"

section \<open>Parsing\<close>

definition is_digit :: "nat \<Rightarrow> bool" where
  "is_digit c \<longleftrightarrow> 48 \<le> c \<and> c \<le> 57"

definition take_digits :: "nat \<Rightarrow> pystr \<Rightarrow> (nat \<times> pystr) option" where
  "take_digits n s =
     (if n \<le> length s \<and> list_all is_digit (take n s)
      then Some (digits_value 0 (map (\<lambda>c. c - 48) (take n s)), drop n s) else None)"

fun eat :: "nat \<Rightarrow> pystr \<Rightarrow> pystr option" where
  "eat c [] = None"
| "eat c (x # s) = (if x = c then Some s else None)"

text \<open>\<^verbatim>\<open>(?:\.\d{1,6})?\<close>, in microseconds.\<close>

definition take_fraction :: "pystr \<Rightarrow> (nat \<times> pystr) option" where
  "take_fraction s =
     (case eat 46 s of
        None \<Rightarrow> Some (0, s)
      | Some t \<Rightarrow>
          (let k = length (takeWhile is_digit t)
           in if 1 \<le> k \<and> k \<le> 6
              then Some (digits_value 0 (map (\<lambda>c. c - 48) (take k t)) * 10 ^ (6 - k), drop k t)
              else None))"

text \<open>\<^verbatim>\<open>(?:Z|[+-]\d{2}:\d{2})\<close>, in minutes, up to the end of the string.\<close>

definition take_offset :: "pystr \<Rightarrow> int option" where
  "take_offset s =
     (if s = u ''Z'' then Some 0
      else do {
        (sign, s) \<leftarrow> (case s of [] \<Rightarrow> None
                      | c # t \<Rightarrow> if c = 43 then Some (1, t)
                                else if c = 45 then Some (-1, t) else None);
        (h, s) \<leftarrow> take_digits 2 s;
        s \<leftarrow> eat 58 s;
        (m, s) \<leftarrow> take_digits 2 s;
        if s = [] then Some (sign * (60 * int h + int m)) else None
      })"

definition parse_rfc3339 :: "pystr \<Rightarrow> datetime option" where
  "parse_rfc3339 value =
     do {
       (y, s) \<leftarrow> take_digits 4 value;
       s \<leftarrow> eat 45 s;
       (mo, s) \<leftarrow> take_digits 2 s;
       s \<leftarrow> eat 45 s;
       (d, s) \<leftarrow> take_digits 2 s;
       s \<leftarrow> eat 84 s;
       (h, s) \<leftarrow> take_digits 2 s;
       s \<leftarrow> eat 58 s;
       (mi, s) \<leftarrow> take_digits 2 s;
       s \<leftarrow> eat 58 s;
       (sec, s) \<leftarrow> take_digits 2 s;
       (us, s) \<leftarrow> take_fraction s;
       off \<leftarrow> take_offset s;
       let r = \<lparr>dt_year = y, dt_month = mo, dt_day = d, dt_hour = h, dt_minute = mi,
                dt_second = sec, dt_microsecond = us, dt_offset = off\<rparr>;
       if valid_datetime r then Some r else None
     }"

lemma parse_rfc3339_valid: "parse_rfc3339 s = Some d \<Longrightarrow> valid_datetime d"
  by (auto simp: parse_rfc3339_def Let_def bind_eq_Some_conv split: if_splits)

section \<open>Writing\<close>

definition zero_pad :: "nat \<Rightarrow> nat \<Rightarrow> pystr" where
  "zero_pad w n = pad_left 48 w (str_nat n)"

text \<open>
  \<^verbatim>\<open>datetime.now(timezone.utc).isoformat(timespec="microseconds").replace("+00:00", "Z")\<close>
\<close>

definition utc_timestamp :: "runtime \<Rightarrow> pystr" where
  "utc_timestamp rt =
     (let d = rt_now rt in
      zero_pad 4 (dt_year d) @ u ''-'' @ zero_pad 2 (dt_month d) @ u ''-'' @ zero_pad 2 (dt_day d) @
      u ''T'' @ zero_pad 2 (dt_hour d) @ u '':'' @ zero_pad 2 (dt_minute d) @ u '':'' @
      zero_pad 2 (dt_second d) @ u ''.'' @ zero_pad 6 (dt_microsecond d) @ u ''Z'')"

text \<open>A clock that reads UTC.\<close>

definition valid_clock :: "runtime \<Rightarrow> bool" where
  "valid_clock rt \<longleftrightarrow> valid_datetime (rt_now rt) \<and> dt_offset (rt_now rt) = 0"

lemma length_digits_rev:
  "n < 10 ^ w \<Longrightarrow> 0 < w \<Longrightarrow> length (digits_rev 10 n) \<le> w"
proof (induction w arbitrary: n)
  case (Suc w)
  show ?case
  proof (cases "n < 10")
    case True
    then show ?thesis by (subst digits_rev.simps) simp
  next
    case False
    with Suc.prems have "0 < w" by (cases w) auto
    moreover from Suc.prems have "n div 10 < 10 ^ w" by (simp add: less_mult_imp_div_less)
    ultimately have "length (digits_rev 10 (n div 10)) \<le> w" by (rule Suc.IH [rotated])
    with False show ?thesis by (subst digits_rev.simps) simp
  qed
qed simp

lemma zero_pad_digits:
  assumes "n < 10 ^ w" and "0 < w"
  shows "length (zero_pad w n) = w" "list_all is_digit (zero_pad w n)"
    "digits_value 0 (map (\<lambda>c. c - 48) (zero_pad w n)) = n"
proof -
  let ?ds = "rev (digits_rev 10 n)"
  have zp: "zero_pad w n = map (\<lambda>d. 48 + d) (replicate (w - length ?ds) 0 @ ?ds)"
    by (simp add: zero_pad_def pad_left_def str_nat_def dec_digits_def)
  show "length (zero_pad w n) = w"
    using length_digits_rev [OF assms] by (simp add: zp)
  show "list_all is_digit (zero_pad w n)"
    using digits_rev_bound [of 10 n] by (auto simp: zp list_all_iff is_digit_def)
  show "digits_value 0 (map (\<lambda>c. c - 48) (zero_pad w n)) = n"
    by (simp add: zp comp_def digits_value_zeros digits_value_rev del: map_append)
qed

lemma take_digits_zero_pad:
  "n < 10 ^ w \<Longrightarrow> 0 < w \<Longrightarrow> take_digits w (zero_pad w n @ s) = Some (n, s)"
  using zero_pad_digits [of n w] by (simp add: take_digits_def)

lemma eat_u [simp]: "eat c (u (x # xs) @ s) = (if of_char x = c then Some (u xs @ s) else None)"
  by (simp add: u_def)

lemma u_Nil [simp]: "u [] = []"
  by (simp add: u_def)

lemma take_fraction_micro:
  assumes "n < 10 ^ 6"
  shows "take_fraction (u ''.'' @ zero_pad 6 n @ u ''Z'') = Some (n, u ''Z'')"
proof -
  note z = zero_pad_digits [OF assms]
  have "takeWhile is_digit (zero_pad 6 n @ u ''Z'') = zero_pad 6 n"
    using z(2) by (simp add: takeWhile_append list_all_iff u_def is_digit_def)
  with z show ?thesis by (simp add: take_fraction_def Let_def)
qed

text \<open>The part of a timestamp up to the seconds is read back, whatever follows.\<close>

definition date_time_text :: "datetime \<Rightarrow> pystr" where
  "date_time_text d =
     zero_pad 4 (dt_year d) @ u ''-'' @ zero_pad 2 (dt_month d) @ u ''-'' @ zero_pad 2 (dt_day d) @
     u ''T'' @ zero_pad 2 (dt_hour d) @ u '':'' @ zero_pad 2 (dt_minute d) @ u '':'' @
     zero_pad 2 (dt_second d)"

lemma parse_date_time_text:
  assumes v: "valid_datetime d" and off: "dt_offset d = 0"
    and rest: "take_fraction s = Some (dt_microsecond d, u ''Z'')"
  shows "parse_rfc3339 (date_time_text d @ s) = Some d"
proof -
  from v have b: "dt_year d < 10 ^ 4" "dt_month d < 10 ^ 2" "dt_hour d < 10 ^ 2"
    "dt_minute d < 10 ^ 2" "dt_second d < 10 ^ 2"
    by (auto simp: valid_datetime_def)
  from v have day: "dt_day d < 10 ^ 2"
    by (auto simp: valid_datetime_def days_in_month_def split: if_splits)
  have r: "\<lparr>dt_year = dt_year d, dt_month = dt_month d, dt_day = dt_day d, dt_hour = dt_hour d,
      dt_minute = dt_minute d, dt_second = dt_second d, dt_microsecond = dt_microsecond d,
      dt_offset = 0\<rparr> = d"
    by (rule datetime.equality) (simp_all add: off)
  note td = take_digits_zero_pad [OF b(1)] take_digits_zero_pad [OF b(2)]
    take_digits_zero_pad [OF day] take_digits_zero_pad [OF b(3)]
    take_digits_zero_pad [OF b(4)] take_digits_zero_pad [OF b(5)]
  show ?thesis
    using v by (simp add: parse_rfc3339_def date_time_text_def Let_def td rest take_offset_def r)
qed

theorem parse_utc_timestamp:
  assumes "valid_clock rt"
  shows "parse_rfc3339 (utc_timestamp rt) = Some (rt_now rt)"
proof -
  have v: "valid_datetime (rt_now rt)" and off: "dt_offset (rt_now rt) = 0"
    using assms by (auto simp: valid_clock_def)
  then have "dt_microsecond (rt_now rt) < 10 ^ 6" by (simp add: valid_datetime_def)
  from parse_date_time_text [OF v off take_fraction_micro [OF this]] show ?thesis
    by (simp add: date_time_text_def utc_timestamp_def Let_def)
qed

end
