(* ===== verification/Models.thy ===== *)
theory Models
  imports Timestamps
begin

text \<open>
  The data model of \<^verbatim>\<open>models.py\<close>: one record per frozen dataclass, with the annotated type of
  every field and its order. A field that is a \<^verbatim>\<open>Literal\<close> is a string, because Python does
  not enforce the annotation and the program checks it where a record enters; a field of type
  \<^verbatim>\<open>X | None\<close> is an option; a tuple or list is a list; \<^verbatim>\<open>dict[str, object]\<close> is a dynamic
  dictionary. Field names carry a prefix per record, since HOL field names are global.
\<close>

record MemoryContext =
  mc_mode :: pystr
  mc_repo :: pystr
  mc_commit_sha :: pystr
  mc_branch :: "pystr option"
  mc_prompt_version :: "pystr option"
  mc_prompt_family :: "pystr option"
  mc_tool :: "pystr option"
  mc_tool_schema_version :: "pystr option"
  mc_model :: "pystr option"
  mc_model_family :: "pystr option"
  mc_eval_suite :: "pystr option"
  mc_task_type :: "pystr option"
  mc_failure_type :: "pystr option"
  mc_tenant :: "pystr option"
  mc_input_hash :: "pystr option"

record Trace =
  tr_trace_id :: pystr
  tr_run_id :: pystr
  tr_commit_sha :: pystr
  tr_repo :: "pystr option"
  tr_tenant :: "pystr option"
  tr_branch :: "pystr option"
  tr_dirty :: bool
  tr_prompt_version :: "pystr option"
  tr_prompt_family :: "pystr option"
  tr_tool_schema_version :: "pystr option"
  tr_model :: "pystr option"
  tr_eval_suite :: "pystr option"
  tr_input_hash :: "pystr option"
  tr_output_hash :: "pystr option"
  tr_retrieved_context :: "pydict list"
  tr_tool_calls :: "pydict list"
  tr_tool_outputs :: "pydict list"
  tr_eval_result :: pystr
  tr_latency_ms :: "int option"
  tr_cost_usd :: "pynum option"
  tr_error :: "pystr option"
  tr_trace_uri :: "pystr option"
  tr_created_at :: "pystr option"

record CommitAncestryEvidence =
  ca_current_commit_sha :: pystr
  ca_commit_relations :: "(pystr \<times> bool) list"

record FailureCase =
  fc_case_id :: pystr
  fc_source_trace_id :: pystr
  fc_commit_sha :: pystr
  fc_failure_type :: pystr
  fc_symptom :: pystr
  fc_root_cause :: "pystr option"
  fc_fix :: "pystr option"
  fc_fix_commit_sha :: "pystr option"
  fc_regression_passed :: bool
  fc_reviewed_by :: "pystr option"
  fc_review_notes :: "pystr option"
  fc_reviewed_at :: "pystr option"
  fc_status :: pystr
  fc_created_at :: "pystr option"

record Lesson =
  ls_lesson_id :: pystr
  ls_source_case_id :: pystr
  ls_lesson_text :: pystr
  ls_memory_type :: pystr
  ls_scope :: "(pystr, pystr) dict"
  ls_confidence :: pynum
  ls_sensitive :: bool
  ls_eval_leaking :: bool
  ls_status :: pystr
  ls_created_at :: "pystr option"

record ProjectPolicy =
  pp_policy_id :: pystr
  pp_policy_text :: pystr
  pp_scope :: "(pystr, pystr) dict"
  pp_confidence :: pynum
  pp_sensitive :: bool
  pp_eval_leaking :: bool
  pp_status :: pystr
  pp_created_at :: "pystr option"

record MemoryObsolescenceRequest =
  ob_memory_kind :: pystr
  ob_memory_id :: pystr

record MemoryItem =
  mi_memory_id :: pystr
  mi_status :: pystr
  mi_memory_type :: pystr
  mi_scope :: "(pystr, pystr) dict"
  mi_text :: pystr
  mi_source_trace_id :: "pystr option"
  mi_source_case_id :: "pystr option"
  mi_confidence :: pynum
  mi_sensitive :: bool
  mi_eval_leaking :: bool
  mi_source_policy_id :: "pystr option"
  mi_source_eval_suite :: "pystr option"
  mi_source_input_hash :: "pystr option"
  mi_full_text :: "pystr option"

record MemoryDecision =
  md_use_memory :: bool
  md_allowed_memory_ids :: "pystr list"
  md_blocked_memory_ids :: "pystr list"
  md_reason :: pystr
  md_risk :: pystr
  md_recommended_injection :: pystr

text \<open>The token of the store that made a request is an object identity: a number.\<close>

record MemoryGateRequest =
  gr_request_id :: pystr
  gr_context :: MemoryContext
  gr_candidate_memory_ids :: "pystr list"
  gr_system_allowed_memory_ids :: "pystr list"
  gr_system_blocked :: "(pystr \<times> pystr) list"
  gr_prompt :: pystr
  gr_store_token :: nat
  gr_trace_id :: "pystr option"
  gr_run_id :: "pystr option"

text \<open>\<^verbatim>\<open>==\<close> on requests: the token is declared with \<^verbatim>\<open>compare=False\<close>.\<close>

definition gate_request_eq :: "MemoryGateRequest \<Rightarrow> MemoryGateRequest \<Rightarrow> bool" where
  "gate_request_eq a b \<longleftrightarrow>
     gr_request_id a = gr_request_id b \<and> gr_context a = gr_context b \<and>
     gr_candidate_memory_ids a = gr_candidate_memory_ids b \<and>
     gr_system_allowed_memory_ids a = gr_system_allowed_memory_ids b \<and>
     gr_system_blocked a = gr_system_blocked b \<and> gr_prompt a = gr_prompt b \<and>
     gr_trace_id a = gr_trace_id b \<and> gr_run_id a = gr_run_id b"

record GatedMemoryResult =
  gm_request_id :: pystr
  gm_trace_id :: pystr
  gm_decision_id :: pystr
  gm_use_memory :: bool
  gm_allowed_memory_ids :: "pystr list"
  gm_blocked_memory_ids :: "pystr list"
  gm_reason :: pystr
  gm_risk :: pystr
  gm_recommended_injection :: pystr
  gm_snippet :: pystr

record MemoryUsageLog =
  ul_decision_id :: pystr
  ul_run_id :: pystr
  ul_mode :: pystr
  ul_candidate_memory_ids :: "pystr list"
  ul_used_memory_ids :: "pystr list"
  ul_blocked_memory_ids :: "pystr list"
  ul_reason :: pystr
  ul_risk :: pystr
  ul_recommended_injection :: pystr
  ul_eval_result :: "pystr option"
  ul_memory_caused_failure :: bool
  ul_trace_id :: "pystr option"
  ul_context :: "(pystr, pystr) dict"
  ul_candidate_memory_statuses :: "(pystr, pystr) dict"
  ul_system_blocked_reasons :: "(pystr, pystr) dict"
  ul_created_at :: "pystr option"
  ul_request_id :: "pystr option"

record MemoryRunMeasurement =
  mm_eval_result :: pystr
  mm_memory_caused_failure :: bool
  mm_output_hash :: "pystr option"
  mm_tool_outputs :: "pydict list option"
  mm_latency_ms :: "int option"
  mm_cost_usd :: "pynum option"
  mm_error :: "pystr option"
  mm_trace_uri :: "pystr option"

record MemoryRunResult =
  rr_decision_id :: pystr
  rr_eval_result :: pystr
  rr_memory_caused_failure :: bool
  rr_output_hash :: "pystr option"
  rr_tool_outputs :: "pydict list option"
  rr_latency_ms :: "int option"
  rr_cost_usd :: "pynum option"
  rr_error :: "pystr option"
  rr_trace_uri :: "pystr option"

record MemoryRunCompletion =
  rc_trace :: Trace
  rc_usage_log :: MemoryUsageLog

record MemoryRunAudit =
  ra_decision_id :: pystr
  ra_trace_id :: pystr
  ra_run_id :: pystr
  ra_status :: pystr
  ra_trace_eval_result :: pystr
  ra_decision_eval_result :: "pystr option"
  ra_memory_caused_failure :: bool

record MemoryRunRemediation =
  re_decision_id :: pystr
  re_trace_id :: pystr
  re_run_id :: pystr
  re_status :: pystr
  re_action :: pystr
  re_trace_eval_result :: pystr
  re_decision_eval_result :: "pystr option"
  re_memory_caused_failure :: bool
  re_resolved_eval_result :: "pystr option"
  re_resolved_memory_caused_failure :: "bool option"

record MemoryRunMetrics =
  rm_decision_count :: nat
  rm_pending_count :: nat
  rm_trace_only_count :: nat
  rm_decision_only_count :: nat
  rm_complete_count :: nat
  rm_conflict_count :: nat
  rm_recoverable_count :: nat
  rm_auto_recoverable_count :: nat
  rm_attribution_required_count :: nat

text \<open>Truth value of an optional string: \<^verbatim>\<open>None\<close> and the empty string are false.\<close>

definition truthy :: "pystr option \<Rightarrow> bool" where
  "truthy s \<longleftrightarrow> s \<noteq> None \<and> s \<noteq> Some []"

text \<open>\<^verbatim>\<open>a or b\<close> on optional strings.\<close>

definition str_or :: "pystr option \<Rightarrow> pystr option \<Rightarrow> pystr option" where
  "str_or a b = (if truthy a then a else b)"

lemma truthy_simps [simp]: "\<not> truthy None" "truthy (Some s) \<longleftrightarrow> s \<noteq> []"
  by (auto simp: truthy_def)

end
