(* ===== verification/Policy.thy ===== *)
theory Policy
  imports Models
begin

text \<open>
  The gates of \<^verbatim>\<open>policy.py\<close>: the deterministic System Gate (\<open>blocked_reason\<close>,
  \<open>system_gate\<close>), the prompt for the semantic gate and the parser of its answer, the
  combination of both (\<open>apply_llm_gate_decision\<close>) and the rendering of the memories that
  passed (\<open>build_injection_snippet\<close>). A function that returns an error message or
  \<^verbatim>\<open>None\<close> is an option; one that raises returns a result. Where the source iterates over a
  Python set of field names, whose order is not determined, the model takes the order in which
  the source lists them: it can only change which of several messages is reported.
\<close>

section \<open>Vocabulary\<close>

definition CONTEXT_MODES :: "pystr list" where
  "CONTEXT_MODES = [u ''debug'', u ''repair'', u ''regression'', u ''planning'', u ''eval'', u ''production'']"

definition CONTEXT_REQUIRED_FIELDS :: "pystr list" where
  "CONTEXT_REQUIRED_FIELDS = [u ''mode'', u ''repo'', u ''commit_sha'']"

definition CONTEXT_STRING_FIELDS :: "pystr list" where
  "CONTEXT_STRING_FIELDS =
     [u ''mode'', u ''repo'', u ''tenant'', u ''branch'', u ''commit_sha'', u ''prompt_version'',
      u ''prompt_family'', u ''tool'', u ''tool_schema_version'', u ''model'', u ''model_family'',
      u ''eval_suite'', u ''task_type'', u ''failure_type'', u ''input_hash'']"

definition ALLOWED_STATUSES :: "pystr list" where
  "ALLOWED_STATUSES = [u ''active'', u ''verified'']"

definition ALLOWED_MEMORY_TYPES :: "pystr list" where
  "ALLOWED_MEMORY_TYPES = [u ''procedural'', u ''semantic'', u ''episodic'', u ''policy'']"

definition PRODUCTION_ALLOWED_TYPES :: "pystr list" where
  "PRODUCTION_ALLOWED_TYPES = [u ''procedural'', u ''policy'']"

definition EVAL_ALLOWED_TYPES :: "pystr list" where
  "EVAL_ALLOWED_TYPES = [u ''policy'']"

definition DECISION_RISKS :: "pystr list" where
  "DECISION_RISKS = [u ''none'', u ''low'', u ''medium'', u ''high'']"

definition RECOMMENDED_INJECTIONS :: "pystr list" where
  "RECOMMENDED_INJECTIONS = [u ''none'', u ''short_summary'', u ''full_case_summary'', u ''pointer_only'']"

abbreviation "INJECTION_TEXT_MAX_CHARS \<equiv> (500 :: nat)"
abbreviation "FULL_CASE_INJECTION_TEXT_MAX_CHARS \<equiv> (2000 :: nat)"
abbreviation "MEMORY_ID_MAX_CHARS \<equiv> (128 :: nat)"
abbreviation "METADATA_VALUE_MAX_CHARS \<equiv> (512 :: nat)"
abbreviation "LLM_GATE_MAX_CANDIDATES \<equiv> (50 :: nat)"
abbreviation "LLM_GATE_PROMPT_MAX_CHARS \<equiv> (32000 :: nat)"
abbreviation "LLM_GATE_RESPONSE_MAX_BYTES \<equiv> (65536 :: nat)"
abbreviation "LLM_GATE_RESPONSE_MAX_NODES \<equiv> (1000 :: nat)"
abbreviation "LLM_GATE_RESPONSE_MAX_DEPTH \<equiv> (20 :: nat)"
abbreviation "MEMORY_DECISION_REASON_MAX_CHARS \<equiv> (2000 :: nat)"
abbreviation "MEMORY_TEXT_MAX_CHARS \<equiv> (32000 :: nat)"
abbreviation "INJECTION_MAX_MEMORIES \<equiv> (20 :: nat)"
abbreviation "INJECTION_SNIPPET_MAX_CHARS \<equiv> (12000 :: nat)"

definition DECISION_REQUIRED_FIELDS :: "pystr list" where
  "DECISION_REQUIRED_FIELDS =
     [u ''use_memory'', u ''allowed_memory_ids'', u ''blocked_memory_ids'', u ''reason'', u ''risk'',
      u ''recommended_injection'']"

lemmas policy_constants =
  CONTEXT_MODES_def CONTEXT_REQUIRED_FIELDS_def CONTEXT_STRING_FIELDS_def ALLOWED_STATUSES_def
  ALLOWED_MEMORY_TYPES_def PRODUCTION_ALLOWED_TYPES_def EVAL_ALLOWED_TYPES_def DECISION_RISKS_def
  RECOMMENDED_INJECTIONS_def DECISION_REQUIRED_FIELDS_def

definition err_if :: "bool \<Rightarrow> pystr \<Rightarrow> pystr option" where
  "err_if b m = (if b then Some m else None)"

lemma err_if_None_iff [simp]: "err_if b m = None \<longleftrightarrow> \<not> b"
  by (simp add: err_if_def)

lemma err_if_simps [simp]: "err_if True m = Some m" "err_if False m = None"
  by (simp_all add: err_if_def)

definition at_most :: "pystr \<Rightarrow> nat \<Rightarrow> pystr" where
  "at_most name n = name @ u '' must be at most '' @ str_nat n @ u '' characters''"

section \<open>System Gate\<close>

fun is_finite_number :: "pynum \<Rightarrow> bool" where
  "is_finite_number (PyInt n) = True"
| "is_finite_number (PyFloat q) = True"
| "is_finite_number _ = False"

text \<open>\<^verbatim>\<open>str(value)\<close> of an integer raises beyond the digit limit of the interpreter.\<close>

definition int_fits :: "runtime \<Rightarrow> int \<Rightarrow> bool" where
  "int_fits rt n \<longleftrightarrow>
     rt_max_str_digits rt = 0 \<or> length (dec_digits (nat \<bar>n\<bar>)) \<le> rt_max_str_digits rt"

definition json_number_ok :: "runtime \<Rightarrow> pynum \<Rightarrow> bool" where
  "json_number_ok rt n \<longleftrightarrow> (case n of PyInt k \<Rightarrow> int_fits rt k | _ \<Rightarrow> is_finite_number n)"

text \<open>\<^verbatim>\<open>lo < value <= hi\<close> for a finite number.\<close>

definition num_between :: "rat \<Rightarrow> pynum \<Rightarrow> rat \<Rightarrow> bool" where
  "num_between lo n hi = (case num_value n of Some q \<Rightarrow> lo < q \<and> q \<le> hi | None \<Rightarrow> False)"

definition scope_context_values :: "MemoryContext \<Rightarrow> (pystr, pystr option) dict" where
  "scope_context_values context =
     [(u ''repo'', Some (mc_repo context)), (u ''tenant'', mc_tenant context),
      (u ''branch'', mc_branch context), (u ''prompt_version'', mc_prompt_version context),
      (u ''prompt_family'', mc_prompt_family context), (u ''tool'', mc_tool context),
      (u ''tool_schema_version'', mc_tool_schema_version context), (u ''model'', mc_model context),
      (u ''model_family'', mc_model_family context), (u ''eval_suite'', mc_eval_suite context),
      (u ''task_type'', mc_task_type context), (u ''failure_type'', mc_failure_type context)]"

text \<open>\<^verbatim>\<open>context_values.get(key)\<close>: \<^verbatim>\<open>None\<close> for an unknown key and for a field that is unset.\<close>

definition context_value :: "(pystr, pystr option) dict \<Rightarrow> pystr \<Rightarrow> pystr option" where
  "context_value values key = (case dict_get values key of Some v \<Rightarrow> v | None \<Rightarrow> None)"

definition scope_matches :: "MemoryContext \<Rightarrow> MemoryItem \<Rightarrow> bool" where
  "scope_matches context memory \<longleftrightarrow>
     mi_scope memory \<noteq> [] \<and>
     list_all (\<lambda>(key, value). context_value (scope_context_values context) key = Some value)
       (mi_scope memory)"

definition scope_field_error :: "runtime \<Rightarrow> pystr \<times> pystr \<Rightarrow> pystr option" where
  "scope_field_error rt kv =
     (let key = fst kv; value = snd kv; field = u ''scope field '' @ py_repr rt key in
      first_error
        [err_if (key \<notin> set CONTEXT_STRING_FIELDS \<or> key \<in> {u ''mode'', u ''commit_sha'', u ''input_hash''})
           (field @ u '' is not allowed''),
         err_if (blank value) (field @ u '' must be a non-empty string''),
         err_if (METADATA_VALUE_MAX_CHARS < length value) (at_most field METADATA_VALUE_MAX_CHARS)])"

definition source_identity_error :: "pystr \<times> pystr option \<Rightarrow> pystr option" where
  "source_identity_error nv =
     (case snd nv of
        None \<Rightarrow> None
      | Some value \<Rightarrow>
          first_error
            [err_if (value = []) (fst nv @ u '' must be a non-empty string''),
             err_if (METADATA_VALUE_MAX_CHARS < length value) (at_most (fst nv) METADATA_VALUE_MAX_CHARS)])"

definition source_id_error :: "pystr option \<Rightarrow> pystr option" where
  "source_id_error source =
     (case source of
        None \<Rightarrow> None
      | Some value \<Rightarrow>
          first_error
            [err_if (value = []) (u ''source identifiers must be non-empty strings''),
             err_if (MEMORY_ID_MAX_CHARS < length value)
               (at_most (u ''source identifiers'') MEMORY_ID_MAX_CHARS)])"

definition memory_item_contract_error :: "runtime \<Rightarrow> MemoryItem \<Rightarrow> pystr option" where
  "memory_item_contract_error rt memory =
     first_error
       ([err_if (blank (mi_memory_id memory)) (u ''memory_id must be a non-empty string''),
         err_if (MEMORY_ID_MAX_CHARS < length (mi_memory_id memory))
           (at_most (u ''memory_id'') MEMORY_ID_MAX_CHARS),
         (case mi_full_text memory of
            None \<Rightarrow> None
          | Some t \<Rightarrow> err_if (blank t) (u ''full_text must be a non-empty string or None''))]
        @ map (scope_field_error rt) (mi_scope memory)
        @ map source_identity_error
            [(u ''source_eval_suite'', mi_source_eval_suite memory),
             (u ''source_input_hash'', mi_source_input_hash memory)]
        @ [err_if ((mi_source_eval_suite memory = None) \<noteq> (mi_source_input_hash memory = None))
             (u ''source_eval_suite and source_input_hash must be provided together'')]
        @ map source_id_error
            [mi_source_case_id memory, mi_source_trace_id memory, mi_source_policy_id memory]
        @ [err_if (\<not> is_finite_number (mi_confidence memory) \<or> \<not> num_between 0 (mi_confidence memory) 1)
             (u ''confidence must be greater than 0.0 and at most 1.0'')])"

definition context_required :: "MemoryContext \<Rightarrow> (pystr \<times> pystr) list" where
  "context_required context =
     [(u ''mode'', mc_mode context), (u ''repo'', mc_repo context),
      (u ''commit_sha'', mc_commit_sha context)]"

definition context_optional :: "MemoryContext \<Rightarrow> (pystr \<times> pystr option) list" where
  "context_optional context =
     [(u ''tenant'', mc_tenant context), (u ''branch'', mc_branch context),
      (u ''prompt_version'', mc_prompt_version context),
      (u ''prompt_family'', mc_prompt_family context), (u ''tool'', mc_tool context),
      (u ''tool_schema_version'', mc_tool_schema_version context), (u ''model'', mc_model context),
      (u ''model_family'', mc_model_family context), (u ''eval_suite'', mc_eval_suite context),
      (u ''task_type'', mc_task_type context), (u ''failure_type'', mc_failure_type context),
      (u ''input_hash'', mc_input_hash context)]"

definition context_field_error :: "pystr \<Rightarrow> pystr \<Rightarrow> pystr option" where
  "context_field_error name value =
     first_error
       [err_if (blank value) (u ''context '' @ name @ u '' must be a non-empty string''),
        err_if (METADATA_VALUE_MAX_CHARS < length value)
          (at_most (u ''context '' @ name) METADATA_VALUE_MAX_CHARS)]"

definition context_contract_error :: "MemoryContext \<Rightarrow> pystr option" where
  "context_contract_error context =
     first_error
       (map (\<lambda>(name, value). context_field_error name value) (context_required context)
        @ map (\<lambda>(name, value). case value of None \<Rightarrow> None | Some v \<Rightarrow> context_field_error name v)
            (context_optional context)
        @ [err_if (mc_mode context \<notin> set CONTEXT_MODES)
             (u ''context mode must be one of: debug, eval, planning, production, regression, repair''),
           err_if (mc_input_hash context \<noteq> None \<and> mc_eval_suite context = None)
             (u ''context input_hash requires eval_suite'')])"

definition is_current_benchmark_example :: "MemoryContext \<Rightarrow> MemoryItem \<Rightarrow> bool" where
  "is_current_benchmark_example context memory \<longleftrightarrow>
     mc_eval_suite context \<noteq> None \<and> mc_input_hash context \<noteq> None \<and>
     mi_source_eval_suite memory \<noteq> None \<and> mi_source_input_hash memory \<noteq> None \<and>
     mc_eval_suite context = mi_source_eval_suite memory \<and>
     mc_input_hash context = mi_source_input_hash memory"

definition has_source :: "MemoryItem \<Rightarrow> bool" where
  "has_source memory \<longleftrightarrow>
     truthy (mi_source_case_id memory) \<or> truthy (mi_source_trace_id memory) \<or>
     truthy (mi_source_policy_id memory)"

definition blocked_reason :: "runtime \<Rightarrow> MemoryContext \<Rightarrow> MemoryItem \<Rightarrow> pystr option" where
  "blocked_reason rt context memory =
     first_error
       [context_contract_error context,
        memory_item_contract_error rt memory,
        err_if (mi_status memory \<notin> set ALLOWED_STATUSES)
          (u ''status '' @ py_repr rt (mi_status memory) @ u '' is not allowed''),
        err_if (mi_memory_type memory \<notin> set ALLOWED_MEMORY_TYPES)
          (u ''memory_type '' @ py_repr rt (mi_memory_type memory) @ u '' is not allowed''),
        err_if (\<not> has_source memory) (u ''missing source_case_id, source_trace_id, or source_policy_id''),
        err_if (mi_sensitive memory) (u ''memory is marked sensitive''),
        err_if (mi_eval_leaking memory) (u ''memory may leak eval data''),
        err_if (is_current_benchmark_example context memory)
          (u ''memory originates from current benchmark example''),
        err_if (\<not> scope_matches context memory) (u ''scope does not match current context''),
        err_if (mc_mode context = u ''eval'' \<and> mi_memory_type memory \<notin> set EVAL_ALLOWED_TYPES)
          (u ''eval mode only allows policy memory''),
        err_if (mc_mode context = u ''production'' \<and> mi_memory_type memory \<notin> set PRODUCTION_ALLOWED_TYPES)
          (u ''production mode only allows procedural or policy memory'')]"

definition validate_memory_context :: "MemoryContext \<Rightarrow> py_error option" where
  "validate_memory_context context = map_option ValueError (context_contract_error context)"

definition validated_memory_collection ::
  "runtime \<Rightarrow> MemoryItem list \<Rightarrow> pystr \<Rightarrow> bool \<Rightarrow> py_error option" where
  "validated_memory_collection rt value field_name require_valid_contract =
     first_error
       (map (\<lambda>memory. first_error
          [raise_if (mi_memory_id memory = []) (u ''memory_id must be a non-empty string''),
           raise_if (MEMORY_ID_MAX_CHARS < length (mi_memory_id memory))
             (at_most (u ''memory_id'') MEMORY_ID_MAX_CHARS),
           (if require_valid_contract
            then map_option (\<lambda>e. ValueError (field_name @ u '' memory '' @ py_repr rt (mi_memory_id memory) @
                   u '' is invalid: '' @ e)) (memory_item_contract_error rt memory)
            else None)]) value
        @ [raise_if (\<not> distinct (map mi_memory_id value))
             (field_name @ u '' must not contain duplicate memory IDs'')])"

fun gate_loop ::
  "runtime \<Rightarrow> MemoryContext \<Rightarrow> MemoryItem list \<Rightarrow> (pystr, pystr) dict \<Rightarrow> MemoryItem list \<Rightarrow>
   MemoryItem list \<times> (pystr, pystr) dict" where
  "gate_loop rt context allowed blocked [] = (allowed, blocked)"
| "gate_loop rt context allowed blocked (memory # rest) =
     (case blocked_reason rt context memory of
        None \<Rightarrow> gate_loop rt context (allowed @ [memory]) blocked rest
      | Some reason \<Rightarrow>
          gate_loop rt context allowed (dict_set (mi_memory_id memory) reason blocked) rest)"

definition system_gate ::
  "runtime \<Rightarrow> MemoryContext \<Rightarrow> MemoryItem list \<Rightarrow> (MemoryItem list \<times> (pystr, pystr) dict) result" where
  "system_gate rt context candidates =
     or_raise (validate_memory_context context)
      (or_raise (validated_memory_collection rt candidates (u ''candidates'') False)
        (Inr (gate_loop rt context [] [] candidates)))"

end
