(* ===== verification/Decision.thy ===== *)
theory Decision
  imports Policy
begin

text \<open>
  The semantic gate of \<^verbatim>\<open>policy.py\<close>: the prompt that asks for a decision, the checks on a
  decision, its combination with the System Gate and the snippet that is injected.
\<close>

section \<open>Checks on a decision\<close>

text \<open>
  \<^verbatim>\<open>_string_list\<close> receives the list of a decision record or a decoded value of any type.
\<close>

definition is_str :: "pyval \<Rightarrow> bool" where
  "is_str v = (case v of PStr _ \<Rightarrow> True | _ \<Rightarrow> False)"

fun str_of :: "pyval \<Rightarrow> pystr" where
  "str_of (PStr s) = s"
| "str_of _ = []"

definition string_list :: "pyval \<Rightarrow> pystr \<Rightarrow> nat option \<Rightarrow> pystr list result" where
  "string_list value field_name max_items =
     (case value of
        PList items \<Rightarrow>
          or_raise
            (first_error
              [(case max_items of
                  None \<Rightarrow> None
                | Some n \<Rightarrow> raise_if (n < length items)
                    (field_name @ u '' accepts at most '' @ str_nat n @ u '' memory IDs'')),
               raise_if (\<not> list_all (\<lambda>v. is_str v \<and> v \<noteq> PStr []) items)
                 (field_name @ u '' must be a list of non-empty strings''),
               raise_if (list_ex (\<lambda>v. MEMORY_ID_MAX_CHARS < length (str_of v)) items)
                 (at_most (field_name @ u '' entries'') MEMORY_ID_MAX_CHARS),
               raise_if (\<not> distinct (map str_of items))
                 (field_name @ u '' must not contain duplicate memory IDs'')])
            (Inr (map str_of items))
      | _ \<Rightarrow> Inl (ValueError (field_name @ u '' must be a list of non-empty strings'')))"

definition reason_error :: "pystr \<Rightarrow> py_error option" where
  "reason_error reason =
     first_error
       [raise_if (blank reason) (u ''reason must be nonblank''),
        raise_if (MEMORY_DECISION_REASON_MAX_CHARS < length reason)
          (at_most (u ''reason'') MEMORY_DECISION_REASON_MAX_CHARS)]"

definition risk_error :: "pystr \<Rightarrow> py_error option" where
  "risk_error risk =
     raise_if (risk \<notin> set DECISION_RISKS) (u ''risk must be one of: high, low, medium, none'')"

definition injection_error :: "pystr \<Rightarrow> py_error option" where
  "injection_error mode =
     raise_if (mode \<notin> set RECOMMENDED_INJECTIONS)
       (u ''recommended_injection must be one of: full_case_summary, none, pointer_only, short_summary'')"

definition validated_decision_fields ::
  "MemoryDecision \<Rightarrow> nat option \<Rightarrow> (pystr list \<times> pystr list) result" where
  "validated_decision_fields decision max_memory_ids =
     rbind (string_list (PList (map PStr (md_allowed_memory_ids decision)))
              (u ''allowed_memory_ids'') max_memory_ids) (\<lambda>allowed.
     rbind (string_list (PList (map PStr (md_blocked_memory_ids decision)))
              (u ''blocked_memory_ids'') max_memory_ids) (\<lambda>blocked.
     or_raise (reason_error (md_reason decision))
      (or_raise (risk_error (md_risk decision))
        (or_raise (injection_error (md_recommended_injection decision))
          (Inr (allowed, blocked))))))"

definition memory_decision_consistency_error :: "bool \<Rightarrow> pystr list \<Rightarrow> pystr \<Rightarrow> pystr option" where
  "memory_decision_consistency_error use_memory allowed_memory_ids recommended_injection =
     (if use_memory
      then first_error
        [err_if (allowed_memory_ids = []) (u ''use_memory requires at least one allowed_memory_ids entry''),
         err_if (recommended_injection = u ''none'')
           (u ''recommended_injection cannot be 'none' when use_memory is true'')]
      else first_error
        [err_if (allowed_memory_ids \<noteq> []) (u ''use_memory false requires empty allowed_memory_ids''),
         err_if (recommended_injection \<noteq> u ''none'')
           (u ''recommended_injection must be 'none' when use_memory is false'')])"

definition validated_string_mapping :: "(pystr, pystr) dict \<Rightarrow> pystr \<Rightarrow> py_error option" where
  "validated_string_mapping value field_name =
     raise_if
       (list_ex (\<lambda>(key, reason). key = [] \<or> MEMORY_ID_MAX_CHARS < length key \<or> reason = []) value)
       (field_name @ u '' must map non-empty string IDs to non-empty strings'')"

section \<open>Combining both gates\<close>

definition apply_llm_gate_decision ::
  "runtime \<Rightarrow> MemoryItem list \<Rightarrow> (pystr, pystr) dict \<Rightarrow> MemoryDecision \<Rightarrow>
   (MemoryItem list \<times> MemoryDecision) result" where
  "apply_llm_gate_decision rt system_allowed system_blocked decision =
     or_raise (validated_memory_collection rt system_allowed (u ''system_allowed'') True)
     (or_raise (validated_string_mapping system_blocked (u ''system_blocked''))
     (rbind (validated_decision_fields decision (Some LLM_GATE_MAX_CANDIDATES))
       (\<lambda>(allowed_memory_ids, blocked_memory_ids).
        let allowed_by_id = map (\<lambda>memory. (mi_memory_id memory, memory)) system_allowed;
            system_overlap = sort (filter (dict_has system_blocked) (dict_keys allowed_by_id))
        in if system_overlap \<noteq> []
           then Inl (ValueError (u ''memory IDs cannot be present in both system_allowed and system_blocked: '' @
                  join (u '', '') system_overlap))
           else
             let memory_requested = md_use_memory decision \<and> md_recommended_injection decision \<noteq> u ''none'';
                 requested_allowed_ids =
                   filter (\<lambda>i. i \<notin> set blocked_memory_ids)
                     (if memory_requested then allowed_memory_ids else []);
                 final_ids = filter (dict_has allowed_by_id) requested_allowed_ids;
                 use_memory = (memory_requested \<and> final_ids \<noteq> []);
                 final_allowed_ids = (if use_memory then final_ids else []);
                 final_allowed = List.map_filter (dict_get allowed_by_id) final_allowed_ids;
                 blocked_ids = add_new [] (dict_keys system_blocked @ blocked_memory_ids);
                 blocked_ids = add_new blocked_ids
                   (filter (\<lambda>i. \<not> dict_has allowed_by_id i) allowed_memory_ids);
                 blocked_ids = add_new blocked_ids
                   (filter (\<lambda>i. i \<notin> set final_allowed_ids) (dict_keys allowed_by_id))
             in Inr (final_allowed,
                  \<lparr>md_use_memory = use_memory,
                   md_allowed_memory_ids = final_allowed_ids,
                   md_blocked_memory_ids = blocked_ids,
                   md_reason = md_reason decision,
                   md_risk = md_risk decision,
                   md_recommended_injection =
                     (if use_memory then md_recommended_injection decision else u ''none'')\<rparr>))))"

section \<open>Text for the model\<close>

definition cap_injected_text :: "pystr \<Rightarrow> nat \<Rightarrow> pystr" where
  "cap_injected_text text max_chars =
     (if length text \<le> max_chars then text else rstrip (take (max_chars - 3) text) @ u ''...'')"

definition memory_source :: "MemoryItem \<Rightarrow> pystr" where
  "memory_source memory =
     (case str_or (mi_source_case_id memory)
             (str_or (mi_source_trace_id memory) (mi_source_policy_id memory)) of
        Some s \<Rightarrow> if s = [] then u ''unknown'' else s
      | None \<Rightarrow> u ''unknown'')"

definition scope_json :: "MemoryItem \<Rightarrow> pystr" where
  "scope_json memory = json_dumps_str_dict (sort_key fst (mi_scope memory))"

definition prompt_context_fields :: "MemoryContext \<Rightarrow> (pystr \<times> pystr option) list" where
  "prompt_context_fields context =
     [(u ''mode'', Some (mc_mode context)), (u ''repo'', Some (mc_repo context)),
      (u ''tenant'', mc_tenant context), (u ''branch'', mc_branch context),
      (u ''commit_sha'', Some (mc_commit_sha context)),
      (u ''prompt_version'', mc_prompt_version context),
      (u ''prompt_family'', mc_prompt_family context), (u ''tool'', mc_tool context),
      (u ''tool_schema_version'', mc_tool_schema_version context), (u ''model'', mc_model context),
      (u ''model_family'', mc_model_family context), (u ''eval_suite'', mc_eval_suite context),
      (u ''task_type'', mc_task_type context), (u ''failure_type'', mc_failure_type context)]"

definition prompt_memory_lines :: "runtime \<Rightarrow> MemoryItem \<Rightarrow> pystr list" where
  "prompt_memory_lines rt memory =
     [u ''- id: '' @ json_dumps_str (mi_memory_id memory),
      u ''  type: '' @ json_dumps_str (mi_memory_type memory),
      u ''  status: '' @ json_dumps_str (mi_status memory),
      u ''  scope: '' @ scope_json memory,
      u ''  source: '' @ json_dumps_str (memory_source memory),
      u ''  confidence: '' @ rt_format_number rt (mi_confidence memory),
      u ''  text: '' @ json_dumps_str (cap_injected_text (mi_text memory) INJECTION_TEXT_MAX_CHARS)]"

definition or_none_line :: "pystr list \<Rightarrow> pystr list" where
  "or_none_line ls = (if ls = [] then [u ''- none''] else ls)"

definition build_llm_gate_prompt ::
  "runtime \<Rightarrow> MemoryContext \<Rightarrow> MemoryItem list \<Rightarrow> pystr \<Rightarrow> pystr \<Rightarrow> pystr result" where
  "build_llm_gate_prompt rt context candidates task context_summary =
     or_raise (validate_memory_context context)
     (or_raise (validated_memory_collection rt candidates (u ''candidates'') False)
     (or_raise (raise_if (task = []) (u ''task must be a non-empty string''))
     (or_raise (raise_if (LLM_GATE_MAX_CANDIDATES < length candidates)
        (u ''LLM gate accepts at most '' @ str_nat LLM_GATE_MAX_CANDIDATES @ u '' candidates''))
     (rbind (system_gate rt context candidates) (\<lambda>(_, system_blocked).
      if system_blocked \<noteq> []
      then Inl (ValueError (u ''LLM gate candidates must pass System Gate: '' @
             join (u '', '') (map (\<lambda>(i, r). i @ u '': '' @ r) system_blocked)))
      else
        let context_lines =
              List.map_filter (\<lambda>(key, value). map_option (\<lambda>v. u ''- '' @ key @ u '': '' @ json_dumps_str v) value)
                (prompt_context_fields context);
            memory_lines =
              concat (map (prompt_memory_lines rt) (sort_key mi_memory_id candidates));
            prompt = join nl
              ([u ''You are deciding whether retrieved memory should be used for the current LLM/agent task.'',
                u '''', u ''Current task:'',
                json_dumps_str (cap_injected_text task INJECTION_TEXT_MAX_CHARS),
                u '''', u ''Current context:''] @
               or_none_line context_lines @
               [u '''', u ''Context summary:'',
                (if context_summary \<noteq> []
                 then json_dumps_str (cap_injected_text context_summary INJECTION_TEXT_MAX_CHARS)
                 else u ''none''),
                u '''', u ''Candidate memory:''] @
               or_none_line memory_lines @
               [u '''', u ''Rules:'',
                u ''1. Use memory only if it is directly relevant to the current task.'',
                u ''2. Do not use memory if it is obsolete, draft, low-confidence, or missing source.'',
                u ''3. Do not use memory if its scope does not match the current repo, tenant, tool, prompt family, model family, or eval suite.'',
                u ''4. Do not use memory if it may leak benchmark answers, evaluator reasoning, private user data, secrets, or sensitive tool output.'',
                u ''5. In eval mode, use only project policy, prompt contract, and tool schema policy.'',
                u ''6. In production mode, use only active, verified, scope-matched, short procedural memory.'',
                u '''',
                u ''Return only JSON with use_memory, allowed_memory_ids, blocked_memory_ids, reason, risk, and recommended_injection.''])
        in if LLM_GATE_PROMPT_MAX_CHARS < length prompt
           then Inl (ValueError (u ''LLM gate prompt exceeds '' @ str_nat LLM_GATE_PROMPT_MAX_CHARS @
                  u '' characters''))
           else Inr prompt)))))"

section \<open>Injection\<close>

definition snippet_guardrail_error :: "runtime \<Rightarrow> MemoryItem \<Rightarrow> pystr option" where
  "snippet_guardrail_error rt memory =
     first_error
       [memory_item_contract_error rt memory,
        err_if (mi_status memory \<notin> set ALLOWED_STATUSES)
          (u ''status '' @ py_repr rt (mi_status memory) @ u '' is not allowed''),
        err_if (mi_memory_type memory \<notin> set ALLOWED_MEMORY_TYPES)
          (u ''memory_type '' @ py_repr rt (mi_memory_type memory) @ u '' is not allowed''),
        err_if (\<not> has_source memory) (u ''missing source_case_id, source_trace_id, or source_policy_id''),
        err_if (mi_sensitive memory) (u ''memory is marked sensitive''),
        err_if (mi_eval_leaking memory) (u ''memory is marked eval_leaking'')]"

definition cannot_be_injected :: "runtime \<Rightarrow> MemoryItem \<Rightarrow> pystr \<Rightarrow> py_error" where
  "cannot_be_injected rt memory why =
     ValueError (u ''memory '' @ py_repr rt (mi_memory_id memory) @ u '' cannot be injected: '' @ why)"

definition validate_injection_inputs ::
  "runtime \<Rightarrow> MemoryItem list \<Rightarrow> MemoryDecision option \<Rightarrow> pystr option \<Rightarrow> py_error option" where
  "validate_injection_inputs rt memories decision requested_injection =
     first_error
       (map (\<lambda>memory. map_option (cannot_be_injected rt memory) (snippet_guardrail_error rt memory)) memories
        @ [case decision of
             None \<Rightarrow> raise_if (memories \<noteq> []) (u ''memory decision is required before injecting memory'')
           | Some decision \<Rightarrow>
               (case validated_decision_fields decision None of
                  Inl e \<Rightarrow> Some e
                | Inr (allowed_memory_ids, blocked_memory_ids) \<Rightarrow>
                    first_error
                      ([map_option ValueError
                          (memory_decision_consistency_error (md_use_memory decision) allowed_memory_ids
                             (md_recommended_injection decision)),
                        raise_if (requested_injection \<noteq> None \<and>
                            requested_injection \<noteq> Some (md_recommended_injection decision))
                          (u ''recommended_injection must match the memory decision'')]
                       @ (if \<not> md_use_memory decision
                          then [raise_if (memories \<noteq> []) (u ''memory decision does not allow injection'')]
                          else
                            [raise_if (\<not> distinct (map mi_memory_id memories))
                               (u ''injection memories must not contain duplicate memory IDs''),
                             raise_if (list_ex (\<lambda>i. i \<notin> set allowed_memory_ids) (map mi_memory_id memories))
                               (u ''injection memories must be listed in decision.allowed_memory_ids''),
                             raise_if (list_ex (\<lambda>i. i \<in> set blocked_memory_ids) (map mi_memory_id memories))
                               (u ''injection memories must not include decision.blocked_memory_ids'')])))])"

definition snippet_lines :: "pystr \<Rightarrow> nat \<times> MemoryItem \<Rightarrow> pystr list" where
  "snippet_lines injection_mode im =
     (let memory = snd im in
      [nl @ str_nat (fst im) @ u ''. [type: '' @ json_dumps_str (mi_memory_type memory) @ u ''][id: '' @
         json_dumps_str (mi_memory_id memory) @ u ''][source: '' @ json_dumps_str (memory_source memory) @
         u '']'',
       u ''Scope: '' @ scope_json memory] @
      (if injection_mode = u ''short_summary''
       then [u ''Rule: '' @ json_dumps_str (cap_injected_text (mi_text memory) INJECTION_TEXT_MAX_CHARS)]
       else if injection_mode = u ''full_case_summary''
       then [u ''Details: '' @ json_dumps_str (cap_injected_text
               (case mi_full_text memory of Some t \<Rightarrow> if t = [] then mi_text memory else t
                | None \<Rightarrow> mi_text memory)
               FULL_CASE_INJECTION_TEXT_MAX_CHARS)]
       else []))"

definition benchmark_errors ::
  "runtime \<Rightarrow> MemoryItem list \<Rightarrow> MemoryContext option \<Rightarrow> py_error option" where
  "benchmark_errors rt memories context =
     (if list_ex (\<lambda>m. mi_source_eval_suite m \<noteq> None) memories
      then (case context of
              None \<Rightarrow> Some (ValueError (u ''context is required for benchmark source identity''))
            | Some context \<Rightarrow>
                first_error (validate_memory_context context #
                  map (\<lambda>m. if is_current_benchmark_example context m
                        then Some (cannot_be_injected rt m (u ''memory originates from current benchmark example''))
                        else None) memories))
      else None)"

definition build_injection_snippet ::
  "runtime \<Rightarrow> MemoryItem list \<Rightarrow> pystr option \<Rightarrow> MemoryDecision option \<Rightarrow> MemoryContext option \<Rightarrow>
   pystr result" where
  "build_injection_snippet rt memories recommended_injection decision context =
     or_raise (validated_memory_collection rt memories (u ''memories'') True)
     (or_raise (raise_if (INJECTION_MAX_MEMORIES < length memories)
        (u ''injection accepts at most '' @ str_nat INJECTION_MAX_MEMORIES @ u '' memories''))
     (let injection_mode =
            (case recommended_injection of
               Some m \<Rightarrow> m
             | None \<Rightarrow> (case decision of Some d \<Rightarrow> md_recommended_injection d
                        | None \<Rightarrow> u ''short_summary''))
      in or_raise (injection_error injection_mode)
         (or_raise (validate_injection_inputs rt memories decision recommended_injection)
         (or_raise (benchmark_errors rt memories context)
         (if injection_mode = u ''none'' \<or> memories = [] then Inr []
          else
            let snippet = join nl
                  (u ''Relevant verified memory:'' #
                   concat (map (snippet_lines injection_mode) (zip [1..<Suc (length memories)] memories)))
            in if INJECTION_SNIPPET_MAX_CHARS < length snippet
               then Inl (ValueError (u ''injection snippet exceeds '' @ str_nat INJECTION_SNIPPET_MAX_CHARS @
                      u '' characters''))
               else Inr snippet)))))"

end
