(* ===== verification/GateFacts.thy ===== *)
theory GateFacts
  imports Decision
begin

text \<open>
  What the gates of \<open>Policy\<close> and \<open>Decision\<close> guarantee. The locale \<open>candidate_gate\<close> is the
  contract between a deterministic gate and its clients: it splits the candidates into an allowed
  list and a dictionary of reasons. What the semantic gate can do on top of such a split is proved
  once in the locale; it is interpreted here on \<open>system_gate\<close> and, in the theory of the gate
  lifecycle, on the bounded gate of the store.
\<close>

section \<open>The System Gate\<close>

lemma validate_memory_context_None_iff [simp]:
  "validate_memory_context context = None \<longleftrightarrow> context_contract_error context = None"
  by (simp add: validate_memory_context_def)

lemma gate_loop_fst:
  "fst (gate_loop rt context allowed blocked cs) =
     allowed @ filter (\<lambda>m. blocked_reason rt context m = None) cs"
  by (induction cs arbitrary: allowed blocked) (auto split: option.splits)

lemma gate_loop_snd:
  assumes "distinct (dict_keys blocked @ map mi_memory_id cs)"
  shows "snd (gate_loop rt context allowed blocked cs) =
     blocked @ List.map_filter
       (\<lambda>m. map_option (\<lambda>r. (mi_memory_id m, r)) (blocked_reason rt context m)) cs"
  using assms
proof (induction cs arbitrary: allowed blocked)
  case (Cons m cs)
  show ?case
  proof (cases "blocked_reason rt context m")
    case None
    with Cons show ?thesis by (simp add: List.map_filter_simps)
  next
    case (Some r)
    have new: "dict_set (mi_memory_id m) r blocked = blocked @ [(mi_memory_id m, r)]"
      using Cons.prems by (induction blocked) (auto simp: dict_keys_def)
    with Cons Some show ?thesis by (simp add: List.map_filter_simps dict_keys_def)
  qed
qed (simp add: List.map_filter_simps)

lemma validated_memory_collection_None_iff:
  "validated_memory_collection rt ms name req = None \<longleftrightarrow>
     (\<forall>m\<in>set ms. mi_memory_id m \<noteq> [] \<and> length (mi_memory_id m) \<le> MEMORY_ID_MAX_CHARS \<and>
        (req \<longrightarrow> memory_item_contract_error rt m = None)) \<and>
     distinct (map mi_memory_id ms)"
  by (auto simp: validated_memory_collection_def not_less split: if_splits)

text \<open>The gate in closed form: the candidates without a reason, in order, and the others with it.\<close>

lemma system_gate_Inr_iff:
  "system_gate rt context cs = Inr (allowed, blocked) \<longleftrightarrow>
     context_contract_error context = None \<and>
     validated_memory_collection rt cs (u ''candidates'') False = None \<and>
     allowed = filter (\<lambda>m. blocked_reason rt context m = None) cs \<and>
     blocked = List.map_filter
       (\<lambda>m. map_option (\<lambda>r. (mi_memory_id m, r)) (blocked_reason rt context m)) cs"
proof -
  have "gate_loop rt context [] [] cs =
      (filter (\<lambda>m. blocked_reason rt context m = None) cs,
       List.map_filter (\<lambda>m. map_option (\<lambda>r. (mi_memory_id m, r)) (blocked_reason rt context m)) cs)"
    if "distinct (map mi_memory_id cs)"
    using gate_loop_fst [of rt "context" "[]" "[]" cs] gate_loop_snd [of "[]" cs rt "context" "[]"] that
    by (simp add: dict_keys_def prod_eq_iff)
  then show ?thesis
    by (auto simp: system_gate_def result_simps validated_memory_collection_None_iff)
qed

lemma map_filter_keys:
  "map fst (List.map_filter (\<lambda>m. map_option (\<lambda>r. (f m, r)) (g m)) cs) = map f (filter (\<lambda>m. g m \<noteq> None) cs)"
  by (induction cs) (auto simp: List.map_filter_simps split: option.splits)

lemma set_map_filter_gate:
  "(i, r) \<in> set (List.map_filter (\<lambda>m. map_option (\<lambda>r. (f m, r)) (g m)) cs) \<longleftrightarrow>
     (\<exists>m\<in>set cs. i = f m \<and> g m = Some r)"
  by (induction cs) (auto simp: List.map_filter_simps split: option.splits)

text \<open>Everything the System Gate requires of a memory, and no more.\<close>

lemma blocked_reason_None_iff:
  "blocked_reason rt context m = None \<longleftrightarrow>
     context_contract_error context = None \<and> memory_item_contract_error rt m = None \<and>
     mi_status m \<in> set ALLOWED_STATUSES \<and> mi_memory_type m \<in> set ALLOWED_MEMORY_TYPES \<and>
     has_source m \<and> \<not> mi_sensitive m \<and> \<not> mi_eval_leaking m \<and>
     \<not> is_current_benchmark_example context m \<and> scope_matches context m \<and>
     (mc_mode context = u ''eval'' \<longrightarrow> mi_memory_type m \<in> set EVAL_ALLOWED_TYPES) \<and>
     (mc_mode context = u ''production'' \<longrightarrow> mi_memory_type m \<in> set PRODUCTION_ALLOWED_TYPES)"
  by (auto simp: blocked_reason_def)

text \<open>A reason is never empty, so it passes the checks on a mapping of reasons.\<close>

definition says_something :: "pystr option \<Rightarrow> bool" where
  "says_something m \<longleftrightarrow> (\<forall>e. m = Some e \<longrightarrow> \<not> blank e)"

lemma says_something_simps [simp]:
  "says_something None" "says_something (Some e) \<longleftrightarrow> \<not> blank e"
  by (simp_all add: says_something_def)

lemma says_something_err_if: "\<not> blank m \<Longrightarrow> says_something (err_if b m)"
  by (simp add: err_if_def)

lemma says_something_first_error:
  "(\<And>x. x \<in> set xs \<Longrightarrow> says_something x) \<Longrightarrow> says_something (first_error xs)"
  using first_error_in_set by (metis says_something_def)

lemma at_most_not_blank [simp]: "\<not> blank (at_most name n)"
  by (simp add: at_most_def py_isspace_def)

lemmas message_rules = says_something_first_error says_something_err_if

lemma context_field_error_says: "says_something (context_field_error name value)"
  unfolding context_field_error_def
  by (rule message_rules) (auto intro!: message_rules simp: py_isspace_def)

lemma context_contract_error_says: "says_something (context_contract_error context)"
  unfolding context_contract_error_def
  by (rule message_rules)
     (auto intro!: message_rules context_field_error_says simp: py_isspace_def
        split: prod.splits option.splits)

lemma scope_field_error_says: "says_something (scope_field_error rt kv)"
  unfolding scope_field_error_def Let_def
  by (rule message_rules) (auto intro!: message_rules simp: py_isspace_def)

lemma source_errors_say: "says_something (source_identity_error nv)" "says_something (source_id_error s)"
  unfolding source_identity_error_def source_id_error_def
  by (cases "snd nv"; auto intro!: message_rules simp: py_isspace_def)
     (cases s; auto intro!: message_rules simp: py_isspace_def)

lemma memory_item_contract_error_says: "says_something (memory_item_contract_error rt m)"
  unfolding memory_item_contract_error_def
  by (rule message_rules)
     (auto intro!: message_rules scope_field_error_says source_errors_say simp: py_isspace_def
        split: option.splits)

lemma blocked_reason_says: "says_something (blocked_reason rt context m)"
  unfolding blocked_reason_def
  by (rule message_rules)
     (auto intro!: message_rules context_contract_error_says memory_item_contract_error_says
        simp: py_isspace_def)

lemma blocked_reason_not_blank: "blocked_reason rt context m = Some r \<Longrightarrow> \<not> blank r"
  using blocked_reason_says [of rt "context" m] by simp

section \<open>The semantic gate on top of a split\<close>

lemma string_list_PStr:
  "string_list (PList (map PStr ids)) name mx = Inr out \<longleftrightarrow>
     out = ids \<and> (\<forall>n. mx = Some n \<longrightarrow> length ids \<le> n) \<and>
     (\<forall>i\<in>set ids. i \<noteq> [] \<and> length i \<le> MEMORY_ID_MAX_CHARS) \<and> distinct ids"
proof -
  have "map str_of (map PStr ids) = ids" by (simp add: comp_def)
  then show ?thesis
    by (auto simp: string_list_def result_simps list_all_iff list_ex_iff is_str_def not_less
        split: option.splits)
qed

lemma validated_decision_fields_Inr_iff:
  "validated_decision_fields d mx = Inr (a, b) \<longleftrightarrow>
     a = md_allowed_memory_ids d \<and> b = md_blocked_memory_ids d \<and>
     (\<forall>n. mx = Some n \<longrightarrow> length a \<le> n \<and> length b \<le> n) \<and>
     (\<forall>i\<in>set a \<union> set b. i \<noteq> [] \<and> length i \<le> MEMORY_ID_MAX_CHARS) \<and> distinct a \<and> distinct b \<and>
     \<not> blank (md_reason d) \<and> length (md_reason d) \<le> MEMORY_DECISION_REASON_MAX_CHARS \<and>
     md_risk d \<in> set DECISION_RISKS \<and> md_recommended_injection d \<in> set RECOMMENDED_INJECTIONS"
  by (auto simp: validated_decision_fields_def result_simps string_list_PStr reason_error_def
      risk_error_def injection_error_def not_less)

lemma dict_has_by_id [simp]:
  "dict_has (map (\<lambda>m. (f m, m)) ms) i \<longleftrightarrow> i \<in> f ` set ms"
  by (auto simp: dict_has_def)

lemma dict_keys_by_id [simp]: "dict_keys (map (\<lambda>m. (f m, m)) ms) = map f ms"
  by (simp add: dict_keys_def comp_def)

lemma dict_get_by_id:
  "dict_get (map (\<lambda>m. (f m, m)) ms) i = Some m \<Longrightarrow> m \<in> set ms \<and> f m = i"
  by (induction ms) (auto split: if_splits)

lemma map_filter_by_id:
  "set ids \<subseteq> f ` set ms \<Longrightarrow>
     map f (List.map_filter (dict_get (map (\<lambda>m. (f m, m)) ms)) ids) = ids"
proof (induction ids)
  case (Cons i ids)
  then obtain m where m: "dict_get (map (\<lambda>m. (f m, m)) ms) i = Some m"
    using dict_has_by_id [of f ms i] by (auto simp: dict_has_iff simp del: dict_has_by_id)
  then have "f m = i" by (auto dest: dict_get_by_id)
  with Cons m show ?case by (simp add: List.map_filter_simps)
qed (simp add: List.map_filter_simps)

lemma set_map_filter_by_id:
  "set (List.map_filter (dict_get (map (\<lambda>m. (f m, m)) ms)) ids) \<subseteq> set ms"
  by (induction ids) (auto simp: List.map_filter_simps dest: dict_get_by_id split: option.splits)

text \<open>The decision in closed form.\<close>

definition memory_requested :: "MemoryDecision \<Rightarrow> bool" where
  "memory_requested d \<longleftrightarrow> md_use_memory d \<and> md_recommended_injection d \<noteq> u ''none''"

definition granted_ids :: "MemoryItem list \<Rightarrow> MemoryDecision \<Rightarrow> pystr list" where
  "granted_ids allowed d =
     (if memory_requested d
      then filter (\<lambda>i. i \<notin> set (md_blocked_memory_ids d) \<and> i \<in> mi_memory_id ` set allowed)
             (md_allowed_memory_ids d)
      else [])"

definition granted_items :: "MemoryItem list \<Rightarrow> MemoryDecision \<Rightarrow> MemoryItem list" where
  "granted_items allowed d =
     List.map_filter (dict_get (map (\<lambda>m. (mi_memory_id m, m)) allowed)) (granted_ids allowed d)"

definition refused_ids :: "MemoryItem list \<Rightarrow> (pystr, pystr) dict \<Rightarrow> MemoryDecision \<Rightarrow> pystr list" where
  "refused_ids allowed blocked d =
     add_new (add_new (add_new [] (dict_keys blocked @ md_blocked_memory_ids d))
       (filter (\<lambda>i. i \<notin> mi_memory_id ` set allowed) (md_allowed_memory_ids d)))
       (filter (\<lambda>i. i \<notin> set (granted_ids allowed d)) (map mi_memory_id allowed))"

definition combined_decision ::
  "MemoryItem list \<Rightarrow> (pystr, pystr) dict \<Rightarrow> MemoryDecision \<Rightarrow> MemoryDecision" where
  "combined_decision allowed blocked d =
     \<lparr>md_use_memory = (granted_ids allowed d \<noteq> []),
      md_allowed_memory_ids = granted_ids allowed d,
      md_blocked_memory_ids = refused_ids allowed blocked d,
      md_reason = md_reason d, md_risk = md_risk d,
      md_recommended_injection =
        (if granted_ids allowed d \<noteq> [] then md_recommended_injection d else u ''none'')\<rparr>"

lemma granted_ids_eq:
  "(if granted_ids allowed d \<noteq> []
    then filter (dict_has (map (\<lambda>m. (mi_memory_id m, m)) allowed))
        (filter (\<lambda>i. i \<notin> set (md_blocked_memory_ids d))
          (if memory_requested d then md_allowed_memory_ids d else [])) else [])
   = granted_ids allowed d"
  by (auto simp: granted_ids_def conj_commute)

lemma granted_ids_Nil_iff:
  "(memory_requested d \<and> filter (dict_has (map (\<lambda>m. (mi_memory_id m, m)) allowed))
        (filter (\<lambda>i. i \<notin> set (md_blocked_memory_ids d))
          (if memory_requested d then md_allowed_memory_ids d else [])) \<noteq> [])
   \<longleftrightarrow> granted_ids allowed d \<noteq> []"
  by (auto simp: granted_ids_def filter_empty_conv)

definition decision_accepted :: "MemoryDecision \<Rightarrow> bool" where
  "decision_accepted d \<longleftrightarrow>
     validated_decision_fields d (Some LLM_GATE_MAX_CANDIDATES) =
       Inr (md_allowed_memory_ids d, md_blocked_memory_ids d)"

lemma validated_decision_fields_Inr:
  "validated_decision_fields d mx = Inr x \<Longrightarrow> x = (md_allowed_memory_ids d, md_blocked_memory_ids d)"
  by (cases x) (simp add: validated_decision_fields_Inr_iff)

lemma apply_llm_gate_decision_Inr_iff:
  "apply_llm_gate_decision rt allowed blocked d = Inr r \<longleftrightarrow>
     validated_memory_collection rt allowed (u ''system_allowed'') True = None \<and>
     validated_string_mapping blocked (u ''system_blocked'') = None \<and>
     decision_accepted d \<and> mi_memory_id ` set allowed \<inter> set (dict_keys blocked) = {} \<and>
     r = (granted_items allowed d, combined_decision allowed blocked d)"
proof (cases "decision_accepted d")
  case False
  then have "\<exists>e. validated_decision_fields d (Some LLM_GATE_MAX_CANDIDATES) = Inl e"
    by (cases "validated_decision_fields d (Some LLM_GATE_MAX_CANDIDATES)")
       (auto simp: decision_accepted_def dest: validated_decision_fields_Inr)
  with False show ?thesis by (auto simp: apply_llm_gate_decision_def result_simps)
next
  case True
  have overlap: "filter (dict_has blocked) (map mi_memory_id allowed) = [] \<longleftrightarrow>
      mi_memory_id ` set allowed \<inter> set (dict_keys blocked) = {}"
    by (auto simp: filter_empty_conv dict_has_def dict_keys_def)
  show ?thesis
    unfolding apply_llm_gate_decision_def True [unfolded decision_accepted_def] or_raise_Inr_iff
      rbind_simps prod.case Let_def memory_requested_def [symmetric] granted_ids_Nil_iff
      granted_ids_eq
      dict_keys_by_id sort_key_Nil_iff overlap
    using True
    by (auto simp: combined_decision_def granted_items_def refused_ids_def)
qed

lemma set_refused_ids:
  "set (refused_ids allowed blocked d) =
     set (dict_keys blocked) \<union> set (md_blocked_memory_ids d) \<union>
     (set (md_allowed_memory_ids d) - mi_memory_id ` set allowed) \<union>
     (mi_memory_id ` set allowed - set (granted_ids allowed d))"
  by (auto simp: refused_ids_def)

lemma distinct_refused_ids [simp]: "distinct (refused_ids allowed blocked d)"
  by (simp add: refused_ids_def)

lemma set_granted_ids:
  "set (granted_ids allowed d) \<subseteq>
     set (md_allowed_memory_ids d) \<inter> mi_memory_id ` set allowed - set (md_blocked_memory_ids d)"
  by (auto simp: granted_ids_def)

lemma map_id_granted_items [simp]: "map mi_memory_id (granted_items allowed d) = granted_ids allowed d"
  unfolding granted_items_def by (rule map_filter_by_id) (use set_granted_ids in blast)

lemma set_granted_items: "set (granted_items allowed d) \<subseteq> set allowed"
  unfolding granted_items_def by (rule set_map_filter_by_id)

lemma granted_items_Nil_iff [simp]: "granted_items allowed d = [] \<longleftrightarrow> granted_ids allowed d = []"
  using map_id_granted_items [of allowed d] by (metis map_is_Nil_conv)

lemma distinct_granted_ids: "decision_accepted d \<Longrightarrow> distinct (granted_ids allowed d)"
  by (simp add: granted_ids_def decision_accepted_def validated_decision_fields_Inr_iff)

section \<open>The contract of a deterministic gate\<close>

locale candidate_gate =
  fixes gate :: "runtime \<Rightarrow> MemoryContext \<Rightarrow> MemoryItem list \<Rightarrow>
    (MemoryItem list \<times> (pystr, pystr) dict) result"
  assumes gate_allowed: "gate rt cx cs = Inr (a, b) \<Longrightarrow> m \<in> set a \<Longrightarrow> m \<in> set cs \<and> blocked_reason rt cx m = None"
    and gate_blocked: "gate rt cx cs = Inr (a, b) \<Longrightarrow>
      set (dict_keys b) = mi_memory_id ` set cs - mi_memory_id ` set a"
    and gate_ids: "gate rt cx cs = Inr (a, b) \<Longrightarrow>
      distinct (map mi_memory_id a) \<and> dict_ok b \<and>
      (\<forall>m\<in>set cs. mi_memory_id m \<noteq> [] \<and> length (mi_memory_id m) \<le> MEMORY_ID_MAX_CHARS)"
    and gate_reasons: "gate rt cx cs = Inr (a, b) \<Longrightarrow> (i, r) \<in> set b \<Longrightarrow> \<not> blank r"
begin

text \<open>The semantic gate accepts the split: only the decision itself can be refused.\<close>

lemma decide_total:
  assumes g: "gate rt cx cs = Inr (a, b)" and d: "decision_accepted d"
  shows "apply_llm_gate_decision rt a b d = Inr (granted_items a d, combined_decision a b d)"
proof -
  have "validated_memory_collection rt a (u ''system_allowed'') True = None"
    using gate_ids [OF g] gate_allowed [OF g]
    by (auto simp: validated_memory_collection_None_iff blocked_reason_None_iff)
  moreover have "validated_string_mapping b (u ''system_blocked'') = None"
    using gate_blocked [OF g] gate_ids [OF g] gate_reasons [OF g]
    by (force simp: validated_string_mapping_def list_ex_iff dict_keys_def not_less)
  ultimately show ?thesis
    using d gate_blocked [OF g] by (auto simp: apply_llm_gate_decision_Inr_iff)
qed

lemma decided_are_safe:
  assumes "gate rt cx cs = Inr (a, b)" and "m \<in> set (granted_items a d)"
  shows "m \<in> set cs \<and> blocked_reason rt cx m = None"
  using gate_allowed [OF assms(1)] set_granted_items assms(2) by blast

lemma decided_split:
  assumes g: "gate rt cx cs = Inr (a, b)"
  shows "mi_memory_id ` set cs \<subseteq> set (granted_ids a d) \<union> set (refused_ids a b d)"
    and "set (granted_ids a d) \<inter> set (refused_ids a b d) = {}"
    and "set (dict_keys b) \<subseteq> set (refused_ids a b d)"
    and "set (granted_ids a d) \<subseteq> mi_memory_id ` set cs"
  using gate_blocked [OF g] set_granted_ids [of a d] gate_allowed [OF g]
  by (auto simp: set_refused_ids)

lemma decided_within_candidates:
  assumes g: "gate rt cx cs = Inr (a, b)"
    and d: "set (md_allowed_memory_ids d) \<union> set (md_blocked_memory_ids d) \<subseteq> mi_memory_id ` set cs"
  shows "set (refused_ids a b d) = mi_memory_id ` set cs - set (granted_ids a d)"
  using gate_blocked [OF g] set_granted_ids [of a d] gate_allowed [OF g] d
  by (auto simp: set_refused_ids)

end

lemma system_gate_split:
  assumes "system_gate rt cx cs = Inr (a, b)"
  shows "distinct (map mi_memory_id a)" "dict_ok b"
    "set (dict_keys b) = mi_memory_id ` set cs - mi_memory_id ` set a"
proof -
  from assms have d: "distinct (map mi_memory_id cs)"
    and a: "a = filter (\<lambda>m. blocked_reason rt cx m = None) cs"
    and b: "map fst b = map mi_memory_id (filter (\<lambda>m. blocked_reason rt cx m \<noteq> None) cs)"
    by (simp_all only: system_gate_Inr_iff validated_memory_collection_None_iff map_filter_keys)
  from d a show "distinct (map mi_memory_id a)" by (simp add: distinct_map_filter)
  from d b show "dict_ok b" by (simp add: dict_ok_def distinct_map_filter)
  from d have inj: "inj_on mi_memory_id (set cs)" by (simp add: distinct_map)
  show "set (dict_keys b) = mi_memory_id ` set cs - mi_memory_id ` set a"
  proof -
    have "set (dict_keys b) = mi_memory_id ` (set cs - set a)"
      unfolding dict_keys_def b a by auto
    also have "\<dots> = mi_memory_id ` set cs - mi_memory_id ` set a"
      by (rule inj_on_image_set_diff [OF inj]) (auto simp: a)
    finally show ?thesis .
  qed
qed

interpretation sys: candidate_gate system_gate
proof unfold_locales
  fix rt cx cs a b m i r
  assume g: "system_gate rt cx cs = Inr (a, b)"
  show "m \<in> set a \<Longrightarrow> m \<in> set cs \<and> blocked_reason rt cx m = None"
    using g by (auto simp: system_gate_Inr_iff)
  show "set (dict_keys b) = mi_memory_id ` set cs - mi_memory_id ` set a"
    by (rule system_gate_split [OF g])
  show "distinct (map mi_memory_id a) \<and> dict_ok b \<and>
      (\<forall>m\<in>set cs. mi_memory_id m \<noteq> [] \<and> length (mi_memory_id m) \<le> MEMORY_ID_MAX_CHARS)"
    using system_gate_split [OF g] g
    by (auto simp: system_gate_Inr_iff validated_memory_collection_None_iff)
  show "(i, r) \<in> set b \<Longrightarrow> \<not> blank r"
    using g by (auto simp: system_gate_Inr_iff set_map_filter_gate dest: blocked_reason_not_blank)
qed

end
