(* ===== verification/InjectionFacts.thy ===== *)
theory InjectionFacts
  imports GateFacts
begin

text \<open>
  What the injected snippet can contain: only memories that pass every guardrail and that the
  decision grants, within the limits, and in a shape that no memory text can break: all text goes
  through a JSON string, so it stays on its own line.
\<close>

section \<open>Printable lines\<close>

definition printable_line :: "pystr \<Rightarrow> bool" where
  "printable_line s \<longleftrightarrow> (\<forall>c\<in>set s. 32 \<le> c \<and> c \<le> 126)"

lemma printable_append [simp]: "printable_line (s @ t) \<longleftrightarrow> printable_line s \<and> printable_line t"
  by (auto simp: printable_line_def)

lemma printable_Cons [simp]: "printable_line (c # t) \<longleftrightarrow> 32 \<le> c \<and> c \<le> 126 \<and> printable_line t"
  by (auto simp: printable_line_def)

lemma printable_Nil [simp]: "printable_line []"
  by (simp add: printable_line_def)

lemma printable_u [simp]:
  "printable_line (u s) \<longleftrightarrow> (\<forall>c\<in>set s. 32 \<le> (of_char c :: nat) \<and> of_char c \<le> (126 :: nat))"
  by (simp add: printable_line_def u_def)

lemma printable_json [simp]: "printable_line (json_dumps_str s)"
  using json_dumps_str_ascii by (auto simp: printable_line_def)

lemma printable_str_nat [simp]: "printable_line (str_nat n)"
  using digits_rev_bound [of 10 n] by (auto simp: printable_line_def str_nat_def dec_digits_def)

lemma printable_join: "printable_line sep \<Longrightarrow> (\<And>s. s \<in> set ss \<Longrightarrow> printable_line s) \<Longrightarrow> printable_line (join sep ss)"
  by (induction sep ss rule: join.induct) auto

lemma printable_json_dict [simp]: "printable_line (json_dumps_str_dict d)"
  unfolding json_dumps_str_dict_def by (auto intro!: printable_join)

lemma no_newline_in_line: "printable_line s \<Longrightarrow> count_list s 10 = 0"
  by (auto simp: printable_line_def count_list_0_iff)

lemma count_list_join:
  "count_list (join nl ss) 10 = sum_list (map (\<lambda>s. count_list s 10) ss) + (length ss - 1)"
proof (induction nl ss rule: join.induct)
  case (3 s t ss)
  then show ?case by simp
qed simp_all

section \<open>The shape of the snippet\<close>

definition lines_per_memory :: "pystr \<Rightarrow> nat" where
  "lines_per_memory mode =
     (if mode = u ''short_summary'' \<or> mode = u ''full_case_summary'' then 4 else 3)"

lemma snippet_lines_newlines:
  "sum_list (map (\<lambda>s. count_list s 10) (snippet_lines mode im)) + length (snippet_lines mode im)
     = lines_per_memory mode"
  by (auto simp: snippet_lines_def Let_def scope_json_def lines_per_memory_def no_newline_in_line)

lemma snippet_lines_chars:
  "s \<in> set (snippet_lines mode im) \<Longrightarrow> c \<in> set s \<Longrightarrow> c = 10 \<or> 32 \<le> c \<and> c \<le> 126"
  using printable_str_nat [of "fst im"] printable_json printable_json_dict
  by (fastforce simp: snippet_lines_def Let_def scope_json_def printable_line_def u_def split: if_splits)

lemma sum_snippet_lines:
  "sum_list (map (\<lambda>s. count_list s 10) (concat (map (snippet_lines mode) ims))) +
     length (concat (map (snippet_lines mode) ims)) = length ims * lines_per_memory mode"
proof (induction ims)
  case (Cons im ims)
  then show ?case using snippet_lines_newlines [of mode im] by simp
qed simp

lemma set_join: "c \<in> set (join sep ss) \<Longrightarrow> c \<in> set sep \<or> (\<exists>s\<in>set ss. c \<in> set s)"
  by (induction sep ss rule: join.induct) auto

section \<open>What a snippet was built from\<close>

definition injection_mode :: "pystr option \<Rightarrow> MemoryDecision option \<Rightarrow> pystr" where
  "injection_mode requested decision =
     (case requested of Some m \<Rightarrow> m
      | None \<Rightarrow> (case decision of Some d \<Rightarrow> md_recommended_injection d | None \<Rightarrow> u ''short_summary''))"

definition snippet_text :: "pystr \<Rightarrow> MemoryItem list \<Rightarrow> pystr" where
  "snippet_text mode ms =
     (if mode = u ''none'' \<or> ms = [] then []
      else join nl (u ''Relevant verified memory:'' #
             concat (map (snippet_lines mode) (zip [1..<Suc (length ms)] ms))))"

lemma build_injection_snippet_Inr_iff:
  "build_injection_snippet rt ms requested decision cx = Inr s \<longleftrightarrow>
     validated_memory_collection rt ms (u ''memories'') True = None \<and>
     length ms \<le> INJECTION_MAX_MEMORIES \<and>
     injection_mode requested decision \<in> set RECOMMENDED_INJECTIONS \<and>
     validate_injection_inputs rt ms decision requested = None \<and>
     benchmark_errors rt ms cx = None \<and>
     s = snippet_text (injection_mode requested decision) ms \<and>
     length s \<le> INJECTION_SNIPPET_MAX_CHARS"
  by (auto simp: build_injection_snippet_def result_simps Let_def injection_mode_def [symmetric]
      injection_error_def not_less snippet_text_def)

lemma snippet_text_newlines:
  "mode \<noteq> u ''none'' \<Longrightarrow>
     count_list (snippet_text mode ms) 10 = length ms * lines_per_memory mode"
  using sum_snippet_lines [of mode "zip [1..<Suc (length ms)] ms"]
  by (simp add: snippet_text_def count_list_join no_newline_in_line del: upt_Suc)

lemma snippet_text_chars: "c \<in> set (snippet_text mode ms) \<Longrightarrow> c = 10 \<or> 32 \<le> c \<and> c \<le> 126"
proof -
  assume "c \<in> set (snippet_text mode ms)"
  then consider "c = 10" | "c \<in> set (u ''Relevant verified memory:'')"
    | s im where "s \<in> set (snippet_lines mode im)" "c \<in> set s"
    by (auto simp: snippet_text_def simp del: upt_Suc dest!: set_join split: if_splits)
  then show ?thesis
  proof cases
    case 2
    then show ?thesis by (auto simp: u_def)
  qed (use snippet_lines_chars in auto)
qed

lemma validate_injection_inputs_None:
  assumes "validate_injection_inputs rt ms decision requested = None" and "ms \<noteq> []"
  shows "\<exists>d. decision = Some d \<and> md_use_memory d \<and> md_recommended_injection d \<noteq> u ''none'' \<and>
      (requested = None \<or> requested = Some (md_recommended_injection d)) \<and>
      mi_memory_id ` set ms \<subseteq> set (md_allowed_memory_ids d) \<and>
      mi_memory_id ` set ms \<inter> set (md_blocked_memory_ids d) = {}"
    and "\<forall>m\<in>set ms. snippet_guardrail_error rt m = None"
proof -
  from assms obtain d where d: "decision = Some d"
    by (cases decision) (auto simp: validate_injection_inputs_def)
  from assms(1) d obtain a b where ab: "validated_decision_fields d None = Inr (a, b)"
    by (auto simp: validate_injection_inputs_def split: sum.splits)
  then have "a = md_allowed_memory_ids d" "b = md_blocked_memory_ids d"
    by (auto simp: validated_decision_fields_Inr_iff)
  with assms d ab show "\<exists>d. decision = Some d \<and> md_use_memory d \<and> md_recommended_injection d \<noteq> u ''none'' \<and>
      (requested = None \<or> requested = Some (md_recommended_injection d)) \<and>
      mi_memory_id ` set ms \<subseteq> set (md_allowed_memory_ids d) \<and>
      mi_memory_id ` set ms \<inter> set (md_blocked_memory_ids d) = {}"
    by (auto simp: validate_injection_inputs_def list_ex_iff memory_decision_consistency_error_def
        split: if_splits)
  show "\<forall>m\<in>set ms. snippet_guardrail_error rt m = None"
    using assms(1) by (auto simp: validate_injection_inputs_def)
qed

lemma benchmark_errors_None:
  "benchmark_errors rt ms (Some cx) = None \<Longrightarrow> m \<in> set ms \<Longrightarrow> \<not> is_current_benchmark_example cx m"
proof
  assume none: "benchmark_errors rt ms (Some cx) = None" and m: "m \<in> set ms"
    and cur: "is_current_benchmark_example cx m"
  from m cur have "list_ex (\<lambda>m. mi_source_eval_suite m \<noteq> None) ms"
    by (auto simp: list_ex_iff is_current_benchmark_example_def)
  with none have "\<forall>x\<in>set ms. (if is_current_benchmark_example cx x
      then Some (cannot_be_injected rt x (u ''memory originates from current benchmark example''))
      else None) = None"
    unfolding benchmark_errors_def by simp
  with m cur show False by auto
qed

lemma snippet_guardrail_None_iff:
  "snippet_guardrail_error rt m = None \<longleftrightarrow>
     memory_item_contract_error rt m = None \<and> mi_status m \<in> set ALLOWED_STATUSES \<and>
     mi_memory_type m \<in> set ALLOWED_MEMORY_TYPES \<and> has_source m \<and>
     \<not> mi_sensitive m \<and> \<not> mi_eval_leaking m"
  by (auto simp: snippet_guardrail_error_def)

lemma blocked_reason_guardrail: "blocked_reason rt cx m = None \<Longrightarrow> snippet_guardrail_error rt m = None"
  by (simp add: blocked_reason_None_iff snippet_guardrail_None_iff)

end
