(* ===== verification/JsonSize.thy ===== *)
theory JsonSize
  imports Decision "HOL-Library.Multiset"
begin

text \<open>
  Measures of a dynamic value, against which the two budget checks of the program (the answer of
  the semantic gate and the JSON of a trace) are specified: its nodes, its strings, its nesting
  depth and whether it is a JSON value at all.
\<close>

definition max_list :: "nat list \<Rightarrow> nat" where
  "max_list xs = foldr max xs 0"

lemma max_list_le_iff: "max_list xs \<le> n \<longleftrightarrow> (\<forall>x\<in>set xs. x \<le> n)"
  by (induction xs) (auto simp: max_list_def)

lemma max_list_depth:
  "d + Suc (max_list (map f xs)) \<le> n \<longleftrightarrow> d < n \<and> (\<forall>x\<in>set xs. 0 < f x \<longrightarrow> Suc d + f x \<le> n)"
proof -
  have "d + Suc (max_list (map f xs)) \<le> n \<longleftrightarrow> d < n \<and> max_list (map f xs) \<le> n - Suc d" by auto
  also have "\<dots> \<longleftrightarrow> d < n \<and> (\<forall>x\<in>set xs. f x \<le> n - Suc d)" by (simp add: max_list_le_iff)
  also have "\<dots> \<longleftrightarrow> d < n \<and> (\<forall>x\<in>set xs. 0 < f x \<longrightarrow> Suc d + f x \<le> n)" by fastforce
  finally show ?thesis .
qed

function json_nodes :: "pyval \<Rightarrow> nat" where
  "json_nodes (PList xs) = Suc (sum_list (map json_nodes xs))"
| "json_nodes (PDict d) = Suc (sum_list (map (\<lambda>kv. json_nodes (snd kv)) d))"
| "json_nodes PNone = 1" | "json_nodes (PBool b) = 1" | "json_nodes (PNum n) = 1"
| "json_nodes (PStr s) = 1" | "json_nodes (PyOther t) = 1"
  by pat_completeness auto

lemma size_snd_in_dict: "kv \<in> set d \<Longrightarrow> size (snd kv) < Suc (size_list (size_prod size size) d)"
  using size_pair_in_list [of "fst kv" "snd kv" d] by simp

termination json_nodes
  by (relation "measure size") (auto dest: size_in_list size_snd_in_dict)

function json_strings :: "pyval \<Rightarrow> pystr list" where
  "json_strings (PList xs) = concat (map json_strings xs)"
| "json_strings (PDict d) =
     concat (map (\<lambda>kv. (case fst kv of PStr k \<Rightarrow> [k] | _ \<Rightarrow> []) @ json_strings (snd kv)) d)"
| "json_strings PNone = []" | "json_strings (PBool b) = []" | "json_strings (PNum n) = []"
| "json_strings (PStr s) = [s]" | "json_strings (PyOther t) = []"
  by pat_completeness auto

termination json_strings
  by (relation "measure size") (auto dest: size_in_list size_snd_in_dict)

text \<open>A JSON value whose numbers all satisfy \<open>p\<close>.\<close>

function json_ok :: "(pynum \<Rightarrow> bool) \<Rightarrow> pyval \<Rightarrow> bool" where
  "json_ok p (PList xs) = list_all (json_ok p) xs"
| "json_ok p (PDict d) =
     list_all (\<lambda>kv. (case fst kv of PStr _ \<Rightarrow> True | _ \<Rightarrow> False) \<and> json_ok p (snd kv)) d"
| "json_ok p PNone = True" | "json_ok p (PBool b) = True" | "json_ok p (PNum n) = p n"
| "json_ok p (PStr s) = True" | "json_ok p (PyOther t) = False"
  by pat_completeness auto

termination json_ok
  by (relation "measure (\<lambda>(p, v). size v)") (auto dest: size_in_list size_snd_in_dict)

text \<open>The depth of a value whose empty containers have depth \<open>e\<close>.\<close>

function json_depth :: "nat \<Rightarrow> pyval \<Rightarrow> nat" where
  "json_depth e (PList xs) = (if xs = [] then e else Suc (max_list (map (json_depth e) xs)))"
| "json_depth e (PDict d) =
     (if d = [] then e else Suc (max_list (map (\<lambda>kv. json_depth e (snd kv)) d)))"
| "json_depth e PNone = 0" | "json_depth e (PBool b) = 0" | "json_depth e (PNum n) = 0"
| "json_depth e (PStr s) = 0" | "json_depth e (PyOther t) = 0"
  by pat_completeness auto

termination json_depth
  by (relation "measure (\<lambda>(e, v). size v)") (auto dest: size_in_list size_snd_in_dict)

text \<open>The bytes of a list of strings, if all of them can be encoded.\<close>

fun text_size :: "pystr list \<Rightarrow> nat option" where
  "text_size [] = Some 0"
| "text_size (s # ss) =
     (case (utf8_size s, text_size ss) of (Some m, Some n) \<Rightarrow> Some (m + n) | _ \<Rightarrow> None)"

definition text_fits :: "pystr list \<Rightarrow> nat \<Rightarrow> bool" where
  "text_fits ss n \<longleftrightarrow> (\<exists>m. text_size ss = Some m \<and> m \<le> n)"

lemma text_size_append:
  "text_size (ss @ ts) =
     (case (text_size ss, text_size ts) of (Some m, Some n) \<Rightarrow> Some (m + n) | _ \<Rightarrow> None)"
  by (induction ss) (auto split: option.splits)

lemma text_fits_Nil [simp]: "text_fits [] n"
  by (simp add: text_fits_def)

lemma text_fits_Cons:
  "text_fits (s # ss) n \<longleftrightarrow> (\<exists>m. utf8_size s = Some m \<and> m \<le> n \<and> text_fits ss (n - m))"
  by (auto simp: text_fits_def split: option.splits)

text \<open>The order of the strings does not matter.\<close>

lemma text_size_mset:
  "text_size ss = (if \<forall>s\<in>#mset ss. utf8_size s \<noteq> None
     then Some (\<Sum>\<^sub># (image_mset (\<lambda>s. the (utf8_size s)) (mset ss))) else None)"
  by (induction ss) (auto split: option.splits)

lemma text_fits_cong: "mset ss = mset ts \<Longrightarrow> text_fits ss n = text_fits ts n"
  by (simp only: text_fits_def text_size_mset)

lemma mset_concat_split:
  "mset (concat (map (\<lambda>x. f x @ g x) xs)) = mset (concat (map f xs)) + mset (concat (map g xs))"
  by (induction xs) auto

lemma text_fits_append:
  "text_fits (ss @ ts) n \<longleftrightarrow> (\<exists>m. text_size ss = Some m \<and> m \<le> n \<and> text_fits ts (n - m))"
  by (auto simp: text_fits_def text_size_append split: option.splits)

lemma json_nodes_pos: "1 \<le> json_nodes v"
  by (cases v) auto

lemma length_le_nodes: "length xs \<le> sum_list (map (\<lambda>x. json_nodes (f x)) xs)"
proof (induction xs)
  case (Cons x xs)
  then show ?case using json_nodes_pos [of "f x"] by simp
qed simp

text \<open>Work lists of values: the measure under which a walk over one ends.\<close>

definition work :: "pyval list \<Rightarrow> nat" where
  "work vs = sum_list (map (\<lambda>v. Suc (size v)) vs)"

lemma size_list_sum: "size_list f xs = sum_list (map (\<lambda>x. Suc (f x)) xs)"
  by (induction xs) auto

lemma work_PList: "work (xs @ vs) < work (PList xs # vs)"
  by (simp add: work_def size_list_sum)

lemma work_PDict: "work (map snd d @ vs) < work (PDict d # vs)"
proof -
  have "sum_list (map (\<lambda>kv. Suc (size (snd kv))) d) \<le> size_list (size_prod size size) d"
    by (induction d) auto
  then show ?thesis by (simp add: work_def comp_def)
qed

lemma work_Cons: "work vs < work (v # vs)"
  by (simp add: work_def)

section \<open>Work lists of a depth-first walk\<close>

lemma dict_strings:
  assumes "list_all is_str (map fst d)"
  shows "mset (concat (map (\<lambda>kv. (case fst kv of PStr k \<Rightarrow> [k] | _ \<Rightarrow> []) @ f (snd kv)) d)) =
         mset (map str_of (rev (map fst d))) + mset (concat (map (\<lambda>kv. f (snd kv)) d))"
  using assms
proof (induction d)
  case (Cons kv d)
  then show ?case by (cases "fst kv") (auto simp: is_str_def)
qed simp

lemma frames_dict [simp]:
  "map (\<lambda>(k, x). (x, n)) d = map (\<lambda>x. (x, n)) (map snd d)"
  by (induction d) auto

text \<open>
  What the walk still has to accept: the frames of the stack, after \<open>n\<close> nodes and \<open>b\<close> bytes,
  under limits \<open>N\<close>, \<open>B\<close> and \<open>D\<close>; an empty container has depth \<open>e\<close>.
\<close>

definition frame_ok :: "(pynum \<Rightarrow> bool) \<Rightarrow> nat \<Rightarrow> nat \<Rightarrow> pyval \<times> nat \<Rightarrow> bool" where
  "frame_ok p e D f \<longleftrightarrow> json_ok p (fst f) \<and>
     (0 < json_depth e (fst f) \<longrightarrow> snd f + json_depth e (fst f) \<le> D)"

definition stack_ok :: "(pynum \<Rightarrow> bool) \<Rightarrow> nat \<Rightarrow> nat \<Rightarrow> nat \<Rightarrow> nat \<Rightarrow> nat \<Rightarrow> nat \<Rightarrow> (pyval \<times> nat) list \<Rightarrow> bool" where
  "stack_ok p e N B D n b st \<longleftrightarrow>
     n + sum_list (map (\<lambda>f. json_nodes (fst f)) st) \<le> N \<and> list_all (frame_ok p e D) st \<and>
     text_fits (concat (map (\<lambda>f. json_strings (fst f)) st)) (B - b)"

lemma frame_ok_PList:
  "frame_ok p e D (PList xs, d) \<longleftrightarrow>
     (if xs = [] then e = 0 \<or> d + e \<le> D else d < D) \<and> list_all (frame_ok p e D) (map (\<lambda>x. (x, Suc d)) xs)"
  unfolding frame_ok_def using max_list_depth [of d "json_depth e" xs D]
  by (auto simp: list_all_iff)

lemma frame_ok_PDict:
  "frame_ok p e D (PDict kvs, d) \<longleftrightarrow>
     list_all is_str (map fst kvs) \<and> (if kvs = [] then e = 0 \<or> d + e \<le> D else d < D) \<and>
     list_all (frame_ok p e D) (map (\<lambda>x. (x, Suc d)) (map snd kvs))"
  unfolding frame_ok_def using max_list_depth [of d "\<lambda>kv. json_depth e (snd kv)" kvs D]
  by (auto simp: list_all_iff is_str_def)

lemma stack_ok_leaf:
  assumes "json_nodes v = 1" and "json_strings v = []" and "json_depth e v = 0"
  shows "stack_ok p e N B D n b ((v, d) # st) \<longleftrightarrow> json_ok p v \<and> stack_ok p e N B D (Suc n) b st"
  using assms by (auto simp: stack_ok_def frame_ok_def)

lemma stack_ok_PStr:
  "stack_ok p e N B D n b ((PStr s, d) # st) \<longleftrightarrow>
     (\<exists>m. utf8_size s = Some m \<and> m \<le> B - b \<and> stack_ok p e N B D (Suc n) (b + m) st)"
  by (auto simp: stack_ok_def frame_ok_def text_fits_Cons)

lemma stack_ok_PList:
  "stack_ok p e N B D n b ((PList xs, d) # st) \<longleftrightarrow>
     (if xs = [] then e = 0 \<or> d + e \<le> D else d < D) \<and>
     stack_ok p e N B D (Suc n) b (map (\<lambda>x. (x, Suc d)) xs @ st)"
  by (auto simp: stack_ok_def frame_ok_PList comp_def)

lemma stack_ok_PDict:
  "stack_ok p e N B D n b ((PDict kvs, d) # st) \<longleftrightarrow>
     (if kvs = [] then e = 0 \<or> d + e \<le> D else d < D) \<and> list_all is_str (map fst kvs) \<and>
     (\<exists>m. text_size (map str_of (rev (map fst kvs))) = Some m \<and> m \<le> B - b \<and>
        stack_ok p e N B D (Suc n) (b + m) (map (\<lambda>x. (x, Suc d)) (map snd kvs) @ st))"
proof (cases "list_all is_str (map fst kvs)")
  case True
  let ?st = "concat (map (\<lambda>f. json_strings (fst f)) st)"
  let ?rest = "concat (map (\<lambda>kv. json_strings (snd kv)) kvs) @ ?st"
  have "text_fits (json_strings (PDict kvs) @ ?st) (B - b) =
      text_fits (map str_of (rev (map fst kvs)) @ ?rest) (B - b)"
    by (rule text_fits_cong) (simp add: dict_strings [OF True])
  then have "text_fits (json_strings (PDict kvs) @ ?st) (B - b) \<longleftrightarrow>
      (\<exists>m. text_size (map str_of (rev (map fst kvs))) = Some m \<and> m \<le> B - b \<and>
        text_fits ?rest (B - b - m))"
    by (simp only: text_fits_append [of "map str_of (rev (map fst kvs))"])
  then show ?thesis
    using True by (simp add: stack_ok_def frame_ok_PDict comp_def del: json_strings.simps) blast
next
  case False
  then show ?thesis by (auto simp: stack_ok_def frame_ok_PDict)
qed

lemma stack_ok_length: "stack_ok p e N B D (Suc n) b (map (\<lambda>x. (x, d)) xs @ st) \<Longrightarrow> length xs \<le> N - Suc n"
  using length_le_nodes [of xs "\<lambda>x. x"] unfolding stack_ok_def
  by (simp add: comp_def) linarith

lemma stack_ok_nodes: "stack_ok p e N B D n b (f # st) \<Longrightarrow> n < N"
  using json_nodes_pos [of "fst f"] by (simp add: stack_ok_def)

end
