(* ===== verification/DecisionPayload.thy ===== *)
theory DecisionPayload
  imports InjectionFacts JsonSize
begin

text \<open>
  Parsing the answer of the semantic gate and a memory context (\<^verbatim>\<open>parse_memory_decision\<close>,
  \<^verbatim>\<open>parse_memory_context\<close> of \<^verbatim>\<open>policy.py\<close>). The budget check walks the answer with an
  explicit stack; it is shown to accept exactly the values within the limits. A value of the model
  is a finite tree, so the check for a reference cycle, which compares object identities, and the
  stack entries that maintain it have no counterpart.
\<close>

section \<open>The budget of an answer\<close>

definition too_many_bytes :: py_error where
  "too_many_bytes = ValueError (u ''memory decision response exceeds '' @
     str_nat LLM_GATE_RESPONSE_MAX_BYTES @ u '' UTF-8 bytes'')"

definition too_many_nodes :: py_error where
  "too_many_nodes = ValueError (u ''memory decision response contains more than '' @
     str_nat LLM_GATE_RESPONSE_MAX_NODES @ u '' nodes'')"

definition too_deep :: py_error where
  "too_deep = ValueError (u ''memory decision response exceeds maximum nesting depth '' @
     str_nat LLM_GATE_RESPONSE_MAX_DEPTH)"

text \<open>\<^verbatim>\<open>consume_text\<close>: the running number of bytes, or the error.\<close>

definition consume_text :: "nat \<Rightarrow> pystr \<Rightarrow> nat result" where
  "consume_text text_bytes text =
     (case utf8_size text of
        None \<Rightarrow> Inl (ValueError (u ''memory decision response must be UTF-8 encodable''))
      | Some n \<Rightarrow>
          if LLM_GATE_RESPONSE_MAX_BYTES < text_bytes + n then Inl too_many_bytes
          else Inr (text_bytes + n))"

fun consume_keys :: "nat \<Rightarrow> pyval list \<Rightarrow> nat result" where
  "consume_keys text_bytes [] = Inr text_bytes"
| "consume_keys text_bytes (k # ks) =
     (case k of
        PStr s \<Rightarrow> rbind (consume_text text_bytes s) (\<lambda>b. consume_keys b ks)
      | _ \<Rightarrow> Inl (ValueError (u ''memory decision payload keys must be strings'')))"

function budget_walk :: "nat \<Rightarrow> nat \<Rightarrow> (pyval \<times> nat) list \<Rightarrow> py_error option" where
  "budget_walk node_count text_bytes [] = None"
| "budget_walk node_count text_bytes ((current, depth) # stack) =
     (if LLM_GATE_RESPONSE_MAX_NODES < Suc node_count then Some too_many_nodes
      else case current of
        PNone \<Rightarrow> budget_walk (Suc node_count) text_bytes stack
      | PBool _ \<Rightarrow> budget_walk (Suc node_count) text_bytes stack
      | PNum n \<Rightarrow>
          if \<not> is_finite_number n
          then Some (ValueError (u ''memory decision response must contain finite JSON numbers''))
          else budget_walk (Suc node_count) text_bytes stack
      | PStr s \<Rightarrow>
          (case consume_text text_bytes s of
             Inl e \<Rightarrow> Some e
           | Inr b \<Rightarrow> budget_walk (Suc node_count) b stack)
      | PyOther _ \<Rightarrow>
          Some (ValueError (u ''memory decision response must contain only JSON semantic values''))
      | PList xs \<Rightarrow>
          if xs \<noteq> [] \<and> LLM_GATE_RESPONSE_MAX_DEPTH \<le> depth then Some too_deep
          else if LLM_GATE_RESPONSE_MAX_NODES - Suc node_count < length xs then Some too_many_nodes
          else budget_walk (Suc node_count) text_bytes (map (\<lambda>x. (x, Suc depth)) xs @ stack)
      | PDict d \<Rightarrow>
          if d \<noteq> [] \<and> LLM_GATE_RESPONSE_MAX_DEPTH \<le> depth then Some too_deep
          else if LLM_GATE_RESPONSE_MAX_NODES - Suc node_count < length d then Some too_many_nodes
          else
            (case consume_keys text_bytes (rev (map fst d)) of
               Inl e \<Rightarrow> Some e
             | Inr b \<Rightarrow> budget_walk (Suc node_count) b (map (\<lambda>(k, x). (x, Suc depth)) d @ stack)))"
  by pat_completeness auto

lemma map_fst_frames [simp]: "map fst (map (\<lambda>x. (x, n)) xs) = xs"
  "map fst (map (\<lambda>(k, x). (x, n)) d) = map snd d"
  by (induction xs) (induction d, auto)

termination budget_walk
  by (relation "measure (\<lambda>(n, b, stack). work (map fst stack))")
     (auto simp del: map_map intro: work_PList work_PDict work_Cons)

declare budget_walk.simps(2) [simp del]

definition validate_memory_decision_payload_budget :: "pydict \<Rightarrow> py_error option" where
  "validate_memory_decision_payload_budget value = budget_walk 0 0 [(PDict value, 0)]"

section \<open>Decoding\<close>

text \<open>A payload is a text, a mapping, or something else.\<close>

datatype payload = JsonText pystr | PyMapping pydict | OtherPayload

text \<open>\<^verbatim>\<open>unique_json_object_pairs\<close>, applied by the decoder to every object, inner objects first.\<close>

fun unique_json_object_pairs :: "pystr \<Rightarrow> pydict \<Rightarrow> pydict \<Rightarrow> pydict result" where
  "unique_json_object_pairs description result [] = Inr result"
| "unique_json_object_pairs description result ((key, value) # pairs) =
     (if dict_has result key
      then Inl (ValueError (description @ u '' JSON contains duplicate object key: '' @ str_of key))
      else unique_json_object_pairs description (result @ [(key, value)]) pairs)"

function decode_pairs :: "pystr \<Rightarrow> pyval \<Rightarrow> pyval result" where
  "decode_pairs description (PList xs) =
     rbind (rmap (decode_pairs description) xs) (\<lambda>ys. Inr (PList ys))"
| "decode_pairs description (PDict d) =
     rbind (rmap (\<lambda>kv. decode_pairs description (snd kv)) d) (\<lambda>ys.
     rbind (unique_json_object_pairs description [] (zip (map fst d) ys)) (\<lambda>r. Inr (PDict r)))"
| "decode_pairs description PNone = Inr PNone"
| "decode_pairs description (PBool b) = Inr (PBool b)"
| "decode_pairs description (PNum n) = Inr (PNum n)"
| "decode_pairs description (PStr s) = Inr (PStr s)"
| "decode_pairs description (PyOther t) = Inr (PyOther t)"
  by pat_completeness auto

termination decode_pairs
  by (relation "measure (\<lambda>(t, v). size v)") (auto dest: size_in_list size_snd_in_dict)

definition json_object :: "runtime \<Rightarrow> payload \<Rightarrow> pystr \<Rightarrow> pydict result" where
  "json_object rt payload label =
     rbind
       (case payload of
          JsonText text \<Rightarrow>
            (case rt_json_loads rt text of
               JsonSyntaxError msg \<Rightarrow> Inl (ValueError (u ''invalid '' @ label @ u '' JSON: '' @ msg))
             | JsonTooDeep \<Rightarrow> Inl RecursionError
             | JsonValue v \<Rightarrow> decode_pairs label v)
        | PyMapping d \<Rightarrow> Inr (PDict d)
        | OtherPayload \<Rightarrow> Inl (ValueError (label @ u '' payload must be a JSON object'')))
       (\<lambda>data. case data of
          PDict d \<Rightarrow>
            or_raise (raise_if (\<not> list_all is_str (dict_keys d))
                (label @ u '' payload keys must be strings''))
              (Inr d)
        | _ \<Rightarrow> Inl (ValueError (label @ u '' payload must be a JSON object'')))"

definition bounded_memory_decision_object :: "runtime \<Rightarrow> payload \<Rightarrow> pydict result" where
  "bounded_memory_decision_object rt payload =
     or_raise
       (case payload of
          JsonText text \<Rightarrow>
            (case utf8_size text of
               None \<Rightarrow> Some (ValueError (u ''memory decision response must be UTF-8 encodable''))
             | Some n \<Rightarrow> if LLM_GATE_RESPONSE_MAX_BYTES < n then Some too_many_bytes else None)
        | PyMapping d \<Rightarrow>
            if LLM_GATE_RESPONSE_MAX_NODES < length d + 1 then Some too_many_nodes else None
        | OtherPayload \<Rightarrow> None)
       (case json_object rt payload (u ''memory decision'') of
          Inl RecursionError \<Rightarrow> Inl too_deep
        | Inl e \<Rightarrow> Inl e
        | Inr data \<Rightarrow>
            or_raise (validate_memory_decision_payload_budget data) (Inr data))"

text \<open>The value of a field; the fields are known to be present when it is read.\<close>

definition field :: "pydict \<Rightarrow> string \<Rightarrow> pyval" where
  "field data name = (case dict_get data (PStr (u name)) of Some v \<Rightarrow> v | None \<Rightarrow> PNone)"

definition parse_memory_decision :: "runtime \<Rightarrow> payload \<Rightarrow> MemoryDecision result" where
  "parse_memory_decision rt payload =
     rbind (bounded_memory_decision_object rt payload) (\<lambda>data.
     let keys = map str_of (dict_keys data);
         missing = sort (filter (\<lambda>f. f \<notin> set keys) DECISION_REQUIRED_FIELDS);
         unknown = sort (filter (\<lambda>k. k \<notin> set DECISION_REQUIRED_FIELDS) keys)
     in or_raise (first_error
          [raise_if (missing \<noteq> [])
             (u ''memory decision missing required fields: '' @ join (u '', '') missing),
           raise_if (unknown \<noteq> [])
             (u ''memory decision has unknown fields: '' @ join (u '', '') unknown)])
        (case field data ''use_memory'' of
           PBool use_memory \<Rightarrow>
             rbind (string_list (field data ''allowed_memory_ids'') (u ''allowed_memory_ids'')
                      (Some LLM_GATE_MAX_CANDIDATES)) (\<lambda>allowed.
             rbind (string_list (field data ''blocked_memory_ids'') (u ''blocked_memory_ids'')
                      (Some LLM_GATE_MAX_CANDIDATES)) (\<lambda>blocked.
             (case field data ''reason'' of
                PStr reason \<Rightarrow>
                  or_raise (reason_error reason)
                  (or_raise
                     (case field data ''risk'' of PStr risk \<Rightarrow> risk_error risk
                      | _ \<Rightarrow> Some (ValueError (u ''risk must be one of: high, low, medium, none'')))
                  (or_raise
                     (case field data ''recommended_injection'' of PStr mode \<Rightarrow> injection_error mode
                      | _ \<Rightarrow> Some (ValueError
                          (u ''recommended_injection must be one of: full_case_summary, none, pointer_only, short_summary'')))
                  (or_raise
                     (map_option ValueError (memory_decision_consistency_error use_memory allowed
                        (str_of (field data ''recommended_injection''))))
                  (Inr \<lparr>md_use_memory = use_memory, md_allowed_memory_ids = allowed,
                        md_blocked_memory_ids = blocked, md_reason = reason,
                        md_risk = str_of (field data ''risk''),
                        md_recommended_injection = str_of (field data ''recommended_injection'')\<rparr>))))
              | _ \<Rightarrow> Inl (ValueError (u ''reason must be a string'')))))
         | _ \<Rightarrow> Inl (ValueError (u ''use_memory must be a boolean''))))"

definition context_payload_error :: "pyval option \<Rightarrow> pystr \<Rightarrow> py_error option" where
  "context_payload_error value field_name =
     (case value of
        None \<Rightarrow> None
      | Some (PStr v) \<Rightarrow>
          first_error
            [raise_if (blank v) (field_name @ u '' must be a non-empty string''),
             raise_if (METADATA_VALUE_MAX_CHARS < length v) (at_most field_name METADATA_VALUE_MAX_CHARS)]
      | Some _ \<Rightarrow> Some (ValueError (field_name @ u '' must be a string'')))"

definition parse_memory_context :: "runtime \<Rightarrow> payload \<Rightarrow> MemoryContext result" where
  "parse_memory_context rt payload =
     rbind (json_object rt payload (u ''memory context'')) (\<lambda>data.
     let missing = sort (filter (\<lambda>f. \<not> dict_has data (PStr f)) CONTEXT_REQUIRED_FIELDS);
         values = (\<lambda>name. map_option str_of (dict_get data (PStr (u name))))
     in or_raise (raise_if (missing \<noteq> [])
            (u ''memory context missing required fields: '' @ join (u '', '') missing))
        (or_raise (first_error (map (\<lambda>f. context_payload_error (dict_get data (PStr f)) f) CONTEXT_STRING_FIELDS))
        (or_raise (first_error
           [raise_if (str_of (field data ''mode'') \<notin> set CONTEXT_MODES)
              (u ''mode must be one of: debug, eval, planning, production, regression, repair''),
            raise_if (values ''input_hash'' \<noteq> None \<and> values ''eval_suite'' = None)
              (u ''context input_hash requires eval_suite'')])
        (Inr \<lparr>mc_mode = str_of (field data ''mode''), mc_repo = str_of (field data ''repo''),
              mc_commit_sha = str_of (field data ''commit_sha''), mc_branch = values ''branch'',
              mc_prompt_version = values ''prompt_version'', mc_prompt_family = values ''prompt_family'',
              mc_tool = values ''tool'', mc_tool_schema_version = values ''tool_schema_version'',
              mc_model = values ''model'', mc_model_family = values ''model_family'',
              mc_eval_suite = values ''eval_suite'', mc_task_type = values ''task_type'',
              mc_failure_type = values ''failure_type'', mc_tenant = values ''tenant'',
              mc_input_hash = values ''input_hash''\<rparr>))))"

section \<open>The budget accepts exactly the values within the limits\<close>

definition within_budget :: "pyval \<Rightarrow> bool" where
  "within_budget v \<longleftrightarrow>
     json_nodes v \<le> LLM_GATE_RESPONSE_MAX_NODES \<and> json_ok is_finite_number v \<and>
     json_depth 0 v \<le> LLM_GATE_RESPONSE_MAX_DEPTH \<and>
     text_fits (json_strings v) LLM_GATE_RESPONSE_MAX_BYTES"

lemma consume_text_Inr_iff:
  "consume_text b s = Inr b' \<longleftrightarrow>
     (\<exists>n. utf8_size s = Some n \<and> b' = b + n \<and> b + n \<le> LLM_GATE_RESPONSE_MAX_BYTES)"
  by (auto simp: consume_text_def split: option.splits)

lemma consume_keys_Inr_iff:
  "b \<le> LLM_GATE_RESPONSE_MAX_BYTES \<Longrightarrow>
   consume_keys b ks = Inr b' \<longleftrightarrow>
     list_all is_str ks \<and>
     (\<exists>n. text_size (map str_of ks) = Some n \<and> b' = b + n \<and> b + n \<le> LLM_GATE_RESPONSE_MAX_BYTES)"
proof (induction ks arbitrary: b)
  case (Cons k ks)
  show ?case
  proof (cases k)
    case (PStr s)
    show ?thesis
    proof (cases "consume_text b s")
      case (Inl e)
      then have "\<not> (\<exists>n. utf8_size s = Some n \<and> b + n \<le> LLM_GATE_RESPONSE_MAX_BYTES)"
        using consume_text_Inr_iff [of b s] by (metis sum.distinct(1))
      with PStr Inl show ?thesis by (auto split: option.splits)
    next
      case (Inr b1)
      then obtain n where n: "utf8_size s = Some n" "b1 = b + n" "b + n \<le> LLM_GATE_RESPONSE_MAX_BYTES"
        by (auto simp: consume_text_Inr_iff)
      with Cons.IH [of b1] PStr Inr show ?thesis
        by (auto simp: is_str_def split: option.splits)
    qed
  qed (auto simp: is_str_def)
qed auto

abbreviation decision_stack_ok :: "nat \<Rightarrow> nat \<Rightarrow> (pyval \<times> nat) list \<Rightarrow> bool" where
  "decision_stack_ok \<equiv> stack_ok is_finite_number 0 LLM_GATE_RESPONSE_MAX_NODES LLM_GATE_RESPONSE_MAX_BYTES
     LLM_GATE_RESPONSE_MAX_DEPTH"

lemma budget_walk_None_iff:
  "n \<le> LLM_GATE_RESPONSE_MAX_NODES \<Longrightarrow> b \<le> LLM_GATE_RESPONSE_MAX_BYTES \<Longrightarrow>
     budget_walk n b st = None \<longleftrightarrow> decision_stack_ok n b st"
proof (induction n b st rule: budget_walk.induct)
  case (1 n b)
  then show ?case by (simp add: stack_ok_def)
next
  case (2 n b v d st)
  show ?case
  proof (cases "n < LLM_GATE_RESPONSE_MAX_NODES")
    case False
    then show ?thesis using stack_ok_nodes by (fastforce simp: budget_walk.simps)
  next
    case True
    show ?thesis
    proof (cases v)
      case (PStr s)
      show ?thesis
      proof (cases "consume_text b s")
        case (Inl err)
        then have "\<not> (\<exists>m. utf8_size s = Some m \<and> b + m \<le> LLM_GATE_RESPONSE_MAX_BYTES)"
          using consume_text_Inr_iff [of b s] by (metis sum.distinct(1))
        with PStr Inl True "2.prems" show ?thesis by (auto simp: budget_walk.simps stack_ok_PStr)
      next
        case (Inr b1)
        then obtain m where m: "utf8_size s = Some m" "b1 = b + m" "b + m \<le> LLM_GATE_RESPONSE_MAX_BYTES"
          by (auto simp: consume_text_Inr_iff)
        with 2 PStr Inr True show ?thesis
          by (auto simp: budget_walk.simps stack_ok_PStr)
      qed
    next
      case (PList xs)
      with 2 True show ?thesis
        by (auto simp: budget_walk.simps stack_ok_PList not_le not_less dest: stack_ok_length)
    next
      case (PDict kvs)
      show ?thesis
      proof (cases "consume_keys b (rev (map fst kvs))")
        case (Inl err)
        then have "\<forall>b'. consume_keys b (rev (map fst kvs)) \<noteq> Inr b'" by simp
        then have "\<not> (list_all is_str (map fst kvs) \<and> (\<exists>m. text_size (map str_of (rev (map fst kvs))) = Some m \<and>
            m \<le> LLM_GATE_RESPONSE_MAX_BYTES - b))"
          using "2.prems"(2) by (auto simp: consume_keys_Inr_iff list_all_rev)
        with PDict Inl True "2.prems" show ?thesis by (auto simp: budget_walk.simps stack_ok_PDict)
      next
        case (Inr b1)
        then obtain m where m: "list_all is_str (map fst kvs)" "b1 = b + m"
            "text_size (map str_of (rev (map fst kvs))) = Some m" "b + m \<le> LLM_GATE_RESPONSE_MAX_BYTES"
          using "2.prems"(2) by (auto simp: consume_keys_Inr_iff list_all_rev)
        with 2 PDict Inr True show ?thesis
          by (auto simp: budget_walk.simps stack_ok_PDict not_le not_less simp del: map_map
              dest: stack_ok_length)
      qed
    qed (use 2 True in \<open>simp_all add: budget_walk.simps stack_ok_leaf\<close>)
  qed
qed

lemma budget_exact:
  "validate_memory_decision_payload_budget d = None \<longleftrightarrow> within_budget (PDict d)"
  unfolding validate_memory_decision_payload_budget_def within_budget_def
  by (simp add: budget_walk_None_iff stack_ok_def frame_ok_def)

end
