(* ===== verification/Lifecycle.thy ===== *)
theory Lifecycle
  imports DecisionPayload GateFacts
begin

text \<open>
  \<^verbatim>\<open>lifecycle.py\<close>: how a failed trace becomes a draft failure case, a reviewed one, a verified
  one and finally a lesson, and how lessons, cases and policies are turned into memory items. The
  last section states what each transition requires: the evidence that stands behind a verified
  case (\<open>verified_evidence\<close>) and that only the three transitions lead from a draft to it.
\<close>

section \<open>Requirements\<close>

definition SCOPE_FIELDS :: "pystr list" where
  "SCOPE_FIELDS =
     [u ''repo'', u ''tenant'', u ''branch'', u ''prompt_version'', u ''prompt_family'', u ''tool'',
      u ''tool_schema_version'', u ''model'', u ''model_family'', u ''eval_suite'', u ''task_type'',
      u ''failure_type'']"

definition SUPPORTED_MEMORY_TYPES :: "pystr list" where
  "SUPPORTED_MEMORY_TYPES = [u ''procedural'', u ''semantic'', u ''episodic'', u ''policy'']"

definition SUPPORTED_POLICY_STATUSES :: "pystr list" where
  "SUPPORTED_POLICY_STATUSES = [u ''active'', u ''obsolete'']"

definition require_non_empty_string :: "pystr \<Rightarrow> pystr \<Rightarrow> nat option \<Rightarrow> py_error option" where
  "require_non_empty_string value field_name max_chars =
     first_error
       [raise_if (blank value) (field_name @ u '' must be a non-empty string''),
        (case max_chars of None \<Rightarrow> None
         | Some n \<Rightarrow> raise_if (n < length value) (at_most field_name n))]"

text \<open>The same check on a field that may hold \<^verbatim>\<open>None\<close>, which is not a string.\<close>

definition require_present_string :: "pystr option \<Rightarrow> pystr \<Rightarrow> nat option \<Rightarrow> py_error option" where
  "require_present_string value field_name max_chars =
     (case value of
        None \<Rightarrow> Some (ValueError (field_name @ u '' must be a non-empty string''))
      | Some v \<Rightarrow> require_non_empty_string v field_name max_chars)"

definition require_optional_non_empty_string :: "pystr option \<Rightarrow> pystr \<Rightarrow> nat option \<Rightarrow> py_error option" where
  "require_optional_non_empty_string value field_name max_chars =
     (case value of None \<Rightarrow> None | Some v \<Rightarrow> require_non_empty_string v field_name max_chars)"

definition require_supported_value :: "pystr \<Rightarrow> pystr \<Rightarrow> pystr list \<Rightarrow> py_error option" where
  "require_supported_value value field_name supported_values =
     raise_if (value \<notin> set supported_values) (field_name @ u '' is not supported: '' @ value)"

definition require_rfc3339_timestamp :: "pystr \<Rightarrow> pystr \<Rightarrow> py_error option" where
  "require_rfc3339_timestamp value field_name =
     first_error
       [require_non_empty_string value field_name None,
        raise_if (parse_rfc3339 value = None)
          (field_name @ u '' must be a timezone-aware RFC 3339 date-time string'')]"

definition present :: "pystr option \<Rightarrow> bool" where
  "present value \<longleftrightarrow> (case value of None \<Rightarrow> False | Some v \<Rightarrow> \<not> blank v)"

definition require_completed_review :: "FailureCase \<Rightarrow> py_error option" where
  "require_completed_review fcase =
     first_error
       [raise_if (list_ex (\<lambda>value. \<not> present value)
            [fc_reviewed_by fcase, fc_root_cause fcase, fc_reviewed_at fcase])
          (u ''verified failure cases require a completed review with reviewed_by, root_cause, and reviewed_at''),
        (case fc_reviewed_at fcase of
           None \<Rightarrow> Some (ValueError (u ''reviewed_at must be a non-empty string''))
         | Some t \<Rightarrow> require_rfc3339_timestamp t (u ''reviewed_at'')),
        require_present_string (fc_reviewed_by fcase) (u ''reviewed_by'') (Some METADATA_VALUE_MAX_CHARS),
        require_present_string (fc_root_cause fcase) (u ''root_cause'') None]"

definition require_failure_case_identity :: "FailureCase \<Rightarrow> py_error option" where
  "require_failure_case_identity fcase =
     first_error
       [require_non_empty_string (fc_case_id fcase) (u ''case_id'') (Some MEMORY_ID_MAX_CHARS),
        require_non_empty_string (fc_source_trace_id fcase) (u ''source_trace_id'') (Some MEMORY_ID_MAX_CHARS),
        require_non_empty_string (fc_commit_sha fcase) (u ''commit_sha'') (Some METADATA_VALUE_MAX_CHARS)]"

definition require_failure_case_core :: "FailureCase \<Rightarrow> py_error option" where
  "require_failure_case_core fcase =
     first_error
       [require_failure_case_identity fcase,
        require_non_empty_string (fc_failure_type fcase) (u ''failure_type'') (Some METADATA_VALUE_MAX_CHARS),
        require_non_empty_string (fc_symptom fcase) (u ''symptom'') None]"

definition require_verified_failure_case :: "FailureCase \<Rightarrow> py_error option" where
  "require_verified_failure_case fcase =
     first_error
       [raise_if (fc_status fcase \<noteq> u ''verified'') (u ''active memory requires a verified failure case''),
        raise_if (\<not> fc_regression_passed fcase)
          (u ''active memory requires a regression-backed failure case''),
        require_failure_case_core fcase,
        require_completed_review fcase,
        require_present_string (fc_fix fcase) (u ''fix'') None,
        require_present_string (fc_fix_commit_sha fcase) (u ''fix_commit_sha'')
          (Some METADATA_VALUE_MAX_CHARS)]"

definition lesson_scope_error :: "runtime \<Rightarrow> pystr \<times> pystr \<Rightarrow> py_error option" where
  "lesson_scope_error rt kv =
     (let key = fst kv; value = snd kv; name = u ''lesson scope field '' @ py_repr rt key
      in first_error
        [raise_if (key \<notin> set SCOPE_FIELDS) (u ''lesson scope field is not supported: '' @ key),
         raise_if (blank value) (name @ u '' must be a non-empty string''),
         raise_if (METADATA_VALUE_MAX_CHARS < length value) (at_most name METADATA_VALUE_MAX_CHARS)])"

text \<open>\<^verbatim>\<open>confidence < 0.0 or confidence > 1.0\<close> for a finite number.\<close>

definition outside_unit :: "pynum \<Rightarrow> bool" where
  "outside_unit n = (case num_value n of Some q \<Rightarrow> q < 0 \<or> 1 < q | None \<Rightarrow> False)"

definition validate_lesson_contract ::
  "runtime \<Rightarrow> pystr \<Rightarrow> (pystr, pystr) dict \<Rightarrow> pynum \<Rightarrow> py_error option" where
  "validate_lesson_contract rt lesson_text scope confidence =
     first_error
       ([raise_if (scope = []) (u ''lessons require non-empty scope'')]
        @ map (lesson_scope_error rt) scope
        @ [raise_if (blank lesson_text) (u ''lessons require lesson_text''),
           raise_if (MEMORY_TEXT_MAX_CHARS < length lesson_text)
             (at_most (u ''lesson_text'') MEMORY_TEXT_MAX_CHARS),
           raise_if (\<not> is_finite_number confidence)
             (u ''lesson confidence must be a number between 0 and 1''),
           raise_if (outside_unit confidence) (u ''lesson confidence must be between 0 and 1'')])"

section \<open>Transitions of a failure case\<close>

definition draft_failure_case ::
  "Trace \<Rightarrow> pystr \<Rightarrow> pystr \<Rightarrow> pystr \<Rightarrow> pystr option \<Rightarrow> pystr option \<Rightarrow> FailureCase result" where
  "draft_failure_case trace case_id failure_type symptom root_cause fix =
     or_raise (first_error
       [raise_if (tr_eval_result trace \<notin> {u ''fail'', u ''error''})
          (u ''failure cases can only be drafted from failed or errored traces''),
        require_non_empty_string (tr_trace_id trace) (u ''source_trace_id'') (Some MEMORY_ID_MAX_CHARS),
        require_non_empty_string (tr_commit_sha trace) (u ''commit_sha'') (Some METADATA_VALUE_MAX_CHARS),
        require_non_empty_string case_id (u ''case_id'') (Some MEMORY_ID_MAX_CHARS),
        require_non_empty_string failure_type (u ''failure_type'') (Some METADATA_VALUE_MAX_CHARS),
        require_non_empty_string symptom (u ''symptom'') None,
        require_optional_non_empty_string root_cause (u ''root_cause'') None,
        require_optional_non_empty_string fix (u ''fix'') None])
     (Inr \<lparr>fc_case_id = case_id, fc_source_trace_id = tr_trace_id trace,
           fc_commit_sha = tr_commit_sha trace, fc_failure_type = failure_type, fc_symptom = symptom,
           fc_root_cause = root_cause, fc_fix = fix, fc_fix_commit_sha = None,
           fc_regression_passed = False, fc_reviewed_by = None, fc_review_notes = None,
           fc_reviewed_at = None, fc_status = u ''draft'', fc_created_at = None\<rparr>)"

definition verify_failure_case :: "FailureCase \<Rightarrow> pystr \<Rightarrow> pystr \<Rightarrow> bool \<Rightarrow> FailureCase result" where
  "verify_failure_case fcase fix fix_commit_sha regression_passed =
     or_raise (first_error
       [raise_if (fc_status fcase \<noteq> u ''draft'') (u ''only draft failure cases can be verified''),
        require_failure_case_core fcase,
        require_non_empty_string fix (u ''fix'') None,
        require_non_empty_string fix_commit_sha (u ''fix_commit_sha'') (Some METADATA_VALUE_MAX_CHARS),
        raise_if (\<not> regression_passed) (u ''verified failure cases require a passing regression''),
        require_completed_review fcase])
     (Inr (fcase\<lparr>fc_status := u ''verified'', fc_fix := Some fix,
             fc_fix_commit_sha := Some fix_commit_sha, fc_regression_passed := True\<rparr>))"

text \<open>\<^verbatim>\<open>a if a is not None else b\<close>\<close>

definition given_or :: "'a option \<Rightarrow> 'a \<Rightarrow> 'a" where
  "given_or a b = (case a of Some x \<Rightarrow> x | None \<Rightarrow> b)"

definition review_failure_case ::
  "runtime \<Rightarrow> FailureCase \<Rightarrow> pystr \<Rightarrow> pystr \<Rightarrow> pystr option \<Rightarrow> pystr option \<Rightarrow> pystr option \<Rightarrow>
   pystr option \<Rightarrow> FailureCase result" where
  "review_failure_case rt fcase reviewed_by root_cause failure_type symptom review_notes reviewed_at =
     or_raise (first_error
       [raise_if (fc_status fcase \<noteq> u ''draft'') (u ''only draft failure cases can be manually reviewed''),
        require_failure_case_identity fcase,
        require_non_empty_string reviewed_by (u ''reviewed_by'') (Some METADATA_VALUE_MAX_CHARS),
        require_non_empty_string root_cause (u ''root_cause'') None,
        require_optional_non_empty_string failure_type (u ''failure_type'') (Some METADATA_VALUE_MAX_CHARS),
        require_optional_non_empty_string symptom (u ''symptom'') None,
        require_optional_non_empty_string review_notes (u ''review_notes'') None,
        require_non_empty_string (given_or failure_type (fc_failure_type fcase)) (u ''failure_type'')
          (Some METADATA_VALUE_MAX_CHARS),
        require_non_empty_string (given_or symptom (fc_symptom fcase)) (u ''symptom'') None,
        (case reviewed_at of None \<Rightarrow> None
         | Some t \<Rightarrow> require_rfc3339_timestamp t (u ''reviewed_at''))])
     (Inr (fcase\<lparr>fc_failure_type := given_or failure_type (fc_failure_type fcase),
             fc_symptom := given_or symptom (fc_symptom fcase),
             fc_root_cause := Some root_cause, fc_reviewed_by := Some reviewed_by,
             fc_review_notes := review_notes,
             fc_reviewed_at := Some (given_or reviewed_at (utc_timestamp rt))\<rparr>))"

definition obsolete_failure_case :: "FailureCase \<Rightarrow> FailureCase" where
  "obsolete_failure_case fcase = fcase\<lparr>fc_status := u ''obsolete''\<rparr>"

definition lesson_from_failure_case ::
  "runtime \<Rightarrow> FailureCase \<Rightarrow> pystr \<Rightarrow> pystr \<Rightarrow> pystr \<Rightarrow> (pystr, pystr) dict \<Rightarrow> pynum \<Rightarrow> Lesson result" where
  "lesson_from_failure_case rt fcase lesson_id lesson_text memory_type scope confidence =
     or_raise (first_error
       [raise_if (fc_status fcase \<noteq> u ''verified'') (u ''active lessons require a verified failure case''),
        raise_if (\<not> fc_regression_passed fcase)
          (u ''active lessons require a regression-backed failure case''),
        require_non_empty_string lesson_id (u ''lesson_id'') (Some MEMORY_ID_MAX_CHARS),
        require_supported_value memory_type (u ''memory_type'') SUPPORTED_MEMORY_TYPES,
        validate_lesson_contract rt lesson_text scope confidence,
        require_verified_failure_case fcase])
     (Inr \<lparr>ls_lesson_id = lesson_id, ls_source_case_id = fc_case_id fcase,
           ls_lesson_text = lesson_text, ls_memory_type = memory_type, ls_scope = scope,
           ls_confidence = confidence, ls_sensitive = False, ls_eval_leaking = False,
           ls_status = u ''active'', ls_created_at = None\<rparr>)"

definition obsolete_lesson :: "Lesson \<Rightarrow> Lesson" where
  "obsolete_lesson lesson = lesson\<lparr>ls_status := u ''obsolete''\<rparr>"

definition obsolete_project_policy :: "ProjectPolicy \<Rightarrow> ProjectPolicy" where
  "obsolete_project_policy policy = policy\<lparr>pp_status := u ''obsolete''\<rparr>"

section \<open>Memory items\<close>

definition complete_trace_source_identity :: "Trace option \<Rightarrow> pystr option \<times> pystr option" where
  "complete_trace_source_identity trace =
     (case trace of
        None \<Rightarrow> (None, None)
      | Some t \<Rightarrow>
          (case (tr_eval_suite t, tr_input_hash t) of
             (Some eval_suite, Some input_hash) \<Rightarrow>
               if eval_suite \<noteq> [] \<and> length eval_suite \<le> METADATA_VALUE_MAX_CHARS \<and>
                  input_hash \<noteq> [] \<and> length input_hash \<le> METADATA_VALUE_MAX_CHARS
               then (Some eval_suite, Some input_hash) else (None, None)
           | _ \<Rightarrow> (None, None)))"

text \<open>The fields of a trace that bound the scope of a memory, in the order they are read.\<close>

definition trace_scope_fields :: "Trace \<Rightarrow> (pystr \<times> pystr option) list" where
  "trace_scope_fields trace =
     [(u ''repo'', tr_repo trace), (u ''tenant'', tr_tenant trace), (u ''branch'', tr_branch trace),
      (u ''prompt_version'', tr_prompt_version trace), (u ''prompt_family'', tr_prompt_family trace),
      (u ''tool_schema_version'', tr_tool_schema_version trace), (u ''model'', tr_model trace),
      (u ''eval_suite'', tr_eval_suite trace)]"

definition tool_names :: "pydict list \<Rightarrow> pystr list" where
  "tool_names calls =
     remdups (List.map_filter
       (\<lambda>call. case dict_get call (PStr (u ''name'')) of
          Some (PStr name) \<Rightarrow> if name \<noteq> [] then Some name else None
        | _ \<Rightarrow> None) calls)"

definition failure_case_scope :: "FailureCase \<Rightarrow> Trace \<Rightarrow> (pystr, pystr) dict" where
  "failure_case_scope fcase trace =
     List.map_filter (\<lambda>(key, value). if truthy value then Some (key, the value) else None)
       (trace_scope_fields trace)
     @ (case tool_names (tr_tool_calls trace) of [name] \<Rightarrow> [(u ''tool'', name)] | _ \<Rightarrow> [])
     @ [(u ''failure_type'', fc_failure_type fcase)]"

definition line_if :: "string \<Rightarrow> pystr option \<Rightarrow> pystr list" where
  "line_if label value = (if truthy value then [u label @ the value] else [])"

definition failure_case_text :: "FailureCase \<Rightarrow> pystr" where
  "failure_case_text fcase =
     join nl ([u ''Failure: '' @ fc_symptom fcase]
       @ line_if ''Root cause: '' (fc_root_cause fcase) @ line_if ''Fix: '' (fc_fix fcase))"

definition failure_case_full_text :: "FailureCase \<Rightarrow> pystr" where
  "failure_case_full_text fcase =
     join nl ([failure_case_text fcase, u ''Source commit: '' @ fc_commit_sha fcase]
       @ line_if ''Fix commit: '' (fc_fix_commit_sha fcase)
       @ [if fc_regression_passed fcase then u ''Regression: passed'' else u ''Regression: not passed'']
       @ line_if ''Reviewed by: '' (fc_reviewed_by fcase))"

definition lesson_full_case_text :: "Lesson \<Rightarrow> FailureCase \<Rightarrow> pystr" where
  "lesson_full_case_text lesson fcase =
     join nl [u ''Lesson: '' @ ls_lesson_text lesson, failure_case_full_text fcase]"

definition memory_item_from_lesson :: "Lesson \<Rightarrow> Trace option \<Rightarrow> FailureCase option \<Rightarrow> MemoryItem result" where
  "memory_item_from_lesson lesson source_trace source_case =
     or_raise
       (case source_case of
          None \<Rightarrow> None
        | Some c \<Rightarrow> first_error
            [raise_if (fc_case_id c \<noteq> ls_source_case_id lesson)
               (u ''lesson source_case_id must match source_case''),
             (case source_trace of None \<Rightarrow> None
              | Some t \<Rightarrow> raise_if (fc_source_trace_id c \<noteq> tr_trace_id t)
                  (u ''source_case source_trace_id must match source_trace''))])
     (Inr \<lparr>mi_memory_id = ls_lesson_id lesson, mi_status = ls_status lesson,
           mi_memory_type = ls_memory_type lesson, mi_scope = ls_scope lesson,
           mi_text = ls_lesson_text lesson, mi_source_trace_id = None,
           mi_source_case_id = Some (ls_source_case_id lesson), mi_confidence = ls_confidence lesson,
           mi_sensitive = ls_sensitive lesson, mi_eval_leaking = ls_eval_leaking lesson,
           mi_source_policy_id = None,
           mi_source_eval_suite = fst (complete_trace_source_identity source_trace),
           mi_source_input_hash = snd (complete_trace_source_identity source_trace),
           mi_full_text = map_option (lesson_full_case_text lesson) source_case\<rparr>)"

definition memory_item_from_failure_case_for_audit :: "FailureCase \<Rightarrow> Trace \<Rightarrow> MemoryItem result" where
  "memory_item_from_failure_case_for_audit fcase trace =
     or_raise (first_error
       [raise_if (fc_source_trace_id fcase \<noteq> tr_trace_id trace)
          (u ''failure case source_trace_id must match trace''),
        raise_if (fc_commit_sha fcase \<noteq> tr_commit_sha trace)
          (u ''failure case commit_sha must match trace'')])
     (Inr \<lparr>mi_memory_id = fc_case_id fcase, mi_status = fc_status fcase,
           mi_memory_type = u ''episodic'', mi_scope = failure_case_scope fcase trace,
           mi_text = failure_case_text fcase, mi_source_trace_id = Some (tr_trace_id trace),
           mi_source_case_id = Some (fc_case_id fcase), mi_confidence = PyFloat 1,
           mi_sensitive = False, mi_eval_leaking = False, mi_source_policy_id = None,
           mi_source_eval_suite = fst (complete_trace_source_identity (Some trace)),
           mi_source_input_hash = snd (complete_trace_source_identity (Some trace)),
           mi_full_text = Some (failure_case_full_text fcase)\<rparr>)"

definition memory_item_from_failure_case :: "FailureCase \<Rightarrow> Trace \<Rightarrow> MemoryItem result" where
  "memory_item_from_failure_case fcase trace =
     or_raise (first_error
       [raise_if (fc_status fcase \<noteq> u ''verified'' \<or> \<not> fc_regression_passed fcase)
          (u ''failure case memory requires a verified regression-backed case''),
        raise_if (fc_source_trace_id fcase \<noteq> tr_trace_id trace)
          (u ''failure case source_trace_id must match trace''),
        raise_if (fc_commit_sha fcase \<noteq> tr_commit_sha trace)
          (u ''failure case commit_sha must match trace''),
        require_verified_failure_case fcase])
     (memory_item_from_failure_case_for_audit fcase trace)"

definition memory_item_from_project_policy :: "runtime \<Rightarrow> ProjectPolicy \<Rightarrow> MemoryItem result" where
  "memory_item_from_project_policy rt policy =
     or_raise (first_error
       [require_non_empty_string (pp_policy_id policy) (u ''policy_id'') None,
        require_supported_value (pp_status policy) (u ''status'') SUPPORTED_POLICY_STATUSES,
        validate_lesson_contract rt (pp_policy_text policy) (pp_scope policy) (pp_confidence policy)])
     (Inr \<lparr>mi_memory_id = pp_policy_id policy, mi_status = pp_status policy,
           mi_memory_type = u ''policy'', mi_scope = pp_scope policy, mi_text = pp_policy_text policy,
           mi_source_trace_id = None, mi_source_case_id = None,
           mi_confidence = pp_confidence policy, mi_sensitive = pp_sensitive policy,
           mi_eval_leaking = pp_eval_leaking policy, mi_source_policy_id = Some (pp_policy_id policy),
           mi_source_eval_suite = None, mi_source_input_hash = None, mi_full_text = None\<rparr>)"

section \<open>Evidence behind a verified case\<close>

lemma require_non_empty_string_None [simp]:
  "require_non_empty_string v name mx = None \<longleftrightarrow> \<not> blank v \<and> (\<forall>n. mx = Some n \<longrightarrow> length v \<le> n)"
  by (auto simp: require_non_empty_string_def not_less split: option.splits)

lemma require_present_string_None [simp]:
  "require_present_string v name mx = None \<longleftrightarrow>
     (\<exists>s. v = Some s \<and> \<not> blank s \<and> (\<forall>n. mx = Some n \<longrightarrow> length s \<le> n))"
  by (auto simp: require_present_string_def split: option.splits)

lemma require_optional_None [simp]:
  "require_optional_non_empty_string v name mx = None \<longleftrightarrow>
     (\<forall>s. v = Some s \<longrightarrow> \<not> blank s \<and> (\<forall>n. mx = Some n \<longrightarrow> length s \<le> n))"
  by (auto simp: require_optional_non_empty_string_def split: option.splits)

lemma require_supported_value_None [simp]:
  "require_supported_value v name vs = None \<longleftrightarrow> v \<in> set vs"
  by (simp add: require_supported_value_def)

lemma require_rfc3339_None [simp]:
  "require_rfc3339_timestamp t name = None \<longleftrightarrow> \<not> blank t \<and> parse_rfc3339 t \<noteq> None"
  by (auto simp: require_rfc3339_timestamp_def)

definition identified_case :: "FailureCase \<Rightarrow> bool" where
  "identified_case c \<longleftrightarrow>
     \<not> blank (fc_case_id c) \<and> length (fc_case_id c) \<le> MEMORY_ID_MAX_CHARS \<and>
     \<not> blank (fc_source_trace_id c) \<and> length (fc_source_trace_id c) \<le> MEMORY_ID_MAX_CHARS \<and>
     \<not> blank (fc_commit_sha c) \<and> length (fc_commit_sha c) \<le> METADATA_VALUE_MAX_CHARS"

definition described_case :: "FailureCase \<Rightarrow> bool" where
  "described_case c \<longleftrightarrow>
     \<not> blank (fc_failure_type c) \<and> length (fc_failure_type c) \<le> METADATA_VALUE_MAX_CHARS \<and>
     \<not> blank (fc_symptom c)"

definition reviewed_case :: "FailureCase \<Rightarrow> bool" where
  "reviewed_case c \<longleftrightarrow>
     (\<exists>who cause t. fc_reviewed_by c = Some who \<and> fc_root_cause c = Some cause \<and>
        fc_reviewed_at c = Some t \<and> \<not> blank who \<and> length who \<le> METADATA_VALUE_MAX_CHARS \<and>
        \<not> blank cause \<and> \<not> blank t \<and> parse_rfc3339 t \<noteq> None)"

definition fixed_case :: "FailureCase \<Rightarrow> bool" where
  "fixed_case c \<longleftrightarrow> fc_regression_passed c \<and>
     (\<exists>fix sha. fc_fix c = Some fix \<and> fc_fix_commit_sha c = Some sha \<and>
        \<not> blank fix \<and> \<not> blank sha \<and> length sha \<le> METADATA_VALUE_MAX_CHARS)"

text \<open>What stands behind a case whose status is verified: identity, description, review and fix.\<close>

definition verified_evidence :: "FailureCase \<Rightarrow> bool" where
  "verified_evidence c \<longleftrightarrow>
     fc_status c = u ''verified'' \<and> identified_case c \<and> described_case c \<and> reviewed_case c \<and> fixed_case c"

lemma require_identity_None [simp]: "require_failure_case_identity c = None \<longleftrightarrow> identified_case c"
  by (auto simp: require_failure_case_identity_def identified_case_def)

lemma require_core_None [simp]:
  "require_failure_case_core c = None \<longleftrightarrow> identified_case c \<and> described_case c"
  by (auto simp: require_failure_case_core_def described_case_def)

lemma require_completed_review_None [simp]: "require_completed_review c = None \<longleftrightarrow> reviewed_case c"
  by (auto simp: require_completed_review_def reviewed_case_def present_def split: option.splits)

lemma require_verified_None [simp]: "require_verified_failure_case c = None \<longleftrightarrow> verified_evidence c"
  by (auto simp: require_verified_failure_case_def verified_evidence_def fixed_case_def)

lemma utc_timestamp_not_blank: "\<not> blank (utc_timestamp rt)"
  by (simp add: utc_timestamp_def Let_def py_isspace_def)

lemma draft_failure_case_Inr:
  assumes "draft_failure_case t cid ft sy rc fx = Inr c"
  shows "tr_eval_result t \<in> {u ''fail'', u ''error''}" "fc_status c = u ''draft''"
    "identified_case c" "described_case c" "\<not> reviewed_case c" "\<not> fc_regression_passed c"
    "fc_case_id c = cid" "fc_source_trace_id c = tr_trace_id t" "fc_commit_sha c = tr_commit_sha t"
  using assms
  by (auto simp: draft_failure_case_def result_simps identified_case_def described_case_def reviewed_case_def)

lemma review_failure_case_Inr:
  assumes "review_failure_case rt c who cause ft sy notes ts = Inr c'" and "valid_clock rt"
  shows "fc_status c = u ''draft''" "fc_status c' = u ''draft''" "identified_case c'" "described_case c'"
    "reviewed_case c'" "fc_case_id c' = fc_case_id c" "fc_source_trace_id c' = fc_source_trace_id c"
    "fc_commit_sha c' = fc_commit_sha c" "fc_regression_passed c' = fc_regression_passed c"
  using assms parse_utc_timestamp [OF assms(2)] utc_timestamp_not_blank [of rt]
  by (auto simp: review_failure_case_def result_simps identified_case_def described_case_def
      reviewed_case_def given_or_def split: option.splits)

lemma verify_failure_case_Inr_iff:
  "verify_failure_case c fix sha passed = Inr c' \<longleftrightarrow>
     fc_status c = u ''draft'' \<and> identified_case c \<and> described_case c \<and> reviewed_case c \<and> passed \<and>
     \<not> blank fix \<and> \<not> blank sha \<and> length sha \<le> METADATA_VALUE_MAX_CHARS \<and>
     c' = c\<lparr>fc_status := u ''verified'', fc_fix := Some fix, fc_fix_commit_sha := Some sha,
            fc_regression_passed := True\<rparr>"
  by (auto simp: verify_failure_case_def result_simps)

lemma verify_failure_case_evidence:
  "verify_failure_case c fix sha passed = Inr c' \<Longrightarrow> verified_evidence c'"
  by (auto simp: verify_failure_case_Inr_iff verified_evidence_def identified_case_def
      described_case_def reviewed_case_def fixed_case_def)

lemma lesson_from_failure_case_Inr:
  assumes "lesson_from_failure_case rt c lid txt mt sc conf = Inr l"
  shows "verified_evidence c" "ls_source_case_id l = fc_case_id c" "ls_status l = u ''active''"
    "ls_lesson_id l = lid" "validate_lesson_contract rt txt sc conf = None" "mt \<in> set SUPPORTED_MEMORY_TYPES"
  using assms by (auto simp: lesson_from_failure_case_def result_simps)

text \<open>The life of a case outside a store: what the transitions of the module can make of a draft.\<close>

inductive case_step :: "runtime \<Rightarrow> FailureCase \<Rightarrow> FailureCase \<Rightarrow> bool" for rt where
  review: "review_failure_case rt c who cause ft sy notes ts = Inr c' \<Longrightarrow> case_step rt c c'"
| verify: "verify_failure_case c fix sha passed = Inr c' \<Longrightarrow> case_step rt c c'"
| obsolete: "case_step rt c (obsolete_failure_case c)"

inductive_cases case_stepE: "case_step rt c c'"

lemma case_step_status:
  assumes "case_step rt c c'" and "valid_clock rt"
  shows "fc_status c' = u ''verified'' \<Longrightarrow> verified_evidence c' \<and> fc_status c = u ''draft'' \<and> reviewed_case c"
    and "fc_status c' = u ''draft'' \<Longrightarrow> fc_status c = u ''draft''"
    and "fc_case_id c' = fc_case_id c" "fc_source_trace_id c' = fc_source_trace_id c"
      "fc_commit_sha c' = fc_commit_sha c"
  using assms
  by (auto elim!: case_stepE dest: review_failure_case_Inr verify_failure_case_evidence
      simp: verify_failure_case_Inr_iff obsolete_failure_case_def)

end
