(* ===== verification/TraceJson.thy ===== *)
theory TraceJson
  imports Lifecycle
begin

text \<open>
  The budget of the JSON that a trace carries (\<^verbatim>\<open>_TraceJSONBudget\<close>,
  \<^verbatim>\<open>_validate_json_object_list\<close> and \<^verbatim>\<open>_validate_json_value\<close> of \<^verbatim>\<open>store.py\<close>): one budget of
  nodes and UTF-8 bytes for the three lists of a trace, and a nesting limit for each value. The
  frames of the source that mark the end of a container serve its cycle check; values here are
  finite trees, so there is nothing for them to find. The last section shows that the walk accepts
  exactly the lists within the limits.
\<close>

abbreviation "TRACE_JSON_MAX_DEPTH \<equiv> (100 :: nat)"
abbreviation "TRACE_JSON_MAX_NODES \<equiv> (100000 :: nat)"
abbreviation "TRACE_JSON_MAX_TEXT_BYTES \<equiv> (8388608 :: nat)"

record TraceJSONBudget =
  tb_node_count :: nat
  tb_text_bytes :: nat

definition too_many_json_nodes :: py_error where
  "too_many_json_nodes =
     ValueError (u ''trace JSON contains more than '' @ str_nat TRACE_JSON_MAX_NODES @ u '' nodes'')"

definition consume_node :: "TraceJSONBudget \<Rightarrow> TraceJSONBudget result" where
  "consume_node budget =
     (if TRACE_JSON_MAX_NODES \<le> tb_node_count budget then Inl too_many_json_nodes
      else Inr (budget\<lparr>tb_node_count := Suc (tb_node_count budget)\<rparr>))"

definition ensure_child_capacity :: "TraceJSONBudget \<Rightarrow> nat \<Rightarrow> py_error option" where
  "ensure_child_capacity budget child_count =
     (if TRACE_JSON_MAX_NODES - tb_node_count budget < child_count then Some too_many_json_nodes
      else None)"

definition consume_json_text :: "TraceJSONBudget \<Rightarrow> pystr \<Rightarrow> pystr \<Rightarrow> TraceJSONBudget result" where
  "consume_json_text budget value path =
     (let remaining = TRACE_JSON_MAX_TEXT_BYTES - tb_text_bytes budget;
          exceeds = ValueError (u ''trace JSON text exceeds '' @ str_nat TRACE_JSON_MAX_TEXT_BYTES @
            u '' UTF-8 bytes at '' @ path)
      in if remaining < length value then Inl exceeds
         else case utf8_size value of
           None \<Rightarrow> Inl (ValueError (u ''trace '' @ path @ u '' must be UTF-8 encodable''))
         | Some encoded_bytes \<Rightarrow>
             if remaining < encoded_bytes then Inl exceeds
             else Inr (budget\<lparr>tb_text_bytes := tb_text_bytes budget + encoded_bytes\<rparr>))"

definition validate_json_integer :: "runtime \<Rightarrow> int \<Rightarrow> pystr \<Rightarrow> py_error option" where
  "validate_json_integer rt value path =
     raise_if (\<not> int_fits rt value)
       (u ''trace '' @ path @ u '' integer exceeds JSON serialization limits'')"

definition validate_json_number :: "runtime \<Rightarrow> pynum \<Rightarrow> pystr \<Rightarrow> py_error option" where
  "validate_json_number rt value path =
     (case value of
        PyInt n \<Rightarrow> validate_json_integer rt n path
      | _ \<Rightarrow> raise_if (\<not> is_finite_number value)
               (u ''trace '' @ path @ u '' must be a finite JSON number''))"

definition child_path :: "runtime \<Rightarrow> pystr \<Rightarrow> pystr \<Rightarrow> pystr" where
  "child_path rt path key =
     (if rt_is_identifier rt key then path @ u ''.'' @ key
      else path @ u ''['' @ json_dumps_str key @ u '']'')"

fun consume_object_keys :: "TraceJSONBudget \<Rightarrow> pystr \<Rightarrow> pyval list \<Rightarrow> TraceJSONBudget result" where
  "consume_object_keys budget path [] = Inr budget"
| "consume_object_keys budget path (PStr key # keys) =
     rbind (consume_json_text budget key (path @ u '' object key''))
       (\<lambda>budget. consume_object_keys budget path keys)"
| "consume_object_keys budget path (_ # keys) =
     Inl (ValueError (u ''trace '' @ path @ u '' object keys must be strings''))"

type_synonym json_frame = "pyval \<times> pystr \<times> nat"

definition list_frames :: "pystr \<Rightarrow> nat \<Rightarrow> pyval list \<Rightarrow> json_frame list" where
  "list_frames path depth xs =
     map (\<lambda>(i, x). (x, path @ u ''['' @ str_nat i @ u '']'', Suc depth)) (zip [0..<length xs] xs)"

definition dict_frames :: "runtime \<Rightarrow> pystr \<Rightarrow> nat \<Rightarrow> pydict \<Rightarrow> json_frame list" where
  "dict_frames rt path depth d = map (\<lambda>(k, x). (x, child_path rt path (str_of k), Suc depth)) d"

lemma list_frames_values [simp]: "map fst (list_frames path depth xs) = xs"
  unfolding list_frames_def by (induction xs rule: rev_induct) (auto simp: comp_def case_prod_beta)

lemma dict_frames_values [simp]: "map fst (dict_frames rt path depth d) = map snd d"
  unfolding dict_frames_def by (auto simp: case_prod_beta)

function json_walk :: "runtime \<Rightarrow> TraceJSONBudget \<Rightarrow> json_frame list \<Rightarrow> TraceJSONBudget result" where
  "json_walk rt budget [] = Inr budget"
| "json_walk rt budget ((current, path, depth) # stack) =
     (case consume_node budget of
        Inl e \<Rightarrow> Inl e
      | Inr budget \<Rightarrow>
         (case current of
            PNone \<Rightarrow> json_walk rt budget stack
          | PBool b \<Rightarrow> json_walk rt budget stack
          | PStr s \<Rightarrow>
              (case consume_json_text budget s path of
                 Inl e \<Rightarrow> Inl e | Inr budget \<Rightarrow> json_walk rt budget stack)
          | PNum n \<Rightarrow>
              (case validate_json_number rt n path of
                 Some e \<Rightarrow> Inl e | None \<Rightarrow> json_walk rt budget stack)
          | PyOther t \<Rightarrow>
              Inl (ValueError (u ''trace '' @ path @ u '' must contain only JSON semantic values''))
          | PList xs \<Rightarrow>
              if TRACE_JSON_MAX_DEPTH \<le> depth
              then Inl (ValueError (u ''trace '' @ path @ u '' exceeds maximum nesting depth '' @
                     str_nat TRACE_JSON_MAX_DEPTH))
              else (case ensure_child_capacity budget (length xs) of
                 Some e \<Rightarrow> Inl e
               | None \<Rightarrow> json_walk rt budget (list_frames path depth xs @ stack))
          | PDict d \<Rightarrow>
              if TRACE_JSON_MAX_DEPTH \<le> depth
              then Inl (ValueError (u ''trace '' @ path @ u '' exceeds maximum nesting depth '' @
                     str_nat TRACE_JSON_MAX_DEPTH))
              else (case ensure_child_capacity budget (length d) of
                 Some e \<Rightarrow> Inl e
               | None \<Rightarrow>
                   (case consume_object_keys budget path (rev (map fst d)) of
                      Inl e \<Rightarrow> Inl e
                    | Inr budget \<Rightarrow> json_walk rt budget (dict_frames rt path depth d @ stack)))))"
  by pat_completeness auto

termination json_walk
  by (relation "measure (\<lambda>(rt, budget, stack). work (map fst stack))")
     (auto intro: work_PList work_PDict work_Cons)

declare json_walk.simps(2) [simp del]

definition validate_json_value :: "runtime \<Rightarrow> pyval \<Rightarrow> pystr \<Rightarrow> TraceJSONBudget \<Rightarrow> TraceJSONBudget result" where
  "validate_json_value rt value root_path budget = json_walk rt budget [(value, root_path, 0)]"

definition validate_json_object_list ::
  "runtime \<Rightarrow> pydict list \<Rightarrow> pystr \<Rightarrow> TraceJSONBudget \<Rightarrow> TraceJSONBudget result" where
  "validate_json_object_list rt value field_name budget =
     rbind (consume_node budget) (\<lambda>budget.
     or_raise (ensure_child_capacity budget (length value))
     (rfold (\<lambda>(i, item) budget.
          validate_json_value rt (PDict item) (field_name @ u ''['' @ str_nat i @ u '']'') budget)
        (zip [0..<length value] value) budget))"

section \<open>The budget accepts exactly the values within the limits\<close>

text \<open>The bytes of a list of strings that can all be encoded.\<close>

definition text_bytes :: "pystr list \<Rightarrow> nat" where
  "text_bytes ss = sum_list (map (\<lambda>s. the (utf8_size s)) ss)"

lemma text_size_bytes: "text_size ss = Some m \<Longrightarrow> m = text_bytes ss"
  by (induction ss arbitrary: m) (auto simp: text_bytes_def split: option.splits)

lemma text_bytes_append [simp]: "text_bytes (ss @ ts) = text_bytes ss + text_bytes ts"
  by (simp add: text_bytes_def)

lemma text_bytes_cong: "mset ss = mset ts \<Longrightarrow> text_bytes ss = text_bytes ts"
  unfolding text_bytes_def by (metis mset_map sum_mset_sum_list)

definition frame_value :: "json_frame \<Rightarrow> pyval \<times> nat" where
  "frame_value f = (fst f, snd (snd f))"

lemma frame_value_simp [simp]: "frame_value (v, path, d) = (v, d)"
  by (simp add: frame_value_def)

lemma frames_value [simp]:
  "map frame_value (list_frames path depth xs) = map (\<lambda>x. (x, Suc depth)) xs"
  "map frame_value (dict_frames rt path depth d) = map (\<lambda>x. (x, Suc depth)) (map snd d)"
proof -
  have "map frame_value (list_frames path depth xs) = map (\<lambda>x. (x, Suc depth)) (map snd (zip [0..<length xs] xs))"
    unfolding list_frames_def frame_value_def map_map by (rule map_cong) auto
  then show "map frame_value (list_frames path depth xs) = map (\<lambda>x. (x, Suc depth)) xs" by simp
  show "map frame_value (dict_frames rt path depth d) = map (\<lambda>x. (x, Suc depth)) (map snd d)"
    unfolding dict_frames_def frame_value_def map_map by (rule map_cong) auto
qed

abbreviation trace_stack_ok :: "runtime \<Rightarrow> TraceJSONBudget \<Rightarrow> (pyval \<times> nat) list \<Rightarrow> bool" where
  "trace_stack_ok rt budget \<equiv>
     stack_ok (json_number_ok rt) 1 TRACE_JSON_MAX_NODES TRACE_JSON_MAX_TEXT_BYTES TRACE_JSON_MAX_DEPTH
       (tb_node_count budget) (tb_text_bytes budget)"

text \<open>The budget after the given values.\<close>

definition spend :: "TraceJSONBudget \<Rightarrow> pyval list \<Rightarrow> TraceJSONBudget" where
  "spend budget vs =
     budget\<lparr>tb_node_count := tb_node_count budget + sum_list (map json_nodes vs),
            tb_text_bytes := tb_text_bytes budget + text_bytes (concat (map json_strings vs))\<rparr>"

definition budget_ok :: "TraceJSONBudget \<Rightarrow> bool" where
  "budget_ok budget \<longleftrightarrow>
     tb_node_count budget \<le> TRACE_JSON_MAX_NODES \<and> tb_text_bytes budget \<le> TRACE_JSON_MAX_TEXT_BYTES"

lemma consume_node_Inr_iff:
  "consume_node budget = Inr b \<longleftrightarrow>
     tb_node_count budget < TRACE_JSON_MAX_NODES \<and> b = budget\<lparr>tb_node_count := Suc (tb_node_count budget)\<rparr>"
  by (auto simp: consume_node_def not_le)

lemma consume_json_text_Inr_iff:
  "consume_json_text budget s path = Inr b \<longleftrightarrow>
     (\<exists>m. utf8_size s = Some m \<and> m \<le> TRACE_JSON_MAX_TEXT_BYTES - tb_text_bytes budget \<and>
        b = budget\<lparr>tb_text_bytes := tb_text_bytes budget + m\<rparr>)"
  using utf8_size_bounds [of s]
  by (auto simp: consume_json_text_def Let_def not_less split: option.splits if_splits)

lemma consume_object_keys_Inr_iff:
  "budget_ok budget \<Longrightarrow> consume_object_keys budget path ks = Inr b \<longleftrightarrow>
     list_all is_str ks \<and>
     (\<exists>m. text_size (map str_of ks) = Some m \<and> m \<le> TRACE_JSON_MAX_TEXT_BYTES - tb_text_bytes budget \<and>
        b = budget\<lparr>tb_text_bytes := tb_text_bytes budget + m\<rparr>)"
proof (induction budget path ks rule: consume_object_keys.induct)
  case (2 budget path key keys)
  show ?case
  proof (cases "consume_json_text budget key (path @ u '' object key'')")
    case (Inl e)
    then have "\<forall>b. consume_json_text budget key (path @ u '' object key'') \<noteq> Inr b" by simp
    then have "\<not> (\<exists>m. utf8_size key = Some m \<and> m \<le> TRACE_JSON_MAX_TEXT_BYTES - tb_text_bytes budget)"
      by (auto simp: consume_json_text_Inr_iff)
    with Inl show ?thesis by (auto split: option.splits)
  next
    case (Inr b1)
    then obtain m where m: "utf8_size key = Some m" "m \<le> TRACE_JSON_MAX_TEXT_BYTES - tb_text_bytes budget"
        "b1 = budget\<lparr>tb_text_bytes := tb_text_bytes budget + m\<rparr>"
      by (auto simp: consume_json_text_Inr_iff)
    moreover from m "2.prems" have "budget_ok b1" by (auto simp: budget_ok_def)
    ultimately show ?thesis using "2.IH" [of b1] Inr
      by (auto simp: is_str_def add.assoc split: option.splits)
  qed
qed (auto simp: is_str_def)

lemma validate_json_number_None:
  "validate_json_number rt n path = None \<longleftrightarrow> json_number_ok rt n"
  by (auto simp: validate_json_number_def validate_json_integer_def json_number_ok_def split: pynum.splits)

lemma spend_Nil [simp]: "spend budget [] = budget"
  by (simp add: spend_def text_bytes_def)

lemma spend_leaf:
  "json_nodes v = 1 \<Longrightarrow> json_strings v = [] \<Longrightarrow>
     spend budget (v # vs) = spend (budget\<lparr>tb_node_count := Suc (tb_node_count budget)\<rparr>) vs"
  by (simp add: spend_def)

lemma spend_PStr:
  "utf8_size s = Some m \<Longrightarrow>
     spend budget (PStr s # vs) =
       spend (budget\<lparr>tb_node_count := Suc (tb_node_count budget), tb_text_bytes := tb_text_bytes budget + m\<rparr>) vs"
  by (simp add: spend_def text_bytes_def)

lemma spend_PList:
  "spend budget (PList xs # vs) = spend (budget\<lparr>tb_node_count := Suc (tb_node_count budget)\<rparr>) (xs @ vs)"
  by (simp add: spend_def)

lemma spend_PDict:
  assumes "list_all is_str (map fst d)" and "text_size (map str_of (rev (map fst d))) = Some m"
  shows "spend budget (PDict d # vs) =
    spend (budget\<lparr>tb_node_count := Suc (tb_node_count budget), tb_text_bytes := tb_text_bytes budget + m\<rparr>)
      (map snd d @ vs)"
proof -
  have "text_bytes (json_strings (PDict d)) =
      text_bytes (map str_of (rev (map fst d)) @ concat (map (\<lambda>kv. json_strings (snd kv)) d))"
    by (rule text_bytes_cong) (simp add: dict_strings [OF assms(1)])
  then have "text_bytes (json_strings (PDict d)) = m + text_bytes (concat (map (\<lambda>kv. json_strings (snd kv)) d))"
    using text_size_bytes [OF assms(2)] by simp
  then show ?thesis by (simp add: spend_def comp_def del: json_strings.simps)
qed

lemma spend_append: "spend budget (vs @ ws) = spend (spend budget vs) ws"
  by (simp add: spend_def)

lemma json_walk_Inr_iff:
  "budget_ok budget \<Longrightarrow> json_walk rt budget st = Inr b \<longleftrightarrow>
     trace_stack_ok rt budget (map frame_value st) \<and> b = spend budget (map fst st)"
proof (induction rt budget st rule: json_walk.induct)
  case (1 rt budget)
  then show ?case by (auto simp: stack_ok_def budget_ok_def)
next
  case (2 rt budget v path depth st)
  let ?b1 = "budget\<lparr>tb_node_count := Suc (tb_node_count budget)\<rparr>"
  show ?case
  proof (cases "tb_node_count budget < TRACE_JSON_MAX_NODES")
    case False
    then show ?thesis using stack_ok_nodes by (fastforce simp: json_walk.simps consume_node_def)
  next
    case True
    then have node: "consume_node budget = Inr ?b1" by (simp add: consume_node_Inr_iff)
    have ok1: "budget_ok ?b1" using True "2.prems" by (simp add: budget_ok_def)
    show ?thesis
    proof (cases v)
      case (PStr s)
      show ?thesis
      proof (cases "consume_json_text ?b1 s path")
        case (Inl e)
        then have "\<forall>b. consume_json_text ?b1 s path \<noteq> Inr b" by simp
        then have "\<not> (\<exists>m. utf8_size s = Some m \<and> m \<le> TRACE_JSON_MAX_TEXT_BYTES - tb_text_bytes budget)"
          by (auto simp: consume_json_text_Inr_iff)
        then show ?thesis using Inl PStr node by (auto simp: json_walk.simps stack_ok_PStr)
      next
        case (Inr b2)
        then obtain m where m: "utf8_size s = Some m" "m \<le> TRACE_JSON_MAX_TEXT_BYTES - tb_text_bytes budget"
            "b2 = ?b1\<lparr>tb_text_bytes := tb_text_bytes budget + m\<rparr>"
          by (auto simp: consume_json_text_Inr_iff)
        with ok1 have "budget_ok b2" by (auto simp: budget_ok_def)
        from "2.IH"(4) [OF node PStr Inr this] show ?thesis
          using Inr PStr node m by (simp add: json_walk.simps stack_ok_PStr spend_PStr)
      qed
    next
      case (PList xs)
      then show ?thesis
        using "2.IH"(5) [OF node PList] node ok1
        by (auto simp: json_walk.simps stack_ok_PList spend_PList not_le
            ensure_child_capacity_def dest: stack_ok_length)
    next
      case (PDict d)
      show ?thesis
      proof (cases "consume_object_keys ?b1 path (rev (map fst d))")
        case (Inl e)
        then have "\<forall>b. consume_object_keys ?b1 path (rev (map fst d)) \<noteq> Inr b" by simp
        then have "\<not> (list_all is_str (map fst d) \<and> (\<exists>m. text_size (map str_of (rev (map fst d))) = Some m \<and>
            m \<le> TRACE_JSON_MAX_TEXT_BYTES - tb_text_bytes budget))"
          using ok1 by (auto simp: consume_object_keys_Inr_iff list_all_rev)
        then show ?thesis using Inl PDict node
          by (auto simp: json_walk.simps stack_ok_PDict split: option.splits)
      next
        case (Inr b2)
        then obtain m where m: "list_all is_str (map fst d)" "text_size (map str_of (rev (map fst d))) = Some m"
            "m \<le> TRACE_JSON_MAX_TEXT_BYTES - tb_text_bytes budget"
            "b2 = ?b1\<lparr>tb_text_bytes := tb_text_bytes budget + m\<rparr>"
          using ok1 by (auto simp: consume_object_keys_Inr_iff list_all_rev)
        with ok1 have "budget_ok b2" by (auto simp: budget_ok_def)
        with "2.IH"(6) [OF node PDict _ _ Inr] show ?thesis
          using Inr PDict node m
          by (auto simp: json_walk.simps stack_ok_PDict spend_PDict not_le not_less
            ensure_child_capacity_def simp del: map_map dest: stack_ok_length)
      qed
    next
      case (PNum n)
      with "2.IH"(3) [OF node PNum _ ok1] node validate_json_number_None [of rt n path] show ?thesis
        by (cases "validate_json_number rt n path") (auto simp: json_walk.simps stack_ok_leaf spend_leaf)
    qed (use "2.IH"(1,2) [OF node _ ok1] node in
        \<open>simp_all add: json_walk.simps stack_ok_leaf spend_leaf\<close>)
  qed
qed

lemma stack_ok_append:
  "stack_ok p e N B D n b (st @ st') \<longleftrightarrow>
     stack_ok p e N B D n b st \<and>
     stack_ok p e N B D (n + sum_list (map (\<lambda>f. json_nodes (fst f)) st))
       (b + text_bytes (concat (map (\<lambda>f. json_strings (fst f)) st))) st'"
  by (auto simp: stack_ok_def text_fits_append text_fits_def [of "concat (map (\<lambda>f. json_strings (fst f)) st)"]
      dest: text_size_bytes)

lemma trace_stack_ok_append:
  "trace_stack_ok rt budget (st @ st') \<longleftrightarrow>
     trace_stack_ok rt budget st \<and> trace_stack_ok rt (spend budget (map fst st)) st'"
  by (simp add: stack_ok_append spend_def comp_def)

lemma spend_budget_ok:
  "budget_ok budget \<Longrightarrow> trace_stack_ok rt budget st \<Longrightarrow> budget_ok (spend budget (map fst st))"
  by (auto simp: budget_ok_def spend_def stack_ok_def text_fits_def comp_def dest: text_size_bytes)

lemma rfold_json_items:
  assumes "\<And>i d b. f (i, d) b = validate_json_value rt (PDict d) (path i) b"
  shows "budget_ok budget \<Longrightarrow> rfold f (zip is ds) budget = Inr b \<longleftrightarrow>
     trace_stack_ok rt budget (map (\<lambda>d. (PDict d, 0)) (map snd (zip is ds))) \<and>
     b = spend budget (map PDict (map snd (zip is ds)))"
proof (induction "is" ds arbitrary: budget rule: list_induct2')
  case (4 i "is" d ds)
  show ?case
  proof (cases "f (i, d) budget")
    case (Inl e)
    then have "\<forall>b. validate_json_value rt (PDict d) (path i) budget \<noteq> Inr b" by (simp add: assms)
    then have "\<not> trace_stack_ok rt budget [(PDict d, 0)]"
      using "4.prems" by (auto simp: validate_json_value_def json_walk_Inr_iff)
    then show ?thesis
      using Inl trace_stack_ok_append [of rt budget "[(PDict d, 0)]" "map (\<lambda>d. (PDict d, 0)) (map snd (zip is ds))"]
      by auto
  next
    case (Inr b1)
    then have b1: "trace_stack_ok rt budget [(PDict d, 0)]" "b1 = spend budget [PDict d]"
      using "4.prems" by (simp_all add: assms validate_json_value_def json_walk_Inr_iff)
    then have "budget_ok b1" using spend_budget_ok [OF "4.prems" b1(1)] by simp
    from "4.IH" [OF this] Inr b1 show ?thesis
      using trace_stack_ok_append [of rt budget "[(PDict d, 0)]" "map (\<lambda>d. (PDict d, 0)) (map snd (zip is ds))"]
        spend_append [of budget "[PDict d]" "map PDict (map snd (zip is ds))"]
      by (simp only: zip_Cons_Cons rfold.simps rbind_simps list.map snd_conv append_Cons append_Nil fst_conv) simp
  qed
qed (auto simp: stack_ok_def budget_ok_def)

definition json_list :: "pydict list \<Rightarrow> pyval" where
  "json_list ds = PList (map PDict ds)"

lemma validate_json_object_list_Inr_iff:
  assumes "budget_ok budget"
  shows "validate_json_object_list rt ds name budget = Inr b \<longleftrightarrow>
     tb_node_count budget < TRACE_JSON_MAX_NODES \<and>
     trace_stack_ok rt (budget\<lparr>tb_node_count := Suc (tb_node_count budget)\<rparr>) (map (\<lambda>d. (PDict d, 0)) ds) \<and>
     b = spend budget [json_list ds]"
proof (cases "tb_node_count budget < TRACE_JSON_MAX_NODES")
  case False
  then show ?thesis by (simp add: validate_json_object_list_def consume_node_def)
next
  case True
  let ?b1 = "budget\<lparr>tb_node_count := Suc (tb_node_count budget)\<rparr>"
  have ok1: "budget_ok ?b1" using True assms by (simp add: budget_ok_def)
  have node: "consume_node budget = Inr ?b1" using True by (simp add: consume_node_Inr_iff)
  have cap: "ensure_child_capacity ?b1 (length ds) = None"
    if "trace_stack_ok rt ?b1 (map (\<lambda>d. (PDict d, 0)) ds)"
    using stack_ok_length [of "json_number_ok rt" 1 TRACE_JSON_MAX_NODES TRACE_JSON_MAX_TEXT_BYTES
        TRACE_JSON_MAX_DEPTH "tb_node_count budget" "tb_text_bytes budget" 0 "map PDict ds" "[]"] that
    by (simp add: ensure_child_capacity_def comp_def)
  show ?thesis
    unfolding validate_json_object_list_def node rbind_simps or_raise_Inr_iff
    using cap True
    by (auto simp: rfold_json_items [OF _ ok1, of _ rt] spend_PList json_list_def)
qed

definition validate_trace_json :: "runtime \<Rightarrow> Trace \<Rightarrow> TraceJSONBudget result" where
  "validate_trace_json rt trace =
     rbind (validate_json_object_list rt (tr_retrieved_context trace) (u ''retrieved_context'')
              \<lparr>tb_node_count = 0, tb_text_bytes = 0\<rparr>) (\<lambda>json_budget.
     rbind (validate_json_object_list rt (tr_tool_calls trace) (u ''tool_calls'') json_budget) (\<lambda>json_budget.
     validate_json_object_list rt (tr_tool_outputs trace) (u ''tool_outputs'') json_budget))"

text \<open>What the three lists of a trace must satisfy together.\<close>

definition json_items_ok :: "runtime \<Rightarrow> pydict list \<Rightarrow> bool" where
  "json_items_ok rt ds \<longleftrightarrow>
     (\<forall>d\<in>set ds. json_ok (json_number_ok rt) (PDict d) \<and> json_depth 1 (PDict d) \<le> TRACE_JSON_MAX_DEPTH)"

definition trace_json_within :: "runtime \<Rightarrow> Trace \<Rightarrow> bool" where
  "trace_json_within rt trace \<longleftrightarrow>
     (let lists = [tr_retrieved_context trace, tr_tool_calls trace, tr_tool_outputs trace];
          values = map json_list lists
      in sum_list (map json_nodes values) \<le> TRACE_JSON_MAX_NODES \<and>
         json_items_ok rt (concat lists) \<and>
         text_fits (concat (map json_strings values)) TRACE_JSON_MAX_TEXT_BYTES)"

lemma validate_json_object_list_ok:
  assumes "budget_ok budget"
  shows "validate_json_object_list rt ds name budget = Inr b \<longleftrightarrow>
     tb_node_count budget + json_nodes (json_list ds) \<le> TRACE_JSON_MAX_NODES \<and> json_items_ok rt ds \<and>
     text_fits (json_strings (json_list ds)) (TRACE_JSON_MAX_TEXT_BYTES - tb_text_bytes budget) \<and>
     b = spend budget [json_list ds]"
proof -
  have depth: "0 < json_depth 1 (PDict d)" for d by simp
  have "list_all (frame_ok (json_number_ok rt) 1 TRACE_JSON_MAX_DEPTH) (map (\<lambda>d. (PDict d, 0)) ds)
      \<longleftrightarrow> json_items_ok rt ds"
    unfolding json_items_ok_def frame_ok_def list_all_iff using depth by (auto simp del: json_depth.simps)
  then show ?thesis
    unfolding validate_json_object_list_Inr_iff [OF assms] stack_ok_def json_list_def
    by (auto simp: comp_def)
qed

lemma spend_list_ok:
  "budget_ok budget \<Longrightarrow> validate_json_object_list rt ds name budget = Inr b \<Longrightarrow> budget_ok b"
  by (auto simp: validate_json_object_list_ok budget_ok_def spend_def text_fits_def dest: text_size_bytes)

lemma text_fits_append_bytes:
  "text_fits (ss @ ts) n \<longleftrightarrow> text_fits ss n \<and> text_fits ts (n - text_bytes ss)"
  by (auto simp: text_fits_def text_size_append dest: text_size_bytes split: option.splits)

lemma validate_trace_json_exact:
  "(\<exists>b. validate_trace_json rt t = Inr b) \<longleftrightarrow> trace_json_within rt t"
proof -
  let ?b0 = "\<lparr>tb_node_count = 0, tb_text_bytes = 0\<rparr>"
  let ?v = "\<lambda>ds. json_strings (json_list ds)" and ?n = "\<lambda>ds. json_nodes (json_list ds)"
  let ?ok = "\<lambda>bu ds. tb_node_count bu + ?n ds \<le> TRACE_JSON_MAX_NODES \<and> json_items_ok rt ds \<and>
    text_fits (?v ds) (TRACE_JSON_MAX_TEXT_BYTES - tb_text_bytes bu)"
  let ?b1 = "spend ?b0 [json_list (tr_retrieved_context t)]"
  let ?b2 = "spend ?b1 [json_list (tr_tool_calls t)]"
  have b0: "budget_ok ?b0" by (simp add: budget_ok_def)
  have b1: "budget_ok ?b1" if "?ok ?b0 (tr_retrieved_context t)"
    using spend_list_ok [OF b0] that by (simp add: validate_json_object_list_ok [OF b0])
  have b2: "budget_ok ?b2" if "?ok ?b0 (tr_retrieved_context t)" "?ok ?b1 (tr_tool_calls t)"
    using spend_list_ok [OF b1] that by (simp add: validate_json_object_list_ok [OF b1])
  have "(\<exists>b. validate_trace_json rt t = Inr b) \<longleftrightarrow>
      ?ok ?b0 (tr_retrieved_context t) \<and> ?ok ?b1 (tr_tool_calls t) \<and> ?ok ?b2 (tr_tool_outputs t)" (is "?L \<longleftrightarrow> ?R")
  proof
    assume ?L
    then obtain x y b where v: "validate_json_object_list rt (tr_retrieved_context t) (u ''retrieved_context'') ?b0 = Inr x"
        "validate_json_object_list rt (tr_tool_calls t) (u ''tool_calls'') x = Inr y"
        "validate_json_object_list rt (tr_tool_outputs t) (u ''tool_outputs'') y = Inr b"
      unfolding validate_trace_json_def rbind_Inr_iff by blast
    from v(1) have 1: "?ok ?b0 (tr_retrieved_context t)" "x = ?b1"
      by (simp_all only: validate_json_object_list_ok [OF b0])
    from v(2) have 2: "?ok ?b1 (tr_tool_calls t)" "y = ?b2"
      unfolding 1(2) by (simp_all only: validate_json_object_list_ok [OF b1 [OF 1(1)]])
    from v(3) have "?ok ?b2 (tr_tool_outputs t)"
      unfolding 2(2) by (simp_all only: validate_json_object_list_ok [OF b2 [OF 1(1) 2(1)]])
    with 1 2 show ?R by blast
  next
    assume r: ?R
    then have "validate_json_object_list rt (tr_retrieved_context t) (u ''retrieved_context'') ?b0 = Inr ?b1"
      unfolding validate_json_object_list_ok [OF b0] by blast
    moreover from r have "validate_json_object_list rt (tr_tool_calls t) (u ''tool_calls'') ?b1 = Inr ?b2"
      unfolding validate_json_object_list_ok [OF b1 [OF conjunct1 [OF r]]] by blast
    moreover from r have "\<exists>b. validate_json_object_list rt (tr_tool_outputs t) (u ''tool_outputs'') ?b2 = Inr b"
      unfolding validate_json_object_list_ok [OF b2 [OF conjunct1 [OF r] conjunct1 [OF conjunct2 [OF r]]]] by blast
    ultimately show ?L unfolding validate_trace_json_def rbind_Inr_iff by blast
  qed
  also have "\<dots> \<longleftrightarrow> trace_json_within rt t"
    unfolding trace_json_within_def Let_def spend_def
    by (auto simp: text_fits_append_bytes json_items_ok_def)
  finally show ?thesis .
qed

end
