(* ===== verification/Validation.thy ===== *)
theory Validation
  imports TraceJson
begin

text \<open>
  The record validators of \<^verbatim>\<open>store.py\<close>: what a trace, a failure case, a lesson, a project policy
  and a usage log must satisfy to be stored. Each is a sequence of checks in the order of the
  source, the first failing one being raised. Checks that a value has the annotated type have no
  counterpart, since the fields of the records are typed.
\<close>

definition EVAL_RESULTS :: "pystr list" where
  "EVAL_RESULTS = [u ''pass'', u ''fail'', u ''error'', u ''unknown'']"

definition EVALUATED_RESULTS :: "pystr list" where
  "EVALUATED_RESULTS = [u ''pass'', u ''fail'', u ''error'']"

definition FAILURE_CASE_STATUSES :: "pystr list" where
  "FAILURE_CASE_STATUSES = [u ''draft'', u ''verified'', u ''obsolete'']"

definition LESSON_STATUSES :: "pystr list" where
  "LESSON_STATUSES = [u ''active'', u ''obsolete'']"

definition MEMORY_TYPES :: "pystr list" where
  "MEMORY_TYPES = [u ''procedural'', u ''semantic'', u ''episodic'', u ''policy'']"

definition MODES :: "pystr list" where
  "MODES = [u ''debug'', u ''repair'', u ''regression'', u ''planning'', u ''eval'', u ''production'']"

definition MEMORY_KINDS :: "pystr list" where
  "MEMORY_KINDS = [u ''failure_case'', u ''lesson'', u ''project_policy'']"

definition LLM_GATE_CANDIDATE_LIMIT_REASON :: pystr where
  "LLM_GATE_CANDIDATE_LIMIT_REASON = u ''LLM gate candidate limit exceeded''"

definition MEMORY_SOURCE_IDENTITY_CONTEXT_FIELDS :: "pystr list" where
  "MEMORY_SOURCE_IDENTITY_CONTEXT_FIELDS = [u ''source_eval_suite'', u ''source_input_hash'']"

abbreviation "TRACE_LATENCY_MAX_MS \<equiv> (2147483647 :: int)"

lemmas store_constants =
  EVAL_RESULTS_def EVALUATED_RESULTS_def FAILURE_CASE_STATUSES_def LESSON_STATUSES_def
  MEMORY_TYPES_def MODES_def MEMORY_KINDS_def

section \<open>Fields\<close>

definition validate_required_string :: "pystr \<Rightarrow> pystr \<Rightarrow> pystr \<Rightarrow> nat option \<Rightarrow> py_error option" where
  "validate_required_string value field_name message_prefix max_chars =
     first_error
       [raise_if (blank value) (message_prefix @ u '' '' @ field_name),
        (case max_chars of None \<Rightarrow> None
         | Some n \<Rightarrow> raise_if (n < length value) (at_most field_name n))]"

definition validate_optional_string ::
  "pystr option \<Rightarrow> pystr \<Rightarrow> pystr \<Rightarrow> bool \<Rightarrow> nat option \<Rightarrow> py_error option" where
  "validate_optional_string value field_name record_label nonblank max_chars =
     (case value of
        None \<Rightarrow> None
      | Some v \<Rightarrow> first_error
          [raise_if (v = [] \<or> nonblank \<and> blank v)
             (record_label @ u '' '' @ field_name @ u '' must be None or a non-empty string''),
           (case max_chars of None \<Rightarrow> None
            | Some n \<Rightarrow> raise_if (n < length v) (at_most (record_label @ u '' '' @ field_name) n))])"

definition validate_optional_rfc3339 :: "pystr option \<Rightarrow> pystr \<Rightarrow> pystr \<Rightarrow> py_error option" where
  "validate_optional_rfc3339 value field_name record_label =
     (case value of
        None \<Rightarrow> None
      | Some v \<Rightarrow> raise_if (parse_rfc3339 v = None)
          (record_label @ u '' '' @ field_name @
           u '' must be None or a timezone-aware RFC 3339 date-time string''))"

lemma validate_required_string_None [simp]:
  "validate_required_string v name prefix mx = None \<longleftrightarrow>
     \<not> blank v \<and> (\<forall>n. mx = Some n \<longrightarrow> length v \<le> n)"
  by (auto simp: validate_required_string_def not_less split: option.splits)

lemma validate_optional_string_None [simp]:
  "validate_optional_string v name label nb mx = None \<longleftrightarrow>
     (\<forall>s. v = Some s \<longrightarrow> s \<noteq> [] \<and> (nb \<longrightarrow> \<not> blank s) \<and> (\<forall>n. mx = Some n \<longrightarrow> length s \<le> n))"
  by (auto simp: validate_optional_string_def not_less split: option.splits)

lemma validate_optional_rfc3339_None [simp]:
  "validate_optional_rfc3339 v name label = None \<longleftrightarrow> (\<forall>s. v = Some s \<longrightarrow> parse_rfc3339 s \<noteq> None)"
  by (auto simp: validate_optional_rfc3339_def split: option.splits)

section \<open>Traces\<close>

definition trace_optional_fields :: "Trace \<Rightarrow> (pystr \<times> pystr option \<times> nat option) list" where
  "trace_optional_fields trace =
     [(u ''repo'', tr_repo trace, Some METADATA_VALUE_MAX_CHARS),
      (u ''tenant'', tr_tenant trace, Some METADATA_VALUE_MAX_CHARS),
      (u ''branch'', tr_branch trace, Some METADATA_VALUE_MAX_CHARS),
      (u ''prompt_version'', tr_prompt_version trace, Some METADATA_VALUE_MAX_CHARS),
      (u ''prompt_family'', tr_prompt_family trace, Some METADATA_VALUE_MAX_CHARS),
      (u ''tool_schema_version'', tr_tool_schema_version trace, Some METADATA_VALUE_MAX_CHARS),
      (u ''model'', tr_model trace, Some METADATA_VALUE_MAX_CHARS),
      (u ''eval_suite'', tr_eval_suite trace, Some METADATA_VALUE_MAX_CHARS),
      (u ''input_hash'', tr_input_hash trace, Some METADATA_VALUE_MAX_CHARS),
      (u ''output_hash'', tr_output_hash trace, Some METADATA_VALUE_MAX_CHARS),
      (u ''error'', tr_error trace, None),
      (u ''trace_uri'', tr_trace_uri trace, Some METADATA_VALUE_MAX_CHARS)]"

definition latency_error :: "runtime \<Rightarrow> int option \<Rightarrow> py_error option" where
  "latency_error rt latency =
     (case latency of
        None \<Rightarrow> None
      | Some n \<Rightarrow> first_error
          [validate_json_integer rt n (u ''latency_ms''),
           raise_if (n < 0) (u ''latency_ms must be non-negative''),
           raise_if (TRACE_LATENCY_MAX_MS < n)
             (u ''latency_ms must be at most '' @ str_nat (nat TRACE_LATENCY_MAX_MS))])"

definition cost_error :: "runtime \<Rightarrow> pynum option \<Rightarrow> py_error option" where
  "cost_error rt cost =
     (case cost of
        None \<Rightarrow> None
      | Some c \<Rightarrow> first_error
          [raise_if (\<not> is_finite_number c) (u ''cost_usd must be a finite number or None''),
           (case c of
              PyInt n \<Rightarrow> raise_if (\<not> int_fits rt n)
                (u ''cost_usd must be a finite number or None; integer exceeds JSON serialization limits'')
            | _ \<Rightarrow> None)])"

definition validate_trace :: "runtime \<Rightarrow> Trace \<Rightarrow> py_error option" where
  "validate_trace rt trace =
     first_error
       ([validate_required_string (tr_trace_id trace) (u ''trace_id'') (u ''trace records require'')
           (Some MEMORY_ID_MAX_CHARS),
         validate_required_string (tr_run_id trace) (u ''run_id'') (u ''trace records require'')
           (Some MEMORY_ID_MAX_CHARS),
         validate_required_string (tr_commit_sha trace) (u ''commit_sha'') (u ''trace records require'')
           (Some METADATA_VALUE_MAX_CHARS)]
        @ map (\<lambda>(name, value, mx). validate_optional_string value name (u ''trace'') False mx)
            (trace_optional_fields trace)
        @ [raise_if (tr_eval_result trace \<notin> set EVAL_RESULTS)
             (u ''eval_result must be one of: error, fail, pass, unknown''),
           latency_error rt (tr_latency_ms trace),
           cost_error rt (tr_cost_usd trace),
           (case validate_trace_json rt trace of Inl e \<Rightarrow> Some e | Inr _ \<Rightarrow> None),
           validate_optional_rfc3339 (tr_created_at trace) (u ''created_at'') (u ''trace'')])"

lemma sum_error_None_iff [simp]:
  "(case r of Inl e \<Rightarrow> Some e | Inr _ \<Rightarrow> None) = None \<longleftrightarrow> (\<exists>b. r = Inr b)"
  by (cases r) auto

section \<open>Failure cases, lessons and policies\<close>

definition case_optional_fields :: "FailureCase \<Rightarrow> (pystr \<times> pystr option \<times> nat option) list" where
  "case_optional_fields fcase =
     [(u ''root_cause'', fc_root_cause fcase, None), (u ''fix'', fc_fix fcase, None),
      (u ''fix_commit_sha'', fc_fix_commit_sha fcase, Some METADATA_VALUE_MAX_CHARS),
      (u ''reviewed_by'', fc_reviewed_by fcase, Some METADATA_VALUE_MAX_CHARS),
      (u ''review_notes'', fc_review_notes fcase, None)]"

definition validate_failure_case :: "FailureCase \<Rightarrow> py_error option" where
  "validate_failure_case fcase =
     first_error
       ([validate_required_string (fc_case_id fcase) (u ''case_id'') (u ''failure case records require'')
           (Some MEMORY_ID_MAX_CHARS),
         validate_required_string (fc_source_trace_id fcase) (u ''source_trace_id'')
           (u ''failure case records require'') (Some MEMORY_ID_MAX_CHARS),
         validate_required_string (fc_commit_sha fcase) (u ''commit_sha'')
           (u ''failure case records require'') (Some METADATA_VALUE_MAX_CHARS),
         validate_required_string (fc_failure_type fcase) (u ''failure_type'')
           (u ''failure case records require'') (Some METADATA_VALUE_MAX_CHARS),
         validate_required_string (fc_symptom fcase) (u ''symptom'')
           (u ''failure case records require'') None]
        @ map (\<lambda>(name, value, mx). validate_optional_string value name (u ''failure case'') True mx)
            (case_optional_fields fcase)
        @ [raise_if (fc_status fcase \<notin> set FAILURE_CASE_STATUSES)
             (u ''failure case status must be one of: draft, obsolete, verified''),
           raise_if (fc_status fcase = u ''verified'' \<and>
               (\<not> truthy (fc_fix fcase) \<or> \<not> truthy (fc_fix_commit_sha fcase) \<or>
                \<not> fc_regression_passed fcase \<or> \<not> truthy (fc_root_cause fcase) \<or>
                \<not> truthy (fc_reviewed_by fcase) \<or> \<not> truthy (fc_reviewed_at fcase)))
             (u ''verified failure cases require completed review, fix, fix_commit_sha, and passing regression''),
           validate_optional_rfc3339 (fc_reviewed_at fcase) (u ''reviewed_at'') (u ''failure case''),
           validate_optional_rfc3339 (fc_created_at fcase) (u ''created_at'') (u ''failure case'')])"

definition validate_lesson_record :: "Lesson \<Rightarrow> py_error option" where
  "validate_lesson_record lesson =
     first_error
       [validate_required_string (ls_lesson_id lesson) (u ''lesson_id'') (u ''lesson records require'')
          (Some MEMORY_ID_MAX_CHARS),
        validate_required_string (ls_source_case_id lesson) (u ''source_case_id'')
          (u ''lesson records require'') (Some MEMORY_ID_MAX_CHARS),
        raise_if (blank (ls_lesson_text lesson)) (u ''lesson records require lesson_text''),
        raise_if (MEMORY_TEXT_MAX_CHARS < length (ls_lesson_text lesson))
          (u ''lesson records require lesson_text of at most '' @ str_nat MEMORY_TEXT_MAX_CHARS @
           u '' characters''),
        raise_if (ls_memory_type lesson \<notin> set MEMORY_TYPES)
          (u ''lesson memory_type must be one of: episodic, policy, procedural, semantic''),
        raise_if (ls_status lesson \<notin> set LESSON_STATUSES)
          (u ''lesson status must be one of: active, obsolete''),
        validate_optional_rfc3339 (ls_created_at lesson) (u ''created_at'') (u ''lesson'')]"

definition validate_project_policy :: "ProjectPolicy \<Rightarrow> py_error option" where
  "validate_project_policy policy =
     first_error
       [validate_required_string (pp_policy_id policy) (u ''policy_id'')
          (u ''project policy records require'') (Some MEMORY_ID_MAX_CHARS),
        raise_if (blank (pp_policy_text policy)) (u ''project policy records require policy_text''),
        raise_if (MEMORY_TEXT_MAX_CHARS < length (pp_policy_text policy))
          (u ''project policy records require policy_text of at most '' @ str_nat MEMORY_TEXT_MAX_CHARS @
           u '' characters''),
        raise_if (pp_status policy \<notin> set LESSON_STATUSES)
          (u ''project policy status must be one of: active, obsolete''),
        validate_optional_rfc3339 (pp_created_at policy) (u ''created_at'') (u ''project policy'')]"

section \<open>Usage logs\<close>

definition validate_memory_id_list :: "pystr list \<Rightarrow> pystr \<Rightarrow> py_error option" where
  "validate_memory_id_list value field_name =
     first_error
       [raise_if ([] \<in> set value)
          (u ''usage log '' @ field_name @ u '' must be a list of non-empty strings''),
        raise_if (\<not> distinct value)
          (u ''usage log '' @ field_name @ u '' must not contain duplicate memory IDs''),
        raise_if (list_ex (\<lambda>i. MEMORY_ID_MAX_CHARS < length i) value)
          (at_most (u ''usage log '' @ field_name @ u '' entries'') MEMORY_ID_MAX_CHARS)]"

definition validate_string_mapping :: "(pystr, pystr) dict \<Rightarrow> pystr \<Rightarrow> py_error option" where
  "validate_string_mapping value field_name =
     first_error
       [raise_if (list_ex (\<lambda>(key, item). blank key \<or> blank item) value)
          (u ''usage log '' @ field_name @ u '' must map non-empty strings to non-empty strings''),
        raise_if (field_name = u ''context'' \<and>
            list_ex (\<lambda>item. METADATA_VALUE_MAX_CHARS < length item) (dict_values value))
          (at_most (u ''usage log context values'') METADATA_VALUE_MAX_CHARS),
        raise_if (field_name = u ''system_blocked_reasons'' \<and>
            list_ex (\<lambda>key. MEMORY_ID_MAX_CHARS < length key) (dict_keys value))
          (at_most (u ''usage log system_blocked_reasons keys'') MEMORY_ID_MAX_CHARS)]"

definition validate_status_mapping :: "(pystr, pystr) dict \<Rightarrow> pystr list \<Rightarrow> py_error option" where
  "validate_status_mapping value candidate_memory_ids =
     (let missing_statuses = sort (filter (\<lambda>i. \<not> dict_has value i) (remdups candidate_memory_ids));
          extra_statuses = sort (filter (\<lambda>i. i \<notin> set candidate_memory_ids) (dict_keys value))
      in first_error
        [raise_if (list_ex (\<lambda>(memory_id, status). blank memory_id \<or>
             status \<notin> set FAILURE_CASE_STATUSES \<union> set LESSON_STATUSES) value)
           (u ''usage log candidate_memory_statuses contains an invalid status''),
         raise_if (list_ex (\<lambda>i. MEMORY_ID_MAX_CHARS < length i) (dict_keys value))
           (at_most (u ''usage log candidate_memory_statuses keys'') MEMORY_ID_MAX_CHARS),
         raise_if (set (dict_keys value) \<noteq> set candidate_memory_ids)
           (u ''usage log candidate_memory_statuses must match candidates'' @
            (if missing_statuses \<noteq> [] then u ''; missing: '' @ join (u '', '') missing_statuses else []) @
            (if extra_statuses \<noteq> [] then u ''; extra: '' @ join (u '', '') extra_statuses else []))])"

definition validate_usage_log :: "MemoryUsageLog \<Rightarrow> py_error option" where
  "validate_usage_log ulog =
     (let candidates = ul_candidate_memory_ids ulog;
          used = ul_used_memory_ids ulog;
          blocked = ul_blocked_memory_ids ulog;
          unknown_blocked_reasons =
            sort (filter (\<lambda>i. i \<notin> set candidates) (dict_keys (ul_system_blocked_reasons ulog)));
          missing_used_ids = filter (\<lambda>i. i \<notin> set candidates) used;
          missing_blocked_ids = filter (\<lambda>i. i \<notin> set candidates) blocked;
          used_and_blocked = filter (\<lambda>i. i \<in> set blocked) used
      in first_error
        [validate_required_string (ul_decision_id ulog) (u ''decision_id'') (u ''usage log records require'')
           (Some MEMORY_ID_MAX_CHARS),
         validate_required_string (ul_run_id ulog) (u ''run_id'') (u ''usage log records require'')
           (Some MEMORY_ID_MAX_CHARS),
         (case ul_request_id ulog of None \<Rightarrow> None
          | Some r \<Rightarrow> validate_required_string r (u ''request_id'') (u ''usage log records require'')
              (Some MEMORY_ID_MAX_CHARS)),
         raise_if (ul_mode ulog \<notin> set MODES)
           (u ''usage log mode must be one of: debug, eval, planning, production, regression, repair''),
         validate_memory_id_list candidates (u ''candidate_memory_ids''),
         validate_memory_id_list used (u ''used_memory_ids''),
         validate_memory_id_list blocked (u ''blocked_memory_ids''),
         raise_if (blank (ul_reason ulog)) (u ''usage log reason must be nonblank''),
         raise_if (MEMORY_DECISION_REASON_MAX_CHARS < length (ul_reason ulog))
           (at_most (u ''usage log reason'') MEMORY_DECISION_REASON_MAX_CHARS),
         raise_if (ul_risk ulog \<notin> set DECISION_RISKS)
           (u ''usage log risk must be one of: high, low, medium, none''),
         raise_if (ul_recommended_injection ulog \<notin> set RECOMMENDED_INJECTIONS)
           (u ''usage log recommended_injection must be one of: full_case_summary, none, pointer_only, short_summary''),
         raise_if (ul_eval_result ulog \<noteq> None \<and> the (ul_eval_result ulog) \<notin> set EVAL_RESULTS)
           (u ''usage log eval_result must be one of: error, fail, pass, unknown''),
         (case ul_trace_id ulog of None \<Rightarrow> None
          | Some t \<Rightarrow> raise_if (blank t) (u ''usage log trace_id must be a non-empty string'')),
         (case ul_trace_id ulog of None \<Rightarrow> None
          | Some t \<Rightarrow> raise_if (MEMORY_ID_MAX_CHARS < length t)
              (at_most (u ''usage log trace_id'') MEMORY_ID_MAX_CHARS)),
         validate_string_mapping (ul_context ulog) (u ''context''),
         raise_if (list_ex (dict_has (ul_context ulog)) MEMORY_SOURCE_IDENTITY_CONTEXT_FIELDS)
           (u ''usage log context must not persist memory source identity''),
         validate_status_mapping (ul_candidate_memory_statuses ulog) candidates,
         validate_string_mapping (ul_system_blocked_reasons ulog) (u ''system_blocked_reasons''),
         raise_if (unknown_blocked_reasons \<noteq> [])
           (u ''usage log system_blocked_reasons must reference candidates: '' @
            join (u '', '') unknown_blocked_reasons),
         raise_if (used \<noteq> [] \<and> ul_recommended_injection ulog = u ''none'')
           (u ''usage log recommended_injection cannot be 'none' when memory was used''),
         raise_if (used = [] \<and> ul_recommended_injection ulog \<noteq> u ''none'')
           (u ''usage log recommended_injection must be 'none' when no memory was used''),
         raise_if (ul_memory_caused_failure ulog \<and>
             (used = [] \<or> ul_eval_result ulog \<notin> {Some (u ''fail''), Some (u ''error'')}))
           (u ''usage log memory_caused_failure requires failed or errored memory use''),
         raise_if (missing_used_ids \<noteq> [])
           (u ''used memory ids must be present in candidates: '' @ join (u '', '') missing_used_ids),
         raise_if (missing_blocked_ids \<noteq> [])
           (u ''blocked memory ids must be present in candidates: '' @ join (u '', '') missing_blocked_ids),
         raise_if (used_and_blocked \<noteq> [])
           (u ''memory ids cannot be both used and blocked: '' @ join (u '', '') used_and_blocked),
         validate_optional_rfc3339 (ul_created_at ulog) (u ''created_at'') (u ''usage log'')])"

section \<open>What a valid usage log says\<close>

lemma validate_memory_id_list_None [simp]:
  "validate_memory_id_list ids name = None \<longleftrightarrow>
     distinct ids \<and> (\<forall>i\<in>set ids. i \<noteq> [] \<and> length i \<le> MEMORY_ID_MAX_CHARS)"
  by (auto simp: validate_memory_id_list_def list_ex_iff not_less)

lemma validate_status_mapping_keys:
  "validate_status_mapping m ids = None \<Longrightarrow> set (dict_keys m) = set ids"
  by (simp add: validate_status_mapping_def Let_def)

lemma validate_usage_log_None:
  assumes "validate_usage_log ulog = None"
  shows "distinct (ul_used_memory_ids ulog)" "distinct (ul_blocked_memory_ids ulog)"
    "distinct (ul_candidate_memory_ids ulog)"
    "set (ul_used_memory_ids ulog) \<subseteq> set (ul_candidate_memory_ids ulog)"
    "set (ul_blocked_memory_ids ulog) \<subseteq> set (ul_candidate_memory_ids ulog)"
    "set (ul_used_memory_ids ulog) \<inter> set (ul_blocked_memory_ids ulog) = {}"
    "ul_used_memory_ids ulog = [] \<longleftrightarrow> ul_recommended_injection ulog = u ''none''"
    "set (dict_keys (ul_candidate_memory_statuses ulog)) = set (ul_candidate_memory_ids ulog)"
    "set (dict_keys (ul_system_blocked_reasons ulog)) \<subseteq> set (ul_candidate_memory_ids ulog)"
    "ul_memory_caused_failure ulog \<Longrightarrow>
       ul_used_memory_ids ulog \<noteq> [] \<and> ul_eval_result ulog \<in> {Some (u ''fail''), Some (u ''error'')}"
proof -
  note checks = assms [unfolded validate_usage_log_def Let_def first_error_None_iff list.set ball_simps
      raise_if_None_iff validate_memory_id_list_None not_not sort_key_Nil_iff]
  have lists: "filter (\<lambda>i. i \<notin> set (ul_candidate_memory_ids ulog)) (ul_used_memory_ids ulog) = []"
      "filter (\<lambda>i. i \<notin> set (ul_candidate_memory_ids ulog)) (ul_blocked_memory_ids ulog) = []"
      "filter (\<lambda>i. i \<in> set (ul_blocked_memory_ids ulog)) (ul_used_memory_ids ulog) = []"
      "filter (\<lambda>i. i \<notin> set (ul_candidate_memory_ids ulog)) (dict_keys (ul_system_blocked_reasons ulog)) = []"
    using checks by - (elim conjE, assumption)+
  then show "set (ul_used_memory_ids ulog) \<subseteq> set (ul_candidate_memory_ids ulog)"
    "set (ul_blocked_memory_ids ulog) \<subseteq> set (ul_candidate_memory_ids ulog)"
    "set (ul_used_memory_ids ulog) \<inter> set (ul_blocked_memory_ids ulog) = {}"
    "set (dict_keys (ul_system_blocked_reasons ulog)) \<subseteq> set (ul_candidate_memory_ids ulog)"
    by (auto simp: filter_empty_conv)
  show "distinct (ul_used_memory_ids ulog)" "distinct (ul_blocked_memory_ids ulog)"
    "distinct (ul_candidate_memory_ids ulog)"
    using checks by - (elim conjE, assumption)+
  have "validate_status_mapping (ul_candidate_memory_statuses ulog) (ul_candidate_memory_ids ulog) = None"
    using checks by (elim conjE)
  then show "set (dict_keys (ul_candidate_memory_statuses ulog)) = set (ul_candidate_memory_ids ulog)"
    by (rule validate_status_mapping_keys)
  have modes: "\<not> (ul_used_memory_ids ulog \<noteq> [] \<and> ul_recommended_injection ulog = u ''none'')"
      "\<not> (ul_used_memory_ids ulog = [] \<and> ul_recommended_injection ulog \<noteq> u ''none'')"
      "\<not> (ul_memory_caused_failure ulog \<and> (ul_used_memory_ids ulog = [] \<or>
          ul_eval_result ulog \<notin> {Some (u ''fail''), Some (u ''error'')}))"
    using checks by - (elim conjE, assumption)+
  then show "ul_used_memory_ids ulog = [] \<longleftrightarrow> ul_recommended_injection ulog = u ''none''"
    "ul_memory_caused_failure ulog \<Longrightarrow>
       ul_used_memory_ids ulog \<noteq> [] \<and> ul_eval_result ulog \<in> {Some (u ''fail''), Some (u ''error'')}"
    by blast+
qed

section \<open>What a valid failure case says\<close>

lemma parse_rfc3339_not_blank: "parse_rfc3339 s \<noteq> None \<Longrightarrow> \<not> blank s"
proof
  assume p: "parse_rfc3339 s \<noteq> None" and b: "blank s"
  then obtain n t where "take_digits 4 s = Some (n, t)"
    by (auto simp: parse_rfc3339_def bind_eq_Some_conv)
  then have "4 \<le> length s" "is_digit (hd s)"
    by (cases s; auto simp: take_digits_def split: if_splits)+
  with b show False by (cases s) (auto simp: is_digit_def py_isspace_def)
qed

lemma validate_failure_case_verified:
  assumes "validate_failure_case c = None" and "fc_status c = u ''verified''"
  shows "verified_evidence c"
proof -
  from assms have id: "identified_case c" "described_case c"
    by (simp_all add: validate_failure_case_def identified_case_def described_case_def)
  from assms have full: "truthy (fc_fix c)" "truthy (fc_fix_commit_sha c)" "fc_regression_passed c"
      "truthy (fc_root_cause c)" "truthy (fc_reviewed_by c)" "truthy (fc_reviewed_at c)"
    by (simp_all add: validate_failure_case_def)
  have time: "parse_rfc3339 t \<noteq> None" if "fc_reviewed_at c = Some t" for t
    using assms that by (simp add: validate_failure_case_def)
  have opt: "validate_optional_string v name (u ''failure case'') True mx = None"
    if "(name, v, mx) \<in> set (case_optional_fields c)" for name v mx
    using assms that by (force simp: validate_failure_case_def)
  have "fixed_case c" "reviewed_case c"
    unfolding fixed_case_def reviewed_case_def
    using full time parse_rfc3339_not_blank opt
      opt [of "u ''fix''" "fc_fix c" None] opt [of "u ''fix_commit_sha''" "fc_fix_commit_sha c" "Some METADATA_VALUE_MAX_CHARS"]
      opt [of "u ''reviewed_by''" "fc_reviewed_by c" "Some METADATA_VALUE_MAX_CHARS"]
      opt [of "u ''root_cause''" "fc_root_cause c" None]
    by (auto simp: case_optional_fields_def truthy_def)
  with id assms(2) show ?thesis by (simp add: verified_evidence_def)
qed

end
