(* ===== verification/Store.thy ===== *)
theory Store
  imports Validation
begin

text \<open>
  The state of \<^verbatim>\<open>TraceBackedMemoryStore\<close> and the operations on traces, failure cases, lessons
  and project policies. An operation takes the store and either raises, leaving the store as it
  was, or returns its value and the next store. Copies made by the source (\<^verbatim>\<open>deepcopy\<close>) are
  the identity on values, the lock makes every operation one step, and the handlers that undo a
  half-made change when an asynchronous exception interrupts it have no counterpart.
\<close>

section \<open>State\<close>

record store =
  st_traces :: "(pystr, Trace) dict"
  st_trace_ids_by_run_id :: "(pystr, pystr list) dict"
  st_failure_cases :: "(pystr, FailureCase) dict"
  st_lessons :: "(pystr, Lesson) dict"
  st_project_policies :: "(pystr, ProjectPolicy) dict"
  st_usage_logs :: "MemoryUsageLog list"
  st_usage_log_indexes :: "(pystr, nat) dict"
  st_next_decision_number :: nat
  st_pending_gate_requests :: "(pystr, MemoryGateRequest) dict"
  st_finalized_gate_request_ids :: "pystr list"
  st_finalized_gate_request_order :: "pystr list"
  st_store_token :: nat
  st_gate_request_session_id :: pystr
  st_next_gate_request_number :: nat

text \<open>\<^verbatim>\<open>__init__\<close>, given the fresh token and session id.\<close>

definition new_store :: "nat \<Rightarrow> pystr \<Rightarrow> store" where
  "new_store token session_id =
     \<lparr>st_traces = [], st_trace_ids_by_run_id = [], st_failure_cases = [], st_lessons = [],
      st_project_policies = [], st_usage_logs = [], st_usage_log_indexes = [],
      st_next_decision_number = 1, st_pending_gate_requests = [],
      st_finalized_gate_request_ids = [], st_finalized_gate_request_order = [],
      st_store_token = token, st_gate_request_session_id = session_id,
      st_next_gate_request_number = 1\<rparr>"

type_synonym 'a op = "store \<Rightarrow> ('a \<times> store) result"

definition stored_record :: "(pystr, 'r) dict \<Rightarrow> pystr \<Rightarrow> pystr \<Rightarrow> 'r result" where
  "stored_record records record_id record_label =
     (if record_id = [] then Inl (ValueError (record_label @ u '' ID must be a non-empty string''))
      else if MEMORY_ID_MAX_CHARS < length record_id
      then Inl (ValueError (at_most (record_label @ u '' ID'') MEMORY_ID_MAX_CHARS))
      else case dict_get records record_id of
        None \<Rightarrow> Inl (ValueError (u ''unknown '' @ record_label @ u '' ID: '' @ record_id))
      | Some r \<Rightarrow> Inr r)"

section \<open>Traces\<close>

definition record_trace :: "runtime \<Rightarrow> Trace \<Rightarrow> Trace op" where
  "record_trace rt trace s =
     or_raise (validate_trace rt trace)
     (let stored_trace = trace in
      or_raise (first_error
        [validate_trace rt stored_trace,
         raise_if (dict_has (st_traces s) (tr_trace_id stored_trace))
           (u ''duplicate trace_id: '' @ tr_trace_id stored_trace)])
      (Inr (stored_trace,
        s\<lparr>st_traces := dict_set (tr_trace_id stored_trace) stored_trace (st_traces s),
          st_trace_ids_by_run_id :=
            dict_set (tr_run_id stored_trace)
              (case dict_get (st_trace_ids_by_run_id s) (tr_run_id stored_trace) of
                 None \<Rightarrow> [tr_trace_id stored_trace]
               | Some trace_ids \<Rightarrow> trace_ids @ [tr_trace_id stored_trace])
              (st_trace_ids_by_run_id s)\<rparr>)))"

text \<open>
  The completion values of a trace, \<^verbatim>\<open>dict[str, Any]\<close> in the source: one constructor per field
  that can be completed.
\<close>

datatype completion_field =
    COutputHash "pystr option"
  | CToolOutputs "pydict list"
  | CLatency "int option"
  | CCost "pynum option"
  | CError "pystr option"
  | CTraceUri "pystr option"

fun field_name :: "completion_field \<Rightarrow> pystr" where
  "field_name (COutputHash _) = u ''output_hash''"
| "field_name (CToolOutputs _) = u ''tool_outputs''"
| "field_name (CLatency _) = u ''latency_ms''"
| "field_name (CCost _) = u ''cost_usd''"
| "field_name (CError _) = u ''error''"
| "field_name (CTraceUri _) = u ''trace_uri''"

text \<open>\<^verbatim>\<open>getattr(trace, name)\<close> for the field of a completion value.\<close>

fun current_field :: "Trace \<Rightarrow> completion_field \<Rightarrow> completion_field" where
  "current_field t (COutputHash _) = COutputHash (tr_output_hash t)"
| "current_field t (CToolOutputs _) = CToolOutputs (tr_tool_outputs t)"
| "current_field t (CLatency _) = CLatency (tr_latency_ms t)"
| "current_field t (CCost _) = CCost (tr_cost_usd t)"
| "current_field t (CError _) = CError (tr_error t)"
| "current_field t (CTraceUri _) = CTraceUri (tr_trace_uri t)"

fun set_field :: "completion_field \<Rightarrow> Trace \<Rightarrow> Trace" where
  "set_field (COutputHash x) t = t\<lparr>tr_output_hash := x\<rparr>"
| "set_field (CToolOutputs x) t = t\<lparr>tr_tool_outputs := x\<rparr>"
| "set_field (CLatency x) t = t\<lparr>tr_latency_ms := x\<rparr>"
| "set_field (CCost x) t = t\<lparr>tr_cost_usd := x\<rparr>"
| "set_field (CError x) t = t\<lparr>tr_error := x\<rparr>"
| "set_field (CTraceUri x) t = t\<lparr>tr_trace_uri := x\<rparr>"

text \<open>The keyword arguments of a completion; \<open>None\<close> is the marker \<^verbatim>\<open>_UNSET\<close>.\<close>

record completion_args =
  cv_output_hash :: "pystr option option"
  cv_tool_outputs :: "pydict list option"
  cv_latency_ms :: "int option option"
  cv_cost_usd :: "pynum option option"
  cv_error :: "pystr option option"
  cv_trace_uri :: "pystr option option"

definition given :: "('a \<Rightarrow> 'b) \<Rightarrow> 'a option \<Rightarrow> 'b list" where
  "given f x = (case x of None \<Rightarrow> [] | Some v \<Rightarrow> [f v])"

definition provided_trace_completion_values :: "completion_args \<Rightarrow> completion_field list" where
  "provided_trace_completion_values a =
     given COutputHash (cv_output_hash a) @ given CToolOutputs (cv_tool_outputs a) @
     given CLatency (cv_latency_ms a) @ given CCost (cv_cost_usd a) @
     given CError (cv_error a) @ given CTraceUri (cv_trace_uri a)"

definition validate_measured_eval_result :: "pystr \<Rightarrow> pystr \<Rightarrow> py_error option" where
  "validate_measured_eval_result eval_result record_label =
     raise_if (eval_result \<notin> set EVALUATED_RESULTS)
       (record_label @ u '' requires measured eval_result: error, fail, or pass'')"

fun trace_completion_slot_is_empty :: "completion_field \<Rightarrow> bool" where
  "trace_completion_slot_is_empty (CToolOutputs x) \<longleftrightarrow> x = []"
| "trace_completion_slot_is_empty (COutputHash x) \<longleftrightarrow> x = None"
| "trace_completion_slot_is_empty (CLatency x) \<longleftrightarrow> x = None"
| "trace_completion_slot_is_empty (CCost x) \<longleftrightarrow> x = None"
| "trace_completion_slot_is_empty (CError x) \<longleftrightarrow> x = None"
| "trace_completion_slot_is_empty (CTraceUri x) \<longleftrightarrow> x = None"

text \<open>\<^verbatim>\<open>==\<close> on the dynamic parts of a trace: lists of objects and the cost.\<close>

definition json_lists_eq :: "pydict list \<Rightarrow> pydict list \<Rightarrow> bool" where
  "json_lists_eq a b \<longleftrightarrow> py_eq (PList (map PDict a)) (PList (map PDict b))"

definition opt_num_eq :: "pynum option \<Rightarrow> pynum option \<Rightarrow> bool" where
  "opt_num_eq a b \<longleftrightarrow>
     (case (a, b) of (None, None) \<Rightarrow> True | (Some m, Some n) \<Rightarrow> num_eq m n | _ \<Rightarrow> False)"

fun field_eq :: "completion_field \<Rightarrow> completion_field \<Rightarrow> bool" where
  "field_eq (CToolOutputs a) (CToolOutputs b) = json_lists_eq a b"
| "field_eq (CCost a) (CCost b) = opt_num_eq a b"
| "field_eq a b = (a = b)"

text \<open>\<^verbatim>\<open>==\<close> on traces.\<close>

definition trace_eq :: "Trace \<Rightarrow> Trace \<Rightarrow> bool" where
  "trace_eq a b \<longleftrightarrow>
     json_lists_eq (tr_retrieved_context a) (tr_retrieved_context b) \<and>
     json_lists_eq (tr_tool_calls a) (tr_tool_calls b) \<and>
     json_lists_eq (tr_tool_outputs a) (tr_tool_outputs b) \<and>
     opt_num_eq (tr_cost_usd a) (tr_cost_usd b) \<and>
     a\<lparr>tr_retrieved_context := [], tr_tool_calls := [], tr_tool_outputs := [], tr_cost_usd := None\<rparr> =
     b\<lparr>tr_retrieved_context := [], tr_tool_calls := [], tr_tool_outputs := [], tr_cost_usd := None\<rparr>"

definition completed_trace_candidate ::
  "runtime \<Rightarrow> Trace \<Rightarrow> pystr \<Rightarrow> completion_field list \<Rightarrow> Trace result" where
  "completed_trace_candidate rt current eval_result completion_values =
     (let candidate = fold set_field completion_values (current\<lparr>tr_eval_result := eval_result\<rparr>)
      in or_raise (validate_trace rt candidate)
        (let completed = candidate in
         or_raise (validate_trace rt completed)
         (if tr_eval_result current \<in> set EVALUATED_RESULTS then
            if trace_eq completed current then Inr current
            else Inl (ValueError (u ''trace execution already completed: '' @ tr_trace_id current))
          else
            or_raise (first_error (map (\<lambda>f.
                raise_if (\<not> trace_completion_slot_is_empty (current_field current f) \<and>
                          \<not> field_eq (current_field current f) (current_field completed f))
                  (u ''trace completion cannot rewrite '' @ field_name f @ u '': '' @ tr_trace_id current))
              completion_values))
            (Inr completed))))"

definition complete_trace :: "runtime \<Rightarrow> pystr \<Rightarrow> pystr \<Rightarrow> completion_args \<Rightarrow> Trace op" where
  "complete_trace rt trace_id eval_result args s =
     or_raise (first_error
       [validate_required_string trace_id (u ''trace_id'') (u ''trace completion requires'')
          (Some MEMORY_ID_MAX_CHARS),
        validate_measured_eval_result eval_result (u ''trace completion'')])
     (case dict_get (st_traces s) trace_id of
        None \<Rightarrow> Inl (ValueError (u ''unknown trace_id: '' @ trace_id))
      | Some current \<Rightarrow>
          rbind (completed_trace_candidate rt current eval_result
                   (provided_trace_completion_values args)) (\<lambda>completed.
          Inr (completed, s\<lparr>st_traces := dict_set trace_id completed (st_traces s)\<rparr>)))"

section \<open>Failure cases\<close>

definition add_failure_case :: "FailureCase \<Rightarrow> FailureCase op" where
  "add_failure_case fcase s =
     (let cid = fc_case_id fcase in
      or_raise (first_error
        [validate_failure_case fcase,
         raise_if (dict_has (st_failure_cases s) cid) (u ''duplicate case_id: '' @ cid),
         raise_if (dict_has (st_lessons s) cid \<or> dict_has (st_project_policies s) cid)
           (u ''duplicate memory_id across memory types: '' @ cid)])
      (case dict_get (st_traces s) (fc_source_trace_id fcase) of
         None \<Rightarrow> Inl (ValueError (u ''missing source_trace_id: '' @ fc_source_trace_id fcase))
       | Some source_trace \<Rightarrow>
           or_raise (first_error
             [raise_if (tr_eval_result source_trace \<notin> {u ''fail'', u ''error''})
                (u ''failure case requires a failed or errored source trace: '' @ cid),
              raise_if (fc_commit_sha fcase \<noteq> tr_commit_sha source_trace)
                (u ''failure case commit_sha does not match source trace: '' @ cid)])
           (Inr (fcase, s\<lparr>st_failure_cases := dict_set cid fcase (st_failure_cases s)\<rparr>))))"

definition store_review_failure_case ::
  "runtime \<Rightarrow> pystr \<Rightarrow> pystr \<Rightarrow> pystr \<Rightarrow> pystr option \<Rightarrow> pystr option \<Rightarrow> pystr option \<Rightarrow>
   pystr option \<Rightarrow> FailureCase op" where
  "store_review_failure_case rt case_id reviewed_by root_cause failure_type symptom review_notes reviewed_at s =
     rbind (stored_record (st_failure_cases s) case_id (u ''failure case'')) (\<lambda>current.
     rbind (review_failure_case rt current reviewed_by root_cause failure_type symptom review_notes
              reviewed_at) (\<lambda>reviewed.
     or_raise (validate_failure_case reviewed)
     (Inr (reviewed, s\<lparr>st_failure_cases := dict_set case_id reviewed (st_failure_cases s)\<rparr>))))"

definition store_verify_failure_case :: "pystr \<Rightarrow> pystr \<Rightarrow> pystr \<Rightarrow> bool \<Rightarrow> FailureCase op" where
  "store_verify_failure_case case_id fix fix_commit_sha regression_passed s =
     rbind (stored_record (st_failure_cases s) case_id (u ''failure case'')) (\<lambda>current.
     rbind (verify_failure_case current fix fix_commit_sha regression_passed) (\<lambda>verified.
     or_raise (validate_failure_case verified)
     (Inr (verified, s\<lparr>st_failure_cases := dict_set case_id verified (st_failure_cases s)\<rparr>))))"

text \<open>The checks that every lesson or policy passes again when it is made obsolete.\<close>

definition validate_stored_lesson :: "runtime \<Rightarrow> Lesson \<Rightarrow> py_error option" where
  "validate_stored_lesson rt lesson =
     first_error
       [validate_lesson_record lesson,
        validate_lesson_contract rt (ls_lesson_text lesson) (ls_scope lesson) (ls_confidence lesson)]"

definition validate_stored_policy :: "runtime \<Rightarrow> ProjectPolicy \<Rightarrow> py_error option" where
  "validate_stored_policy rt policy =
     first_error
       [validate_project_policy policy,
        validate_lesson_contract rt (pp_policy_text policy) (pp_scope policy) (pp_confidence policy)]"

definition store_obsolete_failure_case :: "runtime \<Rightarrow> pystr \<Rightarrow> FailureCase op" where
  "store_obsolete_failure_case rt case_id s =
     rbind (stored_record (st_failure_cases s) case_id (u ''failure case'')) (\<lambda>current.
     if fc_status current = u ''obsolete'' then Inr (current, s)
     else
       let obsolete_case = obsolete_failure_case current;
           obsolete_lessons =
             map (\<lambda>(lesson_id, lesson). (lesson_id, obsolete_lesson lesson))
               (filter (\<lambda>(lesson_id, lesson).
                  ls_source_case_id lesson = case_id \<and> ls_status lesson = u ''active'') (st_lessons s))
       in or_raise (first_error
            (validate_failure_case obsolete_case # map (validate_stored_lesson rt) (dict_values obsolete_lessons)))
          (Inr (obsolete_case,
             s\<lparr>st_failure_cases := dict_set case_id obsolete_case (st_failure_cases s),
               st_lessons := dict_update (st_lessons s) obsolete_lessons\<rparr>)))"

section \<open>Lessons and policies\<close>

definition lesson_scope_kept :: "Lesson \<Rightarrow> pystr \<Rightarrow> pystr option \<Rightarrow> py_error option" where
  "lesson_scope_kept lesson name source_value =
     (case source_value of
        None \<Rightarrow> None
      | Some v \<Rightarrow> raise_if (dict_get (ls_scope lesson) name \<noteq> Some v)
          (u ''lesson scope must preserve source '' @ name @ u '': '' @ v))"

definition validated_lesson_candidate :: "runtime \<Rightarrow> store \<Rightarrow> Lesson \<Rightarrow> (pystr, Lesson) dict \<Rightarrow> Lesson result" where
  "validated_lesson_candidate rt s lesson existing_lessons =
     (let lid = ls_lesson_id lesson in
      or_raise (first_error
        [validate_lesson_record lesson,
         raise_if (dict_has existing_lessons lid) (u ''duplicate lesson_id: '' @ lid),
         raise_if (dict_has (st_failure_cases s) lid \<or> dict_has (st_project_policies s) lid)
           (u ''duplicate memory_id across memory types: '' @ lid),
         validate_lesson_contract rt (ls_lesson_text lesson) (ls_scope lesson) (ls_confidence lesson)])
      (case dict_get (st_failure_cases s) (ls_source_case_id lesson) of
         None \<Rightarrow> Inl (ValueError (u ''missing source_case_id: '' @ ls_source_case_id lesson))
       | Some source_case \<Rightarrow>
           or_raise (raise_if (fc_status source_case = u ''draft'' \<or> \<not> fc_regression_passed source_case \<or>
               ls_status lesson = u ''active'' \<and> fc_status source_case \<noteq> u ''verified'')
             (u ''lesson requires verified source case: '' @ ls_source_case_id lesson))
           (case dict_get (st_traces s) (fc_source_trace_id source_case) of
              None \<Rightarrow> Inl (ValueError (u ''missing source_trace_id: '' @ fc_source_trace_id source_case))
            | Some source_trace \<Rightarrow>
                or_raise (first_error
                  [raise_if (ls_status lesson = u ''active'' \<and> tr_dirty source_trace)
                     (u ''active lesson requires a clean source trace: '' @ lid),
                   lesson_scope_kept lesson (u ''repo'') (tr_repo source_trace),
                   lesson_scope_kept lesson (u ''tenant'') (tr_tenant source_trace)])
                (Inr lesson))))"

definition add_lesson :: "runtime \<Rightarrow> Lesson \<Rightarrow> Lesson op" where
  "add_lesson rt lesson s =
     rbind (validated_lesson_candidate rt s lesson (st_lessons s)) (\<lambda>stored_lesson.
     Inr (stored_lesson, s\<lparr>st_lessons := dict_set (ls_lesson_id stored_lesson) stored_lesson (st_lessons s)\<rparr>))"

definition store_obsolete_lesson :: "runtime \<Rightarrow> pystr \<Rightarrow> Lesson op" where
  "store_obsolete_lesson rt lesson_id s =
     rbind (stored_record (st_lessons s) lesson_id (u ''lesson'')) (\<lambda>current.
     if ls_status current = u ''obsolete'' then Inr (current, s)
     else
       let obsolete = obsolete_lesson current
       in or_raise (validate_stored_lesson rt obsolete)
          (Inr (obsolete, s\<lparr>st_lessons := dict_set lesson_id obsolete (st_lessons s)\<rparr>)))"

definition add_project_policy :: "runtime \<Rightarrow> ProjectPolicy \<Rightarrow> ProjectPolicy op" where
  "add_project_policy rt policy s =
     (let pid = pp_policy_id policy in
      or_raise (first_error
        [validate_project_policy policy,
         raise_if (dict_has (st_project_policies s) pid) (u ''duplicate policy_id: '' @ pid),
         raise_if (dict_has (st_failure_cases s) pid \<or> dict_has (st_lessons s) pid)
           (u ''duplicate memory_id across memory types: '' @ pid),
         validate_lesson_contract rt (pp_policy_text policy) (pp_scope policy) (pp_confidence policy)])
      (Inr (policy, s\<lparr>st_project_policies := dict_set pid policy (st_project_policies s)\<rparr>)))"

definition store_obsolete_project_policy :: "runtime \<Rightarrow> pystr \<Rightarrow> ProjectPolicy op" where
  "store_obsolete_project_policy rt policy_id s =
     rbind (stored_record (st_project_policies s) policy_id (u ''project policy'')) (\<lambda>current.
     if pp_status current = u ''obsolete'' then Inr (current, s)
     else
       let obsolete = obsolete_project_policy current
       in or_raise (validate_stored_policy rt obsolete)
          (Inr (obsolete, s\<lparr>st_project_policies := dict_set policy_id obsolete (st_project_policies s)\<rparr>)))"

section \<open>Batch obsolescence\<close>

datatype memory_record = CaseRecord FailureCase | LessonRecord Lesson | PolicyRecord ProjectPolicy

definition obsolescence_request_error :: "MemoryObsolescenceRequest \<Rightarrow> py_error option" where
  "obsolescence_request_error request =
     first_error
       [raise_if (ob_memory_kind request \<notin> set MEMORY_KINDS)
          (u ''memory_kind must be one of failure_case, lesson, or project_policy''),
        validate_required_string (ob_memory_id request) (u ''memory_id'')
          (u ''memory obsolescence requests require'') (Some MEMORY_ID_MAX_CHARS)]"

definition validated_memory_obsolescence_requests :: "MemoryObsolescenceRequest list \<Rightarrow> py_error option" where
  "validated_memory_obsolescence_requests requests =
     first_error
       ([raise_if (requests = [])
           (u ''memory batch obsolescence requires a non-empty MemoryObsolescenceRequest tuple'')]
        @ map obsolescence_request_error requests
        @ [raise_if (\<not> distinct (map ob_memory_id requests))
             (u ''memory batch obsolescence requires unique memory_ids'')])"

text \<open>The lookup of one request: it fails when there is no such memory.\<close>

definition requested_record :: "store \<Rightarrow> MemoryObsolescenceRequest \<Rightarrow> memory_record result" where
  "requested_record s request =
     (if ob_memory_kind request = u ''failure_case''
      then rbind (stored_record (st_failure_cases s) (ob_memory_id request) (u ''failure case'')) (Inr \<circ> CaseRecord)
      else if ob_memory_kind request = u ''lesson''
      then rbind (stored_record (st_lessons s) (ob_memory_id request) (u ''lesson'')) (Inr \<circ> LessonRecord)
      else rbind (stored_record (st_project_policies s) (ob_memory_id request) (u ''project policy''))
             (Inr \<circ> PolicyRecord))"

definition requested_ids :: "pystr \<Rightarrow> MemoryObsolescenceRequest list \<Rightarrow> pystr list" where
  "requested_ids kind requests =
     map ob_memory_id (filter (\<lambda>r. ob_memory_kind r = kind) requests)"

definition retire_cases :: "store \<Rightarrow> pystr list \<Rightarrow> (pystr, FailureCase) dict" where
  "retire_cases s ids =
     map (\<lambda>(i, c). (i, if fc_status c = u ''obsolete'' then c else obsolete_failure_case c))
       (filter (\<lambda>(i, c). i \<in> set ids) (st_failure_cases s))"

definition retire_lessons :: "store \<Rightarrow> pystr list \<Rightarrow> pystr list \<Rightarrow> (pystr, Lesson) dict" where
  "retire_lessons s ids cascading_case_ids =
     map (\<lambda>(i, l). (i, if ls_status l = u ''obsolete'' then l else obsolete_lesson l))
       (filter (\<lambda>(i, l). i \<in> set ids \<or>
           ls_source_case_id l \<in> set cascading_case_ids \<and> ls_status l = u ''active'') (st_lessons s))"

definition retire_policies :: "store \<Rightarrow> pystr list \<Rightarrow> (pystr, ProjectPolicy) dict" where
  "retire_policies s ids =
     map (\<lambda>(i, p). (i, if pp_status p = u ''obsolete'' then p else obsolete_project_policy p))
       (filter (\<lambda>(i, p). i \<in> set ids) (st_project_policies s))"

definition retired_record ::
  "(pystr, FailureCase) dict \<Rightarrow> (pystr, Lesson) dict \<Rightarrow> (pystr, ProjectPolicy) dict \<Rightarrow>
   MemoryObsolescenceRequest \<Rightarrow> memory_record result" where
  "retired_record cases lessons policies request =
     (let missing = KeyError (ob_memory_id request) in
      if ob_memory_kind request = u ''failure_case'' then
        (case dict_get cases (ob_memory_id request) of None \<Rightarrow> Inl missing | Some c \<Rightarrow> Inr (CaseRecord c))
      else if ob_memory_kind request = u ''lesson'' then
        (case dict_get lessons (ob_memory_id request) of None \<Rightarrow> Inl missing | Some l \<Rightarrow> Inr (LessonRecord l))
      else
        (case dict_get policies (ob_memory_id request) of None \<Rightarrow> Inl missing | Some p \<Rightarrow> Inr (PolicyRecord p)))"

definition obsolete_memories :: "runtime \<Rightarrow> MemoryObsolescenceRequest list \<Rightarrow> memory_record list op" where
  "obsolete_memories rt requests s =
     or_raise (validated_memory_obsolescence_requests requests)
     (rbind (rmap (requested_record s) requests) (\<lambda>_.
      let requested_case_ids = requested_ids (u ''failure_case'') requests;
          requested_lesson_ids = requested_ids (u ''lesson'') requests;
          requested_policy_ids = requested_ids (u ''project_policy'') requests;
          cascading_case_ids =
            filter (\<lambda>i. map_option fc_status (dict_get (st_failure_cases s) i) \<noteq> Some (u ''obsolete''))
              requested_case_ids;
          obsolete_cases = retire_cases s requested_case_ids;
          obsolete_lessons = retire_lessons s requested_lesson_ids cascading_case_ids;
          obsolete_policies = retire_policies s requested_policy_ids
      in or_raise (first_error
           (map validate_failure_case (dict_values obsolete_cases)
            @ map (validate_stored_lesson rt) (dict_values obsolete_lessons)
            @ map (validate_stored_policy rt) (dict_values obsolete_policies)))
         (rbind (rmap (retired_record obsolete_cases obsolete_lessons obsolete_policies) requests) (\<lambda>results.
          Inr (results,
            s\<lparr>st_failure_cases := dict_update (st_failure_cases s) obsolete_cases,
              st_lessons := dict_update (st_lessons s) obsolete_lessons,
              st_project_policies := dict_update (st_project_policies s) obsolete_policies\<rparr>)))))"

end
