(* ===== verification/StoreInv.thy ===== *)
theory StoreInv
  imports Store
begin

text \<open>
  The invariant of the memory part of a store and that every operation of \<open>Store\<close> keeps it: every
  record is valid and stored under its own id, ids are unique across the kinds of memory, every
  failure case stands on a failed trace of the same commit, and every lesson on a regression-backed
  case, which is verified and comes from a clean trace when the lesson is active.
\<close>

section \<open>Evidence that a trace never loses\<close>

definition trace_identity :: "Trace \<Rightarrow> Trace" where
  "trace_identity t =
     t\<lparr>tr_eval_result := [], tr_output_hash := None, tr_tool_outputs := [], tr_latency_ms := None,
       tr_cost_usd := None, tr_error := None, tr_trace_uri := None\<rparr>"

definition measured :: "Trace \<Rightarrow> bool" where
  "measured t \<longleftrightarrow> tr_eval_result t \<in> set EVALUATED_RESULTS"

text \<open>One trace may take the place of another: same identity, and a measured trace stays as it is.\<close>

definition trace_step :: "Trace \<Rightarrow> Trace \<Rightarrow> bool" where
  "trace_step t t' \<longleftrightarrow> trace_identity t' = trace_identity t \<and> (measured t \<longrightarrow> t' = t)"

lemma trace_step_refl [simp]: "trace_step t t"
  by (simp add: trace_step_def)

lemma trace_identity_set_field [simp]: "trace_identity (set_field f t) = trace_identity t"
  by (cases f) (simp_all add: trace_identity_def)

lemma trace_identity_fold: "trace_identity (fold set_field fs t) = trace_identity t"
  by (induction fs arbitrary: t) simp_all

lemma trace_identity_eval [simp]: "trace_identity (t\<lparr>tr_eval_result := r\<rparr>) = trace_identity t"
  by (simp add: trace_identity_def)

lemma trace_identity_fields:
  assumes "trace_identity t' = trace_identity t"
  shows "tr_trace_id t' = tr_trace_id t" "tr_run_id t' = tr_run_id t" "tr_commit_sha t' = tr_commit_sha t"
    "tr_repo t' = tr_repo t" "tr_tenant t' = tr_tenant t" "tr_dirty t' = tr_dirty t"
    "tr_branch t' = tr_branch t" "tr_prompt_version t' = tr_prompt_version t"
    "tr_prompt_family t' = tr_prompt_family t" "tr_tool_schema_version t' = tr_tool_schema_version t"
    "tr_model t' = tr_model t" "tr_eval_suite t' = tr_eval_suite t" "tr_input_hash t' = tr_input_hash t"
    "tr_tool_calls t' = tr_tool_calls t" "tr_created_at t' = tr_created_at t"
  using assms by (cases t; cases t'; simp add: trace_identity_def)+

lemmas trace_step_fields = trace_identity_fields [OF conjunct1 [OF trace_step_def [THEN iffD1]]]

lemma eval_result_set_field [simp]: "tr_eval_result (set_field f t) = tr_eval_result t"
  by (cases f) simp_all

lemma eval_result_fold: "tr_eval_result (fold set_field fs t) = tr_eval_result t"
  by (induction fs arbitrary: t) simp_all

lemma trace_eq_eval: "trace_eq a b \<Longrightarrow> tr_eval_result a = tr_eval_result b"
  by (cases a; cases b) (simp add: trace_eq_def)

lemma completed_trace_candidate_Inr:
  assumes "completed_trace_candidate rt t r fs = Inr t'"
  shows "trace_step t t'" "tr_eval_result t' = r" "validate_trace rt t = None \<Longrightarrow> validate_trace rt t' = None"
proof -
  let ?c = "fold set_field fs (t\<lparr>tr_eval_result := r\<rparr>)"
  have id: "trace_identity ?c = trace_identity t" by (simp add: trace_identity_fold)
  have ev: "tr_eval_result ?c = r" by (simp add: eval_result_fold)
  from assms have "t' = ?c \<and> \<not> measured t \<or> t' = t \<and> trace_eq ?c t"
    unfolding completed_trace_candidate_def Let_def or_raise_Inr_iff measured_def
    by (auto simp: result_simps split: if_splits)
  then show "trace_step t t'" "tr_eval_result t' = r"
    using id ev by (auto simp: trace_step_def dest: trace_eq_eval)
  show "validate_trace rt t = None \<Longrightarrow> validate_trace rt t' = None"
    using assms unfolding completed_trace_candidate_def Let_def or_raise_Inr_iff
    by (auto simp: result_simps split: if_splits)
qed

section \<open>The invariant\<close>

definition traces_ok :: "runtime \<Rightarrow> store \<Rightarrow> bool" where
  "traces_ok rt s \<longleftrightarrow> dict_ok (st_traces s) \<and>
     (\<forall>i t. dict_get (st_traces s) i = Some t \<longrightarrow> tr_trace_id t = i \<and> validate_trace rt t = None)"

definition run_traces :: "store \<Rightarrow> pystr \<Rightarrow> pystr list" where
  "run_traces s r = map tr_trace_id (filter (\<lambda>t. tr_run_id t = r) (dict_values (st_traces s)))"

definition run_index_ok :: "store \<Rightarrow> bool" where
  "run_index_ok s \<longleftrightarrow> dict_ok (st_trace_ids_by_run_id s) \<and>
     (\<forall>r. dict_get (st_trace_ids_by_run_id s) r =
        (if run_traces s r = [] then None else Some (run_traces s r)))"

definition case_supported :: "store \<Rightarrow> FailureCase \<Rightarrow> bool" where
  "case_supported s c \<longleftrightarrow>
     (\<exists>t. dict_get (st_traces s) (fc_source_trace_id c) = Some t \<and>
        tr_eval_result t \<in> {u ''fail'', u ''error''} \<and> tr_commit_sha t = fc_commit_sha c)"

definition cases_ok :: "store \<Rightarrow> bool" where
  "cases_ok s \<longleftrightarrow> dict_ok (st_failure_cases s) \<and>
     (\<forall>i c. dict_get (st_failure_cases s) i = Some c \<longrightarrow>
        fc_case_id c = i \<and> validate_failure_case c = None \<and> case_supported s c)"

definition lesson_supported :: "store \<Rightarrow> Lesson \<Rightarrow> bool" where
  "lesson_supported s l \<longleftrightarrow>
     (\<exists>c t. dict_get (st_failure_cases s) (ls_source_case_id l) = Some c \<and>
        dict_get (st_traces s) (fc_source_trace_id c) = Some t \<and>
        fc_status c \<noteq> u ''draft'' \<and> fc_regression_passed c \<and>
        (ls_status l = u ''active'' \<longrightarrow> fc_status c = u ''verified'' \<and> \<not> tr_dirty t) \<and>
        (\<forall>v. tr_repo t = Some v \<longrightarrow> dict_get (ls_scope l) (u ''repo'') = Some v) \<and>
        (\<forall>v. tr_tenant t = Some v \<longrightarrow> dict_get (ls_scope l) (u ''tenant'') = Some v))"

definition lessons_ok :: "runtime \<Rightarrow> store \<Rightarrow> bool" where
  "lessons_ok rt s \<longleftrightarrow> dict_ok (st_lessons s) \<and>
     (\<forall>i l. dict_get (st_lessons s) i = Some l \<longrightarrow>
        ls_lesson_id l = i \<and> validate_stored_lesson rt l = None \<and> lesson_supported s l)"

definition policies_ok :: "runtime \<Rightarrow> store \<Rightarrow> bool" where
  "policies_ok rt s \<longleftrightarrow> dict_ok (st_project_policies s) \<and>
     (\<forall>i p. dict_get (st_project_policies s) i = Some p \<longrightarrow>
        pp_policy_id p = i \<and> validate_stored_policy rt p = None)"

text \<open>No memory id is used by two kinds of memory.\<close>

definition ids_ok :: "store \<Rightarrow> bool" where
  "ids_ok s \<longleftrightarrow>
     (\<forall>i. (dict_get (st_failure_cases s) i = None \<or> dict_get (st_lessons s) i = None) \<and>
          (dict_get (st_failure_cases s) i = None \<or> dict_get (st_project_policies s) i = None) \<and>
          (dict_get (st_lessons s) i = None \<or> dict_get (st_project_policies s) i = None))"

definition memory_ok :: "runtime \<Rightarrow> store \<Rightarrow> bool" where
  "memory_ok rt s \<longleftrightarrow>
     traces_ok rt s \<and> run_index_ok s \<and> cases_ok s \<and> lessons_ok rt s \<and> policies_ok rt s \<and> ids_ok s"

lemmas memory_ok_defs = memory_ok_def traces_ok_def run_index_ok_def cases_ok_def lessons_ok_def
  policies_ok_def ids_ok_def

lemma memory_ok_new_store: "memory_ok rt (new_store token sid)"
  by (simp add: memory_ok_defs new_store_def run_traces_def dict_values_def dict_ok_def)

text \<open>The memory part of a store: what \<open>memory_ok\<close> reads.\<close>

lemma memory_ok_cong:
  assumes "st_traces s' = st_traces s" "st_trace_ids_by_run_id s' = st_trace_ids_by_run_id s"
    "st_failure_cases s' = st_failure_cases s" "st_lessons s' = st_lessons s"
    "st_project_policies s' = st_project_policies s"
  shows "memory_ok rt s' = memory_ok rt s"
  using assms
  by (simp add: memory_ok_defs case_supported_def lesson_supported_def run_traces_def)

section \<open>Traces advance\<close>

definition traces_advance :: "store \<Rightarrow> store \<Rightarrow> bool" where
  "traces_advance s s' \<longleftrightarrow>
     dict_keys (st_traces s') = dict_keys (st_traces s) \<and>
     list_all2 (\<lambda>x y. fst x = fst y \<and> trace_step (snd x) (snd y)) (st_traces s) (st_traces s')"

lemma list_all2_dict_get:
  assumes "list_all2 (\<lambda>x y. fst x = fst y \<and> P (snd x) (snd y)) d e"
  shows "rel_option P (dict_get d k) (dict_get e k)"
  using assms by (induction rule: list_all2_induct) auto

lemma list_all2_dict_set:
  assumes "dict_get d k = Some v" and "P v w" and "\<And>x. P x x"
  shows "list_all2 (\<lambda>x y. fst x = fst y \<and> P (snd x) (snd y)) d (dict_set k w d)"
  using assms by (induction d) (auto split: if_splits simp: list.rel_refl)

lemma traces_advance_get:
  assumes "traces_advance s s'"
  shows "dict_get (st_traces s') i = Some t' \<Longrightarrow> \<exists>t. dict_get (st_traces s) i = Some t \<and> trace_step t t'"
    and "dict_get (st_traces s) i = Some t \<Longrightarrow> \<exists>t'. dict_get (st_traces s') i = Some t' \<and> trace_step t t'"
  using assms list_all2_dict_get [of trace_step "st_traces s" "st_traces s'" i]
  by (auto simp: traces_advance_def option_rel_Some1 option_rel_Some2)

lemma traces_advance_run_traces:
  assumes "traces_advance s s'"
  shows "run_traces s' r = run_traces s r"
proof -
  have "list_all2 (\<lambda>x y. fst x = fst y \<and> trace_step (snd x) (snd y)) (st_traces s) (st_traces s')"
    using assms by (simp add: traces_advance_def)
  then show ?thesis
    unfolding run_traces_def dict_values_def
    by (induction rule: list_all2_induct) (auto dest: trace_step_fields(1,2))
qed

lemma failed_is_measured: "tr_eval_result t \<in> {u ''fail'', u ''error''} \<Longrightarrow> measured t"
  by (auto simp: measured_def store_constants)

lemma case_supported_advance:
  assumes "traces_advance s s'" and "case_supported s c"
  shows "case_supported s' c"
proof -
  from assms(2) obtain t where t: "dict_get (st_traces s) (fc_source_trace_id c) = Some t"
      "tr_eval_result t \<in> {u ''fail'', u ''error''}" "tr_commit_sha t = fc_commit_sha c"
    by (auto simp: case_supported_def)
  from failed_is_measured [OF t(2)] traces_advance_get(2) [OF assms(1) t(1)]
  have "dict_get (st_traces s') (fc_source_trace_id c) = Some t" by (auto simp: trace_step_def)
  with t show ?thesis by (auto simp: case_supported_def)
qed

lemma lesson_supported_advance:
  assumes adv: "traces_advance s s'" and "lesson_supported s l"
    and cases: "st_failure_cases s' = st_failure_cases s"
  shows "lesson_supported s' l"
proof -
  from assms(2) obtain c t where c: "dict_get (st_failure_cases s) (ls_source_case_id l) = Some c"
      and t: "dict_get (st_traces s) (fc_source_trace_id c) = Some t"
      and rest: "fc_status c \<noteq> u ''draft''" "fc_regression_passed c"
        "ls_status l = u ''active'' \<longrightarrow> fc_status c = u ''verified'' \<and> \<not> tr_dirty t"
        "\<forall>v. tr_repo t = Some v \<longrightarrow> dict_get (ls_scope l) (u ''repo'') = Some v"
        "\<forall>v. tr_tenant t = Some v \<longrightarrow> dict_get (ls_scope l) (u ''tenant'') = Some v"
    unfolding lesson_supported_def by blast
  from traces_advance_get(2) [OF adv t] obtain t' where
    t': "dict_get (st_traces s') (fc_source_trace_id c) = Some t'" "trace_step t t'" by blast
  show ?thesis
    unfolding lesson_supported_def cases
    using c t' rest trace_step_fields(4-6) [OF t'(2)] by auto
qed

text \<open>Replacing traces by later versions of themselves keeps the memory part.\<close>

lemma memory_ok_advance:
  assumes adv: "traces_advance s s'" and ok: "memory_ok rt s"
    and valid: "\<And>i t. dict_get (st_traces s') i = Some t \<Longrightarrow> validate_trace rt t = None"
    and same: "st_trace_ids_by_run_id s' = st_trace_ids_by_run_id s" "st_failure_cases s' = st_failure_cases s"
      "st_lessons s' = st_lessons s" "st_project_policies s' = st_project_policies s"
  shows "memory_ok rt s'"
proof -
  have "traces_ok rt s'"
    using ok valid adv traces_advance_get(1) [OF adv] trace_step_fields(1)
    by (fastforce simp: memory_ok_def traces_ok_def dict_ok_def traces_advance_def dict_keys_def)
  moreover have "run_index_ok s'" using ok traces_advance_run_traces [OF adv] same
    by (simp add: memory_ok_def run_index_ok_def)
  moreover have "cases_ok s'" using ok case_supported_advance [OF adv] same
    by (simp add: memory_ok_def cases_ok_def)
  moreover have "lessons_ok rt s'" using ok lesson_supported_advance [OF adv] same
    by (simp add: memory_ok_def lessons_ok_def)
  ultimately show ?thesis using ok same by (simp add: memory_ok_def policies_ok_def ids_ok_def)
qed

section \<open>Every operation keeps the invariant\<close>

lemma dict_set_new: "dict_get d k = None \<Longrightarrow> dict_set k v d = d @ [(k, v)]"
  by (induction d) (auto split: if_splits)

lemma stored_record_Inr_iff:
  "stored_record d i label = Inr r \<longleftrightarrow> i \<noteq> [] \<and> length i \<le> MEMORY_ID_MAX_CHARS \<and> dict_get d i = Some r"
  by (auto simp: stored_record_def not_less split: option.splits if_splits)

lemma record_trace_Inr_iff:
  "record_trace rt t s = Inr (t', s') \<longleftrightarrow>
     t' = t \<and> validate_trace rt t = None \<and> dict_get (st_traces s) (tr_trace_id t) = None \<and>
     s' = s\<lparr>st_traces := dict_set (tr_trace_id t) t (st_traces s),
            st_trace_ids_by_run_id := dict_set (tr_run_id t)
              (case dict_get (st_trace_ids_by_run_id s) (tr_run_id t) of
                 None \<Rightarrow> [tr_trace_id t] | Some trace_ids \<Rightarrow> trace_ids @ [tr_trace_id t])
              (st_trace_ids_by_run_id s)\<rparr>"
  by (auto simp: record_trace_def Let_def result_simps dict_has_iff)

lemma record_trace_ok:
  assumes ok: "memory_ok rt s" and r: "record_trace rt t s = Inr (t', s')"
  shows "memory_ok rt s'"
proof -
  from r have valid: "validate_trace rt t = None" and new: "dict_get (st_traces s) (tr_trace_id t) = None"
    and s': "s' = s\<lparr>st_traces := dict_set (tr_trace_id t) t (st_traces s),
            st_trace_ids_by_run_id := dict_set (tr_run_id t)
              (case dict_get (st_trace_ids_by_run_id s) (tr_run_id t) of
                 None \<Rightarrow> [tr_trace_id t] | Some trace_ids \<Rightarrow> trace_ids @ [tr_trace_id t])
              (st_trace_ids_by_run_id s)\<rparr>"
    by (simp_all add: record_trace_Inr_iff)
  have keep: "dict_get (st_traces s') i = Some x" if "dict_get (st_traces s) i = Some x" for i x
    using that new by (auto simp: s' dict_get_set)
  have "traces_ok rt s'"
    using ok valid by (auto simp: s' memory_ok_def traces_ok_def dict_get_set)
  moreover have "run_traces s' r = run_traces s r @ (if tr_run_id t = r then [tr_trace_id t] else [])" for r
    using new by (simp add: s' run_traces_def dict_values_def dict_set_new)
  then have "run_index_ok s'"
    using ok by (auto simp: s' memory_ok_def run_index_ok_def dict_get_set split: option.splits if_splits)
  moreover have "cases_ok s'"
    using ok keep by (fastforce simp: s' memory_ok_def cases_ok_def case_supported_def)
  moreover have "lessons_ok rt s'"
  proof -
    have "lesson_supported s' l" if "lesson_supported s l" for l
      using that keep by (fastforce simp: s' lesson_supported_def)
    then show ?thesis using ok by (simp add: s' memory_ok_def lessons_ok_def)
  qed
  ultimately show ?thesis using ok by (simp add: s' memory_ok_def policies_ok_def ids_ok_def)
qed

lemma complete_trace_Inr:
  assumes "complete_trace rt i r args s = Inr (t', s')"
  obtains t where "dict_get (st_traces s) i = Some t" "r \<in> set EVALUATED_RESULTS"
    "completed_trace_candidate rt t r (provided_trace_completion_values args) = Inr t'"
    "s' = s\<lparr>st_traces := dict_set i t' (st_traces s)\<rparr>"
  using assms by (auto simp: complete_trace_def result_simps validate_measured_eval_result_def split: option.splits)

lemma traces_advance_set:
  assumes "dict_get (st_traces s) i = Some t" and "trace_step t t'"
    and "st_traces s' = dict_set i t' (st_traces s)"
  shows "traces_advance s s'"
proof -
  have "dict_keys (st_traces s') = dict_keys (st_traces s)"
    unfolding assms(3) by (rule alist.keys_set_existing) (simp add: assms(1))
  moreover have "list_all2 (\<lambda>x y. fst x = fst y \<and> trace_step (snd x) (snd y)) (st_traces s) (st_traces s')"
    unfolding assms(3) by (rule list_all2_dict_set) (use assms in auto)
  ultimately show ?thesis by (simp add: traces_advance_def)
qed

lemma complete_trace_ok:
  assumes ok: "memory_ok rt s" and r: "complete_trace rt i r args s = Inr (t', s')"
  shows "memory_ok rt s'"
proof -
  from complete_trace_Inr [OF r] obtain t where t: "dict_get (st_traces s) i = Some t"
    and c: "completed_trace_candidate rt t r (provided_trace_completion_values args) = Inr t'"
    and s': "s' = s\<lparr>st_traces := dict_set i t' (st_traces s)\<rparr>" by blast
  have v: "validate_trace rt x = None" if "dict_get (st_traces s) k = Some x" for k x
    using ok that by (simp add: memory_ok_def traces_ok_def)
  show ?thesis
  proof (rule memory_ok_advance [OF _ ok])
    show "traces_advance s s'"
      by (rule traces_advance_set [OF t completed_trace_candidate_Inr(1) [OF c]]) (simp add: s')
  qed (use v t completed_trace_candidate_Inr(3) [OF c] in \<open>auto simp: s' dict_get_set split: if_splits\<close>)
qed

text \<open>A case may be replaced when no lesson loses its support.\<close>

lemma replace_case_ok:
  assumes ok: "memory_ok rt s"
    and c': "fc_case_id c' = i" "validate_failure_case c' = None" "case_supported s c'"
    and i: "dict_get (st_lessons s) i = None" "dict_get (st_project_policies s) i = None"
    and lessons: "\<And>l. l \<in> set (dict_values ls) \<Longrightarrow>
      ls_source_case_id l = i \<Longrightarrow> lesson_supported (s\<lparr>st_failure_cases := dict_set i c' (st_failure_cases s)\<rparr>) l"
    and ls: "dict_ok ls" "dict_keys ls = dict_keys (st_lessons s)"
      "\<And>k l. dict_get ls k = Some l \<Longrightarrow>
         ls_lesson_id l = k \<and> validate_stored_lesson rt l = None \<and> lesson_supported s l"
  shows "memory_ok rt (s\<lparr>st_failure_cases := dict_set i c' (st_failure_cases s), st_lessons := ls\<rparr>)"
    (is "memory_ok rt ?s'")
proof -
  have "case_supported ?s' c = case_supported s c" for c by (simp add: case_supported_def)
  then have "cases_ok ?s'"
    using ok c' by (auto simp: memory_ok_def cases_ok_def dict_get_set)
  moreover have "lesson_supported ?s' l" if "dict_get ls k = Some l" for k l
  proof (cases "ls_source_case_id l = i")
    case True
    with lessons [of l] that ls(1) have
      "lesson_supported (s\<lparr>st_failure_cases := dict_set i c' (st_failure_cases s)\<rparr>) l"
      by (auto simp: dict_values_in)
    then show ?thesis by (simp add: lesson_supported_def)
  next
    case False
    with ls(3) [OF that] show ?thesis by (auto simp: lesson_supported_def dict_get_set)
  qed
  then have "lessons_ok rt ?s'" using ls by (simp add: lessons_ok_def)
  moreover have "ids_ok ?s'"
  proof -
    have "dict_get ls k = None \<longleftrightarrow> dict_get (st_lessons s) k = None" for k
      using ls(2) alist.keys_get [of k ls] alist.keys_get [of k "st_lessons s"] by auto
    then show ?thesis using ok i by (auto simp: memory_ok_def ids_ok_def dict_get_set)
  qed
  ultimately show ?thesis
    using ok by (simp add: memory_ok_def traces_ok_def run_index_ok_def run_traces_def policies_ok_def)
qed

lemma no_lesson_case_ok:
  assumes ok: "memory_ok rt s"
    and c': "fc_case_id c' = i" "validate_failure_case c' = None" "case_supported s c'"
    and i: "dict_get (st_lessons s) i = None" "dict_get (st_project_policies s) i = None"
    and old: "\<And>c. dict_get (st_failure_cases s) i = Some c \<Longrightarrow> fc_status c = u ''draft''"
  shows "memory_ok rt (s\<lparr>st_failure_cases := dict_set i c' (st_failure_cases s)\<rparr>)"
proof -
  let ?s' = "s\<lparr>st_failure_cases := dict_set i c' (st_failure_cases s), st_lessons := st_lessons s\<rparr>"
  have lessons: "dict_ok (st_lessons s)"
      "dict_get (st_lessons s) k = Some l \<Longrightarrow>
        ls_lesson_id l = k \<and> validate_stored_lesson rt l = None \<and> lesson_supported s l" for k l
    using ok by (auto simp: memory_ok_def lessons_ok_def)
  have "ls_source_case_id l \<noteq> i" if "l \<in> set (dict_values (st_lessons s))" for l
    using that lessons old by (fastforce simp: dict_values_in lesson_supported_def)
  then have "memory_ok rt ?s'"
    by (intro replace_case_ok [OF ok c' i]) (use lessons in auto)
  then show ?thesis by simp
qed

lemma add_failure_case_Inr_iff:
  "add_failure_case c s = Inr (c', s') \<longleftrightarrow>
     c' = c \<and> validate_failure_case c = None \<and> dict_get (st_failure_cases s) (fc_case_id c) = None \<and>
     dict_get (st_lessons s) (fc_case_id c) = None \<and> dict_get (st_project_policies s) (fc_case_id c) = None \<and>
     case_supported s c \<and> s' = s\<lparr>st_failure_cases := dict_set (fc_case_id c) c (st_failure_cases s)\<rparr>"
  by (auto simp: add_failure_case_def Let_def result_simps dict_has_iff case_supported_def split: option.splits)

lemma add_failure_case_ok:
  "memory_ok rt s \<Longrightarrow> add_failure_case c s = Inr (c', s') \<Longrightarrow> memory_ok rt s'"
  by (auto simp: add_failure_case_Inr_iff intro!: no_lesson_case_ok)

lemma case_get:
  assumes "memory_ok rt s" and "dict_get (st_failure_cases s) i = Some c"
  shows "fc_case_id c = i" "validate_failure_case c = None" "case_supported s c"
    "dict_get (st_lessons s) i = None" "dict_get (st_project_policies s) i = None"
proof -
  show "fc_case_id c = i" "validate_failure_case c = None" "case_supported s c"
    using assms by (auto simp: memory_ok_def cases_ok_def)
  have "(dict_get (st_failure_cases s) i = None \<or> dict_get (st_lessons s) i = None) \<and>
      (dict_get (st_failure_cases s) i = None \<or> dict_get (st_project_policies s) i = None)"
    using assms(1) by (simp add: memory_ok_def ids_ok_def)
  with assms(2) show "dict_get (st_lessons s) i = None" "dict_get (st_project_policies s) i = None" by auto
qed

lemma case_supported_same:
  "fc_source_trace_id c' = fc_source_trace_id c \<Longrightarrow> fc_commit_sha c' = fc_commit_sha c \<Longrightarrow>
     case_supported s c' = case_supported s c"
  by (simp add: case_supported_def)

lemma store_review_failure_case_Inr:
  assumes "store_review_failure_case rt i who cause ft sy notes ts s = Inr (c', s')"
  obtains c where "dict_get (st_failure_cases s) i = Some c"
    "review_failure_case rt c who cause ft sy notes ts = Inr c'" "validate_failure_case c' = None"
    "s' = s\<lparr>st_failure_cases := dict_set i c' (st_failure_cases s)\<rparr>"
  using assms by (auto simp: store_review_failure_case_def result_simps stored_record_Inr_iff)

lemma review_failure_case_ids:
  assumes "review_failure_case rt c who cause ft sy notes ts = Inr c'"
  shows "fc_status c = u ''draft''" "fc_case_id c' = fc_case_id c"
    "fc_source_trace_id c' = fc_source_trace_id c" "fc_commit_sha c' = fc_commit_sha c"
  using assms by (auto simp: review_failure_case_def result_simps)

lemma store_review_failure_case_ok:
  assumes ok: "memory_ok rt s" and r: "store_review_failure_case rt i who cause ft sy notes ts s = Inr (c', s')"
  shows "memory_ok rt s'"
proof -
  from store_review_failure_case_Inr [OF r] obtain c where c: "dict_get (st_failure_cases s) i = Some c"
    and rv: "review_failure_case rt c who cause ft sy notes ts = Inr c'" "validate_failure_case c' = None"
    and s': "s' = s\<lparr>st_failure_cases := dict_set i c' (st_failure_cases s)\<rparr>" by blast
  note ids = review_failure_case_ids [OF rv(1)]
  show ?thesis unfolding s'
    by (rule no_lesson_case_ok [OF ok])
       (use c rv ids case_get [OF ok c] case_supported_same [of c' c s] in auto)
qed

lemma store_verify_failure_case_Inr:
  assumes "store_verify_failure_case i fix sha passed s = Inr (c', s')"
  obtains c where "dict_get (st_failure_cases s) i = Some c"
    "verify_failure_case c fix sha passed = Inr c'" "validate_failure_case c' = None"
    "s' = s\<lparr>st_failure_cases := dict_set i c' (st_failure_cases s)\<rparr>"
  using assms by (auto simp: store_verify_failure_case_def result_simps stored_record_Inr_iff)

lemma store_verify_failure_case_ok:
  assumes ok: "memory_ok rt s" and r: "store_verify_failure_case i fix sha passed s = Inr (c', s')"
  shows "memory_ok rt s'"
proof -
  from store_verify_failure_case_Inr [OF r] obtain c where c: "dict_get (st_failure_cases s) i = Some c"
    and v: "verify_failure_case c fix sha passed = Inr c'" "validate_failure_case c' = None"
    and s': "s' = s\<lparr>st_failure_cases := dict_set i c' (st_failure_cases s)\<rparr>" by blast
  show ?thesis unfolding s'
    by (rule no_lesson_case_ok [OF ok])
       (use c v case_get [OF ok c] case_supported_same [of c' c s] in \<open>auto simp: verify_failure_case_Inr_iff\<close>)
qed

section \<open>Obsolescence\<close>

text \<open>An update of a dictionary by changed versions of some of its own entries.\<close>

lemma dict_get_map_filter:
  assumes "dict_ok d"
  shows "dict_get (map (\<lambda>(i, x). (i, f x)) (filter P d)) k =
    (case dict_get d k of Some x \<Rightarrow> if P (k, x) then Some (f x) else None | None \<Rightarrow> None)"
  using assms
proof (induction d)
  case (Cons kx d)
  have "dict_get d k = None" if "fst kx = k"
    using Cons.prems that by (auto simp: dict_ok_def map_of_eq_None_iff)
  with Cons show ?case by (cases kx) (auto simp: dict_ok_def split: option.splits)
qed simp

lemma dict_get_self_update:
  assumes "dict_ok d"
  shows "dict_get (dict_update d (map (\<lambda>(i, x). (i, f x)) (filter P d))) k =
    map_option (\<lambda>x. if P (k, x) then f x else x) (dict_get d k)"
proof -
  have "dict_ok (map (\<lambda>(i, x). (i, f x)) (filter P d))"
    using assms by (auto simp: dict_ok_def comp_def case_prod_beta distinct_map_filter)
  then show ?thesis
    using dict_get_map_filter [OF assms, of f P k]
    by (auto simp: dict_get_update dict_get_rev split: option.splits)
qed

lemma dict_get_self_updateE:
  assumes "dict_get (dict_update d (map (\<lambda>(i, x). (i, f x)) (filter P d))) k = Some y" and "dict_ok d"
  obtains x where "dict_get d k = Some x" "y = (if P (k, x) then f x else x)"
  using assms dict_get_self_update [OF assms(2), of f P k] by (cases "dict_get d k") auto

lemma dict_keys_self_update:
  "dict_keys (dict_update d (map (\<lambda>(i, x). (i, f x)) (filter P d))) = dict_keys d"
proof -
  have "dict_keys (fold (\<lambda>(k, v). dict_set k v) (map (\<lambda>(i, x). (i, f x)) es) e) = dict_keys e"
    if "set (dict_keys d) \<subseteq> set (dict_keys e)" "set es \<subseteq> set d" for es and e :: "('a \<times> 'b) list"
    using that
  proof (induction es arbitrary: e)
    case (Cons kx es)
    obtain k x where kx: "kx = (k, x)" by (cases kx)
    with Cons.prems have "k \<in> set (dict_keys e)" by (force simp: dict_keys_def)
    then have "dict_keys (dict_set k (f x) e) = dict_keys e" by (simp add: dict_keys_set)
    with Cons kx show ?case by simp
  qed simp
  then show ?thesis unfolding dict_update_def by simp
qed

text \<open>What obsolescence may do to the three kinds of memory.\<close>

definition retires :: "('r \<Rightarrow> 'r) \<Rightarrow> (pystr, 'r) dict \<Rightarrow> (pystr, 'r) dict \<Rightarrow> bool" where
  "retires f d d' \<longleftrightarrow> dict_ok d' \<and> dict_keys d' = dict_keys d \<and>
     (\<forall>k. rel_option (\<lambda>x y. y = x \<or> y = f x) (dict_get d k) (dict_get d' k))"

lemma retires_self_update:
  assumes "dict_ok d" and "\<And>x. g x = x \<or> g x = f x"
  shows "retires f d (dict_update d (map (\<lambda>(i, x). (i, g x)) (filter P d)))"
  unfolding retires_def dict_get_self_update [OF assms(1)] dict_keys_self_update
  using assms by (auto simp: option.rel_map intro!: option.rel_refl dict_ok_update)

lemma retires_refl: "dict_ok d \<Longrightarrow> retires f d d"
  by (auto simp: retires_def intro: option.rel_refl)

lemma retires_set:
  assumes "dict_ok d" and "dict_get d i = Some x"
  shows "retires f d (dict_set i (f x) d)"
proof -
  have "dict_keys (dict_set i (f x) d) = dict_keys d"
    by (rule alist.keys_set_existing) (simp add: assms)
  then show ?thesis
    using assms by (auto simp: retires_def dict_get_set intro: option.rel_refl)
qed

lemma retires_getD:
  "retires f d d' \<Longrightarrow> dict_get d' k = Some y \<Longrightarrow> \<exists>x. dict_get d k = Some x \<and> (y = x \<or> y = f x)"
  by (auto simp: retires_def option_rel_Some2 dest: spec [of _ k])

lemma retires_None: "retires f d d' \<Longrightarrow> dict_get d' k = None \<longleftrightarrow> dict_get d k = None"
  using alist.keys_get [of k d] alist.keys_get [of k d'] by (auto simp: retires_def)

lemma retires_getI:
  assumes "retires f d d'" and "dict_get d k = Some x"
  shows "\<exists>y. dict_get d' k = Some y \<and> (y = x \<or> y = f x)"
  using assms retires_None [OF assms(1), of k] retires_getD [OF assms(1), of k] by (cases "dict_get d' k") auto

lemma obsolete_fields [simp]:
  "fc_case_id (obsolete_failure_case c) = fc_case_id c"
  "fc_source_trace_id (obsolete_failure_case c) = fc_source_trace_id c"
  "fc_commit_sha (obsolete_failure_case c) = fc_commit_sha c"
  "fc_regression_passed (obsolete_failure_case c) = fc_regression_passed c"
  "fc_status (obsolete_failure_case c) = u ''obsolete''"
  "ls_lesson_id (obsolete_lesson l) = ls_lesson_id l"
  "ls_source_case_id (obsolete_lesson l) = ls_source_case_id l"
  "ls_scope (obsolete_lesson l) = ls_scope l"
  "ls_status (obsolete_lesson l) = u ''obsolete''"
  "pp_policy_id (obsolete_project_policy p) = pp_policy_id p"
  "pp_status (obsolete_project_policy p) = u ''obsolete''"
  by (simp_all add: obsolete_failure_case_def obsolete_lesson_def obsolete_project_policy_def)

lemma memory_ok_retires:
  assumes ok: "memory_ok rt s"
    and same: "st_traces s' = st_traces s" "st_trace_ids_by_run_id s' = st_trace_ids_by_run_id s"
    and cs: "retires obsolete_failure_case (st_failure_cases s) (st_failure_cases s')"
    and ls: "retires obsolete_lesson (st_lessons s) (st_lessons s')"
    and ps: "retires obsolete_project_policy (st_project_policies s) (st_project_policies s')"
    and valid: "\<And>i c. dict_get (st_failure_cases s') i = Some c \<Longrightarrow> validate_failure_case c = None"
      "\<And>i l. dict_get (st_lessons s') i = Some l \<Longrightarrow> validate_stored_lesson rt l = None"
      "\<And>i p. dict_get (st_project_policies s') i = Some p \<Longrightarrow> validate_stored_policy rt p = None"
    and cascade: "\<And>i l c. dict_get (st_lessons s') i = Some l \<Longrightarrow> ls_status l = u ''active'' \<Longrightarrow>
      dict_get (st_failure_cases s') (ls_source_case_id l) = Some c \<Longrightarrow> fc_status c = u ''verified''"
  shows "memory_ok rt s'"
proof -
  have "cases_ok s'"
    using ok cs valid(1) retires_getD [OF cs]
    by (fastforce simp: memory_ok_def cases_ok_def case_supported_def same retires_def)
  moreover have "lesson_supported s' l'" if l': "dict_get (st_lessons s') i = Some l'" for i l'
  proof -
    from retires_getD [OF ls l'] obtain l where l: "dict_get (st_lessons s) i = Some l"
      "l' = l \<or> l' = obsolete_lesson l" by blast
    then have src: "ls_source_case_id l' = ls_source_case_id l" "ls_scope l' = ls_scope l" by auto
    from ok l(1) have "lesson_supported s l" by (simp add: memory_ok_def lessons_ok_def)
    then obtain c t where c: "dict_get (st_failure_cases s) (ls_source_case_id l) = Some c"
      and t: "dict_get (st_traces s) (fc_source_trace_id c) = Some t"
      and rest: "fc_status c \<noteq> u ''draft''" "fc_regression_passed c"
        "ls_status l = u ''active'' \<longrightarrow> \<not> tr_dirty t"
        "\<forall>v. tr_repo t = Some v \<longrightarrow> dict_get (ls_scope l) (u ''repo'') = Some v"
        "\<forall>v. tr_tenant t = Some v \<longrightarrow> dict_get (ls_scope l) (u ''tenant'') = Some v"
      unfolding lesson_supported_def by blast
    from retires_getI [OF cs c] obtain c' where c': "dict_get (st_failure_cases s') (ls_source_case_id l) = Some c'"
      "c' = c \<or> c' = obsolete_failure_case c" by blast
    have "ls_status l' = u ''active'' \<longrightarrow> fc_status c' = u ''verified''" using cascade [OF l'] c'(1) src by simp
    moreover have "ls_status l' = u ''active'' \<longrightarrow> \<not> tr_dirty t" using l(2) rest(3) by auto
    ultimately show ?thesis
      unfolding lesson_supported_def src same using c' t rest by auto
  qed
  then have "lessons_ok rt s'"
    using ok ls valid(2) retires_getD [OF ls]
    by (fastforce simp: memory_ok_def lessons_ok_def retires_def)
  moreover have "policies_ok rt s'"
    using ok ps valid(3) retires_getD [OF ps] by (fastforce simp: memory_ok_def policies_ok_def retires_def)
  ultimately show ?thesis
    using ok retires_None [OF cs] retires_None [OF ls] retires_None [OF ps]
    by (simp add: memory_ok_def ids_ok_def traces_ok_def run_index_ok_def run_traces_def same)
qed

lemma memory_ok_dicts:
  assumes "memory_ok rt s"
  shows "dict_ok (st_traces s)" "dict_ok (st_failure_cases s)" "dict_ok (st_lessons s)" "dict_ok (st_project_policies s)"
  using assms by (simp_all add: memory_ok_def traces_ok_def cases_ok_def lessons_ok_def policies_ok_def)

lemma memory_ok_records:
  assumes "memory_ok rt s"
  shows "dict_get (st_failure_cases s) i = Some c \<Longrightarrow> validate_failure_case c = None"
    "dict_get (st_lessons s) i = Some l \<Longrightarrow> validate_stored_lesson rt l = None"
    "dict_get (st_project_policies s) i = Some p \<Longrightarrow> validate_stored_policy rt p = None"
    "dict_get (st_traces s) i = Some t \<Longrightarrow> validate_trace rt t = None \<and> tr_trace_id t = i"
  using assms by (auto simp: memory_ok_def cases_ok_def lessons_ok_def policies_ok_def traces_ok_def)

lemma active_lesson_case:
  assumes "memory_ok rt s" and "dict_get (st_lessons s) i = Some l" and "ls_status l = u ''active''"
    and "dict_get (st_failure_cases s) (ls_source_case_id l) = Some c"
  shows "fc_status c = u ''verified''"
proof -
  from assms have "lesson_supported s l" by (simp add: memory_ok_def lessons_ok_def)
  with assms(3,4) show ?thesis by (auto simp: lesson_supported_def)
qed

lemma self_update_values:
  assumes "dict_ok d" and "dict_get d k = Some x" and "P (k, x)"
  shows "f x \<in> set (dict_values (map (\<lambda>(i, x). (i, f x)) (filter P d)))"
  using assms by (auto simp: dict_values_def image_iff Bex_def dict_in_get [symmetric])

text \<open>Entries of an updated dictionary are valid when old and changed entries are.\<close>

lemma self_update_valid:
  assumes d: "dict_ok d" and old: "\<And>k x. dict_get d k = Some x \<Longrightarrow> Q x"
    and new: "\<And>y. y \<in> set (dict_values (map (\<lambda>(i, x). (i, f x)) (filter P d))) \<Longrightarrow> Q y"
    and get: "dict_get (dict_update d (map (\<lambda>(i, x). (i, f x)) (filter P d))) k = Some y"
  shows "Q y"
  using get old new self_update_values [OF d, of k _ P f]
  by (auto simp: dict_get_self_update [OF d] split: if_splits)

definition case_lessons :: "store \<Rightarrow> pystr \<Rightarrow> (pystr, Lesson) dict" where
  "case_lessons s i =
     map (\<lambda>(lesson_id, l). (lesson_id, obsolete_lesson l))
       (filter (\<lambda>(lesson_id, l). ls_source_case_id l = i \<and> ls_status l = u ''active'') (st_lessons s))"

lemma store_obsolete_failure_case_Inr_iff:
  "store_obsolete_failure_case rt i s = Inr (c', s') \<longleftrightarrow>
     i \<noteq> [] \<and> length i \<le> MEMORY_ID_MAX_CHARS \<and>
     (\<exists>c. dict_get (st_failure_cases s) i = Some c \<and>
       (if fc_status c = u ''obsolete'' then c' = c \<and> s' = s
        else c' = obsolete_failure_case c \<and> validate_failure_case c' = None \<and>
          (\<forall>l\<in>set (dict_values (case_lessons s i)). validate_stored_lesson rt l = None) \<and>
          s' = s\<lparr>st_failure_cases := dict_set i c' (st_failure_cases s),
                 st_lessons := dict_update (st_lessons s) (case_lessons s i)\<rparr>))"
proof (cases "stored_record (st_failure_cases s) i (u ''failure case'')")
  case (Inl e)
  then have "\<not> (i \<noteq> [] \<and> length i \<le> MEMORY_ID_MAX_CHARS \<and> dict_get (st_failure_cases s) i = Some r)" for r
    using stored_record_Inr_iff [of "st_failure_cases s" i "u ''failure case''" r] by simp
  with Inl show ?thesis by (auto simp: store_obsolete_failure_case_def)
next
  case (Inr c)
  then have "i \<noteq> []" "length i \<le> MEMORY_ID_MAX_CHARS" "dict_get (st_failure_cases s) i = Some c"
    by (simp_all add: stored_record_Inr_iff)
  with Inr show ?thesis
    unfolding store_obsolete_failure_case_def Let_def case_lessons_def [symmetric]
    by (cases "fc_status c = u ''obsolete''") (auto simp: or_raise_Inr_iff)
qed

lemma store_obsolete_failure_case_ok:
  assumes ok: "memory_ok rt s" and r: "store_obsolete_failure_case rt i s = Inr (c', s')"
  shows "memory_ok rt s'"
proof -
  let ?P = "\<lambda>(lesson_id, l). ls_source_case_id l = i \<and> ls_status l = u ''active''"
  note d = memory_ok_dicts [OF ok] and v = memory_ok_records [OF ok]
  from r obtain c where c: "dict_get (st_failure_cases s) i = Some c"
    and cases: "if fc_status c = u ''obsolete'' then c' = c \<and> s' = s
        else c' = obsolete_failure_case c \<and> validate_failure_case c' = None \<and>
          (\<forall>l\<in>set (dict_values (case_lessons s i)). validate_stored_lesson rt l = None) \<and>
          s' = s\<lparr>st_failure_cases := dict_set i c' (st_failure_cases s),
                 st_lessons := dict_update (st_lessons s) (case_lessons s i)\<rparr>"
    unfolding store_obsolete_failure_case_Inr_iff by (elim conjE exE) (rule that)
  show ?thesis
  proof (cases "fc_status c = u ''obsolete''")
    case True
    with cases ok show ?thesis by simp
  next
    case False
    note cs = cases [unfolded if_not_P [OF False]]
    then have c': "c' = obsolete_failure_case c" "validate_failure_case c' = None"
      and ls: "\<forall>l\<in>set (dict_values (case_lessons s i)). validate_stored_lesson rt l = None"
      and s': "s' = s\<lparr>st_failure_cases := dict_set i c' (st_failure_cases s),
                 st_lessons := dict_update (st_lessons s) (case_lessons s i)\<rparr>" by blast+
    show ?thesis
    proof (rule memory_ok_retires [OF ok])
      show "retires obsolete_failure_case (st_failure_cases s) (st_failure_cases s')"
        using retires_set [OF d(2) c] by (simp add: s' c'(1))
      show "retires obsolete_lesson (st_lessons s) (st_lessons s')"
        using retires_self_update [OF d(3), of obsolete_lesson obsolete_lesson ?P]
        by (simp add: s' case_lessons_def)
      show "retires obsolete_project_policy (st_project_policies s) (st_project_policies s')"
        using retires_refl [OF d(4)] by (simp add: s')
      show "validate_failure_case x = None" if "dict_get (st_failure_cases s') k = Some x" for k x
        using that v(1) c'(2) by (simp add: s' dict_get_set split: if_splits)
      show "validate_stored_lesson rt x = None" if "dict_get (st_lessons s') k = Some x" for k x
      proof (rule self_update_valid [OF d(3), where Q = "\<lambda>l. validate_stored_lesson rt l = None" and f = obsolete_lesson and P = ?P])
        show "validate_stored_lesson rt y = None" if "y \<in> set (dict_values
            (map (\<lambda>(i, x). (i, obsolete_lesson x)) (filter ?P (st_lessons s))))" for y
          using ls that by (simp add: case_lessons_def)
        show "dict_get (dict_update (st_lessons s) (map (\<lambda>(i, x). (i, obsolete_lesson x))
            (filter ?P (st_lessons s)))) k = Some x"
          using that by (simp add: s' case_lessons_def)
      qed (rule v(2))
      show "fc_status x = u ''verified''"
        if l: "dict_get (st_lessons s') k = Some l" "ls_status l = u ''active''"
          and x: "dict_get (st_failure_cases s') (ls_source_case_id l) = Some x" for k l x
      proof -
        from l(1) have "dict_get (dict_update (st_lessons s) (map (\<lambda>(i, x). (i, obsolete_lesson x))
            (filter ?P (st_lessons s)))) k = Some l" by (simp add: s' case_lessons_def)
        then obtain l0 where l0: "dict_get (st_lessons s) k = Some l0"
            "l = (if ?P (k, l0) then obsolete_lesson l0 else l0)"
          by (rule dict_get_self_updateE [OF _ d(3)])
        with l(2) have "dict_get (st_lessons s) k = Some l" "ls_source_case_id l \<noteq> i"
          by (simp_all split: if_splits)
        with x l(2) active_lesson_case [OF ok, of k l x] show ?thesis by (simp add: s' dict_get_set)
      qed
    qed (use v in \<open>simp_all add: s'\<close>)
  qed
qed

lemma lesson_scope_kept_None [simp]:
  "lesson_scope_kept l name v = None \<longleftrightarrow> (\<forall>x. v = Some x \<longrightarrow> dict_get (ls_scope l) name = Some x)"
  by (auto simp: lesson_scope_kept_def split: option.splits)

lemma validated_lesson_candidate_Inr_iff:
  "validated_lesson_candidate rt s l ex = Inr l' \<longleftrightarrow>
     l' = l \<and> validate_stored_lesson rt l = None \<and> dict_get ex (ls_lesson_id l) = None \<and>
     dict_get (st_failure_cases s) (ls_lesson_id l) = None \<and>
     dict_get (st_project_policies s) (ls_lesson_id l) = None \<and> lesson_supported s l"
  by (auto simp: validated_lesson_candidate_def Let_def result_simps dict_has_iff validate_stored_lesson_def
      lesson_supported_def split: option.splits)

lemma add_lesson_Inr_iff:
  "add_lesson rt l s = Inr (l', s') \<longleftrightarrow>
     l' = l \<and> validate_stored_lesson rt l = None \<and> dict_get (st_lessons s) (ls_lesson_id l) = None \<and>
     dict_get (st_failure_cases s) (ls_lesson_id l) = None \<and>
     dict_get (st_project_policies s) (ls_lesson_id l) = None \<and> lesson_supported s l \<and>
     s' = s\<lparr>st_lessons := dict_set (ls_lesson_id l) l (st_lessons s)\<rparr>"
  by (auto simp: add_lesson_def result_simps validated_lesson_candidate_Inr_iff)

lemma lesson_supported_cong:
  "st_failure_cases s' = st_failure_cases s \<Longrightarrow> st_traces s' = st_traces s \<Longrightarrow>
     lesson_supported s' l = lesson_supported s l"
  by (simp add: lesson_supported_def)

lemma case_supported_cong: "st_traces s' = st_traces s \<Longrightarrow> case_supported s' c = case_supported s c"
  by (simp add: case_supported_def)

lemma add_lesson_ok:
  assumes ok: "memory_ok rt s" and r: "add_lesson rt l s = Inr (l', s')"
  shows "memory_ok rt s'"
proof -
  from r have l: "validate_stored_lesson rt l = None" "dict_get (st_failure_cases s) (ls_lesson_id l) = None"
      "dict_get (st_project_policies s) (ls_lesson_id l) = None" "lesson_supported s l"
    and s': "s' = s\<lparr>st_lessons := dict_set (ls_lesson_id l) l (st_lessons s)\<rparr>"
    by (simp_all add: add_lesson_Inr_iff)
  have sup: "lesson_supported s' x = lesson_supported s x" "case_supported s' c = case_supported s c" for x c
    by (simp_all add: s' lesson_supported_def case_supported_def)
  have "lessons_ok rt s'" using ok l by (auto simp: memory_ok_def lessons_ok_def sup) (auto simp: s' dict_get_set split: if_splits)
  moreover have "cases_ok s'" using ok by (simp add: memory_ok_def cases_ok_def sup) (simp add: s')
  moreover have "ids_ok s'" using ok l by (auto simp: memory_ok_def ids_ok_def s' dict_get_set)
  ultimately show ?thesis
    using ok by (simp add: memory_ok_def) (simp add: s' traces_ok_def run_index_ok_def run_traces_def policies_ok_def)
qed

lemma store_obsolete_lesson_ok:
  assumes ok: "memory_ok rt s" and r: "store_obsolete_lesson rt i s = Inr (l', s')"
  shows "memory_ok rt s'"
proof -
  note d = memory_ok_dicts [OF ok] and v = memory_ok_records [OF ok]
  from r obtain l where l: "dict_get (st_lessons s) i = Some l"
    by (auto simp: store_obsolete_lesson_def result_simps stored_record_Inr_iff)
  consider "s' = s" | "s' = s\<lparr>st_lessons := dict_set i (obsolete_lesson l) (st_lessons s)\<rparr>"
      "validate_stored_lesson rt (obsolete_lesson l) = None"
    using r l by (auto simp: store_obsolete_lesson_def result_simps stored_record_Inr_iff Let_def split: if_splits)
  then show ?thesis
  proof cases
    case 2
    show ?thesis
    proof (rule memory_ok_retires [OF ok])
      show "retires obsolete_lesson (st_lessons s) (st_lessons s')"
        using retires_set [OF d(3) l] by (simp add: 2(1))
      show "validate_stored_lesson rt x = None" if "dict_get (st_lessons s') k = Some x" for k x
        using that v(2) 2(2) by (auto simp: 2(1) dict_get_set split: if_splits)
      show "fc_status x = u ''verified''"
        if "dict_get (st_lessons s') k = Some y" "ls_status y = u ''active''"
          "dict_get (st_failure_cases s') (ls_source_case_id y) = Some x" for k y x
        using that active_lesson_case [OF ok, of k y x] by (auto simp: 2(1) dict_get_set split: if_splits)
    qed (use v retires_refl [OF d(2)] retires_refl [OF d(4)] in \<open>simp_all add: 2(1)\<close>)
  qed (use ok in simp)
qed

lemma add_project_policy_Inr_iff:
  "add_project_policy rt p s = Inr (p', s') \<longleftrightarrow>
     p' = p \<and> validate_stored_policy rt p = None \<and> dict_get (st_project_policies s) (pp_policy_id p) = None \<and>
     dict_get (st_failure_cases s) (pp_policy_id p) = None \<and> dict_get (st_lessons s) (pp_policy_id p) = None \<and>
     s' = s\<lparr>st_project_policies := dict_set (pp_policy_id p) p (st_project_policies s)\<rparr>"
  by (auto simp: add_project_policy_def Let_def result_simps dict_has_iff validate_stored_policy_def)

lemma add_project_policy_ok:
  assumes ok: "memory_ok rt s" and r: "add_project_policy rt p s = Inr (p', s')"
  shows "memory_ok rt s'"
proof -
  from r have p: "validate_stored_policy rt p = None" "dict_get (st_failure_cases s) (pp_policy_id p) = None"
      "dict_get (st_lessons s) (pp_policy_id p) = None"
    and s': "s' = s\<lparr>st_project_policies := dict_set (pp_policy_id p) p (st_project_policies s)\<rparr>"
    by (simp_all add: add_project_policy_Inr_iff)
  have sup: "lesson_supported s' x = lesson_supported s x" "case_supported s' c = case_supported s c" for x c
    by (simp_all add: s' lesson_supported_def case_supported_def)
  have "policies_ok rt s'" using ok p by (auto simp: s' memory_ok_def policies_ok_def dict_get_set split: if_splits)
  moreover have "cases_ok s'" "lessons_ok rt s'"
    using ok by (simp_all add: memory_ok_def cases_ok_def lessons_ok_def sup) (simp_all add: s')
  moreover have "ids_ok s'" using ok p by (auto simp: memory_ok_def ids_ok_def s' dict_get_set)
  ultimately show ?thesis
    using ok by (simp add: memory_ok_def) (simp add: s' traces_ok_def run_index_ok_def run_traces_def)
qed

lemma store_obsolete_project_policy_ok:
  assumes ok: "memory_ok rt s" and r: "store_obsolete_project_policy rt i s = Inr (p', s')"
  shows "memory_ok rt s'"
proof -
  note d = memory_ok_dicts [OF ok] and v = memory_ok_records [OF ok]
  from r obtain p where p: "dict_get (st_project_policies s) i = Some p"
    by (auto simp: store_obsolete_project_policy_def result_simps stored_record_Inr_iff)
  consider "s' = s" | "s' = s\<lparr>st_project_policies := dict_set i (obsolete_project_policy p) (st_project_policies s)\<rparr>"
      "validate_stored_policy rt (obsolete_project_policy p) = None"
    using r p by (auto simp: store_obsolete_project_policy_def result_simps stored_record_Inr_iff Let_def split: if_splits)
  then show ?thesis
  proof cases
    case 2
    show ?thesis
    proof (rule memory_ok_retires [OF ok])
      show "retires obsolete_project_policy (st_project_policies s) (st_project_policies s')"
        using retires_set [OF d(4) p] by (simp add: 2(1))
      show "validate_stored_policy rt x = None" if "dict_get (st_project_policies s') k = Some x" for k x
        using that v(3) 2(2) by (auto simp: 2(1) dict_get_set split: if_splits)
      show "fc_status x = u ''verified''"
        if "dict_get (st_lessons s') k = Some y" "ls_status y = u ''active''"
          "dict_get (st_failure_cases s') (ls_source_case_id y) = Some x" for k y x
        using that active_lesson_case [OF ok, of k y x] by (simp add: 2(1))
    qed (use v retires_refl [OF d(2)] retires_refl [OF d(3)] in \<open>simp_all add: 2(1)\<close>)
  qed (use ok in simp)
qed

text \<open>The state after a successful batch.\<close>

definition cascading_ids :: "store \<Rightarrow> MemoryObsolescenceRequest list \<Rightarrow> pystr list" where
  "cascading_ids s requests =
     filter (\<lambda>i. map_option fc_status (dict_get (st_failure_cases s) i) \<noteq> Some (u ''obsolete''))
       (requested_ids (u ''failure_case'') requests)"

definition retired_store :: "store \<Rightarrow> MemoryObsolescenceRequest list \<Rightarrow> store" where
  "retired_store s requests =
     s\<lparr>st_failure_cases := dict_update (st_failure_cases s)
         (retire_cases s (requested_ids (u ''failure_case'') requests)),
       st_lessons := dict_update (st_lessons s)
         (retire_lessons s (requested_ids (u ''lesson'') requests) (cascading_ids s requests)),
       st_project_policies := dict_update (st_project_policies s)
         (retire_policies s (requested_ids (u ''project_policy'') requests))\<rparr>"

lemma obsolete_memories_Inr:
  assumes "obsolete_memories rt requests s = Inr (rs, s')"
  shows "s' = retired_store s requests" "rmap (requested_record s) requests \<noteq> Inl e"
    "\<forall>c\<in>set (dict_values (retire_cases s (requested_ids (u ''failure_case'') requests))).
       validate_failure_case c = None"
    "\<forall>l\<in>set (dict_values (retire_lessons s (requested_ids (u ''lesson'') requests) (cascading_ids s requests))).
       validate_stored_lesson rt l = None"
    "\<forall>p\<in>set (dict_values (retire_policies s (requested_ids (u ''project_policy'') requests))).
       validate_stored_policy rt p = None"
    "validated_memory_obsolescence_requests requests = None"
  using assms
  unfolding obsolete_memories_def Let_def cascading_ids_def [symmetric] rbind_Inr_iff or_raise_Inr_iff
  by (auto simp: retired_store_def)

lemma retires_cases: "dict_ok (st_failure_cases s) \<Longrightarrow>
   retires obsolete_failure_case (st_failure_cases s) (dict_update (st_failure_cases s) (retire_cases s ids))"
  unfolding retire_cases_def by (rule retires_self_update) auto

lemma retires_lessons: "dict_ok (st_lessons s) \<Longrightarrow>
   retires obsolete_lesson (st_lessons s) (dict_update (st_lessons s) (retire_lessons s ids cids))"
  unfolding retire_lessons_def by (rule retires_self_update) auto

lemma retires_policies: "dict_ok (st_project_policies s) \<Longrightarrow>
   retires obsolete_project_policy (st_project_policies s) (dict_update (st_project_policies s) (retire_policies s ids))"
  unfolding retire_policies_def by (rule retires_self_update) auto

lemma retire_cases_get:
  assumes "dict_ok (st_failure_cases s)"
  shows "dict_get (dict_update (st_failure_cases s) (retire_cases s ids)) k =
    map_option (\<lambda>c. if k \<in> set ids \<and> fc_status c \<noteq> u ''obsolete'' then obsolete_failure_case c else c)
      (dict_get (st_failure_cases s) k)"
  unfolding retire_cases_def dict_get_self_update [OF assms] by (rule map_option_cong) auto

lemma retire_lessons_get:
  assumes "dict_ok (st_lessons s)"
  shows "dict_get (dict_update (st_lessons s) (retire_lessons s ids cids)) k =
    map_option (\<lambda>l. if (k \<in> set ids \<or> ls_source_case_id l \<in> set cids \<and> ls_status l = u ''active'') \<and>
        ls_status l \<noteq> u ''obsolete'' then obsolete_lesson l else l) (dict_get (st_lessons s) k)"
  unfolding retire_lessons_def dict_get_self_update [OF assms] by (rule map_option_cong) auto

lemma retired_cascade:
  assumes ok: "memory_ok rt s"
    and l: "dict_get (st_lessons (retired_store s rs)) k = Some l" "ls_status l = u ''active''"
    and c: "dict_get (st_failure_cases (retired_store s rs)) (ls_source_case_id l) = Some c"
  shows "fc_status c = u ''verified''"
proof -
  note d = memory_ok_dicts [OF ok]
  let ?i = "ls_source_case_id l"
  from l have l0: "dict_get (st_lessons s) k = Some l" "?i \<notin> set (cascading_ids s rs)"
    by (auto simp: retired_store_def retire_lessons_get [OF d(3)] split: if_splits
        dest: arg_cong [where f = ls_status])
  from c obtain c0 where c0: "dict_get (st_failure_cases s) ?i = Some c0"
    and eq: "c = (if ?i \<in> set (requested_ids (u ''failure_case'') rs) \<and> fc_status c0 \<noteq> u ''obsolete''
      then obsolete_failure_case c0 else c0)"
    by (auto simp: retired_store_def retire_cases_get [OF d(2)])
  from active_lesson_case [OF ok l0(1) l(2) c0] have v: "fc_status c0 = u ''verified''" .
  with l0(2) c0 have "?i \<notin> set (requested_ids (u ''failure_case'') rs)" by (simp add: cascading_ids_def)
  with eq v show ?thesis by simp
qed

text \<open>
  What a batch makes of every record: the skips of the code for records that are already obsolete
  do not show, because retiring is idempotent and an active lesson belongs to a verified case.
\<close>

lemma obsolete_idem [simp]:
  "fc_status c = u ''obsolete'' \<Longrightarrow> obsolete_failure_case c = c"
  "ls_status l = u ''obsolete'' \<Longrightarrow> obsolete_lesson l = l"
  "pp_status p = u ''obsolete'' \<Longrightarrow> obsolete_project_policy p = p"
  by (simp_all add: obsolete_failure_case_def obsolete_lesson_def obsolete_project_policy_def)

lemma retired_case:
  assumes "memory_ok rt s"
  shows "dict_get (st_failure_cases (retired_store s rs)) i =
    map_option (\<lambda>c. if i \<in> set (requested_ids (u ''failure_case'') rs) then obsolete_failure_case c else c)
      (dict_get (st_failure_cases s) i)"
  by (cases "dict_get (st_failure_cases s) i")
     (simp_all add: retired_store_def retire_cases_get [OF memory_ok_dicts(2) [OF assms]])

lemma retire_policies_get:
  assumes "dict_ok (st_project_policies s)"
  shows "dict_get (dict_update (st_project_policies s) (retire_policies s ids)) k =
    map_option (\<lambda>p. if k \<in> set ids \<and> pp_status p \<noteq> u ''obsolete'' then obsolete_project_policy p else p)
      (dict_get (st_project_policies s) k)"
  unfolding retire_policies_def dict_get_self_update [OF assms] by (rule map_option_cong) auto

lemma retired_policy:
  assumes "memory_ok rt s"
  shows "dict_get (st_project_policies (retired_store s rs)) i =
    map_option (\<lambda>p. if i \<in> set (requested_ids (u ''project_policy'') rs) then obsolete_project_policy p else p)
      (dict_get (st_project_policies s) i)"
  by (cases "dict_get (st_project_policies s) i")
     (simp_all add: retired_store_def retire_policies_get [OF memory_ok_dicts(4) [OF assms]])

lemma lesson_status_cases:
  "validate_stored_lesson rt l = None \<Longrightarrow> ls_status l = u ''active'' \<or> ls_status l = u ''obsolete''"
  by (auto simp: validate_stored_lesson_def validate_lesson_record_def result_simps LESSON_STATUSES_def)

lemma retired_lesson:
  assumes ok: "memory_ok rt s"
  shows "dict_get (st_lessons (retired_store s rs)) i =
    map_option (\<lambda>l. if i \<in> set (requested_ids (u ''lesson'') rs) \<or>
        ls_source_case_id l \<in> set (requested_ids (u ''failure_case'') rs) then obsolete_lesson l else l) (dict_get (st_lessons s) i)"
proof (cases "dict_get (st_lessons s) i")
  case None
  then show ?thesis by (simp add: retired_store_def retire_lessons_get [OF memory_ok_dicts(3) [OF ok]])
next
  case l: (Some l)
  show ?thesis
  proof (cases "ls_status l = u ''obsolete''")
    case True
    with l show ?thesis by (simp add: retired_store_def retire_lessons_get [OF memory_ok_dicts(3) [OF ok]])
  next
    case False
    with lesson_status_cases [OF memory_ok_records(2) [OF ok l]] have a: "ls_status l = u ''active''" by blast
    have "ls_source_case_id l \<in> set (cascading_ids s rs) \<longleftrightarrow>
        ls_source_case_id l \<in> set (requested_ids (u ''failure_case'') rs)"
      using active_lesson_case [OF ok l a] by (cases "dict_get (st_failure_cases s) (ls_source_case_id l)") (auto simp: cascading_ids_def)
    with l a False show ?thesis by (simp add: retired_store_def retire_lessons_get [OF memory_ok_dicts(3) [OF ok]])
  qed
qed

lemma get_update_part:
  assumes "dict_ok d" and "dict_get (map (\<lambda>(i, x). (i, f x)) (filter P d)) k = Some y"
  shows "dict_get (dict_update d (map (\<lambda>(i, x). (i, f x)) (filter P d))) k = Some y"
proof -
  have "dict_ok (map (\<lambda>(i, x). (i, f x)) (filter P d))"
    using assms(1) by (auto simp: dict_ok_def comp_def case_prod_beta distinct_map_filter)
  then show ?thesis using assms(2) by (simp add: dict_ok_def dict_get_update map_of_rev_eq)
qed

text \<open>The returned records are the ones then stored under the requested ids.\<close>

lemma retired_records:
  assumes ok: "memory_ok rt s" and r: "obsolete_memories rt requests s = Inr (rs, s')"
  shows "rmap (requested_record s') requests = Inr rs"
proof -
  note d = memory_ok_dicts [OF ok]
  let ?cases = "retire_cases s (requested_ids (u ''failure_case'') requests)"
    and ?lessons = "retire_lessons s (requested_ids (u ''lesson'') requests) (cascading_ids s requests)"
    and ?policies = "retire_policies s (requested_ids (u ''project_policy'') requests)"
  obtain olds where olds: "rmap (requested_record s) requests = Inr olds"
    using obsolete_memories_Inr(2) [OF r] by (cases "rmap (requested_record s) requests") auto
  have "rmap (retired_record ?cases ?lessons ?policies) requests = Inr rs" using r
    unfolding obsolete_memories_def Let_def cascading_ids_def [symmetric] rbind_Inr_iff or_raise_Inr_iff by auto
  moreover have "requested_record s' q = Inr y"
    if "retired_record ?cases ?lessons ?policies q = Inr y" "requested_record s q = Inr old" for q y old
  proof -
    have "dict_get (st_failure_cases s') k = Some c" if "dict_get ?cases k = Some c" for k c
      unfolding obsolete_memories_Inr(1) [OF r] retired_store_def retire_cases_def
      by simp (rule get_update_part [OF d(2) that [unfolded retire_cases_def]])
    moreover have "dict_get (st_lessons s') k = Some l" if "dict_get ?lessons k = Some l" for k l
      unfolding obsolete_memories_Inr(1) [OF r] retired_store_def retire_lessons_def
      by simp (rule get_update_part [OF d(3) that [unfolded retire_lessons_def]])
    moreover have "dict_get (st_project_policies s') k = Some p" if "dict_get ?policies k = Some p" for k p
      unfolding obsolete_memories_Inr(1) [OF r] retired_store_def retire_policies_def
      by simp (rule get_update_part [OF d(4) that [unfolded retire_policies_def]])
    ultimately show ?thesis using that
      by (auto simp: retired_record_def requested_record_def stored_record_def result_simps Let_def split: if_splits option.splits)
  qed
  ultimately show ?thesis using olds unfolding rmap_Inr_iff by (auto simp: list_all2_conv_all_nth)
qed

lemma obsolete_memories_ok:
  assumes ok: "memory_ok rt s" and r: "obsolete_memories rt requests s = Inr (rs, s')"
  shows "memory_ok rt s'"
proof -
  note d = memory_ok_dicts [OF ok] and v = memory_ok_records [OF ok] and o = obsolete_memories_Inr [OF r]
  show ?thesis unfolding o(1)
  proof (rule memory_ok_retires [OF ok])
    show "validate_failure_case c = None"
      if "dict_get (st_failure_cases (retired_store s requests)) i = Some c" for i c
      using that o(3) v(1)
      by (simp add: retired_store_def retire_cases_def)
         (rule self_update_valid [OF d(2), where Q = "\<lambda>c. validate_failure_case c = None"], auto)
    show "validate_stored_lesson rt c = None"
      if "dict_get (st_lessons (retired_store s requests)) i = Some c" for i c
      using that o(4) v(2)
      by (simp add: retired_store_def retire_lessons_def)
         (rule self_update_valid [OF d(3), where Q = "\<lambda>c. validate_stored_lesson rt c = None"], auto)
    show "validate_stored_policy rt c = None"
      if "dict_get (st_project_policies (retired_store s requests)) i = Some c" for i c
      using that o(5) v(3)
      by (simp add: retired_store_def retire_policies_def)
         (rule self_update_valid [OF d(4), where Q = "\<lambda>c. validate_stored_policy rt c = None"], auto)
  qed (use retired_cascade [OF ok] retires_cases [OF d(2)] retires_lessons [OF d(3)] retires_policies [OF d(4)]
      in \<open>auto simp: retired_store_def\<close>)
qed

end
