(* ===== verification/Runs.thy ===== *)
theory Runs
  imports StoreInv
begin

text \<open>
  Usage logs in the store and the completion of memory runs: \<^verbatim>\<open>record_decision_outcome\<close>,
  \<^verbatim>\<open>complete_memory_run\<close>, \<^verbatim>\<open>complete_memory_runs\<close>, the three recoveries and the
  classification of runs (audits, remediations, metrics). A batch is staged completely before
  anything is stored, so that it either takes effect as a whole or raises.
\<close>

section \<open>Usage logs against the store\<close>

definition DECLARED_TRACE_CONTEXT_FIELDS :: "Trace \<Rightarrow> (pystr \<times> pystr option) list" where
  "DECLARED_TRACE_CONTEXT_FIELDS trace =
     [(u ''branch'', tr_branch trace), (u ''prompt_version'', tr_prompt_version trace),
      (u ''prompt_family'', tr_prompt_family trace),
      (u ''tool_schema_version'', tr_tool_schema_version trace), (u ''model'', tr_model trace),
      (u ''eval_suite'', tr_eval_suite trace)]"

definition trace_change_set_tool_names :: "Trace \<Rightarrow> pystr list" where
  "trace_change_set_tool_names trace = tool_names (tr_tool_calls trace)"

definition known_memory :: "store \<Rightarrow> pystr \<Rightarrow> bool" where
  "known_memory s i \<longleftrightarrow>
     dict_has (st_failure_cases s) i \<or> dict_has (st_lessons s) i \<or> dict_has (st_project_policies s) i"

definition validate_usage_log_memory_ids :: "store \<Rightarrow> MemoryUsageLog \<Rightarrow> py_error option" where
  "validate_usage_log_memory_ids s ulog =
     (let referenced_ids = remdups (ul_candidate_memory_ids ulog @ ul_used_memory_ids ulog @
            ul_blocked_memory_ids ulog);
          unknown_ids = sort (filter (\<lambda>i. \<not> known_memory s i) referenced_ids)
      in raise_if (unknown_ids \<noteq> [])
           (u ''usage log references unknown memory IDs: '' @ join (u '', '') unknown_ids))"

definition context_mismatch :: "pystr \<Rightarrow> string \<Rightarrow> pystr \<Rightarrow> pystr" where
  "context_mismatch name what trace_id =
     u ''usage log context '' @ name @ u what @ u '': '' @ trace_id"

definition validate_usage_log_trace :: "store \<Rightarrow> MemoryUsageLog \<Rightarrow> py_error option" where
  "validate_usage_log_trace s ulog =
     (case ul_trace_id ulog of
        None \<Rightarrow> Some (ValueError (u ''usage log records require trace_id''))
      | Some tid \<Rightarrow>
          if blank tid then Some (ValueError (u ''usage log records require trace_id''))
          else case dict_get (st_traces s) tid of
            None \<Rightarrow> Some (ValueError (u ''unknown trace_id: '' @ tid))
          | Some trace \<Rightarrow>
              let cx = ul_context ulog; ctx = dict_get cx in
              first_error
                [raise_if (ul_run_id ulog \<noteq> tr_run_id trace)
                   (u ''usage log run_id does not match trace: '' @ tid),
                 raise_if (tr_repo trace = None)
                   (u ''usage log trace repo is required for context evidence: '' @ tid),
                 raise_if (ctx (u ''mode'') \<noteq> Some (ul_mode ulog))
                   (context_mismatch (u ''mode'') '' does not match trace or mode'' tid),
                 raise_if (ctx (u ''repo'') \<noteq> tr_repo trace)
                   (context_mismatch (u ''repo'') '' does not match trace or mode'' tid),
                 raise_if (ctx (u ''commit_sha'') \<noteq> Some (tr_commit_sha trace))
                   (context_mismatch (u ''commit_sha'') '' does not match trace or mode'' tid),
                 raise_if (tr_tenant trace \<noteq> None \<and> ctx (u ''tenant'') \<noteq> tr_tenant trace)
                   (context_mismatch (u ''tenant'') '' does not match trace or mode'' tid),
                 raise_if (tr_tenant trace = None \<and> dict_has cx (u ''tenant''))
                   (context_mismatch (u ''tenant'') '' does not match trace or mode'' tid),
                 first_error (map (\<lambda>(name, value).
                     raise_if (dict_has cx name \<and> ctx name \<noteq> value)
                       (context_mismatch name '' does not match trace'' tid))
                   (DECLARED_TRACE_CONTEXT_FIELDS trace)),
                 (case ctx (u ''tool'') of None \<Rightarrow> None
                  | Some tool \<Rightarrow> raise_if (tool \<notin> set (trace_change_set_tool_names trace))
                      (context_mismatch (u ''tool'') '' does not match trace'' tid)),
                 (case ctx (u ''input_hash'') of None \<Rightarrow> None
                  | Some h \<Rightarrow> first_error
                      [raise_if (\<not> dict_has cx (u ''eval_suite''))
                         (context_mismatch (u ''input_hash'') '' requires eval_suite'' tid),
                       raise_if (Some h \<noteq> tr_input_hash trace)
                         (context_mismatch (u ''input_hash'') '' does not match trace'' tid)])])"

definition usage_log_index :: "store \<Rightarrow> pystr \<Rightarrow> nat result" where
  "usage_log_index s decision_id =
     (case dict_get (st_usage_log_indexes s) decision_id of
        None \<Rightarrow> Inl (ValueError (u ''unknown decision_id: '' @ decision_id))
      | Some i \<Rightarrow> Inr i)"

text \<open>\<^verbatim>\<open>self._usage_logs[i]\<close> and \<^verbatim>\<open>self._traces[i]\<close>, which raise when there is no such entry.\<close>

definition log_at :: "store \<Rightarrow> nat \<Rightarrow> MemoryUsageLog result" where
  "log_at s i = (if i < length (st_usage_logs s) then Inr (st_usage_logs s ! i)
     else Inl (KeyError (str_nat i)))"

definition trace_at :: "store \<Rightarrow> pystr \<Rightarrow> Trace result" where
  "trace_at s i = (case dict_get (st_traces s) i of Some t \<Rightarrow> Inr t | None \<Rightarrow> Inl (KeyError i))"

text \<open>The trace id of a stored log; the source takes it to be present (\<^verbatim>\<open>cast(str, ...)\<close>).\<close>

definition log_trace_id :: "MemoryUsageLog \<Rightarrow> pystr result" where
  "log_trace_id ulog =
     (case ul_trace_id ulog of Some t \<Rightarrow> Inr t | None \<Rightarrow> Inl (KeyError (u ''None'')))"

section \<open>Outcomes\<close>

definition validate_runtime_outcome :: "pystr option \<Rightarrow> py_error option" where
  "validate_runtime_outcome eval_result =
     raise_if (eval_result \<noteq> None \<and> the eval_result \<notin> set EVAL_RESULTS)
       (u ''eval_result must be one of: error, fail, pass, unknown, or None'')"

definition validate_measured_outcome :: "pystr \<Rightarrow> bool \<Rightarrow> py_error option" where
  "validate_measured_outcome eval_result memory_caused_failure =
     first_error
       [validate_measured_eval_result eval_result (u ''decision outcome''),
        raise_if (memory_caused_failure \<and> eval_result \<notin> {u ''fail'', u ''error''})
          (u ''memory_caused_failure requires eval_result fail or error'')]"

definition sealed_usage_outcome_candidate :: "MemoryUsageLog \<Rightarrow> pystr \<Rightarrow> bool \<Rightarrow> MemoryUsageLog result" where
  "sealed_usage_outcome_candidate current eval_result memory_caused_failure =
     (if ul_eval_result current \<in> Some ` set EVALUATED_RESULTS then
        if ul_eval_result current = Some eval_result \<and>
           ul_memory_caused_failure current = memory_caused_failure
        then or_raise (validate_usage_log current) (Inr current)
        else Inl (ValueError (u ''decision outcome already sealed: '' @ ul_decision_id current))
      else
        let sealed = current\<lparr>ul_eval_result := Some eval_result,
              ul_memory_caused_failure := memory_caused_failure\<rparr>
        in or_raise (validate_usage_log sealed) (Inr sealed))"

definition record_decision_outcome :: "pystr \<Rightarrow> pystr \<Rightarrow> bool \<Rightarrow> MemoryUsageLog op" where
  "record_decision_outcome decision_id eval_result memory_caused_failure s =
     or_raise (first_error
       [validate_required_string decision_id (u ''decision_id'') (u ''decision outcome requires'')
          (Some MEMORY_ID_MAX_CHARS),
        validate_measured_outcome eval_result memory_caused_failure])
     (rbind (usage_log_index s decision_id) (\<lambda>log_index.
      rbind (log_at s log_index) (\<lambda>current.
      rbind (sealed_usage_outcome_candidate current eval_result memory_caused_failure) (\<lambda>sealed.
      or_raise (first_error [validate_usage_log_memory_ids s sealed, validate_usage_log_trace s sealed])
      (Inr (sealed, s\<lparr>st_usage_logs := (st_usage_logs s)[log_index := sealed]\<rparr>))))))"

definition complete_memory_run ::
  "runtime \<Rightarrow> pystr \<Rightarrow> pystr \<Rightarrow> pystr \<Rightarrow> bool \<Rightarrow> completion_args \<Rightarrow> MemoryRunCompletion op" where
  "complete_memory_run rt trace_id decision_id eval_result memory_caused_failure args s =
     or_raise (first_error
       [validate_required_string trace_id (u ''trace_id'') (u ''memory run completion requires'')
          (Some MEMORY_ID_MAX_CHARS),
        validate_required_string decision_id (u ''decision_id'') (u ''memory run completion requires'')
          (Some MEMORY_ID_MAX_CHARS),
        validate_measured_outcome eval_result memory_caused_failure])
     (case dict_get (st_traces s) trace_id of
        None \<Rightarrow> Inl (ValueError (u ''unknown trace_id: '' @ trace_id))
      | Some current_trace \<Rightarrow>
          rbind (usage_log_index s decision_id) (\<lambda>log_index.
          rbind (log_at s log_index) (\<lambda>current_log.
          or_raise (raise_if (ul_trace_id current_log \<noteq> Some trace_id \<or>
                ul_run_id current_log \<noteq> tr_run_id current_trace)
              (u ''decision_id '' @ decision_id @ u '' does not belong to trace_id '' @ trace_id))
          (rbind (completed_trace_candidate rt current_trace eval_result
                    (provided_trace_completion_values args)) (\<lambda>completed_trace.
           rbind (sealed_usage_outcome_candidate current_log eval_result memory_caused_failure) (\<lambda>sealed_log.
           or_raise (first_error
             [validate_usage_log_memory_ids s sealed_log, validate_usage_log_trace s sealed_log])
           (Inr (\<lparr>rc_trace = completed_trace, rc_usage_log = sealed_log\<rparr>,
              s\<lparr>st_traces := dict_set trace_id completed_trace (st_traces s),
                st_usage_logs := (st_usage_logs s)[log_index := sealed_log]\<rparr>))))))))"

section \<open>Batches\<close>

text \<open>A row: log index, trace id, result, attribution and completion values.\<close>

type_synonym completion_row = "nat \<times> pystr \<times> pystr \<times> bool \<times> completion_field list"

type_synonym trace_staging =
  "(pystr, pystr) dict \<times> (pystr, (pystr, completion_field) dict) dict"

definition merge_field ::
  "pystr \<Rightarrow> Trace \<Rightarrow> completion_field \<Rightarrow> (pystr, completion_field) dict \<Rightarrow>
   (pystr, completion_field) dict result" where
  "merge_field trace_id normalized_trace f merged_values =
     (let normalized_value = current_field normalized_trace f in
      case dict_get merged_values (field_name f) of
        Some v \<Rightarrow>
          if \<not> field_eq v normalized_value
          then Inl (ValueError (u ''shared trace has conflicting completion evidence for '' @
                 field_name f @ u '': '' @ trace_id))
          else Inr (dict_set (field_name f) normalized_value merged_values)
      | None \<Rightarrow> Inr (dict_set (field_name f) normalized_value merged_values))"

definition stage_row :: "runtime \<Rightarrow> store \<Rightarrow> completion_row \<Rightarrow> trace_staging \<Rightarrow> trace_staging result" where
  "stage_row rt s row staging =
     (case (row, staging) of
        ((log_index, trace_id, eval_result, failure, completion_values),
         (trace_results, trace_completion_values)) \<Rightarrow>
          or_raise (raise_if
              (dict_get trace_results trace_id \<noteq> None \<and> dict_get trace_results trace_id \<noteq> Some eval_result)
              (u ''shared trace has conflicting outcomes: '' @ trace_id))
          (rbind (trace_at s trace_id) (\<lambda>trace.
           rbind (completed_trace_candidate rt trace eval_result completion_values) (\<lambda>normalized_trace.
           rbind (rfold (merge_field trace_id normalized_trace) completion_values
              (case dict_get trace_completion_values trace_id of Some m \<Rightarrow> m | None \<Rightarrow> [])) (\<lambda>merged_values.
           Inr (dict_set trace_id eval_result trace_results,
                dict_set trace_id merged_values trace_completion_values))))))"

definition stage_trace ::
  "runtime \<Rightarrow> store \<Rightarrow> (pystr, (pystr, completion_field) dict) dict \<Rightarrow> pystr \<times> pystr \<Rightarrow>
   (pystr \<times> Trace) result" where
  "stage_trace rt s trace_completion_values tr =
     (case tr of (trace_id, eval_result) \<Rightarrow>
        rbind (trace_at s trace_id) (\<lambda>trace.
        rbind (completed_trace_candidate rt trace eval_result
                 (case dict_get trace_completion_values trace_id of Some m \<Rightarrow> dict_values m | None \<Rightarrow> []))
          (\<lambda>completed. Inr (trace_id, completed))))"

definition stage_log :: "store \<Rightarrow> completion_row \<Rightarrow> (nat \<times> MemoryUsageLog) result" where
  "stage_log s row =
     (case row of (log_index, trace_id, eval_result, failure, completion_values) \<Rightarrow>
        rbind (log_at s log_index) (\<lambda>current.
        rbind (sealed_usage_outcome_candidate current eval_result failure) (\<lambda>sealed_log.
        or_raise (first_error [validate_usage_log_memory_ids s sealed_log, validate_usage_log_trace s sealed_log])
        (Inr (log_index, sealed_log)))))"

definition stage_memory_run_completions ::
  "runtime \<Rightarrow> store \<Rightarrow> completion_row list \<Rightarrow>
   ((pystr, Trace) dict \<times> (nat, MemoryUsageLog) dict \<times> MemoryRunCompletion list) result" where
  "stage_memory_run_completions rt s rows =
     rbind (rfold (stage_row rt s) rows ([], [])) (\<lambda>(trace_results, trace_completion_values).
     rbind (rmap (stage_trace rt s trace_completion_values) trace_results) (\<lambda>completed_traces.
     rbind (rmap (stage_log s) rows) (\<lambda>sealed.
     let sealed_logs = dict_update [] sealed in
     rbind (rmap (\<lambda>(log_index, trace_id, _, _, _).
         case (dict_get completed_traces trace_id, dict_get sealed_logs log_index) of
           (Some t, Some l) \<Rightarrow> Inr \<lparr>rc_trace = t, rc_usage_log = l\<rparr>
         | _ \<Rightarrow> Inl (KeyError trace_id)) rows) (\<lambda>completions.
     Inr (completed_traces, sealed_logs, completions)))))"

text \<open>The two statements with which a batch takes effect.\<close>

definition store_completions ::
  "(pystr, Trace) dict \<Rightarrow> (nat, MemoryUsageLog) dict \<Rightarrow> store \<Rightarrow> store" where
  "store_completions completed_traces sealed_logs s =
     s\<lparr>st_traces := dict_update (st_traces s) completed_traces,
       st_usage_logs := fold (\<lambda>(i, l) logs. logs[i := l]) sealed_logs (st_usage_logs s)\<rparr>"

abbreviation "MEMORY_RUN_BATCH_MAX_ITEMS \<equiv> (10000 :: nat)"

definition validated_memory_run_results :: "MemoryRunResult list \<Rightarrow> py_error option" where
  "validated_memory_run_results results =
     first_error
       ([raise_if (results = [])
           (u ''memory run batch completion requires a non-empty MemoryRunResult tuple''),
         raise_if (MEMORY_RUN_BATCH_MAX_ITEMS < length results)
           (u ''memory run batch completion accepts at most '' @ str_nat MEMORY_RUN_BATCH_MAX_ITEMS @
            u '' results'')]
        @ map (\<lambda>r. first_error
            [validate_required_string (rr_decision_id r) (u ''decision_id'') (u ''memory run results require'')
               (Some MEMORY_ID_MAX_CHARS),
             validate_measured_outcome (rr_eval_result r) (rr_memory_caused_failure r)]) results
        @ [raise_if (\<not> distinct (map rr_decision_id results))
             (u ''memory run batch completion requires unique decision_ids'')])"

definition memory_run_result_completion_values :: "MemoryRunResult \<Rightarrow> completion_field list" where
  "memory_run_result_completion_values r =
     given (COutputHash \<circ> Some) (rr_output_hash r) @ given (CLatency \<circ> Some) (rr_latency_ms r) @
     given (CCost \<circ> Some) (rr_cost_usd r) @ given (CError \<circ> Some) (rr_error r) @
     given (CTraceUri \<circ> Some) (rr_trace_uri r) @ given CToolOutputs (rr_tool_outputs r)"

definition completion_row :: "store \<Rightarrow> MemoryRunResult \<Rightarrow> completion_row result" where
  "completion_row s r =
     rbind (usage_log_index s (rr_decision_id r)) (\<lambda>log_index.
     rbind (log_at s log_index) (\<lambda>current_log.
     rbind (log_trace_id current_log) (\<lambda>trace_id.
     Inr (log_index, trace_id, rr_eval_result r, rr_memory_caused_failure r,
          memory_run_result_completion_values r))))"

definition complete_memory_runs :: "runtime \<Rightarrow> MemoryRunResult list \<Rightarrow> MemoryRunCompletion list op" where
  "complete_memory_runs rt results s =
     or_raise (validated_memory_run_results results)
     (rbind (rmap (completion_row s) results) (\<lambda>completion_rows.
      rbind (stage_memory_run_completions rt s completion_rows)
        (\<lambda>(completed_traces, sealed_logs, completions).
          Inr (completions, store_completions completed_traces sealed_logs s))))"

section \<open>Classification\<close>

definition memory_run_audit_status :: "pystr \<Rightarrow> pystr option \<Rightarrow> pystr" where
  "memory_run_audit_status trace_eval_result decision_eval_result =
     (let trace_measured = trace_eval_result \<in> set EVALUATED_RESULTS;
          decision_measured = decision_eval_result \<in> Some ` set EVALUATED_RESULTS
      in if \<not> trace_measured \<and> \<not> decision_measured then u ''pending''
         else if trace_measured \<and> \<not> decision_measured then u ''trace_only''
         else if \<not> trace_measured then u ''decision_only''
         else if Some trace_eval_result = decision_eval_result then u ''complete''
         else u ''conflict'')"

definition memory_run_remediation :: "MemoryRunAudit \<Rightarrow> MemoryRunRemediation" where
  "memory_run_remediation audit =
     (let (action, resolved_eval_result, resolved_memory_caused_failure) =
        (if ra_status audit = u ''pending'' then (u ''measure'', None, None)
         else if ra_status audit = u ''trace_only'' then
           (if ra_trace_eval_result audit = u ''pass''
            then (u ''recover'', Some (ra_trace_eval_result audit), Some False)
            else (u ''recover_with_attribution'', Some (ra_trace_eval_result audit), None))
         else if ra_status audit = u ''decision_only'' then
           (u ''recover'', ra_decision_eval_result audit, Some (ra_memory_caused_failure audit))
         else if ra_status audit = u ''complete'' then
           (u ''none'', Some (ra_trace_eval_result audit), Some (ra_memory_caused_failure audit))
         else (u ''investigate'', None, None))
      in \<lparr>re_decision_id = ra_decision_id audit, re_trace_id = ra_trace_id audit,
          re_run_id = ra_run_id audit, re_status = ra_status audit, re_action = action,
          re_trace_eval_result = ra_trace_eval_result audit,
          re_decision_eval_result = ra_decision_eval_result audit,
          re_memory_caused_failure = ra_memory_caused_failure audit,
          re_resolved_eval_result = resolved_eval_result,
          re_resolved_memory_caused_failure = resolved_memory_caused_failure\<rparr>)"

definition memory_run_audit :: "store \<Rightarrow> MemoryUsageLog \<Rightarrow> MemoryRunAudit result" where
  "memory_run_audit s ulog =
     rbind (log_trace_id ulog) (\<lambda>trace_id.
     rbind (trace_at s trace_id) (\<lambda>trace.
     Inr \<lparr>ra_decision_id = ul_decision_id ulog, ra_trace_id = trace_id, ra_run_id = ul_run_id ulog,
          ra_status = memory_run_audit_status (tr_eval_result trace) (ul_eval_result ulog),
          ra_trace_eval_result = tr_eval_result trace, ra_decision_eval_result = ul_eval_result ulog,
          ra_memory_caused_failure = ul_memory_caused_failure ulog\<rparr>))"

definition memory_run_audits :: "store \<Rightarrow> MemoryRunAudit list result" where
  "memory_run_audits s = rmap (memory_run_audit s) (sort_key ul_decision_id (st_usage_logs s))"

definition memory_run_remediations :: "store \<Rightarrow> MemoryRunRemediation list result" where
  "memory_run_remediations s =
     rbind (memory_run_audits s) (\<lambda>audits. Inr (map memory_run_remediation audits))"

definition count_run :: "MemoryRunAudit \<Rightarrow> MemoryRunMetrics \<Rightarrow> MemoryRunMetrics" where
  "count_run audit x =
     (let x = x\<lparr>rm_decision_count := rm_decision_count x + 1\<rparr>;
          x = (if ra_status audit = u ''pending'' then x\<lparr>rm_pending_count := rm_pending_count x + 1\<rparr>
               else if ra_status audit = u ''trace_only'' then x\<lparr>rm_trace_only_count := rm_trace_only_count x + 1\<rparr>
               else if ra_status audit = u ''decision_only'' then x\<lparr>rm_decision_only_count := rm_decision_only_count x + 1\<rparr>
               else if ra_status audit = u ''complete'' then x\<lparr>rm_complete_count := rm_complete_count x + 1\<rparr>
               else x\<lparr>rm_conflict_count := rm_conflict_count x + 1\<rparr>);
          action = re_action (memory_run_remediation audit)
      in if action = u ''recover'' then x\<lparr>rm_auto_recoverable_count := rm_auto_recoverable_count x + 1\<rparr>
         else if action = u ''recover_with_attribution''
         then x\<lparr>rm_attribution_required_count := rm_attribution_required_count x + 1\<rparr>
         else x)"

definition memory_run_metrics :: "store \<Rightarrow> MemoryRunMetrics result" where
  "memory_run_metrics s =
     rbind (rmap (memory_run_audit s) (st_usage_logs s)) (\<lambda>audits.
     let x = fold count_run audits
       \<lparr>rm_decision_count = 0, rm_pending_count = 0, rm_trace_only_count = 0, rm_decision_only_count = 0,
        rm_complete_count = 0, rm_conflict_count = 0, rm_recoverable_count = 0,
        rm_auto_recoverable_count = 0, rm_attribution_required_count = 0\<rparr>
     in Inr (x\<lparr>rm_recoverable_count := rm_auto_recoverable_count x + rm_attribution_required_count x\<rparr>))"

section \<open>Recovery\<close>

text \<open>The attribution of a recovery; \<open>None\<close> is the marker \<^verbatim>\<open>_UNSET\<close>.\<close>

definition resolved_memory_run_recovery ::
  "Trace \<Rightarrow> MemoryUsageLog \<Rightarrow> bool option \<Rightarrow> (pystr \<times> pystr \<times> bool) result" where
  "resolved_memory_run_recovery current_trace current_log memory_caused_failure =
     (let status = memory_run_audit_status (tr_eval_result current_trace) (ul_eval_result current_log) in
      or_raise (first_error
        [raise_if (status = u ''pending'')
           (u ''memory run has no measured outcome: '' @ ul_decision_id current_log),
         raise_if (status = u ''conflict'')
           (u ''memory run has conflicting outcomes: '' @ ul_decision_id current_log)])
      (rbind
        (if status = u ''trace_only'' then
           case memory_caused_failure of
             None \<Rightarrow>
               if tr_eval_result current_trace \<in> {u ''fail'', u ''error''}
               then Inl (ValueError (u ''failed or errored trace requires explicit memory_caused_failure''))
               else Inr (tr_eval_result current_trace, False)
           | Some b \<Rightarrow> Inr (tr_eval_result current_trace, b)
         else
           Inr (given_or (ul_eval_result current_log) [],
                given_or memory_caused_failure (ul_memory_caused_failure current_log)))
        (\<lambda>(eval_result, resolved).
          or_raise (validate_measured_outcome eval_result resolved)
          (Inr (status, eval_result, resolved)))))"

definition recover_memory_run ::
  "runtime \<Rightarrow> pystr \<Rightarrow> bool option \<Rightarrow> completion_args \<Rightarrow> MemoryRunCompletion op" where
  "recover_memory_run rt decision_id memory_caused_failure args s =
     or_raise (validate_required_string decision_id (u ''decision_id'') (u ''memory run recovery requires'')
         (Some MEMORY_ID_MAX_CHARS))
     (rbind (usage_log_index s decision_id) (\<lambda>log_index.
      rbind (log_at s log_index) (\<lambda>current_log.
      rbind (log_trace_id current_log) (\<lambda>trace_id.
      rbind (trace_at s trace_id) (\<lambda>current_trace.
      rbind (resolved_memory_run_recovery current_trace current_log memory_caused_failure)
        (\<lambda>(status, eval_result, resolved).
          complete_memory_run rt trace_id decision_id eval_result resolved args s))))))"

definition validated_batch_recovery_decision_ids :: "pystr list \<Rightarrow> py_error option" where
  "validated_batch_recovery_decision_ids decision_ids =
     first_error
       ([raise_if (decision_ids = []) (u ''memory run batch recovery requires a non-empty decision_id tuple''),
         raise_if (MEMORY_RUN_BATCH_MAX_ITEMS < length decision_ids)
           (u ''memory run batch recovery accepts at most '' @ str_nat MEMORY_RUN_BATCH_MAX_ITEMS @
            u '' decision IDs'')]
        @ map (\<lambda>i. validate_required_string i (u ''decision_id'') (u ''memory run batch recovery requires'')
             (Some MEMORY_ID_MAX_CHARS)) decision_ids
        @ [raise_if (\<not> distinct decision_ids)
             (u ''memory run batch recovery requires unique decision_ids'')])"

definition validated_batch_recovery_attributions ::
  "(pystr, bool) dict option \<Rightarrow> pystr list \<Rightarrow> (pystr, bool) dict result" where
  "validated_batch_recovery_attributions memory_caused_failures decision_ids =
     (case memory_caused_failures of
        None \<Rightarrow> Inr []
      | Some attributions \<Rightarrow>
          let unexpected_ids = sort (filter (\<lambda>i. i \<notin> set decision_ids) (dict_keys attributions)) in
          or_raise (first_error
            [raise_if (list_ex (\<lambda>i. i = [] \<or> MEMORY_ID_MAX_CHARS < length i) (dict_keys attributions))
               (u ''memory_caused_failures must contain decision_id keys''),
             raise_if (unexpected_ids \<noteq> [])
               (u ''memory_caused_failures contains unrequested decision_id: '' @ join (u '', '') unexpected_ids)])
          (Inr attributions))"

definition recovery_row :: "store \<Rightarrow> (pystr, bool) dict \<Rightarrow> pystr \<Rightarrow> completion_row result" where
  "recovery_row s attributions decision_id =
     rbind (usage_log_index s decision_id) (\<lambda>log_index.
     rbind (log_at s log_index) (\<lambda>current_log.
     rbind (log_trace_id current_log) (\<lambda>trace_id.
     rbind (trace_at s trace_id) (\<lambda>current_trace.
     rbind (resolved_memory_run_recovery current_trace current_log (dict_get attributions decision_id))
       (\<lambda>(status, eval_result, resolved). Inr (log_index, trace_id, eval_result, resolved, []))))))"

definition recover_memory_runs ::
  "runtime \<Rightarrow> pystr list \<Rightarrow> (pystr, bool) dict option \<Rightarrow> MemoryRunCompletion list op" where
  "recover_memory_runs rt decision_ids memory_caused_failures s =
     or_raise (validated_batch_recovery_decision_ids decision_ids)
     (rbind (validated_batch_recovery_attributions memory_caused_failures decision_ids) (\<lambda>attributions.
      rbind (rmap (recovery_row s attributions) decision_ids) (\<lambda>recovery_rows.
      rbind (stage_memory_run_completions rt s recovery_rows)
        (\<lambda>(completed_traces, sealed_logs, completions).
          Inr (completions, store_completions completed_traces sealed_logs s)))))"

definition recover_ready_memory_runs :: "runtime \<Rightarrow> MemoryRunCompletion list op" where
  "recover_ready_memory_runs rt s =
     rbind (memory_run_remediations s) (\<lambda>items.
     let decision_ids = map re_decision_id (filter (\<lambda>item. re_action item = u ''recover'') items)
     in if decision_ids = [] then Inr ([], s) else recover_memory_runs rt decision_ids None s)"

end
