(* ===== verification/Retrieval.thy ===== *)
theory Retrieval
  imports Runs "HOL-Library.Product_Lexorder"
begin

text \<open>
  Which memories a store offers for a context: \<^verbatim>\<open>candidate_memories\<close> and its helpers. A
  generator of the source is the list of the results it would yield, one per stored record, in
  order: an error of a later element is only raised by a loop that gets that far.
\<close>

abbreviation "RETRIEVAL_QUERY_MAX_CHARS \<equiv> (32000 :: nat)"
abbreviation "SEMANTIC_SCORES_MAX_ITEMS \<equiv> (100000 :: nat)"
abbreviation "COMMIT_ANCESTRY_MAX_ANCHORS \<equiv> (1000 :: nat)"

section \<open>Metadata candidates\<close>

definition context_values :: "MemoryContext \<Rightarrow> (pystr, pystr option) dict" where
  "context_values context =
     [(u ''repo'', Some (mc_repo context)), (u ''tenant'', mc_tenant context),
      (u ''branch'', mc_branch context), (u ''prompt_version'', mc_prompt_version context),
      (u ''prompt_family'', mc_prompt_family context), (u ''tool'', mc_tool context),
      (u ''tool_schema_version'', mc_tool_schema_version context), (u ''model'', mc_model context),
      (u ''model_family'', mc_model_family context), (u ''eval_suite'', mc_eval_suite context),
      (u ''task_type'', mc_task_type context), (u ''failure_type'', mc_failure_type context)]"

definition has_metadata_match :: "(pystr, pystr) dict \<Rightarrow> (pystr, pystr option) dict \<Rightarrow> bool" where
  "has_metadata_match scope values \<longleftrightarrow>
     list_all (\<lambda>(key, value). context_value values key = Some value) scope"

definition case_at :: "store \<Rightarrow> pystr \<Rightarrow> FailureCase result" where
  "case_at s i = (case dict_get (st_failure_cases s) i of Some c \<Rightarrow> Inr c | None \<Rightarrow> Inl (KeyError i))"

definition store_memory_item_from_lesson :: "store \<Rightarrow> Lesson \<Rightarrow> MemoryItem result" where
  "store_memory_item_from_lesson s lesson =
     rbind (case_at s (ls_source_case_id lesson)) (\<lambda>source_case.
     rbind (trace_at s (fc_source_trace_id source_case)) (\<lambda>source_trace.
     memory_item_from_lesson lesson (Some source_trace) (Some source_case)))"

definition trace_tool_names :: "Trace \<Rightarrow> pystr list" where
  "trace_tool_names trace = trace_change_set_tool_names trace"

definition offered :: "MemoryItem result \<Rightarrow> MemoryItem option result" where
  "offered r = rbind r (Inr \<circ> Some)"

definition case_candidate :: "store \<Rightarrow> MemoryContext \<Rightarrow> FailureCase \<Rightarrow> MemoryItem option result" where
  "case_candidate s context fcase =
     (case dict_get (st_traces s) (fc_source_trace_id fcase) of
        None \<Rightarrow> Inr None
      | Some trace \<Rightarrow>
          if fc_status fcase \<noteq> u ''verified'' \<or> \<not> fc_regression_passed fcase then Inr None
          else
            rbind (memory_item_from_failure_case fcase trace) (\<lambda>memory.
            if mc_tool context \<noteq> None \<and> the (mc_tool context) \<notin> set (trace_tool_names trace) then Inr None
            else if has_metadata_match (mi_scope memory) (context_values context) then Inr (Some memory)
            else Inr None))"

definition iter_metadata_candidates :: "runtime \<Rightarrow> store \<Rightarrow> MemoryContext \<Rightarrow> MemoryItem option result list" where
  "iter_metadata_candidates rt s context =
     (let values = context_values context in
      map (\<lambda>lesson. if has_metadata_match (ls_scope lesson) values
             then offered (store_memory_item_from_lesson s lesson) else Inr None) (dict_values (st_lessons s))
      @ map (\<lambda>policy. if has_metadata_match (pp_scope policy) values
             then offered (memory_item_from_project_policy rt policy) else Inr None)
          (dict_values (st_project_policies s))
      @ (if mc_mode context \<in> {u ''debug'', u ''repair''}
         then map (case_candidate s context) (dict_values (st_failure_cases s)) else []))"

text \<open>\<^verbatim>\<open>list(...)\<close> of a generator.\<close>

definition drain :: "'a option result list \<Rightarrow> 'a list result" where
  "drain items = rbind (rmap id items) (\<lambda>xs. Inr (List.map_filter id xs))"

definition metadata_candidates :: "runtime \<Rightarrow> store \<Rightarrow> MemoryContext \<Rightarrow> MemoryItem list result" where
  "metadata_candidates rt s context = drain (iter_metadata_candidates rt s context)"

section \<open>Commit ancestry\<close>

definition commit_anchor :: "store \<Rightarrow> pystr \<Rightarrow> pystr option result" where
  "commit_anchor s memory_id =
     (case dict_get (st_lessons s) memory_id of
        Some lesson \<Rightarrow>
          rbind (case_at s (ls_source_case_id lesson)) (\<lambda>source_case.
          or_raise (raise_if (\<not> truthy (fc_fix_commit_sha source_case))
              (u ''lesson source case lacks fix_commit_sha: '' @ memory_id))
            (Inr (fc_fix_commit_sha source_case)))
      | None \<Rightarrow> Inr (map_option fc_commit_sha (dict_get (st_failure_cases s) memory_id)))"

definition candidate_commit_anchors :: "runtime \<Rightarrow> store \<Rightarrow> MemoryContext \<Rightarrow> pystr list result" where
  "candidate_commit_anchors rt s context =
     or_raise (validate_memory_context context)
     (rbind (metadata_candidates rt s context) (\<lambda>memories.
      rbind (rmap (\<lambda>m. commit_anchor s (mi_memory_id m)) memories) (\<lambda>anchors.
      Inr (sort (remdups (List.map_filter id anchors))))))"

definition validated_commit_ancestry ::
  "MemoryContext \<Rightarrow> CommitAncestryEvidence option \<Rightarrow> (pystr, bool) dict option result" where
  "validated_commit_ancestry context evidence =
     (case evidence of
        None \<Rightarrow> Inr None
      | Some ev \<Rightarrow>
          or_raise (first_error
            [validate_required_string (ca_current_commit_sha ev) (u ''current_commit_sha'')
               (u ''commit ancestry evidence requires'') (Some METADATA_VALUE_MAX_CHARS),
             raise_if (ca_current_commit_sha ev \<noteq> mc_commit_sha context)
               (u ''commit ancestry current_commit_sha does not match context commit_sha''),
             raise_if (COMMIT_ANCESTRY_MAX_ANCHORS < length (ca_commit_relations ev))
               (u ''commit ancestry accepts at most '' @ str_nat COMMIT_ANCESTRY_MAX_ANCHORS @ u '' relations'')])
          (rbind (rfold (\<lambda>(anchor, is_ancestor) relations.
              or_raise (first_error
                [validate_required_string anchor (u ''anchor commit'') (u ''commit ancestry relations require'')
                   (Some METADATA_VALUE_MAX_CHARS),
                 raise_if (dict_has relations anchor) (u ''duplicate commit ancestry relation: '' @ anchor)])
              (Inr (dict_set anchor is_ancestor relations))) (ca_commit_relations ev) []) (\<lambda>relations.
           Inr (Some relations))))"

definition require_commit_relations :: "pystr option list \<Rightarrow> (pystr, bool) dict \<Rightarrow> py_error option" where
  "require_commit_relations anchors relations =
     (let missing = sort (remdups (filter (\<lambda>a. \<not> dict_has relations a) (List.map_filter id anchors)))
      in raise_if (missing \<noteq> [])
           (u ''commit ancestry evidence is missing anchors: '' @ join (u '', '') missing))"

definition anchor_is_ancestor :: "(pystr, bool) dict \<Rightarrow> pystr option \<Rightarrow> bool" where
  "anchor_is_ancestor relations anchor \<longleftrightarrow>
     (case anchor of None \<Rightarrow> True | Some a \<Rightarrow> dict_get relations a = Some True)"

definition filter_candidates_by_ancestry ::
  "store \<Rightarrow> MemoryItem list \<Rightarrow> (pystr, bool) dict \<Rightarrow> MemoryItem list result" where
  "filter_candidates_by_ancestry s candidates relations =
     rbind (rmap (\<lambda>m. rbind (commit_anchor s (mi_memory_id m)) (\<lambda>a. Inr (m, a))) candidates) (\<lambda>anchored.
     or_raise (require_commit_relations (map snd anchored) relations)
     (Inr (map fst (filter (\<lambda>(m, a). anchor_is_ancestor relations a) anchored))))"

definition iter_candidates_by_ancestry ::
  "store \<Rightarrow> MemoryItem option result list \<Rightarrow> (pystr, bool) dict \<Rightarrow> MemoryItem option result list" where
  "iter_candidates_by_ancestry s candidates relations =
     map (\<lambda>r. rbind r (\<lambda>m. case m of
         None \<Rightarrow> Inr None
       | Some memory \<Rightarrow>
           rbind (commit_anchor s (mi_memory_id memory)) (\<lambda>anchor.
           or_raise (case anchor of None \<Rightarrow> None
              | Some a \<Rightarrow> raise_if (\<not> dict_has relations a)
                  (u ''commit ancestry evidence is missing anchors: '' @ a))
           (Inr (if anchor_is_ancestor relations anchor then Some memory else None))))) candidates"

section \<open>Scores and tokens\<close>

definition validated_semantic_scores ::
  "runtime \<Rightarrow> store \<Rightarrow> (pystr, pynum) dict option \<Rightarrow> pystr option \<Rightarrow> int option \<Rightarrow> pynum option \<Rightarrow>
   (pystr, pynum) dict option result" where
  "validated_semantic_scores rt s semantic_scores query max_candidates minimum_score =
     (case semantic_scores of
        None \<Rightarrow>
          or_raise (first_error
            [raise_if (max_candidates \<noteq> None) (u ''max_candidates requires semantic_scores''),
             raise_if (minimum_score \<noteq> None) (u ''minimum_score requires semantic_scores'')])
          (Inr None)
      | Some scores \<Rightarrow>
          let unknown_ids = sort (filter (\<lambda>i. \<not> known_memory s i) (dict_keys scores)) in
          or_raise (first_error
            ([raise_if (SEMANTIC_SCORES_MAX_ITEMS < length scores)
                (u ''semantic_scores accepts at most '' @ str_nat SEMANTIC_SCORES_MAX_ITEMS @ u '' items''),
              raise_if (query \<noteq> None) (u ''query and semantic_scores are mutually exclusive''),
              raise_if (max_candidates = None) (u ''max_candidates is required with semantic_scores''),
              (case max_candidates of None \<Rightarrow> None
               | Some n \<Rightarrow> raise_if (\<not> (1 \<le> n \<and> n \<le> int LLM_GATE_MAX_CANDIDATES))
                   (u ''max_candidates must be an integer from 1 through '' @ str_nat LLM_GATE_MAX_CANDIDATES)),
              raise_if (minimum_score \<noteq> None \<and> \<not> is_finite_number (the minimum_score))
                (u ''minimum_score must be a finite number'')]
             @ map (\<lambda>(memory_id, score). first_error
                 [raise_if (memory_id = []) (u ''semantic score memory IDs must be non-empty strings''),
                  raise_if (MEMORY_ID_MAX_CHARS < length memory_id)
                    (at_most (u ''semantic score memory IDs'') MEMORY_ID_MAX_CHARS),
                  raise_if (\<not> is_finite_number score)
                    (u ''semantic score for '' @ py_repr rt memory_id @ u '' must be a finite number'')]) scores
             @ [raise_if (unknown_ids \<noteq> [])
                  (u ''semantic_scores references unknown memory IDs: '' @ join (u '', '') unknown_ids)]))
          (Inr (Some scores)))"

text \<open>The maximal runs of characters that the pattern \<^verbatim>\<open>[^\W_]\<close> matches.\<close>

fun word_runs :: "(nat \<Rightarrow> bool) \<Rightarrow> pystr \<Rightarrow> pystr \<Rightarrow> pystr list" where
  "word_runs w current [] = (if current = [] then [] else [current])"
| "word_runs w current (c # text) =
     (if w c then word_runs w (current @ [c]) text
      else (if current = [] then [] else [current]) @ word_runs w [] text)"

fun bigrams :: "pystr \<Rightarrow> pystr list" where
  "bigrams (a # b # text) = [a, b] # bigrams (b # text)"
| "bigrams _ = []"

definition tokens :: "runtime \<Rightarrow> pystr \<Rightarrow> pystr list" where
  "tokens rt text =
     concat (map (\<lambda>token. if length token < 2 then []
         else token # (if list_ex (\<lambda>c. 127 < c) token then bigrams token else []))
       (word_runs (\<lambda>c. rt_is_word rt c \<and> c \<noteq> 95) [] (rt_casefold rt text)))"

definition memory_tokens :: "runtime \<Rightarrow> MemoryItem \<Rightarrow> pystr list" where
  "memory_tokens rt memory =
     tokens rt (mi_memory_id memory @ u '' '' @ mi_text memory @ u '' '' @
       join (u '' '') (map (\<lambda>(key, value). key @ u '' '' @ value) (mi_scope memory)))"

section \<open>Retrieval\<close>

definition score_of :: "(pystr, pynum) dict \<Rightarrow> MemoryItem \<Rightarrow> rat" where
  "score_of scores memory =
     (case dict_get scores (mi_memory_id memory) of
        Some n \<Rightarrow> (case num_value n of Some q \<Rightarrow> q | None \<Rightarrow> 0) | None \<Rightarrow> 0)"

definition above_minimum :: "pynum option \<Rightarrow> rat \<Rightarrow> bool" where
  "above_minimum minimum_score q \<longleftrightarrow>
     (case minimum_score of None \<Rightarrow> True
      | Some n \<Rightarrow> (case num_value n of Some m \<Rightarrow> m \<le> q | None \<Rightarrow> False))"

text \<open>\<^verbatim>\<open>heapq.nsmallest(n, items, key=...)\<close> is \<^verbatim>\<open>sorted(items, key=...)[:n]\<close>.\<close>

definition ranked :: "(pystr, pynum) dict \<Rightarrow> pynum option \<Rightarrow> nat \<Rightarrow> MemoryItem list \<Rightarrow> MemoryItem list" where
  "ranked scores minimum_score limit memories =
     take limit (sort_key (\<lambda>m. (- score_of scores m, mi_memory_id m))
       (filter (\<lambda>m. dict_has scores (mi_memory_id m) \<and> above_minimum minimum_score (score_of scores m))
          memories))"

fun select_memories ::
  "runtime \<Rightarrow> pystr list \<Rightarrow> nat option \<Rightarrow> MemoryItem list \<Rightarrow> MemoryItem option result list \<Rightarrow>
   MemoryItem list result" where
  "select_memories rt query_tokens result_limit selected [] = Inr selected"
| "select_memories rt query_tokens result_limit selected (Inl e # rest) = Inl e"
| "select_memories rt query_tokens result_limit selected (Inr None # rest) =
     select_memories rt query_tokens result_limit selected rest"
| "select_memories rt query_tokens result_limit selected (Inr (Some memory) # rest) =
     (if query_tokens \<noteq> [] \<and> set query_tokens \<inter> set (memory_tokens rt memory) = {}
      then select_memories rt query_tokens result_limit selected rest
      else
        let selected = selected @ [memory] in
        case result_limit of
          None \<Rightarrow> select_memories rt query_tokens result_limit selected rest
        | Some n \<Rightarrow>
            if n < length selected
            then Inl (ValueError (u ''gate request candidate limit exceeded: '' @ str_nat (length selected) @
                   u '' > '' @ str_nat n))
            else select_memories rt query_tokens result_limit selected rest)"

definition retrieve_memories ::
  "runtime \<Rightarrow> store \<Rightarrow> MemoryContext \<Rightarrow> pystr option \<Rightarrow> (pystr, pynum) dict option \<Rightarrow> int option \<Rightarrow>
   pynum option \<Rightarrow> CommitAncestryEvidence option \<Rightarrow> nat option \<Rightarrow> MemoryItem list result" where
  "retrieve_memories rt s context query semantic_scores max_candidates minimum_score commit_ancestry result_limit =
     or_raise (first_error
       [validate_memory_context context,
        raise_if (query \<noteq> None \<and> RETRIEVAL_QUERY_MAX_CHARS < length (the query))
          (at_most (u ''query'') RETRIEVAL_QUERY_MAX_CHARS)])
     (rbind (validated_semantic_scores rt s semantic_scores query max_candidates minimum_score) (\<lambda>scores.
      rbind (validated_commit_ancestry context commit_ancestry) (\<lambda>commit_relations.
      rbind
        (case result_limit of
           None \<Rightarrow>
             rbind (metadata_candidates rt s context) (\<lambda>candidates.
             rbind (case commit_relations of None \<Rightarrow> Inr candidates
                    | Some relations \<Rightarrow> filter_candidates_by_ancestry s candidates relations) (\<lambda>candidates.
             Inr (map (Inr \<circ> Some) candidates)))
         | Some _ \<Rightarrow>
             Inr (case commit_relations of
                None \<Rightarrow> iter_metadata_candidates rt s context
              | Some relations \<Rightarrow>
                  iter_candidates_by_ancestry s (iter_metadata_candidates rt s context) relations))
        (\<lambda>candidates.
          case scores of
            Some sc \<Rightarrow>
              rbind (drain candidates) (\<lambda>memories.
              Inr (ranked sc minimum_score (nat (the max_candidates)) memories))
          | None \<Rightarrow>
              rbind (select_memories rt (tokens rt (case query of Some q \<Rightarrow> q | None \<Rightarrow> [])) result_limit []
                       candidates) (\<lambda>selected.
              Inr (sort_key mi_memory_id selected))))))"

definition candidate_memories ::
  "runtime \<Rightarrow> store \<Rightarrow> MemoryContext \<Rightarrow> pystr option \<Rightarrow> (pystr, pynum) dict option \<Rightarrow> int option \<Rightarrow>
   pynum option \<Rightarrow> CommitAncestryEvidence option \<Rightarrow> MemoryItem list result" where
  "candidate_memories rt s context query semantic_scores max_candidates minimum_score commit_ancestry =
     retrieve_memories rt s context query semantic_scores max_candidates minimum_score commit_ancestry None"

end
