(* ===== verification/Gate.thy ===== *)
theory Gate
  imports Retrieval InjectionFacts
begin

text \<open>
  The gate lifecycle of the store: \<^verbatim>\<open>prepare_memory\<close> retrieves and gates candidates and leaves a
  pending request, \<^verbatim>\<open>finalize_memory\<close> gates the same candidates again, combines the result with
  the answer of the semantic gate, renders the snippet and logs the decision, and
  \<^verbatim>\<open>cancel_memory_request\<close> and \<^verbatim>\<open>log_decision\<close> are the other ways to end or to log.
\<close>

abbreviation "PENDING_GATE_REQUEST_MAX_ITEMS \<equiv> (1000 :: nat)"
abbreviation "GATE_REQUEST_MAX_CANDIDATES \<equiv> (1000 :: nat)"
abbreviation "PENDING_GATE_REQUEST_MAX_CANDIDATE_IDS \<equiv> (100000 :: nat)"
abbreviation "FINALIZED_GATE_REQUEST_MAX_ITEMS \<equiv> (10000 :: nat)"

section \<open>Gating\<close>

definition bounded_system_gate ::
  "runtime \<Rightarrow> MemoryContext \<Rightarrow> MemoryItem list \<Rightarrow> (MemoryItem list \<times> (pystr, pystr) dict) result" where
  "bounded_system_gate rt context candidates =
     rbind (system_gate rt context candidates) (\<lambda>(system_allowed, system_blocked).
     if length system_allowed \<le> LLM_GATE_MAX_CANDIDATES then Inr (system_allowed, system_blocked)
     else
       Inr (take LLM_GATE_MAX_CANDIDATES system_allowed,
            fold (\<lambda>memory blocked. dict_set (mi_memory_id memory) LLM_GATE_CANDIDATE_LIMIT_REASON blocked)
              (drop LLM_GATE_MAX_CANDIDATES system_allowed) system_blocked))"

definition trace_context_fields :: "Trace \<Rightarrow> MemoryContext \<Rightarrow> (pystr \<times> pystr option \<times> pystr option) list" where
  "trace_context_fields trace context =
     [(u ''branch'', tr_branch trace, mc_branch context),
      (u ''prompt_version'', tr_prompt_version trace, mc_prompt_version context),
      (u ''prompt_family'', tr_prompt_family trace, mc_prompt_family context),
      (u ''tool_schema_version'', tr_tool_schema_version trace, mc_tool_schema_version context),
      (u ''model'', tr_model trace, mc_model context),
      (u ''eval_suite'', tr_eval_suite trace, mc_eval_suite context)]"

definition trace_mismatch :: "pystr \<Rightarrow> Trace \<Rightarrow> pystr" where
  "trace_mismatch name trace = u ''trace '' @ name @ u '' does not match memory context: '' @ tr_trace_id trace"

definition validate_trace_context :: "Trace \<Rightarrow> MemoryContext \<Rightarrow> py_error option" where
  "validate_trace_context trace context =
     first_error
       ([validate_memory_context context,
         raise_if (tr_repo trace \<noteq> Some (mc_repo context)) (trace_mismatch (u ''repo'') trace),
         raise_if (tr_commit_sha trace \<noteq> mc_commit_sha context) (trace_mismatch (u ''commit_sha'') trace),
         raise_if (tr_tenant trace \<noteq> mc_tenant context) (trace_mismatch (u ''tenant'') trace)]
        @ map (\<lambda>(name, trace_value, context_value).
            raise_if (context_value \<noteq> None \<and> trace_value \<noteq> context_value) (trace_mismatch name trace))
            (trace_context_fields trace context)
        @ [raise_if (mc_tool context \<noteq> None \<and>
               the (mc_tool context) \<notin> set (trace_change_set_tool_names trace)) (trace_mismatch (u ''tool'') trace),
           raise_if (mc_input_hash context \<noteq> None \<and> tr_input_hash trace \<noteq> mc_input_hash context)
             (trace_mismatch (u ''input_hash'') trace)])"

definition context_evidence :: "MemoryContext \<Rightarrow> (pystr, pystr) dict" where
  "context_evidence context =
     List.map_filter (\<lambda>(key, value). map_option (Pair key) value)
       [(u ''mode'', Some (mc_mode context)), (u ''repo'', Some (mc_repo context)),
        (u ''commit_sha'', Some (mc_commit_sha context)), (u ''branch'', mc_branch context),
        (u ''prompt_version'', mc_prompt_version context), (u ''prompt_family'', mc_prompt_family context),
        (u ''tool'', mc_tool context), (u ''tool_schema_version'', mc_tool_schema_version context),
        (u ''model'', mc_model context), (u ''model_family'', mc_model_family context),
        (u ''eval_suite'', mc_eval_suite context), (u ''task_type'', mc_task_type context),
        (u ''failure_type'', mc_failure_type context), (u ''tenant'', mc_tenant context),
        (u ''input_hash'', mc_input_hash context)]"

section \<open>Stored memories as items\<close>

definition memory_item_at :: "runtime \<Rightarrow> store \<Rightarrow> pystr \<Rightarrow> MemoryItem option result" where
  "memory_item_at rt s memory_id =
     (case dict_get (st_lessons s) memory_id of
        Some lesson \<Rightarrow> offered (store_memory_item_from_lesson s lesson)
      | None \<Rightarrow>
         (case dict_get (st_project_policies s) memory_id of
            Some policy \<Rightarrow> offered (memory_item_from_project_policy rt policy)
          | None \<Rightarrow>
             (case dict_get (st_failure_cases s) memory_id of
                Some fcase \<Rightarrow>
                  rbind (trace_at s (fc_source_trace_id fcase)) (\<lambda>trace.
                  offered (memory_item_from_failure_case_for_audit fcase trace))
              | None \<Rightarrow> Inr None)))"

definition memory_items :: "runtime \<Rightarrow> store \<Rightarrow> pystr list \<Rightarrow> MemoryItem list result" where
  "memory_items rt s memory_ids =
     rbind (rmap (memory_item_at rt s) memory_ids) (\<lambda>items.
     let unknown_ids = filter (\<lambda>i. \<not> known_memory s i) memory_ids in
     or_raise (raise_if (unknown_ids \<noteq> [])
         (u ''usage log references unknown memory IDs: '' @ join (u '', '') (sort unknown_ids)))
     (Inr (List.map_filter id items)))"

definition trace_for_run_id :: "store \<Rightarrow> pystr \<Rightarrow> Trace result" where
  "trace_for_run_id s run_id =
     or_raise (validate_required_string run_id (u ''run_id'') (u ''trace lookup requires'')
         (Some MEMORY_ID_MAX_CHARS))
     (case dict_get (st_trace_ids_by_run_id s) run_id of
        None \<Rightarrow> Inl (ValueError (u ''unknown run_id: '' @ run_id))
      | Some [] \<Rightarrow> Inl (ValueError (u ''unknown run_id: '' @ run_id))
      | Some [trace_id] \<Rightarrow> trace_at s trace_id
      | Some _ \<Rightarrow> Inl (ValueError (u ''run_id does not resolve to one trace: '' @ run_id)))"

section \<open>Usage logs\<close>

definition new_usage_log ::
  "runtime \<Rightarrow> store \<Rightarrow> Trace \<Rightarrow> MemoryContext \<Rightarrow> MemoryItem list \<Rightarrow> MemoryDecision \<Rightarrow>
   (pystr, pystr) dict \<Rightarrow> pystr option \<Rightarrow> bool \<Rightarrow> pystr option \<Rightarrow> MemoryUsageLog result" where
  "new_usage_log rt s trace context candidates decision system_blocked eval_result memory_caused_failure request_id =
     (let ulog =
        \<lparr>ul_decision_id = u ''decision_'' @ format_06d (st_next_decision_number s),
         ul_run_id = tr_run_id trace, ul_mode = mc_mode context,
         ul_candidate_memory_ids = map mi_memory_id candidates,
         ul_used_memory_ids = (if md_use_memory decision then md_allowed_memory_ids decision else []),
         ul_blocked_memory_ids = md_blocked_memory_ids decision,
         ul_reason = md_reason decision, ul_risk = md_risk decision,
         ul_recommended_injection = md_recommended_injection decision,
         ul_eval_result = eval_result, ul_memory_caused_failure = memory_caused_failure,
         ul_trace_id = Some (tr_trace_id trace), ul_context = context_evidence context,
         ul_candidate_memory_statuses =
           fold (\<lambda>m. dict_set (mi_memory_id m) (mi_status m)) candidates [],
         ul_system_blocked_reasons = system_blocked,
         ul_created_at = Some (utc_timestamp rt), ul_request_id = request_id\<rparr>
      in or_raise (first_error
           [validate_usage_log ulog, validate_usage_log_memory_ids s ulog, validate_usage_log_trace s ulog])
         (Inr ulog))"

text \<open>The numbers in \<^verbatim>\<open>decision_<n>\<close> and \<^verbatim>\<open>gate_request_[<session>_]<n>\<close>.\<close>

definition decision_number :: "runtime \<Rightarrow> pystr \<Rightarrow> nat option" where
  "decision_number rt decision_id =
     (case strip_prefix (u ''decision_'') decision_id of Some s \<Rightarrow> parse_decimal rt s | None \<Rightarrow> None)"

definition is_hex :: "nat \<Rightarrow> bool" where
  "is_hex c \<longleftrightarrow> 48 \<le> c \<and> c \<le> 57 \<or> 97 \<le> c \<and> c \<le> 102"

definition gate_request_number :: "runtime \<Rightarrow> pystr \<Rightarrow> nat option" where
  "gate_request_number rt request_id =
     (case strip_prefix (u ''gate_request_'') request_id of
        None \<Rightarrow> None
      | Some s \<Rightarrow>
          if 33 \<le> length s \<and> list_all is_hex (take 32 s) \<and> s ! 32 = 95 then parse_decimal rt (drop 33 s)
          else parse_decimal rt s)"

definition bump :: "nat option \<Rightarrow> nat \<Rightarrow> nat" where
  "bump found next_number = (case found of None \<Rightarrow> next_number | Some n \<Rightarrow> max next_number (n + 1))"

definition append_usage_log :: "runtime \<Rightarrow> MemoryUsageLog \<Rightarrow> store \<Rightarrow> store result" where
  "append_usage_log rt ulog s =
     (if dict_has (st_usage_log_indexes s) (ul_decision_id ulog)
      then Inl (ValueError (u ''duplicate usage log decision_id: '' @ ul_decision_id ulog))
      else
        Inr (s\<lparr>st_usage_logs := st_usage_logs s @ [ulog],
               st_usage_log_indexes :=
                 dict_set (ul_decision_id ulog) (length (st_usage_logs s)) (st_usage_log_indexes s),
               st_next_decision_number :=
                 bump (decision_number rt (ul_decision_id ulog)) (st_next_decision_number s),
               st_next_gate_request_number :=
                 bump (case ul_request_id ulog of None \<Rightarrow> None | Some r \<Rightarrow> gate_request_number rt r)
                   (st_next_gate_request_number s)\<rparr>))"

section \<open>Requests\<close>

record retrieval_args =
  ra_query :: "pystr option"
  ra_semantic_scores :: "(pystr, pynum) dict option"
  ra_max_candidates :: "int option"
  ra_minimum_score :: "pynum option"
  ra_commit_ancestry :: "CommitAncestryEvidence option"

definition new_request_id :: "store \<Rightarrow> pystr" where
  "new_request_id s =
     u ''gate_request_'' @ st_gate_request_session_id s @ u ''_'' @ format_06d (st_next_gate_request_number s)"

definition pending_candidate_ids :: "store \<Rightarrow> nat" where
  "pending_candidate_ids s =
     sum_list (map (\<lambda>r. length (gr_candidate_memory_ids r)) (dict_values (st_pending_gate_requests s)))"

definition prepare_trace :: "store \<Rightarrow> MemoryContext \<Rightarrow> pystr option \<Rightarrow> Trace option result" where
  "prepare_trace s context trace_id =
     (case trace_id of
        None \<Rightarrow> Inr None
      | Some tid \<Rightarrow>
          or_raise (validate_required_string tid (u ''trace_id'') (u ''memory preparation requires'')
              (Some MEMORY_ID_MAX_CHARS))
          (case dict_get (st_traces s) tid of
             None \<Rightarrow> Inl (ValueError (u ''unknown trace_id: '' @ tid))
           | Some trace \<Rightarrow> or_raise (validate_trace_context trace context) (Inr (Some trace))))"

definition prepare_memory ::
  "runtime \<Rightarrow> MemoryContext \<Rightarrow> pystr \<Rightarrow> pystr option \<Rightarrow> retrieval_args \<Rightarrow> pystr \<Rightarrow> MemoryGateRequest op" where
  "prepare_memory rt context task trace_id args context_summary s =
     or_raise (first_error
       [validate_memory_context context,
        raise_if (PENDING_GATE_REQUEST_MAX_ITEMS \<le> length (st_pending_gate_requests s))
          (u ''store has reached the pending gate request limit of '' @ str_nat PENDING_GATE_REQUEST_MAX_ITEMS)])
     (rbind (prepare_trace s context trace_id) (\<lambda>trace.
      rbind (retrieve_memories rt s context (ra_query args) (ra_semantic_scores args) (ra_max_candidates args)
               (ra_minimum_score args) (ra_commit_ancestry args) (Some GATE_REQUEST_MAX_CANDIDATES)) (\<lambda>candidates.
      or_raise (raise_if (PENDING_GATE_REQUEST_MAX_CANDIDATE_IDS < pending_candidate_ids s + length candidates)
          (u ''store has reached the pending gate candidate budget of '' @
           str_nat PENDING_GATE_REQUEST_MAX_CANDIDATE_IDS))
      (rbind (bounded_system_gate rt context candidates) (\<lambda>(system_allowed, system_blocked).
       rbind (build_llm_gate_prompt rt context system_allowed task context_summary) (\<lambda>prompt.
       let request =
         \<lparr>gr_request_id = new_request_id s, gr_context = context,
          gr_candidate_memory_ids = map mi_memory_id candidates,
          gr_system_allowed_memory_ids = map mi_memory_id system_allowed,
          gr_system_blocked = system_blocked, gr_prompt = prompt, gr_store_token = st_store_token s,
          gr_trace_id = map_option tr_trace_id trace, gr_run_id = map_option tr_run_id trace\<rparr>
       in Inr (request,
            s\<lparr>st_next_gate_request_number := st_next_gate_request_number s + 1,
              st_pending_gate_requests :=
                dict_set (gr_request_id request) request (st_pending_gate_requests s)\<rparr>)))))))"

text \<open>The window of finalized requests: the oldest leave when it is full.\<close>

fun expire :: "pystr list \<Rightarrow> pystr list \<Rightarrow> pystr list \<times> pystr list" where
  "expire ids order =
     (if FINALIZED_GATE_REQUEST_MAX_ITEMS < length order
      then expire (filter (\<lambda>i. i \<noteq> hd order) ids) (tl order)
      else (ids, order))"

declare expire.simps [simp del]

definition pending_request_error :: "MemoryGateRequest \<Rightarrow> store \<Rightarrow> py_error option" where
  "pending_request_error request s =
     first_error
       [raise_if (gr_request_id request \<in> set (st_finalized_gate_request_ids s))
          (u ''gate request already finalized: '' @ gr_request_id request),
        raise_if (case dict_get (st_pending_gate_requests s) (gr_request_id request) of
            None \<Rightarrow> True | Some pending \<Rightarrow> \<not> gate_request_eq request pending)
          (u ''gate request does not belong to this store'')]"

definition own_request_error :: "MemoryGateRequest \<Rightarrow> store \<Rightarrow> py_error option" where
  "own_request_error request s =
     first_error
       [raise_if (gr_store_token request \<noteq> st_store_token s)
          (u ''gate request does not belong to this store''),
        validate_required_string (gr_request_id request) (u ''request_id'')
          (u ''gate request records require'') (Some MEMORY_ID_MAX_CHARS)]"

definition finish_request :: "pystr \<Rightarrow> store \<Rightarrow> store" where
  "finish_request request_id s =
     (let ids = (if request_id \<in> set (st_finalized_gate_request_ids s) then st_finalized_gate_request_ids s
            else st_finalized_gate_request_ids s @ [request_id]);
          (ids, order) = expire ids (st_finalized_gate_request_order s @ [request_id])
      in s\<lparr>st_pending_gate_requests := dict_pop request_id (st_pending_gate_requests s),
           st_finalized_gate_request_ids := ids, st_finalized_gate_request_order := order\<rparr>)"

text \<open>The part of \<^verbatim>\<open>finalize_memory\<close> after its guards: gate again, decide, render and log.\<close>

definition finalize_with_trace ::
  "runtime \<Rightarrow> MemoryGateRequest \<Rightarrow> payload \<Rightarrow> Trace \<Rightarrow> pystr option \<Rightarrow> bool \<Rightarrow> GatedMemoryResult op" where
  "finalize_with_trace rt request decision_payload trace eval_result memory_caused_failure s =
     rbind (memory_items rt s (gr_candidate_memory_ids request)) (\<lambda>candidates.
       rbind (bounded_system_gate rt (gr_context request) candidates) (\<lambda>(system_allowed, system_blocked).
       rbind (parse_memory_decision rt decision_payload) (\<lambda>decision.
       rbind (apply_llm_gate_decision rt system_allowed system_blocked decision) (\<lambda>(final_allowed, final_decision).
       rbind (build_injection_snippet rt final_allowed None (Some final_decision) (Some (gr_context request))) (\<lambda>snippet.
       rbind (new_usage_log rt s trace (gr_context request) candidates final_decision system_blocked
                eval_result memory_caused_failure (Some (gr_request_id request))) (\<lambda>ulog.
       rbind (append_usage_log rt ulog s) (\<lambda>s'.
       Inr (\<lparr>gm_request_id = gr_request_id request, gm_trace_id = tr_trace_id trace,
             gm_decision_id = ul_decision_id ulog, gm_use_memory = md_use_memory final_decision,
             gm_allowed_memory_ids = md_allowed_memory_ids final_decision,
             gm_blocked_memory_ids = md_blocked_memory_ids final_decision,
             gm_reason = md_reason final_decision, gm_risk = md_risk final_decision,
             gm_recommended_injection = md_recommended_injection final_decision, gm_snippet = snippet\<rparr>,
            finish_request (gr_request_id request) s'))))))))"

definition finalize_memory ::
  "runtime \<Rightarrow> MemoryGateRequest \<Rightarrow> payload \<Rightarrow> pystr \<Rightarrow> pystr option \<Rightarrow> bool \<Rightarrow> GatedMemoryResult op" where
  "finalize_memory rt request decision_payload trace_id eval_result memory_caused_failure s =
     or_raise (first_error
       [own_request_error request s,
        validate_memory_context (gr_context request),
        validate_required_string trace_id (u ''trace_id'') (u ''finalization requires'') (Some MEMORY_ID_MAX_CHARS),
        validate_runtime_outcome eval_result,
        pending_request_error request s,
        raise_if (gr_trace_id request \<noteq> None \<and> gr_trace_id request \<noteq> Some trace_id)
          (u ''gate request is bound to trace_id '' @ given_or (gr_trace_id request) [] @ u '', not '' @ trace_id)])
     (case dict_get (st_traces s) trace_id of
        None \<Rightarrow> Inl (ValueError (u ''unknown trace_id: '' @ trace_id))
      | Some trace \<Rightarrow>
          or_raise (first_error
            [raise_if (gr_run_id request \<noteq> None \<and> gr_run_id request \<noteq> Some (tr_run_id trace))
               (u ''gate request run_id does not match its bound trace: '' @ given_or (gr_run_id request) []),
             validate_trace_context trace (gr_context request)])
          (finalize_with_trace rt request decision_payload trace eval_result memory_caused_failure s))"

definition cancel_memory_request :: "MemoryGateRequest \<Rightarrow> unit op" where
  "cancel_memory_request request s =
     or_raise (first_error [own_request_error request s, pending_request_error request s])
     (Inr ((), s\<lparr>st_pending_gate_requests := dict_pop (gr_request_id request) (st_pending_gate_requests s)\<rparr>))"

text \<open>\<^verbatim>\<open>asdict(decision)\<close>\<close>

definition decision_dict :: "MemoryDecision \<Rightarrow> pydict" where
  "decision_dict d =
     [(PStr (u ''use_memory''), PBool (md_use_memory d)),
      (PStr (u ''allowed_memory_ids''), PList (map PStr (md_allowed_memory_ids d))),
      (PStr (u ''blocked_memory_ids''), PList (map PStr (md_blocked_memory_ids d))),
      (PStr (u ''reason''), PStr (md_reason d)), (PStr (u ''risk''), PStr (md_risk d)),
      (PStr (u ''recommended_injection''), PStr (md_recommended_injection d))]"

definition log_decision ::
  "runtime \<Rightarrow> pystr \<Rightarrow> MemoryContext \<Rightarrow> pystr list \<Rightarrow> MemoryDecision \<Rightarrow> pystr option \<Rightarrow> bool \<Rightarrow> MemoryUsageLog op" where
  "log_decision rt run_id context candidate_memory_ids decision eval_result memory_caused_failure s =
     or_raise (first_error
       [validate_required_string run_id (u ''run_id'') (u ''usage logging requires'') (Some MEMORY_ID_MAX_CHARS),
        validate_memory_context context,
        raise_if (GATE_REQUEST_MAX_CANDIDATES < length candidate_memory_ids)
          (u ''usage log candidate limit exceeded: '' @ str_nat (length candidate_memory_ids) @ u '' > '' @
           str_nat GATE_REQUEST_MAX_CANDIDATES),
        validate_memory_id_list candidate_memory_ids (u ''candidate_memory_ids''),
        validate_runtime_outcome eval_result])
     (rbind (trace_for_run_id s run_id) (\<lambda>trace.
      or_raise (validate_trace_context trace context)
      (rbind (memory_items rt s candidate_memory_ids) (\<lambda>candidates.
       rbind (system_gate rt context candidates) (\<lambda>(system_allowed, system_blocked).
       rbind (parse_memory_decision rt (PyMapping (decision_dict decision))) (\<lambda>validated_decision.
       let overlapping_ids = sort (filter (\<lambda>i. i \<in> set (md_blocked_memory_ids validated_decision))
             (md_allowed_memory_ids validated_decision)) in
       or_raise (raise_if (overlapping_ids \<noteq> [])
           (u ''memory ids cannot be both allowed and blocked: '' @ join (u '', '') overlapping_ids))
       (rbind (apply_llm_gate_decision rt system_allowed system_blocked validated_decision)
          (\<lambda>(final_allowed, final_decision).
        rbind (new_usage_log rt s trace context candidates final_decision system_blocked eval_result
                 memory_caused_failure None) (\<lambda>ulog.
        rbind (append_usage_log rt ulog s) (\<lambda>s'. Inr (ulog, s')))))))))))"

end
