(* ===== verification/DecisionFacts.thy ===== *)
theory DecisionFacts
  imports Gate
begin

text \<open>
  The decision parser: what it accepts is well formed and consistent, and it reads back exactly the
  decisions that the code writes with \<^verbatim>\<open>asdict\<close>.
\<close>

definition decision_consistent :: "MemoryDecision \<Rightarrow> bool" where
  "decision_consistent d \<longleftrightarrow>
     (md_use_memory d \<longleftrightarrow> md_allowed_memory_ids d \<noteq> []) \<and>
     (md_use_memory d \<longleftrightarrow> md_recommended_injection d \<noteq> u ''none'')"

lemma consistency_error_None_iff [simp]:
  "memory_decision_consistency_error (md_use_memory d) (md_allowed_memory_ids d) (md_recommended_injection d) = None
     \<longleftrightarrow> decision_consistent d"
  by (auto simp: memory_decision_consistency_error_def decision_consistent_def)

lemma is_strD [simp]: "is_str v \<Longrightarrow> PStr (str_of v) = v"
  by (cases v) (simp_all add: is_str_def)

lemma string_list_Inr:
  assumes "string_list v name (Some n) = Inr ids"
  shows "length ids \<le> n" "distinct ids" "i \<in> set ids \<Longrightarrow> i \<noteq> [] \<and> length i \<le> MEMORY_ID_MAX_CHARS"
    "v = PList (map PStr ids)"
proof -
  from assms obtain items where v: "v = PList items" and ids: "ids = map str_of items"
    and items: "length items \<le> n" "list_all (\<lambda>v. is_str v \<and> v \<noteq> PStr []) items"
      "\<not> list_ex (\<lambda>v. MEMORY_ID_MAX_CHARS < length (str_of v)) items" "distinct (map str_of items)"
    by (auto simp: string_list_def result_simps split: pyval.splits)
  have "map PStr ids = items"
    unfolding ids map_map using items(2) by (intro map_idI) (simp add: list_all_iff)
  with v show "v = PList (map PStr ids)" by simp
  show "length ids \<le> n" "distinct ids" using items by (simp_all add: ids)
  show "i \<in> set ids \<Longrightarrow> i \<noteq> [] \<and> length i \<le> MEMORY_ID_MAX_CHARS"
    using items(2,3) is_strD unfolding ids list_all_iff list_ex_iff set_map
    by (metis (no_types, lifting) imageE not_less)
qed

text \<open>Whatever text or mapping comes back from a model, a parsed decision satisfies the contract.\<close>

lemma parse_memory_decision_accepted:
  assumes "parse_memory_decision rt payload = Inr d"
  shows "decision_accepted d \<and> decision_consistent d"
proof -
  from assms obtain data al bl where al: "string_list (field data ''allowed_memory_ids'')
        (u ''allowed_memory_ids'') (Some LLM_GATE_MAX_CANDIDATES) = Inr al"
    and bl: "string_list (field data ''blocked_memory_ids'') (u ''blocked_memory_ids'')
        (Some LLM_GATE_MAX_CANDIDATES) = Inr bl"
    and d: "md_allowed_memory_ids d = al" "md_blocked_memory_ids d = bl"
    and ok: "reason_error (md_reason d) = None" "risk_error (md_risk d) = None"
      "injection_error (md_recommended_injection d) = None"
      "memory_decision_consistency_error (md_use_memory d) (md_allowed_memory_ids d) (md_recommended_injection d) = None"
    unfolding parse_memory_decision_def rbind_Inr_iff Let_def or_raise_Inr_iff
    apply (elim exE conjE)
    apply (rename_tac data)
    apply (case_tac "field data ''use_memory''"; simp only: pyval.case sum.distinct)
    apply (clarsimp simp: rbind_Inr_iff)
    apply (case_tac "field data ''reason''"; simp only: pyval.case sum.distinct)
    apply (case_tac "field data ''risk''"; case_tac "field data ''recommended_injection''";
        simp add: or_raise_Inr_iff)
    apply force
    done
  have "decision_accepted d"
    using string_list_Inr(1-3) [OF al] string_list_Inr(1-3) [OF bl] ok(1-3)
    by (auto simp: decision_accepted_def validated_decision_fields_Inr_iff d reason_error_def risk_error_def
        injection_error_def)
  moreover have "decision_consistent d" using ok(4) by simp
  ultimately show ?thesis ..
qed

lemma decision_dict_keys: "dict_keys (decision_dict d) = map (PStr \<circ> u)
    [''use_memory'', ''allowed_memory_ids'', ''blocked_memory_ids'', ''reason'', ''risk'', ''recommended_injection'']"
  by (simp add: decision_dict_def dict_keys_def)

lemma decision_dict_object:
  assumes "within_budget (PDict (decision_dict d))"
  shows "bounded_memory_decision_object rt (PyMapping (decision_dict d)) = Inr (decision_dict d)"
proof -
  have "json_object rt (PyMapping (decision_dict d)) (u ''memory decision'') = Inr (decision_dict d)"
    by (simp add: json_object_def decision_dict_keys is_str_def)
  moreover have "validate_memory_decision_payload_budget (decision_dict d) = None"
    using assms by (simp add: budget_exact)
  moreover have "length (decision_dict d) = 6" by (simp add: decision_dict_def)
  ultimately show ?thesis by (simp add: bounded_memory_decision_object_def)
qed

text \<open>Writing a decision and reading it back.\<close>

lemma parse_decision_dict:
  assumes "within_budget (PDict (decision_dict d))" and "decision_accepted d" and "decision_consistent d"
  shows "parse_memory_decision rt (PyMapping (decision_dict d)) = Inr d"
proof -
  have fields: "field (decision_dict d) ''use_memory'' = PBool (md_use_memory d)"
      "field (decision_dict d) ''allowed_memory_ids'' = PList (map PStr (md_allowed_memory_ids d))"
      "field (decision_dict d) ''blocked_memory_ids'' = PList (map PStr (md_blocked_memory_ids d))"
      "field (decision_dict d) ''reason'' = PStr (md_reason d)" "field (decision_dict d) ''risk'' = PStr (md_risk d)"
      "field (decision_dict d) ''recommended_injection'' = PStr (md_recommended_injection d)"
    by (simp_all add: field_def decision_dict_def)
  from assms(2) have lists: "string_list (PList (map PStr (md_allowed_memory_ids d))) nm (Some LLM_GATE_MAX_CANDIDATES) =
        Inr (md_allowed_memory_ids d)"
      "string_list (PList (map PStr (md_blocked_memory_ids d))) nm (Some LLM_GATE_MAX_CANDIDATES) =
        Inr (md_blocked_memory_ids d)"
    and err: "reason_error (md_reason d) = None" "risk_error (md_risk d) = None"
      "injection_error (md_recommended_injection d) = None" for nm
    by (auto simp: decision_accepted_def validated_decision_fields_Inr_iff string_list_PStr reason_error_def
        risk_error_def injection_error_def)
  show ?thesis
    by (simp add: parse_memory_decision_def decision_dict_object [OF assms(1)] Let_def decision_dict_keys
        DECISION_REQUIRED_FIELDS_def fields lists err consistency_error_None_iff [THEN iffD2, OF assms(3)])
qed

section \<open>What the gates agree on can be rendered\<close>

context candidate_gate
begin

lemma combined_fields:
  assumes g: "gate rt cx cs = Inr (a, b)" and d: "decision_accepted d"
  shows "validated_decision_fields (combined_decision a b d) None = Inr (granted_ids a d, refused_ids a b d)"
    "decision_consistent (combined_decision a b d)"
proof -
  from d have ok: "\<forall>i\<in>set (md_allowed_memory_ids d) \<union> set (md_blocked_memory_ids d).
      i \<noteq> [] \<and> length i \<le> MEMORY_ID_MAX_CHARS"
    and rest: "\<not> blank (md_reason d)" "length (md_reason d) \<le> MEMORY_DECISION_REASON_MAX_CHARS"
      "md_risk d \<in> set DECISION_RISKS" "md_recommended_injection d \<in> set RECOMMENDED_INJECTIONS"
    by (simp_all add: decision_accepted_def validated_decision_fields_Inr_iff)
  have "set (granted_ids a d) \<union> set (refused_ids a b d) \<subseteq>
      mi_memory_id ` set cs \<union> (set (md_allowed_memory_ids d) \<union> set (md_blocked_memory_ids d))"
    unfolding set_refused_ids using decided_split(4) [OF g, of d] gate_blocked [OF g] gate_allowed [OF g]
    by blast
  moreover have "\<forall>i\<in>mi_memory_id ` set cs. i \<noteq> [] \<and> length i \<le> MEMORY_ID_MAX_CHARS"
    using gate_ids [OF g] by simp
  ultimately have "\<forall>i\<in>set (granted_ids a d) \<union> set (refused_ids a b d).
      i \<noteq> [] \<and> length i \<le> MEMORY_ID_MAX_CHARS"
    using ok by (meson UnE subsetD)
  moreover have "u ''none'' \<in> set RECOMMENDED_INJECTIONS" by (simp add: policy_constants)
  ultimately show "validated_decision_fields (combined_decision a b d) None =
      Inr (granted_ids a d, refused_ids a b d)"
    using rest distinct_granted_ids [OF d]
    by (simp add: validated_decision_fields_Inr_iff combined_decision_def)
  show "decision_consistent (combined_decision a b d)"
    by (auto simp: decision_consistent_def combined_decision_def granted_ids_def memory_requested_def
        split: if_splits)
qed

lemma granted_inputs:
  assumes g: "gate rt cx cs = Inr (a, b)" and d: "decision_accepted d"
  shows "validate_injection_inputs rt (granted_items a d) (Some (combined_decision a b d)) None = None"
proof -
  have safe: "\<forall>m\<in>set (granted_items a d). snippet_guardrail_error rt m = None"
    using decided_are_safe [OF g] blocked_reason_guardrail by blast
  have disj: "\<not> list_ex (\<lambda>i. i \<in> set (refused_ids a b d)) (map mi_memory_id (granted_items a d))"
    unfolding map_id_granted_items list_ex_iff using decided_split(2) [OF g, of d] by blast
  have sub: "\<not> list_ex (\<lambda>i. i \<notin> set (granted_ids a d)) (map mi_memory_id (granted_items a d))"
    unfolding map_id_granted_items list_ex_iff by blast
  have use: "md_use_memory (combined_decision a b d) \<longleftrightarrow> granted_items a d \<noteq> []"
    by (simp add: combined_decision_def)
  have "memory_decision_consistency_error (md_use_memory (combined_decision a b d)) (granted_ids a d)
      (md_recommended_injection (combined_decision a b d)) = None"
    using combined_fields(2) [OF g d] consistency_error_None_iff [of "combined_decision a b d"]
    by (simp add: combined_decision_def)
  with safe disj sub use show ?thesis
    unfolding validate_injection_inputs_def option.case combined_fields(1) [OF g d] sum.case prod.case
    by (simp add: distinct_granted_ids [OF d])
qed

lemma rendered_iff:
  assumes g: "gate rt cx cs = Inr (a, b)" and d: "decision_accepted d"
  shows "build_injection_snippet rt (granted_items a d) None (Some (combined_decision a b d)) (Some cx) = Inr s \<longleftrightarrow>
    length (granted_items a d) \<le> INJECTION_MAX_MEMORIES \<and>
    s = snippet_text (md_recommended_injection (combined_decision a b d)) (granted_items a d) \<and>
    length s \<le> INJECTION_SNIPPET_MAX_CHARS"
proof -
  have safe: "m \<in> set cs \<and> blocked_reason rt cx m = None" if "m \<in> set (granted_items a d)" for m
    using decided_are_safe [OF g that] .
  have "validated_memory_collection rt (granted_items a d) (u ''memories'') True = None"
    using safe gate_ids [OF g] distinct_granted_ids [OF d]
    by (auto simp: validated_memory_collection_None_iff blocked_reason_None_iff)
  moreover have "benchmark_errors rt (granted_items a d) (Some cx) = None"
    using safe by (auto simp: benchmark_errors_def blocked_reason_None_iff list_ex_iff)
  moreover have "md_recommended_injection (combined_decision a b d) \<in> set RECOMMENDED_INJECTIONS"
    using combined_fields(1) [OF g d] by (simp add: validated_decision_fields_Inr_iff)
  ultimately show ?thesis
    unfolding build_injection_snippet_Inr_iff injection_mode_def using granted_inputs [OF g d] by simp
qed

end

end
