(* ===== verification/RunsInv.thy ===== *)
theory RunsInv
  imports Runs
begin

text \<open>
  The invariant of the usage logs, that it survives every change of the memory part, and that the
  completion of runs keeps both. A log stays linked to its trace and to known memories; a measured
  outcome is never changed afterwards.
\<close>

section \<open>The invariant of the logs\<close>

definition log_ok :: "store \<Rightarrow> MemoryUsageLog \<Rightarrow> bool" where
  "log_ok s l \<longleftrightarrow> validate_usage_log l = None \<and> validate_usage_log_memory_ids s l = None \<and>
     validate_usage_log_trace s l = None"

definition logs_ok :: "store \<Rightarrow> bool" where
  "logs_ok s \<longleftrightarrow> dict_ok (st_usage_log_indexes s) \<and>
     (\<forall>d i. dict_get (st_usage_log_indexes s) d = Some i \<longleftrightarrow>
        i < length (st_usage_logs s) \<and> ul_decision_id (st_usage_logs s ! i) = d) \<and>
     (\<forall>l\<in>set (st_usage_logs s). log_ok s l)"

lemma logs_ok_new_store: "logs_ok (new_store token sid)"
  by (simp add: logs_ok_def new_store_def dict_ok_def)

lemma logs_ok_distinct:
  assumes "logs_ok s"
  shows "distinct (map ul_decision_id (st_usage_logs s))"
proof -
  have "i = j" if "i < length (st_usage_logs s)" "j < length (st_usage_logs s)"
      "ul_decision_id (st_usage_logs s ! i) = ul_decision_id (st_usage_logs s ! j)" for i j
  proof -
    have "dict_get (st_usage_log_indexes s) (ul_decision_id (st_usage_logs s ! i)) = Some i"
      "dict_get (st_usage_log_indexes s) (ul_decision_id (st_usage_logs s ! i)) = Some j"
      using assms that by (auto simp: logs_ok_def)
    then show ?thesis by simp
  qed
  then show ?thesis by (auto simp: distinct_conv_nth)
qed

text \<open>The later store knows every trace, as the same execution, and every memory of the earlier one.\<close>

definition extends :: "store \<Rightarrow> store \<Rightarrow> bool" where
  "extends s s' \<longleftrightarrow>
     (\<forall>i t. dict_get (st_traces s) i = Some t \<longrightarrow>
        (\<exists>t'. dict_get (st_traces s') i = Some t' \<and> trace_identity t' = trace_identity t)) \<and>
     (\<forall>i. known_memory s i \<longrightarrow> known_memory s' i)"

lemma extends_refl: "extends s s"
  by (simp add: extends_def)

lemma extends_trans: "extends s s' \<Longrightarrow> extends s' s'' \<Longrightarrow> extends s s''"
  unfolding extends_def by (metis (no_types, lifting))

lemma trace_identity_declared:
  assumes "trace_identity t' = trace_identity t"
  shows "DECLARED_TRACE_CONTEXT_FIELDS t' = DECLARED_TRACE_CONTEXT_FIELDS t"
    "trace_change_set_tool_names t' = trace_change_set_tool_names t"
  using trace_identity_fields [OF assms]
  by (simp_all add: DECLARED_TRACE_CONTEXT_FIELDS_def trace_change_set_tool_names_def)

lemma validate_usage_log_trace_cong:
  assumes "dict_get (st_traces s) tid = Some t" and "dict_get (st_traces s') tid = Some t'"
    and "trace_identity t' = trace_identity t" and "ul_trace_id l = Some tid"
  shows "validate_usage_log_trace s' l = validate_usage_log_trace s l"
  unfolding validate_usage_log_trace_def assms(1,2,4) option.case
    trace_identity_declared [OF assms(3)] trace_identity_fields [OF assms(3)] ..

lemma validate_usage_log_trace_link:
  assumes "validate_usage_log_trace s l = None"
  obtains tid t where "ul_trace_id l = Some tid" "dict_get (st_traces s) tid = Some t" "ul_run_id l = tr_run_id t"
    "tr_repo t \<noteq> None" "dict_get (ul_context l) (u ''repo'') = tr_repo t"
    "dict_get (ul_context l) (u ''commit_sha'') = Some (tr_commit_sha t)"
    "dict_get (ul_context l) (u ''mode'') = Some (ul_mode l)"
    "dict_get (ul_context l) (u ''tenant'') = tr_tenant t"
proof -
  from assms obtain tid where tid: "ul_trace_id l = Some tid"
    unfolding validate_usage_log_trace_def by (cases "ul_trace_id l") auto
  with assms obtain t where t: "dict_get (st_traces s) tid = Some t"
    unfolding validate_usage_log_trace_def by (cases "dict_get (st_traces s) tid") (auto split: if_splits)
  from assms tid t have "ul_run_id l = tr_run_id t" "tr_repo t \<noteq> None"
      "dict_get (ul_context l) (u ''repo'') = tr_repo t"
      "dict_get (ul_context l) (u ''commit_sha'') = Some (tr_commit_sha t)"
      "dict_get (ul_context l) (u ''mode'') = Some (ul_mode l)"
      "dict_get (ul_context l) (u ''tenant'') = tr_tenant t"
    unfolding validate_usage_log_trace_def Let_def
    by (simp_all split: if_splits add: dict_has_iff) (cases "tr_tenant t"; auto)
  with tid t that show thesis by blast
qed

lemma log_ok_extends:
  assumes "extends s s'" and "log_ok s l"
  shows "log_ok s' l"
proof -
  from assms(2) have trace: "validate_usage_log_trace s l = None" by (simp add: log_ok_def)
  obtain tid t where t: "ul_trace_id l = Some tid" "dict_get (st_traces s) tid = Some t"
    by (rule validate_usage_log_trace_link [OF trace])
  with assms(1) obtain t' where "dict_get (st_traces s') tid = Some t'" "trace_identity t' = trace_identity t"
    unfolding extends_def by blast
  with t trace have "validate_usage_log_trace s' l = None"
    using validate_usage_log_trace_cong [of s tid t s' t' l] by simp
  moreover have "validate_usage_log_memory_ids s' l = None"
    using assms by (auto simp: log_ok_def extends_def validate_usage_log_memory_ids_def Let_def filter_empty_conv)
  ultimately show ?thesis using assms(2) by (simp add: log_ok_def)
qed

lemma logs_ok_extends:
  assumes "logs_ok s" and "extends s s'" and "st_usage_logs s' = st_usage_logs s"
    and "st_usage_log_indexes s' = st_usage_log_indexes s"
  shows "logs_ok s'"
  using assms log_ok_extends [OF assms(2)] by (simp add: logs_ok_def)

section \<open>The operations of the memory part extend the store\<close>

lemma advance_extends:
  assumes "traces_advance s s'" and "st_failure_cases s' = st_failure_cases s"
    "st_lessons s' = st_lessons s" "st_project_policies s' = st_project_policies s"
  shows "extends s s'"
  using traces_advance_get(2) [OF assms(1)] assms(2-4)
  by (fastforce simp: extends_def known_memory_def trace_step_def)

text \<open>A store with the same traces and at least the same memory ids.\<close>

lemma same_traces_extends:
  assumes "st_traces s' = st_traces s"
    and "\<And>i. known_memory s i \<Longrightarrow> known_memory s' i"
  shows "extends s s'"
  using assms by (simp add: extends_def)

lemma dict_has_set [simp]: "dict_has (dict_set k v d) i \<longleftrightarrow> i = k \<or> dict_has d i"
  by (auto simp: dict_has_iff dict_get_set)

lemma dict_has_update [simp]: "dict_has d i \<Longrightarrow> dict_has (dict_update d e) i"
  by (auto simp: dict_has_iff dict_get_update split: option.splits)

lemma record_trace_extends: "record_trace rt t s = Inr (t', s') \<Longrightarrow> extends s s'"
  by (auto simp: record_trace_Inr_iff extends_def known_memory_def dict_get_set)

lemma complete_trace_extends: "complete_trace rt i r args s = Inr (t', s') \<Longrightarrow> extends s s'"
  by (elim complete_trace_Inr)
     (rule advance_extends, erule traces_advance_set, auto dest: completed_trace_candidate_Inr)

lemma case_ops_extend:
  "add_failure_case c s = Inr (c', s') \<Longrightarrow> extends s s'"
  "store_review_failure_case rt i who cause ft sy notes ts s = Inr (c', s') \<Longrightarrow> extends s s'"
  "store_verify_failure_case i fix sha passed s = Inr (c', s') \<Longrightarrow> extends s s'"
  "store_obsolete_failure_case rt i s = Inr (c', s') \<Longrightarrow> extends s s'"
     apply (auto simp: add_failure_case_Inr_iff known_memory_def intro!: same_traces_extends)[1]
    apply (elim store_review_failure_case_Inr) 
    apply (auto simp: known_memory_def intro!: same_traces_extends)[1]
   apply (elim store_verify_failure_case_Inr)
   apply (auto simp: known_memory_def intro!: same_traces_extends)[1]
  apply (auto simp: store_obsolete_failure_case_Inr_iff known_memory_def extends_refl
      intro!: same_traces_extends split: if_splits)[1]
  done

lemma lesson_ops_extend:
  "add_lesson rt l s = Inr (l', s') \<Longrightarrow> extends s s'"
  "store_obsolete_lesson rt i s = Inr (l', s') \<Longrightarrow> extends s s'"
  by (auto simp: add_lesson_Inr_iff known_memory_def store_obsolete_lesson_def Let_def result_simps
      extends_refl intro!: same_traces_extends split: if_splits)

lemma policy_ops_extend:
  "add_project_policy rt p s = Inr (p', s') \<Longrightarrow> extends s s'"
  "store_obsolete_project_policy rt i s = Inr (p', s') \<Longrightarrow> extends s s'"
  by (auto simp: add_project_policy_Inr_iff known_memory_def store_obsolete_project_policy_def Let_def
      result_simps extends_refl intro!: same_traces_extends split: if_splits)

lemma obsolete_memories_extends: "obsolete_memories rt reqs s = Inr (rs, s') \<Longrightarrow> extends s s'"
  by (drule obsolete_memories_Inr(1))
     (auto simp: retired_store_def known_memory_def intro!: same_traces_extends)

section \<open>Sealing an outcome\<close>

definition sealed :: "MemoryUsageLog \<Rightarrow> bool" where
  "sealed l \<longleftrightarrow> ul_eval_result l \<in> Some ` set EVALUATED_RESULTS"

definition log_identity :: "MemoryUsageLog \<Rightarrow> MemoryUsageLog" where
  "log_identity l = l\<lparr>ul_eval_result := None, ul_memory_caused_failure := False\<rparr>"

text \<open>One log may take the place of another: same decision, and a sealed outcome stays.\<close>

definition log_step :: "MemoryUsageLog \<Rightarrow> MemoryUsageLog \<Rightarrow> bool" where
  "log_step l l' \<longleftrightarrow> log_identity l' = log_identity l \<and> (sealed l \<longrightarrow> l' = l)"

lemma log_step_refl [simp]: "log_step l l"
  by (simp add: log_step_def)

lemma log_identity_fields:
  assumes "log_identity l' = log_identity l"
  shows "ul_decision_id l' = ul_decision_id l" "ul_trace_id l' = ul_trace_id l" "ul_run_id l' = ul_run_id l"
    "ul_used_memory_ids l' = ul_used_memory_ids l" "ul_blocked_memory_ids l' = ul_blocked_memory_ids l"
    "ul_candidate_memory_ids l' = ul_candidate_memory_ids l" "ul_request_id l' = ul_request_id l"
  using assms by (cases l; cases l'; simp add: log_identity_def)+

lemmas log_step_fields = log_identity_fields [OF conjunct1 [OF log_step_def [THEN iffD1]]]

lemma sealed_usage_outcome_candidate_Inr:
  assumes "sealed_usage_outcome_candidate l r b = Inr l'"
  shows "log_step l l'" "validate_usage_log l' = None" "ul_eval_result l' = Some r" "ul_memory_caused_failure l' = b"
proof -
  from assms have "(if sealed l then ul_eval_result l = Some r \<and> ul_memory_caused_failure l = b \<and> l' = l
      else l' = l\<lparr>ul_eval_result := Some r, ul_memory_caused_failure := b\<rparr>) \<and> validate_usage_log l' = None"
    unfolding sealed_usage_outcome_candidate_def sealed_def Let_def
    by (auto simp: result_simps split: if_splits)
  then show "log_step l l'" "validate_usage_log l' = None" "ul_eval_result l' = Some r" "ul_memory_caused_failure l' = b"
    by (auto simp: log_step_def log_identity_def split: if_splits)
qed

lemma log_at_Inr_iff: "log_at s i = Inr l \<longleftrightarrow> i < length (st_usage_logs s) \<and> l = st_usage_logs s ! i"
  by (auto simp: log_at_def)

lemma trace_at_Inr_iff: "trace_at s i = Inr t \<longleftrightarrow> dict_get (st_traces s) i = Some t"
  by (auto simp: trace_at_def split: option.splits)

lemma usage_log_index_Inr_iff: "usage_log_index s d = Inr i \<longleftrightarrow> dict_get (st_usage_log_indexes s) d = Some i"
  by (auto simp: usage_log_index_def split: option.splits)

lemma log_trace_id_Inr_iff: "log_trace_id l = Inr i \<longleftrightarrow> ul_trace_id l = Some i"
  by (auto simp: log_trace_id_def split: option.splits)

lemmas lookup_iffs = log_at_Inr_iff trace_at_Inr_iff usage_log_index_Inr_iff log_trace_id_Inr_iff

text \<open>
  A later version of the runs of a store: traces and logs advance, everything else stays, and the
  new traces and logs are valid.
\<close>

definition runs_advance :: "runtime \<Rightarrow> store \<Rightarrow> store \<Rightarrow> bool" where
  "runs_advance rt s s' \<longleftrightarrow> traces_advance s s' \<and>
     (\<forall>i t. dict_get (st_traces s') i = Some t \<longrightarrow> validate_trace rt t = None) \<and>
     list_all2 log_step (st_usage_logs s) (st_usage_logs s') \<and>
     (\<forall>l\<in>set (st_usage_logs s'). log_ok s l) \<and>
     s' = s\<lparr>st_traces := st_traces s', st_usage_logs := st_usage_logs s'\<rparr>"

lemma runs_advance_same:
  assumes "runs_advance rt s s'"
  shows "st_trace_ids_by_run_id s' = st_trace_ids_by_run_id s" "st_failure_cases s' = st_failure_cases s"
    "st_lessons s' = st_lessons s" "st_project_policies s' = st_project_policies s"
    "st_usage_log_indexes s' = st_usage_log_indexes s"
    "st_next_decision_number s' = st_next_decision_number s"
    "st_pending_gate_requests s' = st_pending_gate_requests s"
    "st_finalized_gate_request_ids s' = st_finalized_gate_request_ids s"
    "st_finalized_gate_request_order s' = st_finalized_gate_request_order s"
    "st_store_token s' = st_store_token s" "st_gate_request_session_id s' = st_gate_request_session_id s"
    "st_next_gate_request_number s' = st_next_gate_request_number s"
proof -
  from assms obtain ts ls where "s' = s\<lparr>st_traces := ts, st_usage_logs := ls\<rparr>"
    unfolding runs_advance_def by (elim conjE) (rule that)
  then show "st_trace_ids_by_run_id s' = st_trace_ids_by_run_id s" "st_failure_cases s' = st_failure_cases s"
    "st_lessons s' = st_lessons s" "st_project_policies s' = st_project_policies s"
    "st_usage_log_indexes s' = st_usage_log_indexes s"
    "st_next_decision_number s' = st_next_decision_number s"
    "st_pending_gate_requests s' = st_pending_gate_requests s"
    "st_finalized_gate_request_ids s' = st_finalized_gate_request_ids s"
    "st_finalized_gate_request_order s' = st_finalized_gate_request_order s"
    "st_store_token s' = st_store_token s" "st_gate_request_session_id s' = st_gate_request_session_id s"
    "st_next_gate_request_number s' = st_next_gate_request_number s"
    by simp_all
qed

lemma runs_advanceD:
  assumes "runs_advance rt s s'"
  shows "traces_advance s s'" "list_all2 log_step (st_usage_logs s) (st_usage_logs s')"
    "dict_get (st_traces s') i = Some t \<Longrightarrow> validate_trace rt t = None"
    "l \<in> set (st_usage_logs s') \<Longrightarrow> log_ok s l"
  using assms unfolding runs_advance_def by blast+

lemma runs_advance_extends: "runs_advance rt s s' \<Longrightarrow> extends s s'"
  by (rule advance_extends [OF runs_advanceD(1)]) (simp_all add: runs_advance_same)

lemma runs_advance_ok:
  assumes adv: "runs_advance rt s s'" and "memory_ok rt s" and "logs_ok s"
  shows "memory_ok rt s'" "logs_ok s'"
proof -
  note same = runs_advance_same [OF adv]
  show "memory_ok rt s'"
    by (rule memory_ok_advance [OF runs_advanceD(1) [OF adv] assms(2)]) (simp_all add: same runs_advanceD(3) [OF adv])
  note ls = runs_advanceD(2) [OF adv]
  have ids: "ul_decision_id (st_usage_logs s' ! i) = ul_decision_id (st_usage_logs s ! i)"
    if "i < length (st_usage_logs s)" for i
    by (rule log_step_fields(1) [OF list_all2_nthD [OF ls that]])
  have "log_ok s' l" if "l \<in> set (st_usage_logs s')" for l
    by (rule log_ok_extends [OF runs_advance_extends [OF adv] runs_advanceD(4) [OF adv that]])
  moreover have "(i < length (st_usage_logs s') \<and> ul_decision_id (st_usage_logs s' ! i) = d) \<longleftrightarrow>
      (i < length (st_usage_logs s) \<and> ul_decision_id (st_usage_logs s ! i) = d)" for i d
    using ids [of i] list_all2_lengthD [OF ls] by auto
  ultimately show "logs_ok s'"
    using assms(3) by (simp add: logs_ok_def same)
qed

section \<open>Completions advance the runs\<close>

lemma list_all2_update_log:
  assumes "i < length ls" and "log_step (ls ! i) l"
  shows "list_all2 log_step ls (ls[i := l])"
  using assms by (auto simp: list_all2_conv_all_nth nth_list_update)

lemma record_decision_outcome_Inr:
  assumes "record_decision_outcome d r b s = Inr (l', s')"
  obtains i where "dict_get (st_usage_log_indexes s) d = Some i" "i < length (st_usage_logs s)"
    "sealed_usage_outcome_candidate (st_usage_logs s ! i) r b = Inr l'"
    "validate_usage_log_memory_ids s l' = None" "validate_usage_log_trace s l' = None"
    "s' = s\<lparr>st_usage_logs := (st_usage_logs s)[i := l']\<rparr>"
  using assms by (auto simp: record_decision_outcome_def result_simps lookup_iffs)

lemma complete_memory_run_Inr:
  assumes "complete_memory_run rt tid d r b args s = Inr (c, s')"
  obtains i t where "dict_get (st_traces s) tid = Some t" "dict_get (st_usage_log_indexes s) d = Some i"
    "i < length (st_usage_logs s)" "ul_trace_id (st_usage_logs s ! i) = Some tid"
    "completed_trace_candidate rt t r (provided_trace_completion_values args) = Inr (rc_trace c)"
    "sealed_usage_outcome_candidate (st_usage_logs s ! i) r b = Inr (rc_usage_log c)"
    "validate_usage_log_memory_ids s (rc_usage_log c) = None" "validate_usage_log_trace s (rc_usage_log c) = None"
    "s' = s\<lparr>st_traces := dict_set tid (rc_trace c) (st_traces s),
            st_usage_logs := (st_usage_logs s)[i := rc_usage_log c]\<rparr>"
  using assms unfolding complete_memory_run_def
  by (auto simp: result_simps lookup_iffs split: option.splits)

lemma set_log_ok:
  assumes "logs_ok s" and "log_ok s l"
  shows "\<forall>x\<in>set ((st_usage_logs s)[i := l]). log_ok s x"
  using assms set_update_subset_insert [of "st_usage_logs s" i l] by (auto simp: logs_ok_def)

lemma record_decision_outcome_advance:
  assumes m: "memory_ok rt s" and l: "logs_ok s" and r: "record_decision_outcome d r b s = Inr (l', s')"
  shows "runs_advance rt s s'"
proof (rule record_decision_outcome_Inr [OF r])
  fix i
  assume i: "i < length (st_usage_logs s)"
    and sl: "sealed_usage_outcome_candidate (st_usage_logs s ! i) r b = Inr l'"
    and v: "validate_usage_log_memory_ids s l' = None" "validate_usage_log_trace s l' = None"
    and s': "s' = s\<lparr>st_usage_logs := (st_usage_logs s)[i := l']\<rparr>"
  note sealed = sealed_usage_outcome_candidate_Inr [OF sl]
  have "traces_advance s s'" by (simp add: traces_advance_def s' list.rel_refl)
  moreover have "\<forall>x\<in>set ((st_usage_logs s)[i := l']). log_ok s x"
    by (rule set_log_ok [OF l]) (use v sealed in \<open>simp add: log_ok_def\<close>)
  ultimately show ?thesis
    using list_all2_update_log [OF i sealed(1)] memory_ok_records(4) [OF m]
    by (auto simp: runs_advance_def s')
qed

lemma complete_memory_run_advance:
  assumes m: "memory_ok rt s" and l: "logs_ok s" and r: "complete_memory_run rt tid d r b args s = Inr (c, s')"
  shows "runs_advance rt s s'"
proof (rule complete_memory_run_Inr [OF r])
  fix i t
  assume t: "dict_get (st_traces s) tid = Some t" and i: "i < length (st_usage_logs s)"
    and ct: "completed_trace_candidate rt t r (provided_trace_completion_values args) = Inr (rc_trace c)"
    and sl: "sealed_usage_outcome_candidate (st_usage_logs s ! i) r b = Inr (rc_usage_log c)"
    and v: "validate_usage_log_memory_ids s (rc_usage_log c) = None" "validate_usage_log_trace s (rc_usage_log c) = None"
    and s': "s' = s\<lparr>st_traces := dict_set tid (rc_trace c) (st_traces s),
            st_usage_logs := (st_usage_logs s)[i := rc_usage_log c]\<rparr>"
  note sealed = sealed_usage_outcome_candidate_Inr [OF sl] and ctr = completed_trace_candidate_Inr [OF ct]
  have "traces_advance s s'" by (rule traces_advance_set [OF t ctr(1)]) (simp add: s')
  moreover have "\<forall>x\<in>set ((st_usage_logs s)[i := rc_usage_log c]). log_ok s x"
    by (rule set_log_ok [OF l]) (use v sealed in \<open>simp add: log_ok_def\<close>)
  moreover have "validate_trace rt x = None" if "dict_get (st_traces s') k = Some x" for k x
    using that memory_ok_records(4) [OF m] t ctr(3) by (auto simp: s' dict_get_set split: if_splits)
  ultimately show ?thesis
    using list_all2_update_log [OF i sealed(1)] by (auto simp: runs_advance_def s')
qed

section \<open>Batches\<close>

lemma list_all2_dict_set_later:
  assumes "list_all2 (\<lambda>x y. fst x = fst y \<and> P (snd x) (snd y)) d e" and "dict_get d k = Some v" and "P v w"
  shows "list_all2 (\<lambda>x y. fst x = fst y \<and> P (snd x) (snd y)) d (dict_set k w e)"
  using assms
proof (induction d e rule: list_all2_induct)
  case (Cons x xs y ys)
  then show ?case by (cases x; cases y) (auto split: if_splits)
qed simp

lemma traces_advance_update:
  assumes "\<And>k w. (k, w) \<in> set es \<Longrightarrow> \<exists>v. dict_get (st_traces s) k = Some v \<and> trace_step v w"
    and "st_traces s' = dict_update (st_traces s) es"
  shows "traces_advance s s'"
proof -
  have "list_all2 (\<lambda>x y. fst x = fst y \<and> trace_step (snd x) (snd y)) (st_traces s)
      (fold (\<lambda>(k, v). dict_set k v) es e)"
    if "list_all2 (\<lambda>x y. fst x = fst y \<and> trace_step (snd x) (snd y)) (st_traces s) e" for e
    using assms(1) that
  proof (induction es arbitrary: e)
    case (Cons kw es)
    obtain k w where kw: "kw = (k, w)" by (cases kw)
    with Cons.prems(1) [of k w] obtain v where "dict_get (st_traces s) k = Some v" "trace_step v w" by auto
    with Cons.prems have "list_all2 (\<lambda>x y. fst x = fst y \<and> trace_step (snd x) (snd y)) (st_traces s) (dict_set k w e)"
      by (intro list_all2_dict_set_later) auto
    with Cons kw show ?case by simp
  qed simp
  then have l: "list_all2 (\<lambda>x y. fst x = fst y \<and> trace_step (snd x) (snd y)) (st_traces s) (st_traces s')"
    unfolding assms(2) dict_update_def by (simp add: list.rel_refl)
  then have "dict_keys (st_traces s') = dict_keys (st_traces s)"
    unfolding dict_keys_def by (induction rule: list_all2_induct) auto
  with l show ?thesis by (simp add: traces_advance_def)
qed

lemma nth_fold_update:
  assumes "dict_ok es" and "i < length ls"
  shows "fold (\<lambda>(i, l) logs. logs[i := l]) es ls ! i = (case dict_get es i of Some l \<Rightarrow> l | None \<Rightarrow> ls ! i)"
  using assms
proof (induction es arbitrary: ls)
  case (Cons kl es)
  obtain k l where kl: "kl = (k, l)" by (cases kl)
  have "dict_get es k = None" using Cons.prems kl by (simp add: dict_ok_def map_of_eq_None_iff)
  with Cons kl show ?case by (auto simp: dict_ok_def nth_list_update split: option.splits)
qed simp

lemma length_fold_update [simp]: "length (fold (\<lambda>(i, l) logs. logs[i := l]) es ls) = length ls"
  by (induction es arbitrary: ls) auto

lemma dict_ok_Nil [simp]: "dict_ok []"
  by (simp add: dict_ok_def)

text \<open>What the first pass over the rows records: one result per trace.\<close>

lemma stage_row_results:
  assumes "stage_row rt s (i, tid, r, b, fs) (rs, vs) = Inr (rs', vs')"
  shows "rs' = dict_set tid r rs" "dict_get rs tid = None \<or> dict_get rs tid = Some r"
  using assms by (auto simp: stage_row_def result_simps)

lemma stage_rows_results:
  assumes "rfold (stage_row rt s) rows (rs, vs) = Inr (rs', vs')" and "dict_ok rs"
  shows "dict_ok rs' \<and> (\<forall>tid r. dict_get rs tid = Some r \<longrightarrow> dict_get rs' tid = Some r) \<and>
    (\<forall>(i, tid, r, b, fs)\<in>set rows. dict_get rs' tid = Some r)"
  using assms
proof (induction rows arbitrary: rs vs)
  case (Cons row rows)
  obtain i tid r b fs where row: "row = (i, tid, r, b, fs)" by (cases row)
  from Cons.prems(1) obtain rs1 vs1 where st: "stage_row rt s (i, tid, r, b, fs) (rs, vs) = Inr (rs1, vs1)"
    and rest: "rfold (stage_row rt s) rows (rs1, vs1) = Inr (rs', vs')"
    by (auto simp: result_simps row)
  note r1 = stage_row_results [OF st]
  have ok1: "dict_ok rs1" using r1(1) Cons.prems(2) by auto
  have "dict_get rs1 tid = Some r" "\<And>t x. dict_get rs t = Some x \<Longrightarrow> dict_get rs1 t = Some x"
    using r1 by (auto simp: dict_get_set)
  then show ?case using Cons.IH [OF rest ok1] by (auto simp: row)
qed simp

lemma stage_trace_Inr:
  "stage_trace rt s vs x = Inr y \<Longrightarrow>
     fst y = fst x \<and> tr_eval_result (snd y) = snd x \<and>
     (\<exists>t. dict_get (st_traces s) (fst y) = Some t \<and> trace_step t (snd y) \<and>
        (validate_trace rt t = None \<longrightarrow> validate_trace rt (snd y) = None))"
  by (auto simp: stage_trace_def result_simps lookup_iffs dest: completed_trace_candidate_Inr split: prod.splits)

lemma stage_log_Inr:
  "stage_log s (i, tid, r, b, fs) = Inr y \<Longrightarrow>
     fst y = i \<and> i < length (st_usage_logs s) \<and> log_step (st_usage_logs s ! i) (snd y) \<and>
     log_ok s (snd y) \<and> ul_eval_result (snd y) = Some r \<and> ul_memory_caused_failure (snd y) = b"
  by (auto simp: stage_log_def result_simps lookup_iffs log_ok_def dest: sealed_usage_outcome_candidate_Inr)

lemma rmap_dict_get:
  assumes "rmap f xs = Inr ys" and "\<And>x y. f x = Inr y \<Longrightarrow> fst y = k x \<and> P x (snd y)"
    and "distinct (map k xs)" and "x \<in> set xs"
  shows "\<exists>v. dict_get ys (k x) = Some v \<and> P x v"
proof -
  from assms(1) have "list_all2 (\<lambda>x y. f x = Inr y) xs ys" by (simp add: rmap_Inr_iff)
  from this assms(3,4) show ?thesis
  proof (induction rule: list_all2_induct)
    case (Cons x' xs y ys)
    note y = assms(2) [OF Cons.hyps(1)]
    show ?case
    proof (cases "x = x'")
      case True
      with y show ?thesis by (cases y) auto
    next
      case False
      with Cons.prems have "x \<in> set xs" "k x \<noteq> k x'" "distinct (map k xs)" by (auto simp: image_iff)
      with Cons.IH y show ?thesis by (cases y) auto
    qed
  qed simp
qed

lemma rmap_in_set:
  assumes "rmap f xs = Inr ys" and "y \<in> set ys"
  shows "\<exists>x\<in>set xs. f x = Inr y"
proof -
  from assms(1) have "list_all2 (\<lambda>x y. f x = Inr y) xs ys" by (simp add: rmap_Inr_iff)
  then show ?thesis using assms(2) by (induction rule: list_all2_induct) auto
qed

lemma rmap_mem:
  assumes "rmap f xs = Inr ys" and "x \<in> set xs"
  shows "\<exists>y\<in>set ys. f x = Inr y"
proof -
  from assms(1) have "list_all2 (\<lambda>x y. f x = Inr y) xs ys" by (simp add: rmap_Inr_iff)
  then show ?thesis using assms(2) by (induction rule: list_all2_induct) auto
qed

lemma stage_InrE:
  assumes "stage_memory_run_completions rt s rows = Inr (cts, sls, comps)"
  obtains rs vs sealed_rows where "rfold (stage_row rt s) rows ([], []) = Inr (rs, vs)"
    "rmap (stage_trace rt s vs) rs = Inr cts" "rmap (stage_log s) rows = Inr sealed_rows"
    "sls = dict_update [] sealed_rows" "length comps = length rows"
  using assms by (auto simp: stage_memory_run_completions_def result_simps Let_def dest: rmap_Inr_length)

lemma stage_sealed:
  assumes "rmap (stage_log s) rows = Inr sealed_rows" and "dict_get (dict_update [] sealed_rows) i = Some l"
  shows "i < length (st_usage_logs s)" "log_step (st_usage_logs s ! i) l" "log_ok s l"
proof -
  from assms(2) have "(i, l) \<in> set sealed_rows"
    by (auto simp: dict_get_update split: option.splits dest: dict_get_in)
  then obtain i' tid r b fs where "stage_log s (i', tid, r, b, fs) = Inr (i, l)"
    using rmap_in_set [OF assms(1)] by (metis prod_cases5)
  from stage_log_Inr [OF this] show "i < length (st_usage_logs s)" "log_step (st_usage_logs s ! i) l" "log_ok s l"
    by simp_all
qed

lemma stage_advance:
  assumes m: "memory_ok rt s" and lo: "logs_ok s"
    and st: "stage_memory_run_completions rt s rows = Inr (cts, sls, comps)"
  shows "runs_advance rt s (store_completions cts sls s)" (is "runs_advance rt s ?s'")
proof (rule stage_InrE [OF st])
  fix rs vs sealed_rows
  assume ct: "rmap (stage_trace rt s vs) rs = Inr cts" and sl: "rmap (stage_log s) rows = Inr sealed_rows"
    and sls: "sls = dict_update [] sealed_rows"
  have traces: "\<exists>t. dict_get (st_traces s) k = Some t \<and> trace_step t w \<and> validate_trace rt w = None"
    if "(k, w) \<in> set cts" for k w
    using rmap_in_set [OF ct that] memory_ok_records(4) [OF m] by (auto dest!: stage_trace_Inr)
  have adv: "traces_advance s ?s'"
    by (rule traces_advance_update [of cts]) (use traces in \<open>auto simp: store_completions_def\<close>)
  have valid: "validate_trace rt t = None" if "dict_get (st_traces ?s') k = Some t" for k t
  proof (cases "dict_get (rev cts) k")
    case None
    with that have "dict_get (st_traces s) k = Some t" by (simp add: store_completions_def dict_get_update)
    then show ?thesis using memory_ok_records(4) [OF m] by blast
  next
    case (Some w)
    with that have "(k, t) \<in> set cts"
      by (auto simp: store_completions_def dict_get_update dest: dict_get_in)
    then show ?thesis using traces by blast
  qed
  have ok: "dict_ok sls" unfolding sls by (rule dict_ok_update) simp
  have nth: "st_usage_logs ?s' ! i = (case dict_get sls i of Some l \<Rightarrow> l | None \<Rightarrow> st_usage_logs s ! i)"
    if "i < length (st_usage_logs s)" for i
    using nth_fold_update [OF ok that] by (simp add: store_completions_def)
  have step: "log_step (st_usage_logs s ! i) (st_usage_logs ?s' ! i) \<and> log_ok s (st_usage_logs ?s' ! i)"
    if "i < length (st_usage_logs s)" for i
    using nth [OF that] stage_sealed [OF sl, of i] lo that
    by (auto simp: sls logs_ok_def split: option.splits)
  have len: "length (st_usage_logs ?s') = length (st_usage_logs s)" by (simp add: store_completions_def)
  have "list_all2 log_step (st_usage_logs s) (st_usage_logs ?s')"
    using step len by (simp add: list_all2_conv_all_nth)
  moreover have "\<forall>l\<in>set (st_usage_logs ?s'). log_ok s l"
    using step len by (auto simp: in_set_conv_nth)
  ultimately show ?thesis using adv valid unfolding runs_advance_def by (auto simp: store_completions_def)
qed

text \<open>A batch that succeeds leaves the trace and the decision of every row with its result.\<close>

definition row_done :: "store \<Rightarrow> completion_row \<Rightarrow> bool" where
  "row_done s row \<longleftrightarrow>
     (case row of (i, tid, r, b, fs) \<Rightarrow>
        (\<exists>t. dict_get (st_traces s) tid = Some t \<and> tr_eval_result t = r) \<and> i < length (st_usage_logs s) \<and>
        ul_eval_result (st_usage_logs s ! i) = Some r \<and> ul_memory_caused_failure (st_usage_logs s ! i) = b)"

lemma dict_update_Nil: "dict_ok es \<Longrightarrow> dict_get (dict_update [] es) k = dict_get es k"
  by (auto simp: dict_get_update dict_get_rev split: option.splits)

lemma stage_done:
  assumes st: "stage_memory_run_completions rt s rows = Inr (cts, sls, comps)"
    and dist: "distinct (map fst rows)" and row: "row \<in> set rows"
  shows "row_done (store_completions cts sls s) row"
proof (rule stage_InrE [OF st])
  fix rs vs sealed_rows
  assume r: "rfold (stage_row rt s) rows ([], []) = Inr (rs, vs)"
    and ct: "rmap (stage_trace rt s vs) rs = Inr cts" and sl: "rmap (stage_log s) rows = Inr sealed_rows"
    and sls: "sls = dict_update [] sealed_rows"
  obtain i tid x b fs where rw: "row = (i, tid, x, b, fs)" by (cases row)
  have rs: "dict_ok rs" "dict_get rs tid = Some x" using stage_rows_results [OF r] row rw by auto
  have "\<exists>t. dict_get cts (fst (tid, x)) = Some t \<and> tr_eval_result t = snd (tid, x)"
    by (rule rmap_dict_get [OF ct, where k = fst and P = "\<lambda>x t. tr_eval_result t = snd x"])
       (use rs stage_trace_Inr in \<open>auto simp: dict_ok_def dest: dict_get_in\<close>)
  then obtain t where t: "dict_get cts tid = Some t" "tr_eval_result t = x" by auto
  have "map fst cts = map fst rs"
    using ct unfolding rmap_Inr_iff by (induction rule: list_all2_induct) (auto dest: stage_trace_Inr)
  with rs(1) have "dict_ok cts" by (simp add: dict_ok_def)
  then have trace: "dict_get (st_traces (store_completions cts sls s)) tid = Some t"
    using t(1) by (simp add: store_completions_def dict_get_update dict_get_rev)
  have log_row: "\<exists>l. dict_get sealed_rows (fst row) = Some l \<and> fst row < length (st_usage_logs s) \<and>
      ul_eval_result l = Some (fst (snd (snd row))) \<and> ul_memory_caused_failure l = fst (snd (snd (snd row)))"
    by (rule rmap_dict_get [OF sl, where k = fst and P = "\<lambda>row l. fst row < length (st_usage_logs s) \<and>
        ul_eval_result l = Some (fst (snd (snd row))) \<and> ul_memory_caused_failure l = fst (snd (snd (snd row)))"])
       (use dist row in \<open>auto dest!: stage_log_Inr\<close>)
  have "map fst sealed_rows = map fst rows"
    using sl unfolding rmap_Inr_iff by (induction rule: list_all2_induct) (auto dest!: stage_log_Inr)
  with dist have sok: "dict_ok sealed_rows" by (simp add: dict_ok_def)
  then have "dict_ok sls" unfolding sls by (intro dict_ok_update) simp
  with log_row nth_fold_update [of sls i "st_usage_logs s"] trace t(2) show ?thesis
    by (auto simp: row_done_def rw store_completions_def sls dict_update_Nil [OF sok])
qed

lemma complete_memory_runs_InrE:
  assumes "complete_memory_runs rt results s = Inr (comps, s')"
  obtains rows cts sls where "validated_memory_run_results results = None"
    "rmap (completion_row s) results = Inr rows"
    "stage_memory_run_completions rt s rows = Inr (cts, sls, comps)" "s' = store_completions cts sls s"
  using assms by (auto simp: complete_memory_runs_def result_simps)

lemma recover_memory_runs_InrE:
  assumes "recover_memory_runs rt ids att s = Inr (comps, s')"
  obtains attributions rows cts sls where "validated_batch_recovery_decision_ids ids = None"
    "rmap (recovery_row s attributions) ids = Inr rows"
    "stage_memory_run_completions rt s rows = Inr (cts, sls, comps)" "s' = store_completions cts sls s"
  using assms by (auto simp: recover_memory_runs_def result_simps)

lemma complete_memory_runs_advance:
  "memory_ok rt s \<Longrightarrow> logs_ok s \<Longrightarrow> complete_memory_runs rt results s = Inr (comps, s') \<Longrightarrow> runs_advance rt s s'"
  by (erule complete_memory_runs_InrE) (auto intro: stage_advance)

lemma recover_memory_runs_advance:
  "memory_ok rt s \<Longrightarrow> logs_ok s \<Longrightarrow> recover_memory_runs rt ids att s = Inr (comps, s') \<Longrightarrow> runs_advance rt s s'"
  by (erule recover_memory_runs_InrE) (auto intro: stage_advance)

lemma recover_memory_run_advance:
  "memory_ok rt s \<Longrightarrow> logs_ok s \<Longrightarrow> recover_memory_run rt d att args s = Inr (c, s') \<Longrightarrow> runs_advance rt s s'"
  by (auto simp: recover_memory_run_def result_simps intro: complete_memory_run_advance)

lemma runs_advance_refl: "memory_ok rt s \<Longrightarrow> logs_ok s \<Longrightarrow> runs_advance rt s s"
  using memory_ok_records(4) by (fastforce simp: runs_advance_def traces_advance_def logs_ok_def list.rel_refl)

lemma recover_ready_memory_runs_advance:
  "memory_ok rt s \<Longrightarrow> logs_ok s \<Longrightarrow> recover_ready_memory_runs rt s = Inr (cs, s') \<Longrightarrow> runs_advance rt s s'"
  by (auto simp: recover_ready_memory_runs_def result_simps Let_def intro: recover_memory_runs_advance
      runs_advance_refl split: if_splits)

text \<open>Different decisions have different log indexes.\<close>

lemma index_decision:
  assumes "logs_ok s" and "dict_get (st_usage_log_indexes s) d = Some i"
  shows "i < length (st_usage_logs s)" "ul_decision_id (st_usage_logs s ! i) = d"
  using assms by (auto simp: logs_ok_def)

lemma rows_distinct:
  assumes "logs_ok s" and "rmap f xs = Inr rows"
    and "\<And>x row. f x = Inr row \<Longrightarrow> dict_get (st_usage_log_indexes s) (k x) = Some (fst row)"
    and "distinct (map k xs)"
  shows "distinct (map fst rows)"
proof -
  from assms(2) have "list_all2 (\<lambda>x y. f x = Inr y) xs rows" by (simp add: rmap_Inr_iff)
  then have "map (\<lambda>row. ul_decision_id (st_usage_logs s ! fst row)) rows = map k xs"
    by (induction rule: list_all2_induct) (auto dest!: assms(3) dest: index_decision(2) [OF assms(1)])
  with assms(4) have "distinct (map (\<lambda>i. ul_decision_id (st_usage_logs s ! i)) (map fst rows))"
    by (simp add: comp_def)
  then show ?thesis by (auto simp: distinct_map dest: inj_on_imageI2)
qed

text \<open>The run of a decision is complete with the given outcome: its trace and its log agree on it.\<close>

definition run_complete :: "store \<Rightarrow> pystr \<Rightarrow> pystr \<Rightarrow> bool \<Rightarrow> bool" where
  "run_complete s d r b \<longleftrightarrow>
     (\<exists>i t. dict_get (st_usage_log_indexes s) d = Some i \<and> i < length (st_usage_logs s) \<and>
        ul_eval_result (st_usage_logs s ! i) = Some r \<and> ul_memory_caused_failure (st_usage_logs s ! i) = b \<and>
        (\<exists>tid. ul_trace_id (st_usage_logs s ! i) = Some tid \<and> dict_get (st_traces s) tid = Some t) \<and>
        tr_eval_result t = r)"

lemma row_done_complete:
  assumes "row_done s' (i, tid, r, b, fs)" and "runs_advance rt s s'"
    and "dict_get (st_usage_log_indexes s) d = Some i" and "ul_trace_id (st_usage_logs s ! i) = Some tid"
    and "i < length (st_usage_logs s)"
  shows "run_complete s' d r b"
  using assms log_step_fields(2) [OF list_all2_nthD [OF runs_advanceD(2) [OF assms(2)] assms(5)]]
  by (auto simp: run_complete_def row_done_def runs_advance_same)

lemma complete_memory_runs_done:
  assumes m: "memory_ok rt s" and l: "logs_ok s" and r: "complete_memory_runs rt results s = Inr (comps, s')"
    and x: "x \<in> set results"
  shows "run_complete s' (rr_decision_id x) (rr_eval_result x) (rr_memory_caused_failure x)"
proof (rule complete_memory_runs_InrE [OF r])
  fix rows cts sls
  assume v: "validated_memory_run_results results = None" and rows: "rmap (completion_row s) results = Inr rows"
    and st: "stage_memory_run_completions rt s rows = Inr (cts, sls, comps)" and s': "s' = store_completions cts sls s"
  have "distinct (map rr_decision_id results)" using v by (simp add: validated_memory_run_results_def)
  then have dist: "distinct (map fst rows)"
    by (intro rows_distinct [OF l rows, of rr_decision_id]) (auto simp: completion_row_def result_simps lookup_iffs)
  from rmap_mem [OF rows x] obtain row where row: "completion_row s x = Inr row" "row \<in> set rows" by blast
  then obtain i tid where i: "row = (i, tid, rr_eval_result x, rr_memory_caused_failure x, memory_run_result_completion_values x)"
      "dict_get (st_usage_log_indexes s) (rr_decision_id x) = Some i" "ul_trace_id (st_usage_logs s ! i) = Some tid"
      "i < length (st_usage_logs s)"
    by (auto simp: completion_row_def result_simps lookup_iffs)
  show ?thesis
    by (rule row_done_complete [OF _ complete_memory_runs_advance [OF m l r] i(2,3,4)])
       (use stage_done [OF st dist row(2)] i(1) s' in simp)
qed

lemma complete_memory_run_done:
  assumes m: "memory_ok rt s" and l: "logs_ok s" and r: "complete_memory_run rt tid d r b args s = Inr (c, s')"
  shows "run_complete s' d r b"
proof (rule complete_memory_run_Inr [OF r])
  fix i t
  assume *: "dict_get (st_traces s) tid = Some t" "dict_get (st_usage_log_indexes s) d = Some i"
    "i < length (st_usage_logs s)" "ul_trace_id (st_usage_logs s ! i) = Some tid"
    "completed_trace_candidate rt t r (provided_trace_completion_values args) = Inr (rc_trace c)"
    "sealed_usage_outcome_candidate (st_usage_logs s ! i) r b = Inr (rc_usage_log c)"
    "s' = s\<lparr>st_traces := dict_set tid (rc_trace c) (st_traces s),
            st_usage_logs := (st_usage_logs s)[i := rc_usage_log c]\<rparr>"
  have "row_done s' (i, tid, r, b, [])"
    using * completed_trace_candidate_Inr [OF *(5)] sealed_usage_outcome_candidate_Inr [OF *(6)]
    by (simp add: row_done_def dict_get_set)
  then show ?thesis by (rule row_done_complete [OF _ complete_memory_run_advance [OF m l r] *(2,4,3)])
qed

section \<open>Audits\<close>

lemma memory_run_audit_total:
  assumes "log_ok s l"
  obtains a t tid where "memory_run_audit s l = Inr a" "ra_decision_id a = ul_decision_id l"
    "ul_trace_id l = Some tid" "dict_get (st_traces s) tid = Some t"
    "ra_status a = memory_run_audit_status (tr_eval_result t) (ul_eval_result l)"
    "ra_trace_eval_result a = tr_eval_result t" "ra_decision_eval_result a = ul_eval_result l"
    "ra_memory_caused_failure a = ul_memory_caused_failure l" "ra_trace_id a = tid" "ra_run_id a = ul_run_id l"
proof -
  from assms have v: "validate_usage_log_trace s l = None" by (simp add: log_ok_def)
  show thesis
  proof (rule validate_usage_log_trace_link [OF v])
    fix tid t
    assume "ul_trace_id l = Some tid" "dict_get (st_traces s) tid = Some t"
    then show thesis by (intro that) (auto simp: memory_run_audit_def log_trace_id_def trace_at_def)
  qed
qed

lemma rmap_total: "(\<And>x. x \<in> set xs \<Longrightarrow> \<exists>y. f x = Inr y) \<Longrightarrow> \<exists>ys. rmap f xs = Inr ys"
proof (induction xs)
  case (Cons x xs)
  then obtain y ys where "f x = Inr y" "rmap f xs = Inr ys" by fastforce
  then show ?case by simp
qed simp

lemma audits_of_logs_total:
  assumes "\<forall>l\<in>set ls. log_ok s l"
  obtains as where "rmap (memory_run_audit s) ls = Inr as" "map ra_decision_id as = map ul_decision_id ls"
proof -
  from assms have "\<exists>as. rmap (memory_run_audit s) ls = Inr as"
    by (intro rmap_total) (metis memory_run_audit_total)
  then obtain as where as: "rmap (memory_run_audit s) ls = Inr as" by blast
  then have "list_all2 (\<lambda>l a. memory_run_audit s l = Inr a) ls as" by (simp add: rmap_Inr_iff)
  then have "map ra_decision_id as = map ul_decision_id ls"
    by (induction rule: list_all2_induct) (auto simp: memory_run_audit_def result_simps)
  with as that show thesis by blast
qed

lemma memory_run_audits_total:
  assumes "logs_ok s"
  obtains as where "memory_run_audits s = Inr as"
    "map ra_decision_id as = map ul_decision_id (sort_key ul_decision_id (st_usage_logs s))"
proof (rule audits_of_logs_total [of "sort_key ul_decision_id (st_usage_logs s)" s])
  show "\<forall>l\<in>set (sort_key ul_decision_id (st_usage_logs s)). log_ok s l" using assms by (simp add: logs_ok_def)
qed (auto simp: memory_run_audits_def intro: that)

text \<open>The counters of a list of audits.\<close>

definition count_status :: "string \<Rightarrow> MemoryRunAudit list \<Rightarrow> nat" where
  "count_status st as = length (filter (\<lambda>a. ra_status a = u st) as)"

definition count_action :: "string \<Rightarrow> MemoryRunAudit list \<Rightarrow> nat" where
  "count_action act as = length (filter (\<lambda>a. re_action (memory_run_remediation a) = u act) as)"

definition counts :: "MemoryRunMetrics \<Rightarrow> MemoryRunAudit list \<Rightarrow> MemoryRunMetrics" where
  "counts x as =
     x\<lparr>rm_decision_count := rm_decision_count x + length as,
       rm_pending_count := rm_pending_count x + count_status ''pending'' as,
       rm_trace_only_count := rm_trace_only_count x + count_status ''trace_only'' as,
       rm_decision_only_count := rm_decision_only_count x + count_status ''decision_only'' as,
       rm_complete_count := rm_complete_count x + count_status ''complete'' as,
       rm_conflict_count := rm_conflict_count x + count_status ''conflict'' as,
       rm_auto_recoverable_count := rm_auto_recoverable_count x + count_action ''recover'' as,
       rm_attribution_required_count := rm_attribution_required_count x + count_action ''recover_with_attribution'' as\<rparr>"

definition known_status :: "pystr \<Rightarrow> bool" where
  "known_status st \<longleftrightarrow>
     st \<in> {u ''pending'', u ''trace_only'', u ''decision_only'', u ''complete'', u ''conflict''}"

lemma known_status_audit: "known_status (memory_run_audit_status a b)"
  by (auto simp: known_status_def memory_run_audit_status_def Let_def)

lemma count_run_counts: "known_status (ra_status a) \<Longrightarrow> count_run a x = counts x [a]"
  by (auto simp: count_run_def counts_def count_status_def count_action_def Let_def known_status_def)

lemma counts_append: "counts (counts x as) bs = counts x (as @ bs)"
  by (simp add: counts_def count_status_def count_action_def)

lemma fold_count_run:
  "\<forall>a\<in>set as. known_status (ra_status a) \<Longrightarrow> fold count_run as x = counts x as"
proof (induction as arbitrary: x)
  case (Cons a as)
  then show ?case using counts_append [of x "[a]" as] by (simp add: count_run_counts)
qed (simp add: counts_def count_status_def count_action_def)

lemma count_status_total:
  "\<forall>a\<in>set as. known_status (ra_status a) \<Longrightarrow>
     count_status ''pending'' as + count_status ''trace_only'' as + count_status ''decision_only'' as +
     count_status ''complete'' as + count_status ''conflict'' as = length as"
  by (induction as) (auto simp: count_status_def known_status_def)

lemma memory_run_metrics_total:
  assumes "logs_ok s"
  obtains as x where "rmap (memory_run_audit s) (st_usage_logs s) = Inr as" "memory_run_metrics s = Inr x"
    "x = (counts \<lparr>rm_decision_count = 0, rm_pending_count = 0, rm_trace_only_count = 0, rm_decision_only_count = 0,
        rm_complete_count = 0, rm_conflict_count = 0, rm_recoverable_count = 0,
        rm_auto_recoverable_count = 0, rm_attribution_required_count = 0\<rparr> as)
        \<lparr>rm_recoverable_count := count_action ''recover'' as + count_action ''recover_with_attribution'' as\<rparr>"
    "\<forall>a\<in>set as. known_status (ra_status a)"
proof (rule audits_of_logs_total [of "st_usage_logs s" s])
  show "\<forall>l\<in>set (st_usage_logs s). log_ok s l" using assms by (simp add: logs_ok_def)
  fix as
  assume as: "rmap (memory_run_audit s) (st_usage_logs s) = Inr as"
  have known: "\<forall>a\<in>set as. known_status (ra_status a)"
  proof
    fix a
    assume "a \<in> set as"
    then obtain l where "memory_run_audit s l = Inr a" using rmap_in_set [OF as] by blast
    then show "known_status (ra_status a)" by (auto simp: memory_run_audit_def result_simps known_status_audit)
  qed
  show thesis
    by (rule that [OF as _ _ known])
       (simp_all add: memory_run_metrics_def as Let_def fold_count_run [OF known], simp add: counts_def)
qed

end
