(* ===== verification/GateInv.thy ===== *)
theory GateInv
  imports DecisionFacts RunsInv
begin

text \<open>
  What the gate lifecycle guarantees: the bounded gate satisfies the contract of a deterministic
  gate, items come from records of the store under their own id, identifiers are fresh, the
  windows of pending and finalized requests stay within their limits, and every operation keeps
  the invariants of the memory part and of the logs.
\<close>

section \<open>The bounded gate is a deterministic gate\<close>

lemma dict_keys_fold_set:
  "set (dict_keys (fold (\<lambda>m d. dict_set (f m) r d) ms d)) = set (dict_keys d) \<union> f ` set ms"
  by (induction ms arbitrary: d) (auto simp: dict_keys_set)

lemma dict_ok_fold_set: "dict_ok d \<Longrightarrow> dict_ok (fold (\<lambda>m d. dict_set (f m) r d) ms d)"
  by (induction ms arbitrary: d) auto

lemma in_fold_set:
  "(i, x) \<in> set (fold (\<lambda>m d. dict_set (f m) r d) ms d) \<Longrightarrow> (i, x) \<in> set d \<or> x = r"
proof (induction ms arbitrary: d)
  case (Cons m ms)
  have "(i, x) \<in> set (dict_set k r d) \<Longrightarrow> (i, x) \<in> set d \<or> x = r" for k
    by (induction k r d rule: dict_set.induct) (auto split: if_splits)
  then show ?case using Cons.IH [of "dict_set (f m) r d"] Cons.prems by auto
qed simp

lemma bounded_system_gate_InrE:
  assumes "bounded_system_gate rt cx cs = Inr (a, b)"
  obtains a0 b0 where "system_gate rt cx cs = Inr (a0, b0)" "a = take LLM_GATE_MAX_CANDIDATES a0"
    "b = fold (\<lambda>m d. dict_set (mi_memory_id m) LLM_GATE_CANDIDATE_LIMIT_REASON d)
       (drop LLM_GATE_MAX_CANDIDATES a0) b0"
proof -
  from assms obtain a0 b0 where g: "system_gate rt cx cs = Inr (a0, b0)"
    by (auto simp: bounded_system_gate_def result_simps)
  with assms show thesis
    by (intro that [OF g]) (auto simp: bounded_system_gate_def split: if_splits)
qed

interpretation bounded: candidate_gate bounded_system_gate
proof unfold_locales
  fix rt cx cs a b m i r
  assume "bounded_system_gate rt cx cs = Inr (a, b)"
  then obtain a0 b0 where g: "system_gate rt cx cs = Inr (a0, b0)" and a: "a = take LLM_GATE_MAX_CANDIDATES a0"
    and b: "b = fold (\<lambda>m d. dict_set (mi_memory_id m) LLM_GATE_CANDIDATE_LIMIT_REASON d)
       (drop LLM_GATE_MAX_CANDIDATES a0) b0"
    by (rule bounded_system_gate_InrE)
  note split = system_gate_split [OF g]
  have parts: "set a0 = set a \<union> set (drop LLM_GATE_MAX_CANDIDATES a0)"
    unfolding a by (metis append_take_drop_id set_append)
  have dist: "distinct (map mi_memory_id a @ map mi_memory_id (drop LLM_GATE_MAX_CANDIDATES a0))"
    unfolding a map_append [symmetric] append_take_drop_id by (rule split(1))
  have sub: "set a0 \<subseteq> set cs" using sys.gate_allowed [OF g] by blast
  show "m \<in> set a \<Longrightarrow> m \<in> set cs \<and> blocked_reason rt cx m = None"
    using sys.gate_allowed [OF g, of m] parts by blast
  show "set (dict_keys b) = mi_memory_id ` set cs - mi_memory_id ` set a"
    unfolding b dict_keys_fold_set split(3) using parts dist sub by auto
  show "distinct (map mi_memory_id a) \<and> dict_ok b \<and>
      (\<forall>m\<in>set cs. mi_memory_id m \<noteq> [] \<and> length (mi_memory_id m) \<le> MEMORY_ID_MAX_CHARS)"
    using dist dict_ok_fold_set [OF split(2)] sys.gate_ids [OF g] by (simp add: b)
  show "(i, r) \<in> set b \<Longrightarrow> \<not> blank r"
    using in_fold_set sys.gate_reasons [OF g]
    by (fastforce simp: b LLM_GATE_CANDIDATE_LIMIT_REASON_def py_isspace_def)
qed

section \<open>Items come from the store\<close>

text \<open>
  The record behind an item, with the evidence that the invariant of the memory part gives it. What the System Gate
  looks at (status, kind, scope, sensitivity, leakage, the benchmark example) and the text are those of the record.
\<close>

definition backed :: "store \<Rightarrow> MemoryItem \<Rightarrow> bool" where
  "backed s m \<longleftrightarrow>
     (\<exists>l c t. dict_get (st_lessons s) (mi_memory_id m) = Some l \<and> mi_status m = ls_status l \<and>
        dict_get (st_failure_cases s) (ls_source_case_id l) = Some c \<and> lesson_supported s l \<and>
        dict_get (st_traces s) (fc_source_trace_id c) = Some t \<and>
        mi_memory_type m = ls_memory_type l \<and> mi_scope m = ls_scope l \<and> mi_text m = ls_lesson_text l \<and>
        mi_sensitive m = ls_sensitive l \<and> mi_eval_leaking m = ls_eval_leaking l \<and>
        (mi_source_eval_suite m, mi_source_input_hash m) = complete_trace_source_identity (Some t)) \<or>
     (\<exists>p. dict_get (st_project_policies s) (mi_memory_id m) = Some p \<and> mi_status m = pp_status p \<and>
        mi_memory_type m = u ''policy'' \<and> mi_scope m = pp_scope p \<and> mi_text m = pp_policy_text p \<and>
        mi_sensitive m = pp_sensitive p \<and> mi_eval_leaking m = pp_eval_leaking p) \<or>
     (\<exists>c t. dict_get (st_failure_cases s) (mi_memory_id m) = Some c \<and> mi_status m = fc_status c \<and> case_supported s c \<and>
        dict_get (st_traces s) (fc_source_trace_id c) = Some t \<and>
        mi_memory_type m = u ''episodic'' \<and> mi_scope m = failure_case_scope c t \<and> mi_text m = failure_case_text c \<and>
        (mi_source_eval_suite m, mi_source_input_hash m) = complete_trace_source_identity (Some t))"

lemma lesson_item:
  assumes ok: "memory_ok rt s" and l: "dict_get (st_lessons s) i = Some l"
    and m: "store_memory_item_from_lesson s l = Inr m"
  shows "mi_memory_id m = i \<and> backed s m"
proof -
  from ok l have id: "ls_lesson_id l = i" and sup: "lesson_supported s l"
    by (auto simp: memory_ok_def lessons_ok_def)
  from m obtain c t where c: "dict_get (st_failure_cases s) (ls_source_case_id l) = Some c"
    and t: "dict_get (st_traces s) (fc_source_trace_id c) = Some t"
    and it: "memory_item_from_lesson l (Some t) (Some c) = Inr m"
    by (auto simp: store_memory_item_from_lesson_def result_simps case_at_def lookup_iffs split: option.splits)
  from it have "mi_memory_id m = ls_lesson_id l" "mi_status m = ls_status l" "mi_memory_type m = ls_memory_type l"
    "mi_scope m = ls_scope l" "mi_text m = ls_lesson_text l" "mi_sensitive m = ls_sensitive l" "mi_eval_leaking m = ls_eval_leaking l"
    "(mi_source_eval_suite m, mi_source_input_hash m) = complete_trace_source_identity (Some t)"
    by (auto simp: memory_item_from_lesson_def result_simps)
  with id sup l c t show ?thesis by (auto simp: backed_def)
qed

lemma policy_item:
  assumes ok: "memory_ok rt s" and p: "dict_get (st_project_policies s) i = Some p"
    and m: "memory_item_from_project_policy rt' p = Inr m"
  shows "mi_memory_id m = i \<and> backed s m"
proof -
  from ok p have "pp_policy_id p = i" by (auto simp: memory_ok_def policies_ok_def)
  with m p show ?thesis by (auto simp: memory_item_from_project_policy_def result_simps backed_def)
qed

lemma case_item:
  assumes ok: "memory_ok rt s" and c: "dict_get (st_failure_cases s) i = Some c"
    and t: "dict_get (st_traces s) (fc_source_trace_id c) = Some t" and m: "memory_item_from_failure_case_for_audit c t = Inr m"
  shows "mi_memory_id m = i \<and> backed s m"
proof -
  from case_get [OF ok c] have "fc_case_id c = i" "case_supported s c" by simp_all
  with m c t show ?thesis by (auto simp: memory_item_from_failure_case_for_audit_def result_simps backed_def)
qed

lemma memory_item_at_Inr:
  assumes ok: "memory_ok rt s" and m: "memory_item_at rt' s i = Inr (Some m)"
  shows "mi_memory_id m = i \<and> backed s m"
  using m lesson_item [OF ok] policy_item [OF ok] case_item [OF ok]
  by (auto simp: memory_item_at_def offered_def result_simps lookup_iffs split: option.splits)

lemma memory_item_at_None: "memory_item_at rt s i = Inr None \<Longrightarrow> \<not> known_memory s i"
  by (auto simp: memory_item_at_def offered_def result_simps known_memory_def dict_has_iff split: option.splits)

lemma memory_items_Inr:
  assumes ok: "memory_ok rt s" and m: "memory_items rt' s ids = Inr ms"
  shows "map mi_memory_id ms = ids" "m \<in> set ms \<Longrightarrow> backed s m" "i \<in> set ids \<Longrightarrow> known_memory s i"
    "m \<in> set ms \<Longrightarrow> memory_item_at rt' s (mi_memory_id m) = Inr (Some m)"
proof -
  from m obtain items where it: "rmap (memory_item_at rt' s) ids = Inr items" and ms: "ms = List.map_filter id items"
    and kn: "filter (\<lambda>i. \<not> known_memory s i) ids = []"
    by (auto simp: memory_items_def result_simps Let_def)
  from kn show kn': "\<And>i. i \<in> set ids \<Longrightarrow> known_memory s i" by (auto simp: filter_empty_conv)
  have "list_all2 (\<lambda>i r. memory_item_at rt' s i = Inr r) ids items" using it by (simp add: rmap_Inr_iff)
  then have "map mi_memory_id (List.map_filter id items) = ids \<and> (\<forall>m\<in>set (List.map_filter id items). backed s m \<and> memory_item_at rt' s (mi_memory_id m) = Inr (Some m))"
    using kn'
  proof (induction rule: list_all2_induct)
    case (Cons i ids r items)
    then obtain m where "r = Some m" using memory_item_at_None by (cases r) auto
    with Cons memory_item_at_Inr [OF ok, of rt' i m] show ?case by (auto simp: List.map_filter_simps)
  qed (simp add: List.map_filter_simps)
  then show "map mi_memory_id ms = ids" "m \<in> set ms \<Longrightarrow> backed s m"
    "m \<in> set ms \<Longrightarrow> memory_item_at rt' s (mi_memory_id m) = Inr (Some m)" by (auto simp: ms)
qed

section \<open>Fresh identifiers\<close>

lemma format_06d_inj [simp]: "format_06d m = format_06d n \<longleftrightarrow> m = n"
proof -
  let ?rt = "(undefined :: runtime)\<lparr>rt_decimal := \<lambda>c. Some (c - 48)\<rparr>"
  have "ascii_decimals ?rt" by (simp add: ascii_decimals_def)
  from parse_decimal_format [OF this] show ?thesis by (metis option.inject)
qed

lemma decision_number_format:
  "ascii_decimals rt \<Longrightarrow> decision_number rt (u ''decision_'' @ format_06d n) = Some n"
  by (simp add: decision_number_def parse_decimal_format)

definition numbers_ok :: "runtime \<Rightarrow> store \<Rightarrow> bool" where
  "numbers_ok rt s \<longleftrightarrow>
     (\<forall>d n. dict_has (st_usage_log_indexes s) d \<longrightarrow> decision_number rt d = Some n \<longrightarrow>
        n < st_next_decision_number s)"

definition request_ids :: "store \<Rightarrow> pystr set" where
  "request_ids s =
     (\<lambda>n. u ''gate_request_'' @ st_gate_request_session_id s @ u ''_'' @ format_06d n) `
       {..<st_next_gate_request_number s}"

definition requests_ok :: "store \<Rightarrow> bool" where
  "requests_ok s \<longleftrightarrow> dict_ok (st_pending_gate_requests s) \<and>
     (\<forall>i r. dict_get (st_pending_gate_requests s) i = Some r \<longrightarrow>
        gr_request_id r = i \<and> gr_store_token r = st_store_token s \<and> i \<in> request_ids s) \<and>
     length (st_pending_gate_requests s) \<le> PENDING_GATE_REQUEST_MAX_ITEMS \<and>
     pending_candidate_ids s \<le> PENDING_GATE_REQUEST_MAX_CANDIDATE_IDS"

definition finalized_ok :: "store \<Rightarrow> bool" where
  "finalized_ok s \<longleftrightarrow>
     set (st_finalized_gate_request_ids s) = set (st_finalized_gate_request_order s) \<and>
     distinct (st_finalized_gate_request_order s) \<and>
     length (st_finalized_gate_request_order s) \<le> FINALIZED_GATE_REQUEST_MAX_ITEMS \<and>
     set (st_finalized_gate_request_ids s) \<subseteq> request_ids s \<and>
     (\<forall>i\<in>set (st_finalized_gate_request_ids s). dict_get (st_pending_gate_requests s) i = None)"

definition gate_ok :: "runtime \<Rightarrow> store \<Rightarrow> bool" where
  "gate_ok rt s \<longleftrightarrow> numbers_ok rt s \<and> requests_ok s \<and> finalized_ok s"

lemma gate_ok_new_store: "gate_ok rt (new_store token sid)"
  by (simp add: gate_ok_def numbers_ok_def requests_ok_def finalized_ok_def new_store_def dict_has_iff
      dict_ok_def pending_candidate_ids_def dict_values_def)

text \<open>What \<open>gate_ok\<close> reads; the operations that leave it alone keep \<open>gate_ok\<close>.\<close>

definition gate_view where
  "gate_view s = (st_usage_log_indexes s, st_next_decision_number s, st_pending_gate_requests s,
     st_finalized_gate_request_ids s, st_finalized_gate_request_order s, st_store_token s,
     st_gate_request_session_id s, st_next_gate_request_number s)"

lemma gate_ok_view: "gate_view s' = gate_view s \<Longrightarrow> gate_ok rt s' = gate_ok rt s"
  by (simp add: gate_view_def gate_ok_def numbers_ok_def requests_ok_def finalized_ok_def request_ids_def
      pending_candidate_ids_def)

lemma new_request_id_fresh: "new_request_id s \<notin> request_ids s"
  by (auto simp: new_request_id_def request_ids_def)

lemma request_ids_mono:
  "st_gate_request_session_id s' = st_gate_request_session_id s \<Longrightarrow>
   st_next_gate_request_number s \<le> st_next_gate_request_number s' \<Longrightarrow> request_ids s \<subseteq> request_ids s'"
  by (auto simp: request_ids_def)

lemma bump_le: "n \<le> bump found n"
  by (simp add: bump_def split: option.split)

section \<open>Appending a log\<close>

lemma append_usage_log_Inr_iff:
  "append_usage_log rt l s = Inr s' \<longleftrightarrow> \<not> dict_has (st_usage_log_indexes s) (ul_decision_id l) \<and>
     s' = s\<lparr>st_usage_logs := st_usage_logs s @ [l],
            st_usage_log_indexes := dict_set (ul_decision_id l) (length (st_usage_logs s)) (st_usage_log_indexes s),
            st_next_decision_number := bump (decision_number rt (ul_decision_id l)) (st_next_decision_number s),
            st_next_gate_request_number :=
              bump (case ul_request_id l of None \<Rightarrow> None | Some r \<Rightarrow> gate_request_number rt r)
                (st_next_gate_request_number s)\<rparr>"
  by (auto simp: append_usage_log_def)

text \<open>The next decision id is unused: appending the log of a new decision never raises.\<close>

lemma decision_id_fresh:
  assumes "numbers_ok rt s" and "ascii_decimals rt"
  shows "\<not> dict_has (st_usage_log_indexes s) (u ''decision_'' @ format_06d (st_next_decision_number s))"
  using assms(1) decision_number_format [OF assms(2), of "st_next_decision_number s"]
  by (auto simp: numbers_ok_def)

lemma append_numbers_ok:
  assumes "append_usage_log rt l s = Inr s'" and "numbers_ok rt s"
  shows "numbers_ok rt s'"
  unfolding numbers_ok_def
proof (intro allI impI)
  fix d n
  from assms(1) have s': "s' = s\<lparr>st_usage_logs := st_usage_logs s @ [l],
      st_usage_log_indexes := dict_set (ul_decision_id l) (length (st_usage_logs s)) (st_usage_log_indexes s),
      st_next_decision_number := bump (decision_number rt (ul_decision_id l)) (st_next_decision_number s),
      st_next_gate_request_number := st_next_gate_request_number s'\<rparr>"
    by (simp add: append_usage_log_Inr_iff)
  assume "dict_has (st_usage_log_indexes s') d" and n: "decision_number rt d = Some n"
  then consider "d = ul_decision_id l" | "dict_has (st_usage_log_indexes s) d" by (subst (asm) s') auto
  then have "n < bump (decision_number rt (ul_decision_id l)) (st_next_decision_number s)"
  proof cases
    case 1
    with n show ?thesis by (simp add: bump_def)
  next
    case 2
    with n assms(2) have "n < st_next_decision_number s" by (simp add: numbers_ok_def)
    then show ?thesis using bump_le by (rule less_le_trans)
  qed
  then show "n < st_next_decision_number s'" by (subst s') simp
qed

lemma append_logs_ok:
  assumes "append_usage_log rt l s = Inr s'" and "logs_ok s" and "log_ok s l"
  shows "logs_ok s'"
proof -
  from assms(1) have fresh: "dict_get (st_usage_log_indexes s) (ul_decision_id l) = None"
    and s': "st_usage_logs s' = st_usage_logs s @ [l]"
      "st_usage_log_indexes s' = dict_set (ul_decision_id l) (length (st_usage_logs s)) (st_usage_log_indexes s)"
    and ext: "extends s s'"
    by (auto simp: append_usage_log_Inr_iff dict_has_iff extends_def known_memory_def)
  from assms(2) have idx: "dict_get (st_usage_log_indexes s) d = Some i \<longleftrightarrow>
      i < length (st_usage_logs s) \<and> ul_decision_id (st_usage_logs s ! i) = d" for d i
    by (simp add: logs_ok_def)
  have "dict_get (st_usage_log_indexes s') d = Some i \<longleftrightarrow>
      i < length (st_usage_logs s') \<and> ul_decision_id (st_usage_logs s' ! i) = d" for d i
    using idx [of d i] idx [of "ul_decision_id l" i] fresh
    by (auto simp: s' dict_get_set nth_append less_Suc_eq)
  moreover have "dict_ok (st_usage_log_indexes s')" using assms(2) by (auto simp: logs_ok_def s')
  moreover have "\<forall>l'\<in>set (st_usage_logs s'). log_ok s' l'"
    using assms(2,3) log_ok_extends [OF ext] by (auto simp: s' logs_ok_def)
  ultimately show ?thesis by (simp add: logs_ok_def)
qed

lemma append_memory_ok: "append_usage_log rt l s = Inr s' \<Longrightarrow> memory_ok rt' s \<Longrightarrow> memory_ok rt' s'"
  by (erule memory_ok_cong [THEN iffD1, rotated -1]) (simp_all add: append_usage_log_Inr_iff)

lemma append_requests_ok:
  assumes "append_usage_log rt l s = Inr s'" and "requests_ok s" "finalized_ok s"
  shows "requests_ok s'" "finalized_ok s'"
proof -
  from assms(1) have same: "st_pending_gate_requests s' = st_pending_gate_requests s"
      "st_store_token s' = st_store_token s" "st_gate_request_session_id s' = st_gate_request_session_id s"
      "st_finalized_gate_request_ids s' = st_finalized_gate_request_ids s"
      "st_finalized_gate_request_order s' = st_finalized_gate_request_order s"
    and le: "st_next_gate_request_number s \<le> st_next_gate_request_number s'"
    by (auto simp: append_usage_log_Inr_iff bump_le)
  note mono = request_ids_mono [OF same(3) le]
  show "requests_ok s'" using assms(2) mono by (auto simp: requests_ok_def same pending_candidate_ids_def)
  show "finalized_ok s'" using assms(3) mono by (auto simp: finalized_ok_def same)
qed

lemma append_gate_ok: "append_usage_log rt l s = Inr s' \<Longrightarrow> gate_ok rt s \<Longrightarrow> gate_ok rt s'"
  by (simp add: gate_ok_def append_numbers_ok append_requests_ok)

end
