(* ===== verification/GateLife.thy ===== *)
theory GateLife
  imports GateInv
begin

text \<open>
  The life of a gate request: what a successful \<^verbatim>\<open>prepare_memory\<close>, \<^verbatim>\<open>finalize_memory\<close>,
  \<^verbatim>\<open>cancel_memory_request\<close> and \<^verbatim>\<open>log_decision\<close> did, step by step, and that each of them keeps the
  invariants of the memory part, of the logs and of the requests.
\<close>

section \<open>Preparing\<close>

definition prepared_request ::
  "store \<Rightarrow> MemoryContext \<Rightarrow> Trace option \<Rightarrow> MemoryItem list \<Rightarrow> MemoryItem list \<Rightarrow> (pystr, pystr) dict \<Rightarrow>
   pystr \<Rightarrow> MemoryGateRequest" where
  "prepared_request s cx trace cs a b prompt =
     \<lparr>gr_request_id = new_request_id s, gr_context = cx, gr_candidate_memory_ids = map mi_memory_id cs,
      gr_system_allowed_memory_ids = map mi_memory_id a, gr_system_blocked = b, gr_prompt = prompt,
      gr_store_token = st_store_token s, gr_trace_id = map_option tr_trace_id trace,
      gr_run_id = map_option tr_run_id trace\<rparr>"

lemma prepare_memory_InrE:
  assumes "prepare_memory rt cx task tid args summary s = Inr (r, s')"
  obtains trace cs a b prompt where "validate_memory_context cx = None"
    "length (st_pending_gate_requests s) < PENDING_GATE_REQUEST_MAX_ITEMS"
    "prepare_trace s cx tid = Inr trace"
    "retrieve_memories rt s cx (ra_query args) (ra_semantic_scores args) (ra_max_candidates args)
       (ra_minimum_score args) (ra_commit_ancestry args) (Some GATE_REQUEST_MAX_CANDIDATES) = Inr cs"
    "pending_candidate_ids s + length cs \<le> PENDING_GATE_REQUEST_MAX_CANDIDATE_IDS"
    "bounded_system_gate rt cx cs = Inr (a, b)"
    "build_llm_gate_prompt rt cx a task summary = Inr prompt"
    "r = prepared_request s cx trace cs a b prompt"
    "s' = s\<lparr>st_next_gate_request_number := st_next_gate_request_number s + 1,
           st_pending_gate_requests := dict_set (gr_request_id r) r (st_pending_gate_requests s)\<rparr>"
  using assms that
  by (auto simp: prepare_memory_def result_simps Let_def prepared_request_def not_le not_less
      split: prod.splits)

lemma pending_candidate_ids_set_new:
  "dict_get (st_pending_gate_requests s) i = None \<Longrightarrow>
   pending_candidate_ids (s\<lparr>st_next_gate_request_number := n,
       st_pending_gate_requests := dict_set i r (st_pending_gate_requests s)\<rparr>) =
     pending_candidate_ids s + length (gr_candidate_memory_ids r)"
  by (simp add: pending_candidate_ids_def dict_set_new dict_values_def)

lemma prepare_memory_gate_ok:
  assumes "prepare_memory rt cx task tid args summary s = Inr (r, s')" and ok: "gate_ok rt' s"
  shows "gate_ok rt' s'"
proof -
  obtain trace cs a b prompt where few: "length (st_pending_gate_requests s) < PENDING_GATE_REQUEST_MAX_ITEMS"
    and ids: "pending_candidate_ids s + length cs \<le> PENDING_GATE_REQUEST_MAX_CANDIDATE_IDS"
    and r: "r = prepared_request s cx trace cs a b prompt"
    and s': "s' = s\<lparr>st_next_gate_request_number := st_next_gate_request_number s + 1,
           st_pending_gate_requests := dict_set (gr_request_id r) r (st_pending_gate_requests s)\<rparr>"
    by (rule prepare_memory_InrE [OF assms(1)])
  have id: "gr_request_id r = new_request_id s" by (simp add: r prepared_request_def)
  from ok have none: "dict_get (st_pending_gate_requests s) (gr_request_id r) = None"
    and old: "gr_request_id r \<notin> set (st_finalized_gate_request_ids s)"
    using new_request_id_fresh [of s] unfolding id gate_ok_def requests_ok_def finalized_ok_def
    by (blast intro: option.exhaust [of "dict_get (st_pending_gate_requests s) (new_request_id s)"])+
  have new: "gr_request_id r \<in> request_ids s'"
    by (auto simp: id new_request_id_def request_ids_def s')
  have mono: "request_ids s \<subseteq> request_ids s'" by (rule request_ids_mono) (simp_all add: s')
  have cnt: "pending_candidate_ids s' \<le> PENDING_GATE_REQUEST_MAX_CANDIDATE_IDS"
    using ids pending_candidate_ids_set_new [OF none] by (simp add: s' r prepared_request_def)
  have len: "length (st_pending_gate_requests s') \<le> PENDING_GATE_REQUEST_MAX_ITEMS"
    using few none by (simp add: s' dict_set_new)
  have tok: "gr_store_token r = st_store_token s" by (simp add: r prepared_request_def)
  have "requests_ok s'"
    using ok new mono tok cnt len unfolding gate_ok_def requests_ok_def
    by (auto simp: s' dict_get_set split: if_splits)
  moreover have "finalized_ok s'"
    using ok mono old by (auto simp: gate_ok_def finalized_ok_def s' dict_get_set)
  ultimately show ?thesis using ok by (simp add: gate_ok_def numbers_ok_def s')
qed

lemma prepare_memory_same:
  assumes "prepare_memory rt cx task tid args summary s = Inr (r, s')"
  shows "memory_ok rt' s' = memory_ok rt' s" "logs_ok s \<Longrightarrow> logs_ok s'"
proof -
  obtain n p where s': "s' = s\<lparr>st_next_gate_request_number := n, st_pending_gate_requests := p\<rparr>"
    by (rule prepare_memory_InrE [OF assms])
  show "memory_ok rt' s' = memory_ok rt' s" by (rule memory_ok_cong) (simp_all add: s')
  show "logs_ok s \<Longrightarrow> logs_ok s'"
    by (rule logs_ok_extends) (simp_all add: s' extends_def known_memory_def)
qed

section \<open>Ending a request\<close>

lemma expire_window:
  assumes "set ids = set order" and "distinct order"
  shows "snd (expire ids order) = drop (length order - FINALIZED_GATE_REQUEST_MAX_ITEMS) order \<and>
    set (fst (expire ids order)) = set (snd (expire ids order))"
  using assms
proof (induction ids order rule: expire.induct)
  case (1 ids order)
  show ?case
  proof (cases "FINALIZED_GATE_REQUEST_MAX_ITEMS < length order")
    case True
    then obtain x xs where order: "order = x # xs" by (cases order) auto
    have "set (filter (\<lambda>i. i \<noteq> x) ids) = set xs" using 1 order by auto
    with 1 True order have ih: "snd (expire (filter (\<lambda>i. i \<noteq> x) ids) xs) =
          drop (length xs - FINALIZED_GATE_REQUEST_MAX_ITEMS) xs \<and>
        set (fst (expire (filter (\<lambda>i. i \<noteq> x) ids) xs)) = set (snd (expire (filter (\<lambda>i. i \<noteq> x) ids) xs))"
      by simp
    have "expire ids order = expire (filter (\<lambda>i. i \<noteq> x) ids) xs"
      using True order by (subst expire.simps) simp
    moreover have "length order - FINALIZED_GATE_REQUEST_MAX_ITEMS =
        Suc (length xs - FINALIZED_GATE_REQUEST_MAX_ITEMS)"
      using True order by simp
    ultimately show ?thesis using ih order by (simp only: drop_Suc_Cons)
  qed (simp add: expire.simps [of ids order] 1)
qed

lemma own_pending_request:
  assumes "own_request_error r s = None" and "pending_request_error r s = None"
  obtains p where "dict_get (st_pending_gate_requests s) (gr_request_id r) = Some p" "gate_request_eq r p"
    "gr_request_id r \<notin> set (st_finalized_gate_request_ids s)" "gr_store_token r = st_store_token s"
  using assms that
  by (auto simp: own_request_error_def pending_request_error_def split: option.splits)

lemma length_dict_pop: "length (dict_pop k d) \<le> length d"
  by (simp add: dict_pop_def)

lemma sum_dict_pop: "sum_list (map f (dict_values (dict_pop k d))) \<le> (sum_list (map f (dict_values d)) :: nat)"
  by (induction d) (auto simp: dict_pop_def dict_values_def)

lemma pop_requests_ok:
  assumes "requests_ok s"
  shows "requests_ok (s\<lparr>st_pending_gate_requests := dict_pop i (st_pending_gate_requests s)\<rparr>)"
  using assms length_dict_pop [of i "st_pending_gate_requests s"]
    sum_dict_pop [of "\<lambda>r. length (gr_candidate_memory_ids r)" i "st_pending_gate_requests s"]
  by (auto simp: requests_ok_def dict_get_pop pending_candidate_ids_def request_ids_def split: if_splits)

lemma requests_ok_window:
  "requests_ok (s\<lparr>st_pending_gate_requests := p, st_finalized_gate_request_ids := ids,
       st_finalized_gate_request_order := order\<rparr>) =
   requests_ok (s\<lparr>st_pending_gate_requests := p\<rparr>)"
  by (simp add: requests_ok_def pending_candidate_ids_def request_ids_def)

lemma finish_request_gate_ok:
  assumes ok: "gate_ok rt s" and p: "dict_get (st_pending_gate_requests s) i = Some p"
  shows "gate_ok rt (finish_request i s)"
proof -
  let ?order = "st_finalized_gate_request_order s @ [i]"
  let ?ids = "st_finalized_gate_request_ids s @ [i]"
  from ok have f: "finalized_ok s" and r: "requests_ok s" by (simp_all add: gate_ok_def)
  from r p have known: "i \<in> request_ids s" unfolding requests_ok_def by blast
  from f have win: "set (st_finalized_gate_request_ids s) = set (st_finalized_gate_request_order s)"
      "distinct (st_finalized_gate_request_order s)"
      "set (st_finalized_gate_request_ids s) \<subseteq> request_ids s"
      "\<forall>i\<in>set (st_finalized_gate_request_ids s). dict_get (st_pending_gate_requests s) i = None"
      "length (st_finalized_gate_request_order s) \<le> FINALIZED_GATE_REQUEST_MAX_ITEMS"
    unfolding finalized_ok_def by blast+
  have fresh: "i \<notin> set (st_finalized_gate_request_ids s)" using win(4) p by auto
  have sets: "set ?ids = set ?order" using win(1) by simp
  have dist: "distinct ?order" using win(1,2) fresh by simp
  have order: "snd (expire ?ids ?order) = drop (length ?order - FINALIZED_GATE_REQUEST_MAX_ITEMS) ?order"
    and ids: "set (fst (expire ?ids ?order)) = set (snd (expire ?ids ?order))"
    using expire_window [OF sets dist] by blast+
  have sub: "set (snd (expire ?ids ?order)) \<subseteq> set ?order" unfolding order by (rule set_drop_subset)
  have s': "finish_request i s = s\<lparr>st_pending_gate_requests := dict_pop i (st_pending_gate_requests s),
      st_finalized_gate_request_ids := fst (expire ?ids ?order),
      st_finalized_gate_request_order := snd (expire ?ids ?order)\<rparr>"
    using fresh by (simp add: finish_request_def Let_def split_beta)
  have dist': "distinct (snd (expire ?ids ?order))" unfolding order by (rule distinct_drop [OF dist])
  have len: "length (snd (expire ?ids ?order)) \<le> FINALIZED_GATE_REQUEST_MAX_ITEMS"
    unfolding order using win(5) by simp
  have inc: "set (fst (expire ?ids ?order)) \<subseteq> request_ids s" using ids sub win(1,3) known by auto
  have gone: "dict_get (dict_pop i (st_pending_gate_requests s)) j = None"
    if "j \<in> set (fst (expire ?ids ?order))" for j
    using that ids sub win(1,4) by (auto simp: dict_get_pop)
  have "finalized_ok (finish_request i s)"
    using ids dist' len inc gone by (simp add: finalized_ok_def s' request_ids_def)
  moreover have "requests_ok (finish_request i s)"
    using pop_requests_ok [OF r, of i] unfolding s' requests_ok_window .
  moreover have "numbers_ok rt (finish_request i s)" using ok by (simp add: gate_ok_def numbers_ok_def s')
  ultimately show ?thesis by (simp add: gate_ok_def)
qed

lemma finish_request_fields [simp]:
  "st_traces (finish_request i s) = st_traces s"
  "st_trace_ids_by_run_id (finish_request i s) = st_trace_ids_by_run_id s"
  "st_failure_cases (finish_request i s) = st_failure_cases s"
  "st_lessons (finish_request i s) = st_lessons s"
  "st_project_policies (finish_request i s) = st_project_policies s"
  "st_usage_logs (finish_request i s) = st_usage_logs s"
  "st_usage_log_indexes (finish_request i s) = st_usage_log_indexes s"
  "st_pending_gate_requests (finish_request i s) = dict_pop i (st_pending_gate_requests s)"
  by (simp_all add: finish_request_def Let_def split_beta)

lemma cancel_memory_request_Inr_iff:
  "cancel_memory_request r s = Inr ((), s') \<longleftrightarrow>
     own_request_error r s = None \<and> pending_request_error r s = None \<and>
     s' = s\<lparr>st_pending_gate_requests := dict_pop (gr_request_id r) (st_pending_gate_requests s)\<rparr>"
  by (auto simp: cancel_memory_request_def result_simps)

lemma cancel_memory_request_ok:
  assumes "cancel_memory_request r s = Inr ((), s')"
  shows "memory_ok rt s' = memory_ok rt s" "logs_ok s \<Longrightarrow> logs_ok s'" "gate_ok rt s \<Longrightarrow> gate_ok rt s'"
proof -
  from assms have s': "s' = s\<lparr>st_pending_gate_requests := dict_pop (gr_request_id r) (st_pending_gate_requests s)\<rparr>"
    by (simp add: cancel_memory_request_Inr_iff)
  show "memory_ok rt s' = memory_ok rt s" by (rule memory_ok_cong) (simp_all add: s')
  show "logs_ok s \<Longrightarrow> logs_ok s'"
    by (rule logs_ok_extends) (simp_all add: s' extends_def known_memory_def)
  show "gate_ok rt s \<Longrightarrow> gate_ok rt s'"
    using pop_requests_ok [of s "gr_request_id r"]
    by (auto simp: gate_ok_def numbers_ok_def finalized_ok_def s' request_ids_def dict_get_pop)
qed

section \<open>Finalizing\<close>

lemma new_usage_log_Inr:
  assumes "new_usage_log rt s t cx cs d b res caused rid = Inr l"
  shows "log_ok s l" "ul_decision_id l = u ''decision_'' @ format_06d (st_next_decision_number s)"
    "ul_run_id l = tr_run_id t" "ul_trace_id l = Some (tr_trace_id t)" "ul_request_id l = rid"
    "ul_mode l = mc_mode cx" "ul_candidate_memory_ids l = map mi_memory_id cs"
    "ul_used_memory_ids l = (if md_use_memory d then md_allowed_memory_ids d else [])"
    "ul_blocked_memory_ids l = md_blocked_memory_ids d" "ul_system_blocked_reasons l = b"
    "ul_eval_result l = res" "ul_memory_caused_failure l = caused" "ul_reason l = md_reason d"
    "ul_context l = context_evidence cx" "ul_created_at l = Some (utc_timestamp rt)"
  using assms by (auto simp: new_usage_log_def Let_def result_simps log_ok_def)

text \<open>What happened when a request was finalized.\<close>

lemma finalize_memory_InrE:
  assumes "finalize_memory rt r payload tid res caused s = Inr (g, s')"
  obtains t cs a b d ms d' snippet l s1 where
    "own_request_error r s = None" "pending_request_error r s = None" "validate_memory_context (gr_context r) = None"
    "gr_trace_id r = None \<or> gr_trace_id r = Some tid"
    "dict_get (st_traces s) tid = Some t" "gr_run_id r = None \<or> gr_run_id r = Some (tr_run_id t)"
    "validate_trace_context t (gr_context r) = None"
    "memory_items rt s (gr_candidate_memory_ids r) = Inr cs"
    "bounded_system_gate rt (gr_context r) cs = Inr (a, b)"
    "parse_memory_decision rt payload = Inr d"
    "apply_llm_gate_decision rt a b d = Inr (ms, d')"
    "build_injection_snippet rt ms None (Some d') (Some (gr_context r)) = Inr snippet"
    "new_usage_log rt s t (gr_context r) cs d' b res caused (Some (gr_request_id r)) = Inr l"
    "append_usage_log rt l s = Inr s1" "s' = finish_request (gr_request_id r) s1"
    "g = \<lparr>gm_request_id = gr_request_id r, gm_trace_id = tr_trace_id t, gm_decision_id = ul_decision_id l,
          gm_use_memory = md_use_memory d', gm_allowed_memory_ids = md_allowed_memory_ids d',
          gm_blocked_memory_ids = md_blocked_memory_ids d', gm_reason = md_reason d', gm_risk = md_risk d',
          gm_recommended_injection = md_recommended_injection d', gm_snippet = snippet\<rparr>"
proof -
  from assms obtain t where guards: "own_request_error r s = None" "pending_request_error r s = None"
      "validate_memory_context (gr_context r) = None"
      "gr_trace_id r = None \<or> gr_trace_id r = Some tid"
      "dict_get (st_traces s) tid = Some t" "gr_run_id r = None \<or> gr_run_id r = Some (tr_run_id t)"
      "validate_trace_context t (gr_context r) = None"
    and rest: "finalize_with_trace rt r payload t res caused s = Inr (g, s')"
    by (auto simp: finalize_memory_def or_raise_Inr_iff split: option.splits)
  from rest show thesis
    unfolding finalize_with_trace_def rbind_Inr_iff
    by (elim exE conjE) (auto simp: rbind_Inr_iff split: prod.splits intro: that [OF guards])
qed

lemma log_decision_InrE:
  assumes "log_decision rt run cx ids d res caused s = Inr (l, s')"
  obtains t cs a b d0 ms d' where
    "validate_memory_context cx = None" "trace_for_run_id s run = Inr t" "validate_trace_context t cx = None"
    "memory_items rt s ids = Inr cs" "system_gate rt cx cs = Inr (a, b)"
    "parse_memory_decision rt (PyMapping (decision_dict d)) = Inr d0"
    "apply_llm_gate_decision rt a b d0 = Inr (ms, d')"
    "new_usage_log rt s t cx cs d' b res caused None = Inr l" "append_usage_log rt l s = Inr s'"
  using assms unfolding log_decision_def or_raise_Inr_iff
  by (auto simp: rbind_Inr_iff or_raise_Inr_iff Let_def split: prod.splits intro: that)

lemma finalize_memory_ok:
  assumes "finalize_memory rt r payload tid res caused s = Inr (g, s')"
  shows "memory_ok rt' s \<Longrightarrow> memory_ok rt' s'" "logs_ok s \<Longrightarrow> logs_ok s'" "gate_ok rt s \<Longrightarrow> gate_ok rt s'"
proof -
  obtain l s1 t cs b d' where own: "own_request_error r s = None" "pending_request_error r s = None"
    and l: "new_usage_log rt s t (gr_context r) cs d' b res caused (Some (gr_request_id r)) = Inr l"
    and app: "append_usage_log rt l s = Inr s1" and s': "s' = finish_request (gr_request_id r) s1"
    by (rule finalize_memory_InrE [OF assms])
  have "memory_ok rt' s' = memory_ok rt' s1" by (rule memory_ok_cong) (simp_all add: s')
  then show "memory_ok rt' s \<Longrightarrow> memory_ok rt' s'" using append_memory_ok [OF app] by simp
  show "logs_ok s \<Longrightarrow> logs_ok s'"
    by (rule logs_ok_extends [OF append_logs_ok [OF app _ new_usage_log_Inr(1) [OF l]]])
       (simp_all add: s' extends_def known_memory_def)
  obtain p where "dict_get (st_pending_gate_requests s) (gr_request_id r) = Some p"
    by (rule own_pending_request [OF own])
  then have "dict_get (st_pending_gate_requests s1) (gr_request_id r) = Some p"
    using app by (simp add: append_usage_log_Inr_iff)
  then show "gate_ok rt s \<Longrightarrow> gate_ok rt s'"
    unfolding s' by (intro finish_request_gate_ok append_gate_ok [OF app])
qed

lemma log_decision_ok:
  assumes "log_decision rt run cx ids d res caused s = Inr (l, s')"
  shows "memory_ok rt' s \<Longrightarrow> memory_ok rt' s'" "logs_ok s \<Longrightarrow> logs_ok s'" "gate_ok rt s \<Longrightarrow> gate_ok rt s'"
proof -
  obtain t cs b d' where l: "new_usage_log rt s t cx cs d' b res caused None = Inr l"
    and app: "append_usage_log rt l s = Inr s'"
    by (rule log_decision_InrE [OF assms])
  show "memory_ok rt' s \<Longrightarrow> memory_ok rt' s'" by (rule append_memory_ok [OF app])
  show "logs_ok s \<Longrightarrow> logs_ok s'" by (rule append_logs_ok [OF app _ new_usage_log_Inr(1) [OF l]])
  show "gate_ok rt s \<Longrightarrow> gate_ok rt s'" by (rule append_gate_ok [OF app])
qed

section \<open>What a finalization grants\<close>

lemma finalize_grants:
  assumes ok: "memory_ok rt' s" and f: "finalize_memory rt r payload tid res caused s = Inr (g, s')"
  obtains ms where "gm_allowed_memory_ids g = map mi_memory_id ms"
    "\<And>m. m \<in> set ms \<Longrightarrow> memory_item_at rt s (mi_memory_id m) = Inr (Some m) \<and> backed s m \<and> blocked_reason rt (gr_context r) m = None"
    "gm_snippet g = snippet_text (gm_recommended_injection g) ms" "distinct (map mi_memory_id ms)"
    "set (gr_candidate_memory_ids r) \<subseteq> set (gm_allowed_memory_ids g) \<union> set (gm_blocked_memory_ids g)"
    "set (gm_allowed_memory_ids g) \<inter> set (gm_blocked_memory_ids g) = {}"
    "set (gm_allowed_memory_ids g) \<subseteq> set (gr_candidate_memory_ids r)" "gm_use_memory g \<longleftrightarrow> ms \<noteq> []"
proof (rule finalize_memory_InrE [OF f])
  fix t cs a b d ms d' snippet l s1
  assume items: "memory_items rt s (gr_candidate_memory_ids r) = Inr cs"
    and gate: "bounded_system_gate rt (gr_context r) cs = Inr (a, b)"
    and dec: "apply_llm_gate_decision rt a b d = Inr (ms, d')"
    and snip: "build_injection_snippet rt ms None (Some d') (Some (gr_context r)) = Inr snippet"
    and g: "g = \<lparr>gm_request_id = gr_request_id r, gm_trace_id = tr_trace_id t, gm_decision_id = ul_decision_id l,
          gm_use_memory = md_use_memory d', gm_allowed_memory_ids = md_allowed_memory_ids d',
          gm_blocked_memory_ids = md_blocked_memory_ids d', gm_reason = md_reason d', gm_risk = md_risk d',
          gm_recommended_injection = md_recommended_injection d', gm_snippet = snippet\<rparr>"
  from dec have acc: "decision_accepted d" and ms: "ms = granted_items a d" and d': "d' = combined_decision a b d"
    by (simp_all add: apply_llm_gate_decision_Inr_iff)
  note known = memory_items_Inr [OF ok items]
  have ids: "set (gr_candidate_memory_ids r) = mi_memory_id ` set cs" using known(1) by (metis set_map)
  show thesis
  proof (rule that)
    show "memory_item_at rt s (mi_memory_id m) = Inr (Some m) \<and> backed s m \<and> blocked_reason rt (gr_context r) m = None" if "m \<in> set ms" for m
      using bounded.decided_are_safe [OF gate] that known(2,4) by (auto simp: ms)
    show "gm_snippet g = snippet_text (gm_recommended_injection g) ms"
      using snip by (simp add: g build_injection_snippet_Inr_iff injection_mode_def)
    show "distinct (map mi_memory_id ms)" using distinct_granted_ids [OF acc] by (simp add: ms)
    show "set (gr_candidate_memory_ids r) \<subseteq> set (gm_allowed_memory_ids g) \<union> set (gm_blocked_memory_ids g)"
      "set (gm_allowed_memory_ids g) \<inter> set (gm_blocked_memory_ids g) = {}"
      "set (gm_allowed_memory_ids g) \<subseteq> set (gr_candidate_memory_ids r)"
      using bounded.decided_split [OF gate, of d] by (simp_all add: g d' ids combined_decision_def)
  qed (simp_all add: g d' ms combined_decision_def)
qed

lemma finalize_logs:
  assumes f: "finalize_memory rt r payload tid res caused s = Inr (g, s')"
  obtains l t where "st_usage_logs s' = st_usage_logs s @ [l]" "log_ok s l" "ul_decision_id l = gm_decision_id g"
    "dict_get (st_traces s) tid = Some t" "ul_trace_id l = Some (tr_trace_id t)" "ul_run_id l = tr_run_id t"
    "ul_request_id l = Some (gr_request_id r)" "ul_blocked_memory_ids l = gm_blocked_memory_ids g"
    "ul_used_memory_ids l = (if gm_use_memory g then gm_allowed_memory_ids g else [])"
    "ul_eval_result l = res" "ul_memory_caused_failure l = caused" "ul_candidate_memory_ids l = gr_candidate_memory_ids r \<or> \<not> memory_ok rt' s"
proof (rule finalize_memory_InrE [OF f])
  fix t cs a b d ms d' snippet l s1
  assume t: "dict_get (st_traces s) tid = Some t" and items: "memory_items rt s (gr_candidate_memory_ids r) = Inr cs"
    and l: "new_usage_log rt s t (gr_context r) cs d' b res caused (Some (gr_request_id r)) = Inr l"
    and app: "append_usage_log rt l s = Inr s1" and s': "s' = finish_request (gr_request_id r) s1"
    and g: "g = \<lparr>gm_request_id = gr_request_id r, gm_trace_id = tr_trace_id t, gm_decision_id = ul_decision_id l,
          gm_use_memory = md_use_memory d', gm_allowed_memory_ids = md_allowed_memory_ids d',
          gm_blocked_memory_ids = md_blocked_memory_ids d', gm_reason = md_reason d', gm_risk = md_risk d',
          gm_recommended_injection = md_recommended_injection d', gm_snippet = snippet\<rparr>"
  show thesis
  proof (rule that [of l t])
    show "st_usage_logs s' = st_usage_logs s @ [l]" using app by (simp add: s' append_usage_log_Inr_iff)
    show "ul_candidate_memory_ids l = gr_candidate_memory_ids r \<or> \<not> memory_ok rt' s"
      using memory_items_Inr(1) [OF _ items] new_usage_log_Inr(7) [OF l] by auto
  qed (simp_all add: new_usage_log_Inr [OF l] g t)
qed

end
