(* ===== verification/Snapshot.thy ===== *)
theory Snapshot
  imports GateLife
begin

text \<open>
  Snapshots of the store (\<^verbatim>\<open>to_snapshot\<close>, \<^verbatim>\<open>from_snapshot\<close>) with the limits of \<^verbatim>\<open>_ingestion.py\<close> and the
  migration of usage logs of the first format. A snapshot is the mapping with its keys and version,
  and the records of each collection: \<^verbatim>\<open>asdict\<close> and the constructor that reads it back are the identity
  on records. A field that a legacy usage log leaves out has the default of the class.
\<close>

section \<open>The written form\<close>

definition SNAPSHOT_COLLECTION_NAMES :: "pystr list" where
  "SNAPSHOT_COLLECTION_NAMES = map u [''traces'', ''failure_cases'', ''lessons'', ''project_policies'', ''usage_logs'']"

definition SNAPSHOT_V2_KEYS :: "pystr list" where
  "SNAPSHOT_V2_KEYS = u ''snapshot_version'' # SNAPSHOT_COLLECTION_NAMES"

abbreviation "SNAPSHOT_VERSION \<equiv> (2 :: int)"

record snapshot =
  sn_keys :: "pystr list"
  sn_version :: pyval
  sn_traces :: "Trace list"
  sn_failure_cases :: "FailureCase list"
  sn_lessons :: "Lesson list"
  sn_project_policies :: "ProjectPolicy list"
  sn_usage_logs :: "MemoryUsageLog list"

text \<open>\<^verbatim>\<open>[d[k] for k in sorted(d)]\<close>\<close>

definition sorted_values :: "(pystr, 'r) dict \<Rightarrow> 'r list" where
  "sorted_values d = List.map_filter (dict_get d) (sort (dict_keys d))"

definition to_snapshot :: "store \<Rightarrow> snapshot" where
  "to_snapshot s =
     \<lparr>sn_keys = SNAPSHOT_V2_KEYS, sn_version = PNum (PyInt SNAPSHOT_VERSION),
      sn_traces = sorted_values (st_traces s), sn_failure_cases = sorted_values (st_failure_cases s),
      sn_lessons = sorted_values (st_lessons s), sn_project_policies = sorted_values (st_project_policies s),
      sn_usage_logs = sort_key ul_decision_id (st_usage_logs s)\<rparr>"

section \<open>Checks before loading\<close>

text \<open>Whether the snapshot has the second format.\<close>

definition validate_snapshot_envelope :: "snapshot \<Rightarrow> bool result" where
  "validate_snapshot_envelope data =
     (if set (sn_keys data) = set SNAPSHOT_COLLECTION_NAMES then Inr False
      else if set (sn_keys data) \<noteq> set SNAPSHOT_V2_KEYS
      then Inl (ValueError (u ''snapshot envelope must be exact legacy v1 or version 2''))
      else if sn_version data \<noteq> PNum (PyInt SNAPSHOT_VERSION)
      then Inl (ValueError (u ''snapshot envelope requires snapshot_version 2''))
      else Inr True)"

definition validate_non_negative_limit :: "int option \<Rightarrow> pystr \<Rightarrow> py_error option" where
  "validate_non_negative_limit value name =
     raise_if (case value of None \<Rightarrow> False | Some n \<Rightarrow> n < 0) (name @ u '' must be a non-negative integer or None'')"

definition over_limit :: "int option \<Rightarrow> nat \<Rightarrow> bool" where
  "over_limit bound n = (case bound of None \<Rightarrow> False | Some m \<Rightarrow> m < int n)"

definition limit_text :: "int option \<Rightarrow> pystr" where
  "limit_text bound = (case bound of None \<Rightarrow> [] | Some m \<Rightarrow> str_nat (nat m))"

definition validate_snapshot_record_count :: "pystr \<Rightarrow> nat \<Rightarrow> int option \<Rightarrow> py_error option" where
  "validate_snapshot_record_count name record_count max_records_per_collection =
     first_error
       [validate_non_negative_limit max_records_per_collection (u ''max_records_per_collection''),
        raise_if (over_limit max_records_per_collection record_count)
          (u ''snapshot field '' @ [39] @ name @ [39] @ u '' contains '' @ str_nat record_count @
           u '' records; maximum is '' @ limit_text max_records_per_collection)]"

definition validate_snapshot_total_record_count :: "nat \<Rightarrow> int option \<Rightarrow> py_error option" where
  "validate_snapshot_total_record_count total_records max_total_records =
     first_error
       [validate_non_negative_limit max_total_records (u ''max_total_records''),
        raise_if (over_limit max_total_records total_records)
          (u ''snapshot contains '' @ str_nat total_records @ u '' records; maximum is '' @ limit_text max_total_records)]"

definition collection_counts :: "snapshot \<Rightarrow> nat list" where
  "collection_counts data =
     [length (sn_traces data), length (sn_failure_cases data), length (sn_lessons data),
      length (sn_project_policies data), length (sn_usage_logs data)]"

definition validate_snapshot_collection_limits :: "snapshot \<Rightarrow> int option \<Rightarrow> int option \<Rightarrow> py_error option" where
  "validate_snapshot_collection_limits data max_records_per_collection max_total_records =
     first_error
       ([validate_non_negative_limit max_records_per_collection (u ''max_records_per_collection''),
         validate_non_negative_limit max_total_records (u ''max_total_records'')]
        @ map (\<lambda>(name, n). validate_snapshot_record_count name n max_records_per_collection)
            (zip SNAPSHOT_COLLECTION_NAMES (collection_counts data))
        @ [validate_snapshot_total_record_count (sum_list (collection_counts data)) max_total_records])"

section \<open>Usage logs of the first format\<close>

definition legacy_trace :: "store \<Rightarrow> MemoryUsageLog \<Rightarrow> Trace result" where
  "legacy_trace s ulog =
     (if ul_trace_id ulog \<notin> {None, Some []} then
        (case dict_get (st_traces s) (given_or (ul_trace_id ulog) []) of
           None \<Rightarrow> Inl (ValueError (u ''unknown trace_id: '' @ given_or (ul_trace_id ulog) []))
         | Some trace \<Rightarrow> Inr trace)
      else
        or_raise (validate_required_string (ul_run_id ulog) (u ''run_id'') (u ''trace lookup requires'')
            (Some MEMORY_ID_MAX_CHARS))
        (case filter (\<lambda>t. tr_run_id t = ul_run_id ulog) (dict_values (st_traces s)) of
           [] \<Rightarrow> Inl (ValueError (u ''unknown run_id: '' @ ul_run_id ulog))
         | [trace] \<Rightarrow> Inr trace
         | _ \<Rightarrow> Inl (ValueError (u ''run_id does not resolve to one trace: '' @ ul_run_id ulog))))"

definition legacy_context :: "MemoryUsageLog \<Rightarrow> Trace \<Rightarrow> pystr \<Rightarrow> (pystr, pystr) dict" where
  "legacy_context ulog trace repo =
     (if ul_context ulog \<noteq> [] then ul_context ulog
      else [(u ''mode'', ul_mode ulog), (u ''repo'', repo), (u ''commit_sha'', tr_commit_sha trace)]
        @ (case tr_tenant trace of None \<Rightarrow> [] | Some tenant \<Rightarrow> [(u ''tenant'', tenant)]))"

definition legacy_statuses :: "runtime \<Rightarrow> store \<Rightarrow> MemoryUsageLog \<Rightarrow> (pystr, pystr) dict result" where
  "legacy_statuses rt s ulog =
     (if ul_candidate_memory_ids ulog \<noteq> [] \<and> ul_candidate_memory_statuses ulog = []
      then rbind (memory_items rt s (ul_candidate_memory_ids ulog)) (\<lambda>items.
             Inr (fold (\<lambda>m. dict_set (mi_memory_id m) (mi_status m)) items []))
      else Inr (ul_candidate_memory_statuses ulog))"

definition migrate_legacy_usage_log :: "runtime \<Rightarrow> store \<Rightarrow> MemoryUsageLog \<Rightarrow> MemoryUsageLog result" where
  "migrate_legacy_usage_log rt s ulog =
     or_raise (validate_memory_id_list (ul_candidate_memory_ids ulog) (u ''candidate_memory_ids''))
     (rbind (legacy_trace s ulog) (\<lambda>trace.
      or_raise (raise_if (ul_run_id ulog \<noteq> tr_run_id trace)
          (u ''usage log run_id does not match trace: '' @ tr_trace_id trace))
      (case tr_repo trace of
         None \<Rightarrow> Inl (ValueError (u ''legacy usage log trace repo is required for context evidence: '' @ tr_trace_id trace))
       | Some repo \<Rightarrow>
           rbind (legacy_statuses rt s ulog) (\<lambda>statuses.
           Inr (ulog\<lparr>ul_trace_id := Some (tr_trace_id trace), ul_context := legacy_context ulog trace repo,
                     ul_candidate_memory_statuses := statuses\<rparr>)))))"

section \<open>Loading\<close>

definition next_store :: "('a \<times> store) result \<Rightarrow> store result" where
  "next_store r = rbind r (\<lambda>(_, s). Inr s)"

lemma next_store_Inr_iff [result_simps]: "next_store r = Inr s \<longleftrightarrow> (\<exists>x. r = Inr (x, s))"
  by (auto simp: next_store_def result_simps)

definition load_usage_log :: "runtime \<Rightarrow> bool \<Rightarrow> MemoryUsageLog \<Rightarrow> store \<Rightarrow> store result" where
  "load_usage_log rt is_v2 log_data s =
     rbind (if is_v2 then Inr log_data else migrate_legacy_usage_log rt s log_data) (\<lambda>ulog.
     or_raise (first_error
       [validate_usage_log ulog, validate_usage_log_memory_ids s ulog, validate_usage_log_trace s ulog])
     (append_usage_log rt ulog s))"

text \<open>The token and the session id are the fresh ones of the new store.\<close>

definition from_snapshot ::
  "runtime \<Rightarrow> int option \<Rightarrow> int option \<Rightarrow> nat \<Rightarrow> pystr \<Rightarrow> snapshot \<Rightarrow> store result" where
  "from_snapshot rt max_records_per_collection max_total_records token session_id data =
     rbind (validate_snapshot_envelope data) (\<lambda>is_v2.
     or_raise (validate_snapshot_collection_limits data max_records_per_collection max_total_records)
     (rbind (rfold (\<lambda>t s. next_store (record_trace rt t s)) (sn_traces data) (new_store token session_id)) (\<lambda>s1.
      rbind (rfold (\<lambda>c s. next_store (add_failure_case c s)) (sn_failure_cases data) s1) (\<lambda>s2.
      rbind (rfold (\<lambda>l s. next_store (add_lesson rt l s)) (sn_lessons data) s2) (\<lambda>s3.
      rbind (rfold (\<lambda>p s. next_store (add_project_policy rt p s)) (sn_project_policies data) s3) (\<lambda>s4.
      rfold (load_usage_log rt is_v2) (sn_usage_logs data) s4))))))"

end
