(* ===== verification/Lessons.thy ===== *)
theory Lessons
  imports Snapshot
begin

text \<open>
  \<^verbatim>\<open>load_lessons_yaml\<close> of \<^verbatim>\<open>store.py\<close>: a batch of active lessons is validated one by one against the lessons staged so
  far and stored as a whole. The lessons are the records that the reader of the file makes of its text; a
  text that cannot be read raises before the store is touched.
\<close>

fun staged_lessons :: "runtime \<Rightarrow> store \<Rightarrow> Lesson list \<Rightarrow> (pystr, Lesson) dict \<Rightarrow> Lesson list result" where
  "staged_lessons rt s [] staged = Inr []"
| "staged_lessons rt s (lesson # lessons) staged =
     rbind (validated_lesson_candidate rt s lesson staged) (\<lambda>stored_lesson.
     or_raise (raise_if (ls_status stored_lesson \<noteq> u ''active'')
         (u ''active lessons YAML requires status 'active': '' @ ls_lesson_id stored_lesson))
     (rbind (staged_lessons rt s lessons (dict_set (ls_lesson_id stored_lesson) stored_lesson staged)) (\<lambda>stored_lessons.
      Inr (stored_lesson # stored_lessons))))"

definition load_lessons_yaml :: "runtime \<Rightarrow> Lesson list \<Rightarrow> Lesson list op" where
  "load_lessons_yaml rt lessons s =
     rbind (staged_lessons rt s lessons (st_lessons s)) (\<lambda>stored_lessons.
     Inr (stored_lessons, s\<lparr>st_lessons := dict_update (st_lessons s) (map (\<lambda>l. (ls_lesson_id l, l)) stored_lessons)\<rparr>))"

text \<open>Loading a batch has the effect of adding its lessons one after the other.\<close>

lemma staged_adds:
  assumes "staged_lessons rt s ls (st_lessons t) = Inr stored"
    and "st_failure_cases t = st_failure_cases s" "st_project_policies t = st_project_policies s" "st_traces t = st_traces s"
  shows "stored = ls \<and> (\<forall>l\<in>set ls. ls_status l = u ''active'') \<and>
    rfold (\<lambda>l s. next_store (add_lesson rt l s)) ls t =
      Inr (t\<lparr>st_lessons := dict_update (st_lessons t) (map (\<lambda>l. (ls_lesson_id l, l)) ls)\<rparr>)"
  using assms
proof (induction ls arbitrary: t stored)
  case Nil
  then show ?case by (simp add: dict_update_def)
next
  case (Cons l ls)
  obtain l' rest where v: "validated_lesson_candidate rt s l (st_lessons t) = Inr l'" and a: "ls_status l' = u ''active''"
    and rest: "staged_lessons rt s ls (dict_set (ls_lesson_id l') l' (st_lessons t)) = Inr rest" "stored = l' # rest"
    using Cons.prems(1) by (auto simp: result_simps)
  let ?t = "t\<lparr>st_lessons := dict_set (ls_lesson_id l) l (st_lessons t)\<rparr>"
  have eq: "l' = l" and "add_lesson rt l t = Inr (l, ?t)"
    using v Cons.prems(2-4) lesson_supported_cong [of t s l] by (simp_all add: validated_lesson_candidate_Inr_iff add_lesson_Inr_iff)
  then have add: "next_store (add_lesson rt l t) = Inr ?t" by (simp add: next_store_def)
  have "rest = ls \<and> (\<forall>l\<in>set ls. ls_status l = u ''active'') \<and>
      rfold (\<lambda>l s. next_store (add_lesson rt l s)) ls ?t = Inr (?t\<lparr>st_lessons := dict_update (st_lessons ?t) (map (\<lambda>l. (ls_lesson_id l, l)) ls)\<rparr>)"
    by (rule Cons.IH) (use rest(1) Cons.prems(2-4) in \<open>simp_all add: eq\<close>)
  then show ?case using add a rest(2) by (simp add: eq dict_update_def)
qed

lemma load_lessons_adds:
  assumes "load_lessons_yaml rt ls s = Inr (stored, s')"
  shows "stored = ls" "\<forall>l\<in>set ls. ls_status l = u ''active''"
    "rfold (\<lambda>l s. next_store (add_lesson rt l s)) ls s = Inr s'"
  using assms staged_adds [of rt s ls s] by (auto simp: load_lessons_yaml_def result_simps)

end
