(* ===== verification/StoreMachine.thy ===== *)
theory StoreMachine
  imports Lessons
begin

text \<open>
  The store as one machine. A client sees a sequence of operations, each at the time the clock then
  shows; an operation that raises leaves the store as it was. Every reachable store satisfies the
  invariants of the memory part, of the logs and of the requests together (\<open>store_ok\<close>), and along
  every run evidence is only ever added to (\<open>evolves\<close>): no trace, memory or log disappears, a
  measured outcome is final, and an obsolete memory stays obsolete.
\<close>

section \<open>Operations\<close>

datatype store_op =
  RecordTrace Trace
| CompleteTrace pystr pystr completion_args
| AddFailureCase FailureCase
| ReviewFailureCase pystr pystr pystr "pystr option" "pystr option" "pystr option" "pystr option"
| VerifyFailureCase pystr pystr pystr bool
| ObsoleteFailureCase pystr
| AddLesson Lesson
| LoadLessonsYaml "Lesson list"
| ObsoleteLesson pystr
| AddProjectPolicy ProjectPolicy
| ObsoleteProjectPolicy pystr
| ObsoleteMemories "MemoryObsolescenceRequest list"
| RecordDecisionOutcome pystr pystr bool
| CompleteMemoryRun pystr pystr pystr bool completion_args
| CompleteMemoryRuns "MemoryRunResult list"
| RecoverMemoryRun pystr "bool option" completion_args
| RecoverMemoryRuns "pystr list" "(pystr, bool) dict option"
| RecoverReadyMemoryRuns
| PrepareMemory MemoryContext pystr "pystr option" retrieval_args pystr
| FinalizeMemory MemoryGateRequest payload pystr "pystr option" bool
| CancelMemoryRequest MemoryGateRequest
| LogDecision pystr MemoryContext "pystr list" MemoryDecision "pystr option" bool

fun apply_op :: "runtime \<Rightarrow> store_op \<Rightarrow> store \<Rightarrow> store result" where
  "apply_op rt (RecordTrace t) s = next_store (record_trace rt t s)"
| "apply_op rt (CompleteTrace i r args) s = next_store (complete_trace rt i r args s)"
| "apply_op rt (AddFailureCase c) s = next_store (add_failure_case c s)"
| "apply_op rt (ReviewFailureCase i who cause ft sy notes ts) s =
     next_store (store_review_failure_case rt i who cause ft sy notes ts s)"
| "apply_op rt (VerifyFailureCase i fix sha passed) s = next_store (store_verify_failure_case i fix sha passed s)"
| "apply_op rt (ObsoleteFailureCase i) s = next_store (store_obsolete_failure_case rt i s)"
| "apply_op rt (AddLesson l) s = next_store (add_lesson rt l s)"
| "apply_op rt (LoadLessonsYaml ls) s = next_store (load_lessons_yaml rt ls s)"
| "apply_op rt (ObsoleteLesson i) s = next_store (store_obsolete_lesson rt i s)"
| "apply_op rt (AddProjectPolicy p) s = next_store (add_project_policy rt p s)"
| "apply_op rt (ObsoleteProjectPolicy i) s = next_store (store_obsolete_project_policy rt i s)"
| "apply_op rt (ObsoleteMemories rs) s = next_store (obsolete_memories rt rs s)"
| "apply_op rt (RecordDecisionOutcome d r b) s = next_store (record_decision_outcome d r b s)"
| "apply_op rt (CompleteMemoryRun tid d r b args) s = next_store (complete_memory_run rt tid d r b args s)"
| "apply_op rt (CompleteMemoryRuns rs) s = next_store (complete_memory_runs rt rs s)"
| "apply_op rt (RecoverMemoryRun d b args) s = next_store (recover_memory_run rt d b args s)"
| "apply_op rt (RecoverMemoryRuns ds bs) s = next_store (recover_memory_runs rt ds bs s)"
| "apply_op rt RecoverReadyMemoryRuns s = next_store (recover_ready_memory_runs rt s)"
| "apply_op rt (PrepareMemory cx task tid args summary) s = next_store (prepare_memory rt cx task tid args summary s)"
| "apply_op rt (FinalizeMemory r d tid res b) s = next_store (finalize_memory rt r d tid res b s)"
| "apply_op rt (CancelMemoryRequest r) s = next_store (cancel_memory_request r s)"
| "apply_op rt (LogDecision run cx ids d res b) s = next_store (log_decision rt run cx ids d res b s)"

text \<open>One call, at the time the clock shows.\<close>

definition store_step :: "runtime \<Rightarrow> datetime \<times> store_op \<Rightarrow> store \<Rightarrow> store result" where
  "store_step rt call = apply_op (rt\<lparr>rt_now := fst call\<rparr>) (snd call)"

text \<open>A client starts with a new store or with one loaded from any snapshot.\<close>

definition first_store :: "runtime \<Rightarrow> store \<Rightarrow> bool" where
  "first_store rt s \<longleftrightarrow> (\<exists>token sid. s = new_store token sid) \<or>
     (\<exists>max_each max_all token sid data. from_snapshot rt max_each max_all token sid data = Inr s)"

section \<open>The invariant\<close>

definition store_ok :: "runtime \<Rightarrow> store \<Rightarrow> bool" where
  "store_ok rt s \<longleftrightarrow> memory_ok rt s \<and> logs_ok s \<and> gate_ok rt s"

lemma store_ok_new_store: "store_ok rt (new_store token sid)"
  by (simp add: store_ok_def memory_ok_new_store logs_ok_new_store gate_ok_new_store)

text \<open>Records stay valid as time passes.\<close>

lemma json_clock: "json_number_ok (rt\<lparr>rt_now := n\<rparr>) = json_number_ok rt"
  by (rule ext) (simp add: json_number_ok_def int_fits_def split: pynum.split)

lemma trace_json_clock: "trace_json_within (rt\<lparr>rt_now := n\<rparr>) t \<longleftrightarrow> trace_json_within rt t"
  unfolding trace_json_within_def json_items_ok_def json_clock ..

lemma number_errors_clock:
  "latency_error (rt\<lparr>rt_now := n\<rparr>) l = latency_error rt l" "cost_error (rt\<lparr>rt_now := n\<rparr>) c = cost_error rt c"
  by (simp_all add: latency_error_def cost_error_def validate_json_integer_def int_fits_def
      split: option.split pynum.split)

lemma validate_trace_clock: "validate_trace (rt\<lparr>rt_now := n\<rparr>) t = None \<longleftrightarrow> validate_trace rt t = None"
  unfolding validate_trace_def first_error_None_iff set_append ball_Un
  by (simp add: sum_error_None_iff validate_trace_json_exact trace_json_clock number_errors_clock)

lemma lesson_contract_clock:
  "validate_lesson_contract (rt\<lparr>rt_now := n\<rparr>) txt sc conf = None \<longleftrightarrow> validate_lesson_contract rt txt sc conf = None"
  unfolding validate_lesson_contract_def first_error_None_iff set_append ball_Un set_map ball_simps
  by (simp add: lesson_scope_error_def Let_def)

lemma memory_ok_clock [simp]: "memory_ok (rt\<lparr>rt_now := n\<rparr>) s \<longleftrightarrow> memory_ok rt s"
  by (simp add: memory_ok_defs validate_trace_clock validate_stored_lesson_def validate_stored_policy_def
      lesson_contract_clock)

lemma gate_ok_clock [simp]: "gate_ok (rt\<lparr>rt_now := n\<rparr>) s \<longleftrightarrow> gate_ok rt s"
proof -
  have "decision_number (rt\<lparr>rt_now := n\<rparr>) d = decision_number rt d" for d
    by (cases "strip_prefix (u ''decision_'') d") (simp_all add: decision_number_def parse_decimal_def)
  then show ?thesis by (simp add: gate_ok_def numbers_ok_def)
qed

lemma store_ok_clock [simp]: "store_ok (rt\<lparr>rt_now := n\<rparr>) s \<longleftrightarrow> store_ok rt s"
  by (simp add: store_ok_def)

text \<open>The operations on memories touch neither the logs nor the requests.\<close>

definition frame :: "store \<Rightarrow> store \<Rightarrow> bool" where
  "frame s s' \<longleftrightarrow> st_usage_logs s' = st_usage_logs s \<and> gate_view s' = gate_view s"

lemma frame_refl [simp]: "frame s s"
  by (simp add: frame_def)

lemma frame_ok:
  assumes "frame s s'" and "extends s s'" and "memory_ok rt s'" and "store_ok rt s"
  shows "store_ok rt s'"
proof -
  from assms(1) have "st_usage_logs s' = st_usage_logs s" "st_usage_log_indexes s' = st_usage_log_indexes s"
    and view: "gate_view s' = gate_view s"
    by (simp_all add: frame_def gate_view_def)
  moreover from assms(4) have "logs_ok s" by (simp add: store_ok_def)
  ultimately have "logs_ok s'" using logs_ok_extends [OF _ assms(2)] by blast
  with assms(3,4) gate_ok_view [OF view] show ?thesis by (simp add: store_ok_def)
qed

lemma memory_ops_frame:
  "record_trace rt t s = Inr (t', s') \<Longrightarrow> frame s s'"
  "complete_trace rt i r args s = Inr (t', s') \<Longrightarrow> frame s s'"
  "add_failure_case c s = Inr (c', s') \<Longrightarrow> frame s s'"
  "store_review_failure_case rt i who cause ft sy notes ts s = Inr (c', s') \<Longrightarrow> frame s s'"
  "store_verify_failure_case i fix sha passed s = Inr (c', s') \<Longrightarrow> frame s s'"
  "store_obsolete_failure_case rt i s = Inr (c', s') \<Longrightarrow> frame s s'"
  "add_lesson rt l s = Inr (l', s') \<Longrightarrow> frame s s'"
  "store_obsolete_lesson rt i s = Inr (l', s') \<Longrightarrow> frame s s'"
  "add_project_policy rt p s = Inr (p', s') \<Longrightarrow> frame s s'"
  "store_obsolete_project_policy rt i s = Inr (p', s') \<Longrightarrow> frame s s'"
  "obsolete_memories rt rs s = Inr (ms, s') \<Longrightarrow> frame s s'"
  unfolding frame_def gate_view_def
  by (auto elim!: complete_trace_Inr store_review_failure_case_Inr store_verify_failure_case_Inr
      dest!: obsolete_memories_Inr(1)
      simp: record_trace_Inr_iff add_failure_case_Inr_iff store_obsolete_failure_case_Inr_iff
        add_lesson_Inr_iff add_project_policy_Inr_iff store_obsolete_lesson_def store_obsolete_project_policy_def
        result_simps Let_def retired_store_def split: if_splits)

lemma runs_advance_store_ok:
  assumes "runs_advance rt s s'" and "store_ok rt s"
  shows "store_ok rt s'"
proof -
  have "gate_view s' = gate_view s" by (simp add: gate_view_def runs_advance_same [OF assms(1)])
  from gate_ok_view [OF this] assms(2) have "gate_ok rt s'" by (simp add: store_ok_def)
  moreover have "memory_ok rt s'" "logs_ok s'"
    using assms(2) runs_advance_ok [OF assms(1)] by (simp_all add: store_ok_def)
  ultimately show ?thesis by (simp add: store_ok_def)
qed

lemmas memory_ops_ok = record_trace_ok complete_trace_ok add_failure_case_ok store_review_failure_case_ok
  store_verify_failure_case_ok store_obsolete_failure_case_ok add_lesson_ok store_obsolete_lesson_ok
  add_project_policy_ok store_obsolete_project_policy_ok obsolete_memories_ok

lemmas memory_ops_extend = record_trace_extends complete_trace_extends case_ops_extend lesson_ops_extend
  policy_ops_extend obsolete_memories_extends

lemmas run_ops_advance = record_decision_outcome_advance complete_memory_run_advance
  complete_memory_runs_advance recover_memory_run_advance recover_memory_runs_advance
  recover_ready_memory_runs_advance

lemma store_okD: "store_ok rt s \<Longrightarrow> memory_ok rt s" "store_ok rt s \<Longrightarrow> logs_ok s" "store_ok rt s \<Longrightarrow> gate_ok rt s"
  by (simp_all add: store_ok_def)

lemma gate_ops_ok:
  "prepare_memory rt cx task tid args summary s = Inr (r, s') \<Longrightarrow> store_ok rt s \<Longrightarrow> store_ok rt s'"
  "finalize_memory rt q d i res b s = Inr (g, s') \<Longrightarrow> store_ok rt s \<Longrightarrow> store_ok rt s'"
  "cancel_memory_request q s = Inr (un, s') \<Longrightarrow> store_ok rt s \<Longrightarrow> store_ok rt s'"
  "log_decision rt run cx ids md res b s = Inr (l, s') \<Longrightarrow> store_ok rt s \<Longrightarrow> store_ok rt s'"
  by (auto simp: store_ok_def prepare_memory_same(1)
      intro: prepare_memory_same(2) prepare_memory_gate_ok)
     (auto simp: store_ok_def cancel_memory_request_ok(1) intro: finalize_memory_ok log_decision_ok
      cancel_memory_request_ok)

lemma memory_ops_store_ok:
  assumes ok: "store_ok rt s"
  shows "record_trace rt t s = Inr (t', s') \<Longrightarrow> store_ok rt s'"
    "complete_trace rt i r args s = Inr (t', s') \<Longrightarrow> store_ok rt s'"
    "add_failure_case c s = Inr (c', s') \<Longrightarrow> store_ok rt s'"
    "store_review_failure_case rt i who cause ft sy notes ts s = Inr (c', s') \<Longrightarrow> store_ok rt s'"
    "store_verify_failure_case i fix sha passed s = Inr (c', s') \<Longrightarrow> store_ok rt s'"
    "store_obsolete_failure_case rt i s = Inr (c', s') \<Longrightarrow> store_ok rt s'"
    "add_lesson rt l s = Inr (l', s') \<Longrightarrow> store_ok rt s'"
    "store_obsolete_lesson rt i s = Inr (l', s') \<Longrightarrow> store_ok rt s'"
    "add_project_policy rt p s = Inr (p', s') \<Longrightarrow> store_ok rt s'"
    "store_obsolete_project_policy rt i s = Inr (p', s') \<Longrightarrow> store_ok rt s'"
    "obsolete_memories rt rs s = Inr (ms, s') \<Longrightarrow> store_ok rt s'"
  by (rule frame_ok [OF _ _ _ ok], erule memory_ops_frame, erule memory_ops_extend,
      erule memory_ops_ok [OF store_okD(1) [OF ok]])+

lemma rfold_ok:
  assumes "\<And>x s s'. f x s = Inr s' \<Longrightarrow> store_ok rt s \<Longrightarrow> store_ok rt s'"
    and "rfold f xs s = Inr s'" "store_ok rt s"
  shows "store_ok rt s'"
  using assms(2,3) by (induction xs arbitrary: s) (auto simp: result_simps dest: assms(1))

lemma next_ok:
  "next_store (record_trace rt t s) = Inr s' \<Longrightarrow> store_ok rt s \<Longrightarrow> store_ok rt s'"
  "next_store (add_failure_case c s) = Inr s' \<Longrightarrow> store_ok rt s \<Longrightarrow> store_ok rt s'"
  "next_store (add_lesson rt l s) = Inr s' \<Longrightarrow> store_ok rt s \<Longrightarrow> store_ok rt s'"
  "next_store (add_project_policy rt p s) = Inr s' \<Longrightarrow> store_ok rt s \<Longrightarrow> store_ok rt s'"
  by (auto simp: next_store_Inr_iff dest: memory_ops_store_ok)

lemma load_lessons_ok: "load_lessons_yaml rt ls s = Inr (x, s') \<Longrightarrow> store_ok rt s \<Longrightarrow> store_ok rt s'"
  by (rule rfold_ok [OF next_ok(3) load_lessons_adds(3)])

lemma apply_op_ok:
  assumes "apply_op rt op s = Inr s'" and ok: "store_ok rt s"
  shows "store_ok rt s'"
proof -
  note run = runs_advance_store_ok [OF run_ops_advance(1) ok] runs_advance_store_ok [OF run_ops_advance(2) ok]
    runs_advance_store_ok [OF run_ops_advance(3) ok] runs_advance_store_ok [OF run_ops_advance(4) ok]
    runs_advance_store_ok [OF run_ops_advance(5) ok] runs_advance_store_ok [OF run_ops_advance(6) ok]
  from assms(1) show ?thesis
    by (cases op) (auto simp: next_store_Inr_iff
        intro: memory_ops_store_ok [OF ok] load_lessons_ok [OF _ ok] run [OF store_okD(1,2) [OF ok]] gate_ops_ok ok)
qed

section \<open>Loading keeps the invariant\<close>

lemma load_usage_log_Inr:
  assumes "load_usage_log rt v2 l s = Inr s'"
  obtains l' where "log_ok s l'" "append_usage_log rt l' s = Inr s'" "v2 \<Longrightarrow> l' = l"
  using assms by (auto simp: load_usage_log_def result_simps log_ok_def split: if_splits)

lemma load_usage_log_ok: "load_usage_log rt v2 l s = Inr s' \<Longrightarrow> store_ok rt s \<Longrightarrow> store_ok rt s'"
  by (erule load_usage_log_Inr) (auto simp: store_ok_def intro: append_logs_ok append_memory_ok append_gate_ok)

lemma from_snapshot_store_ok:
  assumes "from_snapshot rt max_each max_all token sid data = Inr s"
  shows "store_ok rt s"
proof -
  from assms obtain v2 s1 s2 s3 s4 where
    "rfold (\<lambda>t s. next_store (record_trace rt t s)) (sn_traces data) (new_store token sid) = Inr s1"
    "rfold (\<lambda>c s. next_store (add_failure_case c s)) (sn_failure_cases data) s1 = Inr s2"
    "rfold (\<lambda>l s. next_store (add_lesson rt l s)) (sn_lessons data) s2 = Inr s3"
    "rfold (\<lambda>p s. next_store (add_project_policy rt p s)) (sn_project_policies data) s3 = Inr s4"
    and logs: "rfold (load_usage_log rt v2) (sn_usage_logs data) s4 = Inr s"
    by (auto simp: from_snapshot_def result_simps)
  then have "store_ok rt s4"
    by - (rule rfold_ok, erule next_ok(4), assumption, assumption,
      rule rfold_ok, erule next_ok(3), assumption, assumption,
      rule rfold_ok, erule next_ok(2), assumption, assumption,
      rule rfold_ok, erule next_ok(1), assumption, assumption, rule store_ok_new_store)
  then show ?thesis using rfold_ok [OF _ logs] load_usage_log_ok by blast
qed

lemma first_store_ok: "first_store rt s \<Longrightarrow> store_ok rt s"
  by (auto simp: first_store_def store_ok_new_store dest: from_snapshot_store_ok)

section \<open>The machine\<close>

interpretation tbm: invariant_machine "store_step rt" "first_store rt" "store_ok rt" for rt
proof unfold_locales
  show "first_store rt s \<Longrightarrow> store_ok rt s" for s by (rule first_store_ok)
  show "store_ok rt s \<Longrightarrow> store_step rt op s = Inr t \<Longrightarrow> store_ok rt t" for op s t
    using apply_op_ok [of "rt\<lparr>rt_now := fst op\<rparr>" "snd op" s t] by (simp add: store_step_def)
qed

section \<open>Evidence only grows\<close>

definition keeps :: "('v \<Rightarrow> 'v \<Rightarrow> bool) \<Rightarrow> (pystr, 'v) dict \<Rightarrow> (pystr, 'v) dict \<Rightarrow> bool" where
  "keeps R d d' \<longleftrightarrow> (\<forall>k x. dict_get d k = Some x \<longrightarrow> (\<exists>y. dict_get d' k = Some y \<and> R x y))"

lemma keeps_refl: "(\<And>x. R x x) \<Longrightarrow> keeps R d d"
  by (simp add: keeps_def)

lemma keeps_trans:
  "keeps R a b \<Longrightarrow> keeps R b c \<Longrightarrow> (\<And>x y z. R x y \<Longrightarrow> R y z \<Longrightarrow> R x z) \<Longrightarrow> keeps R a c"
  unfolding keeps_def by (metis (no_types, lifting))

lemma keeps_set_new: "dict_get d k = None \<Longrightarrow> (\<And>x. R x x) \<Longrightarrow> keeps R d (dict_set k v d)"
  by (auto simp: keeps_def dict_get_set)

lemma keeps_set: "dict_get d k = Some x \<Longrightarrow> R x v \<Longrightarrow> (\<And>x. R x x) \<Longrightarrow> keeps R d (dict_set k v d)"
  by (auto simp: keeps_def dict_get_set)

lemma keeps_retires: "retires f d d' \<Longrightarrow> (\<And>x. R x x) \<Longrightarrow> (\<And>x. R x (f x)) \<Longrightarrow> keeps R d d'"
  unfolding keeps_def by (metis retires_getI)

text \<open>How a record may change: a trace as \<open>trace_step\<close> allows, a case that is no longer a draft and
  every lesson and policy only into its obsolete form, a log as \<open>log_step\<close> allows.\<close>

definition case_after :: "FailureCase \<Rightarrow> FailureCase \<Rightarrow> bool" where
  "case_after c c' \<longleftrightarrow> fc_case_id c' = fc_case_id c \<and> fc_source_trace_id c' = fc_source_trace_id c \<and>
     fc_commit_sha c' = fc_commit_sha c \<and>
     (fc_status c \<noteq> u ''draft'' \<longrightarrow> c' = c \<or> c' = obsolete_failure_case c)"

definition lesson_after :: "Lesson \<Rightarrow> Lesson \<Rightarrow> bool" where
  "lesson_after l l' \<longleftrightarrow> l' = l \<or> l' = obsolete_lesson l"

definition policy_after :: "ProjectPolicy \<Rightarrow> ProjectPolicy \<Rightarrow> bool" where
  "policy_after p p' \<longleftrightarrow> p' = p \<or> p' = obsolete_project_policy p"

definition logs_grow :: "MemoryUsageLog list \<Rightarrow> MemoryUsageLog list \<Rightarrow> bool" where
  "logs_grow ls ls' \<longleftrightarrow> length ls \<le> length ls' \<and> (\<forall>i<length ls. log_step (ls ! i) (ls' ! i))"

definition evolves :: "store \<Rightarrow> store \<Rightarrow> bool" where
  "evolves s s' \<longleftrightarrow>
     keeps trace_step (st_traces s) (st_traces s') \<and> keeps case_after (st_failure_cases s) (st_failure_cases s') \<and>
     keeps lesson_after (st_lessons s) (st_lessons s') \<and>
     keeps policy_after (st_project_policies s) (st_project_policies s') \<and>
     logs_grow (st_usage_logs s) (st_usage_logs s')"

lemma after_refl [simp]: "case_after c c" "lesson_after l l" "policy_after p p"
  by (simp_all add: case_after_def lesson_after_def policy_after_def)

lemma after_obsolete [simp]: "case_after c (obsolete_failure_case c)" "lesson_after l (obsolete_lesson l)"
  "policy_after p (obsolete_project_policy p)"
  by (simp_all add: case_after_def lesson_after_def policy_after_def obsolete_failure_case_def)

lemma after_trans:
  "trace_step t t' \<Longrightarrow> trace_step t' t'' \<Longrightarrow> trace_step t t''"
  "case_after c c' \<Longrightarrow> case_after c' c'' \<Longrightarrow> case_after c c''"
  "lesson_after l l' \<Longrightarrow> lesson_after l' l'' \<Longrightarrow> lesson_after l l''"
  "policy_after p p' \<Longrightarrow> policy_after p' p'' \<Longrightarrow> policy_after p p''"
  "log_step g g' \<Longrightarrow> log_step g' g'' \<Longrightarrow> log_step g g''"
proof -
  have idem: "obsolete_failure_case (obsolete_failure_case x) = obsolete_failure_case x"
    "obsolete_lesson (obsolete_lesson y) = obsolete_lesson y"
    "obsolete_project_policy (obsolete_project_policy z) = obsolete_project_policy z" for x y z
    by (simp_all add: obsolete_failure_case_def obsolete_lesson_def obsolete_project_policy_def)
  have st: "fc_status (obsolete_failure_case x) \<noteq> u ''draft''" for x
    by (simp add: obsolete_failure_case_def)
  show "trace_step t t' \<Longrightarrow> trace_step t' t'' \<Longrightarrow> trace_step t t''"
    unfolding trace_step_def by metis
  show "log_step g g' \<Longrightarrow> log_step g' g'' \<Longrightarrow> log_step g g''"
    unfolding log_step_def by metis
  show "case_after c c' \<Longrightarrow> case_after c' c'' \<Longrightarrow> case_after c c''"
    unfolding case_after_def using idem(1) st by metis
  show "lesson_after l l' \<Longrightarrow> lesson_after l' l'' \<Longrightarrow> lesson_after l l''"
    unfolding lesson_after_def using idem(2) by metis
  show "policy_after p p' \<Longrightarrow> policy_after p' p'' \<Longrightarrow> policy_after p p''"
    unfolding policy_after_def using idem(3) by metis
qed

lemma logs_grow_refl [simp]: "logs_grow ls ls"
  by (simp add: logs_grow_def)

lemma logs_grow_trans: "logs_grow a b \<Longrightarrow> logs_grow b c \<Longrightarrow> logs_grow a c"
  unfolding logs_grow_def by (meson after_trans(5) le_trans less_le_trans)

lemma logs_grow_append [simp]: "logs_grow ls (ls @ new)"
  by (simp add: logs_grow_def nth_append)

lemma logs_grow_steps: "list_all2 log_step ls ls' \<Longrightarrow> logs_grow ls ls'"
  by (simp add: logs_grow_def list_all2_conv_all_nth)

lemmas keeps_refls [simp] = keeps_refl [of trace_step, OF trace_step_refl]
  keeps_refl [of case_after, OF after_refl(1)] keeps_refl [of lesson_after, OF after_refl(2)]
  keeps_refl [of policy_after, OF after_refl(3)]

lemmas keeps_sets = keeps_set [where R = trace_step, OF _ _ trace_step_refl]
  keeps_set [where R = case_after, OF _ _ after_refl(1)] keeps_set [where R = lesson_after, OF _ _ after_refl(2)]
  keeps_set [where R = policy_after, OF _ _ after_refl(3)]

lemma evolves_refl [simp]: "evolves s s"
  by (simp add: evolves_def)

lemma evolvesD:
  assumes "evolves s s'"
  shows "keeps trace_step (st_traces s) (st_traces s')" "keeps case_after (st_failure_cases s) (st_failure_cases s')"
    "keeps lesson_after (st_lessons s) (st_lessons s')"
    "keeps policy_after (st_project_policies s) (st_project_policies s')"
    "logs_grow (st_usage_logs s) (st_usage_logs s')"
  using assms unfolding evolves_def by blast+

lemma evolves_trans:
  assumes "evolves a b" and "evolves b c"
  shows "evolves a c"
proof -
  note keep = evolvesD [OF assms(1)] evolvesD [OF assms(2)]
  have "keeps trace_step (st_traces a) (st_traces c)"
    by (rule keeps_trans [OF keep(1,6)]) (rule after_trans(1))
  moreover have "keeps case_after (st_failure_cases a) (st_failure_cases c)"
    by (rule keeps_trans [OF keep(2,7)]) (rule after_trans(2))
  moreover have "keeps lesson_after (st_lessons a) (st_lessons c)"
    by (rule keeps_trans [OF keep(3,8)]) (rule after_trans(3))
  moreover have "keeps policy_after (st_project_policies a) (st_project_policies c)"
    by (rule keeps_trans [OF keep(4,9)]) (rule after_trans(4))
  ultimately show ?thesis using logs_grow_trans [OF keep(5,10)] by (simp add: evolves_def)
qed

lemma evolves_same_logs:
  "frame s s' \<Longrightarrow> keeps trace_step (st_traces s) (st_traces s') \<Longrightarrow>
   keeps case_after (st_failure_cases s) (st_failure_cases s') \<Longrightarrow>
   keeps lesson_after (st_lessons s) (st_lessons s') \<Longrightarrow>
   keeps policy_after (st_project_policies s) (st_project_policies s') \<Longrightarrow> evolves s s'"
  by (simp add: evolves_def frame_def)

lemma memory_ops_evolve:
  assumes ok: "memory_ok rt s"
  shows "record_trace rt t s = Inr (t', s') \<Longrightarrow> evolves s s'"
    "complete_trace rt i r args s = Inr (t', s') \<Longrightarrow> evolves s s'"
    "add_failure_case c s = Inr (c', s') \<Longrightarrow> evolves s s'"
    "store_review_failure_case rt i who cause ft sy notes ts s = Inr (c', s') \<Longrightarrow> evolves s s'"
    "store_verify_failure_case i fix sha passed s = Inr (c', s') \<Longrightarrow> evolves s s'"
    "add_lesson rt l s = Inr (l', s') \<Longrightarrow> evolves s s'"
    "add_project_policy rt p s = Inr (p', s') \<Longrightarrow> evolves s s'"
proof -
  show "record_trace rt t s = Inr (t', s') \<Longrightarrow> evolves s s'"
    by (rule evolves_same_logs, erule memory_ops_frame)
       (auto simp: record_trace_Inr_iff intro: keeps_set_new)
  show "complete_trace rt i r args s = Inr (t', s') \<Longrightarrow> evolves s s'"
    by (rule evolves_same_logs, erule memory_ops_frame)
       (auto elim!: complete_trace_Inr elim: keeps_sets(1) [OF _ completed_trace_candidate_Inr(1)])
  show "add_failure_case c s = Inr (c', s') \<Longrightarrow> evolves s s'"
    by (rule evolves_same_logs, erule memory_ops_frame)
       (auto simp: add_failure_case_Inr_iff intro: keeps_set_new)
  have rev: "case_after x y" if "review_failure_case rt x who cause ft sy notes ts = Inr y" for x y
    using that by (auto simp: review_failure_case_def result_simps case_after_def)
  have ver: "case_after x y" if "verify_failure_case x fix sha passed = Inr y" for x y
    using that by (auto simp: verify_failure_case_Inr_iff case_after_def)
  show "store_review_failure_case rt i who cause ft sy notes ts s = Inr (c', s') \<Longrightarrow> evolves s s'"
    by (rule evolves_same_logs, erule memory_ops_frame)
       (auto elim!: store_review_failure_case_Inr elim: keeps_sets(2) [OF _ rev])
  show "store_verify_failure_case i fix sha passed s = Inr (c', s') \<Longrightarrow> evolves s s'"
    by (rule evolves_same_logs, erule memory_ops_frame)
       (auto elim!: store_verify_failure_case_Inr elim: keeps_sets(2) [OF _ ver])
  show "add_lesson rt l s = Inr (l', s') \<Longrightarrow> evolves s s'"
    by (rule evolves_same_logs, erule memory_ops_frame)
       (auto simp: add_lesson_Inr_iff intro: keeps_set_new)
  show "add_project_policy rt p s = Inr (p', s') \<Longrightarrow> evolves s s'"
    by (rule evolves_same_logs, erule memory_ops_frame)
       (auto simp: add_project_policy_Inr_iff intro: keeps_set_new)
qed

lemma rfold_evolves:
  assumes "\<And>x s s'. f x s = Inr s' \<Longrightarrow> store_ok rt s \<Longrightarrow> store_ok rt s' \<and> evolves s s'"
    and "rfold f xs s = Inr s'" "store_ok rt s"
  shows "evolves s s'"
  using assms(2,3) by (induction xs arbitrary: s) (auto simp: result_simps dest!: assms(1) intro: evolves_trans)

lemma load_lessons_evolves:
  assumes "load_lessons_yaml rt ls s = Inr (x, s')" and "store_ok rt s"
  shows "evolves s s'"
proof (rule rfold_evolves [OF _ load_lessons_adds(3) [OF assms(1)] assms(2)])
  show "store_ok rt s' \<and> evolves s s'" if "next_store (add_lesson rt l s) = Inr s'" "store_ok rt s" for l s s'
    using that next_ok(3) memory_ops_evolve(6) [OF store_okD(1)] by (auto simp: next_store_Inr_iff)
qed

lemma obsolescence_evolves:
  assumes ok: "memory_ok rt s"
  shows "store_obsolete_failure_case rt i s = Inr (c', s') \<Longrightarrow> evolves s s'"
    "store_obsolete_lesson rt i s = Inr (l', s') \<Longrightarrow> evolves s s'"
    "store_obsolete_project_policy rt i s = Inr (p', s') \<Longrightarrow> evolves s s'"
    "obsolete_memories rt rs s = Inr (ms, s') \<Longrightarrow> evolves s s'"
proof -
  note d = memory_ok_dicts [OF ok]
  note ret = keeps_retires [of obsolete_failure_case _ _ case_after, OF _ after_refl(1) after_obsolete(1)]
    keeps_retires [of obsolete_lesson _ _ lesson_after, OF _ after_refl(2) after_obsolete(2)]
    keeps_retires [of obsolete_project_policy _ _ policy_after, OF _ after_refl(3) after_obsolete(3)]
  have cl: "keeps lesson_after (st_lessons s) (dict_update (st_lessons s) (case_lessons s i))"
    unfolding case_lessons_def by (rule ret(2)) (rule retires_self_update [OF d(3)], simp)
  show "store_obsolete_failure_case rt i s = Inr (c', s') \<Longrightarrow> evolves s s'"
    by (rule evolves_same_logs, erule memory_ops_frame)
       (auto simp: store_obsolete_failure_case_Inr_iff cl elim: keeps_sets(2) [OF _ after_obsolete(1)] split: if_splits)
  show "store_obsolete_lesson rt i s = Inr (l', s') \<Longrightarrow> evolves s s'"
    by (rule evolves_same_logs, erule memory_ops_frame)
       (auto simp: store_obsolete_lesson_def Let_def result_simps stored_record_Inr_iff 
         elim: keeps_sets(3) [OF _ after_obsolete(2)] split: if_splits)
  show "store_obsolete_project_policy rt i s = Inr (p', s') \<Longrightarrow> evolves s s'"
    by (rule evolves_same_logs, erule memory_ops_frame)
       (auto simp: store_obsolete_project_policy_def Let_def result_simps stored_record_Inr_iff 
         elim: keeps_sets(4) [OF _ after_obsolete(3)] split: if_splits)
  show "evolves s s'" if r: "obsolete_memories rt rs s = Inr (ms, s')"
    using ret(1) [OF retires_cases [OF d(2)]] ret(2) [OF retires_lessons [OF d(3)]] ret(3) [OF retires_policies [OF d(4)]]
    by (intro evolves_same_logs memory_ops_frame(11) [OF r])
       (simp_all add: obsolete_memories_Inr(1) [OF r] retired_store_def)
qed

lemma runs_advance_evolves:
  assumes "runs_advance rt s s'"
  shows "evolves s s'"
  using traces_advance_get(2) [OF runs_advanceD(1) [OF assms]] logs_grow_steps [OF runs_advanceD(2) [OF assms]]
  by (auto simp: evolves_def runs_advance_same [OF assms] keeps_def [of trace_step])

lemma append_evolves: "append_usage_log rt l s = Inr s' \<Longrightarrow> evolves s s'"
  by (auto simp: append_usage_log_Inr_iff evolves_def)

lemma evolves_requests: "evolves s (s\<lparr>st_next_gate_request_number := n, st_pending_gate_requests := p\<rparr>)"
  "evolves s (s\<lparr>st_pending_gate_requests := p\<rparr>)" "evolves s (finish_request i s)"
  by (simp_all add: evolves_def)

lemma gate_ops_evolve:
  "prepare_memory rt cx task tid args summary s = Inr (r, s') \<Longrightarrow> evolves s s'"
  "finalize_memory rt q d i res b s = Inr (g, s') \<Longrightarrow> evolves s s'"
  "cancel_memory_request q s = Inr (un, s') \<Longrightarrow> evolves s s'"
  "log_decision rt run cx ids md res b s = Inr (l, s') \<Longrightarrow> evolves s s'"
     apply (elim prepare_memory_InrE, simp only:, rule evolves_requests)
    apply (elim finalize_memory_InrE, simp only:)
    apply (rule evolves_trans [OF append_evolves evolves_requests(3)], assumption)
   apply (auto simp: cancel_memory_request_def result_simps evolves_requests)[1]
  apply (elim log_decision_InrE, erule append_evolves)
  done

lemma apply_op_evolves:
  assumes "apply_op rt op s = Inr s'" and ok: "store_ok rt s"
  shows "evolves s s'"
proof -
  note run = runs_advance_evolves [OF run_ops_advance(1)] runs_advance_evolves [OF run_ops_advance(2)]
    runs_advance_evolves [OF run_ops_advance(3)] runs_advance_evolves [OF run_ops_advance(4)]
    runs_advance_evolves [OF run_ops_advance(5)] runs_advance_evolves [OF run_ops_advance(6)]
  from assms(1) show ?thesis
    by (cases op) (auto simp: next_store_Inr_iff
        intro: memory_ops_evolve [OF store_okD(1) [OF ok]] load_lessons_evolves [OF _ ok] obsolescence_evolves [OF store_okD(1) [OF ok]]
          run [OF store_okD(1,2) [OF ok]] gate_ops_evolve)
qed

interpretation tbm: monotone_machine "store_step rt" "first_store rt" "store_ok rt" evolves for rt
proof unfold_locales
  show "evolves s t" if "store_ok rt s" "store_step rt op s = Inr t" for op s t
    using apply_op_evolves [of "rt\<lparr>rt_now := fst op\<rparr>" "snd op" s t] that by (simp add: store_step_def)
qed (auto intro: evolves_trans)

section \<open>A request ends at most once\<close>

text \<open>An id that was given out and is no longer pending: no later step makes it pending again.\<close>

definition spent :: "pystr \<Rightarrow> store \<Rightarrow> bool" where
  "spent i s \<longleftrightarrow> i \<in> request_ids s \<and> dict_get (st_pending_gate_requests s) i = None"

lemma spent_view: "gate_view s' = gate_view s \<Longrightarrow> spent i s' = spent i s"
  by (simp add: spent_def gate_view_def request_ids_def)

lemma append_spent: "append_usage_log rt l s = Inr s' \<Longrightarrow> spent i s \<Longrightarrow> spent i s'"
  using request_ids_mono [of s' s] by (auto simp: append_usage_log_Inr_iff spent_def bump_le)

lemma request_ids_finish [simp]: "request_ids (finish_request i s) = request_ids s"
  by (simp add: request_ids_def finish_request_def Let_def split_beta)

lemma finish_spent: "spent i s \<Longrightarrow> spent i (finish_request j s)"
  by (simp add: spent_def dict_get_pop)

lemma prepare_spent:
  assumes "prepare_memory rt cx task tid args summary s = Inr (r, s')" and "spent i s"
  shows "spent i s'"
proof -
  obtain trace cs a b prompt where r: "r = prepared_request s cx trace cs a b prompt"
    and s': "s' = s\<lparr>st_next_gate_request_number := st_next_gate_request_number s + 1,
           st_pending_gate_requests := dict_set (gr_request_id r) r (st_pending_gate_requests s)\<rparr>"
    by (rule prepare_memory_InrE [OF assms(1)])
  have "request_ids s \<subseteq> request_ids s'" by (rule request_ids_mono) (simp_all add: s')
  moreover have "gr_request_id r \<noteq> i"
    using assms(2) new_request_id_fresh [of s] by (auto simp: r prepared_request_def spent_def)
  ultimately show ?thesis using assms(2) by (auto simp: spent_def s' dict_get_set)
qed

lemma gate_ops_spent:
  "finalize_memory rt q d i res b s = Inr (g, s') \<Longrightarrow> spent j s \<Longrightarrow> spent j s'"
  "cancel_memory_request q s = Inr (un, s') \<Longrightarrow> spent j s \<Longrightarrow> spent j s'"
  "log_decision rt run cx ids md res b s = Inr (l, s') \<Longrightarrow> spent j s \<Longrightarrow> spent j s'"
    apply (elim finalize_memory_InrE, simp only:, rule finish_spent, erule append_spent, assumption)
   apply (auto simp: cancel_memory_request_def result_simps spent_def dict_get_pop request_ids_def)[1]
  apply (elim log_decision_InrE, erule append_spent, assumption)
  done

lemma load_lessons_view: "load_lessons_yaml rt ls s = Inr (x, s') \<Longrightarrow> gate_view s' = gate_view s"
  by (auto simp: load_lessons_yaml_def gate_view_def result_simps)

lemma apply_op_spent:
  assumes "apply_op rt op s = Inr s'" and ok: "store_ok rt s" and sp: "spent i s"
  shows "spent i s'"
proof -
  note mem = memory_ops_frame [unfolded frame_def, THEN conjunct2]
  note run = run_ops_advance [OF store_okD(1,2) [OF ok]]
  have adv: "spent i t" if "runs_advance rt s t" for t
    using sp spent_view [of t s i] by (simp add: gate_view_def runs_advance_same [OF that])
  have frm: "spent i t" if "gate_view t = gate_view s" for t
    using sp spent_view [OF that] by simp
  from assms(1) show ?thesis
    by (cases op) (auto simp: next_store_Inr_iff intro: frm mem load_lessons_view adv run prepare_spent [OF _ sp] gate_ops_spent [OF _ sp])
qed

lemma run_spent:
  assumes "store_ok rt s" and "spent i s"
  shows "store_ok rt (fold (machine.exec (store_step rt)) calls s) \<and>
    spent i (fold (machine.exec (store_step rt)) calls s)"
  using assms
proof (induction calls arbitrary: s)
  case (Cons call calls)
  have "store_ok rt (machine.exec (store_step rt) call s) \<and> spent i (machine.exec (store_step rt) call s)"
  proof (cases "store_step rt call s")
    case (Inr t)
    with Cons.prems show ?thesis
      using tbm.inv_step [of rt s call t] apply_op_spent [of "rt\<lparr>rt_now := fst call\<rparr>" "snd call" s t i]
      by (simp add: machine.exec_def store_step_def)
  qed (use Cons.prems in \<open>simp add: machine.exec_def\<close>)
  with Cons.IH show ?case by simp
qed simp

text \<open>A spent request can be neither finalized nor cancelled.\<close>

lemma spent_refused:
  assumes "spent (gr_request_id r) s"
  shows "\<exists>e. finalize_memory rt r payload tid res caused s = Inl e" "\<exists>e. cancel_memory_request r s = Inl e"
proof -
  have "pending_request_error r s \<noteq> None" using assms by (auto simp: pending_request_error_def spent_def)
  then have "first_error xs \<noteq> None" if "pending_request_error r s \<in> set xs" for xs
    using that by (metis first_error_None_iff)
  then show "\<exists>e. finalize_memory rt r payload tid res caused s = Inl e" "\<exists>e. cancel_memory_request r s = Inl e"
    unfolding finalize_memory_def cancel_memory_request_def or_raise_Inl_iff
    by (meson list.set_intros option.exhaust)+
qed

lemma ended_spent:
  assumes "store_ok rt s"
  shows "finalize_memory rt r payload tid res caused s = Inr (g, s') \<Longrightarrow> spent (gr_request_id r) s'"
    "cancel_memory_request r s = Inr (un, s') \<Longrightarrow> spent (gr_request_id r) s'"
proof -
  have known: "gr_request_id r \<in> request_ids s"
    if "own_request_error r s = None" "pending_request_error r s = None"
    using own_pending_request [OF that] assms by (auto simp: store_ok_def gate_ok_def requests_ok_def)
  show "finalize_memory rt r payload tid res caused s = Inr (g, s') \<Longrightarrow> spent (gr_request_id r) s'"
  proof (elim finalize_memory_InrE)
    fix l s1
    assume o: "own_request_error r s = None" "pending_request_error r s = None"
      and app: "append_usage_log rt l s = Inr s1" and s': "s' = finish_request (gr_request_id r) s1"
    have "request_ids s \<subseteq> request_ids s1"
      by (rule request_ids_mono) (use app in \<open>auto simp: append_usage_log_Inr_iff bump_le\<close>)
    with known [OF o] show ?thesis by (auto simp: spent_def s' dict_get_pop)
  qed
  show "cancel_memory_request r s = Inr (un, s') \<Longrightarrow> spent (gr_request_id r) s'"
    using known by (auto simp: cancel_memory_request_def result_simps spent_def dict_get_pop request_ids_def)
qed

section \<open>Runs\<close>

text \<open>What a client sees of a sequence of calls on one store.\<close>

definition run_calls :: "runtime \<Rightarrow> (datetime \<times> store_op) list \<Rightarrow> store \<Rightarrow> store" where
  "run_calls rt = fold (\<lambda>call s. case store_step rt call s of Inl _ \<Rightarrow> s | Inr t \<Rightarrow> t)"

lemma run_calls_exec: "run_calls rt = fold (machine.exec (store_step rt))"
  unfolding run_calls_def machine.exec_def ..

lemma run_calls_Nil [simp]: "run_calls rt [] s = s"
  by (simp add: run_calls_def)

lemma run_calls_Cons: "store_step rt call s = Inr t \<Longrightarrow> run_calls rt (call # calls) s = run_calls rt calls t"
  by (simp add: run_calls_def)

lemma run_calls_append: "run_calls rt (xs @ ys) s = run_calls rt ys (run_calls rt xs s)"
  by (simp add: run_calls_def)

lemma run_calls_ok: "first_store rt s \<Longrightarrow> store_ok rt (run_calls rt calls s)"
  unfolding run_calls_exec by (rule tbm.run_inv)

lemma run_calls_evolves:
  "first_store rt s \<Longrightarrow> evolves (run_calls rt calls s) (run_calls rt later (run_calls rt calls s))"
  unfolding run_calls_exec by (rule tbm.run_le, rule tbm.run_reachable, rule tbm.initial)

text \<open>The stores that a client can have in hand, on a host \<open>rt\<close> whatever its clock showed before.\<close>

definition reached :: "runtime \<Rightarrow> store \<Rightarrow> bool" where
  "reached rt s \<longleftrightarrow> (\<exists>calls s0. first_store rt s0 \<and> s = run_calls rt calls s0)"

lemma reached_ok:
  assumes "reached rt s"
  shows "store_ok rt s" "memory_ok rt s" "logs_ok s" "gate_ok rt s"
  using assms run_calls_ok by (auto simp: reached_def store_ok_def)

lemma reached_step: "reached rt s \<Longrightarrow> store_step rt call s = Inr t \<Longrightarrow> reached rt t"
  unfolding reached_def by (metis run_calls_append run_calls_Cons run_calls_Nil)

lemma reached_run: "reached rt s \<Longrightarrow> reached rt (run_calls rt calls s)"
  unfolding reached_def by (metis run_calls_append)

lemma reached_evolves: "reached rt s \<Longrightarrow> evolves s (run_calls rt calls s)"
  unfolding reached_def using run_calls_evolves by blast

lemma reached_spent: "reached rt s \<Longrightarrow> spent i s \<Longrightarrow> spent i (run_calls rt calls s)"
  unfolding run_calls_exec using run_spent reached_ok(1) by blast

end
