(* ===== verification/Sample.thy ===== *)
theory Sample
  imports StoreInv InjectionFacts
begin

text \<open>
  A concrete host and concrete records, on which the witnesses of the properties are evaluated.
  The host reads 2026-01-02T03:04:05.000006Z, knows the ASCII digits and letters and decodes one
  text, the answer of a semantic gate.
\<close>

definition sample_now :: datetime where
  "sample_now = \<lparr>dt_year = 2026, dt_month = 1, dt_day = 2, dt_hour = 3, dt_minute = 4, dt_second = 5,
     dt_microsecond = 6, dt_offset = 0\<rparr>"

definition ascii_lower :: "nat \<Rightarrow> nat" where
  "ascii_lower c = (if 65 \<le> c \<and> c \<le> 90 then c + 32 else c)"

definition sample_decision_dict :: "pystr \<Rightarrow> pydict" where
  "sample_decision_dict memory_id =
     [(PStr (u ''use_memory''), PBool True),
      (PStr (u ''allowed_memory_ids''), PList [PStr memory_id]),
      (PStr (u ''blocked_memory_ids''), PList []),
      (PStr (u ''reason''), PStr (u ''relevant'')),
      (PStr (u ''risk''), PStr (u ''low'')),
      (PStr (u ''recommended_injection''), PStr (u ''short_summary''))]"

definition sample_runtime :: runtime where
  "sample_runtime =
     \<lparr>rt_now = sample_now,
      rt_is_printable = (\<lambda>c. 160 < c),
      rt_casefold = map ascii_lower,
      rt_lower = map ascii_lower,
      rt_is_word = (\<lambda>c. is_digit c \<or> 97 \<le> c \<and> c \<le> 122 \<or> 65 \<le> c \<and> c \<le> 90 \<or> c = 95),
      rt_decimal = (\<lambda>c. if is_digit c then Some (c - 48) else None),
      rt_format_number = (\<lambda>n. u ''1.0''),
      rt_max_str_digits = 4300,
      rt_is_identifier = (\<lambda>s. s \<noteq> [] \<and> list_all (\<lambda>c. 97 \<le> c \<and> c \<le> 122) s),
      rt_json_loads = (\<lambda>s. if s = u ''{...}'' then JsonValue (PDict (sample_decision_dict (u ''lesson_1'')))
                           else JsonSyntaxError (u ''Expecting value''))\<rparr>"

definition sample_context :: MemoryContext where
  "sample_context =
     \<lparr>mc_mode = u ''planning'', mc_repo = u ''app'', mc_commit_sha = u ''c2'', mc_branch = None,
      mc_prompt_version = None, mc_prompt_family = None, mc_tool = None, mc_tool_schema_version = None,
      mc_model = None, mc_model_family = None, mc_eval_suite = None, mc_task_type = None,
      mc_failure_type = None, mc_tenant = None, mc_input_hash = None\<rparr>"

definition sample_trace :: "string \<Rightarrow> string \<Rightarrow> Trace" where
  "sample_trace tid result =
     \<lparr>tr_trace_id = u tid, tr_run_id = u ''run_'' @ u tid, tr_commit_sha = u ''c2'', tr_repo = Some (u ''app''),
      tr_tenant = None, tr_branch = None, tr_dirty = False, tr_prompt_version = None,
      tr_prompt_family = None, tr_tool_schema_version = None, tr_model = None, tr_eval_suite = None,
      tr_input_hash = None, tr_output_hash = None, tr_retrieved_context = [],
      tr_tool_calls = [[(PStr (u ''name''), PStr (u ''search''))]], tr_tool_outputs = [],
      tr_eval_result = u result, tr_latency_ms = None, tr_cost_usd = None, tr_error = None,
      tr_trace_uri = None, tr_created_at = None\<rparr>"

definition sample_lesson :: Lesson where
  "sample_lesson =
     \<lparr>ls_lesson_id = u ''lesson_1'', ls_source_case_id = u ''case_1'', ls_lesson_text = u ''Retry once.'',
      ls_memory_type = u ''procedural'', ls_scope = [(u ''repo'', u ''app'')], ls_confidence = PyFloat 1,
      ls_sensitive = False, ls_eval_leaking = False, ls_status = u ''active'', ls_created_at = None\<rparr>"

definition sample_item :: MemoryItem where
  "sample_item =
     \<lparr>mi_memory_id = u ''lesson_1'', mi_status = u ''active'', mi_memory_type = u ''procedural'',
      mi_scope = [(u ''repo'', u ''app'')], mi_text = u ''Retry once.'', mi_source_trace_id = None,
      mi_source_case_id = Some (u ''case_1''), mi_confidence = PyFloat 1, mi_sensitive = False,
      mi_eval_leaking = False, mi_source_policy_id = None, mi_source_eval_suite = None,
      mi_source_input_hash = None, mi_full_text = None\<rparr>"

definition sample_decision :: MemoryDecision where
  "sample_decision =
     \<lparr>md_use_memory = True, md_allowed_memory_ids = [u ''lesson_1''], md_blocked_memory_ids = [],
      md_reason = u ''relevant'', md_risk = u ''low'', md_recommended_injection = u ''short_summary''\<rparr>"

section \<open>The records pass the checks\<close>

lemma sample_clock: "valid_clock sample_runtime"
  by (simp add: valid_clock_def valid_datetime_def sample_runtime_def sample_now_def days_in_month_def)

lemma sample_decimals: "ascii_decimals sample_runtime"
  by (simp add: ascii_decimals_def sample_runtime_def is_digit_def)

lemma sample_context_ok: "context_contract_error sample_context = None"
  by (simp add: context_contract_error_def context_required_def context_optional_def
      context_field_error_def policy_constants sample_context_def py_isspace_def)

lemma sample_item_passes: "blocked_reason sample_runtime sample_context sample_item = None"
  unfolding blocked_reason_None_iff using sample_context_ok
  by (simp add: memory_item_contract_error_def scope_field_error_def source_identity_error_def
      source_id_error_def policy_constants has_source_def is_current_benchmark_example_def
      scope_matches_def scope_context_values_def context_value_def num_between_def Let_def
      sample_context_def sample_item_def py_isspace_def)

lemma sample_gate: "system_gate sample_runtime sample_context [sample_item] = Inr ([sample_item], [])"
  using sample_item_passes
  by (simp add: system_gate_Inr_iff List.map_filter_simps blocked_reason_None_iff
      validated_memory_collection_None_iff, simp add: sample_item_def)

lemma sample_decision_accepted: "decision_accepted sample_decision"
  by (simp add: decision_accepted_def validated_decision_fields_Inr_iff sample_decision_def
      policy_constants py_isspace_def)

lemma sample_trace_json: "trace_json_within sample_runtime (sample_trace tid result)"
  by (simp add: trace_json_within_def json_items_ok_def json_list_def sample_trace_def max_list_def
      text_fits_def u_def utf8_char_size_def)

lemma sample_trace_valid:
  "tid \<noteq> [] \<Longrightarrow> \<not> blank (u tid) \<Longrightarrow> length tid \<le> 100 \<Longrightarrow> u result \<in> set EVAL_RESULTS \<Longrightarrow>
     validate_trace sample_runtime (sample_trace tid result) = None"
  using sample_trace_json [of tid result]
  by (simp add: validate_trace_def trace_optional_fields_def latency_error_def cost_error_def
      validate_trace_json_exact)
     (simp add: sample_trace_def py_isspace_def)

end
