(* ===== verification/SampleRun.thy ===== *)
theory SampleRun
  imports StoreMachine Sample
begin

text \<open>
  A run of a store from its creation to a logged decision, on the host of \<open>Sample\<close>: two traces, a
  failure case that is reviewed and verified, a lesson, and a gate request that is finalized. Every
  step is evaluated; the witnesses of the properties of the store are taken from this run.
\<close>

definition sample_case :: FailureCase where
  "sample_case =
     \<lparr>fc_case_id = u ''case_1'', fc_source_trace_id = u ''trace_1'', fc_commit_sha = u ''c2'',
      fc_failure_type = u ''timeout'', fc_symptom = u ''no answer'', fc_root_cause = None, fc_fix = None,
      fc_fix_commit_sha = None, fc_regression_passed = False, fc_reviewed_by = None, fc_review_notes = None,
      fc_reviewed_at = None, fc_status = u ''draft'', fc_created_at = None\<rparr>"

definition sample_reviewed_case :: FailureCase where
  "sample_reviewed_case = sample_case\<lparr>fc_root_cause := Some (u ''no retry''), fc_reviewed_by := Some (u ''ana''),
     fc_reviewed_at := Some (utc_timestamp sample_runtime)\<rparr>"

definition sample_verified_case :: FailureCase where
  "sample_verified_case = sample_reviewed_case\<lparr>fc_status := u ''verified'', fc_fix := Some (u ''retry''),
     fc_fix_commit_sha := Some (u ''c3''), fc_regression_passed := True\<rparr>"

definition sample_store0 :: store where
  "sample_store0 = new_store 7 (u ''00112233445566778899aabbccddeeff'')"

definition sample_store1 :: store where
  "sample_store1 = sample_store0
     \<lparr>st_traces := [(u ''trace_1'', sample_trace ''trace_1'' ''fail''), (u ''trace_2'', sample_trace ''trace_2'' ''unknown'')],
      st_trace_ids_by_run_id := [(u ''run_trace_1'', [u ''trace_1'']), (u ''run_trace_2'', [u ''trace_2''])]\<rparr>"

definition sample_store2 :: "FailureCase \<Rightarrow> store" where
  "sample_store2 c = sample_store1\<lparr>st_failure_cases := [(u ''case_1'', c)]\<rparr>"

definition sample_store3 :: store where
  "sample_store3 = (sample_store2 sample_verified_case)\<lparr>st_lessons := [(u ''lesson_1'', sample_lesson)]\<rparr>"

definition sample_calls :: "(datetime \<times> store_op) list" where
  "sample_calls = map (Pair sample_now)
     [RecordTrace (sample_trace ''trace_1'' ''fail''), RecordTrace (sample_trace ''trace_2'' ''unknown''),
      AddFailureCase sample_case,
      ReviewFailureCase (u ''case_1'') (u ''ana'') (u ''no retry'') None None None None,
      VerifyFailureCase (u ''case_1'') (u ''retry'') (u ''c3'') True,
      AddLesson sample_lesson]"

lemma sample_now_same: "sample_runtime\<lparr>rt_now := sample_now\<rparr> = sample_runtime"
  by (simp add: sample_runtime_def)

lemma sample_step: "store_step sample_runtime (sample_now, op) = apply_op sample_runtime op"
  by (simp add: store_step_def sample_now_same)

lemma u_append: "u a @ u b = u (a @ b)"
  by (simp add: u_def)

lemma sample_trace_fields [simp]:
  "tr_trace_id (sample_trace i r) = u i" "tr_run_id (sample_trace i r) = u (''run_'' @ i)"
  "tr_commit_sha (sample_trace i r) = u ''c2''" "tr_repo (sample_trace i r) = Some (u ''app'')"
  "tr_tenant (sample_trace i r) = None" "\<not> tr_dirty (sample_trace i r)"
  "tr_eval_result (sample_trace i r) = u r"
  by (simp_all add: sample_trace_def u_append)

lemma sample_traces_valid: "validate_trace sample_runtime (sample_trace ''trace_1'' ''fail'') = None"
  "validate_trace sample_runtime (sample_trace ''trace_2'' ''unknown'') = None"
  by (rule sample_trace_valid; simp add: py_isspace_def store_constants)+

lemma sample_record1: "apply_op sample_runtime (RecordTrace (sample_trace ''trace_1'' ''fail'')) sample_store0 =
    Inr (sample_store0\<lparr>st_traces := [(u ''trace_1'', sample_trace ''trace_1'' ''fail'')],
      st_trace_ids_by_run_id := [(u ''run_trace_1'', [u ''trace_1''])]\<rparr>)"
  by (simp add: next_store_Inr_iff record_trace_Inr_iff sample_traces_valid)
     (simp add: sample_store0_def new_store_def)

lemma sample_record2: "apply_op sample_runtime (RecordTrace (sample_trace ''trace_2'' ''unknown''))
    (sample_store0\<lparr>st_traces := [(u ''trace_1'', sample_trace ''trace_1'' ''fail'')],
      st_trace_ids_by_run_id := [(u ''run_trace_1'', [u ''trace_1''])]\<rparr>) = Inr sample_store1"
  by (simp add: next_store_Inr_iff record_trace_Inr_iff sample_traces_valid)
     (simp add: sample_store1_def)

lemmas sample_case_defs = sample_case_def sample_reviewed_case_def sample_verified_case_def

lemma sample_cases_valid: "validate_failure_case sample_case = None" "validate_failure_case sample_reviewed_case = None"
  "validate_failure_case sample_verified_case = None"
  using parse_utc_timestamp [OF sample_clock] utc_timestamp_not_blank [of sample_runtime]
  by (simp_all add: validate_failure_case_def case_optional_fields_def sample_case_defs py_isspace_def
      store_constants not_blank_not_Nil)

lemma sample_add_case: "apply_op sample_runtime (AddFailureCase sample_case) sample_store1 = Inr (sample_store2 sample_case)"
  by (simp add: next_store_Inr_iff add_failure_case_Inr_iff sample_cases_valid case_supported_def)
     (simp add: sample_store2_def sample_case_def sample_store1_def sample_store0_def new_store_def)

lemma sample_reviewed:
  "review_failure_case sample_runtime sample_case (u ''ana'') (u ''no retry'') None None None None =
     Inr sample_reviewed_case"
  by (simp add: review_failure_case_def result_simps)
     (simp add: sample_case_defs py_isspace_def identified_case_def given_or_def)

lemma sample_review:
  "apply_op sample_runtime (ReviewFailureCase (u ''case_1'') (u ''ana'') (u ''no retry'') None None None None)
     (sample_store2 sample_case) = Inr (sample_store2 sample_reviewed_case)"
  by (simp add: store_review_failure_case_def stored_record_def sample_store2_def sample_cases_valid next_store_def
      sample_reviewed)

lemma sample_verified: "verify_failure_case sample_reviewed_case (u ''retry'') (u ''c3'') True = Inr sample_verified_case"
  using parse_utc_timestamp [OF sample_clock] utc_timestamp_not_blank [of sample_runtime]
  by (simp add: verify_failure_case_Inr_iff identified_case_def described_case_def reviewed_case_def
      sample_case_defs py_isspace_def)

lemma sample_verify:
  "apply_op sample_runtime (VerifyFailureCase (u ''case_1'') (u ''retry'') (u ''c3'') True)
     (sample_store2 sample_reviewed_case) = Inr (sample_store2 sample_verified_case)"
  by (simp add: store_verify_failure_case_def stored_record_def sample_store2_def sample_cases_valid next_store_def
      sample_verified)

lemma sample_lesson_valid: "validate_stored_lesson sample_runtime sample_lesson = None"
  by (simp add: validate_stored_lesson_def validate_lesson_record_def validate_lesson_contract_def
      lesson_scope_error_def Let_def sample_lesson_def py_isspace_def outside_unit_def
      store_constants SCOPE_FIELDS_def)

lemma sample_add_lesson:
  "apply_op sample_runtime (AddLesson sample_lesson) (sample_store2 sample_verified_case) = Inr sample_store3"
  by (simp add: next_store_Inr_iff add_lesson_Inr_iff sample_lesson_valid lesson_supported_def)
     (simp add: sample_store3_def sample_store2_def sample_store1_def sample_store0_def new_store_def
       sample_lesson_def sample_case_defs)

lemma sample_calls_run: "run_calls sample_runtime sample_calls sample_store0 = sample_store3"
  by (simp add: sample_calls_def sample_step run_calls_Cons sample_record1 sample_record2 sample_add_case
      sample_review sample_verify sample_add_lesson del: apply_op.simps)

section \<open>A gate request\<close>

definition sample_stored_item :: MemoryItem where
  "sample_stored_item = sample_item\<lparr>mi_full_text := Some (lesson_full_case_text sample_lesson sample_verified_case)\<rparr>"

lemma sample_store3_fields:
  "st_traces sample_store3 = [(u ''trace_1'', sample_trace ''trace_1'' ''fail''), (u ''trace_2'', sample_trace ''trace_2'' ''unknown'')]"
  "st_trace_ids_by_run_id sample_store3 = [(u ''run_trace_1'', [u ''trace_1'']), (u ''run_trace_2'', [u ''trace_2''])]"
  "st_failure_cases sample_store3 = [(u ''case_1'', sample_verified_case)]"
  "st_lessons sample_store3 = [(u ''lesson_1'', sample_lesson)]" "st_project_policies sample_store3 = []"
  "st_usage_logs sample_store3 = []" "st_usage_log_indexes sample_store3 = []"
  "st_next_decision_number sample_store3 = 1" "st_next_gate_request_number sample_store3 = 1"
  "st_pending_gate_requests sample_store3 = []" "st_finalized_gate_request_ids sample_store3 = []"
  "st_finalized_gate_request_order sample_store3 = []" "st_store_token sample_store3 = 7"
  by (simp_all add: sample_store3_def sample_store2_def sample_store1_def sample_store0_def new_store_def)

lemma sample_lesson_item: "store_memory_item_from_lesson sample_store3 sample_lesson = Inr sample_stored_item"
  by (simp add: store_memory_item_from_lesson_def case_at_def trace_at_def sample_store3_fields
      memory_item_from_lesson_def)
     (simp add: sample_stored_item_def sample_item_def sample_lesson_def sample_case_defs
       complete_trace_source_identity_def sample_trace_def)

lemma sample_stored_item_passes: "blocked_reason sample_runtime sample_context sample_stored_item = None"
  unfolding blocked_reason_None_iff using sample_context_ok
  by (simp add: memory_item_contract_error_def scope_field_error_def source_identity_error_def
      source_id_error_def policy_constants has_source_def is_current_benchmark_example_def
      scope_matches_def scope_context_values_def context_value_def num_between_def Let_def
      sample_context_def sample_stored_item_def sample_item_def py_isspace_def
      lesson_full_case_text_def failure_case_full_text_def)

definition sample_args :: retrieval_args where
  "sample_args = \<lparr>ra_query = None, ra_semantic_scores = None, ra_max_candidates = None, ra_minimum_score = None,
     ra_commit_ancestry = None\<rparr>"

lemma sample_context_valid: "validate_memory_context sample_context = None"
  using sample_context_ok by simp

lemma sample_retrieval:
  "retrieve_memories sample_runtime sample_store3 sample_context None None None None None (Some (Suc n)) =
     Inr [sample_stored_item]"
proof -
  have "iter_metadata_candidates sample_runtime sample_store3 sample_context = [Inr (Some sample_stored_item)]"
    by (simp add: iter_metadata_candidates_def sample_store3_fields dict_values_def sample_lesson_item offered_def)
       (simp add: sample_lesson_def sample_context_def has_metadata_match_def context_values_def context_value_def)
  moreover have "tokens sample_runtime [] = []" by (simp add: tokens_def sample_runtime_def)
  ultimately show ?thesis
    by (simp add: retrieve_memories_def sample_context_valid validated_semantic_scores_def validated_commit_ancestry_def)
qed

lemma sample_bounded_gate:
  "bounded_system_gate sample_runtime sample_context [sample_stored_item] = Inr ([sample_stored_item], [])"
  "system_gate sample_runtime sample_context [sample_stored_item] = Inr ([sample_stored_item], [])"
proof -
  show "system_gate sample_runtime sample_context [sample_stored_item] = Inr ([sample_stored_item], [])"
    using sample_stored_item_passes
    by (simp add: system_gate_Inr_iff List.map_filter_simps blocked_reason_None_iff
      validated_memory_collection_None_iff, simp add: sample_stored_item_def sample_item_def)
  then show "bounded_system_gate sample_runtime sample_context [sample_stored_item] = Inr ([sample_stored_item], [])"
    by (simp add: bounded_system_gate_def)
qed

lemma length_join: "length (join sep ss) = sum_list (map length ss) + length sep * (length ss - 1)"
proof (induction sep ss rule: join.induct)
  case (3 sep s t ss)
  then show ?case by simp
qed simp_all

definition plain :: "pystr \<Rightarrow> bool" where
  "plain s \<longleftrightarrow> (\<forall>c\<in>set s. 32 \<le> c \<and> c \<le> 126 \<and> c \<noteq> 34 \<and> c \<noteq> 92)"

lemma length_json_plain: "plain s \<Longrightarrow> length (json_dumps_str s) = length s + 2"
  by (induction s) (auto simp: json_dumps_str_def plain_def json_char_def)

lemma plain_u [simp]: "plain (u s) \<longleftrightarrow> (\<forall>c\<in>set s. 32 \<le> (of_char c :: nat) \<and> of_char c \<le> (126 :: nat) \<and>
    of_char c \<noteq> (34 :: nat) \<and> of_char c \<noteq> (92 :: nat))"
  by (simp add: plain_def u_def)

definition sample_prompt :: pystr where
  "sample_prompt = (case build_llm_gate_prompt sample_runtime sample_context [sample_stored_item] (u ''fix it'') [] of
     Inr p \<Rightarrow> p | Inl _ \<Rightarrow> [])"

lemma sample_prompt_built:
  "build_llm_gate_prompt sample_runtime sample_context [sample_stored_item] (u ''fix it'') [] = Inr sample_prompt"
proof -
  have col: "validated_memory_collection sample_runtime [sample_stored_item] (u ''candidates'') False = None"
    by (simp add: validated_memory_collection_None_iff sample_stored_item_def sample_item_def)
  have cx: "List.map_filter (\<lambda>(key, value). map_option (\<lambda>v. u ''- '' @ key @ u '': '' @ json_dumps_str v) value)
      (prompt_context_fields sample_context) =
      [u ''- mode: '' @ json_dumps_str (u ''planning''), u ''- repo: '' @ json_dumps_str (u ''app''),
       u ''- commit_sha: '' @ json_dumps_str (u ''c2'')]"
    by (simp add: prompt_context_fields_def sample_context_def List.map_filter_simps u_append)
  have item: "prompt_memory_lines sample_runtime sample_stored_item =
      [u ''- id: '' @ json_dumps_str (u ''lesson_1''), u ''  type: '' @ json_dumps_str (u ''procedural''),
       u ''  status: '' @ json_dumps_str (u ''active''),
       u ''  scope: '' @ u ''{'' @ json_dumps_str (u ''repo'') @ u '': '' @ json_dumps_str (u ''app'') @ u ''}'',
       u ''  source: '' @ json_dumps_str (u ''case_1''), u ''  confidence: '' @ u ''1.0'',
       u ''  text: '' @ json_dumps_str (u ''Retry once.'')]"
    by (simp add: prompt_memory_lines_def sample_stored_item_def sample_item_def memory_source_def str_or_def
        scope_json_def json_dumps_str_dict_def sample_runtime_def cap_injected_text_def)
  have "\<exists>p. build_llm_gate_prompt sample_runtime sample_context [sample_stored_item] (u ''fix it'') [] = Inr p"
    by (simp add: build_llm_gate_prompt_def sample_context_valid col sample_bounded_gate cx item or_none_line_def
        cap_injected_text_def length_join length_json_plain)
  then show ?thesis by (auto simp: sample_prompt_def)
qed

definition sample_request :: MemoryGateRequest where
  "sample_request = prepared_request sample_store3 sample_context (Some (sample_trace ''trace_2'' ''unknown''))
     [sample_stored_item] [sample_stored_item] [] sample_prompt"

definition sample_store4 :: store where
  "sample_store4 = sample_store3\<lparr>st_next_gate_request_number := 2,
     st_pending_gate_requests := [(gr_request_id sample_request, sample_request)]\<rparr>"

lemma sample_trace_context: "validate_trace_context (sample_trace ''trace_2'' ''unknown'') sample_context = None"
  by (simp add: validate_trace_context_def sample_context_valid trace_context_fields_def)
     (simp add: sample_context_def)

lemma sample_prepare:
  "prepare_memory sample_runtime sample_context (u ''fix it'') (Some (u ''trace_2'')) sample_args [] sample_store3 =
     Inr (sample_request, sample_store4)"
  by (simp add: prepare_memory_def sample_context_valid sample_store3_fields prepare_trace_def
      validate_required_string_def sample_trace_context sample_args_def sample_retrieval [of 999, simplified]
      pending_candidate_ids_def dict_values_def sample_bounded_gate sample_prompt_built Let_def py_isspace_def)
     (simp add: sample_request_def sample_store4_def prepared_request_def sample_store3_fields)

lemma sample_payload_budget: "within_budget (PDict (decision_dict sample_decision))"
  by (simp add: within_budget_def decision_dict_def sample_decision_def max_list_def text_fits_def u_def utf8_char_size_def)

lemma sample_decision_consistent: "decision_consistent sample_decision"
  by (simp add: decision_consistent_def sample_decision_def)

lemma sample_decided:
  "apply_llm_gate_decision sample_runtime [sample_stored_item] [] sample_decision =
     Inr ([sample_stored_item], sample_decision)"
proof -
  have "granted_items [sample_stored_item] sample_decision = [sample_stored_item]"
    "combined_decision [sample_stored_item] [] sample_decision = sample_decision"
    by (simp_all add: granted_items_def granted_ids_def combined_decision_def refused_ids_def memory_requested_def
        sample_stored_item_def sample_item_def sample_decision_def List.map_filter_simps dict_keys_def)
  then show ?thesis
    using bounded.decide_total [OF sample_bounded_gate(1) sample_decision_accepted] by simp
qed

definition sample_snippet :: pystr where
  "sample_snippet = snippet_text (u ''short_summary'') [sample_stored_item]"

lemma sample_rendered:
  "build_injection_snippet sample_runtime [sample_stored_item] None (Some sample_decision) (Some sample_context) =
     Inr sample_snippet"
proof -
  have dec: "granted_items [sample_stored_item] sample_decision = [sample_stored_item]"
    "combined_decision [sample_stored_item] [] sample_decision = sample_decision"
    using sample_decided bounded.decide_total [OF sample_bounded_gate(1) sample_decision_accepted] by simp_all
  have "length sample_snippet \<le> INJECTION_SNIPPET_MAX_CHARS"
    by (simp add: sample_snippet_def snippet_text_def snippet_lines_def length_join Let_def sample_stored_item_def
        sample_item_def cap_injected_text_def scope_json_def json_dumps_str_dict_def memory_source_def str_or_def
        length_json_plain str_nat_def dec_digits_def digits_rev.simps)
  then show ?thesis
    using bounded.rendered_iff [OF sample_bounded_gate(1) sample_decision_accepted, of sample_snippet]
    by (simp add: dec) (simp add: sample_snippet_def sample_decision_def)
qed

lemma sample_store4_fields:
  "st_traces sample_store4 = [(u ''trace_1'', sample_trace ''trace_1'' ''fail''), (u ''trace_2'', sample_trace ''trace_2'' ''unknown'')]"
  "st_failure_cases sample_store4 = [(u ''case_1'', sample_verified_case)]"
  "st_lessons sample_store4 = [(u ''lesson_1'', sample_lesson)]" "st_project_policies sample_store4 = []"
  "st_usage_logs sample_store4 = []" "st_usage_log_indexes sample_store4 = []"
  "st_next_decision_number sample_store4 = 1" "st_store_token sample_store4 = 7"
  "st_pending_gate_requests sample_store4 = [(gr_request_id sample_request, sample_request)]"
  "st_finalized_gate_request_ids sample_store4 = []"
  by (simp_all add: sample_store4_def sample_store3_fields)

lemma sample_request_fields:
  "gr_context sample_request = sample_context" "gr_candidate_memory_ids sample_request = [u ''lesson_1'']"
  "gr_trace_id sample_request = Some (u ''trace_2'')" "gr_run_id sample_request = Some (u ''run_trace_2'')"
  "gr_store_token sample_request = 7"
  "gr_request_id sample_request = u ''gate_request_00112233445566778899aabbccddeeff_000001''"
  by (simp_all add: sample_request_def prepared_request_def sample_stored_item_def sample_item_def
      sample_store3_fields new_request_id_def)
     (simp add: sample_store3_def sample_store2_def sample_store1_def sample_store0_def new_store_def
       format_06d_def pad_left_def str_nat_def dec_digits_def digits_rev.simps u_def numeral_eq_Suc)

lemma sample_items: "memory_items sample_runtime sample_store4 [u ''lesson_1''] = Inr [sample_stored_item]"
proof -
  have "store_memory_item_from_lesson sample_store4 sample_lesson = store_memory_item_from_lesson sample_store3 sample_lesson"
    by (simp add: store_memory_item_from_lesson_def case_at_def trace_at_def sample_store4_fields sample_store3_fields)
  then show ?thesis
    by (simp add: memory_items_def memory_item_at_def sample_store4_fields sample_lesson_item offered_def
        known_memory_def dict_has_iff List.map_filter_simps)
qed

definition sample_log :: MemoryUsageLog where
  "sample_log =
     \<lparr>ul_decision_id = u ''decision_000001'', ul_run_id = u ''run_trace_2'', ul_mode = u ''planning'',
      ul_candidate_memory_ids = [u ''lesson_1''], ul_used_memory_ids = [u ''lesson_1''], ul_blocked_memory_ids = [],
      ul_reason = u ''relevant'', ul_risk = u ''low'', ul_recommended_injection = u ''short_summary'',
      ul_eval_result = None, ul_memory_caused_failure = False, ul_trace_id = Some (u ''trace_2''),
      ul_context = [(u ''mode'', u ''planning''), (u ''repo'', u ''app''), (u ''commit_sha'', u ''c2'')],
      ul_candidate_memory_statuses = [(u ''lesson_1'', u ''active'')], ul_system_blocked_reasons = [],
      ul_created_at = Some (utc_timestamp sample_runtime), ul_request_id = Some (gr_request_id sample_request)\<rparr>"

lemma sample_log_valid: "validate_usage_log sample_log = None"
  using parse_utc_timestamp [OF sample_clock]
  by (simp add: validate_usage_log_def Let_def sample_log_def py_isspace_def store_constants
      validate_memory_id_list_def validate_string_mapping_def validate_status_mapping_def dict_keys_def
      sample_request_fields policy_constants dict_values_def dict_has_iff
      MEMORY_SOURCE_IDENTITY_CONTEXT_FIELDS_def)

lemma sample_log_linked: "validate_usage_log_memory_ids sample_store4 sample_log = None"
  "validate_usage_log_trace sample_store4 sample_log = None"
  by (simp_all add: validate_usage_log_memory_ids_def validate_usage_log_trace_def Let_def sample_log_def
      known_memory_def sample_store4_fields dict_has_iff DECLARED_TRACE_CONTEXT_FIELDS_def py_isspace_def)

lemma sample_new_log:
  "new_usage_log sample_runtime sample_store4 (sample_trace ''trace_2'' ''unknown'') sample_context [sample_stored_item]
     sample_decision [] None False (Some (gr_request_id sample_request)) = Inr sample_log"
proof -
  have id: "u ''decision_'' @ format_06d (st_next_decision_number sample_store4) = u ''decision_000001''"
    by (simp add: sample_store4_fields format_06d_def pad_left_def str_nat_def dec_digits_def digits_rev.simps u_def
        numeral_eq_Suc)
  show ?thesis
    unfolding new_usage_log_def Let_def id
    using sample_log_valid sample_log_linked unfolding sample_log_def
    by (simp add: context_evidence_def sample_context_def sample_decision_def sample_stored_item_def sample_item_def
        List.map_filter_simps)
qed

definition sample_store5 :: store where
  "sample_store5 = sample_store4
     \<lparr>st_usage_logs := [sample_log], st_usage_log_indexes := [(u ''decision_000001'', 0)],
      st_next_decision_number := 2, st_pending_gate_requests := [],
      st_finalized_gate_request_ids := [gr_request_id sample_request],
      st_finalized_gate_request_order := [gr_request_id sample_request]\<rparr>"

definition sample_result :: GatedMemoryResult where
  "sample_result =
     \<lparr>gm_request_id = gr_request_id sample_request, gm_trace_id = u ''trace_2'', gm_decision_id = u ''decision_000001'',
      gm_use_memory = True, gm_allowed_memory_ids = [u ''lesson_1''], gm_blocked_memory_ids = [],
      gm_reason = u ''relevant'', gm_risk = u ''low'', gm_recommended_injection = u ''short_summary'',
      gm_snippet = sample_snippet\<rparr>"

lemma sample_append: "append_usage_log sample_runtime sample_log sample_store4 =
    Inr (sample_store4\<lparr>st_usage_logs := [sample_log], st_usage_log_indexes := [(u ''decision_000001'', 0)],
      st_next_decision_number := 2\<rparr>)"
proof -
  have 1: "decision_number sample_runtime (u ''decision_000001'') = Some 1"
    using decision_number_format [OF sample_decimals, of 1]
    by (simp add: format_06d_def pad_left_def str_nat_def dec_digits_def digits_rev.simps u_def numeral_eq_Suc)
  have 2: "gate_request_number sample_runtime (gr_request_id sample_request) = Some 1"
    by (simp add: gate_request_number_def sample_request_fields strip_prefix_def u_def is_hex_def parse_decimal_def
      sample_runtime_def is_digit_def numeral_eq_Suc)
  show ?thesis
    by (simp add: append_usage_log_Inr_iff sample_log_def 1 2 bump_def sample_store4_fields dict_has_iff)
       (simp add: sample_store4_def)
qed

lemma sample_finalize:
  "finalize_memory sample_runtime sample_request (PyMapping (decision_dict sample_decision)) (u ''trace_2'') None False
     sample_store4 = Inr (sample_result, sample_store5)"
proof -
  have guards: "own_request_error sample_request sample_store4 = None" "pending_request_error sample_request sample_store4 = None"
    by (simp_all add: own_request_error_def pending_request_error_def sample_request_fields sample_store4_fields
        gate_request_eq_def py_isspace_def)
  have "finalize_with_trace sample_runtime sample_request (PyMapping (decision_dict sample_decision))
      (sample_trace ''trace_2'' ''unknown'') None False sample_store4 = Inr (sample_result, sample_store5)"
    using parse_decision_dict [OF sample_payload_budget sample_decision_accepted sample_decision_consistent]
    by (simp add: finalize_with_trace_def sample_request_fields(1,2) sample_items sample_bounded_gate sample_decided
        sample_rendered sample_new_log sample_append)
       (simp add: sample_result_def sample_store5_def sample_decision_def sample_log_def finish_request_def
         sample_store4_def sample_store3_fields expire.simps dict_pop_def)
  then show ?thesis
    by (simp add: finalize_memory_def guards sample_request_fields(1,3,4) sample_context_valid validate_required_string_def
        validate_runtime_outcome_def sample_store4_fields sample_trace_context py_isspace_def)
qed

lemma sample_reached: "reached sample_runtime sample_store3" "reached sample_runtime sample_store4"
  "reached sample_runtime sample_store5"
proof -
  show 3: "reached sample_runtime sample_store3"
    unfolding reached_def first_store_def using sample_calls_run sample_store0_def by metis
  have "apply_op sample_runtime (PrepareMemory sample_context (u ''fix it'') (Some (u ''trace_2'')) sample_args [])
      sample_store3 = Inr sample_store4"
    by (simp add: sample_prepare next_store_def)
  then show 4: "reached sample_runtime sample_store4"
    using reached_step [OF 3, of "(sample_now, _)"] by (simp only: sample_step)
  have "apply_op sample_runtime (FinalizeMemory sample_request (PyMapping (decision_dict sample_decision))
      (u ''trace_2'') None False) sample_store4 = Inr sample_store5"
    by (simp add: sample_finalize next_store_def)
  then show "reached sample_runtime sample_store5"
    using reached_step [OF 4, of "(sample_now, _)"] by (simp only: sample_step)
qed

section \<open>The lesson is retired before the request is finalized\<close>

definition sample_obsolete_store :: store where
  "sample_obsolete_store = sample_store4\<lparr>st_lessons := [(u ''lesson_1'', obsolete_lesson sample_lesson)]\<rparr>"

definition sample_obsolete_item :: MemoryItem where
  "sample_obsolete_item = sample_item\<lparr>mi_status := u ''obsolete'',
     mi_full_text := Some (lesson_full_case_text sample_lesson sample_verified_case)\<rparr>"

definition sample_reason :: pystr where
  "sample_reason = u ''status '' @ py_repr sample_runtime (u ''obsolete'') @ u '' is not allowed''"

lemma sample_obsolete_valid: "validate_stored_lesson sample_runtime (obsolete_lesson sample_lesson) = None"
  by (simp add: validate_stored_lesson_def validate_lesson_record_def validate_lesson_contract_def
      lesson_scope_error_def Let_def sample_lesson_def py_isspace_def outside_unit_def
      store_constants SCOPE_FIELDS_def obsolete_lesson_def)

lemma sample_retire: "apply_op sample_runtime (ObsoleteLesson (u ''lesson_1'')) sample_store4 = Inr sample_obsolete_store"
  using sample_obsolete_valid
  by (simp add: store_obsolete_lesson_def stored_record_def sample_store4_fields next_store_def
      sample_obsolete_store_def Let_def sample_lesson_def)

text \<open>Retiring the case of the lesson, in a batch.\<close>

definition sample_retirement :: MemoryObsolescenceRequest where
  "sample_retirement = \<lparr>ob_memory_kind = u ''failure_case'', ob_memory_id = u ''case_1''\<rparr>"

lemma sample_retired: "\<exists>records t. obsolete_memories sample_runtime [sample_retirement] sample_store3 = Inr (records, t)"
proof -
  have c: "validate_failure_case (obsolete_failure_case sample_verified_case) = None"
    using parse_utc_timestamp [OF sample_clock] utc_timestamp_not_blank [of sample_runtime]
    by (simp add: obsolete_failure_case_def)
       (simp add: validate_failure_case_def case_optional_fields_def sample_case_defs py_isspace_def
         store_constants not_blank_not_Nil)
  have l: "ls_status sample_lesson = u ''active''" "ls_source_case_id sample_lesson = u ''case_1''"
    "fc_status sample_verified_case = u ''verified''"
    by (simp_all add: sample_lesson_def sample_case_defs)
  show ?thesis
    by (simp add: obsolete_memories_def validated_memory_obsolescence_requests_def obsolescence_request_error_def
        sample_retirement_def MEMORY_KINDS_def validate_required_string_def requested_record_def stored_record_def
        sample_store3_fields requested_ids_def retire_cases_def retire_lessons_def retire_policies_def
        retired_record_def dict_values_def Let_def py_isspace_def c l sample_obsolete_valid)
qed

lemma sample_obsolete_fields:
  "st_traces sample_obsolete_store = st_traces sample_store4"
  "st_failure_cases sample_obsolete_store = [(u ''case_1'', sample_verified_case)]"
  "st_lessons sample_obsolete_store = [(u ''lesson_1'', obsolete_lesson sample_lesson)]"
  "st_project_policies sample_obsolete_store = []"
  "st_usage_logs sample_obsolete_store = []" "st_usage_log_indexes sample_obsolete_store = []"
  "st_next_decision_number sample_obsolete_store = 1" "st_store_token sample_obsolete_store = 7"
  "st_pending_gate_requests sample_obsolete_store = [(gr_request_id sample_request, sample_request)]"
  "st_finalized_gate_request_ids sample_obsolete_store = []"
  by (simp_all add: sample_obsolete_store_def sample_store4_fields)

lemma sample_obsolete_items:
  "memory_items sample_runtime sample_obsolete_store [u ''lesson_1''] = Inr [sample_obsolete_item]"
proof -
  have "store_memory_item_from_lesson sample_obsolete_store (obsolete_lesson sample_lesson) = Inr sample_obsolete_item"
    by (simp add: store_memory_item_from_lesson_def case_at_def trace_at_def sample_obsolete_fields sample_store4_fields
        memory_item_from_lesson_def)
       (simp add: sample_obsolete_item_def sample_item_def sample_lesson_def sample_case_defs obsolete_lesson_def
         complete_trace_source_identity_def sample_trace_def lesson_full_case_text_def)
  then show ?thesis
    by (simp add: memory_items_def memory_item_at_def sample_obsolete_fields offered_def
        known_memory_def dict_has_iff List.map_filter_simps)
qed

lemma sample_blocked: "blocked_reason sample_runtime sample_context sample_obsolete_item = Some sample_reason"
  using sample_context_ok
  by (simp add: blocked_reason_def memory_item_contract_error_def scope_field_error_def source_identity_error_def
      source_id_error_def policy_constants num_between_def Let_def sample_reason_def
      sample_obsolete_item_def sample_item_def py_isspace_def
      lesson_full_case_text_def failure_case_full_text_def)

definition sample_refusal :: MemoryDecision where
  "sample_refusal = \<lparr>md_use_memory = False, md_allowed_memory_ids = [], md_blocked_memory_ids = [u ''lesson_1''],
     md_reason = u ''relevant'', md_risk = u ''low'', md_recommended_injection = u ''none''\<rparr>"

lemma sample_obsolete_gate:
  "bounded_system_gate sample_runtime sample_context [sample_obsolete_item] = Inr ([], [(u ''lesson_1'', sample_reason)])"
proof -
  have "mi_memory_id sample_obsolete_item = u ''lesson_1''" by (simp add: sample_obsolete_item_def sample_item_def)
  then have "system_gate sample_runtime sample_context [sample_obsolete_item] = Inr ([], [(u ''lesson_1'', sample_reason)])"
    using sample_context_ok
    by (simp add: system_gate_Inr_iff List.map_filter_simps sample_blocked validated_memory_collection_None_iff)
  then show ?thesis by (simp add: bounded_system_gate_def)
qed

lemma sample_obsolete_decided:
  "apply_llm_gate_decision sample_runtime [] [(u ''lesson_1'', sample_reason)] sample_decision = Inr ([], sample_refusal)"
  "build_injection_snippet sample_runtime [] None (Some sample_refusal) (Some sample_context) = Inr []"
proof -
  have dec: "granted_items [] sample_decision = []"
    "combined_decision [] [(u ''lesson_1'', sample_reason)] sample_decision = sample_refusal"
    by (simp_all add: granted_items_def granted_ids_def combined_decision_def refused_ids_def memory_requested_def
        sample_decision_def sample_refusal_def List.map_filter_simps dict_keys_def)
  then show "apply_llm_gate_decision sample_runtime [] [(u ''lesson_1'', sample_reason)] sample_decision = Inr ([], sample_refusal)"
    using bounded.decide_total [OF sample_obsolete_gate sample_decision_accepted] by simp
  show "build_injection_snippet sample_runtime [] None (Some sample_refusal) (Some sample_context) = Inr []"
    using bounded.rendered_iff [OF sample_obsolete_gate sample_decision_accepted, of "[]"]
    by (simp add: dec snippet_text_def)
qed

definition sample_refusal_log :: MemoryUsageLog where
  "sample_refusal_log = sample_log\<lparr>ul_used_memory_ids := [], ul_blocked_memory_ids := [u ''lesson_1''],
     ul_recommended_injection := u ''none'', ul_candidate_memory_statuses := [(u ''lesson_1'', u ''obsolete'')],
     ul_system_blocked_reasons := [(u ''lesson_1'', sample_reason)]\<rparr>"

lemma sample_refusal_log_valid: "validate_usage_log sample_refusal_log = None"
  "validate_usage_log_memory_ids sample_obsolete_store sample_refusal_log = None"
  "validate_usage_log_trace sample_obsolete_store sample_refusal_log = None"
proof -
  have reason: "\<not> blank sample_reason" "length sample_reason = 32"
    by (simp_all add: sample_reason_def py_isspace_def py_repr_def repr_char_def Let_def u_def)
  show "validate_usage_log sample_refusal_log = None"
    using parse_utc_timestamp [OF sample_clock] reason
    by (simp add: validate_usage_log_def Let_def sample_log_def sample_refusal_log_def py_isspace_def store_constants
        validate_memory_id_list_def validate_string_mapping_def validate_status_mapping_def dict_keys_def
        sample_request_fields policy_constants dict_values_def dict_has_iff
        MEMORY_SOURCE_IDENTITY_CONTEXT_FIELDS_def)
  show "validate_usage_log_memory_ids sample_obsolete_store sample_refusal_log = None"
    "validate_usage_log_trace sample_obsolete_store sample_refusal_log = None"
    by (simp_all add: validate_usage_log_memory_ids_def validate_usage_log_trace_def Let_def sample_log_def
        sample_refusal_log_def known_memory_def sample_obsolete_fields sample_store4_fields dict_has_iff
        DECLARED_TRACE_CONTEXT_FIELDS_def py_isspace_def)
qed

lemma sample_refusal_new_log:
  "new_usage_log sample_runtime sample_obsolete_store (sample_trace ''trace_2'' ''unknown'') sample_context
     [sample_obsolete_item] sample_refusal [(u ''lesson_1'', sample_reason)] None False
     (Some (gr_request_id sample_request)) = Inr sample_refusal_log"
proof -
  have id: "u ''decision_'' @ format_06d (st_next_decision_number sample_obsolete_store) = u ''decision_000001''"
    by (simp add: sample_obsolete_fields format_06d_def pad_left_def str_nat_def dec_digits_def digits_rev.simps u_def
        numeral_eq_Suc)
  show ?thesis
    unfolding new_usage_log_def Let_def id
    using sample_refusal_log_valid unfolding sample_refusal_log_def sample_log_def
    by (simp add: context_evidence_def sample_context_def sample_refusal_def sample_obsolete_item_def sample_item_def
        List.map_filter_simps)
qed

lemma sample_refused:
  "\<exists>g s'. finalize_memory sample_runtime sample_request (PyMapping (decision_dict sample_decision)) (u ''trace_2'')
     None False sample_obsolete_store = Inr (g, s')"
proof -
  have guards: "own_request_error sample_request sample_obsolete_store = None"
    "pending_request_error sample_request sample_obsolete_store = None"
    by (simp_all add: own_request_error_def pending_request_error_def sample_request_fields sample_obsolete_fields
        gate_request_eq_def py_isspace_def)
  have app: "\<exists>s1. append_usage_log sample_runtime sample_refusal_log sample_obsolete_store = Inr s1"
    by (simp add: append_usage_log_def sample_obsolete_fields dict_has_iff)
  show ?thesis
    using parse_decision_dict [OF sample_payload_budget sample_decision_accepted sample_decision_consistent] app
    by (simp add: finalize_memory_def guards sample_request_fields(1,3,4) sample_context_valid
        validate_runtime_outcome_def sample_obsolete_fields(1) sample_store4_fields(1) sample_trace_context py_isspace_def
        validate_required_string_def)
       (auto simp: finalize_with_trace_def sample_request_fields(1,2) sample_obsolete_items sample_obsolete_gate
         sample_obsolete_decided sample_refusal_new_log)
qed

lemma sample_obsolete_reached: "reached sample_runtime sample_obsolete_store"
  using reached_step [OF sample_reached(2), of "(sample_now, _)"] sample_retire by (simp only: sample_step)

section \<open>The run is completed\<close>

definition sample_outcome :: MemoryRunResult where
  "sample_outcome = \<lparr>rr_decision_id = u ''decision_000001'', rr_eval_result = u ''pass'',
     rr_memory_caused_failure = False, rr_output_hash = None, rr_tool_outputs = None, rr_latency_ms = None,
     rr_cost_usd = None, rr_error = None, rr_trace_uri = None\<rparr>"

lemma sample_store5_fields:
  "st_traces sample_store5 = st_traces sample_store4" "st_failure_cases sample_store5 = st_failure_cases sample_store4"
  "st_lessons sample_store5 = st_lessons sample_store4" "st_project_policies sample_store5 = []"
  "st_usage_logs sample_store5 = [sample_log]" "st_usage_log_indexes sample_store5 = [(u ''decision_000001'', 0)]"
  by (simp_all add: sample_store5_def sample_store4_fields)

lemma sample_completed_trace:
  "completed_trace_candidate sample_runtime (sample_trace ''trace_2'' ''unknown'') (u ''pass'') [] =
     Inr (sample_trace ''trace_2'' ''pass'')"
proof -
  have "(sample_trace ''trace_2'' ''unknown'')\<lparr>tr_eval_result := u ''pass''\<rparr> = sample_trace ''trace_2'' ''pass''"
    by (simp add: sample_trace_def)
  moreover have "validate_trace sample_runtime (sample_trace ''trace_2'' ''pass'') = None"
    by (rule sample_trace_valid; simp add: py_isspace_def store_constants)
  ultimately show ?thesis by (simp add: completed_trace_candidate_def store_constants)
qed

definition sample_sealed_log :: MemoryUsageLog where
  "sample_sealed_log = sample_log\<lparr>ul_eval_result := Some (u ''pass''), ul_memory_caused_failure := False\<rparr>"

lemma sample_sealed:
  "sealed_usage_outcome_candidate sample_log (u ''pass'') False = Inr sample_sealed_log"
  "validate_usage_log_memory_ids sample_store5 sample_sealed_log = None"
  "validate_usage_log_trace sample_store5 sample_sealed_log = None"
proof -
  have "validate_usage_log sample_sealed_log = None"
    using parse_utc_timestamp [OF sample_clock]
    by (simp add: validate_usage_log_def Let_def sample_log_def sample_sealed_log_def py_isspace_def store_constants
        validate_memory_id_list_def validate_string_mapping_def validate_status_mapping_def dict_keys_def
        sample_request_fields policy_constants dict_values_def dict_has_iff
        MEMORY_SOURCE_IDENTITY_CONTEXT_FIELDS_def)
  moreover have "ul_eval_result sample_log = None" by (simp add: sample_log_def)
  ultimately show "sealed_usage_outcome_candidate sample_log (u ''pass'') False = Inr sample_sealed_log"
    by (simp add: sealed_usage_outcome_candidate_def sample_sealed_log_def)
  show "validate_usage_log_memory_ids sample_store5 sample_sealed_log = None"
    "validate_usage_log_trace sample_store5 sample_sealed_log = None"
    by (simp_all add: validate_usage_log_memory_ids_def validate_usage_log_trace_def Let_def sample_log_def
        sample_sealed_log_def known_memory_def sample_store5_fields sample_store4_fields dict_has_iff
        DECLARED_TRACE_CONTEXT_FIELDS_def py_isspace_def)
qed

lemma sample_completed:
  "\<exists>cs s'. complete_memory_runs sample_runtime [sample_outcome] sample_store5 = Inr (cs, s')"
proof -
  have v: "validated_memory_run_results [sample_outcome] = None"
    by (simp add: validated_memory_run_results_def sample_outcome_def validate_measured_outcome_def
        validate_measured_eval_result_def store_constants py_isspace_def)
  have row: "completion_row sample_store5 sample_outcome = Inr (0, u ''trace_2'', u ''pass'', False, [])"
    by (simp add: completion_row_def usage_log_index_def log_at_def log_trace_id_def sample_store5_fields
        memory_run_result_completion_values_def sample_outcome_def given_def)
       (simp add: sample_log_def)
  show ?thesis
    by (simp add: complete_memory_runs_def v row stage_memory_run_completions_def stage_row_def stage_trace_def
        stage_log_def trace_at_def log_at_def sample_store5_fields sample_store4_fields sample_completed_trace
        sample_sealed Let_def dict_update_def dict_values_def)
qed

end
