(* ===== verification/SnapshotFacts.thy ===== *)
theory SnapshotFacts
  imports StoreMachine
begin

text \<open>
  A store is loaded back from its own snapshot, with the same records.
\<close>

section \<open>Sorted values\<close>

definition keyed :: "('r \<Rightarrow> pystr) \<Rightarrow> (pystr, 'r) dict \<Rightarrow> bool" where
  "keyed key d \<longleftrightarrow> dict_ok d \<and> (\<forall>k v. dict_get d k = Some v \<longrightarrow> key v = k)"

definition by_key :: "('r \<Rightarrow> pystr) \<Rightarrow> 'r list \<Rightarrow> (pystr, 'r) dict" where
  "by_key key vs = map (\<lambda>v. (key v, v)) vs"

lemma sorted_values_keys: "keyed key d \<Longrightarrow> map key (sorted_values d) = sort (dict_keys d)"
proof -
  assume k: "keyed key d"
  have "map key (List.map_filter (dict_get d) ks) = ks" if "set ks \<subseteq> set (dict_keys d)" for ks
    using that
  proof (induction ks)
    case (Cons a ks)
    then obtain v where "dict_get d a = Some v" by (auto simp: dict_keys_def dest!: weak_map_of_SomeI)
    with Cons k show ?case by (auto simp: keyed_def List.map_filter_simps)
  qed (simp add: List.map_filter_simps)
  then show ?thesis by (simp add: sorted_values_def)
qed

lemma sorted_values_in:
  assumes "keyed key d"
  shows "v \<in> set (sorted_values d) \<longleftrightarrow> dict_get d (key v) = Some v"
proof
  assume "v \<in> set (sorted_values d)"
  then obtain k where "dict_get d k = Some v" by (auto simp: sorted_values_def List.map_filter_def)
  with assms show "dict_get d (key v) = Some v" by (simp add: keyed_def)
next
  assume v: "dict_get d (key v) = Some v"
  then have "key v \<in> set (dict_keys d)" using map_of_SomeD [OF v] by (force simp: dict_keys_def)
  with v show "v \<in> set (sorted_values d)" by (force simp: sorted_values_def List.map_filter_def)
qed

lemma sorted_values_distinct: "keyed key d \<Longrightarrow> distinct (map key (sorted_values d))"
  by (simp add: sorted_values_keys) (simp add: keyed_def dict_ok_def dict_keys_def)

lemma length_sorted_values: "keyed key d \<Longrightarrow> length (sorted_values d) = length d"
  using arg_cong [OF sorted_values_keys, of key d length] by (simp add: dict_keys_def)

lemma get_by_key:
  assumes "keyed key d"
  shows "dict_get (by_key key (sorted_values d)) = dict_get d"
proof
  fix k
  have "dict_ok (by_key key (sorted_values d))"
    using sorted_values_distinct [OF assms] by (simp add: dict_ok_def by_key_def comp_def)
  then have "dict_get (by_key key (sorted_values d)) k = Some v \<longleftrightarrow> dict_get d k = Some v" for v
    using assms sorted_values_in [OF assms, of v]
    by (subst dict_in_get [symmetric]) (auto simp: by_key_def keyed_def)
  then show "dict_get (by_key key (sorted_values d)) k = dict_get d k" by (metis not_Some_eq)
qed

lemma sorted_values_by_key:
  assumes "keyed key d"
  shows "sorted_values (by_key key (sorted_values d)) = sorted_values d"
proof -
  have "dict_keys (by_key key (sorted_values d)) = sort (dict_keys d)"
    using sorted_values_keys [OF assms] by (simp add: by_key_def dict_keys_def comp_def)
  then have "sorted_values (by_key key (sorted_values d)) =
      List.map_filter (dict_get (by_key key (sorted_values d))) (sort (sort (dict_keys d)))"
    by (simp only: sorted_values_def)
  also have "\<dots> = List.map_filter (dict_get d) (sort (dict_keys d))" by (simp add: get_by_key [OF assms] sorted_sort_id)
  finally show ?thesis by (simp only: sorted_values_def)
qed

section \<open>A snapshot is loaded back\<close>

text \<open>Loading the records of one collection, each with a new key, appends them in order.\<close>

lemma load_collection:
  assumes "\<And>x s. x \<in> set xs \<Longrightarrow> P s \<Longrightarrow> dict_get (view s) (key x) = None \<Longrightarrow>
      \<exists>s'. f x s = Inr s' \<and> P s' \<and> view s' = view s @ [(key x, x)]"
    and "distinct (map key xs)" and "P s" and "\<forall>x\<in>set xs. dict_get (view s) (key x) = None"
  shows "\<exists>s'. rfold f xs s = Inr s' \<and> P s' \<and> view s' = view s @ by_key key xs"
  using assms
proof (induction xs arbitrary: s)
  case (Cons x xs)
  have "\<exists>s1. f x s = Inr s1 \<and> P s1 \<and> view s1 = view s @ [(key x, x)]"
    by (rule Cons.prems(1)) (use Cons.prems(3,4) in simp_all)
  then obtain s1 where s1: "f x s = Inr s1" "P s1" "view s1 = view s @ [(key x, x)]" by blast
  then have "\<forall>y\<in>set xs. dict_get (view s1) (key y) = None"
    using Cons.prems(2,4) by (auto simp: map_add_def image_iff split: option.splits)
  moreover have "\<exists>s'. f y r = Inr s' \<and> P s' \<and> view s' = view r @ [(key y, y)]"
    if "y \<in> set xs" "P r" "dict_get (view r) (key y) = None" for y r
    using Cons.prems(1) [of y r] that by simp
  ultimately obtain s' where "rfold f xs s1 = Inr s'" "P s'" "view s' = view s1 @ by_key key xs"
    using Cons.IH [of s1] Cons.prems(2) s1(2) by auto
  then show ?case using s1 by (auto simp: by_key_def)
qed (simp add: by_key_def)

lemma store_ok_keyed:
  assumes "store_ok rt s"
  shows "keyed tr_trace_id (st_traces s)" "keyed fc_case_id (st_failure_cases s)"
    "keyed ls_lesson_id (st_lessons s)" "keyed pp_policy_id (st_project_policies s)"
  using assms by (simp_all add: store_ok_def memory_ok_defs keyed_def)

text \<open>The same records under the same ids, and the same logs in the order of their ids.\<close>

definition same_records :: "store \<Rightarrow> store \<Rightarrow> bool" where
  "same_records s t \<longleftrightarrow>
     dict_get (st_traces t) = dict_get (st_traces s) \<and>
     dict_get (st_failure_cases t) = dict_get (st_failure_cases s) \<and>
     dict_get (st_lessons t) = dict_get (st_lessons s) \<and>
     dict_get (st_project_policies t) = dict_get (st_project_policies s) \<and>
     st_usage_logs t = sort_key ul_decision_id (st_usage_logs s)"

definition contents where
  "contents s = (st_traces s, st_failure_cases s, st_lessons s, st_project_policies s, st_usage_logs s,
     st_pending_gate_requests s)"

lemma load_traces:
  assumes "store_ok rt s"
  shows "\<exists>t. rfold (\<lambda>t s. next_store (record_trace rt t s)) (sorted_values (st_traces s)) (new_store token sid) = Inr t \<and>
    store_ok rt t \<and> contents t = (by_key tr_trace_id (sorted_values (st_traces s)), [], [], [], [], [])"
proof -
  note k = store_ok_keyed(1) [OF assms]
  let ?P = "\<lambda>t. store_ok rt t \<and> contents t = (st_traces t, [], [], [], [], [])"
  have step: "\<exists>r'. next_store (record_trace rt x r) = Inr r' \<and> ?P r' \<and> st_traces r' = st_traces r @ [(tr_trace_id x, x)]"
    if x: "x \<in> set (sorted_values (st_traces s))" and r: "?P r" and new: "dict_get (st_traces r) (tr_trace_id x) = None" for x r
  proof -
    from x have "validate_trace rt x = None"
      using assms by (auto simp: sorted_values_in [OF k] store_ok_def memory_ok_defs)
    with new obtain r' where r': "record_trace rt x r = Inr (x, r')" by (auto simp: record_trace_Inr_iff)
    moreover from this r have "store_ok rt r'" using memory_ops_store_ok(1) by blast
    moreover from r' new r have "contents r' = (st_traces r', [], [], [], [], [])" "st_traces r' = st_traces r @ [(tr_trace_id x, x)]"
      by (simp_all add: record_trace_Inr_iff dict_set_new contents_def)
    ultimately show ?thesis by (auto simp: next_store_Inr_iff)
  qed
  have "\<exists>t. rfold (\<lambda>t s. next_store (record_trace rt t s)) (sorted_values (st_traces s)) (new_store token sid) = Inr t \<and>
    ?P t \<and> st_traces t = st_traces (new_store token sid) @ by_key tr_trace_id (sorted_values (st_traces s))"
    by (rule load_collection [OF step sorted_values_distinct [OF k]])
       (simp_all add: store_ok_new_store, simp_all add: new_store_def contents_def)
  then show ?thesis by (auto simp: new_store_def contents_def)
qed

lemma load_cases:
  assumes "store_ok rt s" and "store_ok rt s1" "contents s1 = (T, [], [], [], [], [])"
    and T: "dict_get T = dict_get (st_traces s)"
  shows "\<exists>t. rfold (\<lambda>c s. next_store (add_failure_case c s)) (sorted_values (st_failure_cases s)) s1 = Inr t \<and>
    store_ok rt t \<and> contents t = (T, by_key fc_case_id (sorted_values (st_failure_cases s)), [], [], [], [])"
proof -
  note k = store_ok_keyed(2) [OF assms(1)]
  let ?P = "\<lambda>t. store_ok rt t \<and> contents t = (T, st_failure_cases t, [], [], [], [])"
  have step: "\<exists>r'. next_store (add_failure_case x r) = Inr r' \<and> ?P r' \<and> st_failure_cases r' = st_failure_cases r @ [(fc_case_id x, x)]"
    if x: "x \<in> set (sorted_values (st_failure_cases s))" and r: "?P r" and new: "dict_get (st_failure_cases r) (fc_case_id x) = None" for x r
  proof -
    from x have "validate_failure_case x = None" "case_supported s x"
      using assms(1) by (auto simp: sorted_values_in [OF k] store_ok_def memory_ok_defs)
    moreover from this(2) r have "case_supported r x" by (simp add: case_supported_def contents_def T)
    ultimately obtain r' where r': "add_failure_case x r = Inr (x, r')"
      using new r by (auto simp: add_failure_case_Inr_iff contents_def)
    moreover from this r have "store_ok rt r'" using memory_ops_store_ok(3) by blast
    moreover from r' new r have "contents r' = (T, st_failure_cases r', [], [], [], [])"
        "st_failure_cases r' = st_failure_cases r @ [(fc_case_id x, x)]"
      by (simp_all add: add_failure_case_Inr_iff dict_set_new contents_def)
    ultimately show ?thesis by (auto simp: next_store_Inr_iff)
  qed
  have "\<exists>t. rfold (\<lambda>c s. next_store (add_failure_case c s)) (sorted_values (st_failure_cases s)) s1 = Inr t \<and>
    ?P t \<and> st_failure_cases t = st_failure_cases s1 @ by_key fc_case_id (sorted_values (st_failure_cases s))"
    by (rule load_collection [OF step sorted_values_distinct [OF k]]) (use assms(2,3) in \<open>simp_all add: contents_def\<close>)
  then show ?thesis using assms(3) by (auto simp: contents_def)
qed

lemma load_lessons:
  assumes "store_ok rt s" and "store_ok rt s1" "contents s1 = (T, C, [], [], [], [])"
    and get: "dict_get T = dict_get (st_traces s)" "dict_get C = dict_get (st_failure_cases s)"
  shows "\<exists>t. rfold (\<lambda>l s. next_store (add_lesson rt l s)) (sorted_values (st_lessons s)) s1 = Inr t \<and>
    store_ok rt t \<and> contents t = (T, C, by_key ls_lesson_id (sorted_values (st_lessons s)), [], [], [])"
proof -
  note k = store_ok_keyed(3) [OF assms(1)]
  let ?P = "\<lambda>t. store_ok rt t \<and> contents t = (T, C, st_lessons t, [], [], [])"
  have step: "\<exists>r'. next_store (add_lesson rt x r) = Inr r' \<and> ?P r' \<and> st_lessons r' = st_lessons r @ [(ls_lesson_id x, x)]"
    if x: "x \<in> set (sorted_values (st_lessons s))" and r: "?P r" and new: "dict_get (st_lessons r) (ls_lesson_id x) = None" for x r
  proof -
    from x have x': "dict_get (st_lessons s) (ls_lesson_id x) = Some x" by (simp add: sorted_values_in [OF k])
    then have "validate_stored_lesson rt x = None" "lesson_supported s x"
      using assms(1) unfolding store_ok_def memory_ok_defs by blast+
    moreover have "dict_get (st_failure_cases s) (ls_lesson_id x) = None"
      using assms(1) x' unfolding store_ok_def memory_ok_defs by (metis option.discI)
    moreover from calculation(2) r have "lesson_supported r x" by (simp add: lesson_supported_def contents_def get)
    ultimately obtain r' where r': "add_lesson rt x r = Inr (x, r')"
      using new r by (auto simp: add_lesson_Inr_iff contents_def get)
    moreover from this r have "store_ok rt r'" using memory_ops_store_ok(7) by blast
    moreover from r' new r have "contents r' = (T, C, st_lessons r', [], [], [])"
        "st_lessons r' = st_lessons r @ [(ls_lesson_id x, x)]"
      by (simp_all add: add_lesson_Inr_iff dict_set_new contents_def)
    ultimately show ?thesis by (auto simp: next_store_Inr_iff)
  qed
  have "\<exists>t. rfold (\<lambda>l s. next_store (add_lesson rt l s)) (sorted_values (st_lessons s)) s1 = Inr t \<and>
    ?P t \<and> st_lessons t = st_lessons s1 @ by_key ls_lesson_id (sorted_values (st_lessons s))"
    by (rule load_collection [OF step sorted_values_distinct [OF k]]) (use assms(2,3) in \<open>simp_all add: contents_def\<close>)
  then show ?thesis using assms(3) by (auto simp: contents_def)
qed

lemma load_policies:
  assumes "store_ok rt s" and "store_ok rt s1" "contents s1 = (T, C, L, [], [], [])"
    and get: "dict_get C = dict_get (st_failure_cases s)" "dict_get L = dict_get (st_lessons s)"
  shows "\<exists>t. rfold (\<lambda>p s. next_store (add_project_policy rt p s)) (sorted_values (st_project_policies s)) s1 = Inr t \<and>
    store_ok rt t \<and> contents t = (T, C, L, by_key pp_policy_id (sorted_values (st_project_policies s)), [], [])"
proof -
  note k = store_ok_keyed(4) [OF assms(1)]
  let ?P = "\<lambda>t. store_ok rt t \<and> contents t = (T, C, L, st_project_policies t, [], [])"
  have step: "\<exists>r'. next_store (add_project_policy rt x r) = Inr r' \<and> ?P r' \<and>
      st_project_policies r' = st_project_policies r @ [(pp_policy_id x, x)]"
    if x: "x \<in> set (sorted_values (st_project_policies s))" and r: "?P r"
      and new: "dict_get (st_project_policies r) (pp_policy_id x) = None" for x r
  proof -
    from x have x': "dict_get (st_project_policies s) (pp_policy_id x) = Some x" by (simp add: sorted_values_in [OF k])
    then have "validate_stored_policy rt x = None" using assms(1) unfolding store_ok_def memory_ok_defs by blast
    moreover have "dict_get (st_failure_cases s) (pp_policy_id x) = None" "dict_get (st_lessons s) (pp_policy_id x) = None"
      using assms(1) x' unfolding store_ok_def memory_ok_defs by (metis option.discI)+
    ultimately obtain r' where r': "add_project_policy rt x r = Inr (x, r')"
      using new r by (auto simp: add_project_policy_Inr_iff contents_def get)
    moreover from this r have "store_ok rt r'" using memory_ops_store_ok(9) by blast
    moreover from r' new r have "contents r' = (T, C, L, st_project_policies r', [], [])"
        "st_project_policies r' = st_project_policies r @ [(pp_policy_id x, x)]"
      by (simp_all add: add_project_policy_Inr_iff dict_set_new contents_def)
    ultimately show ?thesis by (auto simp: next_store_Inr_iff)
  qed
  have "\<exists>t. rfold (\<lambda>p s. next_store (add_project_policy rt p s)) (sorted_values (st_project_policies s)) s1 = Inr t \<and>
    ?P t \<and> st_project_policies t = st_project_policies s1 @ by_key pp_policy_id (sorted_values (st_project_policies s))"
    by (rule load_collection [OF step sorted_values_distinct [OF k]]) (use assms(2,3) in \<open>simp_all add: contents_def\<close>)
  then show ?thesis using assms(3) by (auto simp: contents_def)
qed

lemma same_contents_extends:
  assumes "dict_get (st_traces t) = dict_get (st_traces s)" "dict_get (st_failure_cases t) = dict_get (st_failure_cases s)"
    "dict_get (st_lessons t) = dict_get (st_lessons s)" "dict_get (st_project_policies t) = dict_get (st_project_policies s)"
  shows "extends s t"
  by (simp add: extends_def known_memory_def dict_has_iff assms)

lemma load_logs:
  assumes "store_ok rt s" and "store_ok rt s1" "contents s1 = (T, C, L, P, [], [])"
    and get: "dict_get T = dict_get (st_traces s)" "dict_get C = dict_get (st_failure_cases s)"
      "dict_get L = dict_get (st_lessons s)" "dict_get P = dict_get (st_project_policies s)"
  shows "\<exists>t. rfold (load_usage_log rt True) (sort_key ul_decision_id (st_usage_logs s)) s1 = Inr t \<and>
    store_ok rt t \<and> contents t = (T, C, L, P, sort_key ul_decision_id (st_usage_logs s), [])"
proof -
  let ?P = "\<lambda>t. store_ok rt t \<and> contents t = (T, C, L, P, st_usage_logs t, [])"
  let ?view = "\<lambda>t. by_key ul_decision_id (st_usage_logs t)"
  have step: "\<exists>r'. load_usage_log rt True x r = Inr r' \<and> ?P r' \<and> ?view r' = ?view r @ [(ul_decision_id x, x)]"
    if x: "x \<in> set (sort_key ul_decision_id (st_usage_logs s))" and r: "?P r"
      and new: "dict_get (?view r) (ul_decision_id x) = None" for x r
  proof -
    have "log_ok s x" using assms(1) x by (simp add: store_ok_def logs_ok_def)
    then have ok: "log_ok r x"
      by (rule log_ok_extends [rotated]) (rule same_contents_extends; use r in \<open>simp add: contents_def get\<close>)
    have "ul_decision_id x \<notin> ul_decision_id ` set (st_usage_logs r)"
      using new by (simp add: by_key_def map_of_eq_None_iff comp_def image_image)
    then have "\<not> dict_has (st_usage_log_indexes r) (ul_decision_id x)"
      using r by (auto simp: dict_has_iff store_ok_def logs_ok_def image_iff) (metis nth_mem)
    then obtain r' where a: "append_usage_log rt x r = Inr r'" by (simp add: append_usage_log_Inr_iff)
    with ok have "load_usage_log rt True x r = Inr r'" by (simp add: load_usage_log_def log_ok_def)
    moreover from this r have "store_ok rt r'" using load_usage_log_ok by blast
    moreover from a r have "contents r' = (T, C, L, P, st_usage_logs r', [])" "?view r' = ?view r @ [(ul_decision_id x, x)]"
      by (simp_all add: append_usage_log_Inr_iff contents_def by_key_def)
    ultimately show ?thesis by blast
  qed
  have "distinct (map ul_decision_id (sort_key ul_decision_id (st_usage_logs s)))"
    using logs_ok_distinct [of s] assms(1) by (simp add: store_ok_def distinct_map)
  from load_collection [OF step this, of s1] have "\<exists>t. rfold (load_usage_log rt True) (sort_key ul_decision_id (st_usage_logs s)) s1 = Inr t \<and>
    ?P t \<and> ?view t = ?view s1 @ by_key ul_decision_id (sort_key ul_decision_id (st_usage_logs s))"
    using assms(2,3) by (simp add: contents_def by_key_def)
  then obtain t where "rfold (load_usage_log rt True) (sort_key ul_decision_id (st_usage_logs s)) s1 = Inr t" "?P t"
    "?view t = by_key ul_decision_id (sort_key ul_decision_id (st_usage_logs s))"
    using assms(3) by (auto simp: contents_def by_key_def)
  moreover from arg_cong [OF this(3), of "map snd"] have "st_usage_logs t = sort_key ul_decision_id (st_usage_logs s)"
    by (simp add: by_key_def comp_def)
  ultimately show ?thesis by auto
qed

definition within_limits :: "store \<Rightarrow> int option \<Rightarrow> int option \<Rightarrow> bool" where
  "within_limits s max_each max_all \<longleftrightarrow>
     (\<forall>n\<in>{length (st_traces s), length (st_failure_cases s), length (st_lessons s), length (st_project_policies s),
        length (st_usage_logs s)}. \<not> over_limit max_each n) \<and>
     \<not> over_limit max_all (length (st_traces s) + length (st_failure_cases s) + length (st_lessons s) +
        length (st_project_policies s) + length (st_usage_logs s))"

lemma over_limit_0: "over_limit b 0 \<longleftrightarrow> (\<exists>m. b = Some m \<and> m < 0)"
  by (auto simp: over_limit_def split: option.splits)

lemma limits_None_iff:
  assumes "store_ok rt s"
  shows "validate_snapshot_collection_limits (to_snapshot s) max_each max_all = None \<longleftrightarrow> within_limits s max_each max_all"
proof -
  have "validate_non_negative_limit b name = None \<longleftrightarrow> \<not> over_limit b 0" for b name
    by (auto simp: validate_non_negative_limit_def over_limit_0 split: option.splits)
  moreover have "over_limit b 0 \<Longrightarrow> over_limit b n" for b n by (auto simp: over_limit_def split: option.splits)
  ultimately show ?thesis
    by (auto simp: validate_snapshot_collection_limits_def collection_counts_def SNAPSHOT_COLLECTION_NAMES_def
        validate_snapshot_record_count_def validate_snapshot_total_record_count_def within_limits_def to_snapshot_def
        length_sorted_values [OF store_ok_keyed(1) [OF assms]] length_sorted_values [OF store_ok_keyed(2) [OF assms]]
        length_sorted_values [OF store_ok_keyed(3) [OF assms]] length_sorted_values [OF store_ok_keyed(4) [OF assms]] add.assoc)
qed

lemma to_snapshot_envelope: "validate_snapshot_envelope (to_snapshot s) = Inr True"
proof -
  have "u ''snapshot_version'' \<notin> set SNAPSHOT_COLLECTION_NAMES" by (simp add: SNAPSHOT_COLLECTION_NAMES_def)
  then have "set SNAPSHOT_V2_KEYS \<noteq> set SNAPSHOT_COLLECTION_NAMES" by (auto simp: SNAPSHOT_V2_KEYS_def)
  then show ?thesis by (simp add: validate_snapshot_envelope_def to_snapshot_def)
qed

lemma restored:
  assumes ok: "store_ok rt s" and "within_limits s max_each max_all"
  obtains t where "from_snapshot rt max_each max_all token sid (to_snapshot s) = Inr t" "store_ok rt t"
    "contents t = (by_key tr_trace_id (sorted_values (st_traces s)), by_key fc_case_id (sorted_values (st_failure_cases s)),
       by_key ls_lesson_id (sorted_values (st_lessons s)), by_key pp_policy_id (sorted_values (st_project_policies s)),
       sort_key ul_decision_id (st_usage_logs s), [])"
proof -
  note get = get_by_key [OF store_ok_keyed(1) [OF ok]] get_by_key [OF store_ok_keyed(2) [OF ok]]
    get_by_key [OF store_ok_keyed(3) [OF ok]] get_by_key [OF store_ok_keyed(4) [OF ok]]
  obtain s1 where s1: "rfold (\<lambda>t s. next_store (record_trace rt t s)) (sorted_values (st_traces s)) (new_store token sid) = Inr s1"
      "store_ok rt s1" "contents s1 = (by_key tr_trace_id (sorted_values (st_traces s)), [], [], [], [], [])"
    using load_traces [OF ok] by blast
  obtain s2 where s2: "rfold (\<lambda>c s. next_store (add_failure_case c s)) (sorted_values (st_failure_cases s)) s1 = Inr s2"
      "store_ok rt s2" "contents s2 = (by_key tr_trace_id (sorted_values (st_traces s)),
        by_key fc_case_id (sorted_values (st_failure_cases s)), [], [], [], [])"
    using load_cases [OF ok s1(2,3) get(1)] by blast
  obtain s3 where s3: "rfold (\<lambda>l s. next_store (add_lesson rt l s)) (sorted_values (st_lessons s)) s2 = Inr s3"
      "store_ok rt s3" "contents s3 = (by_key tr_trace_id (sorted_values (st_traces s)),
        by_key fc_case_id (sorted_values (st_failure_cases s)), by_key ls_lesson_id (sorted_values (st_lessons s)), [], [], [])"
    using load_lessons [OF ok s2(2,3) get(1,2)] by blast
  obtain s4 where s4: "rfold (\<lambda>p s. next_store (add_project_policy rt p s)) (sorted_values (st_project_policies s)) s3 = Inr s4"
      "store_ok rt s4" "contents s4 = (by_key tr_trace_id (sorted_values (st_traces s)),
        by_key fc_case_id (sorted_values (st_failure_cases s)), by_key ls_lesson_id (sorted_values (st_lessons s)),
        by_key pp_policy_id (sorted_values (st_project_policies s)), [], [])"
    using load_policies [OF ok s3(2,3) get(2,3)] by blast
  have "validate_snapshot_collection_limits (to_snapshot s) max_each max_all = None" using limits_None_iff [OF ok] assms(2) by blast
  moreover obtain t where "rfold (load_usage_log rt True) (sort_key ul_decision_id (st_usage_logs s)) s4 = Inr t" "store_ok rt t"
    "contents t = (by_key tr_trace_id (sorted_values (st_traces s)), by_key fc_case_id (sorted_values (st_failure_cases s)),
       by_key ls_lesson_id (sorted_values (st_lessons s)), by_key pp_policy_id (sorted_values (st_project_policies s)),
       sort_key ul_decision_id (st_usage_logs s), [])"
    using load_logs [OF ok s4(2,3) get] by blast
  ultimately show thesis
    by (intro that [of t]) (simp_all add: from_snapshot_def to_snapshot_envelope, simp add: to_snapshot_def s1 s2 s3 s4)
qed

lemma snapshot_restores:
  assumes ok: "store_ok rt s" and "within_limits s max_each max_all"
  obtains t where "from_snapshot rt max_each max_all token sid (to_snapshot s) = Inr t" "store_ok rt t"
    "same_records s t" "to_snapshot t = to_snapshot s" "st_pending_gate_requests t = []"
proof -
  note k = store_ok_keyed [OF ok]
  obtain t where t: "from_snapshot rt max_each max_all token sid (to_snapshot s) = Inr t" "store_ok rt t"
    "contents t = (by_key tr_trace_id (sorted_values (st_traces s)), by_key fc_case_id (sorted_values (st_failure_cases s)),
       by_key ls_lesson_id (sorted_values (st_lessons s)), by_key pp_policy_id (sorted_values (st_project_policies s)),
       sort_key ul_decision_id (st_usage_logs s), [])"
    using restored [OF assms] by blast
  have "sort_key ul_decision_id (sort_key ul_decision_id (st_usage_logs s)) = sort_key ul_decision_id (st_usage_logs s)"
    by (simp add: sort_key_id_if_sorted)
  then show thesis
    using that [OF t(1,2)] t(3) k
    by (simp add: same_records_def contents_def to_snapshot_def get_by_key sorted_values_by_key)
qed

lemma unwritable_limit:
  assumes "store_ok rt s" and "\<not> within_limits s max_each max_all"
  shows "\<exists>e. from_snapshot rt max_each max_all token sid (to_snapshot s) = Inl e"
proof (cases "validate_snapshot_collection_limits (to_snapshot s) max_each max_all")
  case (Some e)
  then show ?thesis by (simp add: from_snapshot_def to_snapshot_envelope)
qed (use limits_None_iff [OF assms(1)] assms(2) in blast)

end
