(* ===== verification/RetrievalFacts.thy ===== *)
theory RetrievalFacts
  imports GateInv
begin

text \<open>
  What retrieval returns: only memories of the store whose scope matches the context, that share a
  token with the query or have a score above the minimum, within the limit, in the documented
  order, and, with ancestry evidence, only those whose anchor commit is an ancestor.
\<close>

section \<open>Candidates\<close>

definition offered_for :: "store \<Rightarrow> MemoryContext \<Rightarrow> MemoryItem \<Rightarrow> bool" where
  "offered_for s cx m \<longleftrightarrow> backed s m \<and> has_metadata_match (mi_scope m) (context_values cx)"

lemma offered_Some_iff: "offered r = Inr (Some m) \<longleftrightarrow> r = Inr m"
  by (auto simp: offered_def result_simps)

lemma offered_not_None: "offered r \<noteq> Inr None"
  by (auto simp: offered_def result_simps)

lemma lesson_item_scope: "store_memory_item_from_lesson s l = Inr m \<Longrightarrow> mi_scope m = ls_scope l"
  by (auto simp: store_memory_item_from_lesson_def result_simps memory_item_from_lesson_def)

lemma policy_item_scope: "memory_item_from_project_policy rt p = Inr m \<Longrightarrow> mi_scope m = pp_scope p"
  by (auto simp: memory_item_from_project_policy_def result_simps)

lemma case_candidate_Some:
  assumes ok: "memory_ok rt s" and c: "dict_get (st_failure_cases s) i = Some c"
    and m: "case_candidate s cx c = Inr (Some m)"
  shows "offered_for s cx m \<and> fc_status c = u ''verified'' \<and> fc_regression_passed c"
proof -
  from m obtain t where t: "dict_get (st_traces s) (fc_source_trace_id c) = Some t" "fc_status c = u ''verified''" "fc_regression_passed c"
      "memory_item_from_failure_case c t = Inr m" "has_metadata_match (mi_scope m) (context_values cx)"
    by (auto simp: case_candidate_def result_simps split: option.splits if_splits)
  from t(4) have "memory_item_from_failure_case_for_audit c t = Inr m" by (auto simp: memory_item_from_failure_case_def result_simps)
  from case_item [OF ok c t(1) this] t show ?thesis by (simp add: offered_for_def)
qed

lemma iter_metadata_offered:
  assumes ok: "memory_ok rt s" and m: "Inr (Some m) \<in> set (iter_metadata_candidates rt' s cx)"
  shows "offered_for s cx m"
proof -
  note d = memory_ok_dicts [OF ok]
  from m consider
    (lesson) k l where "dict_get (st_lessons s) k = Some l" "has_metadata_match (ls_scope l) (context_values cx)"
      "store_memory_item_from_lesson s l = Inr m"
  | (policy) k p where "dict_get (st_project_policies s) k = Some p"
      "has_metadata_match (pp_scope p) (context_values cx)" "memory_item_from_project_policy rt' p = Inr m"
  | (fcase) k c where "dict_get (st_failure_cases s) k = Some c" "case_candidate s cx c = Inr (Some m)"
    unfolding iter_metadata_candidates_def Let_def set_append set_map
    by (auto simp: dict_values_in [OF d(3)] dict_values_in [OF d(4)] dict_values_in [OF d(2)] offered_Some_iff
        eq_commute [of "Inr (Some m)"] split: if_splits)
  then show ?thesis
  proof cases
    case lesson
    then show ?thesis using lesson_item [OF ok] lesson_item_scope by (simp add: offered_for_def)
  next
    case policy
    then show ?thesis using policy_item [OF ok] policy_item_scope by (simp add: offered_for_def)
  next
    case fcase
    then show ?thesis using case_candidate_Some [OF ok] by blast
  qed
qed

section \<open>Selection\<close>

lemma drain_Inr_set:
  assumes "drain items = Inr ms" and "m \<in> set ms"
  shows "Inr (Some m) \<in> set items"
proof -
  from assms obtain xs where "list_all2 (\<lambda>x y. x = Inr y) items xs" and ms: "ms = List.map_filter id xs"
    by (auto simp: drain_def result_simps rmap_Inr_iff)
  then show ?thesis
    using assms(2) unfolding ms
    by (induction rule: list_all2_induct) (auto simp: List.map_filter_simps split: option.splits)
qed

lemma select_memories_Inr:
  assumes "select_memories rt q mx sel cands = Inr ms"
  shows "set ms \<subseteq> set sel \<union> {m. Inr (Some m) \<in> set cands \<and>
      (q = [] \<or> set q \<inter> set (memory_tokens rt m) \<noteq> {})}"
    "mx = Some n \<Longrightarrow> length sel \<le> n \<Longrightarrow> length ms \<le> n"
proof -
  show "set ms \<subseteq> set sel \<union> {m. Inr (Some m) \<in> set cands \<and>
      (q = [] \<or> set q \<inter> set (memory_tokens rt m) \<noteq> {})}"
    using assms
  proof (induction rt q mx sel cands rule: select_memories.induct)
    case (4 rt q mx sel m rest)
    then show ?case by (cases mx) (auto simp: Let_def split: if_splits)
  qed auto
  show "mx = Some n \<Longrightarrow> length sel \<le> n \<Longrightarrow> length ms \<le> n"
    using assms
  proof (induction rt q mx sel cands rule: select_memories.induct)
    case (4 rt q mx sel m rest)
    then show ?case by (cases "q \<noteq> [] \<and> set q \<inter> set (memory_tokens rt m) = {}") (auto simp: Let_def split: if_splits)
  qed auto
qed

section \<open>Ancestry\<close>

text \<open>Evidence that admits a memory: its anchor, if it has one, is recorded as an ancestor.\<close>

definition anchored :: "store \<Rightarrow> CommitAncestryEvidence option \<Rightarrow> MemoryItem \<Rightarrow> bool" where
  "anchored s ev m \<longleftrightarrow>
     (case ev of None \<Rightarrow> True
      | Some e \<Rightarrow> (\<exists>anchor. commit_anchor s (mi_memory_id m) = Inr anchor \<and>
          (\<forall>c. anchor = Some c \<longrightarrow> (c, True) \<in> set (ca_commit_relations e))))"

lemma relations_fold:
  assumes "rfold (\<lambda>(anchor, is_ancestor) relations. or_raise (E anchor relations)
      (Inr (dict_set anchor is_ancestor relations))) rs d = Inr d'" and "dict_get d' c = Some b"
  shows "dict_get d c = Some b \<or> (c, b) \<in> set rs"
  using assms
proof (induction rs arbitrary: d)
  case (Cons r rs)
  obtain a x where r: "r = (a, x)" by (cases r)
  with Cons.prems(1) have "rfold (\<lambda>(anchor, is_ancestor) relations. or_raise (E anchor relations)
      (Inr (dict_set anchor is_ancestor relations))) rs (dict_set a x d) = Inr d'"
    by (auto simp: result_simps)
  from Cons.IH [OF this Cons.prems(2)] show ?case by (auto simp: dict_get_set r split: if_splits)
qed simp

lemma validated_commit_ancestry_Inr:
  assumes "validated_commit_ancestry cx ev = Inr rel"
  shows "rel = None \<longleftrightarrow> ev = None"
    "rel = Some r \<Longrightarrow> dict_get r c = Some b \<Longrightarrow> \<exists>e. ev = Some e \<and> (c, b) \<in> set (ca_commit_relations e)"
proof -
  show "rel = None \<longleftrightarrow> ev = None"
    using assms by (auto simp: validated_commit_ancestry_def result_simps split: option.splits)
  show "\<exists>e. ev = Some e \<and> (c, b) \<in> set (ca_commit_relations e)" if "rel = Some r" "dict_get r c = Some b"
    using assms that relations_fold [where d = "[]" and c = c and b = b]
    by (fastforce simp: validated_commit_ancestry_def result_simps split: option.splits)
qed

lemma iter_ancestry_Some:
  assumes "Inr (Some m) \<in> set (iter_candidates_by_ancestry s cands rel)"
  shows "Inr (Some m) \<in> set cands"
    "\<exists>anchor. commit_anchor s (mi_memory_id m) = Inr anchor \<and> anchor_is_ancestor rel anchor"
proof -
  let ?keep = "\<lambda>memory. rbind (commit_anchor s (mi_memory_id memory)) (\<lambda>anchor.
       or_raise (case anchor of None \<Rightarrow> None
          | Some a \<Rightarrow> raise_if (\<not> dict_has rel a) (u ''commit ancestry evidence is missing anchors: '' @ a))
       (Inr (if anchor_is_ancestor rel anchor then Some memory else None)))"
  from assms obtain r where r: "r \<in> set cands"
      "rbind r (\<lambda>m. case m of None \<Rightarrow> Inr None | Some memory \<Rightarrow> ?keep memory) = Inr (Some m)"
    unfolding iter_candidates_by_ancestry_def set_map by (elim imageE) (drule sym, rule that)
  then obtain x where x: "r = Inr x" "(case x of None \<Rightarrow> Inr None | Some memory \<Rightarrow> ?keep memory) = Inr (Some m)"
    unfolding rbind_Inr_iff [of r] by blast
  then obtain memory where mem: "r = Inr (Some memory)" "?keep memory = Inr (Some m)"
    by (cases x) simp_all
  then obtain anchor where "commit_anchor s (mi_memory_id memory) = Inr anchor" "anchor_is_ancestor rel anchor"
      "memory = m"
    by (auto simp: rbind_Inr_iff or_raise_Inr_iff split: if_splits)
  with r mem show "Inr (Some m) \<in> set cands"
    "\<exists>anchor. commit_anchor s (mi_memory_id m) = Inr anchor \<and> anchor_is_ancestor rel anchor" by auto
qed

lemma filter_ancestry_Inr:
  assumes "filter_candidates_by_ancestry s cands rel = Inr ms" and "m \<in> set ms"
  shows "m \<in> set cands" "\<exists>anchor. commit_anchor s (mi_memory_id m) = Inr anchor \<and> anchor_is_ancestor rel anchor"
proof -
  from assms obtain anch a where l: "list_all2 (\<lambda>x y. rbind (commit_anchor s (mi_memory_id x)) (\<lambda>a. Inr (x, a)) = Inr y)
      cands anch" and m: "(m, a) \<in> set anch" "anchor_is_ancestor rel a"
    by (auto simp: filter_candidates_by_ancestry_def result_simps rmap_Inr_iff)
  then obtain x where "x \<in> set cands" "rbind (commit_anchor s (mi_memory_id x)) (\<lambda>a. Inr (x, a)) = Inr (m, a)"
    by (auto simp: in_set_conv_nth list_all2_conv_all_nth) metis
  then show "m \<in> set cands" "\<exists>anchor. commit_anchor s (mi_memory_id m) = Inr anchor \<and> anchor_is_ancestor rel anchor"
    using m(2) by (auto simp: result_simps)
qed

section \<open>Retrieval\<close>

lemma ancestor_anchored:
  assumes "validated_commit_ancestry cx ev = Inr (Some rel)" and "commit_anchor s (mi_memory_id m) = Inr anchor"
    and "anchor_is_ancestor rel anchor"
  shows "anchored s ev m"
proof -
  from assms(1) obtain e where e: "ev = Some e" using validated_commit_ancestry_Inr(1) by fastforce
  with assms show ?thesis
    using validated_commit_ancestry_Inr(2) [OF assms(1), of rel _ True]
    by (auto simp: anchored_def anchor_is_ancestor_def split: option.splits)
qed

lemma no_ancestry_anchored:
  assumes "validated_commit_ancestry cx ev = Inr None"
  shows "anchored s ev m"
  using validated_commit_ancestry_Inr(1) [OF assms] by (simp add: anchored_def)

text \<open>The pool that selection draws from, with and without a limit on the results.\<close>

definition pool ::
  "runtime \<Rightarrow> store \<Rightarrow> MemoryContext \<Rightarrow> (pystr, bool) dict option \<Rightarrow> nat option \<Rightarrow> MemoryItem option result list result" where
  "pool rt s cx rel result_limit =
     (case result_limit of
        None \<Rightarrow>
          rbind (metadata_candidates rt s cx) (\<lambda>candidates.
          rbind (case rel of None \<Rightarrow> Inr candidates
                 | Some relations \<Rightarrow> filter_candidates_by_ancestry s candidates relations) (\<lambda>candidates.
          Inr (map (Inr \<circ> Some) candidates)))
      | Some _ \<Rightarrow>
          Inr (case rel of None \<Rightarrow> iter_metadata_candidates rt s cx
             | Some relations \<Rightarrow> iter_candidates_by_ancestry s (iter_metadata_candidates rt s cx) relations))"

lemma pool_sound:
  assumes ok: "memory_ok rt s" and ev: "validated_commit_ancestry cx ev = Inr rel"
    and p: "pool rt' s cx rel mx = Inr items" and m: "Inr (Some m) \<in> set items"
  shows "offered_for s cx m \<and> anchored s ev m"
proof (cases rel)
  case None
  then have "Inr (Some m) \<in> set (iter_metadata_candidates rt' s cx)"
    using p m drain_Inr_set [of "iter_metadata_candidates rt' s cx" _ m]
    by (auto simp: pool_def result_simps metadata_candidates_def split: option.splits)
  with None show ?thesis using iter_metadata_offered [OF ok] no_ancestry_anchored ev by blast
next
  case (Some r)
  then have "Inr (Some m) \<in> set (iter_metadata_candidates rt' s cx) \<and>
      (\<exists>anchor. commit_anchor s (mi_memory_id m) = Inr anchor \<and> anchor_is_ancestor r anchor)"
    using p m drain_Inr_set [of "iter_metadata_candidates rt' s cx" _ m] iter_ancestry_Some [of m s]
      filter_ancestry_Inr [of s _ r]
    by (fastforce simp: pool_def result_simps metadata_candidates_def split: option.splits)
  with Some show ?thesis using iter_metadata_offered [OF ok] ancestor_anchored ev by blast
qed

lemma retrieve_memories_InrE:
  assumes "retrieve_memories rt s cx query scores maxc minscore ev mx = Inr ms"
  obtains sc rel items where "validate_memory_context cx = None"
    "validated_semantic_scores rt s scores query maxc minscore = Inr sc" "validated_commit_ancestry cx ev = Inr rel"
    "pool rt s cx rel mx = Inr items"
    "case sc of
       Some d \<Rightarrow> \<exists>all. drain items = Inr all \<and> ms = ranked d minscore (nat (the maxc)) all
     | None \<Rightarrow> \<exists>sel. select_memories rt (tokens rt (case query of Some q \<Rightarrow> q | None \<Rightarrow> [])) mx [] items = Inr sel \<and>
         ms = sort_key mi_memory_id sel"
proof -
  from assms obtain sc rel items where 1: "validate_memory_context cx = None"
    "validated_semantic_scores rt s scores query maxc minscore = Inr sc" "validated_commit_ancestry cx ev = Inr rel"
    "pool rt s cx rel mx = Inr items"
    and 2: "(case sc of
            Some sc \<Rightarrow> rbind (drain items) (\<lambda>memories. Inr (ranked sc minscore (nat (the maxc)) memories))
          | None \<Rightarrow>
              rbind (select_memories rt (tokens rt (case query of Some q \<Rightarrow> q | None \<Rightarrow> [])) mx [] items)
                (\<lambda>selected. Inr (sort_key mi_memory_id selected))) = Inr ms"
    unfolding retrieve_memories_def or_raise_Inr_iff rbind_Inr_iff first_error_None_iff pool_def
    by (elim conjE exE) (rule that; (assumption | simp add: pool_def))
  show thesis by (rule that [OF 1]) (use 2 in \<open>auto simp: rbind_Inr_iff split: option.splits\<close>)
qed

lemma retrieved:
  assumes ok: "memory_ok rt s" and r: "retrieve_memories rt' s cx query scores maxc minscore ev mx = Inr ms"
  shows "m \<in> set ms \<Longrightarrow> offered_for s cx m \<and> anchored s ev m"
    "scores = None \<Longrightarrow> sorted (map mi_memory_id ms)"
    "scores = None \<Longrightarrow> mx = Some n \<Longrightarrow> length ms \<le> n"
    "scores = Some d \<Longrightarrow> int (length ms) \<le> the maxc \<and> (\<forall>m\<in>set ms. dict_has d (mi_memory_id m)) \<and>
       sorted (map (\<lambda>m. (- score_of d m, mi_memory_id m)) ms)"
proof -
  obtain sc rel items where sc: "validated_semantic_scores rt' s scores query maxc minscore = Inr sc"
    and rel: "validated_commit_ancestry cx ev = Inr rel" and items: "pool rt' s cx rel mx = Inr items"
    and ms: "case sc of
       Some d \<Rightarrow> \<exists>all. drain items = Inr all \<and> ms = ranked d minscore (nat (the maxc)) all
     | None \<Rightarrow> \<exists>sel. select_memories rt' (tokens rt' (case query of Some q \<Rightarrow> q | None \<Rightarrow> [])) mx [] items = Inr sel \<and>
         ms = sort_key mi_memory_id sel"
    by (rule retrieve_memories_InrE [OF r])
  have same: "sc = scores" and max: "scores = Some d \<Longrightarrow> \<exists>n. maxc = Some n \<and> 1 \<le> n" for d
    using sc by (auto simp: validated_semantic_scores_def result_simps Let_def split: option.splits)
  have "Inr (Some m) \<in> set items" if "m \<in> set ms" for m
  proof (cases sc)
    case None
    with ms that show ?thesis using select_memories_Inr(1) [of rt' _ mx "[]" items] by fastforce
  next
    case (Some d)
    with ms that show ?thesis using drain_Inr_set [of items _ m] by (auto simp: ranked_def dest!: in_set_takeD)
  qed
  then show "m \<in> set ms \<Longrightarrow> offered_for s cx m \<and> anchored s ev m"
    using pool_sound [OF ok rel items] by blast
  show "scores = None \<Longrightarrow> sorted (map mi_memory_id ms)" using ms same by auto
  show "scores = None \<Longrightarrow> mx = Some n \<Longrightarrow> length ms \<le> n"
    using ms same select_memories_Inr(2) [of rt' _ mx "[]" items] by auto
  show "int (length ms) \<le> the maxc \<and> (\<forall>m\<in>set ms. dict_has d (mi_memory_id m)) \<and>
       sorted (map (\<lambda>m. (- score_of d m, mi_memory_id m)) ms)" if "scores = Some d"
    using ms same max [OF that] that
    by (auto simp: ranked_def take_map [symmetric] intro: sorted_wrt_take dest!: in_set_takeD)
qed

end
