(* ===== verification/Instants.thy ===== *)
theory Instants
  imports Timestamps
begin

text \<open>
  Points in time, for the version 3 contracts: the order of aware \<^verbatim>\<open>datetime\<close> values, which is the
  order of the instants they denote, and \<^verbatim>\<open>canonical_rfc3339\<close> of \<^verbatim>\<open>_timestamps.py\<close>, which
  rewrites a timestamp to UTC. Rewriting keeps the instant, and it fails only when the instant has
  no UTC date between the years 1 and 9999.
\<close>

section \<open>Ordinals\<close>

text \<open>The days of the proleptic Gregorian calendar, counted from 0001-01-01 as day 0.\<close>

definition year_days :: "nat \<Rightarrow> nat" where
  "year_days y = (if is_leap y then 366 else 365)"

definition days_before_year :: "nat \<Rightarrow> nat" where
  "days_before_year y = (let p = y - 1 in p * 365 + p div 4 + p div 400 - p div 100)"

definition days_before_month :: "nat \<Rightarrow> nat \<Rightarrow> nat" where
  "days_before_month y m = sum_list (map (days_in_month y) [1..<m])"

definition ymd_ordinal :: "nat \<Rightarrow> nat \<Rightarrow> nat \<Rightarrow> nat" where
  "ymd_ordinal y m d = days_before_year y + days_before_month y m + (d - 1)"

text \<open>The year and then the month are found by stepping up from an estimate that is not too late.\<close>

function year_from :: "nat \<Rightarrow> nat \<Rightarrow> nat \<times> nat" where
  "year_from y n = (if n < year_days y then (y, n) else year_from (Suc y) (n - year_days y))"
  by pat_completeness auto
termination by (relation "measure snd") (auto simp: year_days_def split: if_splits)

declare year_from.simps [simp del]

fun month_from :: "nat \<Rightarrow> nat list \<Rightarrow> nat \<Rightarrow> nat \<times> nat" where
  "month_from y [] n = (12, n)"
| "month_from y (m # ms) n =
     (if n < days_in_month y m then (m, n) else month_from y ms (n - days_in_month y m))"

definition ordinal_ymd :: "nat \<Rightarrow> nat \<times> nat \<times> nat" where
  "ordinal_ymd n =
     (let y0 = Suc (n div 366);
          (y, r) = year_from y0 (n - days_before_year y0);
          (m, d) = month_from y [1..<13] r
      in (y, m, Suc d))"

lemma days_before_year_Suc:
  assumes "1 \<le> y"
  shows "days_before_year (Suc y) = days_before_year y + year_days y"
proof -
  obtain p where y: "y = Suc p" using assms by (cases y) auto
  have "Suc p div 4 = p div 4 + (if 4 dvd Suc p then 1 else 0)" "Suc p div 100 = p div 100 + (if 100 dvd Suc p then 1 else 0)"
    "Suc p div 400 = p div 400 + (if 400 dvd Suc p then 1 else 0)"
    by (simp_all add: div_Suc dvd_eq_mod_eq_0)
  moreover have "p div 100 \<le> p div 4" by (rule div_le_mono2) simp_all
  moreover have "100 dvd Suc p \<Longrightarrow> 4 dvd Suc p" by (rule dvd_trans [of 4 100]) simp_all
  moreover have "400 dvd Suc p \<Longrightarrow> 100 dvd Suc p" by (rule dvd_trans [of 100 400]) simp_all
  ultimately show ?thesis
    unfolding y days_before_year_def year_days_def is_leap_def Let_def diff_Suc_1
    by (cases "4 dvd Suc p"; cases "100 dvd Suc p"; cases "400 dvd Suc p") (simp_all add: algebra_simps)
qed

lemma year_from_ordinal:
  "1 \<le> y \<Longrightarrow> year_from y n = (y', r) \<Longrightarrow>
     1 \<le> y' \<and> r < year_days y' \<and> days_before_year y' + r = days_before_year y + n"
proof (induction y n rule: year_from.induct)
  case (1 y n)
  note IH = "1.IH" and prems = "1.prems"
  show ?case
  proof (cases "n < year_days y")
    case True
    then show ?thesis using prems by (simp add: year_from.simps [of y n])
  next
    case False
    then have "year_from (Suc y) (n - year_days y) = (y', r)" using prems by (simp add: year_from.simps [of y n])
    from IH [OF False _ this] show ?thesis using False days_before_year_Suc [OF prems(1)] by simp
  qed
qed

lemma months_1_12: "[1..<13::nat] = [1, 2, 3, 4, 5, 6, 7, 8, 9, 10, 11, 12]"
  by (simp add: upt_rec)

lemma days_in_months: "sum_list (map (days_in_month y) [1..<13]) = year_days y"
  unfolding months_1_12 by (simp add: days_in_month_def year_days_def)

lemma month_from_ordinal:
  "month_from y [k..<13] n = (m, d) \<Longrightarrow> n < sum_list (map (days_in_month y) [k..<13]) \<Longrightarrow>
     1 \<le> k \<Longrightarrow> k \<le> 12 \<Longrightarrow>
     1 \<le> m \<and> m \<le> 12 \<and> d < days_in_month y m \<and> days_before_month y m + d = days_before_month y k + n"
proof (induction "13 - k" arbitrary: k n)
  case (Suc x)
  then have k: "k < 13" by simp
  show ?case
  proof (cases "n < days_in_month y k")
    case True
    with Suc.prems k show ?thesis by (simp add: upt_rec [of k 13])
  next
    case False
    have s: "[k..<13] = k # [Suc k..<13]" using k by (simp add: upt_rec [of k 13])
    have b: "days_before_month y (Suc k) = days_before_month y k + days_in_month y k"
      using Suc.prems(3) by (simp add: days_before_month_def)
    show ?thesis
    proof (cases "k = 12")
      case True
      with Suc.prems False show ?thesis by (simp add: upt_rec)
    next
      case neq: False
      with Suc.prems(4) have le: "Suc k \<le> 12" by simp
      have "month_from y [Suc k..<13] (n - days_in_month y k) = (m, d)"
        using Suc.prems(1) False unfolding s by simp
      moreover have "n - days_in_month y k < sum_list (map (days_in_month y) [Suc k..<13])"
        using Suc.prems(2) False unfolding s by simp
      ultimately have "1 \<le> m \<and> m \<le> 12 \<and> d < days_in_month y m \<and>
          days_before_month y m + d = days_before_month y (Suc k) + (n - days_in_month y k)"
        by (intro Suc.hyps(1)) (use Suc.hyps(2) le in auto)
      with b False show ?thesis by simp
    qed
  qed
qed simp

lemma days_before_year_le: "days_before_year y \<le> 366 * (y - 1)"
proof -
  have "(y - 1) div 400 \<le> (y - 1) div 100" by (rule div_le_mono2) simp_all
  moreover have "(y - 1) div 4 \<le> y - 1" by simp
  ultimately show ?thesis unfolding days_before_year_def Let_def by linarith
qed

lemma ordinal_ymd_correct:
  assumes "ordinal_ymd n = (y, m, d)"
  shows "1 \<le> y" "1 \<le> m" "m \<le> 12" "1 \<le> d" "d \<le> days_in_month y m" "ymd_ordinal y m d = n"
proof -
  let ?y0 = "Suc (n div 366)"
  obtain r where r: "year_from ?y0 (n - days_before_year ?y0) = (y, r)" "month_from y [1..<13] r = (m, d - 1)" "1 \<le> d"
    using assms by (auto simp: ordinal_ymd_def Let_def split: prod.splits)
  have le: "days_before_year ?y0 \<le> n"
    using days_before_year_le [of ?y0] by (metis diff_Suc_1 le_trans times_div_less_eq_dividend)
  note yr = year_from_ordinal [OF _ r(1)]
  have b1: "days_before_month y 1 = 0" by (simp add: days_before_month_def)
  have mo: "1 \<le> m \<and> m \<le> 12 \<and> d - 1 < days_in_month y m \<and> days_before_month y m + (d - 1) = r"
    using month_from_ordinal [OF r(2)] yr days_in_months [of y] b1 by simp
  show "1 \<le> y" "1 \<le> m" "m \<le> 12" "1 \<le> d" "d \<le> days_in_month y m" "ymd_ordinal y m d = n"
    using yr mo r(3) le by (auto simp: ymd_ordinal_def)
qed

lemma days_before_year_mono:
  assumes "1 \<le> y" and "y \<le> z"
  shows "days_before_year y \<le> days_before_year z"
  using assms(2)
proof (induction rule: dec_induct)
  case (step n)
  with assms(1) show ?case by (simp add: days_before_year_Suc)
qed simp

lemma days_before_month_le:
  assumes "1 \<le> m" and "m \<le> 12"
  shows "days_before_month y m + days_in_month y m \<le> year_days y"
proof -
  have "[1..<13] = [1..<m] @ [m..<13]" using assms upt_add_eq_append [of 1 m "13 - m"] by simp
  also have "[m..<13] = m # [Suc m..<13]" using assms by (simp add: upt_rec [of m])
  finally have "[1..<13] = [1..<m] @ m # [Suc m..<13]" .
  then show ?thesis using days_in_months [of y] by (simp add: days_before_month_def)
qed

lemma ymd_ordinal_less:
  assumes "y \<le> z" and "1 \<le> y" "1 \<le> m" "m \<le> 12" "1 \<le> d" "d \<le> days_in_month y m"
  shows "ymd_ordinal y m d < days_before_year (Suc z)"
proof -
  have "ymd_ordinal y m d < days_before_year (Suc y)"
    using days_before_month_le [OF assms(3,4), of y] assms(5,6) days_before_year_Suc [OF assms(2)]
    by (simp add: ymd_ordinal_def)
  also have "\<dots> \<le> days_before_year (Suc z)" by (rule days_before_year_mono) (use assms in auto)
  finally show ?thesis .
qed

section \<open>Instants\<close>

text \<open>
  The microseconds since the beginning of the year 1 in UTC. Python compares aware values by it:
  lexicographically when the offsets agree, and by the difference otherwise.
\<close>

definition utc_minutes :: "datetime \<Rightarrow> int" where
  "utc_minutes d =
     int (ymd_ordinal (dt_year d) (dt_month d) (dt_day d)) * 1440 + int (60 * dt_hour d + dt_minute d) - dt_offset d"

definition instant :: "datetime \<Rightarrow> int" where
  "instant d = utc_minutes d * 60000000 + int (1000000 * dt_second d + dt_microsecond d)"

definition instant_of :: "pystr \<Rightarrow> int option" where
  "instant_of s = map_option instant (parse_rfc3339 s)"

text \<open>\<^verbatim>\<open>astimezone(timezone.utc)\<close>; it returns the value itself when that is in UTC already.\<close>

definition astimezone_utc :: "datetime \<Rightarrow> datetime result" where
  "astimezone_utc d =
     (if dt_offset d = 0 then Inr d
      else if utc_minutes d < 0 then Inl OverflowError
      else
        let minutes = nat (utc_minutes d);
            (y, m, dd) = ordinal_ymd (minutes div 1440);
            r = minutes mod 1440
        in if 9999 < y then Inl OverflowError
           else Inr (d\<lparr>dt_year := y, dt_month := m, dt_day := dd, dt_hour := r div 60, dt_minute := r mod 60,
                       dt_offset := 0\<rparr>))"

text \<open>\<^verbatim>\<open>isoformat().replace("+00:00", "Z")\<close> of a value in UTC.\<close>

definition isoformat_z :: "datetime \<Rightarrow> pystr" where
  "isoformat_z d =
     date_time_text d @ (if dt_microsecond d = 0 then [] else u ''.'' @ zero_pad 6 (dt_microsecond d)) @ u ''Z''"

definition rfc3339_error :: py_error where
  "rfc3339_error = ValueError (u ''value must be a timezone-aware RFC 3339 date-time string'')"

definition canonical_rfc3339 :: "pystr \<Rightarrow> pystr result" where
  "canonical_rfc3339 value =
     (case parse_rfc3339 value of
        None \<Rightarrow> Inl rfc3339_error
      | Some d \<Rightarrow> rbind (astimezone_utc d) (\<lambda>e. Inr (isoformat_z e)))"

lemma astimezone_utc_Inr:
  assumes "astimezone_utc d = Inr e" and "valid_datetime d"
  shows "valid_datetime e" "dt_offset e = 0" "instant e = instant d"
proof -
  have "valid_datetime e \<and> dt_offset e = 0 \<and> instant e = instant d"
  proof (cases "dt_offset d = 0")
    case True
    with assms show ?thesis by (simp add: astimezone_utc_def)
  next
    case False
    define n where "n = nat (utc_minutes d)"
    obtain y m dd where o: "ordinal_ymd (n div 1440) = (y, m, dd)" by (cases "ordinal_ymd (n div 1440)") auto
    with False assms(1) have n: "utc_minutes d = int n" and y: "y \<le> 9999"
      and e: "e = d\<lparr>dt_year := y, dt_month := m, dt_day := dd, dt_hour := n mod 1440 div 60,
        dt_minute := n mod 1440 mod 60, dt_offset := 0\<rparr>"
      by (auto simp: astimezone_utc_def Let_def n_def split: if_splits)
    note c = ordinal_ymd_correct [OF o]
    have "n div 1440 * 1440 + (60 * (n mod 1440 div 60) + n mod 1440 mod 60) = n" by simp
    then have "int (n div 1440) * 1440 + int (60 * (n mod 1440 div 60) + n mod 1440 mod 60) = int n"
      by (metis of_nat_add of_nat_mult of_nat_numeral)
    then have "utc_minutes e = utc_minutes d" unfolding n by (simp add: utc_minutes_def e c(6))
    moreover have "valid_datetime e"
      using assms(2) c y unfolding e valid_datetime_def by (simp add: less_mult_imp_div_less flip: less_Suc_eq_le)
    ultimately show ?thesis by (simp add: instant_def e)
  qed
  then show "valid_datetime e" "dt_offset e = 0" "instant e = instant d" by blast+
qed

lemma parse_isoformat_z:
  assumes "valid_datetime d" and "dt_offset d = 0"
  shows "parse_rfc3339 (isoformat_z d) = Some d"
proof -
  have "take_fraction ((if dt_microsecond d = 0 then [] else u ''.'' @ zero_pad 6 (dt_microsecond d)) @ u ''Z'') =
      Some (dt_microsecond d, u ''Z'')"
  proof (cases "dt_microsecond d = 0")
    case True
    then show ?thesis by (simp add: take_fraction_def u_def)
  next
    case False
    moreover have "dt_microsecond d < 10 ^ 6" using assms(1) by (simp add: valid_datetime_def)
    ultimately show ?thesis using take_fraction_micro by simp
  qed
  from parse_date_time_text [OF assms this] show ?thesis by (simp add: isoformat_z_def)
qed

text \<open>Canonical timestamps keep the instant and are fixed points.\<close>

lemma canonical_rfc3339_Inr:
  assumes "canonical_rfc3339 s = Inr t"
  shows "instant_of s \<noteq> None" "instant_of t = instant_of s" "canonical_rfc3339 t = Inr t"
proof -
  from assms obtain d e where d: "parse_rfc3339 s = Some d" and e: "astimezone_utc d = Inr e" and t: "t = isoformat_z e"
    by (auto simp: canonical_rfc3339_def rbind_Inr_iff split: option.splits)
  note a = astimezone_utc_Inr [OF e parse_rfc3339_valid [OF d]]
  note p = parse_isoformat_z [OF a(1,2)]
  show "instant_of s \<noteq> None" "instant_of t = instant_of s" "canonical_rfc3339 t = Inr t"
    using a d p by (simp_all add: instant_of_def t canonical_rfc3339_def astimezone_utc_def)
qed

section \<open>Times that have a UTC date\<close>

text \<open>A timestamp whose instant has a UTC date: the first and the last day of the calendar are the years 1 and 9999.\<close>

definition utc_date :: "pystr \<Rightarrow> bool" where
  "utc_date t \<longleftrightarrow> (case instant_of t of None \<Rightarrow> False | Some i \<Rightarrow> 0 \<le> i \<and> i < 3652059 * 86400000000)"

lemma calendar_end: "days_before_year 10000 = 3652059"
  by (simp add: days_before_year_def)

lemma utc_minutes_bounds:
  assumes "valid_datetime d" and "dt_offset d = 0"
  shows "0 \<le> utc_minutes d" "utc_minutes d < 3652059 * 1440"
proof -
  have "ymd_ordinal (dt_year d) (dt_month d) (dt_day d) < 3652059"
    using ymd_ordinal_less [of "dt_year d" 9999 "dt_month d" "dt_day d"] assms(1) calendar_end by (simp add: valid_datetime_def)
  moreover have "60 * dt_hour d + dt_minute d < 1440" using assms(1) by (simp add: valid_datetime_def)
  ultimately show "0 \<le> utc_minutes d" "utc_minutes d < 3652059 * 1440" using assms(2) by (simp_all add: utc_minutes_def)
qed

lemma astimezone_utc_cases:
  assumes v: "valid_datetime d"
  shows "if 0 \<le> utc_minutes d \<and> utc_minutes d < 3652059 * 1440 then \<exists>e. astimezone_utc d = Inr e else astimezone_utc d = Inl OverflowError"
proof (cases "dt_offset d = 0 \<or> utc_minutes d < 0")
  case True
  then show ?thesis using utc_minutes_bounds [OF v] by (auto simp: astimezone_utc_def)
next
  case False
  define n where "n = nat (utc_minutes d)"
  obtain y m dd where o: "ordinal_ymd (n div 1440) = (y, m, dd)" by (cases "ordinal_ymd (n div 1440)") auto
  note c = ordinal_ymd_correct [OF o]
  have "9999 < y \<longleftrightarrow> \<not> n div 1440 < 3652059"
  proof
    assume "9999 < y"
    then have "days_before_year 10000 \<le> days_before_year y" by (intro days_before_year_mono) auto
    then show "\<not> n div 1440 < 3652059" using c(6) by (simp add: calendar_end ymd_ordinal_def)
  next
    assume "\<not> n div 1440 < 3652059"
    then show "9999 < y" using ymd_ordinal_less [of y 9999 m dd] c calendar_end by (cases "y \<le> 9999") auto
  qed
  moreover have "n div 1440 < 3652059 \<longleftrightarrow> utc_minutes d < 3652059 * 1440" using False by (auto simp: n_def)
  ultimately show ?thesis using False o by (auto simp: astimezone_utc_def Let_def n_def)
qed

lemma canonical_or_overflow:
  assumes "instant_of t \<noteq> None"
  shows "if utc_date t then \<exists>c. canonical_rfc3339 t = Inr c else canonical_rfc3339 t = Inl OverflowError"
proof -
  obtain d where d: "parse_rfc3339 t = Some d" using assms by (auto simp: instant_of_def)
  have v: "valid_datetime d" by (rule parse_rfc3339_valid [OF d])
  then have "dt_second d \<le> 59" "dt_microsecond d \<le> 999999" by (simp_all add: valid_datetime_def)
  then have "0 \<le> instant d \<and> instant d < 3652059 * 86400000000 \<longleftrightarrow> 0 \<le> utc_minutes d \<and> utc_minutes d < 3652059 * 1440"
    unfolding instant_def by linarith
  then show ?thesis using astimezone_utc_cases [OF v] by (auto simp: utc_date_def instant_of_def d canonical_rfc3339_def split: if_splits)
qed

section \<open>Shifted times\<close>

text \<open>\<^verbatim>\<open>value + timedelta(seconds=k)\<close> for a number of seconds that is not negative.\<close>

definition add_seconds :: "datetime \<Rightarrow> nat \<Rightarrow> datetime result" where
  "add_seconds d k =
     (let total = ymd_ordinal (dt_year d) (dt_month d) (dt_day d) * 86400 +
            (3600 * dt_hour d + 60 * dt_minute d + dt_second d) + k;
          (y, m, dd) = ordinal_ymd (total div 86400);
          r = total mod 86400
      in if 9999 < y then Inl OverflowError
         else Inr (d\<lparr>dt_year := y, dt_month := m, dt_day := dd, dt_hour := r div 3600,
                     dt_minute := r mod 3600 div 60, dt_second := r mod 60\<rparr>))"

definition aware_datetime_to_rfc3339 :: "datetime \<Rightarrow> pystr result" where
  "aware_datetime_to_rfc3339 d = rbind (astimezone_utc d) (\<lambda>e. Inr (isoformat_z e))"

lemma instant_seconds:
  "instant d = (int (ymd_ordinal (dt_year d) (dt_month d) (dt_day d)) * 86400 +
     int (3600 * dt_hour d + 60 * dt_minute d + dt_second d) - 60 * dt_offset d) * 1000000 + int (dt_microsecond d)"
  by (simp add: instant_def utc_minutes_def algebra_simps)

lemma seconds_of_day: "(r :: nat) div 3600 * 3600 + r mod 3600 div 60 * 60 + r mod 60 = r"
proof -
  have "r mod 3600 mod 60 = r mod 60" by (simp add: mod_mod_cancel)
  then have "r mod 3600 div 60 * 60 + r mod 60 = r mod 3600" by (metis div_mult_mod_eq)
  then show ?thesis by (metis div_mult_mod_eq group_cancel.add1)
qed

lemma add_seconds_Inr:
  assumes "add_seconds d k = Inr e" and v: "valid_datetime d"
  shows "valid_datetime e" "dt_offset e = dt_offset d" "instant e = instant d + int k * 1000000"
proof -
  define n where "n = ymd_ordinal (dt_year d) (dt_month d) (dt_day d) * 86400 +
    (3600 * dt_hour d + 60 * dt_minute d + dt_second d) + k"
  define r where "r = n mod 86400"
  obtain y m dd where o: "ordinal_ymd (n div 86400) = (y, m, dd)" by (cases "ordinal_ymd (n div 86400)") auto
  with assms(1) have y: "y \<le> 9999"
    and e: "e = d\<lparr>dt_year := y, dt_month := m, dt_day := dd, dt_hour := r div 3600,
      dt_minute := r mod 3600 div 60, dt_second := r mod 60\<rparr>"
    by (auto simp: add_seconds_def Let_def n_def r_def split: if_splits)
  note c = ordinal_ymd_correct [OF o]
  have "r < 86400" by (simp add: r_def)
  then have "r div 3600 \<le> 23" "r mod 3600 div 60 \<le> 59" "r mod 60 \<le> 59"
    by (simp_all add: less_mult_imp_div_less flip: less_Suc_eq_le)
  with v c y show "valid_datetime e" by (simp add: e valid_datetime_def)
  show "dt_offset e = dt_offset d" by (simp add: e)
  have "n div 86400 * 86400 + (3600 * (r div 3600) + 60 * (r mod 3600 div 60) + r mod 60) = n"
    using seconds_of_day [of r] by (simp add: r_def mult.commute)
  then have "int (n div 86400) * 86400 + int (3600 * (r div 3600) + 60 * (r mod 3600 div 60) + r mod 60) = int n"
    by (metis of_nat_add of_nat_mult of_nat_numeral)
  then show "instant e = instant d + int k * 1000000"
    unfolding instant_seconds e by (simp add: c(6) n_def algebra_simps)
qed

lemma isoformat_z_canonical:
  assumes "valid_datetime d" and "dt_offset d = 0"
  shows "canonical_rfc3339 (isoformat_z d) = Inr (isoformat_z d)" "aware_datetime_to_rfc3339 d = Inr (isoformat_z d)"
    "instant_of (isoformat_z d) = Some (instant d)"
  using assms parse_isoformat_z [OF assms]
  by (simp_all add: canonical_rfc3339_def astimezone_utc_def aware_datetime_to_rfc3339_def instant_of_def)

text \<open>A canonical timestamp denotes a time in UTC.\<close>

lemma canonical_is_utc:
  assumes "canonical_rfc3339 s = Inr s" and "parse_rfc3339 s = Some d"
  shows "dt_offset d = 0"
proof -
  from assms obtain e where "astimezone_utc d = Inr e" "s = isoformat_z e"
    by (auto simp: canonical_rfc3339_def result_simps)
  with astimezone_utc_Inr(1,2) [OF _ parse_rfc3339_valid [OF assms(2)]] assms(2) show ?thesis
    by (metis option.inject parse_isoformat_z)
qed

end
