(* ===== verification/Canonical.thy ===== *)
theory Canonical
  imports Policy Instants
begin

text \<open>
  Content addresses. \<^verbatim>\<open>canonical_sha256\<close> of \<^verbatim>\<open>contracts_v3.py\<close> writes a value as canonical JSON (sorted
  keys, no spaces, characters beyond ASCII as they are), encodes it as UTF-8 and tags the SHA-256
  digest of it. The hash function is a parameter \<open>sha\<close>, from the encoded text to its hexadecimal
  digest; all that the contracts rely on is that a digest has 64 lower-case hexadecimal digits. Keys
  of objects are strings in every caller.
\<close>

section \<open>Canonical JSON\<close>

definition canonical_char :: "nat \<Rightarrow> pystr" where
  "canonical_char c = (if c < 32 \<or> c = 34 \<or> c = 92 then json_char c else [c])"

definition canonical_string :: "pystr \<Rightarrow> pystr" where
  "canonical_string s = [34] @ concat (map canonical_char s) @ [34]"

fun key_text :: "pyval \<Rightarrow> pystr" where
  "key_text (PStr s) = s"
| "key_text _ = []"

fun all_some :: "'a option list \<Rightarrow> 'a list option" where
  "all_some [] = Some []"
| "all_some (None # xs) = None"
| "all_some (Some x # xs) = map_option ((#) x) (all_some xs)"

text \<open>\<open>None\<close> stands for the errors that \<^verbatim>\<open>json.dumps\<close> raises.\<close>

function canonical_json :: "runtime \<Rightarrow> pyval \<Rightarrow> pystr option" where
  "canonical_json rt PNone = Some (u ''null'')"
| "canonical_json rt (PBool b) = Some (if b then u ''true'' else u ''false'')"
| "canonical_json rt (PNum n) = (if json_number_ok rt n then Some (rt_format_number rt n) else None)"
| "canonical_json rt (PStr s) = Some (canonical_string s)"
| "canonical_json rt (PList vs) =
     map_option (\<lambda>ts. u ''['' @ join (u '','') ts @ u '']'') (all_some (map (canonical_json rt) vs))"
| "canonical_json rt (PDict d) =
     map_option (\<lambda>ts. u ''{'' @ join (u '','')
         (map2 (\<lambda>k t. canonical_string k @ u '':'' @ t) (map (key_text \<circ> fst) (sort_key (key_text \<circ> fst) d)) ts) @ u ''}'')
       (all_some (map (\<lambda>(k, v). canonical_json rt v) (sort_key (key_text \<circ> fst) d)))"
| "canonical_json rt (PyOther n) = None"
  by pat_completeness auto

termination canonical_json
  by (relation "measure (\<lambda>(rt, v). size v)") (auto dest: size_in_list size_pair_in_list)

definition canonical_text :: "runtime \<Rightarrow> (pystr, pyval) dict \<Rightarrow> pystr option" where
  "canonical_text rt payload = canonical_json rt (PDict (map (\<lambda>(k, v). (PStr k, v)) payload))"

section \<open>Digests\<close>

definition non_canonical :: py_error where
  "non_canonical =
     ContractError (u ''TBM_V3_NON_CANONICAL_JSON'') (u ''value cannot be encoded as finite canonical JSON'')"

definition canonical_sha256 :: "runtime \<Rightarrow> (pystr \<Rightarrow> pystr) \<Rightarrow> (pystr, pyval) dict \<Rightarrow> pystr result" where
  "canonical_sha256 rt sha payload =
     (case canonical_text rt payload of
        None \<Rightarrow> Inl non_canonical
      | Some t \<Rightarrow> if utf8_size t = None then Inl non_canonical else Inr (u ''sha256:'' @ sha t))"

definition is_hex :: "nat \<Rightarrow> bool" where
  "is_hex c \<longleftrightarrow> 48 \<le> c \<and> c \<le> 57 \<or> 97 \<le> c \<and> c \<le> 102"

text \<open>A text of a fixed prefix and 64 hexadecimal digits.\<close>

definition tagged_digest :: "pystr \<Rightarrow> pystr \<Rightarrow> bool" where
  "tagged_digest prefix value \<longleftrightarrow>
     take (length prefix) value = prefix \<and> length value = length prefix + 64 \<and>
     list_all is_hex (drop (length prefix) value)"

text \<open>What \<^verbatim>\<open>hashlib.sha256(...).hexdigest()\<close> is documented to return.\<close>

definition hex_digests :: "(pystr \<Rightarrow> pystr) \<Rightarrow> bool" where
  "hex_digests sha \<longleftrightarrow> (\<forall>t. length (sha t) = 64 \<and> list_all is_hex (sha t))"

lemma hex_digests_tagged: "hex_digests sha \<Longrightarrow> tagged_digest prefix (prefix @ sha t)"
  by (simp add: hex_digests_def tagged_digest_def)

text \<open>\<^verbatim>\<open>canonical_sha256(payload).removeprefix("sha256:")\<close> behind a name for the kind of record.\<close>

definition content_id :: "runtime \<Rightarrow> (pystr \<Rightarrow> pystr) \<Rightarrow> pystr \<Rightarrow> (pystr, pyval) dict \<Rightarrow> pystr result" where
  "content_id rt sha prefix payload =
     rbind (canonical_sha256 rt sha payload) (\<lambda>d. Inr (prefix @ (case strip_prefix (u ''sha256:'') d of Some h \<Rightarrow> h | None \<Rightarrow> d)))"

lemma content_id_tagged:
  assumes "hex_digests sha" and "content_id rt sha prefix payload = Inr i"
  shows "tagged_digest prefix i"
  using assms hex_digests_tagged
  by (auto simp: content_id_def canonical_sha256_def result_simps strip_prefix_append split: option.splits if_splits)

section \<open>Checks that the contracts share\<close>

text \<open>The test of an identifier or a code.\<close>

definition bounded_identifier :: "nat \<Rightarrow> pystr \<Rightarrow> bool" where
  "bounded_identifier max_chars value \<longleftrightarrow>
     value \<noteq> [] \<and> length value \<le> max_chars \<and> strip value = value \<and> (\<forall>c\<in>set value. 32 \<le> c \<and> c \<noteq> 127)"

definition if_given :: "('a \<Rightarrow> py_error option) \<Rightarrow> 'a option \<Rightarrow> py_error option" where
  "if_given check value = (case value of None \<Rightarrow> None | Some v \<Rightarrow> check v)"

lemma if_given_None_iff [simp]: "if_given f v = None \<longleftrightarrow> (\<forall>x. v = Some x \<longrightarrow> f x = None)"
  by (simp add: if_given_def split: option.splits)

section \<open>Writable values\<close>

text \<open>A value that can be written and encoded: no number is infinite, no string holds a surrogate.\<close>

definition encodable :: "pystr \<Rightarrow> bool" where
  "encodable s \<longleftrightarrow> (\<forall>c\<in>set s. utf8_char_size c \<noteq> None)"

lemma utf8_size_None_iff: "utf8_size s = None \<longleftrightarrow> \<not> encodable s"
  unfolding encodable_def by (induction s) (auto split: option.splits)

lemma encodable_append [simp]: "encodable (a @ b) \<longleftrightarrow> encodable a \<and> encodable b"
  by (auto simp: encodable_def)

lemma encodable_small: "\<forall>c\<in>set s. c < 55296 \<Longrightarrow> encodable s"
  by (auto simp: encodable_def utf8_char_size_def)

lemma encodable_u [simp]: "encodable (u s)"
proof (rule encodable_small, rule ballI)
  fix c assume "c \<in> set (u s)"
  then obtain x where "c = of_char x" by (auto simp: u_def)
  moreover have "of_char x < (256 :: nat)" using range_nat_of_char by (metis atLeastLessThan_iff rangeI)
  ultimately show "c < 55296" by linarith
qed

lemma encodable_canonical_char: "encodable (canonical_char c) \<longleftrightarrow> utf8_char_size c \<noteq> None"
proof (cases "c < 32 \<or> c = 34 \<or> c = 92")
  case True
  then have "encodable (canonical_char c)"
    using json_char_ascii [of _ c] by (intro encodable_small) (force simp: canonical_char_def)
  moreover from True have "utf8_char_size c \<noteq> None" by (auto simp: utf8_char_size_def)
  ultimately show ?thesis by blast
qed (simp add: canonical_char_def encodable_def)

lemma encodable_canonical_string [simp]: "encodable (canonical_string s) \<longleftrightarrow> encodable s"
proof -
  have "encodable [34]" by (rule encodable_small) simp
  moreover have "encodable (concat (map canonical_char s)) \<longleftrightarrow> (\<forall>c\<in>set s. encodable (canonical_char c))"
    by (auto simp: encodable_def)
  ultimately show ?thesis by (simp only: canonical_string_def encodable_append encodable_canonical_char) (simp add: encodable_def)
qed

lemma encodable_join: "encodable s \<Longrightarrow> \<forall>t\<in>set ts. encodable t \<Longrightarrow> encodable (join s ts)"
  by (induction s ts rule: join.induct) (auto simp: encodable_def [of "[]"])

definition plain_value :: "runtime \<Rightarrow> pyval \<Rightarrow> bool" where
  "plain_value rt v \<longleftrightarrow> (\<exists>t. canonical_json rt v = Some t \<and> encodable t)"

lemma plain_simps [simp]:
  "plain_value rt PNone" "plain_value rt (PStr s) \<longleftrightarrow> encodable s"
  by (simp_all add: plain_value_def)

text \<open>
  How Python writes integers: the limit on their digits is off or at least 640, and the text can be
  encoded.
\<close>

definition decimal_numbers :: "runtime \<Rightarrow> bool" where
  "decimal_numbers rt \<longleftrightarrow> (rt_max_str_digits rt = 0 \<or> 640 \<le> rt_max_str_digits rt) \<and>
     (\<forall>i. encodable (rt_format_number rt (PyInt i)))"

lemma small_number_ok:
  assumes "decimal_numbers rt" and "0 \<le> i" "i < 10 ^ 20"
  shows "json_number_ok rt (PyInt i)"
proof -
  have "length (digits_rev 10 (nat i)) \<le> 20" by (rule length_digits_rev) (use assms(2,3) in auto)
  then show ?thesis using assms by (auto simp: json_number_ok_def int_fits_def dec_digits_def decimal_numbers_def)
qed

lemma plain_number: "decimal_numbers rt \<Longrightarrow> 0 \<le> i \<Longrightarrow> i < 10 ^ 20 \<Longrightarrow> plain_value rt (PNum (PyInt i))"
  using small_number_ok by (simp add: plain_value_def decimal_numbers_def)

lemma all_some_plain:
  assumes "\<forall>v\<in>set vs. plain_value rt v"
  obtains ts where "all_some (map (canonical_json rt) vs) = Some ts" "\<forall>t\<in>set ts. encodable t" "length ts = length vs"
proof -
  have "\<exists>ts. all_some (map (canonical_json rt) vs) = Some ts \<and> (\<forall>t\<in>set ts. encodable t) \<and> length ts = length vs"
    using assms by (induction vs) (fastforce simp: plain_value_def)+
  with that show thesis by blast
qed

lemma plain_digest:
  assumes "\<forall>x\<in>set payload. encodable (fst x) \<and> plain_value rt (snd x)"
  shows "\<exists>d. canonical_sha256 rt sha payload = Inr d"
proof -
  let ?d = "sort_key (key_text \<circ> fst) (map (\<lambda>(k, v). (PStr k, v)) payload)"
  have d: "(\<lambda>(k, v). canonical_json rt v) = canonical_json rt \<circ> snd" by auto
  have "\<forall>v\<in>set (map snd ?d). plain_value rt v" using assms by auto
  then obtain ts where ts: "all_some (map (canonical_json rt) (map snd ?d)) = Some ts" "\<forall>t\<in>set ts. encodable t"
    by (rule all_some_plain)
  let ?keys = "map (key_text \<circ> fst) ?d"
  let ?text = "u ''{'' @ join (u '','') (map2 (\<lambda>k t. canonical_string k @ u '':'' @ t) ?keys ts) @ u ''}''"
  have "canonical_text rt payload = Some ?text" using ts(1) by (simp add: canonical_text_def d)
  moreover have keys: "encodable k" if "k \<in> set ?keys" for k using assms that by auto
  have "encodable (canonical_string k @ u '':'' @ t)" if "(k, t) \<in> set (zip ?keys ts)" for k t
    using keys [OF set_zip_leftD [OF that]] ts(2) set_zip_rightD [OF that] by simp
  then have "\<forall>t\<in>set (map2 (\<lambda>k t. canonical_string k @ u '':'' @ t) ?keys ts). encodable t" by auto
  then have "encodable ?text" by (simp add: encodable_join)
  ultimately show ?thesis by (simp add: canonical_sha256_def utf8_size_None_iff del: not_None_eq)
qed

end
