(* ===== verification/Outbox.thy ===== *)
theory Outbox
  imports Canonical
begin

text \<open>
  The completion outbox of \<^verbatim>\<open>completion_outbox_v3.py\<close>: immutable revisions of the delivery of one
  completion event, each named by the digest of its content, and the operations that make the next
  revision: a worker claims a delivery for a time, acknowledges it or reports a failure. The linkage
  of an event to its run outcome and the JSON text layer are not modelled.
\<close>

section \<open>Contracts\<close>

abbreviation "COMPLETION_OUTBOX_MAX_ATTEMPTS \<equiv> (1000 :: int)"
abbreviation "COMPLETION_OUTBOX_MAX_LEASE_SECONDS \<equiv> (86400 :: int)"
abbreviation "COMPLETION_OUTBOX_MAX_RETRY_SECONDS \<equiv> (604800 :: int)"

definition COMPLETION_OUTBOX_EVENT_CONTRACT_VERSION :: pystr where
  "COMPLETION_OUTBOX_EVENT_CONTRACT_VERSION = u ''tbm.completion-outbox-event.v3''"

definition COMPLETION_OUTBOX_DELIVERY_CONTRACT_VERSION :: pystr where
  "COMPLETION_OUTBOX_DELIVERY_CONTRACT_VERSION = u ''tbm.completion-outbox-delivery.v3''"

definition EVENT_ID_PREFIX :: pystr where
  "EVENT_ID_PREFIX = u ''completion_outbox_event_sha256_''"

definition DELIVERY_ID_PREFIX :: pystr where
  "DELIVERY_ID_PREFIX = u ''completion_outbox_delivery_sha256_''"

definition DELIVERY_STATUSES :: "pystr list" where
  "DELIVERY_STATUSES = [u ''pending'', u ''leased'', u ''retry_wait'', u ''delivered'', u ''dead_letter'']"

record CompletionOutboxEvent =
  oe_event_id :: pystr
  oe_event_type :: pystr
  oe_tenant_id :: pystr
  oe_repository_id :: pystr
  oe_session_id :: pystr
  oe_trace_id :: pystr
  oe_run_id :: pystr
  oe_usage_decision_id :: pystr
  oe_run_outcome_id :: pystr
  oe_outcome_descriptor_sha256 :: pystr
  oe_occurred_at :: pystr
  oe_contract_version :: pystr

record CompletionOutboxDelivery =
  od_delivery_revision_id :: pystr
  od_event_id :: pystr
  od_version :: int
  od_status :: pystr
  od_attempt_count :: int
  od_updated_at :: pystr
  od_available_at :: "pystr option"
  od_worker_id :: "pystr option"
  od_lease_expires_at :: "pystr option"
  od_delivered_at :: "pystr option"
  od_last_error_code :: "pystr option"
  od_response_sha256 :: "pystr option"
  od_contract_version :: pystr

definition outbox_invalid :: "pystr \<Rightarrow> py_error" where
  "outbox_invalid message = ContractError (u ''TBM_COMPLETION_OUTBOX_INVALID'') message"

definition refuse_if :: "bool \<Rightarrow> pystr \<Rightarrow> py_error option" where
  "refuse_if b message = (if b then Some (outbox_invalid message) else None)"

lemma refuse_if_None_iff [simp]: "refuse_if b m = None \<longleftrightarrow> \<not> b"
  by (simp add: refuse_if_def)

definition identifier_error :: "pystr \<Rightarrow> pystr \<Rightarrow> py_error option" where
  "identifier_error value name = refuse_if (\<not> bounded_identifier 128 value) (name @ u '' must be a bounded identifier'')"

definition error_code_error :: "pystr \<Rightarrow> py_error option" where
  "error_code_error value =
     refuse_if (\<not> bounded_identifier 256 value) (u ''error_code must be a bounded identifier'')"

definition outbox_digest :: "pystr \<Rightarrow> pystr \<Rightarrow> py_error option" where
  "outbox_digest value name =
     refuse_if (\<not> tagged_digest (u ''sha256:'') value) (name @ u '' must be a canonical sha256 digest'')"

definition canonical_time :: "pystr \<Rightarrow> pystr \<Rightarrow> py_error option" where
  "canonical_time value name =
     (case canonical_rfc3339 value of
        Inr t \<Rightarrow> refuse_if (t \<noteq> value) (name @ u '' must be canonical RFC3339'')
      | Inl e \<Rightarrow>
          if parse_rfc3339 value = None
          then Some (outbox_invalid (name @ u '' must be an RFC3339 timestamp: value must be a '' @
                 u ''timezone-aware RFC 3339 date-time string''))
          else Some e)"

definition event_fields :: "CompletionOutboxEvent \<Rightarrow> (pystr, pyval) dict" where
  "event_fields e =
     [(u ''contract_version'', PStr (oe_contract_version e)), (u ''event_type'', PStr (oe_event_type e)),
      (u ''tenant_id'', PStr (oe_tenant_id e)), (u ''repository_id'', PStr (oe_repository_id e)),
      (u ''session_id'', PStr (oe_session_id e)), (u ''trace_id'', PStr (oe_trace_id e)),
      (u ''run_id'', PStr (oe_run_id e)), (u ''usage_decision_id'', PStr (oe_usage_decision_id e)),
      (u ''run_outcome_id'', PStr (oe_run_outcome_id e)),
      (u ''outcome_descriptor_sha256'', PStr (oe_outcome_descriptor_sha256 e)),
      (u ''occurred_at'', PStr (oe_occurred_at e))]"

definition event_error :: "runtime \<Rightarrow> (pystr \<Rightarrow> pystr) \<Rightarrow> CompletionOutboxEvent \<Rightarrow> py_error option" where
  "event_error rt sha e =
     first_error
       [refuse_if (oe_contract_version e \<noteq> COMPLETION_OUTBOX_EVENT_CONTRACT_VERSION)
          (u ''contract_version must be '' @ COMPLETION_OUTBOX_EVENT_CONTRACT_VERSION),
        refuse_if (\<not> tagged_digest EVENT_ID_PREFIX (oe_event_id e)) (u ''event_id must be a canonical content identifier''),
        refuse_if (oe_event_type e \<noteq> u ''execution_completed'') (u ''event_type is not supported''),
        identifier_error (oe_tenant_id e) (u ''tenant_id''), identifier_error (oe_repository_id e) (u ''repository_id''),
        identifier_error (oe_session_id e) (u ''session_id''), identifier_error (oe_trace_id e) (u ''trace_id''),
        identifier_error (oe_run_id e) (u ''run_id''), identifier_error (oe_usage_decision_id e) (u ''usage_decision_id''),
        refuse_if (\<not> tagged_digest (u ''run_outcome_sha256_'') (oe_run_outcome_id e))
          (u ''run_outcome_id must be a canonical content identifier''),
        outbox_digest (oe_outcome_descriptor_sha256 e) (u ''outcome_descriptor_sha256''),
        canonical_time (oe_occurred_at e) (u ''occurred_at''),
        (case content_id rt sha EVENT_ID_PREFIX (event_fields e) of
           Inl err \<Rightarrow> Some err
         | Inr i \<Rightarrow> refuse_if (oe_event_id e \<noteq> i) (u ''event_id does not match the canonical payload''))]"

definition text_or_none :: "pystr option \<Rightarrow> pyval" where
  "text_or_none v = (case v of None \<Rightarrow> PNone | Some s \<Rightarrow> PStr s)"

definition delivery_fields :: "CompletionOutboxDelivery \<Rightarrow> (pystr, pyval) dict" where
  "delivery_fields d =
     [(u ''contract_version'', PStr (od_contract_version d)), (u ''event_id'', PStr (od_event_id d)),
      (u ''version'', PNum (PyInt (od_version d))), (u ''status'', PStr (od_status d)),
      (u ''attempt_count'', PNum (PyInt (od_attempt_count d))), (u ''updated_at'', PStr (od_updated_at d)),
      (u ''available_at'', text_or_none (od_available_at d)), (u ''worker_id'', text_or_none (od_worker_id d)),
      (u ''lease_expires_at'', text_or_none (od_lease_expires_at d)),
      (u ''delivered_at'', text_or_none (od_delivered_at d)),
      (u ''last_error_code'', text_or_none (od_last_error_code d)),
      (u ''response_sha256'', text_or_none (od_response_sha256 d))]"

text \<open>The instants of timestamps that have been checked.\<close>

definition moment :: "pystr option \<Rightarrow> int option" where
  "moment value = (case value of None \<Rightarrow> None | Some v \<Rightarrow> instant_of v)"

definition not_after :: "int option \<Rightarrow> int option \<Rightarrow> bool" where
  "not_after a b = (case (a, b) of (Some x, Some y) \<Rightarrow> x \<le> y | _ \<Rightarrow> False)"

text \<open>The \<^verbatim>\<open>elif\<close> chain of \<^verbatim>\<open>__post_init__\<close> over the statuses.\<close>

definition delivery_status_error :: "CompletionOutboxDelivery \<Rightarrow> py_error option" where
  "delivery_status_error d =
     (let updated = instant_of (od_updated_at d); available = moment (od_available_at d);
          lease = moment (od_lease_expires_at d); delivered = moment (od_delivered_at d)
      in if od_status d = u ''pending'' then first_error
           [refuse_if (od_version d \<noteq> 1 \<or> od_attempt_count d \<noteq> 0) (u ''pending is only valid for the initial revision''),
            refuse_if (od_available_at d = None) (u ''pending delivery requires available_at''),
            refuse_if (od_worker_id d \<noteq> None \<or> od_lease_expires_at d \<noteq> None \<or> od_delivered_at d \<noteq> None \<or>
                od_last_error_code d \<noteq> None \<or> od_response_sha256 d \<noteq> None)
              (od_status d @ u '' state has invalid delivery fields'')]
         else if od_status d = u ''leased'' then first_error
           [refuse_if (od_attempt_count d < 1) (u ''leased delivery requires an attempt''),
            refuse_if (od_worker_id d = None \<or> od_lease_expires_at d = None) (u ''leased delivery requires worker_id and lease''),
            refuse_if (not_after lease updated) (u ''lease_expires_at must follow updated_at''),
            refuse_if (od_available_at d \<noteq> None \<or> od_delivered_at d \<noteq> None \<or> od_last_error_code d \<noteq> None \<or>
                od_response_sha256 d \<noteq> None)
              (u ''leased delivery has invalid terminal fields'')]
         else if od_status d = u ''retry_wait'' then first_error
           [refuse_if (od_attempt_count d < 1) (u ''retry_wait delivery requires an attempt''),
            refuse_if (od_available_at d = None \<or> not_after available updated) (u ''retry_wait requires future available_at''),
            refuse_if (od_last_error_code d = None) (u ''retry_wait requires last_error_code''),
            refuse_if (od_worker_id d \<noteq> None \<or> od_lease_expires_at d \<noteq> None \<or> od_delivered_at d \<noteq> None \<or>
                od_response_sha256 d \<noteq> None)
              (u ''retry_wait delivery has invalid lease fields'')]
         else if od_status d = u ''delivered'' then first_error
           [refuse_if (od_attempt_count d < 1 \<or> od_delivered_at d = None)
              (u ''delivered state requires an attempt and timestamp''),
            refuse_if (delivered \<noteq> updated) (u ''delivered_at must equal updated_at''),
            refuse_if (od_available_at d \<noteq> None \<or> od_worker_id d \<noteq> None \<or> od_lease_expires_at d \<noteq> None \<or>
                od_last_error_code d \<noteq> None)
              (u ''delivered state has invalid retry fields'')]
         else first_error
           [refuse_if (od_attempt_count d < 1 \<or> od_last_error_code d = None)
              (u ''dead_letter requires an attempt and error code''),
            refuse_if (od_available_at d \<noteq> None \<or> od_worker_id d \<noteq> None \<or> od_lease_expires_at d \<noteq> None \<or>
                od_delivered_at d \<noteq> None \<or> od_response_sha256 d \<noteq> None)
              (u ''dead_letter state has invalid delivery fields'')])"

definition delivery_error :: "runtime \<Rightarrow> (pystr \<Rightarrow> pystr) \<Rightarrow> CompletionOutboxDelivery \<Rightarrow> py_error option" where
  "delivery_error rt sha d =
     first_error
       [refuse_if (od_contract_version d \<noteq> COMPLETION_OUTBOX_DELIVERY_CONTRACT_VERSION)
          (u ''contract_version must be '' @ COMPLETION_OUTBOX_DELIVERY_CONTRACT_VERSION),
        refuse_if (\<not> tagged_digest DELIVERY_ID_PREFIX (od_delivery_revision_id d))
          (u ''delivery_revision_id must be a canonical content identifier''),
        refuse_if (\<not> tagged_digest EVENT_ID_PREFIX (od_event_id d)) (u ''event_id must be a canonical content identifier''),
        refuse_if (od_version d < 1) (u ''version must be a positive integer''),
        refuse_if (od_status d \<notin> set DELIVERY_STATUSES) (u ''status is not supported''),
        refuse_if (\<not> (0 \<le> od_attempt_count d \<and> od_attempt_count d \<le> COMPLETION_OUTBOX_MAX_ATTEMPTS))
          (u ''attempt_count is outside the supported range''),
        canonical_time (od_updated_at d) (u ''updated_at''),
        if_given (\<lambda>v. canonical_time v (u ''available_at'')) (od_available_at d),
        if_given (\<lambda>v. canonical_time v (u ''lease_expires_at'')) (od_lease_expires_at d),
        if_given (\<lambda>v. canonical_time v (u ''delivered_at'')) (od_delivered_at d),
        if_given (\<lambda>v. identifier_error v (u ''worker_id'')) (od_worker_id d),
        if_given error_code_error (od_last_error_code d),
        if_given (\<lambda>v. outbox_digest v (u ''response_sha256'')) (od_response_sha256 d),
        delivery_status_error d,
        (case content_id rt sha DELIVERY_ID_PREFIX (delivery_fields d) of
           Inl err \<Rightarrow> Some err
         | Inr i \<Rightarrow> refuse_if (od_delivery_revision_id d \<noteq> i)
             (u ''delivery_revision_id does not match the canonical payload''))]"

section \<open>Operations\<close>

definition canonical_or_none :: "pystr option \<Rightarrow> pystr option result" where
  "canonical_or_none v = (case v of None \<Rightarrow> Inr None | Some s \<Rightarrow> rbind (canonical_rfc3339 s) (\<lambda>t. Inr (Some t)))"

text \<open>
  \<^verbatim>\<open>_build_delivery\<close>: the timestamps made canonical, the digest of the content, and the checks of the
  constructor. The argument carries the fields of the new revision; its id and its contract version
  are set here.
\<close>

definition build_delivery ::
  "runtime \<Rightarrow> (pystr \<Rightarrow> pystr) \<Rightarrow> CompletionOutboxDelivery \<Rightarrow> CompletionOutboxDelivery result" where
  "build_delivery rt sha d =
     rbind (canonical_rfc3339 (od_updated_at d)) (\<lambda>updated.
     rbind (canonical_or_none (od_available_at d)) (\<lambda>available.
     rbind (canonical_or_none (od_lease_expires_at d)) (\<lambda>lease.
     rbind (canonical_or_none (od_delivered_at d)) (\<lambda>delivered.
     let d' = d\<lparr>od_updated_at := updated, od_available_at := available, od_lease_expires_at := lease,
          od_delivered_at := delivered, od_contract_version := COMPLETION_OUTBOX_DELIVERY_CONTRACT_VERSION\<rparr>
     in rbind (content_id rt sha DELIVERY_ID_PREFIX (delivery_fields d')) (\<lambda>i.
        let d'' = d'\<lparr>od_delivery_revision_id := i\<rparr>
        in or_raise (delivery_error rt sha d'') (Inr d''))))))"

text \<open>A revision with the optional fields absent.\<close>

definition revision :: "pystr \<Rightarrow> int \<Rightarrow> pystr \<Rightarrow> int \<Rightarrow> pystr \<Rightarrow> CompletionOutboxDelivery" where
  "revision event_id version status attempts updated_at =
     \<lparr>od_delivery_revision_id = [], od_event_id = event_id, od_version = version, od_status = status,
      od_attempt_count = attempts, od_updated_at = updated_at, od_available_at = None, od_worker_id = None,
      od_lease_expires_at = None, od_delivered_at = None, od_last_error_code = None, od_response_sha256 = None,
      od_contract_version = COMPLETION_OUTBOX_DELIVERY_CONTRACT_VERSION\<rparr>"

definition build_initial_completion_outbox_delivery ::
  "runtime \<Rightarrow> (pystr \<Rightarrow> pystr) \<Rightarrow> CompletionOutboxEvent \<Rightarrow> CompletionOutboxDelivery result" where
  "build_initial_completion_outbox_delivery rt sha event =
     build_delivery rt sha ((revision (oe_event_id event) 1 (u ''pending'') 0 (oe_occurred_at event))
       \<lparr>od_available_at := Some (oe_occurred_at event)\<rparr>)"

definition timestamp_plus_seconds :: "pystr \<Rightarrow> int \<Rightarrow> pystr \<Rightarrow> pystr result" where
  "timestamp_plus_seconds value seconds name =
     (case parse_rfc3339 value of
        None \<Rightarrow> Inl rfc3339_error
      | Some d \<Rightarrow>
          (case add_seconds d (nat seconds) of
             Inl _ \<Rightarrow> Inl (outbox_invalid (name @ u '' exceeds the supported timestamp range''))
           | Inr e \<Rightarrow> aware_datetime_to_rfc3339 e))"

definition DELIVERY_TRANSITIONS :: "(pystr, pystr list) dict" where
  "DELIVERY_TRANSITIONS =
     [(u ''pending'', [u ''leased'']), (u ''retry_wait'', [u ''leased'']),
      (u ''leased'', [u ''leased'', u ''retry_wait'', u ''delivered'', u ''dead_letter'']),
      (u ''delivered'', []), (u ''dead_letter'', [])]"

definition verify_completion_outbox_delivery_transition ::
  "CompletionOutboxDelivery \<Rightarrow> CompletionOutboxDelivery \<Rightarrow> py_error option" where
  "verify_completion_outbox_delivery_transition previous current =
     first_error
       [refuse_if (od_event_id previous \<noteq> od_event_id current) (u ''delivery transition cannot change event_id''),
        refuse_if (od_version current \<noteq> od_version previous + 1)
          (u ''delivery transition must advance exactly one version''),
        (if instant_of (od_updated_at current) = None \<or> instant_of (od_updated_at previous) = None
         then Some rfc3339_error else None),
        refuse_if (\<not> not_after (instant_of (od_updated_at previous)) (instant_of (od_updated_at current)))
          (u ''delivery transition timestamp moved backwards''),
        (case dict_get DELIVERY_TRANSITIONS (od_status previous) of
           None \<Rightarrow> Some (KeyError (od_status previous))
         | Some allowed \<Rightarrow> refuse_if (od_status current \<notin> set allowed) (u ''delivery transition is not allowed'')),
        refuse_if (od_attempt_count current \<noteq>
            od_attempt_count previous + (if od_status current = u ''leased'' then 1 else 0))
          (u ''delivery attempt_count does not match the transition'')]"

definition verified :: "CompletionOutboxDelivery \<Rightarrow> CompletionOutboxDelivery result \<Rightarrow> CompletionOutboxDelivery result" where
  "verified current r =
     rbind r (\<lambda>next. or_raise (verify_completion_outbox_delivery_transition current next) (Inr next))"

definition validate_completion_outbox_claim :: "pystr \<Rightarrow> int \<Rightarrow> py_error option" where
  "validate_completion_outbox_claim worker_id lease_seconds =
     first_error
       [identifier_error worker_id (u ''worker_id''),
        refuse_if (\<not> (1 \<le> lease_seconds \<and> lease_seconds \<le> COMPLETION_OUTBOX_MAX_LEASE_SECONDS))
          (u ''lease_seconds is outside the supported range'')]"

definition claimable_error :: "CompletionOutboxDelivery \<Rightarrow> pystr \<Rightarrow> py_error option" where
  "claimable_error current claimed_at =
     first_error
       [(if od_status current \<in> {u ''pending'', u ''retry_wait''} then
           refuse_if (\<not> not_after (moment (od_available_at current)) (instant_of claimed_at))
             (u ''delivery is not available for claim'')
         else if od_status current = u ''leased'' then
           refuse_if (\<not> not_after (moment (od_lease_expires_at current)) (instant_of claimed_at))
             (u ''delivery lease has not expired'')
         else Some (outbox_invalid (u ''terminal delivery cannot be claimed''))),
        refuse_if (\<not> not_after (instant_of (od_updated_at current)) (instant_of claimed_at))
          (u ''claimed_at precedes current delivery state''),
        refuse_if (COMPLETION_OUTBOX_MAX_ATTEMPTS \<le> od_attempt_count current)
          (u ''delivery attempt limit has been reached'')]"

definition claim_completion_outbox_delivery ::
  "runtime \<Rightarrow> (pystr \<Rightarrow> pystr) \<Rightarrow> CompletionOutboxDelivery \<Rightarrow> pystr \<Rightarrow> pystr \<Rightarrow> int \<Rightarrow> CompletionOutboxDelivery result" where
  "claim_completion_outbox_delivery rt sha current worker_id claimed_at lease_seconds =
     or_raise (first_error
       [validate_completion_outbox_claim worker_id lease_seconds,
        canonical_time claimed_at (u ''claimed_at''),
        claimable_error current claimed_at])
     (rbind (timestamp_plus_seconds claimed_at lease_seconds (u ''lease_expires_at'')) (\<lambda>lease.
      rbind (canonical_rfc3339 claimed_at) (\<lambda>updated.
      verified current (build_delivery rt sha
        ((revision (od_event_id current) (od_version current + 1) (u ''leased'') (od_attempt_count current + 1) updated)
           \<lparr>od_worker_id := Some worker_id, od_lease_expires_at := Some lease\<rparr>)))))"

definition require_active_lease :: "CompletionOutboxDelivery \<Rightarrow> pystr \<Rightarrow> pystr \<Rightarrow> py_error option" where
  "require_active_lease current worker_id occurred_at =
     first_error
       [identifier_error worker_id (u ''worker_id''),
        canonical_time occurred_at (u ''occurred_at''),
        refuse_if (od_status current \<noteq> u ''leased'') (u ''delivery is not leased''),
        refuse_if (od_worker_id current \<noteq> Some worker_id) (u ''worker_id does not own the delivery lease''),
        refuse_if (\<not> not_after (instant_of occurred_at) (moment (od_lease_expires_at current)))
          (u ''delivery lease has expired''),
        refuse_if (\<not> not_after (instant_of (od_updated_at current)) (instant_of occurred_at))
          (u ''delivery timestamp moved backwards'')]"

definition acknowledge_completion_outbox_delivery ::
  "runtime \<Rightarrow> (pystr \<Rightarrow> pystr) \<Rightarrow> CompletionOutboxDelivery \<Rightarrow> pystr \<Rightarrow> pystr \<Rightarrow> pystr option \<Rightarrow>
   CompletionOutboxDelivery result" where
  "acknowledge_completion_outbox_delivery rt sha current worker_id acknowledged_at response_sha256 =
     or_raise (first_error
       [require_active_lease current worker_id acknowledged_at,
        if_given (\<lambda>v. outbox_digest v (u ''response_sha256'')) response_sha256])
     (rbind (canonical_rfc3339 acknowledged_at) (\<lambda>t.
      verified current (build_delivery rt sha
        ((revision (od_event_id current) (od_version current + 1) (u ''delivered'') (od_attempt_count current) t)
           \<lparr>od_delivered_at := Some t, od_response_sha256 := response_sha256\<rparr>))))"

definition fail_completion_outbox_delivery ::
  "runtime \<Rightarrow> (pystr \<Rightarrow> pystr) \<Rightarrow> CompletionOutboxDelivery \<Rightarrow> pystr \<Rightarrow> pystr \<Rightarrow> pystr \<Rightarrow> int \<Rightarrow> int \<Rightarrow>
   CompletionOutboxDelivery result" where
  "fail_completion_outbox_delivery rt sha current worker_id failed_at error_code retry_delay_seconds max_attempts =
     or_raise (first_error
       [require_active_lease current worker_id failed_at,
        error_code_error error_code,
        refuse_if (\<not> (1 \<le> retry_delay_seconds \<and> retry_delay_seconds \<le> COMPLETION_OUTBOX_MAX_RETRY_SECONDS))
          (u ''retry_delay_seconds is outside the supported range''),
        refuse_if (\<not> (1 \<le> max_attempts \<and> max_attempts \<le> COMPLETION_OUTBOX_MAX_ATTEMPTS))
          (u ''max_attempts is outside the supported range'')])
     (rbind (canonical_rfc3339 failed_at) (\<lambda>t.
      if max_attempts \<le> od_attempt_count current then
        verified current (build_delivery rt sha
          ((revision (od_event_id current) (od_version current + 1) (u ''dead_letter'') (od_attempt_count current) t)
             \<lparr>od_last_error_code := Some error_code\<rparr>))
      else
        rbind (timestamp_plus_seconds failed_at retry_delay_seconds (u ''available_at'')) (\<lambda>available.
        verified current (build_delivery rt sha
          ((revision (od_event_id current) (od_version current + 1) (u ''retry_wait'') (od_attempt_count current) t)
             \<lparr>od_available_at := Some available, od_last_error_code := Some error_code\<rparr>)))))"

end
