(* ===== verification/OutboxFacts.thy ===== *)
theory OutboxFacts
  imports Outbox
begin

text \<open>
  The life of a delivery. Every revision that an operation returns is valid, belongs to the same
  event, advances the version by one and does not go back in time; claims count the attempts, so a
  delivery has at most 2001 revisions. Only the worker that holds a live lease can end or fail a
  delivery, and an ended delivery never changes.
\<close>

section \<open>Validity\<close>

lemma canonical_time_None_iff: "canonical_time v n = None \<longleftrightarrow> canonical_rfc3339 v = Inr v"
  by (auto simp: canonical_time_def split: sum.splits)

lemma canonical_instant: "canonical_rfc3339 v = Inr v \<Longrightarrow> \<exists>i. instant_of v = Some i"
  using canonical_rfc3339_Inr(1) by blast

lemma not_after_iff [simp]: "not_after (Some x) (Some y) \<longleftrightarrow> x \<le> y" "\<not> not_after None b" "\<not> not_after a None"
  by (simp_all add: not_after_def split: option.splits)

lemma delivery_valid_parts:
  assumes "delivery_error rt sha d = None"
  shows "od_contract_version d = COMPLETION_OUTBOX_DELIVERY_CONTRACT_VERSION" "tagged_digest EVENT_ID_PREFIX (od_event_id d)"
    "1 \<le> od_version d" "od_status d \<in> set DELIVERY_STATUSES" "0 \<le> od_attempt_count d" "od_attempt_count d \<le> 1000"
    "canonical_rfc3339 (od_updated_at d) = Inr (od_updated_at d)"
    "od_available_at d = Some a \<Longrightarrow> canonical_rfc3339 a = Inr a"
    "od_lease_expires_at d = Some l \<Longrightarrow> canonical_rfc3339 l = Inr l"
    "delivery_status_error d = None"
    "content_id rt sha DELIVERY_ID_PREFIX (delivery_fields d) = Inr (od_delivery_revision_id d)"
proof -
  note v = assms [unfolded delivery_error_def first_error_None_iff]
  show "content_id rt sha DELIVERY_ID_PREFIX (delivery_fields d) = Inr (od_delivery_revision_id d)"
    using v by (auto split: sum.splits)
qed (use assms [unfolded delivery_error_def first_error_None_iff] in \<open>simp_all add: canonical_time_None_iff\<close>)

text \<open>What each status holds.\<close>

lemma delivery_shape:
  assumes "delivery_error rt sha d = None"
  shows "od_status d = u ''pending'' \<Longrightarrow> od_version d = 1 \<and> od_attempt_count d = 0 \<and> od_available_at d \<noteq> None"
    "od_status d = u ''leased'' \<Longrightarrow> od_worker_id d \<noteq> None \<and> od_lease_expires_at d \<noteq> None"
    "od_status d = u ''retry_wait'' \<Longrightarrow> od_available_at d \<noteq> None"
    "od_status d \<noteq> u ''pending'' \<Longrightarrow> 1 \<le> od_attempt_count d"
  using delivery_valid_parts(10) [OF assms] unfolding delivery_status_error_def Let_def
  by (auto split: if_splits)

section \<open>Revisions\<close>

lemma verify_transition_None:
  assumes "verify_completion_outbox_delivery_transition d e = None"
  shows "od_event_id e = od_event_id d" "od_version e = od_version d + 1"
    "not_after (instant_of (od_updated_at d)) (instant_of (od_updated_at e))"
    "od_attempt_count e = od_attempt_count d + (if od_status e = u ''leased'' then 1 else 0)"
    "\<exists>allowed. dict_get DELIVERY_TRANSITIONS (od_status d) = Some allowed \<and> od_status e \<in> set allowed"
  using assms unfolding verify_completion_outbox_delivery_transition_def first_error_None_iff
  by (simp_all split: option.splits if_splits)

lemma verified_build_Inr:
  assumes "verified d (build_delivery rt sha x) = Inr e"
  shows "delivery_error rt sha e = None" "verify_completion_outbox_delivery_transition d e = None"
    "od_status e = od_status x" "od_worker_id e = od_worker_id x"
  using assms by (auto simp: verified_def build_delivery_def result_simps Let_def)

datatype outbox_op =
    Claim pystr pystr int
  | Acknowledge pystr pystr "pystr option"
  | Fail pystr pystr pystr int int

definition outbox_step :: "runtime \<Rightarrow> (pystr \<Rightarrow> pystr) \<Rightarrow> outbox_op \<Rightarrow> CompletionOutboxDelivery \<Rightarrow> CompletionOutboxDelivery result" where
  "outbox_step rt sha op d =
     (case op of
        Claim worker claimed_at seconds \<Rightarrow> claim_completion_outbox_delivery rt sha d worker claimed_at seconds
      | Acknowledge worker acknowledged_at response \<Rightarrow>
          acknowledge_completion_outbox_delivery rt sha d worker acknowledged_at response
      | Fail worker failed_at code delay limit \<Rightarrow>
          fail_completion_outbox_delivery rt sha d worker failed_at code delay limit)"

lemma step_revision:
  assumes "outbox_step rt sha op d = Inr e"
  shows "delivery_error rt sha e = None" "verify_completion_outbox_delivery_transition d e = None"
proof -
  obtain x where "verified d (build_delivery rt sha x) = Inr e"
    using assms
    by (cases op) (auto simp: outbox_step_def claim_completion_outbox_delivery_def
        acknowledge_completion_outbox_delivery_def fail_completion_outbox_delivery_def result_simps split: if_splits)
  from verified_build_Inr(1,2) [OF this]
  show "delivery_error rt sha e = None" "verify_completion_outbox_delivery_transition d e = None" .
qed

lemma claim_Inr:
  assumes "claim_completion_outbox_delivery rt sha d worker t seconds = Inr e"
  shows "claimable_error d t = None" "od_status e = u ''leased''" "od_worker_id e = Some worker"
    "od_attempt_count d < 1000" "canonical_rfc3339 t = Inr t"
  using assms verified_build_Inr(3,4)
  by (fastforce simp: claim_completion_outbox_delivery_def result_simps claimable_error_def canonical_time_None_iff revision_def)+

lemma active_lease_None:
  assumes "require_active_lease d worker t = None"
  shows "od_status d = u ''leased''" "od_worker_id d = Some worker"
    "not_after (instant_of t) (moment (od_lease_expires_at d))" "not_after (instant_of (od_updated_at d)) (instant_of t)"
  using assms unfolding require_active_lease_def first_error_None_iff by simp_all

lemma acknowledge_Inr:
  assumes "acknowledge_completion_outbox_delivery rt sha d worker t response = Inr e"
  shows "require_active_lease d worker t = None" "od_status e = u ''delivered''"
  using assms verified_build_Inr(3)
  by (fastforce simp: acknowledge_completion_outbox_delivery_def result_simps revision_def)+

lemma fail_Inr:
  assumes "fail_completion_outbox_delivery rt sha d worker t code delay limit = Inr e"
  shows "require_active_lease d worker t = None"
    "od_status e = (if limit \<le> od_attempt_count d then u ''dead_letter'' else u ''retry_wait'')"
  using assms verified_build_Inr(3)
  by (fastforce simp: fail_completion_outbox_delivery_def result_simps revision_def split: if_splits)+

section \<open>The machine of a delivery\<close>

definition delivery_begins :: "runtime \<Rightarrow> (pystr \<Rightarrow> pystr) \<Rightarrow> CompletionOutboxDelivery \<Rightarrow> bool" where
  "delivery_begins rt sha d \<longleftrightarrow> (\<exists>event. build_initial_completion_outbox_delivery rt sha event = Inr d)"

text \<open>Between two claims there is at most one other revision.\<close>

definition delivery_ok :: "runtime \<Rightarrow> (pystr \<Rightarrow> pystr) \<Rightarrow> CompletionOutboxDelivery \<Rightarrow> bool" where
  "delivery_ok rt sha d \<longleftrightarrow>
     delivery_error rt sha d = None \<and>
     od_version d \<le> 2 * od_attempt_count d + (if od_status d = u ''leased'' then 0 else 1)"

definition delivery_later :: "CompletionOutboxDelivery \<Rightarrow> CompletionOutboxDelivery \<Rightarrow> bool" where
  "delivery_later d e \<longleftrightarrow>
     od_event_id e = od_event_id d \<and> od_version d \<le> od_version e \<and> od_attempt_count d \<le> od_attempt_count e \<and>
     (instant_of (od_updated_at d) = instant_of (od_updated_at e) \<or>
      not_after (instant_of (od_updated_at d)) (instant_of (od_updated_at e)))"

lemma begins_ok: "delivery_begins rt sha d \<Longrightarrow> delivery_ok rt sha d"
  by (auto simp: delivery_begins_def build_initial_completion_outbox_delivery_def build_delivery_def result_simps
      Let_def delivery_ok_def revision_def)

lemma outbox_step_ok:
  assumes "delivery_ok rt sha d" and r: "outbox_step rt sha op d = Inr e"
  shows "delivery_ok rt sha e"
proof -
  note n = verify_transition_None [OF step_revision(2) [OF r]]
  have "od_status d = u ''leased'' \<or> od_status e = u ''leased''"
    using n(5) by (auto simp: DELIVERY_TRANSITIONS_def split: if_splits)
  then show ?thesis
    using assms(1) n(2,4) step_revision(1) [OF r] by (auto simp: delivery_ok_def split: if_splits)
qed

lemma outbox_step_later: "outbox_step rt sha op d = Inr e \<Longrightarrow> delivery_later d e"
  using verify_transition_None [OF step_revision(2), of rt sha op d e] by (simp add: delivery_later_def)

lemma not_after_trans: "not_after a b \<Longrightarrow> not_after b c \<Longrightarrow> not_after a c"
  by (auto simp: not_after_def split: option.splits)

interpretation outbox: monotone_machine "outbox_step rt sha" "delivery_begins rt sha" "delivery_ok rt sha" delivery_later
  for rt sha
proof unfold_locales
  show "delivery_begins rt sha d \<Longrightarrow> delivery_ok rt sha d" for d by (rule begins_ok)
  show "delivery_ok rt sha d \<Longrightarrow> outbox_step rt sha op d = Inr e \<Longrightarrow> delivery_ok rt sha e" for d op e
    by (rule outbox_step_ok)
  show "delivery_later d d" for d by (simp add: delivery_later_def)
  show "delivery_later d e \<Longrightarrow> delivery_later e f \<Longrightarrow> delivery_later d f" for d e f
    unfolding delivery_later_def using not_after_trans by fastforce
  show "delivery_ok rt sha d \<Longrightarrow> outbox_step rt sha op d = Inr e \<Longrightarrow> delivery_later d e" for d op e
    by (rule outbox_step_later)
qed

text \<open>A delivery after any calls, the refused ones included.\<close>

definition run_delivery :: "runtime \<Rightarrow> (pystr \<Rightarrow> pystr) \<Rightarrow> outbox_op list \<Rightarrow> CompletionOutboxDelivery \<Rightarrow> CompletionOutboxDelivery" where
  "run_delivery rt sha = fold (\<lambda>op d. case outbox_step rt sha op d of Inl _ \<Rightarrow> d | Inr e \<Rightarrow> e)"

lemma run_delivery_exec: "run_delivery rt sha = fold (machine.exec (outbox_step rt sha))"
  unfolding run_delivery_def machine.exec_def ..

lemma run_delivery_ok: "delivery_begins rt sha d \<Longrightarrow> delivery_ok rt sha (run_delivery rt sha ops d)"
  unfolding run_delivery_exec by (rule outbox.run_inv)

lemma run_delivery_later:
  "delivery_begins rt sha d \<Longrightarrow> delivery_later (run_delivery rt sha ops d) (run_delivery rt sha (ops @ ops') d)"
  unfolding run_delivery_exec fold_append comp_def
  by (rule outbox.run_le) (rule outbox.run_reachable, rule outbox.reachable.initial)

lemma ended_no_step:
  assumes "od_status d \<in> {u ''delivered'', u ''dead_letter''}"
  shows "\<exists>x. outbox_step rt sha op d = Inl x"
proof (cases "outbox_step rt sha op d")
  case (Inr e)
  from verify_transition_None(5) [OF step_revision(2) [OF Inr]] assms show ?thesis
    by (auto simp: DELIVERY_TRANSITIONS_def)
qed simp

lemma ended_run:
  assumes "od_status d \<in> {u ''delivered'', u ''dead_letter''}"
  shows "run_delivery rt sha ops d = d"
proof (induction ops)
  case (Cons op ops)
  obtain x where "outbox_step rt sha op d = Inl x" using ended_no_step [OF assms] by blast
  with Cons show ?case by (simp add: run_delivery_def)
qed (simp add: run_delivery_def)

section \<open>Progress\<close>

text \<open>After its last attempt a delivery whose lease has run out admits no step any more.\<close>

lemma exhausted_no_step:
  assumes "od_status d = u ''leased''" and "od_attempt_count d = 1000" and "od_lease_expires_at d = Some l"
    and "instant_of l = Some i" and "instant_of t = Some n" and "i < n"
  shows "\<exists>x. claim_completion_outbox_delivery rt sha d worker t seconds = Inl x"
    "\<exists>x. acknowledge_completion_outbox_delivery rt sha d worker t response = Inl x"
    "\<exists>x. fail_completion_outbox_delivery rt sha d worker t code delay limit = Inl x"
proof -
  show "\<exists>x. claim_completion_outbox_delivery rt sha d worker t seconds = Inl x"
    using claim_Inr(4) assms(2) by (cases "claim_completion_outbox_delivery rt sha d worker t seconds") force+
  have "require_active_lease d worker t \<noteq> None"
    using active_lease_None(3) [of d worker t] assms by (auto simp: moment_def)
  then show "\<exists>x. acknowledge_completion_outbox_delivery rt sha d worker t response = Inl x"
    "\<exists>x. fail_completion_outbox_delivery rt sha d worker t code delay limit = Inl x"
    using acknowledge_Inr(1) fail_Inr(1) by (meson sum.exhaust)+
qed

text \<open>Every text that a claim writes can be encoded.\<close>

lemma encodable_tagged:
  assumes "tagged_digest (u p) v"
  shows "encodable v"
proof -
  have "v = take (length (u p)) v @ drop (length (u p)) v" by simp
  moreover have "encodable (drop (length (u p)) v)"
    using assms by (intro encodable_small) (auto simp: tagged_digest_def list_all_iff is_hex_def)
  ultimately show ?thesis using assms by (metis encodable_append encodable_u tagged_digest_def)
qed

lemma encodable_digits [simp]: "encodable (zero_pad w n)"
  using digits_rev_bound [of 10 n]
  by (intro encodable_small) (auto simp: zero_pad_def pad_left_def str_nat_def dec_digits_def)

lemma encodable_isoformat: "encodable (isoformat_z d)"
  by (simp add: isoformat_z_def date_time_text_def) (simp add: encodable_def)

lemma encodable_canonical: "canonical_rfc3339 s = Inr t \<Longrightarrow> encodable t"
  by (auto simp: canonical_rfc3339_def result_simps encodable_isoformat split: option.splits)

lemma timestamp_plus_seconds_Inr:
  assumes "timestamp_plus_seconds t k name = Inr l" and "canonical_rfc3339 t = Inr t" and "0 \<le> k"
  obtains i where "instant_of t = Some i" "instant_of l = Some (i + k * 1000000)" "canonical_rfc3339 l = Inr l"
proof -
  from assms(1) obtain d e where d: "parse_rfc3339 t = Some d" and e: "add_seconds d (nat k) = Inr e"
    and l: "aware_datetime_to_rfc3339 e = Inr l"
    by (auto simp: timestamp_plus_seconds_def split: option.splits sum.splits)
  note a = add_seconds_Inr [OF e parse_rfc3339_valid [OF d]]
  have "dt_offset e = 0" using a(2) canonical_is_utc [OF assms(2) d] by simp
  note c = isoformat_z_canonical [OF a(1) this]
  from l c(2) have "l = isoformat_z e" by simp
  with c a(3) assms(3) d show thesis by (intro that [of "instant d"]) (simp_all add: instant_of_def)
qed

lemma plain_delivery:
  assumes "decimal_numbers rt" and "tagged_digest EVENT_ID_PREFIX (od_event_id d)" and "encodable (od_contract_version d)"
    and "encodable (od_status d)" and "encodable (od_updated_at d)"
    and "\<forall>x\<in>{od_available_at d, od_worker_id d, od_lease_expires_at d, od_delivered_at d, od_last_error_code d,
      od_response_sha256 d}. \<forall>s. x = Some s \<longrightarrow> encodable s"
    and "\<forall>i\<in>{od_version d, od_attempt_count d}. 0 \<le> i \<and> i < 10 ^ 20"
  shows "\<exists>i. content_id rt sha DELIVERY_ID_PREFIX (delivery_fields d) = Inr i"
proof -
  note num = plain_number [OF assms(1)]
  have opt: "plain_value rt (text_or_none v)" if "\<forall>s. v = Some s \<longrightarrow> encodable s" for v
    using that by (cases v) (simp_all add: text_or_none_def)
  have "\<exists>x. canonical_sha256 rt sha (delivery_fields d) = Inr x"
    using assms(2-7) encodable_tagged unfolding EVENT_ID_PREFIX_def
    by (intro plain_digest) (auto simp: delivery_fields_def intro!: opt num)
  then show ?thesis by (auto simp: content_id_def)
qed

lemma claim_total:
  assumes v: "delivery_error rt sha d = None" and sha: "hex_digests sha" and num: "decimal_numbers rt"
    and w: "bounded_identifier 128 worker" "encodable worker" and k: "1 \<le> seconds" "seconds \<le> 86400"
    and t: "canonical_rfc3339 t = Inr t" and c: "claimable_error d t = None"
    and l: "timestamp_plus_seconds t seconds (u ''lease_expires_at'') = Inr lease" and n: "od_version d \<le> 2001"
  shows "\<exists>e. claim_completion_outbox_delivery rt sha d worker t seconds = Inr e"
proof -
  note p = delivery_valid_parts [OF v]
  obtain i where i: "instant_of t = Some i" "instant_of lease = Some (i + seconds * 1000000)" "canonical_rfc3339 lease = Inr lease"
    by (rule timestamp_plus_seconds_Inr [OF l t]) (use k in auto)
  define x where "x = (revision (od_event_id d) (od_version d + 1) (u ''leased'') (od_attempt_count d + 1) t)
    \<lparr>od_worker_id := Some worker, od_lease_expires_at := Some lease\<rparr>"
  have f: "od_event_id x = od_event_id d" "od_version x = od_version d + 1" "od_status x = u ''leased''"
    "od_attempt_count x = od_attempt_count d + 1" "od_updated_at x = t" "od_available_at x = None"
    "od_worker_id x = Some worker" "od_lease_expires_at x = Some lease" "od_delivered_at x = None"
    "od_last_error_code x = None" "od_response_sha256 x = None"
    "od_contract_version x = COMPLETION_OUTBOX_DELIVERY_CONTRACT_VERSION"
    by (simp_all add: x_def revision_def)
  obtain di where di: "content_id rt sha DELIVERY_ID_PREFIX (delivery_fields x) = Inr di"
    using plain_delivery [OF num, of x sha] p(2,3,5,6) n w(2) encodable_canonical [OF t] encodable_canonical [OF i(3)]
    by (auto simp: f COMPLETION_OUTBOX_DELIVERY_CONTRACT_VERSION_def)
  define e where "e = x\<lparr>od_delivery_revision_id := di\<rparr>"
  have cl: "not_after (instant_of (od_updated_at d)) (instant_of t)" "od_attempt_count d < 1000"
    and tr: "od_status d \<in> {u ''pending'', u ''retry_wait'', u ''leased''}"
    using c unfolding claimable_error_def first_error_None_iff by (auto split: if_splits)
  have "delivery_fields e = delivery_fields x" by (simp add: e_def delivery_fields_def)
  then have "delivery_error rt sha e = None"
    using p(2,3,5) cl(2) w(1) t i k di content_id_tagged [OF sha di]
    unfolding delivery_error_def first_error_None_iff
    by (simp add: e_def f canonical_time_None_iff identifier_error_def DELIVERY_STATUSES_def delivery_status_error_def
        moment_def Let_def)
  moreover have "verify_completion_outbox_delivery_transition d e = None"
    using cl(1) i(1) tr unfolding verify_completion_outbox_delivery_transition_def first_error_None_iff
    by (auto simp: e_def f DELIVERY_TRANSITIONS_def not_after_def split: option.splits)
  moreover have same: "x\<lparr>od_updated_at := t, od_available_at := None, od_lease_expires_at := Some lease, od_delivered_at := None,
      od_contract_version := COMPLETION_OUTBOX_DELIVERY_CONTRACT_VERSION\<rparr> = x"
    by (simp add: x_def revision_def)
  have "build_delivery rt sha x = or_raise (delivery_error rt sha e) (Inr e)"
    unfolding build_delivery_def f t i(3) canonical_or_none_def rbind_simps option.case Let_def same di e_def [symmetric] ..
  moreover have "first_error [validate_completion_outbox_claim worker seconds, canonical_time t (u ''claimed_at''), claimable_error d t] = None"
    using w(1) k t c by (simp add: validate_completion_outbox_claim_def identifier_error_def canonical_time_None_iff)
  ultimately have "claim_completion_outbox_delivery rt sha d worker t seconds = Inr e"
    by (simp add: claim_completion_outbox_delivery_def l t verified_def x_def [symmetric])
  then show ?thesis ..
qed

end
