(* ===== verification/Effects.thy ===== *)
theory Effects
  imports Prelude
begin

text \<open>
  Code that calls other components which keep their own state: a computation takes the state of the
  world and returns a result or an exception together with the next state. An exception does not
  undo what was done before it.
\<close>

type_synonym ('a, 's) io = "'s \<Rightarrow> 'a result \<times> 's"

definition io_return :: "'a \<Rightarrow> ('a, 's) io" where
  "io_return x s = (Inr x, s)"

definition io_raise :: "py_error \<Rightarrow> ('a, 's) io" where
  "io_raise e s = (Inl e, s)"

definition io_bind :: "('a, 's) io \<Rightarrow> ('a \<Rightarrow> ('b, 's) io) \<Rightarrow> ('b, 's) io" where
  "io_bind m f s = (case m s of (Inl e, t) \<Rightarrow> (Inl e, t) | (Inr x, t) \<Rightarrow> f x t)"

text \<open>\<^verbatim>\<open>try\<close>: the handler sees the exception, the continuation the value.\<close>

definition io_try :: "('a, 's) io \<Rightarrow> (py_error \<Rightarrow> ('b, 's) io) \<Rightarrow> ('a \<Rightarrow> ('b, 's) io) \<Rightarrow> ('b, 's) io" where
  "io_try m handler f s = (case m s of (Inl e, t) \<Rightarrow> handler e t | (Inr x, t) \<Rightarrow> f x t)"

definition io_or_raise :: "py_error option \<Rightarrow> ('a, 's) io \<Rightarrow> ('a, 's) io" where
  "io_or_raise e m = (case e of None \<Rightarrow> m | Some x \<Rightarrow> io_raise x)"

text \<open>A computation per element, in order; the first exception ends it.\<close>

fun io_map :: "('a \<Rightarrow> ('b, 's) io) \<Rightarrow> 'a list \<Rightarrow> ('b list, 's) io" where
  "io_map f [] = io_return []"
| "io_map f (x # xs) = io_bind (f x) (\<lambda>y. io_bind (io_map f xs) (\<lambda>ys. io_return (y # ys)))"

lemma io_return_iff [simp]: "io_return x s = (Inr y, t) \<longleftrightarrow> x = y \<and> s = t"
  by (auto simp: io_return_def)

lemma io_raise_iff [simp]: "io_raise e s = (Inr y, t) \<longleftrightarrow> False"
  by (simp add: io_raise_def)

lemma io_bind_iff: "io_bind m f s = (Inr y, t) \<longleftrightarrow> (\<exists>x r. m s = (Inr x, r) \<and> f x r = (Inr y, t))"
  by (auto simp: io_bind_def split: prod.splits sum.splits)

lemma io_try_iff:
  "io_try m h f s = (Inr y, t) \<longleftrightarrow>
     (\<exists>x r. m s = (Inr x, r) \<and> f x r = (Inr y, t)) \<or> (\<exists>e r. m s = (Inl e, r) \<and> h e r = (Inr y, t))"
  by (auto simp: io_try_def split: prod.splits sum.splits)

lemma io_or_raise_iff: "io_or_raise e m s = (Inr y, t) \<longleftrightarrow> e = None \<and> m s = (Inr y, t)"
  by (cases e) (auto simp: io_or_raise_def)

lemmas io_iffs = io_bind_iff io_try_iff io_or_raise_iff

text \<open>A relation that holds in turn: each element, the state before it, its result and the state after it.\<close>

fun in_turn :: "('a \<Rightarrow> 's \<Rightarrow> 'b \<Rightarrow> 's \<Rightarrow> bool) \<Rightarrow> 'a list \<Rightarrow> 's \<Rightarrow> 'b list \<Rightarrow> 's \<Rightarrow> bool" where
  "in_turn P [] s ys t \<longleftrightarrow> ys = [] \<and> t = s"
| "in_turn P (x # xs) s ys t \<longleftrightarrow> (\<exists>y zs r. ys = y # zs \<and> P x s y r \<and> in_turn P xs r zs t)"

lemma io_map_in_turn:
  assumes "io_map f xs s = (Inr ys, t)" and "\<And>x y r r'. x \<in> set xs \<Longrightarrow> f x r = (Inr y, r') \<Longrightarrow> P x r y r'"
  shows "in_turn P xs s ys t"
  using assms
proof (induction xs arbitrary: ys s)
  case (Cons x xs)
  from Cons.prems(1) obtain y r zs where y: "f x s = (Inr y, r)" "io_map f xs r = (Inr zs, t)" "ys = y # zs"
    by (auto simp: io_iffs)
  have "in_turn P xs r zs t" using Cons.IH [OF y(2)] Cons.prems(2) by simp
  moreover have "P x s y r" using Cons.prems(2) [OF _ y(1)] by simp
  ultimately show ?case using y(3) by auto
qed auto

lemma in_turn_length: "in_turn P xs s ys t \<Longrightarrow> length ys = length xs"
  by (induction xs arbitrary: s ys) auto

end
