(* ===== verification/OutboxWorker.thy ===== *)
theory OutboxWorker
  imports Effects Outbox
begin

text \<open>
  The delivery worker of \<^verbatim>\<open>completion_outbox_worker_v3.py\<close>. The repository it calls and the consumer
  it delivers to are parameters: functions on a state that the worker does not see, free to raise at
  any call. A repository returns claims that are pairs of an event and a delivery.
\<close>

abbreviation "COMPLETION_OUTBOX_WORKER_MAX_PAGE_SIZE \<equiv> (1000 :: int)"

record 's outbox_repository =
  or_claim_due :: "pystr \<Rightarrow> int \<Rightarrow> int \<Rightarrow> ((CompletionOutboxEvent \<times> CompletionOutboxDelivery) list, 's) io"
  or_get_delivery :: "pystr \<Rightarrow> (CompletionOutboxDelivery, 's) io"
  or_acknowledge :: "pystr \<Rightarrow> int \<Rightarrow> pystr \<Rightarrow> pystr option \<Rightarrow> (CompletionOutboxDelivery, 's) io"
  or_fail_delivery :: "pystr \<Rightarrow> int \<Rightarrow> pystr \<Rightarrow> pystr \<Rightarrow> int \<Rightarrow> int \<Rightarrow> (CompletionOutboxDelivery, 's) io"

text \<open>
  What calling the consumer leads to: a receipt, a value of another type, a
  \<^verbatim>\<open>CompletionOutboxConsumerError\<close> with its code, or any other exception. A receipt or an error that
  its constructor refuses is an exception of the consumer.
\<close>

datatype consumer_reply = Receipt "pystr option" | WrongReceipt | ConsumerError pystr | ConsumerFailed

definition checked_reply :: "consumer_reply \<Rightarrow> consumer_reply" where
  "checked_reply reply =
     (case reply of
        Receipt (Some d) \<Rightarrow> if tagged_digest (u ''sha256:'') d then reply else ConsumerFailed
      | ConsumerError code \<Rightarrow> if bounded_identifier 256 code then reply else ConsumerFailed
      | _ \<Rightarrow> reply)"

type_synonym 's consumer = "CompletionOutboxEvent \<Rightarrow> 's \<Rightarrow> consumer_reply \<times> 's"

record CompletionOutboxWorkerResult =
  ow_event_id :: pystr
  ow_observed_version :: int
  ow_attempt_count :: int
  ow_outcome :: pystr
  ow_current :: CompletionOutboxDelivery

definition worker_error :: "string \<Rightarrow> string \<Rightarrow> py_error" where
  "worker_error code message = ContractError (u ''TBM_COMPLETION_OUTBOX_WORKER_'' @ u code) (u message)"

definition receipt_invalid :: py_error where
  "receipt_invalid = worker_error ''RECEIPT_INVALID'' ''completion outbox authority returned an invalid receipt''"

definition validate_run_configuration :: "pystr \<Rightarrow> int \<Rightarrow> int \<Rightarrow> int \<Rightarrow> int \<Rightarrow> py_error option" where
  "validate_run_configuration worker_id lease_seconds limit retry_delay_seconds max_attempts =
     (if \<not> bounded_identifier 128 worker_id \<or>
         \<not> (1 \<le> lease_seconds \<and> lease_seconds \<le> COMPLETION_OUTBOX_MAX_LEASE_SECONDS) \<or>
         \<not> (1 \<le> limit \<and> limit \<le> COMPLETION_OUTBOX_WORKER_MAX_PAGE_SIZE) \<or>
         \<not> (1 \<le> retry_delay_seconds \<and> retry_delay_seconds \<le> COMPLETION_OUTBOX_MAX_RETRY_SECONDS) \<or>
         \<not> (1 \<le> max_attempts \<and> max_attempts \<le> COMPLETION_OUTBOX_MAX_ATTEMPTS)
      then Some (worker_error ''CONFIGURATION_INVALID'' ''completion outbox worker configuration is invalid'')
      else None)"

definition claim_ok :: "pystr \<Rightarrow> CompletionOutboxEvent \<times> CompletionOutboxDelivery \<Rightarrow> bool" where
  "claim_ok worker_id claim =
     (case claim of (event, delivery) \<Rightarrow>
        od_event_id delivery = oe_event_id event \<and> od_status delivery = u ''leased'' \<and>
        od_worker_id delivery = Some worker_id \<and> od_lease_expires_at delivery \<noteq> None \<and> 1 \<le> od_attempt_count delivery)"

definition validate_claims ::
  "pystr \<Rightarrow> int \<Rightarrow> (CompletionOutboxEvent \<times> CompletionOutboxDelivery) list \<Rightarrow> py_error option" where
  "validate_claims worker_id limit claims =
     (if limit < int (length claims) \<or> \<not> list_all (claim_ok worker_id) claims \<or>
         \<not> distinct (map (oe_event_id \<circ> fst) claims)
      then Some (worker_error ''CLAIMS_INVALID'' ''completion outbox authority returned invalid claims'') else None)"

definition validate_current_delivery :: "CompletionOutboxDelivery \<Rightarrow> CompletionOutboxDelivery \<Rightarrow> py_error option" where
  "validate_current_delivery previous current =
     (if od_event_id current \<noteq> od_event_id previous \<or> od_contract_version current \<noteq> od_contract_version previous \<or>
         od_version current < od_version previous \<or> od_version current = od_version previous \<and> current \<noteq> previous
      then Some (worker_error ''CURRENT_INVALID'' ''completion outbox authority returned invalid current state'') else None)"

definition worker_result ::
  "CompletionOutboxDelivery \<Rightarrow> pystr \<Rightarrow> CompletionOutboxDelivery \<Rightarrow> CompletionOutboxWorkerResult" where
  "worker_result previous outcome current =
     \<lparr>ow_event_id = od_event_id previous, ow_observed_version = od_version previous,
      ow_attempt_count = od_attempt_count previous, ow_outcome = outcome, ow_current = current\<rparr>"

definition classify_after_write_failure ::
  "'s outbox_repository \<Rightarrow> CompletionOutboxDelivery \<Rightarrow> (CompletionOutboxWorkerResult, 's) io" where
  "classify_after_write_failure repo delivery =
     io_try (or_get_delivery repo (od_event_id delivery))
       (\<lambda>_. io_raise (worker_error ''RECOVERY_READ_FAILED'' ''completion outbox state could not be read after write failure''))
       (\<lambda>current. io_or_raise (validate_current_delivery delivery current)
          (io_return (worker_result delivery
             (if current = delivery then u ''recovery_required'' else u ''superseded'') current)))"

definition verify_retained :: "'s outbox_repository \<Rightarrow> CompletionOutboxDelivery \<Rightarrow> (unit, 's) io" where
  "verify_retained repo expected =
     io_try (or_get_delivery repo (od_event_id expected))
       (\<lambda>_. io_raise (worker_error ''RECEIPT_READ_FAILED'' ''completion outbox delivery receipt could not be read''))
       (\<lambda>retained. if retained \<noteq> expected
          then io_raise (worker_error ''RECEIPT_INVALID'' ''completion outbox delivery receipt was not durably retained'')
          else io_return ())"

definition retry_time_error :: "CompletionOutboxDelivery \<Rightarrow> int \<Rightarrow> py_error option" where
  "retry_time_error current retry_delay_seconds =
     (case (od_available_at current, parse_rfc3339 (od_updated_at current)) of
        (None, _) \<Rightarrow> Some receipt_invalid
      | (_, None) \<Rightarrow> Some rfc3339_error
      | (Some a, Some d) \<Rightarrow>
          (case add_seconds d (nat retry_delay_seconds) of
             Inl e \<Rightarrow> Some e
           | Inr e \<Rightarrow> if instant_of a \<noteq> Some (instant e) then Some receipt_invalid else None))"

definition verify_terminal_receipt ::
  "CompletionOutboxDelivery \<Rightarrow> CompletionOutboxDelivery \<Rightarrow> pystr \<Rightarrow> pystr option \<Rightarrow> pystr option \<Rightarrow> int \<Rightarrow> py_error option" where
  "verify_terminal_receipt previous current expected_status response_sha256 error_code retry_delay_seconds =
     first_error
       [(if od_event_id current \<noteq> od_event_id previous \<or> od_version current \<noteq> od_version previous + 1 \<or>
            od_attempt_count current \<noteq> od_attempt_count previous \<or> od_status current \<noteq> expected_status \<or>
            expected_status = u ''delivered'' \<and> od_response_sha256 current \<noteq> response_sha256 \<or>
            expected_status \<noteq> u ''delivered'' \<and> od_last_error_code current \<noteq> error_code
         then Some receipt_invalid else None),
        (if expected_status = u ''retry_wait'' then retry_time_error current retry_delay_seconds else None),
        (if verify_completion_outbox_delivery_transition previous current \<noteq> None then Some receipt_invalid else None)]"

definition record_failure ::
  "'s outbox_repository \<Rightarrow> CompletionOutboxDelivery \<Rightarrow> pystr \<Rightarrow> pystr \<Rightarrow> int \<Rightarrow> int \<Rightarrow>
   (CompletionOutboxWorkerResult, 's) io" where
  "record_failure repo delivery worker_id error_code retry_delay_seconds max_attempts =
     io_try (or_fail_delivery repo (od_event_id delivery) (od_version delivery) worker_id error_code
              retry_delay_seconds max_attempts)
       (\<lambda>_. classify_after_write_failure repo delivery)
       (\<lambda>failed.
          let expected = (if max_attempts \<le> od_attempt_count delivery then u ''dead_letter'' else u ''retry_wait'')
          in io_or_raise (verify_terminal_receipt delivery failed expected None (Some error_code) retry_delay_seconds)
             (io_bind (verify_retained repo failed) (\<lambda>_. io_return (worker_result delivery expected failed))))"

definition dispatch ::
  "'s outbox_repository \<Rightarrow> 's consumer \<Rightarrow> pystr \<Rightarrow> int \<Rightarrow> int \<Rightarrow>
   CompletionOutboxEvent \<times> CompletionOutboxDelivery \<Rightarrow> (CompletionOutboxWorkerResult, 's) io" where
  "dispatch repo consumer worker_id retry_delay_seconds max_attempts claim s =
     (let (event, delivery) = claim;
          (reply, t) = consumer event s;
          failed = (\<lambda>code. record_failure repo delivery worker_id code retry_delay_seconds max_attempts)
      in case checked_reply reply of
           WrongReceipt \<Rightarrow> failed (u ''TBM_COMPLETION_OUTBOX_CONSUMER_RECEIPT_INVALID'') t
         | ConsumerError code \<Rightarrow> failed code t
         | ConsumerFailed \<Rightarrow> failed (u ''TBM_COMPLETION_OUTBOX_CONSUMER_FAILED'') t
         | Receipt response \<Rightarrow>
             io_try (or_acknowledge repo (oe_event_id event) (od_version delivery) worker_id response)
               (\<lambda>_. classify_after_write_failure repo delivery)
               (\<lambda>acknowledged.
                  io_or_raise (verify_terminal_receipt delivery acknowledged (u ''delivered'') response None 0)
                  (io_bind (verify_retained repo acknowledged)
                    (\<lambda>_. io_return (worker_result delivery (u ''delivered'') acknowledged)))) t)"

definition outbox_run_once ::
  "'s outbox_repository \<Rightarrow> 's consumer \<Rightarrow> pystr \<Rightarrow> int \<Rightarrow> int \<Rightarrow> int \<Rightarrow> int \<Rightarrow>
   (CompletionOutboxWorkerResult list, 's) io" where
  "outbox_run_once repo consumer worker_id lease_seconds limit retry_delay_seconds max_attempts =
     io_or_raise (validate_run_configuration worker_id lease_seconds limit retry_delay_seconds max_attempts)
     (io_try (or_claim_due repo worker_id lease_seconds limit)
        (\<lambda>_. io_raise (worker_error ''CLAIM_FAILED'' ''completion outbox due claims could not be acquired''))
        (\<lambda>claims. io_or_raise (validate_claims worker_id limit claims)
           (io_map (dispatch repo consumer worker_id retry_delay_seconds max_attempts) claims)))"

section \<open>What a pass reports\<close>

text \<open>
  The write that answers a claim: an acknowledgement with the response of the consumer when it returned a receipt,
  otherwise a failure with its code.
\<close>

fun failure_code :: "consumer_reply \<Rightarrow> pystr option" where
  "failure_code (Receipt response) = None"
| "failure_code WrongReceipt = Some (u ''TBM_COMPLETION_OUTBOX_CONSUMER_RECEIPT_INVALID'')"
| "failure_code (ConsumerError code) = Some code"
| "failure_code ConsumerFailed = Some (u ''TBM_COMPLETION_OUTBOX_CONSUMER_FAILED'')"

fun response_of :: "consumer_reply \<Rightarrow> pystr option" where
  "response_of (Receipt response) = response"
| "response_of _ = None"

definition answer ::
  "'s outbox_repository \<Rightarrow> pystr \<Rightarrow> int \<Rightarrow> int \<Rightarrow> CompletionOutboxDelivery \<Rightarrow> consumer_reply \<Rightarrow> (CompletionOutboxDelivery, 's) io" where
  "answer repo worker delay m d reply =
     (case failure_code reply of
        None \<Rightarrow> or_acknowledge repo (od_event_id d) (od_version d) worker (response_of reply)
      | Some code \<Rightarrow> or_fail_delivery repo (od_event_id d) (od_version d) worker code delay m)"

definition answered_status :: "int \<Rightarrow> CompletionOutboxDelivery \<Rightarrow> consumer_reply \<Rightarrow> pystr" where
  "answered_status m d reply =
     (if failure_code reply = None then u ''delivered'' else if m \<le> od_attempt_count d then u ''dead_letter'' else u ''retry_wait'')"

text \<open>
  The report of one claim, between the state before the consumer is called and the state after. Either the write
  answered with the reported revision, which is the legal next one with the status, the response or the
  error code that belong to the reply, and reading the delivery afterwards gave that same revision; or the
  write raised, and the report is what was then read: a newer revision, or the claim itself.
\<close>

definition delivery_report ::
  "'s outbox_repository \<Rightarrow> 's consumer \<Rightarrow> pystr \<Rightarrow> int \<Rightarrow> int \<Rightarrow> CompletionOutboxEvent \<times> CompletionOutboxDelivery \<Rightarrow> 's \<Rightarrow>
   CompletionOutboxWorkerResult \<Rightarrow> 's \<Rightarrow> bool" where
  "delivery_report repo consumer worker delay m claim s r t \<longleftrightarrow>
     (\<exists>raw s1 reply cur s2. consumer (fst claim) s = (raw, s1) \<and> reply = checked_reply raw \<and> cur = ow_current r \<and>
        ow_event_id r = oe_event_id (fst claim) \<and> ow_observed_version r = od_version (snd claim) \<and>
        ow_attempt_count r = od_attempt_count (snd claim) \<and> od_event_id cur = oe_event_id (fst claim) \<and>
        or_get_delivery repo (oe_event_id (fst claim)) s2 = (Inr cur, t) \<and>
        (answer repo worker delay m (snd claim) reply s1 = (Inr cur, s2) \<and>
           ow_outcome r = answered_status m (snd claim) reply \<and> od_status cur = ow_outcome r \<and>
           od_version cur = od_version (snd claim) + 1 \<and> od_attempt_count cur = od_attempt_count (snd claim) \<and>
           (case failure_code reply of None \<Rightarrow> od_response_sha256 cur = response_of reply | Some code \<Rightarrow> od_last_error_code cur = Some code) \<and>
           verify_completion_outbox_delivery_transition (snd claim) cur = None \<or>
         (\<exists>e. answer repo worker delay m (snd claim) reply s1 = (Inl e, s2)) \<and>
           (ow_outcome r = u ''superseded'' \<and> od_version (snd claim) < od_version cur \<or>
            ow_outcome r = u ''recovery_required'' \<and> cur = snd claim)))"

lemma classified_report:
  assumes "classify_after_write_failure repo d s = (Inr r, t)"
  shows "or_get_delivery repo (od_event_id d) s = (Inr (ow_current r), t)" "r = worker_result d (ow_outcome r) (ow_current r)"
    "od_event_id (ow_current r) = od_event_id d"
    "ow_outcome r = u ''superseded'' \<and> od_version d < od_version (ow_current r) \<or> ow_outcome r = u ''recovery_required'' \<and> ow_current r = d"
  using assms
  by (auto simp: classify_after_write_failure_def io_iffs validate_current_delivery_def worker_result_def split: if_splits)

lemma receipt_report:
  assumes "verify_terminal_receipt d c status response code delay = None"
  shows "od_event_id c = od_event_id d" "od_version c = od_version d + 1" "od_attempt_count c = od_attempt_count d"
    "od_status c = status" "verify_completion_outbox_delivery_transition d c = None"
    "status = u ''delivered'' \<Longrightarrow> od_response_sha256 c = response" "status \<noteq> u ''delivered'' \<Longrightarrow> od_last_error_code c = code"
  using assms unfolding verify_terminal_receipt_def first_error_None_iff by (auto split: if_splits)

text \<open>The common end of an acknowledgement and of a failure.\<close>

lemma dispatch_settles:
  assumes "consumer event s = (raw, s1)" and "od_event_id d = oe_event_id event"
  shows "dispatch repo consumer worker delay m (event, d) s =
    (let reply = checked_reply raw; status = answered_status m d reply in
     io_try (answer repo worker delay m d reply) (\<lambda>_. classify_after_write_failure repo d)
       (\<lambda>c. io_or_raise (verify_terminal_receipt d c status (response_of reply) (failure_code reply)
              (if failure_code reply = None then 0 else delay))
          (io_bind (verify_retained repo c) (\<lambda>_. io_return (worker_result d status c)))) s1)"
  using assms by (cases "checked_reply raw")
    (simp_all add: dispatch_def record_failure_def answer_def answered_status_def Let_def)

lemma dispatch_report:
  assumes "dispatch repo consumer worker delay m (event, d) s = (Inr r, t)" and id: "od_event_id d = oe_event_id event"
  shows "delivery_report repo consumer worker delay m (event, d) s r t"
proof -
  obtain raw s1 where c: "consumer event s = (raw, s1)" by (cases "consumer event s")
  let ?reply = "checked_reply raw" and ?status = "answered_status m d (checked_reply raw)"
  from assms(1) [unfolded dispatch_settles [of consumer event s raw s1 d, OF c id] Let_def io_try_iff]
  consider (raised) e s2 where "answer repo worker delay m d ?reply s1 = (Inl e, s2)" "classify_after_write_failure repo d s2 = (Inr r, t)"
    | (written) cur s2 where "answer repo worker delay m d ?reply s1 = (Inr cur, s2)"
      "verify_terminal_receipt d cur ?status (response_of ?reply) (failure_code ?reply) (if failure_code ?reply = None then 0 else delay) = None"
      "verify_retained repo cur s2 = (Inr (), t)" "r = worker_result d ?status cur"
    by (auto simp: io_iffs)
  then show ?thesis
  proof cases
    case raised
    note k = classified_report [OF raised(2)]
    then have "ow_event_id r = od_event_id d" "ow_observed_version r = od_version d" "ow_attempt_count r = od_attempt_count d"
      by (metis CompletionOutboxWorkerResult.select_convs worker_result_def)+
    then show ?thesis unfolding delivery_report_def using c k raised(1) id by auto
  next
    case written
    note k = receipt_report [OF written(2)]
    have "or_get_delivery repo (oe_event_id event) s2 = (Inr cur, t)"
      using written(3) k(1) id by (auto simp: verify_retained_def io_iffs split: if_splits)
    moreover have "case failure_code ?reply of None \<Rightarrow> od_response_sha256 cur = response_of ?reply | Some code \<Rightarrow> od_last_error_code cur = Some code"
      using k(6,7) by (auto simp: answered_status_def split: option.splits if_splits)
    ultimately show ?thesis unfolding delivery_report_def using c k id written(1) by (auto simp: written(4) worker_result_def)
  qed
qed

lemma outbox_run_once_reports:
  assumes "outbox_run_once repo consumer worker lease limit delay m s = (Inr results, t)"
  obtains claims s0 where "or_claim_due repo worker lease limit s = (Inr claims, s0)" "validate_claims worker limit claims = None"
    "in_turn (delivery_report repo consumer worker delay m) claims s0 results t"
proof -
  from assms obtain claims s0 where c: "or_claim_due repo worker lease limit s = (Inr claims, s0)"
    and v: "validate_claims worker limit claims = None"
    and run: "io_map (dispatch repo consumer worker delay m) claims s0 = (Inr results, t)"
    by (auto simp: outbox_run_once_def io_iffs)
  have "delivery_report repo consumer worker delay m x r y r'" if "x \<in> set claims" "dispatch repo consumer worker delay m x r = (Inr y, r')" for x y r r'
  proof (cases x)
    case (Pair event d)
    have "od_event_id d = oe_event_id event"
      using v that(1) Pair by (auto simp: validate_claims_def claim_ok_def list_all_iff split: if_splits)
    then show ?thesis using that(2) unfolding Pair by (intro dispatch_report)
  qed
  then show thesis using that [OF c v] io_map_in_turn [OF run] by blast
qed

end
