(* ===== verification/GateSession.thy ===== *)
theory GateSession
  imports Canonical
begin

text \<open>
  The durable gate session of \<^verbatim>\<open>gate_session_v3.py\<close>: an immutable record that is validated
  whenever it is built (\<^verbatim>\<open>__post_init__\<close>), its creation, its transitions and the renewal of its
  lease, and its written form. The checks that an argument has its annotated type hold by the types
  of the model. The text layer, \<^verbatim>\<open>loads_gate_session\<close> and \<^verbatim>\<open>dumps_gate_session\<close>, is not modelled.
\<close>

section \<open>The record\<close>

abbreviation "GATE_SESSION_MAX_SEMANTIC_ATTEMPTS \<equiv> (100 :: nat)"
abbreviation "GATE_SESSION_MAX_MEMORY_REVISIONS \<equiv> (50 :: nat)"

definition GATE_SESSION_CONTRACT_VERSION :: pystr where
  "GATE_SESSION_CONTRACT_VERSION = u ''tbm.gate-session.v3''"

definition STATUSES :: "pystr list" where
  "STATUSES =
     [u ''created'', u ''prepared'', u ''awaiting_decision'', u ''decided'', u ''finalized'', u ''executing'',
      u ''completed'', u ''canceled'', u ''expired'', u ''abandoned'']"

definition TERMINAL_STATUSES :: "pystr list" where
  "TERMINAL_STATUSES = [u ''completed'', u ''canceled'', u ''expired'', u ''abandoned'']"

definition ACTIVE_LEASE_STATUSES :: "pystr list" where
  "ACTIVE_LEASE_STATUSES =
     [u ''prepared'', u ''awaiting_decision'', u ''decided'', u ''finalized'', u ''executing'']"

definition ALLOWED_TRANSITIONS :: "(pystr, pystr list) dict" where
  "ALLOWED_TRANSITIONS =
     [(u ''created'', [u ''prepared'', u ''canceled'']),
      (u ''prepared'', [u ''awaiting_decision'', u ''canceled'', u ''expired'']),
      (u ''awaiting_decision'', [u ''decided'', u ''canceled'', u ''expired'']),
      (u ''decided'', [u ''finalized'']),
      (u ''finalized'', [u ''executing'']),
      (u ''executing'', [u ''completed'', u ''abandoned'']),
      (u ''completed'', []), (u ''canceled'', []), (u ''expired'', []), (u ''abandoned'', [])]"

lemmas session_constants = GATE_SESSION_CONTRACT_VERSION_def STATUSES_def TERMINAL_STATUSES_def
  ACTIVE_LEASE_STATUSES_def ALLOWED_TRANSITIONS_def

record GateSession =
  gs_session_id :: pystr
  gs_tenant_id :: pystr
  gs_repository_id :: pystr
  gs_principal_id :: pystr
  gs_agent_client_id :: pystr
  gs_trace_id :: pystr
  gs_run_id :: pystr
  gs_request_fingerprint :: pystr
  gs_idempotency_key :: pystr
  gs_status :: pystr
  gs_version :: int
  gs_created_at :: pystr
  gs_updated_at :: pystr
  gs_expires_at :: pystr
  gs_lease_expires_at :: "pystr option"
  gs_retrieval_snapshot_id :: "pystr option"
  gs_system_gate_evaluation_id :: "pystr option"
  gs_semantic_gate_attempt_ids :: "pystr list"
  gs_decision_id :: "pystr option"
  gs_final_memory_revision_ids :: "pystr list"
  gs_injection_artifact_id :: "pystr option"
  gs_usage_decision_id :: "pystr option"
  gs_run_outcome_id :: "pystr option"
  gs_terminal_reason :: "pystr option"
  gs_contract_version :: pystr

section \<open>Validation\<close>

definition session_invalid :: "pystr \<Rightarrow> py_error" where
  "session_invalid message = ContractError (u ''TBM_GATE_SESSION_INVALID'') message"

definition invalid_if :: "bool \<Rightarrow> pystr \<Rightarrow> py_error option" where
  "invalid_if b message = (if b then Some (session_invalid message) else None)"

lemma invalid_if_None_iff [simp]: "invalid_if b m = None \<longleftrightarrow> \<not> b"
  by (simp add: invalid_if_def)

definition unicode :: "pystr \<Rightarrow> pystr \<Rightarrow> py_error option" where
  "unicode value field_name = invalid_if (utf8_size value = None) (field_name @ u '' must contain valid Unicode'')"

definition bounded_text :: "nat \<Rightarrow> pystr \<Rightarrow> pystr \<Rightarrow> py_error option" where
  "bounded_text max_chars value field_name =
     first_error
       [invalid_if (blank value \<or> max_chars < length value)
          (field_name @ u '' must be a nonblank string of at most '' @ str_nat max_chars @ u '' characters''),
        unicode value field_name]"

definition required_identifier :: "pystr \<Rightarrow> pystr \<Rightarrow> py_error option" where
  "required_identifier value field_name = bounded_text MEMORY_ID_MAX_CHARS value field_name"

definition optional_identifier :: "pystr option \<Rightarrow> pystr \<Rightarrow> py_error option" where
  "optional_identifier value field_name = (case value of None \<Rightarrow> None | Some v \<Rightarrow> required_identifier v field_name)"

definition required_metadata :: "pystr \<Rightarrow> pystr \<Rightarrow> py_error option" where
  "required_metadata value field_name = bounded_text METADATA_VALUE_MAX_CHARS value field_name"

definition required_reason :: "pystr \<Rightarrow> pystr \<Rightarrow> py_error option" where
  "required_reason value field_name = bounded_text MEMORY_DECISION_REASON_MAX_CHARS value field_name"

definition identifier_tuple :: "pystr list \<Rightarrow> pystr \<Rightarrow> nat \<Rightarrow> py_error option" where
  "identifier_tuple value field_name max_items =
     first_error
       ([invalid_if (max_items < length value)
           (field_name @ u '' must be a tuple with at most '' @ str_nat max_items @ u '' entries'')]
        @ map (\<lambda>item. required_identifier item field_name) value
        @ [invalid_if (\<not> distinct value) (field_name @ u '' must not contain duplicates'')])"

text \<open>\<^verbatim>\<open>re.compile(r"sha256:[0-9a-f]{64}").fullmatch\<close>\<close>

definition is_digest :: "pystr \<Rightarrow> bool" where
  "is_digest value \<longleftrightarrow> tagged_digest (u ''sha256:'') value"

definition digest :: "pystr \<Rightarrow> pystr \<Rightarrow> py_error option" where
  "digest value field_name =
     invalid_if (\<not> is_digest value) (field_name @ u '' must be an algorithm-tagged SHA-256 digest'')"

definition timestamp :: "pystr \<Rightarrow> pystr \<Rightarrow> py_error option" where
  "timestamp value field_name =
     invalid_if (instant_of value = None) (field_name @ u '' must be a timezone-aware RFC 3339 date-time'')"

text \<open>The comparisons of two timestamps that have been parsed.\<close>

definition time_less :: "pystr \<Rightarrow> pystr \<Rightarrow> bool" where
  "time_less a b =
     (case (instant_of a, instant_of b) of (Some x, Some y) \<Rightarrow> x < y | _ \<Rightarrow> False)"

definition time_le :: "pystr \<Rightarrow> pystr \<Rightarrow> bool" where
  "time_le a b =
     (case (instant_of a, instant_of b) of (Some x, Some y) \<Rightarrow> x \<le> y | _ \<Rightarrow> False)"

definition lease_error :: "pystr option \<Rightarrow> pystr \<Rightarrow> pystr \<Rightarrow> py_error option" where
  "lease_error lease updated expires =
     (case lease of
        None \<Rightarrow> None
      | Some l \<Rightarrow>
          first_error
            [timestamp l (u ''lease_expires_at''),
             invalid_if (time_le l updated \<or> time_less expires l)
               (u ''lease_expires_at must be later than updated_at and not later than expires_at'')])"

text \<open>The \<^verbatim>\<open>elif\<close> chain of \<^verbatim>\<open>_validate_record_shape\<close> over the statuses.\<close>

definition status_shape :: "GateSession \<Rightarrow> py_error option" where
  "status_shape s =
     (let status = gs_status s;
          has_retrieval = gs_retrieval_snapshot_id s \<noteq> None;
          has_decision = gs_decision_id s \<noteq> None;
          has_injection = gs_injection_artifact_id s \<noteq> None;
          has_outcome = gs_run_outcome_id s \<noteq> None
      in if status = u ''created'' then
           invalid_if (gs_lease_expires_at s \<noteq> None \<or> has_retrieval \<or> has_decision \<or> has_injection \<or> has_outcome \<or>
               gs_semantic_gate_attempt_ids s \<noteq> [] \<or> gs_final_memory_revision_ids s \<noteq> [])
             (u ''created session cannot contain lifecycle results'')
         else if status \<in> {u ''prepared'', u ''awaiting_decision''} then
           invalid_if (\<not> has_retrieval \<or> has_decision \<or> has_injection \<or> has_outcome)
             (status @ u '' session must contain only prepared retrieval evidence'')
         else if status = u ''decided'' then
           invalid_if (\<not> has_retrieval \<or> \<not> has_decision \<or> has_injection \<or> has_outcome)
             (u ''decided session requires a decision and forbids finalized artifacts'')
         else if status \<in> {u ''finalized'', u ''executing''} then
           invalid_if (\<not> has_injection \<or> has_outcome)
             (status @ u '' session requires finalized artifacts and forbids run outcome'')
         else if status = u ''completed'' then
           invalid_if (\<not> has_outcome) (u ''completed session requires run_outcome_id'')
         else if status = u ''abandoned'' then
           invalid_if (\<not> has_injection \<or> has_outcome)
             (u ''abandoned session requires finalized artifacts and forbids run outcome'')
         else if status = u ''canceled'' then
           invalid_if (has_decision \<or> has_injection \<or> has_outcome)
             (u ''canceled session cannot contain decided or finalized lifecycle results'')
         else if status = u ''expired'' then
           invalid_if (\<not> has_retrieval \<or> has_decision \<or> has_injection \<or> has_outcome)
             (u ''expired session requires prepared retrieval evidence and forbids decided or finalized lifecycle results'')
         else None)"

definition validate_record_shape :: "GateSession \<Rightarrow> py_error option" where
  "validate_record_shape s =
     (let status = gs_status s;
          has_retrieval = gs_retrieval_snapshot_id s \<noteq> None;
          has_system_gate = gs_system_gate_evaluation_id s \<noteq> None;
          has_decision = gs_decision_id s \<noteq> None;
          has_injection = gs_injection_artifact_id s \<noteq> None;
          has_usage = gs_usage_decision_id s \<noteq> None;
          has_outcome = gs_run_outcome_id s \<noteq> None
      in first_error
        [invalid_if (has_retrieval \<noteq> has_system_gate)
           (u ''retrieval_snapshot_id and system_gate_evaluation_id must be recorded together''),
         invalid_if (gs_semantic_gate_attempt_ids s \<noteq> [] \<and> \<not> has_decision)
           (u ''semantic Gate attempts require decision_id''),
         invalid_if (has_decision \<and> \<not> has_retrieval) (u ''decision_id requires prepared retrieval evidence''),
         invalid_if (has_injection \<noteq> has_usage)
           (u ''injection_artifact_id and usage_decision_id must be recorded together''),
         invalid_if (has_injection \<and> \<not> has_decision) (u ''finalized artifacts require decision_id''),
         invalid_if (gs_final_memory_revision_ids s \<noteq> [] \<and> \<not> has_injection)
           (u ''final_memory_revision_ids require finalized artifacts''),
         invalid_if (has_outcome \<and> \<not> has_injection) (u ''run_outcome_id requires finalized artifacts''),
         status_shape s,
         (if status \<in> set ACTIVE_LEASE_STATUSES
          then invalid_if (gs_lease_expires_at s = None) (status @ u '' session requires an active lease'')
          else invalid_if (gs_lease_expires_at s \<noteq> None) (status @ u '' session cannot retain an active lease'')),
         (if status \<in> {u ''canceled'', u ''expired'', u ''abandoned''}
          then invalid_if (gs_terminal_reason s = None) (status @ u '' session requires terminal_reason'')
          else invalid_if (gs_terminal_reason s \<noteq> None) (status @ u '' session cannot contain terminal_reason''))])"

definition session_error :: "GateSession \<Rightarrow> py_error option" where
  "session_error s =
     first_error
       [invalid_if (gs_contract_version s \<noteq> GATE_SESSION_CONTRACT_VERSION)
          (u ''contract_version must be '' @ GATE_SESSION_CONTRACT_VERSION),
        required_identifier (gs_session_id s) (u ''session_id''),
        required_identifier (gs_tenant_id s) (u ''tenant_id''),
        required_identifier (gs_repository_id s) (u ''repository_id''),
        required_identifier (gs_principal_id s) (u ''principal_id''),
        required_identifier (gs_agent_client_id s) (u ''agent_client_id''),
        required_identifier (gs_trace_id s) (u ''trace_id''),
        required_identifier (gs_run_id s) (u ''run_id''),
        digest (gs_request_fingerprint s) (u ''request_fingerprint''),
        required_metadata (gs_idempotency_key s) (u ''idempotency_key''),
        invalid_if (gs_status s \<notin> set STATUSES) (u ''status must be a supported GateSession status''),
        invalid_if (gs_version s < 1) (u ''version must be a positive integer''),
        timestamp (gs_created_at s) (u ''created_at''),
        timestamp (gs_updated_at s) (u ''updated_at''),
        timestamp (gs_expires_at s) (u ''expires_at''),
        invalid_if (time_less (gs_updated_at s) (gs_created_at s)) (u ''updated_at must not precede created_at''),
        invalid_if (time_le (gs_expires_at s) (gs_created_at s)) (u ''expires_at must be later than created_at''),
        invalid_if (time_less (gs_expires_at s) (gs_updated_at s) \<and> gs_status s \<notin> set TERMINAL_STATUSES)
          (u ''nonterminal updated_at must not be later than expires_at''),
        invalid_if (gs_status s = u ''expired'' \<and> time_less (gs_updated_at s) (gs_expires_at s))
          (u ''expired session updated_at cannot precede expires_at''),
        lease_error (gs_lease_expires_at s) (gs_updated_at s) (gs_expires_at s),
        optional_identifier (gs_retrieval_snapshot_id s) (u ''retrieval_snapshot_id''),
        optional_identifier (gs_system_gate_evaluation_id s) (u ''system_gate_evaluation_id''),
        identifier_tuple (gs_semantic_gate_attempt_ids s) (u ''semantic_gate_attempt_ids'')
          GATE_SESSION_MAX_SEMANTIC_ATTEMPTS,
        optional_identifier (gs_decision_id s) (u ''decision_id''),
        identifier_tuple (gs_final_memory_revision_ids s) (u ''final_memory_revision_ids'')
          GATE_SESSION_MAX_MEMORY_REVISIONS,
        optional_identifier (gs_injection_artifact_id s) (u ''injection_artifact_id''),
        optional_identifier (gs_usage_decision_id s) (u ''usage_decision_id''),
        optional_identifier (gs_run_outcome_id s) (u ''run_outcome_id''),
        (case gs_terminal_reason s of None \<Rightarrow> None | Some r \<Rightarrow> required_reason r (u ''terminal_reason'')),
        validate_record_shape s]"

definition construct :: "GateSession \<Rightarrow> GateSession result" where
  "construct s = or_raise (session_error s) (Inr s)"

section \<open>Operations\<close>

text \<open>The arguments that name a session when it is created.\<close>

record session_request =
  sr_session_id :: pystr
  sr_tenant_id :: pystr
  sr_repository_id :: pystr
  sr_principal_id :: pystr
  sr_agent_client_id :: pystr
  sr_trace_id :: pystr
  sr_run_id :: pystr
  sr_request_fingerprint :: pystr
  sr_idempotency_key :: pystr
  sr_created_at :: pystr
  sr_expires_at :: pystr

definition create_gate_session :: "session_request \<Rightarrow> GateSession result" where
  "create_gate_session r =
     construct
       \<lparr>gs_session_id = sr_session_id r, gs_tenant_id = sr_tenant_id r, gs_repository_id = sr_repository_id r,
        gs_principal_id = sr_principal_id r, gs_agent_client_id = sr_agent_client_id r,
        gs_trace_id = sr_trace_id r, gs_run_id = sr_run_id r,
        gs_request_fingerprint = sr_request_fingerprint r, gs_idempotency_key = sr_idempotency_key r,
        gs_status = u ''created'', gs_version = 1, gs_created_at = sr_created_at r,
        gs_updated_at = sr_created_at r, gs_expires_at = sr_expires_at r, gs_lease_expires_at = None,
        gs_retrieval_snapshot_id = None, gs_system_gate_evaluation_id = None,
        gs_semantic_gate_attempt_ids = [], gs_decision_id = None, gs_final_memory_revision_ids = [],
        gs_injection_artifact_id = None, gs_usage_decision_id = None, gs_run_outcome_id = None,
        gs_terminal_reason = None, gs_contract_version = GATE_SESSION_CONTRACT_VERSION\<rparr>"

text \<open>The optional keyword arguments of a transition.\<close>

record transition_fields =
  tf_lease_expires_at :: "pystr option"
  tf_retrieval_snapshot_id :: "pystr option"
  tf_system_gate_evaluation_id :: "pystr option"
  tf_semantic_gate_attempt_ids :: "pystr list option"
  tf_decision_id :: "pystr option"
  tf_final_memory_revision_ids :: "pystr list option"
  tf_injection_artifact_id :: "pystr option"
  tf_usage_decision_id :: "pystr option"
  tf_run_outcome_id :: "pystr option"
  tf_terminal_reason :: "pystr option"

definition supplied_fields :: "transition_fields \<Rightarrow> pystr list" where
  "supplied_fields f =
     map fst (filter snd
       [(u ''lease_expires_at'', tf_lease_expires_at f \<noteq> None),
        (u ''retrieval_snapshot_id'', tf_retrieval_snapshot_id f \<noteq> None),
        (u ''system_gate_evaluation_id'', tf_system_gate_evaluation_id f \<noteq> None),
        (u ''semantic_gate_attempt_ids'', tf_semantic_gate_attempt_ids f \<noteq> None),
        (u ''decision_id'', tf_decision_id f \<noteq> None),
        (u ''final_memory_revision_ids'', tf_final_memory_revision_ids f \<noteq> None),
        (u ''injection_artifact_id'', tf_injection_artifact_id f \<noteq> None),
        (u ''usage_decision_id'', tf_usage_decision_id f \<noteq> None),
        (u ''run_outcome_id'', tf_run_outcome_id f \<noteq> None),
        (u ''terminal_reason'', tf_terminal_reason f \<noteq> None)])"

text \<open>The tables \<^verbatim>\<open>allowed_fields\<close> and \<^verbatim>\<open>required_fields\<close>, which are equal.\<close>

definition TRANSITION_FIELDS :: "(pystr, pystr list) dict" where
  "TRANSITION_FIELDS =
     [(u ''prepared'', [u ''lease_expires_at'', u ''retrieval_snapshot_id'', u ''system_gate_evaluation_id'']),
      (u ''awaiting_decision'', []),
      (u ''decided'', [u ''semantic_gate_attempt_ids'', u ''decision_id'']),
      (u ''finalized'', [u ''final_memory_revision_ids'', u ''injection_artifact_id'', u ''usage_decision_id'']),
      (u ''executing'', []),
      (u ''completed'', [u ''run_outcome_id'']),
      (u ''canceled'', [u ''terminal_reason'']),
      (u ''expired'', [u ''terminal_reason'']),
      (u ''abandoned'', [u ''terminal_reason''])]"

definition transition_fields_error :: "pystr \<Rightarrow> pystr list \<Rightarrow> py_error option" where
  "transition_fields_error target supplied =
     (case dict_get TRANSITION_FIELDS target of
        None \<Rightarrow> Some (KeyError target)
      | Some names \<Rightarrow>
          (case sort (filter (\<lambda>n. n \<notin> set names) supplied) of
             n # _ \<Rightarrow> Some (session_invalid (target @ u '' transition cannot set '' @ n))
           | [] \<Rightarrow>
               (case sort (filter (\<lambda>n. n \<notin> set supplied) names) of
                  n # _ \<Rightarrow> Some (session_invalid (target @ u '' transition requires '' @ n))
                | [] \<Rightarrow> None)))"

text \<open>\<^verbatim>\<open>parse_rfc3339\<close> of a stored timestamp, outside a \<^verbatim>\<open>try\<close>.\<close>

definition stored_time_error :: "pystr \<Rightarrow> py_error option" where
  "stored_time_error value = (if instant_of value = None then Some rfc3339_error else None)"

definition transition_time_error :: "GateSession \<Rightarrow> pystr \<Rightarrow> pystr \<Rightarrow> py_error option" where
  "transition_time_error session target updated_at =
     first_error
       [stored_time_error (gs_updated_at session),
        timestamp updated_at (u ''updated_at''),
        invalid_if (time_le updated_at (gs_updated_at session))
          (u ''transition updated_at must be later than current updated_at''),
        (if target \<notin> set TERMINAL_STATUSES then stored_time_error (gs_expires_at session) else None),
        invalid_if (target \<notin> set TERMINAL_STATUSES \<and> time_less (gs_expires_at session) updated_at)
          (u ''transition updated_at must not be later than expires_at''),
        (if target = u ''expired'' then stored_time_error (gs_expires_at session) else None),
        invalid_if (target = u ''expired'' \<and> time_less updated_at (gs_expires_at session))
          (u ''expired transition cannot precede expires_at'')]"

definition given :: "'a option \<Rightarrow> 'a \<Rightarrow> 'a" where
  "given value old = (case value of None \<Rightarrow> old | Some v \<Rightarrow> v)"

definition given_opt :: "'a option \<Rightarrow> 'a option \<Rightarrow> 'a option" where
  "given_opt value old = (case value of None \<Rightarrow> old | Some v \<Rightarrow> Some v)"

text \<open>The arguments of \<^verbatim>\<open>replace\<close> in a transition.\<close>

definition transitioned :: "GateSession \<Rightarrow> pystr \<Rightarrow> pystr \<Rightarrow> transition_fields \<Rightarrow> GateSession" where
  "transitioned session target updated_at f =
     session\<lparr>gs_status := target, gs_version := gs_version session + 1, gs_updated_at := updated_at,
       gs_lease_expires_at :=
         (if target \<in> set TERMINAL_STATUSES then None
          else given_opt (tf_lease_expires_at f) (gs_lease_expires_at session)),
       gs_retrieval_snapshot_id := given_opt (tf_retrieval_snapshot_id f) (gs_retrieval_snapshot_id session),
       gs_system_gate_evaluation_id :=
         given_opt (tf_system_gate_evaluation_id f) (gs_system_gate_evaluation_id session),
       gs_semantic_gate_attempt_ids := given (tf_semantic_gate_attempt_ids f) (gs_semantic_gate_attempt_ids session),
       gs_decision_id := given_opt (tf_decision_id f) (gs_decision_id session),
       gs_final_memory_revision_ids := given (tf_final_memory_revision_ids f) (gs_final_memory_revision_ids session),
       gs_injection_artifact_id := given_opt (tf_injection_artifact_id f) (gs_injection_artifact_id session),
       gs_usage_decision_id := given_opt (tf_usage_decision_id f) (gs_usage_decision_id session),
       gs_run_outcome_id := given_opt (tf_run_outcome_id f) (gs_run_outcome_id session),
       gs_terminal_reason := tf_terminal_reason f\<rparr>"

definition stale_version :: py_error where
  "stale_version =
     ContractError (u ''TBM_GATE_SESSION_STALE_VERSION'')
       (u ''expected_version does not match the current session revision'')"

definition invalid_transition :: "pystr \<Rightarrow> py_error" where
  "invalid_transition message = ContractError (u ''TBM_GATE_SESSION_INVALID_TRANSITION'') message"

definition transition_gate_session ::
  "GateSession \<Rightarrow> pystr \<Rightarrow> int \<Rightarrow> pystr \<Rightarrow> transition_fields \<Rightarrow> GateSession result" where
  "transition_gate_session session target_status expected_version updated_at f =
     or_raise (first_error
       [if expected_version \<noteq> gs_version session then Some stale_version else None,
        invalid_if (target_status \<notin> set STATUSES) (u ''target_status must be a supported GateSession status'')])
     (case dict_get ALLOWED_TRANSITIONS (gs_status session) of
        None \<Rightarrow> Inl (KeyError (gs_status session))
      | Some targets \<Rightarrow>
          or_raise (first_error
            [if target_status \<notin> set targets
             then Some (invalid_transition (u ''cannot transition GateSession from '' @ gs_status session @
                    u '' to '' @ target_status)) else None,
             transition_fields_error target_status (supplied_fields f),
             transition_time_error session target_status updated_at])
          (construct (transitioned session target_status updated_at f)))"

definition renew_gate_session_lease ::
  "GateSession \<Rightarrow> int \<Rightarrow> pystr \<Rightarrow> pystr \<Rightarrow> GateSession result" where
  "renew_gate_session_lease session expected_version updated_at lease_expires_at =
     or_raise (first_error
       [if expected_version \<noteq> gs_version session then Some stale_version else None,
        if gs_status session \<notin> set ACTIVE_LEASE_STATUSES
        then Some (invalid_transition (u ''cannot renew lease for '' @ gs_status session @ u '' GateSession''))
        else None])
     (case gs_lease_expires_at session of
        None \<Rightarrow> Inl (session_invalid (u ''lease renewal timestamps must be timezone-aware RFC 3339''))
      | Some current_lease \<Rightarrow>
          or_raise (first_error
            [invalid_if (instant_of current_lease = None \<or> instant_of lease_expires_at = None \<or>
                 instant_of updated_at = None)
               (u ''lease renewal timestamps must be timezone-aware RFC 3339''),
             stored_time_error (gs_updated_at session),
             invalid_if (time_le updated_at (gs_updated_at session)) (u ''lease renewal updated_at must advance''),
             invalid_if (time_le current_lease updated_at) (u ''lease must be renewed before the current lease expires''),
             invalid_if (time_le lease_expires_at current_lease)
               (u ''renewed lease_expires_at must extend the current lease'')])
          (construct (session\<lparr>gs_version := gs_version session + 1, gs_updated_at := updated_at,
             gs_lease_expires_at := Some lease_expires_at\<rparr>)))"

section \<open>The written form\<close>

definition SERIALIZED_FIELDS :: "pystr list" where
  "SERIALIZED_FIELDS =
     map u [''contract_version'', ''session_id'', ''tenant_id'', ''repository_id'', ''principal_id'', ''agent_client_id'',
       ''trace_id'', ''run_id'', ''request_fingerprint'', ''idempotency_key'', ''status'', ''version'', ''created_at'',
       ''updated_at'', ''expires_at'', ''lease_expires_at'', ''retrieval_snapshot_id'', ''system_gate_evaluation_id'',
       ''semantic_gate_attempt_ids'', ''decision_id'', ''final_memory_revision_ids'', ''injection_artifact_id'',
       ''usage_decision_id'', ''run_outcome_id'', ''terminal_reason'']"

definition optional_value :: "pystr option \<Rightarrow> pyval" where
  "optional_value v = (case v of None \<Rightarrow> PNone | Some s \<Rightarrow> PStr s)"

definition canonical_optional :: "pystr option \<Rightarrow> pystr option result" where
  "canonical_optional v = (case v of None \<Rightarrow> Inr None | Some s \<Rightarrow> rbind (canonical_rfc3339 s) (\<lambda>t. Inr (Some t)))"

text \<open>The fields in the order of \<^verbatim>\<open>to_dict\<close>, with the four timestamps as given.\<close>

definition session_fields :: "GateSession \<Rightarrow> (pystr, pyval) dict" where
  "session_fields s =
     [(u ''contract_version'', PStr (gs_contract_version s)), (u ''session_id'', PStr (gs_session_id s)),
      (u ''tenant_id'', PStr (gs_tenant_id s)), (u ''repository_id'', PStr (gs_repository_id s)),
      (u ''principal_id'', PStr (gs_principal_id s)), (u ''agent_client_id'', PStr (gs_agent_client_id s)),
      (u ''trace_id'', PStr (gs_trace_id s)), (u ''run_id'', PStr (gs_run_id s)),
      (u ''request_fingerprint'', PStr (gs_request_fingerprint s)),
      (u ''idempotency_key'', PStr (gs_idempotency_key s)), (u ''status'', PStr (gs_status s)),
      (u ''version'', PNum (PyInt (gs_version s))), (u ''created_at'', PStr (gs_created_at s)),
      (u ''updated_at'', PStr (gs_updated_at s)), (u ''expires_at'', PStr (gs_expires_at s)),
      (u ''lease_expires_at'', optional_value (gs_lease_expires_at s)),
      (u ''retrieval_snapshot_id'', optional_value (gs_retrieval_snapshot_id s)),
      (u ''system_gate_evaluation_id'', optional_value (gs_system_gate_evaluation_id s)),
      (u ''semantic_gate_attempt_ids'', PList (map PStr (gs_semantic_gate_attempt_ids s))),
      (u ''decision_id'', optional_value (gs_decision_id s)),
      (u ''final_memory_revision_ids'', PList (map PStr (gs_final_memory_revision_ids s))),
      (u ''injection_artifact_id'', optional_value (gs_injection_artifact_id s)),
      (u ''usage_decision_id'', optional_value (gs_usage_decision_id s)),
      (u ''run_outcome_id'', optional_value (gs_run_outcome_id s)),
      (u ''terminal_reason'', optional_value (gs_terminal_reason s))]"

definition canonical_session :: "GateSession \<Rightarrow> GateSession result" where
  "canonical_session s =
     rbind (canonical_rfc3339 (gs_created_at s)) (\<lambda>created.
     rbind (canonical_rfc3339 (gs_updated_at s)) (\<lambda>updated.
     rbind (canonical_rfc3339 (gs_expires_at s)) (\<lambda>expires.
     rbind (canonical_optional (gs_lease_expires_at s)) (\<lambda>lease.
     Inr (s\<lparr>gs_created_at := created, gs_updated_at := updated, gs_expires_at := expires,
            gs_lease_expires_at := lease\<rparr>)))))"

definition session_to_dict :: "GateSession \<Rightarrow> (pystr, pyval) dict result" where
  "session_to_dict s = rbind (canonical_session s) (\<lambda>c. Inr (session_fields c))"

definition str_field :: "(pystr, pyval) dict \<Rightarrow> string \<Rightarrow> pystr result" where
  "str_field payload name =
     (case dict_get payload (u name) of
        Some (PStr s) \<Rightarrow> Inr s
      | Some _ \<Rightarrow> Inl (session_invalid (u name @ u '' must be a string''))
      | None \<Rightarrow> Inl (KeyError (u name)))"

definition optional_str_field :: "(pystr, pyval) dict \<Rightarrow> string \<Rightarrow> pystr option result" where
  "optional_str_field payload name =
     (case dict_get payload (u name) of
        Some PNone \<Rightarrow> Inr None
      | Some (PStr s) \<Rightarrow> Inr (Some s)
      | Some _ \<Rightarrow> Inl (session_invalid (u name @ u '' must be a string or null''))
      | None \<Rightarrow> Inl (KeyError (u name)))"

definition integer_field :: "(pystr, pyval) dict \<Rightarrow> string \<Rightarrow> int result" where
  "integer_field payload name =
     (case dict_get payload (u name) of
        Some (PNum (PyInt i)) \<Rightarrow> Inr i
      | Some _ \<Rightarrow> Inl (session_invalid (u name @ u '' must be an integer''))
      | None \<Rightarrow> Inl (KeyError (u name)))"

fun as_strings :: "pyval list \<Rightarrow> pystr list option" where
  "as_strings [] = Some []"
| "as_strings (PStr s # vs) = map_option ((#) s) (as_strings vs)"
| "as_strings (_ # vs) = None"

definition str_list_field :: "(pystr, pyval) dict \<Rightarrow> string \<Rightarrow> pystr list result" where
  "str_list_field payload name =
     (case dict_get payload (u name) of
        None \<Rightarrow> Inl (KeyError (u name))
      | Some v \<Rightarrow>
          (case (case v of PList vs \<Rightarrow> as_strings vs | _ \<Rightarrow> None) of
             Some ss \<Rightarrow> Inr ss
           | None \<Rightarrow> Inl (session_invalid (u name @ u '' must be an array of strings''))))"

definition payload_fields_error :: "(pystr, pyval) dict \<Rightarrow> py_error option" where
  "payload_fields_error payload =
     (case sort (filter (\<lambda>n. n \<notin> set SERIALIZED_FIELDS) (dict_keys payload)) of
        n # _ \<Rightarrow> Some (session_invalid (u ''GateSession payload has unknown field: '' @ n))
      | [] \<Rightarrow>
          (case sort (filter (\<lambda>n. n \<notin> set (dict_keys payload)) SERIALIZED_FIELDS) of
             n # _ \<Rightarrow> Some (session_invalid (u ''GateSession payload is missing field: '' @ n))
           | [] \<Rightarrow> None))"

definition parse_gate_session :: "(pystr, pyval) dict \<Rightarrow> GateSession result" where
  "parse_gate_session payload =
     or_raise (payload_fields_error payload)
     (rbind (str_field payload ''contract_version'') (\<lambda>contract.
      rbind (str_field payload ''session_id'') (\<lambda>session.
      rbind (str_field payload ''tenant_id'') (\<lambda>tenant.
      rbind (str_field payload ''repository_id'') (\<lambda>repository.
      rbind (str_field payload ''principal_id'') (\<lambda>principal.
      rbind (str_field payload ''agent_client_id'') (\<lambda>client.
      rbind (str_field payload ''trace_id'') (\<lambda>trace.
      rbind (str_field payload ''run_id'') (\<lambda>run.
      rbind (str_field payload ''request_fingerprint'') (\<lambda>fingerprint.
      rbind (str_field payload ''idempotency_key'') (\<lambda>key.
      rbind (str_field payload ''status'') (\<lambda>status.
      rbind (integer_field payload ''version'') (\<lambda>version.
      rbind (str_field payload ''created_at'') (\<lambda>created.
      rbind (str_field payload ''updated_at'') (\<lambda>updated.
      rbind (str_field payload ''expires_at'') (\<lambda>expires.
      rbind (optional_str_field payload ''lease_expires_at'') (\<lambda>lease.
      rbind (optional_str_field payload ''retrieval_snapshot_id'') (\<lambda>retrieval.
      rbind (optional_str_field payload ''system_gate_evaluation_id'') (\<lambda>system.
      rbind (str_list_field payload ''semantic_gate_attempt_ids'') (\<lambda>attempts.
      rbind (optional_str_field payload ''decision_id'') (\<lambda>decision.
      rbind (str_list_field payload ''final_memory_revision_ids'') (\<lambda>revisions.
      rbind (optional_str_field payload ''injection_artifact_id'') (\<lambda>artifact.
      rbind (optional_str_field payload ''usage_decision_id'') (\<lambda>usage.
      rbind (optional_str_field payload ''run_outcome_id'') (\<lambda>outcome.
      rbind (optional_str_field payload ''terminal_reason'') (\<lambda>reason.
      construct
        \<lparr>gs_session_id = session, gs_tenant_id = tenant, gs_repository_id = repository,
         gs_principal_id = principal, gs_agent_client_id = client, gs_trace_id = trace, gs_run_id = run,
         gs_request_fingerprint = fingerprint, gs_idempotency_key = key, gs_status = status,
         gs_version = version, gs_created_at = created, gs_updated_at = updated, gs_expires_at = expires,
         gs_lease_expires_at = lease, gs_retrieval_snapshot_id = retrieval,
         gs_system_gate_evaluation_id = system, gs_semantic_gate_attempt_ids = attempts,
         gs_decision_id = decision, gs_final_memory_revision_ids = revisions,
         gs_injection_artifact_id = artifact, gs_usage_decision_id = usage, gs_run_outcome_id = outcome,
         gs_terminal_reason = reason, gs_contract_version = contract\<rparr>))))))))))))))))))))))))))"

end
