(* ===== verification/GateSessionFacts.thy ===== *)
theory GateSessionFacts
  imports GateSession
begin

text \<open>
  The life of a gate session. The operations of \<^verbatim>\<open>gate_session_v3.py\<close> form a machine whose
  invariant is that the record is valid; along its steps a session keeps its identity and whatever
  evidence it has recorded, its revisions are counted, and its time moves forward, so that no life
  is infinite.
\<close>

section \<open>Valid records\<close>

lemma construct_Inr_iff [simp]: "construct s = Inr t \<longleftrightarrow> session_error s = None \<and> t = s"
  by (auto simp: construct_def result_simps)

definition at_time :: "pystr \<Rightarrow> int \<Rightarrow> bool" where
  "at_time text i \<longleftrightarrow> instant_of text = Some i"

lemma timestamp_None_iff [simp]: "timestamp v n = None \<longleftrightarrow> (\<exists>i. instant_of v = Some i)"
  by (auto simp: timestamp_def)

lemma session_valid_parts:
  assumes "session_error s = None"
  shows "gs_contract_version s = GATE_SESSION_CONTRACT_VERSION" "gs_status s \<in> set STATUSES" "1 \<le> gs_version s"
    "\<exists>i. instant_of (gs_created_at s) = Some i" "\<exists>i. instant_of (gs_updated_at s) = Some i"
    "\<exists>i. instant_of (gs_expires_at s) = Some i"
    "\<not> time_less (gs_updated_at s) (gs_created_at s)" "\<not> time_le (gs_expires_at s) (gs_created_at s)"
    "gs_status s \<notin> set TERMINAL_STATUSES \<Longrightarrow> \<not> time_less (gs_expires_at s) (gs_updated_at s)"
    "lease_error (gs_lease_expires_at s) (gs_updated_at s) (gs_expires_at s) = None"
    "validate_record_shape s = None"
  using assms unfolding session_error_def first_error_None_iff by simp_all

lemma session_times:
  assumes "session_error s = None"
  obtains c n e where "instant_of (gs_created_at s) = Some c" "instant_of (gs_updated_at s) = Some n"
    "instant_of (gs_expires_at s) = Some e" "c \<le> n" "c < e" "gs_status s \<notin> set TERMINAL_STATUSES \<Longrightarrow> n \<le> e"
proof -
  note v = session_valid_parts [OF assms]
  from v(4-6) obtain c n e where i: "instant_of (gs_created_at s) = Some c" "instant_of (gs_updated_at s) = Some n"
    "instant_of (gs_expires_at s) = Some e" by blast
  show thesis
    by (rule that [OF i]) (use v(7-9) i in \<open>auto simp: time_less_def time_le_def\<close>)
qed

lemma session_lease:
  assumes "session_error s = None" and "gs_lease_expires_at s = Some l"
  obtains n i e where "instant_of l = Some i" "instant_of (gs_updated_at s) = Some n"
    "instant_of (gs_expires_at s) = Some e" "n < i" "i \<le> e"
proof -
  note v = session_valid_parts [OF assms(1)]
  from v(5,6,10) assms(2) obtain n i e where "instant_of l = Some i" "instant_of (gs_updated_at s) = Some n"
    "instant_of (gs_expires_at s) = Some e" "\<not> time_le l (gs_updated_at s)" "\<not> time_less (gs_expires_at s) l"
    by (auto simp: lease_error_def)
  with that show thesis by (auto simp: time_le_def time_less_def)
qed

text \<open>What a valid record holds, per status.\<close>

lemma session_shape:
  assumes "session_error s = None"
  shows "gs_retrieval_snapshot_id s = None \<longleftrightarrow> gs_system_gate_evaluation_id s = None"
    "gs_decision_id s = None \<Longrightarrow> gs_semantic_gate_attempt_ids s = []"
    "gs_decision_id s \<noteq> None \<Longrightarrow> gs_retrieval_snapshot_id s \<noteq> None"
    "gs_injection_artifact_id s = None \<longleftrightarrow> gs_usage_decision_id s = None"
    "gs_injection_artifact_id s \<noteq> None \<Longrightarrow> gs_decision_id s \<noteq> None"
    "gs_injection_artifact_id s = None \<Longrightarrow> gs_final_memory_revision_ids s = []"
    "gs_run_outcome_id s \<noteq> None \<Longrightarrow> gs_injection_artifact_id s \<noteq> None"
    "status_shape s = None"
    "gs_status s \<in> set ACTIVE_LEASE_STATUSES \<longleftrightarrow> gs_lease_expires_at s \<noteq> None"
    "gs_status s \<in> {u ''canceled'', u ''expired'', u ''abandoned''} \<longleftrightarrow> gs_terminal_reason s \<noteq> None"
  using session_valid_parts(11) [OF assms]
  unfolding validate_record_shape_def Let_def first_error_None_iff
  by (auto simp del: not_None_eq split: if_splits)

lemma session_status_shape:
  assumes "session_error s = None"
  shows "gs_status s = u ''created'' \<Longrightarrow> gs_retrieval_snapshot_id s = None"
    "gs_status s \<in> {u ''created'', u ''prepared'', u ''awaiting_decision''} \<Longrightarrow> gs_decision_id s = None"
    "gs_status s \<in> {u ''created'', u ''prepared'', u ''awaiting_decision'', u ''decided''} \<Longrightarrow> gs_injection_artifact_id s = None"
    "gs_status s \<in> {u ''finalized'', u ''executing''} \<Longrightarrow> gs_run_outcome_id s = None"
    "gs_status s = u ''completed'' \<Longrightarrow> gs_run_outcome_id s \<noteq> None"
  using session_shape(8) [OF assms] unfolding status_shape_def Let_def by (auto split: if_splits)

section \<open>The operations\<close>

lemma in_filter_snd: "n \<in> set (map fst (filter snd xs)) \<longleftrightarrow> (n, True) \<in> set xs"
  by force

lemma supplied_iff:
  "u ''lease_expires_at'' \<in> set (supplied_fields f) \<longleftrightarrow> tf_lease_expires_at f \<noteq> None"
  "u ''retrieval_snapshot_id'' \<in> set (supplied_fields f) \<longleftrightarrow> tf_retrieval_snapshot_id f \<noteq> None"
  "u ''system_gate_evaluation_id'' \<in> set (supplied_fields f) \<longleftrightarrow> tf_system_gate_evaluation_id f \<noteq> None"
  "u ''semantic_gate_attempt_ids'' \<in> set (supplied_fields f) \<longleftrightarrow> tf_semantic_gate_attempt_ids f \<noteq> None"
  "u ''decision_id'' \<in> set (supplied_fields f) \<longleftrightarrow> tf_decision_id f \<noteq> None"
  "u ''final_memory_revision_ids'' \<in> set (supplied_fields f) \<longleftrightarrow> tf_final_memory_revision_ids f \<noteq> None"
  "u ''injection_artifact_id'' \<in> set (supplied_fields f) \<longleftrightarrow> tf_injection_artifact_id f \<noteq> None"
  "u ''usage_decision_id'' \<in> set (supplied_fields f) \<longleftrightarrow> tf_usage_decision_id f \<noteq> None"
  "u ''run_outcome_id'' \<in> set (supplied_fields f) \<longleftrightarrow> tf_run_outcome_id f \<noteq> None"
  "u ''terminal_reason'' \<in> set (supplied_fields f) \<longleftrightarrow> tf_terminal_reason f \<noteq> None"
  unfolding supplied_fields_def in_filter_snd by simp_all

lemma transition_fields_error_None:
  "transition_fields_error target supplied = None \<longleftrightarrow>
     (\<exists>names. dict_get TRANSITION_FIELDS target = Some names \<and> set supplied = set names)"
  by (auto simp: transition_fields_error_def filter_empty_conv sort_key_Nil_iff split: option.splits list.splits
      dest: arg_cong [where f = set])

lemma transition_Inr_iff:
  "transition_gate_session s target v now f = Inr s' \<longleftrightarrow>
     v = gs_version s \<and> target \<in> set STATUSES \<and>
     (\<exists>targets. dict_get ALLOWED_TRANSITIONS (gs_status s) = Some targets \<and> target \<in> set targets) \<and>
     transition_fields_error target (supplied_fields f) = None \<and> transition_time_error s target now = None \<and>
     session_error s' = None \<and> s' = transitioned s target now f"
  by (auto simp: transition_gate_session_def result_simps split: option.splits)

lemma renew_Inr_iff:
  "renew_gate_session_lease s v now lease = Inr s' \<longleftrightarrow>
     v = gs_version s \<and> gs_status s \<in> set ACTIVE_LEASE_STATUSES \<and>
     (\<exists>l. gs_lease_expires_at s = Some l \<and> instant_of l \<noteq> None \<and> instant_of lease \<noteq> None \<and> instant_of now \<noteq> None \<and>
        instant_of (gs_updated_at s) \<noteq> None \<and>
        \<not> time_le now (gs_updated_at s) \<and> \<not> time_le l now \<and> \<not> time_le lease l) \<and>
     session_error s' = None \<and>
     s' = s\<lparr>gs_version := gs_version s + 1, gs_updated_at := now, gs_lease_expires_at := Some lease\<rparr>"
  by (auto simp: renew_gate_session_lease_def stored_time_error_def result_simps split: option.splits if_splits)

text \<open>The legal moves, each with exactly the fields it must bring.\<close>

definition brings :: "transition_fields \<Rightarrow> pystr list \<Rightarrow> bool" where
  "brings f names \<longleftrightarrow> set (supplied_fields f) = set names"

lemma transition_moves:
  assumes "transition_gate_session s target v now f = Inr s'"
  shows "(gs_status s, target) \<in>
     {(u ''created'', u ''prepared''), (u ''created'', u ''canceled''),
      (u ''prepared'', u ''awaiting_decision''), (u ''prepared'', u ''canceled''), (u ''prepared'', u ''expired''),
      (u ''awaiting_decision'', u ''decided''), (u ''awaiting_decision'', u ''canceled''),
      (u ''awaiting_decision'', u ''expired''), (u ''decided'', u ''finalized''), (u ''finalized'', u ''executing''),
      (u ''executing'', u ''completed''), (u ''executing'', u ''abandoned'')}"
    and "\<exists>names. dict_get TRANSITION_FIELDS target = Some names \<and> brings f names"
  using assms unfolding transition_Inr_iff transition_fields_error_None brings_def
  by (auto simp: ALLOWED_TRANSITIONS_def split: if_splits)

text \<open>A transition overwrites no evidence: the field it brings was empty.\<close>

definition kept :: "'a option \<Rightarrow> 'a option \<Rightarrow> bool" where
  "kept old new \<longleftrightarrow> old = None \<or> new = old"

definition kept_list :: "'a list \<Rightarrow> 'a list \<Rightarrow> bool" where
  "kept_list old new \<longleftrightarrow> old = [] \<or> new = old"

definition evidence_kept :: "GateSession \<Rightarrow> GateSession \<Rightarrow> bool" where
  "evidence_kept s t \<longleftrightarrow>
     kept (gs_retrieval_snapshot_id s) (gs_retrieval_snapshot_id t) \<and>
     kept (gs_system_gate_evaluation_id s) (gs_system_gate_evaluation_id t) \<and>
     kept_list (gs_semantic_gate_attempt_ids s) (gs_semantic_gate_attempt_ids t) \<and>
     kept (gs_decision_id s) (gs_decision_id t) \<and>
     kept_list (gs_final_memory_revision_ids s) (gs_final_memory_revision_ids t) \<and>
     kept (gs_injection_artifact_id s) (gs_injection_artifact_id t) \<and>
     kept (gs_usage_decision_id s) (gs_usage_decision_id t) \<and>
     kept (gs_run_outcome_id s) (gs_run_outcome_id t) \<and>
     kept (gs_terminal_reason s) (gs_terminal_reason t)"

lemma kept_given:
  "kept old (given_opt new old) \<longleftrightarrow> new = None \<or> old = None \<or> new = old"
  "kept_list olds (given news olds) \<longleftrightarrow> news = None \<or> olds = [] \<or> news = Some olds"
  by (auto simp: kept_def kept_list_def given_opt_def given_def split: option.splits)

lemma field_targets:
  assumes "dict_get TRANSITION_FIELDS target = Some names"
  shows "u ''retrieval_snapshot_id'' \<in> set names \<Longrightarrow> target = u ''prepared''"
    "u ''system_gate_evaluation_id'' \<in> set names \<Longrightarrow> target = u ''prepared''"
    "u ''semantic_gate_attempt_ids'' \<in> set names \<Longrightarrow> target = u ''decided''"
    "u ''decision_id'' \<in> set names \<Longrightarrow> target = u ''decided''"
    "u ''final_memory_revision_ids'' \<in> set names \<Longrightarrow> target = u ''finalized''"
    "u ''injection_artifact_id'' \<in> set names \<Longrightarrow> target = u ''finalized''"
    "u ''usage_decision_id'' \<in> set names \<Longrightarrow> target = u ''finalized''"
    "u ''run_outcome_id'' \<in> set names \<Longrightarrow> target = u ''completed''"
    "u ''lease_expires_at'' \<in> set names \<Longrightarrow> target = u ''prepared''"
  using assms by (auto simp: TRANSITION_FIELDS_def split: if_splits)

lemma move_sources:
  assumes "transition_gate_session s target v now f = Inr s'"
  shows "target = u ''prepared'' \<Longrightarrow> gs_status s = u ''created''"
    "target = u ''decided'' \<Longrightarrow> gs_status s = u ''awaiting_decision''"
    "target = u ''finalized'' \<Longrightarrow> gs_status s = u ''decided''"
    "target = u ''completed'' \<Longrightarrow> gs_status s = u ''executing''"
    "gs_status s \<notin> {u ''canceled'', u ''expired'', u ''abandoned''}"
    "gs_status s = u ''decided'' \<Longrightarrow> target = u ''finalized''"
    "gs_status s = u ''finalized'' \<Longrightarrow> target = u ''executing''"
  using transition_moves(1) [OF assms] by auto

lemma transition_keeps_evidence:
  assumes v: "session_error s = None" and t: "transition_gate_session s target w now f = Inr s'"
  shows "evidence_kept s s'"
proof -
  note sh = session_shape [OF v] and st = session_status_shape [OF v] and src = move_sources [OF t]
  from transition_moves(2) [OF t] obtain names where n: "dict_get TRANSITION_FIELDS target = Some names"
    and eq: "set (supplied_fields f) = set names"
    unfolding brings_def by blast
  note ft = field_targets [OF n] and sup = supplied_iff [of f, unfolded eq]
  have s': "s' = transitioned s target now f" using t by (simp add: transition_Inr_iff)
  have none: "gs_terminal_reason s = None" using sh(10) src(5) by simp
  have dec: "tf_decision_id f = None \<or> gs_decision_id s = None"
    "tf_semantic_gate_attempt_ids f = None \<or> gs_semantic_gate_attempt_ids s = []"
    using ft(3,4) sup(4,5) src(2) st(2) sh(2) by auto
  have ret: "tf_retrieval_snapshot_id f = None \<or> gs_retrieval_snapshot_id s = None"
    "tf_system_gate_evaluation_id f = None \<or> gs_system_gate_evaluation_id s = None"
    using ft(1,2) sup(2,3) src(1) st(1) sh(1) by auto
  have inj: "tf_injection_artifact_id f = None \<or> gs_injection_artifact_id s = None"
    "tf_usage_decision_id f = None \<or> gs_usage_decision_id s = None"
    "tf_final_memory_revision_ids f = None \<or> gs_final_memory_revision_ids s = []"
    using ft(5,6,7) sup(6,7,8) src(3) st(3) sh(4,6) by auto
  have out: "tf_run_outcome_id f = None \<or> gs_run_outcome_id s = None"
    using ft(8) sup(9) src(4) st(4) by auto
  show ?thesis
    unfolding evidence_kept_def s' transitioned_def using dec ret inj out none
    by (auto simp: kept_given kept_def [of None])
qed

section \<open>The machine of a session\<close>

datatype session_op =
    Transition pystr int pystr transition_fields
  | RenewLease int pystr pystr

definition session_step :: "session_op \<Rightarrow> GateSession \<Rightarrow> GateSession result" where
  "session_step op s =
     (case op of
        Transition target expected_version updated_at f \<Rightarrow>
          transition_gate_session s target expected_version updated_at f
      | RenewLease expected_version updated_at lease \<Rightarrow>
          renew_gate_session_lease s expected_version updated_at lease)"

definition session_created :: "GateSession \<Rightarrow> bool" where
  "session_created s \<longleftrightarrow> (\<exists>r. create_gate_session r = Inr s)"

definition time_of :: "pystr \<Rightarrow> int" where
  "time_of text = (case instant_of text of None \<Rightarrow> 0 | Some i \<Rightarrow> i)"

abbreviation lifetime :: "GateSession \<Rightarrow> int" where
  "lifetime s \<equiv> time_of (gs_expires_at s) - time_of (gs_created_at s)"

definition session_ok :: "GateSession \<Rightarrow> bool" where
  "session_ok s \<longleftrightarrow>
     session_error s = None \<and>
     gs_version s - 1 \<le> time_of (gs_updated_at s) - time_of (gs_created_at s) \<and>
     gs_version s - 2 \<le> lifetime s"

definition session_identity :: "GateSession \<Rightarrow> pystr list" where
  "session_identity s =
     [gs_contract_version s, gs_session_id s, gs_tenant_id s, gs_repository_id s, gs_principal_id s,
      gs_agent_client_id s, gs_trace_id s, gs_run_id s, gs_request_fingerprint s, gs_idempotency_key s,
      gs_created_at s, gs_expires_at s]"

definition session_later :: "GateSession \<Rightarrow> GateSession \<Rightarrow> bool" where
  "session_later s t \<longleftrightarrow>
     session_identity t = session_identity s \<and> evidence_kept s t \<and> gs_version s \<le> gs_version t \<and>
     gs_version t - gs_version s \<le> time_of (gs_updated_at t) - time_of (gs_updated_at s)"

text \<open>Every step is a new revision at a later time, from a session that is not terminal.\<close>

lemma step_forward:
  assumes "session_error s = None" and "session_step op s = Inr t"
  shows "session_error t = None" "session_identity t = session_identity s" "gs_version t = gs_version s + 1"
    "time_of (gs_updated_at s) < time_of (gs_updated_at t)" "gs_status s \<notin> set TERMINAL_STATUSES"
proof -
  have "session_error t = None \<and> session_identity t = session_identity s \<and> gs_version t = gs_version s + 1 \<and>
    time_of (gs_updated_at s) < time_of (gs_updated_at t) \<and> gs_status s \<notin> set TERMINAL_STATUSES"
  proof (cases op)
    case (Transition target v now f)
    with assms(2) have r: "transition_gate_session s target v now f = Inr t" by (simp add: session_step_def)
    then have t: "session_error t = None" "t = transitioned s target now f"
      and "transition_time_error s target now = None" unfolding transition_Inr_iff by blast+
    then have "time_of (gs_updated_at s) < time_of now"
      by (auto simp: transition_time_error_def stored_time_error_def time_le_def time_of_def split: if_splits)
    with t transition_moves(1) [OF r] show ?thesis
      by (auto simp: transitioned_def session_identity_def TERMINAL_STATUSES_def)
  next
    case (RenewLease v now lease)
    with assms(2) have "renew_gate_session_lease s v now lease = Inr t" by (simp add: session_step_def)
    then show ?thesis unfolding renew_Inr_iff
      by (auto simp: session_identity_def session_constants time_le_def time_of_def)
  qed
  then show "session_error t = None" "session_identity t = session_identity s" "gs_version t = gs_version s + 1"
    "time_of (gs_updated_at s) < time_of (gs_updated_at t)" "gs_status s \<notin> set TERMINAL_STATUSES" by blast+
qed

lemma step_keeps_evidence:
  "session_error s = None \<Longrightarrow> session_step op s = Inr t \<Longrightarrow> evidence_kept s t"
proof (cases op)
  case (Transition target v now f)
  assume "session_error s = None" and "session_step op s = Inr t"
  with Transition show ?thesis by (auto simp: session_step_def intro: transition_keeps_evidence)
next
  case (RenewLease v now lease)
  assume "session_error s = None" and "session_step op s = Inr t"
  with RenewLease have "renew_gate_session_lease s v now lease = Inr t" by (simp add: session_step_def)
  then show ?thesis unfolding renew_Inr_iff by (auto simp: evidence_kept_def kept_def kept_list_def)
qed

lemma created_ok: "session_created s \<Longrightarrow> session_ok s"
proof -
  assume "session_created s"
  then obtain r where r: "create_gate_session r = Inr s" by (auto simp: session_created_def)
  then have v: "session_error s = None" "gs_version s = 1" "gs_updated_at s = gs_created_at s"
    by (auto simp: create_gate_session_def)
  moreover obtain c e where "instant_of (gs_created_at s) = Some c" "instant_of (gs_expires_at s) = Some e" "c < e"
    by (rule session_times [OF v(1)])
  ultimately show ?thesis by (simp add: session_ok_def time_of_def)
qed

lemma step_ok: "session_ok s \<Longrightarrow> session_step op s = Inr t \<Longrightarrow> session_ok t"
proof -
  assume ok: "session_ok s" and r: "session_step op s = Inr t"
  then have v: "session_error s = None" by (simp add: session_ok_def)
  note f = step_forward [OF v r]
  obtain c n e where "instant_of (gs_updated_at s) = Some n" "instant_of (gs_expires_at s) = Some e" "n \<le> e"
    by (rule session_times [OF v]) (use f(5) in blast)
  then have "time_of (gs_updated_at s) \<le> time_of (gs_expires_at s)" by (simp add: time_of_def)
  with ok f show ?thesis by (auto simp: session_ok_def session_identity_def)
qed

lemma kept_trans: "kept a b \<Longrightarrow> kept b c \<Longrightarrow> kept a c" "kept_list x y \<Longrightarrow> kept_list y z \<Longrightarrow> kept_list x z"
  by (auto simp: kept_def kept_list_def)

interpretation session: monotone_machine session_step session_created session_ok session_later
proof
  show "session_created s \<Longrightarrow> session_ok s" for s by (rule created_ok)
  show "session_ok s \<Longrightarrow> session_step op s = Inr t \<Longrightarrow> session_ok t" for s op t by (rule step_ok)
  show "session_later s s" for s by (simp add: session_later_def evidence_kept_def kept_def kept_list_def)
  show "session_later s t \<Longrightarrow> session_later t v \<Longrightarrow> session_later s v" for s t v
    unfolding session_later_def evidence_kept_def by (intro conjI) (linarith | (elim conjE, metis kept_trans))+
  show "session_ok s \<Longrightarrow> session_step op s = Inr t \<Longrightarrow> session_later s t" for s op t
    using step_forward [of s op t] step_keeps_evidence [of s op t] by (simp add: session_ok_def session_later_def)
qed

text \<open>A session after any calls, the refused ones included.\<close>

definition run_session :: "session_op list \<Rightarrow> GateSession \<Rightarrow> GateSession" where
  "run_session ops s = fold session.exec ops s"

lemma run_session_ok: "session_created s \<Longrightarrow> session_ok (run_session ops s)"
  unfolding run_session_def by (rule session.run_inv)

lemma run_session_later: "session_created s \<Longrightarrow> session_later s (run_session ops s)"
  unfolding run_session_def by (rule session.run_le) (rule session.reachable.initial)

lemma run_session_reachable: "session_created s \<Longrightarrow> session.reachable (run_session ops s)"
  unfolding run_session_def by (rule session.run_reachable) (rule session.reachable.initial)

lemma run_session_from_reachable: "session.reachable s \<Longrightarrow> session_later s (run_session ops s)"
  unfolding run_session_def by (rule session.run_le)

section \<open>Ends of a session\<close>

text \<open>A terminal session has no further revision.\<close>

lemma terminal_no_step:
  assumes "session_error s = None" and "gs_status s \<in> set TERMINAL_STATUSES"
  shows "\<exists>e. session_step op s = Inl e"
  using step_forward(5) [OF assms(1), of op] assms(2) by (cases "session_step op s") auto

lemma terminal_run:
  assumes "session_error s = None" and "gs_status s \<in> set TERMINAL_STATUSES"
  shows "run_session ops s = s"
proof (induction ops)
  case (Cons op ops)
  obtain e where "session_step op s = Inl e" using terminal_no_step [OF assms] by blast
  then have "session.exec op s = s" by (simp add: session.exec_def)
  with Cons show ?case by (simp add: run_session_def)
qed (simp add: run_session_def)

text \<open>
  A session that is decided or finalized keeps its lease in its next status. Once the lease has
  lapsed there is no legal step: it can be neither renewed nor advanced.
\<close>

lemma lapsed_lease_no_step:
  assumes v: "session_error s = None" and st: "gs_status s \<in> {u ''decided'', u ''finalized''}"
    and l: "gs_lease_expires_at s = Some l" and now: "time_le l now"
  shows "\<exists>e. transition_gate_session s target w now f = Inl e" "\<exists>e. renew_gate_session_lease s w now lease = Inl e"
proof -
  show "\<exists>e. transition_gate_session s target w now f = Inl e"
  proof (rule ccontr)
    assume "\<nexists>e. transition_gate_session s target w now f = Inl e"
    then obtain t where t: "transition_gate_session s target w now f = Inr t"
      by (cases "transition_gate_session s target w now f") auto
    have tg: "target = u ''finalized'' \<or> target = u ''executing''"
      using move_sources(6,7) [OF t] st by blast
    obtain names where n: "dict_get TRANSITION_FIELDS target = Some names" "set (supplied_fields f) = set names"
      using transition_moves(2) [OF t] unfolding brings_def by blast
    have "tf_lease_expires_at f = None"
    proof (rule ccontr)
      assume "tf_lease_expires_at f \<noteq> None"
      then have "target = u ''prepared''" using supplied_iff(1) [of f] field_targets(9) [OF n(1)] n(2) by blast
      with tg show False by simp
    qed
    moreover have tt: "session_error t = None" "t = transitioned s target now f"
      using t unfolding transition_Inr_iff by blast+
    ultimately have eq: "gs_lease_expires_at t = Some l" "gs_updated_at t = now"
      using l tg by (auto simp: transitioned_def given_opt_def TERMINAL_STATUSES_def)
    obtain n i where "instant_of l = Some i" "instant_of now = Some n" "n < i"
      by (rule session_lease [OF tt(1) eq(1)]) (simp add: eq(2))
    then show False using now by (simp add: time_le_def)
  qed
  show "\<exists>e. renew_gate_session_lease s w now lease = Inl e"
  proof (cases "renew_gate_session_lease s w now lease")
    case (Inr t)
    then show ?thesis using l now unfolding renew_Inr_iff by simp
  qed simp
qed

text \<open>From every other status that is not terminal, a session can be ended at any later time.\<close>

definition end_fields :: "pystr \<Rightarrow> transition_fields" where
  "end_fields reason =
     \<lparr>tf_lease_expires_at = None, tf_retrieval_snapshot_id = None, tf_system_gate_evaluation_id = None,
      tf_semantic_gate_attempt_ids = None, tf_decision_id = None, tf_final_memory_revision_ids = None,
      tf_injection_artifact_id = None, tf_usage_decision_id = None, tf_run_outcome_id = None,
      tf_terminal_reason = Some reason\<rparr>"

definition end_status :: "GateSession \<Rightarrow> pystr" where
  "end_status s = (if gs_status s = u ''executing'' then u ''abandoned'' else u ''canceled'')"

lemma ended_valid:
  assumes v: "session_error s = None"
    and st: "gs_status s \<in> {u ''created'', u ''prepared'', u ''awaiting_decision'', u ''executing''}"
    and now: "time_less (gs_updated_at s) now" and r: "required_reason reason (u ''terminal_reason'') = None"
  shows "session_error (transitioned s (end_status s) now (end_fields reason)) = None"
proof -
  let ?t = "transitioned s (end_status s) now (end_fields reason)"
  note sh = session_shape [OF v] and ss = session_status_shape [OF v]
  obtain c n e where times: "instant_of (gs_created_at s) = Some c" "instant_of (gs_updated_at s) = Some n"
    "instant_of (gs_expires_at s) = Some e" "c \<le> n" "c < e" by (rule session_times [OF v])
  with now obtain m where m: "instant_of now = Some m" "n < m" by (auto simp: time_less_def split: option.splits)
  have f: "gs_status ?t = end_status s" "gs_updated_at ?t = now" "gs_lease_expires_at ?t = None"
    "gs_terminal_reason ?t = Some reason"
    by (simp_all add: transitioned_def end_fields_def end_status_def TERMINAL_STATUSES_def)
  have same: "gs_retrieval_snapshot_id ?t = gs_retrieval_snapshot_id s"
    "gs_system_gate_evaluation_id ?t = gs_system_gate_evaluation_id s"
    "gs_semantic_gate_attempt_ids ?t = gs_semantic_gate_attempt_ids s" "gs_decision_id ?t = gs_decision_id s"
    "gs_final_memory_revision_ids ?t = gs_final_memory_revision_ids s"
    "gs_injection_artifact_id ?t = gs_injection_artifact_id s" "gs_usage_decision_id ?t = gs_usage_decision_id s"
    "gs_run_outcome_id ?t = gs_run_outcome_id s" "gs_version ?t = gs_version s + 1"
    "gs_contract_version ?t = gs_contract_version s" "gs_session_id ?t = gs_session_id s" "gs_tenant_id ?t = gs_tenant_id s"
    "gs_repository_id ?t = gs_repository_id s" "gs_principal_id ?t = gs_principal_id s"
    "gs_agent_client_id ?t = gs_agent_client_id s" "gs_trace_id ?t = gs_trace_id s" "gs_run_id ?t = gs_run_id s"
    "gs_request_fingerprint ?t = gs_request_fingerprint s" "gs_idempotency_key ?t = gs_idempotency_key s"
    "gs_created_at ?t = gs_created_at s" "gs_expires_at ?t = gs_expires_at s"
    by (simp_all add: transitioned_def end_fields_def given_opt_def given_def)
  have "status_shape ?t = None"
    using sh(8) st sh(7) unfolding status_shape_def Let_def f same
    by (auto simp: end_status_def simp del: not_None_eq split: if_splits)
  then have "validate_record_shape ?t = None"
    using sh(1-7) unfolding validate_record_shape_def Let_def f same first_error_None_iff
    by (auto simp: end_status_def ACTIVE_LEASE_STATUSES_def simp del: not_None_eq)
  moreover have "gs_version s + 1 \<ge> 1" using session_valid_parts(3) [OF v] by simp
  ultimately show ?thesis
    using v r times m unfolding session_error_def first_error_None_iff f same
    by (auto simp: end_status_def session_constants time_less_def time_le_def lease_error_def)
qed

lemma session_can_end:
  assumes v: "session_error s = None"
    and st: "gs_status s \<in> {u ''created'', u ''prepared'', u ''awaiting_decision'', u ''executing''}"
    and now: "time_less (gs_updated_at s) now" and r: "required_reason reason (u ''terminal_reason'') = None"
  shows "transition_gate_session s (end_status s) (gs_version s) now (end_fields reason) =
    Inr (transitioned s (end_status s) now (end_fields reason))"
proof -
  have "transition_fields_error (end_status s) (supplied_fields (end_fields reason)) = None"
    unfolding transition_fields_error_None
    by (simp add: end_status_def TRANSITION_FIELDS_def supplied_fields_def end_fields_def)
  moreover have "transition_time_error s (end_status s) now = None"
    using now by (auto simp: transition_time_error_def stored_time_error_def time_le_def time_less_def
        end_status_def TERMINAL_STATUSES_def split: option.splits)
  ultimately show ?thesis
    unfolding transition_Inr_iff using st ended_valid [OF assms]
    by (auto simp: end_status_def session_constants)
qed

section \<open>Round trip\<close>

text \<open>Two sessions that differ only in how their four timestamps are written.\<close>

definition same_moment :: "pystr option \<Rightarrow> pystr option \<Rightarrow> bool" where
  "same_moment a b \<longleftrightarrow> map_option instant_of a = map_option instant_of b"

definition same_session :: "GateSession \<Rightarrow> GateSession \<Rightarrow> bool" where
  "same_session s t \<longleftrightarrow>
     s\<lparr>gs_created_at := [], gs_updated_at := [], gs_expires_at := [], gs_lease_expires_at := None\<rparr> =
     t\<lparr>gs_created_at := [], gs_updated_at := [], gs_expires_at := [], gs_lease_expires_at := None\<rparr> \<and>
     instant_of (gs_created_at s) = instant_of (gs_created_at t) \<and>
     instant_of (gs_updated_at s) = instant_of (gs_updated_at t) \<and>
     instant_of (gs_expires_at s) = instant_of (gs_expires_at t) \<and>
     same_moment (gs_lease_expires_at s) (gs_lease_expires_at t)"

lemma canonical_optional_Inr:
  assumes "canonical_optional v = Inr w"
  shows "same_moment v w" "canonical_optional w = Inr w"
  using assms canonical_rfc3339_Inr(2,3) by (auto simp: canonical_optional_def same_moment_def result_simps split: option.splits)

lemma canonical_session_Inr:
  assumes "canonical_session s = Inr c"
  shows "same_session s c" "canonical_session c = Inr c"
proof -
  from assms obtain a b e l where f: "canonical_rfc3339 (gs_created_at s) = Inr a" "canonical_rfc3339 (gs_updated_at s) = Inr b"
    "canonical_rfc3339 (gs_expires_at s) = Inr e" "canonical_optional (gs_lease_expires_at s) = Inr l"
    and c: "c = s\<lparr>gs_created_at := a, gs_updated_at := b, gs_expires_at := e, gs_lease_expires_at := l\<rparr>"
    unfolding canonical_session_def rbind_Inr_iff by auto
  note k = f(1-3) [THEN canonical_rfc3339_Inr(2)] f(1-3) [THEN canonical_rfc3339_Inr(3)]
    canonical_optional_Inr [OF f(4)]
  show "same_session s c" "canonical_session c = Inr c"
    using k by (simp_all add: c same_session_def canonical_session_def)
qed

lemma lease_error_same:
  assumes "same_moment l l'" and "instant_of a = instant_of a'" and "instant_of b = instant_of b'"
  shows "lease_error l a b = None \<longleftrightarrow> lease_error l' a' b' = None"
  using assms unfolding lease_error_def same_moment_def
  by (cases l; cases l') (auto simp: time_le_def time_less_def timestamp_def split: option.splits)

lemma same_session_fields:
  assumes "same_session s t"
  shows "gs_contract_version t = gs_contract_version s" "gs_session_id t = gs_session_id s"
    "gs_tenant_id t = gs_tenant_id s" "gs_repository_id t = gs_repository_id s"
    "gs_principal_id t = gs_principal_id s" "gs_agent_client_id t = gs_agent_client_id s"
    "gs_trace_id t = gs_trace_id s" "gs_run_id t = gs_run_id s"
    "gs_request_fingerprint t = gs_request_fingerprint s" "gs_idempotency_key t = gs_idempotency_key s"
    "gs_status t = gs_status s" "gs_version t = gs_version s"
    "gs_retrieval_snapshot_id t = gs_retrieval_snapshot_id s"
    "gs_system_gate_evaluation_id t = gs_system_gate_evaluation_id s"
    "gs_semantic_gate_attempt_ids t = gs_semantic_gate_attempt_ids s" "gs_decision_id t = gs_decision_id s"
    "gs_final_memory_revision_ids t = gs_final_memory_revision_ids s"
    "gs_injection_artifact_id t = gs_injection_artifact_id s" "gs_usage_decision_id t = gs_usage_decision_id s"
    "gs_run_outcome_id t = gs_run_outcome_id s" "gs_terminal_reason t = gs_terminal_reason s"
    "gs_lease_expires_at t = None \<longleftrightarrow> gs_lease_expires_at s = None"
    "instant_of (gs_created_at t) = instant_of (gs_created_at s)"
    "instant_of (gs_updated_at t) = instant_of (gs_updated_at s)"
    "instant_of (gs_expires_at t) = instant_of (gs_expires_at s)"
proof -
  show "gs_lease_expires_at t = None \<longleftrightarrow> gs_lease_expires_at s = None"
    using assms by (cases "gs_lease_expires_at s"; cases "gs_lease_expires_at t") (simp_all add: same_session_def same_moment_def)
qed (use assms in \<open>(cases s, cases t, simp add: same_session_def)+\<close>)

lemma same_session_valid:
  assumes "same_session s t" and "session_error s = None"
  shows "session_error t = None"
proof -
  note f = same_session_fields [OF assms(1)]
  have sh: "validate_record_shape t = validate_record_shape s"
    unfolding validate_record_shape_def status_shape_def Let_def f ..
  have l: "lease_error (gs_lease_expires_at t) (gs_updated_at t) (gs_expires_at t) = None"
    using lease_error_same session_valid_parts(10) [OF assms(2)] assms(1) unfolding same_session_def by metis
  show ?thesis
    using assms(2) l
    unfolding session_error_def first_error_None_iff f sh timestamp_def time_less_def time_le_def by simp
qed

lemma as_strings_map [simp]: "as_strings (map PStr ss) = Some ss"
  by (induction ss) auto

lemma optional_value_cases: "optional_value None = PNone" "optional_value (Some x) = PStr x"
  by (simp_all add: optional_value_def)

lemma parse_session_fields:
  assumes "session_error s = None"
  shows "parse_gate_session (session_fields s) = Inr s"
proof -
  have keys: "dict_keys (session_fields s) = SERIALIZED_FIELDS"
    by (simp add: session_fields_def SERIALIZED_FIELDS_def dict_keys_def)
  have "payload_fields_error (session_fields s) = None"
    unfolding payload_fields_error_def keys by (simp add: filter_empty_conv [THEN iffD2])
  moreover have opt: "(case optional_value v of PNone \<Rightarrow> Inr None | PStr x \<Rightarrow> Inr (Some x) | _ \<Rightarrow> Inl e) = Inr v" for v and e :: py_error
    by (cases v) (simp_all add: optional_value_def)
  ultimately show ?thesis
    using assms unfolding parse_gate_session_def
    by (cases s)
       (simp add: str_field_def optional_str_field_def integer_field_def str_list_field_def session_fields_def opt)
qed

lemma session_round_trip:
  assumes "session_error s = None" and "session_to_dict s = Inr d"
  obtains c where "parse_gate_session d = Inr c" "same_session s c" "session_to_dict c = Inr d"
proof -
  from assms(2) obtain c where c: "canonical_session s = Inr c" and d: "d = session_fields c"
    by (auto simp: session_to_dict_def result_simps)
  note k = canonical_session_Inr [OF c]
  show thesis
    by (rule that [OF _ k(1)])
       (simp_all add: d parse_session_fields [OF same_session_valid [OF k(1) assms(1)]] session_to_dict_def k(2))
qed

section \<open>Sessions that can be written down\<close>

definition session_timestamps :: "GateSession \<Rightarrow> pystr list" where
  "session_timestamps s = [gs_created_at s, gs_updated_at s, gs_expires_at s] @ (case gs_lease_expires_at s of None \<Rightarrow> [] | Some l \<Rightarrow> [l])"

lemma valid_timestamps: "session_error s = None \<Longrightarrow> t \<in> set (session_timestamps s) \<Longrightarrow> instant_of t \<noteq> None"
  unfolding session_error_def first_error_None_iff
  by (auto simp: session_timestamps_def timestamp_def lease_error_def split: option.splits)

lemma written_or_overflow:
  assumes "session_error s = None"
  shows "if list_all utc_date (session_timestamps s) then \<exists>d. session_to_dict s = Inr d else session_to_dict s = Inl OverflowError"
proof -
  have c: "utc_date t \<and> (\<exists>c. canonical_rfc3339 t = Inr c) \<or> \<not> utc_date t \<and> canonical_rfc3339 t = Inl OverflowError"
    if "t \<in> set (session_timestamps s)" for t
    using canonical_or_overflow [OF valid_timestamps [OF assms that]] by (auto split: if_splits)
  have i: "gs_created_at s \<in> set (session_timestamps s)" "gs_updated_at s \<in> set (session_timestamps s)"
    "gs_expires_at s \<in> set (session_timestamps s)" "\<And>l. gs_lease_expires_at s = Some l \<Longrightarrow> l \<in> set (session_timestamps s)"
    by (simp_all add: session_timestamps_def)
  show ?thesis
    using c [OF i(1)] c [OF i(2)] c [OF i(3)] c [OF i(4)]
    by (cases "gs_lease_expires_at s") (auto simp: session_to_dict_def canonical_session_def canonical_optional_def session_timestamps_def)
qed

end
