(* ===== verification/GateWorker.thy ===== *)
theory GateWorker
  imports Effects GateSessionFacts
begin

text \<open>
  The recovery worker of \<^verbatim>\<open>gate_worker_v3.py\<close>: one bounded pass over the sessions that a repository
  reports as due. The repository is a parameter, as for the delivery worker; its \<^verbatim>\<open>transition\<close> is
  called with the target \<^verbatim>\<open>expired\<close> only, inside the event context that the repository may bind.
\<close>

record 's session_repository =
  sp_list_due :: "int \<Rightarrow> (GateSession list, 's) io"
  sp_get :: "pystr \<Rightarrow> (GateSession, 's) io"
  sp_expire :: "GateSession \<Rightarrow> int \<Rightarrow> pystr \<Rightarrow> (GateSession, 's) io"

record GateSessionRecoveryResult =
  gw_session_id :: pystr
  gw_observed_version :: int
  gw_observed_status :: pystr
  gw_outcome :: pystr
  gw_current :: GateSession

definition gate_worker_error :: "string \<Rightarrow> string \<Rightarrow> py_error" where
  "gate_worker_error code message = ContractError (u ''TBM_GATE_WORKER_'' @ u code) (u message)"

definition recovery_result :: "GateSession \<Rightarrow> pystr \<Rightarrow> GateSession \<Rightarrow> GateSessionRecoveryResult" where
  "recovery_result candidate outcome current =
     \<lparr>gw_session_id = gs_session_id candidate, gw_observed_version = gs_version candidate,
      gw_observed_status = gs_status candidate, gw_outcome = outcome, gw_current = current\<rparr>"

definition validate_current_session :: "GateSession \<Rightarrow> GateSession \<Rightarrow> py_error option" where
  "validate_current_session candidate current =
     (if session_identity current \<noteq> session_identity candidate \<or> gs_version current < gs_version candidate \<or>
         gs_version current = gs_version candidate \<and> current \<noteq> candidate
      then Some (gate_worker_error ''CURRENT_INVALID'' ''GateSession authority returned invalid current state'') else None)"

definition classify_current :: "'s session_repository \<Rightarrow> GateSession \<Rightarrow> (GateSessionRecoveryResult, 's) io" where
  "classify_current repo candidate =
     io_try (sp_get repo (gs_session_id candidate))
       (\<lambda>_. io_raise (gate_worker_error ''RECOVERY_READ_FAILED'' ''GateSession recovery state could not be read''))
       (\<lambda>current. io_or_raise (validate_current_session candidate current)
          (io_return (recovery_result candidate
             (if gs_version current \<noteq> gs_version candidate \<or> gs_status current \<noteq> gs_status candidate
              then u ''superseded'' else u ''recovery_required'') current)))"

definition expiry_receipt_invalid :: py_error where
  "expiry_receipt_invalid =
     gate_worker_error ''RECEIPT_INVALID'' ''GateSession authority returned an invalid expiry receipt''"

text \<open>
  \<^verbatim>\<open>_verify_expired\<close>: the receipt with the five changed fields put back must be the candidate. Putting
  them back validates the record, which can raise a contract error of its own.
\<close>

definition verify_expired :: "GateSession \<Rightarrow> GateSession \<Rightarrow> py_error option" where
  "verify_expired candidate expired =
     (if gs_session_id expired \<noteq> gs_session_id candidate \<or> gs_version expired \<noteq> gs_version candidate + 1 \<or>
         gs_status expired \<noteq> u ''expired'' \<or> gs_terminal_reason expired \<noteq> Some (u ''session_expired'')
      then Some expiry_receipt_invalid
      else
        (case construct (expired\<lparr>gs_version := gs_version candidate, gs_status := gs_status candidate,
                gs_updated_at := gs_updated_at candidate, gs_lease_expires_at := gs_lease_expires_at candidate,
                gs_terminal_reason := gs_terminal_reason candidate\<rparr>) of
           Inl e \<Rightarrow> Some e
         | Inr s \<Rightarrow> if s \<noteq> candidate then Some expiry_receipt_invalid else None))"

text \<open>
  An exception in the \<^verbatim>\<open>try\<close> of \<^verbatim>\<open>_recover\<close>: the worker's own errors pass, others are classified. The
  class \<^verbatim>\<open>GateSessionRecoveryWorkerError\<close> is recognised by its codes: no other class of the program has a code with this prefix.
\<close>

definition is_gate_worker_error :: "py_error \<Rightarrow> bool" where
  "is_gate_worker_error e =
     (case e of ContractError code _ \<Rightarrow> take (length (u ''TBM_GATE_WORKER_'')) code = u ''TBM_GATE_WORKER_'' | _ \<Rightarrow> False)"

definition recover :: "'s session_repository \<Rightarrow> GateSession \<Rightarrow> (GateSessionRecoveryResult, 's) io" where
  "recover repo candidate =
     (if gs_status candidate \<in> {u ''prepared'', u ''awaiting_decision''} then
        io_try (io_bind (sp_expire repo candidate (gs_version candidate) (u ''session_expired'')) (\<lambda>expired.
                io_or_raise (verify_expired candidate expired)
                (io_bind (sp_get repo (gs_session_id candidate)) (\<lambda>retained.
                 if retained \<noteq> expired
                 then io_raise (gate_worker_error ''RECEIPT_INVALID'' ''expired GateSession receipt was not durably retained'')
                 else io_return (recovery_result candidate (u ''expired'') expired)))))
          (\<lambda>e. if is_gate_worker_error e then io_raise e else classify_current repo candidate)
          io_return
      else classify_current repo candidate)"

definition candidates_error :: "int \<Rightarrow> GateSession list \<Rightarrow> py_error option" where
  "candidates_error limit candidates =
     (if limit < int (length candidates) \<or> \<not> distinct (map gs_session_id candidates) \<or>
         \<not> list_all (\<lambda>c. gs_status c \<in> set ACTIVE_LEASE_STATUSES) candidates
      then Some (gate_worker_error ''CANDIDATES_INVALID'' ''GateSession due discovery returned invalid candidates'') else None)"

definition gate_run_once :: "'s session_repository \<Rightarrow> int \<Rightarrow> (GateSessionRecoveryResult list, 's) io" where
  "gate_run_once repo limit =
     io_or_raise (if limit < 1 \<or> 10000 < limit
        then Some (gate_worker_error ''LIMIT_INVALID'' ''GateSession recovery limit is invalid'') else None)
     (io_try (sp_list_due repo limit)
        (\<lambda>_. io_raise (gate_worker_error ''DISCOVERY_FAILED'' ''GateSession due discovery failed''))
        (\<lambda>candidates. io_or_raise (candidates_error limit candidates) (io_map (recover repo) candidates)))"

section \<open>What a pass reports\<close>

text \<open>
  The receipt that the worker accepts for an expiry: the candidate at its next revision, with another
  status, reason, time of change and lease, and nothing else changed.
\<close>

definition expired_revision :: "GateSession \<Rightarrow> GateSession \<Rightarrow> bool" where
  "expired_revision c e \<longleftrightarrow>
     e = c\<lparr>gs_version := gs_version c + 1, gs_status := u ''expired'', gs_updated_at := gs_updated_at e,
        gs_lease_expires_at := gs_lease_expires_at e, gs_terminal_reason := Some (u ''session_expired'')\<rparr>"

text \<open>
  How an attempt to expire a candidate fails, from one state to another, so that the worker goes on to read
  the session: the write raised; or the receipt with the candidate's fields put back is no session; or the read after the write raised.
\<close>

definition expiry_failed :: "'s session_repository \<Rightarrow> GateSession \<Rightarrow> 's \<Rightarrow> 's \<Rightarrow> bool" where
  "expiry_failed repo c s t \<longleftrightarrow>
     (\<exists>e. sp_expire repo c (gs_version c) (u ''session_expired'') s = (Inl e, t)) \<or>
     (\<exists>x e. sp_expire repo c (gs_version c) (u ''session_expired'') s = (Inr x, t) \<and> verify_expired c x = Some e \<and>
        \<not> is_gate_worker_error e) \<or>
     (\<exists>x r e. sp_expire repo c (gs_version c) (u ''session_expired'') s = (Inr x, r) \<and> expired_revision c x \<and>
        sp_get repo (gs_session_id c) r = (Inl e, t))"

text \<open>
  The report of one candidate, between the state before and the state after it. The session in the report is what
  the last read of the authority returned. It is reported as expired when the expiry answered with that
  very session, the candidate's next revision; otherwise no expiry was due or it failed, and the session read
  is a newer revision of the same session, or the candidate itself.
\<close>

definition recovery_report ::
  "'s session_repository \<Rightarrow> GateSession \<Rightarrow> 's \<Rightarrow> GateSessionRecoveryResult \<Rightarrow> 's \<Rightarrow> bool" where
  "recovery_report repo c s r t \<longleftrightarrow>
     (\<exists>cur s1. cur = gw_current r \<and> gw_session_id r = gs_session_id c \<and> gw_observed_version r = gs_version c \<and>
        gw_observed_status r = gs_status c \<and> sp_get repo (gs_session_id c) s1 = (Inr cur, t) \<and>
        session_identity cur = session_identity c \<and>
        (gw_outcome r = u ''expired'' \<and> gs_status c \<in> {u ''prepared'', u ''awaiting_decision''} \<and>
           sp_expire repo c (gs_version c) (u ''session_expired'') s = (Inr cur, s1) \<and> expired_revision c cur \<or>
         (gw_outcome r = u ''superseded'' \<and> gs_version c < gs_version cur \<or> gw_outcome r = u ''recovery_required'' \<and> cur = c) \<and>
           (if gs_status c \<in> {u ''prepared'', u ''awaiting_decision''} then expiry_failed repo c s s1 else s1 = s)))"

lemma classified_recovery:
  assumes "classify_current repo c s = (Inr r, t)"
  shows "sp_get repo (gs_session_id c) s = (Inr (gw_current r), t)" "r = recovery_result c (gw_outcome r) (gw_current r)"
    "session_identity (gw_current r) = session_identity c"
    "gw_outcome r = u ''superseded'' \<and> gs_version c < gs_version (gw_current r) \<or> gw_outcome r = u ''recovery_required'' \<and> gw_current r = c"
  using assms
  by (auto simp: classify_current_def io_iffs validate_current_session_def recovery_result_def split: if_splits)

lemma verify_expired_None:
  assumes "verify_expired c e = None"
  shows "expired_revision c e" "session_identity e = session_identity c"
proof -
  let ?restored = "e\<lparr>gs_version := gs_version c, gs_status := gs_status c, gs_updated_at := gs_updated_at c,
     gs_lease_expires_at := gs_lease_expires_at c, gs_terminal_reason := gs_terminal_reason c\<rparr>"
  from assms have h: "gs_version e = gs_version c + 1" "gs_status e = u ''expired''" "gs_terminal_reason e = Some (u ''session_expired'')"
    and eq: "?restored = c"
    by (auto simp: verify_expired_def construct_def or_raise_def split: if_splits option.splits)
  have "?restored\<lparr>gs_version := gs_version c + 1, gs_status := u ''expired'', gs_updated_at := gs_updated_at e,
     gs_lease_expires_at := gs_lease_expires_at e, gs_terminal_reason := Some (u ''session_expired'')\<rparr> = e"
    using h by simp
  then show "expired_revision c e" unfolding eq expired_revision_def by simp
  have "session_identity ?restored = session_identity e" by (simp add: session_identity_def)
  then show "session_identity e = session_identity c" unfolding eq by simp
qed

lemma recover_classified:
  assumes "classify_current repo c s1 = (Inr r, t)"
    and "if gs_status c \<in> {u ''prepared'', u ''awaiting_decision''} then expiry_failed repo c s s1 else s1 = s"
  shows "recovery_report repo c s r t"
proof -
  note k = classified_recovery [OF assms(1)]
  then have "gw_session_id r = gs_session_id c" "gw_observed_version r = gs_version c" "gw_observed_status r = gs_status c"
    by (metis GateSessionRecoveryResult.select_convs recovery_result_def)+
  then show ?thesis unfolding recovery_report_def using k assms(2) by blast
qed

lemma recover_reports:
  assumes "recover repo c s = (Inr r, t)"
  shows "recovery_report repo c s r t"
proof (cases "gs_status c \<in> {u ''prepared'', u ''awaiting_decision''}")
  case True
  let ?attempt = "io_bind (sp_expire repo c (gs_version c) (u ''session_expired'')) (\<lambda>expired.
      io_or_raise (verify_expired c expired) (io_bind (sp_get repo (gs_session_id c)) (\<lambda>retained.
        if retained \<noteq> expired
        then io_raise (gate_worker_error ''RECEIPT_INVALID'' ''expired GateSession receipt was not durably retained'')
        else io_return (recovery_result c (u ''expired'') expired))))"
  from assms have "(\<exists>e s1. ?attempt s = (Inl e, s1) \<and> \<not> is_gate_worker_error e \<and> classify_current repo c s1 = (Inr r, t)) \<or>
      ?attempt s = (Inr r, t)"
    unfolding recover_def if_P [OF True] io_try_iff by (auto split: if_splits)
  then consider (failed) e s1 where "?attempt s = (Inl e, s1)" "\<not> is_gate_worker_error e" "classify_current repo c s1 = (Inr r, t)"
    | (expired) "?attempt s = (Inr r, t)" by blast
  then show ?thesis
  proof cases
    case failed
    have "expiry_failed repo c s s1" using failed(1,2) unfolding expiry_failed_def
      by (auto simp: io_bind_def io_or_raise_def io_raise_def io_return_def gate_worker_error_def is_gate_worker_error_def
          split: prod.splits sum.splits option.splits if_splits intro: verify_expired_None)
    then show ?thesis using recover_classified [OF failed(3)] True by simp
  next
    case expired
    then obtain e s1 where x: "sp_expire repo c (gs_version c) (u ''session_expired'') s = (Inr e, s1)" "verify_expired c e = None"
      "sp_get repo (gs_session_id c) s1 = (Inr e, t)" "r = recovery_result c (u ''expired'') e"
      by (auto simp: io_iffs split: if_splits)
    then show ?thesis using verify_expired_None [OF x(2)] True by (auto simp: recovery_report_def recovery_result_def)
  qed
next
  case False
  then show ?thesis using assms unfolding recover_def if_not_P [OF False] by (intro recover_classified) auto
qed

lemma gate_run_once_reports:
  assumes "gate_run_once repo limit s = (Inr results, t)"
  obtains candidates s0 where "sp_list_due repo limit s = (Inr candidates, s0)" "candidates_error limit candidates = None"
    "in_turn (recovery_report repo) candidates s0 results t"
proof -
  from assms obtain candidates s0 where c: "sp_list_due repo limit s = (Inr candidates, s0)" "candidates_error limit candidates = None"
    and run: "io_map (recover repo) candidates s0 = (Inr results, t)"
    by (auto simp: gate_run_once_def io_iffs split: if_splits)
  have "in_turn (recovery_report repo) candidates s0 results t" by (rule io_map_in_turn [OF run recover_reports])
  then show thesis by (rule that [OF c])
qed

end
