(* ===== verification/SampleSession.thy ===== *)
theory SampleSession
  imports GateSessionFacts
begin

text \<open>A concrete session, from its creation to its decision.\<close>

definition day_time :: "nat \<Rightarrow> datetime" where
  "day_time n = \<lparr>dt_year = 2024, dt_month = 1, dt_day = n, dt_hour = 0, dt_minute = 0, dt_second = 0,
     dt_microsecond = 0, dt_offset = 0\<rparr>"

definition day :: "nat \<Rightarrow> pystr" where
  "day n = isoformat_z (day_time n)"

lemma parse_day: "1 \<le> n \<Longrightarrow> n \<le> 31 \<Longrightarrow> parse_rfc3339 (day n) = Some (day_time n)"
  unfolding day_def by (rule parse_isoformat_z) (simp_all add: day_time_def valid_datetime_def days_in_month_def)

lemma next_day: "add_seconds (day_time 2) 86400 = Inr (day_time 3)"
proof -
  have "[Suc 0..<13] = 1 # [2..<13]" by (simp add: upt_rec)
  then have "ordinal_ymd (ymd_ordinal 2024 1 3) = (2024, 1, 3)"
    by (simp add: ymd_ordinal_def days_before_year_def days_before_month_def ordinal_ymd_def Let_def year_from.simps
        year_days_def days_in_month_def is_leap_def)
  then show ?thesis by (simp add: add_seconds_def day_time_def ymd_ordinal_def Let_def)
qed

lemma instant_day: "1 \<le> n \<Longrightarrow> n \<le> 31 \<Longrightarrow> instant_of (day n) = Some (instant (day_time 1) + (int n - 1) * 86400000000)"
  by (simp add: instant_of_def parse_day instant_def utc_minutes_def day_time_def ymd_ordinal_def)

lemma canonical_day: "1 \<le> n \<Longrightarrow> n \<le> 31 \<Longrightarrow> canonical_rfc3339 (day n) = Inr (day n)"
  by (simp add: canonical_rfc3339_def parse_day astimezone_utc_def) (simp add: day_time_def day_def)

lemma bounded_text_u [simp]:
  "bounded_text k (u s) n = None \<longleftrightarrow> \<not> blank (u s) \<and> length s \<le> k"
  by (simp add: bounded_text_def unicode_def utf8_size_None_iff not_less)

definition sample_fingerprint :: pystr where
  "sample_fingerprint = u ''sha256:'' @ replicate 64 97"

definition sample_session_request :: session_request where
  "sample_session_request =
     \<lparr>sr_session_id = u ''session_1'', sr_tenant_id = u ''tenant'', sr_repository_id = u ''repo'',
      sr_principal_id = u ''ana'', sr_agent_client_id = u ''cli'', sr_trace_id = u ''trace_1'', sr_run_id = u ''run_1'',
      sr_request_fingerprint = sample_fingerprint, sr_idempotency_key = u ''key'',
      sr_created_at = day 1, sr_expires_at = day 9\<rparr>"

definition sample_session :: GateSession where
  "sample_session =
       \<lparr>gs_session_id = u ''session_1'', gs_tenant_id = u ''tenant'', gs_repository_id = u ''repo'',
        gs_principal_id = u ''ana'', gs_agent_client_id = u ''cli'',
        gs_trace_id = u ''trace_1'', gs_run_id = u ''run_1'',
        gs_request_fingerprint = sample_fingerprint, gs_idempotency_key = u ''key'',
        gs_status = u ''created'', gs_version = 1, gs_created_at = day 1,
        gs_updated_at = day 1, gs_expires_at = day 9, gs_lease_expires_at = None,
        gs_retrieval_snapshot_id = None, gs_system_gate_evaluation_id = None,
        gs_semantic_gate_attempt_ids = [], gs_decision_id = None, gs_final_memory_revision_ids = [],
        gs_injection_artifact_id = None, gs_usage_decision_id = None, gs_run_outcome_id = None,
        gs_terminal_reason = None, gs_contract_version = GATE_SESSION_CONTRACT_VERSION\<rparr>"

lemmas session_checks = session_error_def validate_record_shape_def status_shape_def lease_error_def
  required_identifier_def optional_identifier_def required_metadata_def required_reason_def identifier_tuple_def
  digest_def is_digest_def tagged_digest_def is_hex_def timestamp_def time_less_def time_le_def instant_day session_constants Let_def

lemma sample_session_valid: "session_error sample_session = None"
  by (simp add: session_checks sample_session_def sample_fingerprint_def py_isspace_def list_all_iff)

definition no_fields :: transition_fields where
  "no_fields =
     \<lparr>tf_lease_expires_at = None, tf_retrieval_snapshot_id = None, tf_system_gate_evaluation_id = None,
      tf_semantic_gate_attempt_ids = None, tf_decision_id = None, tf_final_memory_revision_ids = None,
      tf_injection_artifact_id = None, tf_usage_decision_id = None, tf_run_outcome_id = None,
      tf_terminal_reason = None\<rparr>"

definition sample_prepared :: transition_fields where
  "sample_prepared = no_fields\<lparr>tf_lease_expires_at := Some (day 5), tf_retrieval_snapshot_id := Some (u ''snapshot_1''),
     tf_system_gate_evaluation_id := Some (u ''evaluation_1'')\<rparr>"

definition sample_decision_fields :: transition_fields where
  "sample_decision_fields = no_fields\<lparr>tf_semantic_gate_attempt_ids := Some [u ''attempt_1''],
     tf_decision_id := Some (u ''decision_1'')\<rparr>"

definition sample_session_ops :: "session_op list" where
  "sample_session_ops =
     [Transition (u ''prepared'') 1 (day 2) sample_prepared,
      Transition (u ''awaiting_decision'') 2 (day 3) no_fields,
      Transition (u ''decided'') 3 (day 4) sample_decision_fields]"

definition sample_prepared_session :: GateSession where
  "sample_prepared_session = transitioned sample_session (u ''prepared'') (day 2) sample_prepared"

definition sample_awaiting_session :: GateSession where
  "sample_awaiting_session = transitioned sample_prepared_session (u ''awaiting_decision'') (day 3) no_fields"

definition sample_decided_session :: GateSession where
  "sample_decided_session = transitioned sample_awaiting_session (u ''decided'') (day 4) sample_decision_fields"

lemma sample_created: "create_gate_session sample_session_request = Inr sample_session" "session_created sample_session"
proof -
  show "create_gate_session sample_session_request = Inr sample_session"
    using sample_session_valid
    by (simp add: create_gate_session_def sample_session_request_def sample_session_def)
  then show "session_created sample_session" by (auto simp: session_created_def)
qed

lemmas sample_session_defs = sample_session_def sample_fingerprint_def sample_prepared_session_def
  sample_awaiting_session_def sample_decided_session_def sample_prepared_def sample_decision_fields_def no_fields_def
  transitioned_def given_opt_def given_def

lemma sample_prepared_valid: "session_error sample_prepared_session = None"
  by (simp add: session_checks sample_session_defs py_isspace_def list_all_iff)

lemma sample_awaiting_valid: "session_error sample_awaiting_session = None"
  by (simp add: session_checks sample_session_defs py_isspace_def list_all_iff)

lemma sample_decided_valid: "session_error sample_decided_session = None"
  by (simp add: session_checks sample_session_defs py_isspace_def list_all_iff)

lemma sample_supplied:
  "supplied_fields sample_prepared = [u ''lease_expires_at'', u ''retrieval_snapshot_id'', u ''system_gate_evaluation_id'']"
  "supplied_fields no_fields = []"
  "supplied_fields sample_decision_fields = [u ''semantic_gate_attempt_ids'', u ''decision_id'']"
  by (simp_all add: supplied_fields_def sample_prepared_def sample_decision_fields_def no_fields_def)

lemma sample_fields_error:
  "transition_fields_error (u ''prepared'') (supplied_fields sample_prepared) = None"
  "transition_fields_error (u ''awaiting_decision'') (supplied_fields no_fields) = None"
  "transition_fields_error (u ''decided'') (supplied_fields sample_decision_fields) = None"
  unfolding transition_fields_error_None sample_supplied by (simp_all add: TRANSITION_FIELDS_def)

lemma day_time_error:
  assumes "gs_updated_at s = day m" "gs_expires_at s = day 9" "1 \<le> m" "m < n" "n \<le> 9" "target \<notin> set TERMINAL_STATUSES"
  shows "transition_time_error s target (day n) = None"
  using assms by (auto simp: transition_time_error_def stored_time_error_def timestamp_def time_less_def time_le_def
      instant_day TERMINAL_STATUSES_def)

lemma sample_session_fields:
  "gs_status sample_session = u ''created''" "gs_status sample_prepared_session = u ''prepared''"
  "gs_status sample_awaiting_session = u ''awaiting_decision''" "gs_status sample_decided_session = u ''decided''"
  "gs_version sample_session = 1" "gs_version sample_prepared_session = 2" "gs_version sample_awaiting_session = 3"
  "gs_updated_at sample_session = day 1" "gs_updated_at sample_prepared_session = day 2"
  "gs_updated_at sample_awaiting_session = day 3"
  "gs_expires_at sample_session = day 9" "gs_expires_at sample_prepared_session = day 9"
  "gs_expires_at sample_awaiting_session = day 9"
  "gs_lease_expires_at sample_decided_session = Some (day 5)"
  by (simp_all add: sample_session_defs session_constants)

lemma sample_transition:
  assumes "gs_updated_at s = day m" "gs_expires_at s = day 9" "1 \<le> m" "m < n" "n \<le> 9" "gs_version s = v"
    "session_error t = None" "t = transitioned s target (day n) f"
    "transition_fields_error target (supplied_fields f) = None" "target \<notin> set TERMINAL_STATUSES" "target \<in> set STATUSES"
    "\<exists>targets. dict_get ALLOWED_TRANSITIONS (gs_status s) = Some targets \<and> target \<in> set targets"
  shows "session_step (Transition target v (day n) f) s = Inr t"
  unfolding session_step_def session_op.case transition_Inr_iff using assms day_time_error [OF assms(1-5,10)] by blast

lemma sample_steps:
  "session_step (Transition (u ''prepared'') 1 (day 2) sample_prepared) sample_session = Inr sample_prepared_session"
  "session_step (Transition (u ''awaiting_decision'') 2 (day 3) no_fields) sample_prepared_session = Inr sample_awaiting_session"
  "session_step (Transition (u ''decided'') 3 (day 4) sample_decision_fields) sample_awaiting_session = Inr sample_decided_session"
proof -
  show "session_step (Transition (u ''prepared'') 1 (day 2) sample_prepared) sample_session = Inr sample_prepared_session"
    by (rule sample_transition [OF sample_session_fields(8,11) _ _ _ sample_session_fields(5) sample_prepared_valid
          sample_prepared_session_def sample_fields_error(1)]; simp add: sample_session_fields session_constants)
  show "session_step (Transition (u ''awaiting_decision'') 2 (day 3) no_fields) sample_prepared_session = Inr sample_awaiting_session"
    by (rule sample_transition [OF sample_session_fields(9,12) _ _ _ sample_session_fields(6) sample_awaiting_valid
          sample_awaiting_session_def sample_fields_error(2)]; simp add: sample_session_fields session_constants)
  show "session_step (Transition (u ''decided'') 3 (day 4) sample_decision_fields) sample_awaiting_session = Inr sample_decided_session"
    by (rule sample_transition [OF sample_session_fields(10,13) _ _ _ sample_session_fields(7) sample_decided_valid
          sample_decided_session_def sample_fields_error(3)]; simp add: sample_session_fields session_constants)
qed

lemma sample_session_run: "run_session sample_session_ops sample_session = sample_decided_session"
  by (simp add: run_session_def sample_session_ops_def session.exec_def sample_steps)

text \<open>A deadline whose UTC date lies in the year 10000: accepted, and not writable.\<close>

definition sample_deadline :: pystr where
  "sample_deadline = u ''9999-12-31T23:59:59-01:00''"

definition sample_endless_session :: GateSession where
  "sample_endless_session = sample_session\<lparr>gs_expires_at := sample_deadline\<rparr>"

lemma parse_sample_deadline:
  "parse_rfc3339 sample_deadline = Some \<lparr>dt_year = 9999, dt_month = 12, dt_day = 31, dt_hour = 23, dt_minute = 59,
     dt_second = 59, dt_microsecond = 0, dt_offset = -60\<rparr>"
  by (simp add: parse_rfc3339_def sample_deadline_def u_def take_digits_def is_digit_def take_fraction_def take_offset_def
      valid_datetime_def days_in_month_def Let_def)

lemma late_after_day: "instant_of sample_deadline = Some i \<Longrightarrow> instant_of (day 1) = Some j \<Longrightarrow> j < i"
  by (simp add: instant_of_def parse_sample_deadline parse_day)
     (simp add: day_time_def instant_def utc_minutes_def ymd_ordinal_def days_before_year_def days_before_month_def
        upt_rec Let_def)

lemma sample_deadline_no_utc_date: "\<not> utc_date sample_deadline"
  by (simp add: utc_date_def instant_of_def parse_sample_deadline instant_def utc_minutes_def ymd_ordinal_def
      days_before_year_def days_before_month_def days_in_month_def is_leap_def upt_rec Let_def)

lemma sample_endless_valid: "session_error sample_endless_session = None"
proof -
  obtain i where i: "instant_of sample_deadline = Some i" by (simp add: instant_of_def parse_sample_deadline)
  then have "instant (day_time 1) < i" using late_after_day instant_day [of 1] by simp
  then show ?thesis
    by (simp add: sample_endless_session_def session_checks sample_session_def sample_fingerprint_def py_isspace_def
        list_all_iff i)
qed

definition sample_endless_request :: session_request where
  "sample_endless_request = sample_session_request\<lparr>sr_expires_at := sample_deadline\<rparr>"

lemma sample_endless_created: "create_gate_session sample_endless_request = Inr sample_endless_session"
  using sample_endless_valid
  by (simp add: create_gate_session_def sample_endless_request_def sample_session_request_def sample_endless_session_def sample_session_def)

end
