(* ===== verification/SampleOutbox.thy ===== *)
theory SampleOutbox
  imports OutboxFacts OutboxWorker GateWorker SampleSession Sample
begin

text \<open>Concrete deliveries, with a hash function that returns one digest.\<close>

definition sample_hex :: pystr where
  "sample_hex = replicate 64 97"

definition sample_sha :: "pystr \<Rightarrow> pystr" where
  "sample_sha t = sample_hex"

lemma sample_hex_digests: "hex_digests sample_sha"
  by (simp add: hex_digests_def sample_sha_def sample_hex_def is_hex_def list_all_iff)

lemma sample_tagged: "tagged_digest p (p @ sample_hex)"
  using hex_digests_tagged [OF sample_hex_digests, of p "[]"] by (simp add: sample_sha_def)

lemma sample_decimal_numbers: "decimal_numbers sample_runtime"
  by (simp add: decimal_numbers_def sample_runtime_def)

definition sample_event :: CompletionOutboxEvent where
  "sample_event =
     \<lparr>oe_event_id = EVENT_ID_PREFIX @ sample_hex, oe_event_type = u ''execution_completed'', oe_tenant_id = u ''tenant'',
      oe_repository_id = u ''repo'', oe_session_id = u ''session_1'', oe_trace_id = u ''trace_1'', oe_run_id = u ''run_1'',
      oe_usage_decision_id = u ''usage_1'', oe_run_outcome_id = u ''run_outcome_sha256_'' @ sample_hex,
      oe_outcome_descriptor_sha256 = u ''sha256:'' @ sample_hex, oe_occurred_at = day 1,
      oe_contract_version = COMPLETION_OUTBOX_EVENT_CONTRACT_VERSION\<rparr>"

definition sample_pending :: CompletionOutboxDelivery where
  "sample_pending = (revision (EVENT_ID_PREFIX @ sample_hex) 1 (u ''pending'') 0 (day 1))
     \<lparr>od_delivery_revision_id := DELIVERY_ID_PREFIX @ sample_hex, od_available_at := Some (day 1)\<rparr>"

definition sample_leased :: "int \<Rightarrow> int \<Rightarrow> CompletionOutboxDelivery" where
  "sample_leased version attempts = (revision (EVENT_ID_PREFIX @ sample_hex) version (u ''leased'') attempts (day 2))
     \<lparr>od_delivery_revision_id := DELIVERY_ID_PREFIX @ sample_hex, od_worker_id := Some (u ''w''),
      od_lease_expires_at := Some (day 3)\<rparr>"

lemma content_id_sample: "content_id rt sample_sha p payload = Inr i \<Longrightarrow> i = p @ sample_hex"
  by (auto simp: content_id_def canonical_sha256_def result_simps sample_sha_def strip_prefix_append
      split: option.splits if_splits)

lemma encodable_day: "1 \<le> n \<Longrightarrow> n \<le> 31 \<Longrightarrow> encodable (day n)"
  by (simp add: day_def encodable_isoformat)

lemma sample_content_id:
  assumes "tagged_digest EVENT_ID_PREFIX (od_event_id d)" and "encodable (od_contract_version d)"
    and "encodable (od_status d)" and "encodable (od_updated_at d)"
    and "\<forall>x\<in>{od_available_at d, od_worker_id d, od_lease_expires_at d, od_delivered_at d, od_last_error_code d,
      od_response_sha256 d}. \<forall>s. x = Some s \<longrightarrow> encodable s"
    and "\<forall>i\<in>{od_version d, od_attempt_count d}. 0 \<le> i \<and> i < 10 ^ 20"
  shows "content_id sample_runtime sample_sha DELIVERY_ID_PREFIX (delivery_fields d) = Inr (DELIVERY_ID_PREFIX @ sample_hex)"
  using plain_delivery [OF sample_decimal_numbers assms] content_id_sample by metis

lemmas delivery_checks = delivery_error_def canonical_time_None_iff canonical_day DELIVERY_STATUSES_def
  delivery_status_error_def moment_def instant_day Let_def identifier_error_def bounded_identifier_def

lemma sample_pending_valid: "delivery_error sample_runtime sample_sha sample_pending = None"
proof -
  have "content_id sample_runtime sample_sha DELIVERY_ID_PREFIX (delivery_fields sample_pending) = Inr (DELIVERY_ID_PREFIX @ sample_hex)"
    by (rule sample_content_id) (simp_all add: sample_pending_def revision_def sample_tagged encodable_day
        COMPLETION_OUTBOX_DELIVERY_CONTRACT_VERSION_def)
  then show ?thesis
    unfolding delivery_error_def first_error_None_iff
    by (simp add: sample_pending_def revision_def sample_tagged delivery_checks)
qed

lemma sample_leased_valid:
  assumes "1 \<le> version" and "version \<le> 2001" and "1 \<le> attempts" and "attempts \<le> 1000"
  shows "delivery_error sample_runtime sample_sha (sample_leased version attempts) = None"
proof -
  have "content_id sample_runtime sample_sha DELIVERY_ID_PREFIX (delivery_fields (sample_leased version attempts)) =
      Inr (DELIVERY_ID_PREFIX @ sample_hex)"
    by (rule sample_content_id) (use assms in \<open>simp_all add: sample_leased_def revision_def sample_tagged encodable_day
        COMPLETION_OUTBOX_DELIVERY_CONTRACT_VERSION_def\<close>)
  moreover have "strip (u ''w'') = u ''w''" by (simp add: strip_def lstrip_def rstrip_def u_def py_isspace_def)
  moreover have "\<forall>c\<in>set (u ''w''). 32 \<le> c \<and> c \<noteq> 127" by (simp add: u_def)
  ultimately show ?thesis
    using assms unfolding delivery_error_def first_error_None_iff
    by (simp add: sample_leased_def revision_def sample_tagged delivery_checks)
qed

lemma sample_begins: "build_initial_completion_outbox_delivery sample_runtime sample_sha sample_event = Inr sample_pending"
  "delivery_begins sample_runtime sample_sha sample_pending"
proof -
  have c: "content_id sample_runtime sample_sha DELIVERY_ID_PREFIX (delivery_fields sample_pending) = Inr (DELIVERY_ID_PREFIX @ sample_hex)"
    by (rule sample_content_id) (simp_all add: sample_pending_def revision_def sample_tagged encodable_day
        COMPLETION_OUTBOX_DELIVERY_CONTRACT_VERSION_def)
  then show "build_initial_completion_outbox_delivery sample_runtime sample_sha sample_event = Inr sample_pending"
    using sample_pending_valid
    by (simp add: build_initial_completion_outbox_delivery_def build_delivery_def sample_event_def revision_def
        canonical_day canonical_or_none_def Let_def sample_pending_def delivery_fields_def)
  then show "delivery_begins sample_runtime sample_sha sample_pending" by (auto simp: delivery_begins_def)
qed

definition sample_delivered :: CompletionOutboxDelivery where
  "sample_delivered = (revision (EVENT_ID_PREFIX @ sample_hex) 3 (u ''delivered'') 1 (day 3))
     \<lparr>od_delivery_revision_id := DELIVERY_ID_PREFIX @ sample_hex, od_delivered_at := Some (day 3)\<rparr>"

lemma sample_worker: "bounded_identifier 128 (u ''w'')"
proof -
  have "strip (u ''w'') = u ''w''" by (simp add: strip_def lstrip_def rstrip_def u_def py_isspace_def)
  moreover have "\<forall>c\<in>set (u ''w''). 32 \<le> c \<and> c \<noteq> 127" by (simp add: u_def)
  ultimately show ?thesis by (simp add: bounded_identifier_def)
qed

lemma sample_delivered_transition: "verify_completion_outbox_delivery_transition (sample_leased 2 1) sample_delivered = None"
  unfolding verify_completion_outbox_delivery_transition_def first_error_None_iff
  by (simp add: sample_leased_def sample_delivered_def revision_def instant_day DELIVERY_TRANSITIONS_def)

lemma sample_acknowledged:
  "acknowledge_completion_outbox_delivery sample_runtime sample_sha (sample_leased 2 1) (u ''w'') (day 3) None = Inr sample_delivered"
proof -
  have c: "content_id sample_runtime sample_sha DELIVERY_ID_PREFIX (delivery_fields sample_delivered) = Inr (DELIVERY_ID_PREFIX @ sample_hex)"
    by (rule sample_content_id) (simp_all add: sample_delivered_def revision_def sample_tagged encodable_day
        COMPLETION_OUTBOX_DELIVERY_CONTRACT_VERSION_def)
  have v: "delivery_error sample_runtime sample_sha sample_delivered = None"
    using c unfolding delivery_error_def first_error_None_iff
    by (simp add: sample_delivered_def revision_def sample_tagged delivery_checks)
  have "build_delivery sample_runtime sample_sha ((revision (EVENT_ID_PREFIX @ sample_hex) 3 (u ''delivered'') 1 (day 3))
      \<lparr>od_delivered_at := Some (day 3), od_response_sha256 := None\<rparr>) = Inr sample_delivered"
    using c v by (simp add: build_delivery_def revision_def canonical_day canonical_or_none_def Let_def sample_delivered_def
        delivery_fields_def)
  moreover have "require_active_lease (sample_leased 2 1) (u ''w'') (day 3) = None"
    unfolding require_active_lease_def first_error_None_iff
    by (simp add: sample_worker identifier_error_def canonical_time_None_iff canonical_day sample_leased_def revision_def
        instant_day moment_def)
  ultimately show ?thesis using sample_delivered_transition
    by (simp add: acknowledge_completion_outbox_delivery_def verified_def canonical_day if_given_def)
       (simp add: sample_leased_def revision_def)
qed

text \<open>A repository that keeps one delivery: it leases it to a worker and stores the acknowledgement.\<close>

definition sample_repository :: "CompletionOutboxDelivery outbox_repository" where
  "sample_repository =
     \<lparr>or_claim_due = (\<lambda>worker lease limit s. (Inr [(sample_event, sample_leased 2 1)], sample_leased 2 1)),
      or_get_delivery = (\<lambda>event s. (Inr s, s)),
      or_acknowledge = (\<lambda>event version worker response s. (Inr sample_delivered, sample_delivered)),
      or_fail_delivery = (\<lambda>event version worker code delay m. io_raise (ValueError []))\<rparr>"

lemma sample_pass:
  "outbox_run_once sample_repository (\<lambda>event s. (Receipt None, s)) (u ''w'') 60 100 60 5 sample_pending =
     (Inr [worker_result (sample_leased 2 1) (u ''delivered'') sample_delivered], sample_delivered)"
proof -
  have ok: "claim_ok (u ''w'') (sample_event, sample_leased 2 1)"
    by (simp add: claim_ok_def sample_event_def sample_leased_def revision_def)
  have receipt: "verify_terminal_receipt (sample_leased 2 1) sample_delivered (u ''delivered'') None None 0 = None"
    using sample_delivered_transition unfolding verify_terminal_receipt_def first_error_None_iff
    by (simp add: sample_leased_def sample_delivered_def revision_def)
  show ?thesis
    unfolding outbox_run_once_def
    by (simp add: validate_run_configuration_def sample_worker io_or_raise_def io_try_def sample_repository_def
        validate_claims_def ok io_return_def io_bind_def dispatch_def checked_reply_def Let_def receipt verify_retained_def)
qed

text \<open>A session authority that keeps one session: an awaiting session past its deadline is expired and stored.\<close>

definition sample_expired_session :: GateSession where
  "sample_expired_session = transitioned sample_awaiting_session (u ''expired'') (day 10) (end_fields (u ''session_expired''))"

definition sample_session_repository :: "GateSession session_repository" where
  "sample_session_repository =
     \<lparr>sp_list_due = (\<lambda>limit s. (Inr [s], s)), sp_get = (\<lambda>session s. (Inr s, s)),
      sp_expire = (\<lambda>session version reason s. case transition_gate_session session (u ''expired'') version (day 10) (end_fields reason) of
         Inl e \<Rightarrow> (Inl e, s) | Inr t \<Rightarrow> (Inr t, t))\<rparr>"

lemma sample_expiry: "transition_gate_session sample_awaiting_session (u ''expired'') 3 (day 10) (end_fields (u ''session_expired'')) = Inr sample_expired_session"
proof -
  have "session_error sample_expired_session = None"
    by (simp add: session_checks sample_session_defs sample_expired_session_def end_fields_def py_isspace_def list_all_iff)
  moreover have "transition_time_error sample_awaiting_session (u ''expired'') (day 10) = None"
    by (simp add: transition_time_error_def stored_time_error_def timestamp_def time_less_def time_le_def instant_day
        sample_session_fields TERMINAL_STATUSES_def)
  moreover have "transition_fields_error (u ''expired'') (supplied_fields (end_fields (u ''session_expired''))) = None"
    unfolding transition_fields_error_None by (simp add: TRANSITION_FIELDS_def supplied_fields_def end_fields_def)
  moreover have "gs_version sample_awaiting_session = 3" "u ''expired'' \<in> set STATUSES"
    "\<exists>targets. dict_get ALLOWED_TRANSITIONS (gs_status sample_awaiting_session) = Some targets \<and> u ''expired'' \<in> set targets"
    by (simp_all add: sample_session_fields session_constants)
  ultimately show ?thesis unfolding transition_Inr_iff by (simp add: sample_expired_session_def)
qed

lemma sample_recovery:
  "gate_run_once sample_session_repository 100 sample_awaiting_session =
     (Inr [recovery_result sample_awaiting_session (u ''expired'') sample_expired_session], sample_expired_session)"
proof -
  have "verify_expired sample_awaiting_session sample_expired_session = None"
  proof -
    let ?e = sample_expired_session and ?c = sample_awaiting_session
    have f: "gs_session_id ?e = gs_session_id ?c" "gs_version ?e = gs_version ?c + 1" "gs_status ?e = u ''expired''"
      "gs_terminal_reason ?e = Some (u ''session_expired'')"
      by (simp_all add: sample_expired_session_def transitioned_def end_fields_def)
    have "?e\<lparr>gs_version := gs_version ?c, gs_status := gs_status ?c, gs_updated_at := gs_updated_at ?c,
        gs_lease_expires_at := gs_lease_expires_at ?c, gs_terminal_reason := gs_terminal_reason ?c\<rparr> = ?c"
      by (simp add: sample_expired_session_def transitioned_def end_fields_def given_opt_def GateSession.given_def)
    then show ?thesis using sample_awaiting_valid by (simp add: verify_expired_def f GateSession.construct_def)
  qed
  then show ?thesis
    unfolding gate_run_once_def
    by (simp add: io_or_raise_def io_try_def sample_session_repository_def candidates_error_def io_return_def io_bind_def
        recover_def sample_session_fields ACTIVE_LEASE_STATUSES_def sample_expiry)
qed

end
