(* ===== verification/EventV1.thy ===== *)
theory EventV1
  imports Canonical
begin

text \<open>
  The canonical event of \<^verbatim>\<open>event_v1.py\<close>: an envelope with the identity of its stream and of the caller,
  a bounded JSON payload and the digest of the previous event of the stream. An event names its own
  digest, over the envelope without it, behind the tag of the protocol. The hash function is the
  parameter \<open>sha\<close> of \<^verbatim>\<open>Canonical\<close>, from the encoded text to its hexadecimal digest.
\<close>

section \<open>Limits and vocabularies\<close>

definition EVENT_PROTOCOL_VERSION :: pystr where
  "EVENT_PROTOCOL_VERSION = u ''tbm.event.v1''"

abbreviation "EVENT_PAYLOAD_MAX_BYTES \<equiv> (524288 :: nat)"
abbreviation "EVENT_PAYLOAD_MAX_DEPTH \<equiv> (24 :: nat)"
abbreviation "EVENT_PAYLOAD_MAX_NODES \<equiv> (8192 :: nat)"
abbreviation "EVENT_MAX_ARTIFACT_REFS \<equiv> (128 :: nat)"
abbreviation "EVENT_MAX_VERSION \<equiv> (9223372036854775807 :: int)"
abbreviation "EVENT_ARTIFACT_MAX_BYTES \<equiv> (67108864 :: int)"

definition ACTOR_TYPES :: "pystr list" where
  "ACTOR_TYPES = map u [''principal'', ''agent_client'', ''service'', ''worker'']"

definition EVENT_KINDS :: "pystr list" where
  "EVENT_KINDS = map u [''domain'', ''observation'']"

definition EVENT_ORIGINS :: "pystr list" where
  "EVENT_ORIGINS = map u [''native'', ''imported'']"

definition CLASSIFICATION_RANK :: "(pystr, nat) dict" where
  "CLASSIFICATION_RANK =
     [(u ''public'', 0), (u ''internal'', 1), (u ''confidential'', 2), (u ''restricted'', 3)]"

definition EVIDENCE_QUALITIES :: "pystr list" where
  "EVIDENCE_QUALITIES = map u [''exact'', ''verified'', ''observed'', ''legacy_partial'', ''unknown'']"

definition ARTIFACT_AVAILABILITY :: "pystr list" where
  "ARTIFACT_AVAILABILITY = map u [''available'', ''pending'', ''unavailable'', ''erased'']"

definition FORBIDDEN_SECRET_KEYS :: "pystr list" where
  "FORBIDDEN_SECRET_KEYS =
     map u [''accesstoken'', ''apikey'', ''authorization'', ''authorizationheader'', ''bearertoken'', ''clientsecret'',
       ''credential'', ''credentials'', ''passphrase'', ''password'', ''privatekey'', ''refreshtoken'', ''secret'',
       ''token'', ''xapikey'']"

section \<open>Checks of single values\<close>

definition event_invalid :: "pystr \<Rightarrow> py_error" where
  "event_invalid message = ContractError (u ''TBM_EVENT_INVALID'') message"

definition event_non_canonical :: py_error where
  "event_non_canonical =
     ContractError (u ''TBM_EVENT_NON_CANONICAL_JSON'') (u ''value cannot be encoded as finite canonical JSON'')"

definition deny_if :: "bool \<Rightarrow> pystr \<Rightarrow> py_error option" where
  "deny_if b message = (if b then Some (event_invalid message) else None)"

lemma deny_if_None_iff [simp]: "deny_if b m = None \<longleftrightarrow> \<not> b"
  by (simp add: deny_if_def)

lemma deny_if_simps [simp]: "deny_if False m = None" "deny_if True m = Some (event_invalid m)"
  by (simp_all add: deny_if_def)

definition event_utf8 :: "pystr \<Rightarrow> pystr \<Rightarrow> py_error option" where
  "event_utf8 value name = deny_if (\<not> encodable value) (name @ u '' must be valid UTF-8'')"

definition event_identifier :: "pystr \<Rightarrow> pystr \<Rightarrow> py_error option" where
  "event_identifier value name =
     first_error [deny_if (\<not> bounded_identifier 128 value) (name @ u '' must be a bounded identifier''), event_utf8 value name]"

definition event_code :: "pystr \<Rightarrow> pystr \<Rightarrow> py_error option" where
  "event_code value name =
     first_error [deny_if (\<not> bounded_identifier 256 value) (name @ u '' must be a bounded code''), event_utf8 value name]"

definition event_digest :: "pystr \<Rightarrow> pystr \<Rightarrow> py_error option" where
  "event_digest value name =
     deny_if (\<not> tagged_digest (u ''sha256:'') value) (name @ u '' must be a canonical sha256 digest'')"

definition positive_version :: "int \<Rightarrow> pystr \<Rightarrow> py_error option" where
  "positive_version value name =
     deny_if (\<not> (1 \<le> value \<and> value \<le> EVENT_MAX_VERSION)) (name @ u '' must be a bounded positive integer'')"

definition enum_error :: "pystr \<Rightarrow> pystr list \<Rightarrow> pystr \<Rightarrow> py_error option" where
  "enum_error value allowed name = deny_if (value \<notin> set allowed) (name @ u '' is not supported'')"

text \<open>\<^verbatim>\<open>_timestamp\<close>: the conversion to UTC can raise outside of the handler.\<close>

definition event_timestamp :: "pystr \<Rightarrow> pystr \<Rightarrow> py_error option" where
  "event_timestamp value name =
     (case parse_rfc3339 value of
        None \<Rightarrow> Some (event_invalid (name @ u '' must be a canonical RFC3339 timestamp: value must be a '' @
                 u ''timezone-aware RFC 3339 date-time string''))
      | Some _ \<Rightarrow>
          (case canonical_rfc3339 value of
             Inl e \<Rightarrow> Some e
           | Inr t \<Rightarrow> deny_if (t \<noteq> value) (name @ u '' must be canonical RFC3339'')))"

definition canonical_event_timestamp :: "pystr \<Rightarrow> pystr \<Rightarrow> pystr result" where
  "canonical_event_timestamp value name =
     (if parse_rfc3339 value = None
      then Inl (event_invalid (name @ u '' must be an RFC3339 timestamp: value must be a '' @
                 u ''timezone-aware RFC 3339 date-time string''))
      else canonical_rfc3339 value)"

definition lower_alnum :: "nat \<Rightarrow> bool" where
  "lower_alnum c \<longleftrightarrow> 97 \<le> c \<and> c \<le> 122 \<or> 48 \<le> c \<and> c \<le> 57"

definition ascii_alnum :: "nat \<Rightarrow> bool" where
  "ascii_alnum c \<longleftrightarrow> lower_alnum c \<or> 65 \<le> c \<and> c \<le> 90"

text \<open>\<^verbatim>\<open>^evt_[A-Za-z0-9][A-Za-z0-9._:-]{0,123}$\<close>\<close>

definition is_event_id :: "pystr \<Rightarrow> bool" where
  "is_event_id value \<longleftrightarrow>
     (case strip_prefix (u ''evt_'') value of
        Some (c # cs) \<Rightarrow> ascii_alnum c \<and> length cs \<le> 123 \<and> list_all (\<lambda>x. ascii_alnum x \<or> x \<in> {45, 46, 58, 95}) cs
      | _ \<Rightarrow> False)"

fun split_dots :: "pystr \<Rightarrow> pystr list" where
  "split_dots [] = [[]]"
| "split_dots (c # s) = (if c = 46 then [] # split_dots s
     else case split_dots s of p # ps \<Rightarrow> (c # p) # ps | [] \<Rightarrow> [[c]])"

text \<open>\<^verbatim>\<open>[a-z0-9][a-z0-9_]*\<close>\<close>

definition type_segment :: "pystr \<Rightarrow> bool" where
  "type_segment s \<longleftrightarrow> s \<noteq> [] \<and> lower_alnum (hd s) \<and> list_all (\<lambda>x. lower_alnum x \<or> x = 95) s"

text \<open>\<^verbatim>\<open>^tbm\.[a-z0-9][a-z0-9_]*(?:\.[a-z0-9][a-z0-9_]*)+$\<close>\<close>

definition is_event_type :: "pystr \<Rightarrow> bool" where
  "is_event_type value \<longleftrightarrow>
     (case split_dots value of
        t # s1 # s2 # rest \<Rightarrow> t = u ''tbm'' \<and> list_all type_segment (s1 # s2 # rest)
      | _ \<Rightarrow> False)"

text \<open>\<^verbatim>\<open>v[1-9][0-9]*\<close>\<close>

fun version_segment :: "pystr \<Rightarrow> bool" where
  "version_segment (v # d # ds) \<longleftrightarrow> v = 118 \<and> 49 \<le> d \<and> d \<le> 57 \<and> list_all (\<lambda>x. 48 \<le> x \<and> x \<le> 57) ds"
| "version_segment _ \<longleftrightarrow> False"

text \<open>\<^verbatim>\<open>^tbm\.[a-z0-9][a-z0-9_.-]*\.v[1-9][0-9]*$\<close>: the version is what follows the last dot.\<close>

definition is_payload_schema :: "pystr \<Rightarrow> bool" where
  "is_payload_schema value \<longleftrightarrow>
     (case split_dots value of
        t # s # ss \<Rightarrow> t = u ''tbm'' \<and> ss \<noteq> [] \<and> version_segment (last ss) \<and> s \<noteq> [] \<and> lower_alnum (hd s) \<and>
          list_all (\<lambda>x. lower_alnum x \<or> x \<in> {45, 95}) (concat (s # butlast ss))
      | _ \<Rightarrow> False)"

section \<open>Records\<close>

record EventTrustedContext =
  tc_organization_id :: pystr
  tc_tenant_id :: pystr
  tc_repository_id :: pystr
  tc_environment_id :: pystr
  tc_principal_id :: pystr
  tc_agent_client_id :: pystr
  tc_actor_type :: pystr
  tc_actor_id :: pystr
  tc_authorization_decision_id :: pystr

record EventSource =
  es_source_system :: pystr
  es_source_record_id :: pystr
  es_evidence_quality :: pystr
  es_observed_at :: pystr

record EventArtifactRef =
  ar_artifact_id :: pystr
  ar_content_sha256 :: pystr
  ar_media_type :: pystr
  ar_size_bytes :: int
  ar_classification :: pystr
  ar_retention_policy_id :: pystr
  ar_encryption_key_id :: "pystr option"
  ar_availability :: pystr

record CanonicalEvent =
  ev_event_id :: pystr
  ev_event_sha256 :: pystr
  ev_event_type :: pystr
  ev_event_version :: int
  ev_event_kind :: pystr
  ev_origin :: pystr
  ev_source :: "EventSource option"
  ev_stream_id :: pystr
  ev_stream_type :: pystr
  ev_stream_version :: int
  ev_global_position :: int
  ev_organization_id :: pystr
  ev_tenant_id :: pystr
  ev_repository_id :: pystr
  ev_environment_id :: pystr
  ev_principal_id :: pystr
  ev_agent_client_id :: pystr
  ev_actor_type :: pystr
  ev_actor_id :: pystr
  ev_authorization_decision_id :: pystr
  ev_request_id :: pystr
  ev_idempotency_key_sha256 :: pystr
  ev_request_sha256 :: pystr
  ev_correlation_id :: pystr
  ev_causation_id :: "pystr option"
  ev_occurred_at :: "pystr option"
  ev_recorded_at :: pystr
  ev_producer :: pystr
  ev_producer_version :: pystr
  ev_payload_schema :: pystr
  ev_payload_sha256 :: pystr
  ev_previous_stream_event_sha256 :: "pystr option"
  ev_classification :: pystr
  ev_retention_policy_id :: pystr
  ev_artifact_refs :: "EventArtifactRef list"
  ev_payload :: pydict
  ev_protocol_version :: pystr

definition trusted_context_error :: "EventTrustedContext \<Rightarrow> py_error option" where
  "trusted_context_error c =
     first_error
       [event_identifier (tc_organization_id c) (u ''organization_id''), event_identifier (tc_tenant_id c) (u ''tenant_id''),
        event_identifier (tc_repository_id c) (u ''repository_id''),
        event_identifier (tc_environment_id c) (u ''environment_id''),
        event_identifier (tc_principal_id c) (u ''principal_id''),
        event_identifier (tc_agent_client_id c) (u ''agent_client_id''), event_identifier (tc_actor_id c) (u ''actor_id''),
        event_identifier (tc_authorization_decision_id c) (u ''authorization_decision_id''),
        enum_error (tc_actor_type c) ACTOR_TYPES (u ''actor_type'')]"

definition source_error :: "EventSource \<Rightarrow> py_error option" where
  "source_error s =
     first_error
       [event_identifier (es_source_system s) (u ''source_system''),
        event_identifier (es_source_record_id s) (u ''source_record_id''),
        enum_error (es_evidence_quality s) EVIDENCE_QUALITIES (u ''evidence_quality''),
        event_timestamp (es_observed_at s) (u ''observed_at'')]"

definition source_fields :: "EventSource \<Rightarrow> (pystr, pyval) dict" where
  "source_fields s =
     [(u ''source_system'', PStr (es_source_system s)), (u ''source_record_id'', PStr (es_source_record_id s)),
      (u ''evidence_quality'', PStr (es_evidence_quality s)), (u ''observed_at'', PStr (es_observed_at s))]"

definition artifact_ref_error :: "EventArtifactRef \<Rightarrow> py_error option" where
  "artifact_ref_error r =
     first_error
       [event_digest (ar_content_sha256 r) (u ''content_sha256''),
        deny_if (\<not> tagged_digest (u ''artifact_sha256_'') (ar_artifact_id r) \<or>
            ar_artifact_id r \<noteq> u ''artifact_sha256_'' @ drop 7 (ar_content_sha256 r))
          (u ''artifact_id must be derived from content_sha256''),
        event_code (ar_media_type r) (u ''media_type''),
        deny_if (\<not> (0 \<le> ar_size_bytes r \<and> ar_size_bytes r \<le> EVENT_ARTIFACT_MAX_BYTES))
          (u ''size_bytes must be a bounded non-negative integer''),
        enum_error (ar_classification r) (dict_keys CLASSIFICATION_RANK) (u ''classification''),
        event_identifier (ar_retention_policy_id r) (u ''retention_policy_id''),
        if_given (\<lambda>k. event_identifier k (u ''encryption_key_id'')) (ar_encryption_key_id r),
        deny_if (ar_classification r \<in> {u ''confidential'', u ''restricted''} \<and> ar_encryption_key_id r = None)
          (u ''protected artifact references require encryption_key_id''),
        enum_error (ar_availability r) ARTIFACT_AVAILABILITY (u ''availability'')]"

definition str_or_none :: "pystr option \<Rightarrow> pyval" where
  "str_or_none v = (case v of None \<Rightarrow> PNone | Some s \<Rightarrow> PStr s)"

definition str_keys :: "(pystr, pyval) dict \<Rightarrow> pydict" where
  "str_keys d = map (\<lambda>(k, v). (PStr k, v)) d"

definition artifact_ref_fields :: "EventArtifactRef \<Rightarrow> (pystr, pyval) dict" where
  "artifact_ref_fields r =
     [(u ''artifact_id'', PStr (ar_artifact_id r)), (u ''content_sha256'', PStr (ar_content_sha256 r)),
      (u ''media_type'', PStr (ar_media_type r)), (u ''size_bytes'', PNum (PyInt (ar_size_bytes r))),
      (u ''classification'', PStr (ar_classification r)), (u ''retention_policy_id'', PStr (ar_retention_policy_id r)),
      (u ''encryption_key_id'', str_or_none (ar_encryption_key_id r)), (u ''availability'', PStr (ar_availability r))]"

definition artifact_ref_tuple :: "EventArtifactRef list \<Rightarrow> py_error option" where
  "artifact_ref_tuple values =
     first_error
       [deny_if (EVENT_MAX_ARTIFACT_REFS < length values) (u ''artifact_refs must be a bounded tuple''),
        deny_if (map ar_artifact_id values \<noteq> sort (map ar_artifact_id values) \<or> \<not> distinct (map ar_artifact_id values))
          (u ''artifact_refs must be sorted and unique'')]"

section \<open>Payloads\<close>

text \<open>
  \<^verbatim>\<open>_copy_json\<close>: the copy is the value itself, so what remains is the count of nodes and the checks. A
  value is a tree, which has no cycle.
\<close>

fun copy_json :: "nat \<Rightarrow> pyval \<Rightarrow> nat \<Rightarrow> nat result"
  and copy_items :: "nat \<Rightarrow> pyval list \<Rightarrow> nat \<Rightarrow> nat result"
  and copy_entries :: "nat \<Rightarrow> (pyval \<times> pyval) list \<Rightarrow> nat \<Rightarrow> nat result" where
  "copy_json depth item node_count =
     (if EVENT_PAYLOAD_MAX_DEPTH < depth then Inl (event_invalid (u ''payload exceeds maximum depth''))
      else if EVENT_PAYLOAD_MAX_NODES < Suc node_count then Inl (event_invalid (u ''payload exceeds maximum node count''))
      else case item of
        PDict d \<Rightarrow>
          if EVENT_PAYLOAD_MAX_NODES - Suc node_count < length d
          then Inl (event_invalid (u ''payload exceeds maximum node count''))
          else copy_entries (Suc depth) d (Suc node_count)
      | PList vs \<Rightarrow>
          if EVENT_PAYLOAD_MAX_NODES - Suc node_count < length vs
          then Inl (event_invalid (u ''payload exceeds maximum node count''))
          else copy_items (Suc depth) vs (Suc node_count)
      | PNum n \<Rightarrow> or_raise (deny_if (\<not> is_finite_number n) (u ''payload contains a non-finite number'')) (Inr (Suc node_count))
      | PStr s \<Rightarrow> or_raise (event_utf8 s (u ''payload string'')) (Inr (Suc node_count))
      | PyOther _ \<Rightarrow> Inl (event_invalid (u ''payload contains a non-JSON value''))
      | _ \<Rightarrow> Inr (Suc node_count))"
| "copy_items depth [] node_count = Inr node_count"
| "copy_items depth (v # vs) node_count = rbind (copy_json depth v node_count) (copy_items depth vs)"
| "copy_entries depth [] node_count = Inr node_count"
| "copy_entries depth ((k, v) # d) node_count =
     (case k of
        PStr s \<Rightarrow>
          or_raise (first_error
            [deny_if (s = [] \<or> 256 < length s) (u ''payload keys must be bounded non-empty strings''),
             event_utf8 s (u ''payload key'')])
          (rbind (copy_json depth v node_count) (copy_entries depth d))
      | _ \<Rightarrow> Inl (event_invalid (u ''payload keys must be bounded non-empty strings'')))"

definition normalized_key :: "runtime \<Rightarrow> pystr \<Rightarrow> pystr" where
  "normalized_key rt key = filter lower_alnum (rt_casefold rt key)"

text \<open>\<^verbatim>\<open>_reject_secret_metadata\<close>: a key at any depth, whatever the order of the visit.\<close>

fun has_secret :: "runtime \<Rightarrow> pyval \<Rightarrow> bool"
  and secret_items :: "runtime \<Rightarrow> pyval list \<Rightarrow> bool"
  and secret_entries :: "runtime \<Rightarrow> (pyval \<times> pyval) list \<Rightarrow> bool" where
  "has_secret rt (PDict d) = secret_entries rt d"
| "has_secret rt (PList vs) = secret_items rt vs"
| "has_secret rt PNone = False"
| "has_secret rt (PBool b) = False"
| "has_secret rt (PNum n) = False"
| "has_secret rt (PStr s) = False"
| "has_secret rt (PyOther n) = False"
| "secret_items rt [] = False"
| "secret_items rt (v # vs) = (has_secret rt v \<or> secret_items rt vs)"
| "secret_entries rt [] = False"
| "secret_entries rt ((k, v) # d) =
     (normalized_key rt (key_text k) \<in> set FORBIDDEN_SECRET_KEYS \<or> has_secret rt v \<or> secret_entries rt d)"

definition event_json :: "runtime \<Rightarrow> pyval \<Rightarrow> pystr result" where
  "event_json rt value =
     (case canonical_json rt value of
        None \<Rightarrow> Inl event_non_canonical
      | Some t \<Rightarrow> if encodable t then Inr t else Inl event_non_canonical)"

definition bounded_payload_copy :: "runtime \<Rightarrow> pydict \<Rightarrow> pydict result" where
  "bounded_payload_copy rt payload =
     rbind (copy_json 0 (PDict payload) 0) (\<lambda>_.
     rbind (event_json rt (PDict payload)) (\<lambda>encoded.
     or_raise (first_error
       [deny_if (case utf8_size encoded of None \<Rightarrow> True | Some n \<Rightarrow> EVENT_PAYLOAD_MAX_BYTES < n)
          (u ''payload exceeds canonical byte limit''),
        deny_if (has_secret rt (PDict payload)) (u ''payload contains forbidden secret metadata key'')])
     (Inr payload)))"

definition event_sha256 :: "(pystr \<Rightarrow> pystr) \<Rightarrow> pystr \<Rightarrow> pystr" where
  "event_sha256 sha value = u ''sha256:'' @ sha value"

definition event_payload_sha256 :: "runtime \<Rightarrow> (pystr \<Rightarrow> pystr) \<Rightarrow> pydict \<Rightarrow> pystr result" where
  "event_payload_sha256 rt sha payload =
     rbind (bounded_payload_copy rt payload) (\<lambda>canonical.
     rbind (event_json rt (PDict canonical)) (\<lambda>encoded. Inr (event_sha256 sha encoded)))"

definition canonical_event_sha256 :: "runtime \<Rightarrow> (pystr \<Rightarrow> pystr) \<Rightarrow> (pystr, pyval) dict \<Rightarrow> pystr result" where
  "canonical_event_sha256 rt sha unsigned_event =
     or_raise (deny_if (dict_has unsigned_event (u ''event_sha256'')) (u ''unsigned event input cannot contain event_sha256''))
     (rbind (event_json rt (PDict (str_keys unsigned_event))) (\<lambda>encoded.
      Inr (event_sha256 sha (EVENT_PROTOCOL_VERSION @ [0] @ encoded))))"

section \<open>The event\<close>

text \<open>\<^verbatim>\<open>to_dict(include_event_sha256=False)\<close>\<close>

definition canonical_event_fields :: "CanonicalEvent \<Rightarrow> (pystr, pyval) dict" where
  "canonical_event_fields e =
     [(u ''protocol_version'', PStr (ev_protocol_version e)), (u ''event_id'', PStr (ev_event_id e)),
      (u ''event_type'', PStr (ev_event_type e)), (u ''event_version'', PNum (PyInt (ev_event_version e))),
      (u ''event_kind'', PStr (ev_event_kind e)), (u ''origin'', PStr (ev_origin e)),
      (u ''source'', case ev_source e of None \<Rightarrow> PNone | Some s \<Rightarrow> PDict (str_keys (source_fields s))),
      (u ''stream_id'', PStr (ev_stream_id e)), (u ''stream_type'', PStr (ev_stream_type e)),
      (u ''stream_version'', PNum (PyInt (ev_stream_version e))),
      (u ''global_position'', PNum (PyInt (ev_global_position e))),
      (u ''organization_id'', PStr (ev_organization_id e)), (u ''tenant_id'', PStr (ev_tenant_id e)),
      (u ''repository_id'', PStr (ev_repository_id e)), (u ''environment_id'', PStr (ev_environment_id e)),
      (u ''principal_id'', PStr (ev_principal_id e)), (u ''agent_client_id'', PStr (ev_agent_client_id e)),
      (u ''actor_type'', PStr (ev_actor_type e)), (u ''actor_id'', PStr (ev_actor_id e)),
      (u ''authorization_decision_id'', PStr (ev_authorization_decision_id e)),
      (u ''request_id'', PStr (ev_request_id e)),
      (u ''idempotency_key_sha256'', PStr (ev_idempotency_key_sha256 e)),
      (u ''request_sha256'', PStr (ev_request_sha256 e)), (u ''correlation_id'', PStr (ev_correlation_id e)),
      (u ''causation_id'', str_or_none (ev_causation_id e)), (u ''occurred_at'', str_or_none (ev_occurred_at e)),
      (u ''recorded_at'', PStr (ev_recorded_at e)), (u ''producer'', PStr (ev_producer e)),
      (u ''producer_version'', PStr (ev_producer_version e)), (u ''payload_schema'', PStr (ev_payload_schema e)),
      (u ''payload_sha256'', PStr (ev_payload_sha256 e)),
      (u ''previous_stream_event_sha256'', str_or_none (ev_previous_stream_event_sha256 e)),
      (u ''classification'', PStr (ev_classification e)),
      (u ''retention_policy_id'', PStr (ev_retention_policy_id e)),
      (u ''artifact_refs'', PList (map (\<lambda>r. PDict (str_keys (artifact_ref_fields r))) (ev_artifact_refs e))),
      (u ''payload'', PDict (ev_payload e))]"

text \<open>\<^verbatim>\<open>to_dict()\<close>\<close>

definition event_to_dict :: "CanonicalEvent \<Rightarrow> (pystr, pyval) dict" where
  "event_to_dict e = canonical_event_fields e @ [(u ''event_sha256'', PStr (ev_event_sha256 e))]"

definition event_kind_error :: "CanonicalEvent \<Rightarrow> py_error option" where
  "event_kind_error e =
     first_error
       [enum_error (ev_event_kind e) EVENT_KINDS (u ''event_kind''), enum_error (ev_origin e) EVENT_ORIGINS (u ''origin''),
        deny_if (ev_origin e = u ''imported'' \<and> ev_source e = None) (u ''imported events require source evidence''),
        deny_if (ev_event_kind e = u ''observation'' \<and> ev_source e = None)
          (u ''observation events require source evidence''),
        deny_if (ev_origin e = u ''native'' \<and> ev_event_kind e = u ''domain'' \<and> ev_source e \<noteq> None)
          (u ''native domain events cannot claim import source evidence'')]"

definition event_id_error :: "pystr \<Rightarrow> pystr \<Rightarrow> py_error option" where
  "event_id_error value name = deny_if (\<not> is_event_id value) (name @ u '' must be a canonical event identifier'')"

definition later_than :: "pystr \<Rightarrow> pystr \<Rightarrow> bool" where
  "later_than a b = (case (instant_of a, instant_of b) of (Some x, Some y) \<Rightarrow> y < x | _ \<Rightarrow> False)"

definition event_time_error :: "CanonicalEvent \<Rightarrow> py_error option" where
  "event_time_error e =
     first_error
       [(case ev_occurred_at e of
           None \<Rightarrow> deny_if (ev_source e = None) (u ''missing occurred_at requires source observation evidence'')
         | Some t \<Rightarrow> event_timestamp t (u ''occurred_at'')),
        event_timestamp (ev_recorded_at e) (u ''recorded_at''),
        if_given (\<lambda>t. deny_if (later_than t (ev_recorded_at e)) (u ''occurred_at cannot follow recorded_at'')) (ev_occurred_at e),
        if_given (\<lambda>s. deny_if (later_than (es_observed_at s) (ev_recorded_at e)) (u ''source observed_at cannot follow recorded_at''))
          (ev_source e)]"

definition classification_rank :: "pystr \<Rightarrow> nat" where
  "classification_rank c = (case dict_get CLASSIFICATION_RANK c of None \<Rightarrow> 0 | Some n \<Rightarrow> n)"

definition event_digest_error :: "runtime \<Rightarrow> (pystr \<Rightarrow> pystr) \<Rightarrow> CanonicalEvent \<Rightarrow> py_error option" where
  "event_digest_error rt sha e =
     (case event_payload_sha256 rt sha (ev_payload e) of
        Inl err \<Rightarrow> Some err
      | Inr p \<Rightarrow>
          if ev_payload_sha256 e \<noteq> p then Some (event_invalid (u ''payload_sha256 does not match canonical payload''))
          else case canonical_event_sha256 rt sha (canonical_event_fields e) of
            Inl err \<Rightarrow> Some err
          | Inr d \<Rightarrow> deny_if (ev_event_sha256 e \<noteq> d) (u ''event_sha256 does not match canonical event envelope''))"

definition canonical_event_error :: "runtime \<Rightarrow> (pystr \<Rightarrow> pystr) \<Rightarrow> CanonicalEvent \<Rightarrow> py_error option" where
  "canonical_event_error rt sha e =
     first_error
       [deny_if (ev_protocol_version e \<noteq> EVENT_PROTOCOL_VERSION) (u ''protocol_version must be '' @ EVENT_PROTOCOL_VERSION),
        event_id_error (ev_event_id e) (u ''event_id''), event_digest (ev_event_sha256 e) (u ''event_sha256''),
        deny_if (\<not> is_event_type (ev_event_type e)) (u ''event_type must be a canonical extensible event type''),
        positive_version (ev_event_version e) (u ''event_version''),
        event_kind_error e,
        event_identifier (ev_stream_id e) (u ''stream_id''), event_identifier (ev_stream_type e) (u ''stream_type''),
        event_identifier (ev_organization_id e) (u ''organization_id''), event_identifier (ev_tenant_id e) (u ''tenant_id''),
        event_identifier (ev_repository_id e) (u ''repository_id''),
        event_identifier (ev_environment_id e) (u ''environment_id''),
        event_identifier (ev_principal_id e) (u ''principal_id''),
        event_identifier (ev_agent_client_id e) (u ''agent_client_id''), event_identifier (ev_actor_id e) (u ''actor_id''),
        event_identifier (ev_authorization_decision_id e) (u ''authorization_decision_id''),
        event_identifier (ev_request_id e) (u ''request_id''), event_identifier (ev_correlation_id e) (u ''correlation_id''),
        event_identifier (ev_retention_policy_id e) (u ''retention_policy_id''),
        positive_version (ev_stream_version e) (u ''stream_version''),
        positive_version (ev_global_position e) (u ''global_position''),
        enum_error (ev_actor_type e) ACTOR_TYPES (u ''actor_type''),
        event_digest (ev_idempotency_key_sha256 e) (u ''idempotency_key_sha256''),
        event_digest (ev_request_sha256 e) (u ''request_sha256''),
        if_given (\<lambda>c. first_error [event_id_error c (u ''causation_id''),
            deny_if (c = ev_event_id e) (u ''causation_id cannot reference the event itself'')]) (ev_causation_id e),
        event_time_error e,
        event_identifier (ev_producer e) (u ''producer''), event_code (ev_producer_version e) (u ''producer_version''),
        deny_if (\<not> is_payload_schema (ev_payload_schema e)) (u ''payload_schema must be a versioned tbm schema name''),
        event_digest (ev_payload_sha256 e) (u ''payload_sha256''),
        (if ev_stream_version e = 1
         then deny_if (ev_previous_stream_event_sha256 e \<noteq> None) (u ''first stream event cannot name a previous event hash'')
         else case ev_previous_stream_event_sha256 e of
           None \<Rightarrow> Some (event_invalid (u ''previous_stream_event_sha256 must be a canonical sha256 digest''))
         | Some d \<Rightarrow> event_digest d (u ''previous_stream_event_sha256'')),
        enum_error (ev_classification e) (dict_keys CLASSIFICATION_RANK) (u ''classification''),
        artifact_ref_tuple (ev_artifact_refs e),
        deny_if (list_ex (\<lambda>r. classification_rank (ev_classification e) < classification_rank (ar_classification r)) (ev_artifact_refs e))
          (u ''event classification cannot be lower than an artifact reference''),
        event_digest_error rt sha e]"

section \<open>Operations\<close>

definition construct_event :: "runtime \<Rightarrow> (pystr \<Rightarrow> pystr) \<Rightarrow> CanonicalEvent \<Rightarrow> CanonicalEvent result" where
  "construct_event rt sha e = or_raise (canonical_event_error rt sha e) (Inr e)"

text \<open>
  \<^verbatim>\<open>build_canonical_event\<close>: \<open>request\<close> carries the keyword arguments; the fields of the trusted context,
  the digests, the protocol version and the order of the references are set here.
\<close>

definition in_context :: "EventTrustedContext \<Rightarrow> CanonicalEvent \<Rightarrow> CanonicalEvent" where
  "in_context c e = e\<lparr>ev_organization_id := tc_organization_id c, ev_tenant_id := tc_tenant_id c,
     ev_repository_id := tc_repository_id c, ev_environment_id := tc_environment_id c,
     ev_principal_id := tc_principal_id c, ev_agent_client_id := tc_agent_client_id c,
     ev_actor_type := tc_actor_type c, ev_actor_id := tc_actor_id c,
     ev_authorization_decision_id := tc_authorization_decision_id c\<rparr>"

definition build_canonical_event ::
  "runtime \<Rightarrow> (pystr \<Rightarrow> pystr) \<Rightarrow> EventTrustedContext \<Rightarrow> CanonicalEvent \<Rightarrow> CanonicalEvent result" where
  "build_canonical_event rt sha trusted_context request =
     or_raise (first_error
       [deny_if (EVENT_MAX_ARTIFACT_REFS < length (ev_artifact_refs request))
          (u ''artifact_refs must be a bounded tuple of EventArtifactRef''),
        deny_if (\<not> distinct (map ar_artifact_id (ev_artifact_refs request))) (u ''artifact_refs must be unique'')])
     (rbind (bounded_payload_copy rt (ev_payload request)) (\<lambda>canonical_payload.
      rbind (case ev_occurred_at request of
          None \<Rightarrow> Inr None
        | Some t \<Rightarrow> rbind (canonical_event_timestamp t (u ''occurred_at'')) (Inr \<circ> Some)) (\<lambda>canonical_occurred.
      rbind (canonical_event_timestamp (ev_recorded_at request) (u ''recorded_at'')) (\<lambda>canonical_recorded.
      rbind (event_payload_sha256 rt sha canonical_payload) (\<lambda>payload_sha256.
      let unsigned = (in_context trusted_context request)
            \<lparr>ev_protocol_version := EVENT_PROTOCOL_VERSION, ev_occurred_at := canonical_occurred,
             ev_recorded_at := canonical_recorded, ev_payload_sha256 := payload_sha256,
             ev_artifact_refs := sort_key ar_artifact_id (ev_artifact_refs request), ev_payload := canonical_payload\<rparr>
      in rbind (canonical_event_sha256 rt sha (canonical_event_fields unsigned)) (\<lambda>d.
         construct_event rt sha (unsigned\<lparr>ev_event_sha256 := d\<rparr>)))))))"

definition verify_event_parent :: "CanonicalEvent \<Rightarrow> CanonicalEvent option \<Rightarrow> py_error option" where
  "verify_event_parent event parent =
     (if ev_stream_version event = 1
      then deny_if (parent \<noteq> None) (u ''first stream event cannot have a parent'')
      else case parent of
        None \<Rightarrow> Some (event_invalid (u ''non-first stream event requires its parent''))
      | Some p \<Rightarrow> first_error
          [deny_if (ev_previous_stream_event_sha256 event \<noteq> Some (ev_event_sha256 p))
             (u ''previous_stream_event_sha256 does not match parent''),
           deny_if (ev_stream_version event \<noteq> ev_stream_version p + 1) (u ''stream_version must advance by one''),
           deny_if (ev_global_position event \<le> ev_global_position p) (u ''global_position must advance after parent''),
           deny_if (ev_stream_id event \<noteq> ev_stream_id p) (u ''parent stream_id does not match''),
           deny_if (ev_stream_type event \<noteq> ev_stream_type p) (u ''parent stream_type does not match''),
           deny_if (ev_organization_id event \<noteq> ev_organization_id p) (u ''parent organization_id does not match''),
           deny_if (ev_tenant_id event \<noteq> ev_tenant_id p) (u ''parent tenant_id does not match''),
           deny_if (ev_repository_id event \<noteq> ev_repository_id p) (u ''parent repository_id does not match''),
           deny_if (ev_environment_id event \<noteq> ev_environment_id p) (u ''parent environment_id does not match''),
           deny_if (later_than (ev_recorded_at p) (ev_recorded_at event)) (u ''recorded_at precedes parent'')])"

definition verify_event_trusted_context :: "CanonicalEvent \<Rightarrow> EventTrustedContext \<Rightarrow> py_error option" where
  "verify_event_trusted_context event c =
     first_error (map (\<lambda>(name, a, b). deny_if (a \<noteq> b) (u ''trusted context '' @ u name @ u '' does not match event''))
       [(''organization_id'', ev_organization_id event, tc_organization_id c),
        (''tenant_id'', ev_tenant_id event, tc_tenant_id c),
        (''repository_id'', ev_repository_id event, tc_repository_id c),
        (''environment_id'', ev_environment_id event, tc_environment_id c),
        (''principal_id'', ev_principal_id event, tc_principal_id c),
        (''agent_client_id'', ev_agent_client_id event, tc_agent_client_id c),
        (''actor_type'', ev_actor_type event, tc_actor_type c), (''actor_id'', ev_actor_id event, tc_actor_id c),
        (''authorization_decision_id'', ev_authorization_decision_id event, tc_authorization_decision_id c)])"

section \<open>Reading\<close>

definition EVENT_FIELDS :: "pystr list" where
  "EVENT_FIELDS =
     map u [''protocol_version'', ''event_id'', ''event_sha256'', ''event_type'', ''event_version'',
       ''event_kind'', ''origin'', ''source'', ''stream_id'', ''stream_type'', ''stream_version'',
       ''global_position'', ''organization_id'', ''tenant_id'', ''repository_id'', ''environment_id'',
       ''principal_id'', ''agent_client_id'', ''actor_type'', ''actor_id'', ''authorization_decision_id'',
       ''request_id'', ''idempotency_key_sha256'', ''request_sha256'', ''correlation_id'', ''causation_id'',
       ''occurred_at'', ''recorded_at'', ''producer'', ''producer_version'', ''payload_schema'',
       ''payload_sha256'', ''previous_stream_event_sha256'', ''classification'', ''retention_policy_id'',
       ''artifact_refs'', ''payload'']"

definition strict_object :: "(pystr, pyval) dict \<Rightarrow> pystr list \<Rightarrow> pystr \<Rightarrow> py_error option" where
  "strict_object obj names label =
     deny_if (set (dict_keys obj) \<noteq> set names) (label @ u '' fields do not match contract'')"

definition event_str :: "(pystr, pyval) dict \<Rightarrow> string \<Rightarrow> pystr result" where
  "event_str obj name =
     (case dict_get obj (u name) of
        Some (PStr s) \<Rightarrow> Inr s
      | Some _ \<Rightarrow> Inl (event_invalid (u name @ u '' must be a string''))
      | None \<Rightarrow> Inl (KeyError (u name)))"

definition event_optional_str :: "(pystr, pyval) dict \<Rightarrow> string \<Rightarrow> pystr option result" where
  "event_optional_str obj name =
     (case dict_get obj (u name) of
        Some PNone \<Rightarrow> Inr None
      | Some (PStr s) \<Rightarrow> Inr (Some s)
      | Some _ \<Rightarrow> Inl (event_invalid (u name @ u '' must be a string or null''))
      | None \<Rightarrow> Inl (KeyError (u name)))"

definition event_int :: "(pystr, pyval) dict \<Rightarrow> string \<Rightarrow> int result" where
  "event_int obj name =
     (case dict_get obj (u name) of
        Some (PNum (PyInt i)) \<Rightarrow> Inr i
      | Some _ \<Rightarrow> Inl (event_invalid (u name @ u '' must be an integer''))
      | None \<Rightarrow> Inl (KeyError (u name)))"

text \<open>
  A field that is only cast: the constructor refuses whatever is not one of the names, and the empty
  text stands for every value that is not a string.
\<close>

definition cast_field :: "(pystr, pyval) dict \<Rightarrow> string \<Rightarrow> pystr" where
  "cast_field obj name = (case dict_get obj (u name) of Some (PStr s) \<Rightarrow> s | _ \<Rightarrow> [])"

text \<open>The entries of a JSON object, whose keys are strings.\<close>

fun object_entries :: "pydict \<Rightarrow> (pystr, pyval) dict option" where
  "object_entries [] = Some []"
| "object_entries ((PStr k, v) # d) = map_option ((#) (k, v)) (object_entries d)"
| "object_entries (_ # d) = None"

definition as_object :: "pydict \<Rightarrow> pystr \<Rightarrow> (pystr, pyval) dict result" where
  "as_object d label =
     (case object_entries d of
        None \<Rightarrow> Inl (event_invalid (label @ u '' keys must be strings'')) | Some obj \<Rightarrow> Inr obj)"

definition parse_source :: "pyval \<Rightarrow> EventSource result" where
  "parse_source value =
     (case value of
        PDict d \<Rightarrow>
          rbind (as_object d (u ''EventSource'')) (\<lambda>obj.
          or_raise (strict_object obj (map u [''source_system'', ''source_record_id'', ''evidence_quality'', ''observed_at''])
              (u ''EventSource''))
          (rbind (event_str obj ''source_system'') (\<lambda>system.
           rbind (event_str obj ''source_record_id'') (\<lambda>rid.
           rbind (event_str obj ''observed_at'') (\<lambda>observed.
           let s = \<lparr>es_source_system = system, es_source_record_id = rid,
                 es_evidence_quality = cast_field obj ''evidence_quality'', es_observed_at = observed\<rparr>
           in or_raise (source_error s) (Inr s))))))
      | _ \<Rightarrow> Inl (event_invalid (u ''source must be an object or null'')))"

definition ARTIFACT_REF_FIELDS :: "pystr list" where
  "ARTIFACT_REF_FIELDS =
     map u [''artifact_id'', ''content_sha256'', ''media_type'', ''size_bytes'', ''classification'',
       ''retention_policy_id'', ''encryption_key_id'', ''availability'']"

definition parse_artifact_ref :: "pyval \<Rightarrow> EventArtifactRef result" where
  "parse_artifact_ref value =
     (case value of
        PDict d \<Rightarrow>
          rbind (as_object d (u ''EventArtifactRef'')) (\<lambda>obj.
          or_raise (strict_object obj ARTIFACT_REF_FIELDS (u ''EventArtifactRef''))
          (rbind (event_str obj ''artifact_id'') (\<lambda>aid.
           rbind (event_str obj ''content_sha256'') (\<lambda>content.
           rbind (event_str obj ''media_type'') (\<lambda>media.
           rbind (event_int obj ''size_bytes'') (\<lambda>bytes.
           rbind (event_str obj ''retention_policy_id'') (\<lambda>retention.
           rbind (event_optional_str obj ''encryption_key_id'') (\<lambda>key.
           let r = \<lparr>ar_artifact_id = aid, ar_content_sha256 = content, ar_media_type = media, ar_size_bytes = bytes,
                 ar_classification = cast_field obj ''classification'', ar_retention_policy_id = retention,
                 ar_encryption_key_id = key, ar_availability = cast_field obj ''availability''\<rparr>
           in or_raise (artifact_ref_error r) (Inr r)))))))))
      | _ \<Rightarrow> Inl (event_invalid (u ''EventArtifactRef must be an object'')))"

definition parse_optional_source :: "pyval option \<Rightarrow> EventSource option result" where
  "parse_optional_source value =
     (case value of
        None \<Rightarrow> Inl (KeyError (u ''source''))
      | Some PNone \<Rightarrow> Inr None
      | Some v \<Rightarrow> rbind (parse_source v) (Inr \<circ> Some))"

definition parse_artifact_refs :: "pyval option \<Rightarrow> EventArtifactRef list result" where
  "parse_artifact_refs value =
     (case value of
        None \<Rightarrow> Inl (KeyError (u ''artifact_refs''))
      | Some (PList vs) \<Rightarrow>
          if EVENT_MAX_ARTIFACT_REFS < length vs then Inl (event_invalid (u ''artifact_refs exceeds the item limit''))
          else rmap parse_artifact_ref vs
      | Some _ \<Rightarrow> Inl (event_invalid (u ''artifact_refs must be an array'')))"

definition parse_payload :: "pyval option \<Rightarrow> pydict result" where
  "parse_payload value =
     (case value of
        None \<Rightarrow> Inl (KeyError (u ''payload''))
      | Some (PDict d) \<Rightarrow> Inr d
      | Some _ \<Rightarrow> Inl (event_invalid (u ''payload must be a JSON object'')))"

definition parse_canonical_event :: "runtime \<Rightarrow> (pystr \<Rightarrow> pystr) \<Rightarrow> (pystr, pyval) dict \<Rightarrow> CanonicalEvent result" where
  "parse_canonical_event rt sha obj =
     or_raise (strict_object obj EVENT_FIELDS (u ''CanonicalEvent''))
     (rbind (parse_optional_source (dict_get obj (u ''source''))) (\<lambda>source.
      rbind (parse_artifact_refs (dict_get obj (u ''artifact_refs''))) (\<lambda>artifact_refs.
      rbind (parse_payload (dict_get obj (u ''payload''))) (\<lambda>payload.
      rbind (event_str obj ''event_id'') (\<lambda>x_event_id.
      rbind (event_str obj ''event_sha256'') (\<lambda>x_event_sha256.
      rbind (event_str obj ''event_type'') (\<lambda>x_event_type.
      rbind (event_int obj ''event_version'') (\<lambda>x_event_version.
      rbind (event_str obj ''stream_id'') (\<lambda>x_stream_id.
      rbind (event_str obj ''stream_type'') (\<lambda>x_stream_type.
      rbind (event_int obj ''stream_version'') (\<lambda>x_stream_version.
      rbind (event_int obj ''global_position'') (\<lambda>x_global_position.
      rbind (event_str obj ''organization_id'') (\<lambda>x_organization_id.
      rbind (event_str obj ''tenant_id'') (\<lambda>x_tenant_id.
      rbind (event_str obj ''repository_id'') (\<lambda>x_repository_id.
      rbind (event_str obj ''environment_id'') (\<lambda>x_environment_id.
      rbind (event_str obj ''principal_id'') (\<lambda>x_principal_id.
      rbind (event_str obj ''agent_client_id'') (\<lambda>x_agent_client_id.
      rbind (event_str obj ''actor_id'') (\<lambda>x_actor_id.
      rbind (event_str obj ''authorization_decision_id'') (\<lambda>x_authorization_decision_id.
      rbind (event_str obj ''request_id'') (\<lambda>x_request_id.
      rbind (event_str obj ''idempotency_key_sha256'') (\<lambda>x_idempotency_key_sha256.
      rbind (event_str obj ''request_sha256'') (\<lambda>x_request_sha256.
      rbind (event_str obj ''correlation_id'') (\<lambda>x_correlation_id.
      rbind (event_optional_str obj ''causation_id'') (\<lambda>x_causation_id.
      rbind (event_optional_str obj ''occurred_at'') (\<lambda>x_occurred_at.
      rbind (event_str obj ''recorded_at'') (\<lambda>x_recorded_at.
      rbind (event_str obj ''producer'') (\<lambda>x_producer.
      rbind (event_str obj ''producer_version'') (\<lambda>x_producer_version.
      rbind (event_str obj ''payload_schema'') (\<lambda>x_payload_schema.
      rbind (event_str obj ''payload_sha256'') (\<lambda>x_payload_sha256.
      rbind (event_optional_str obj ''previous_stream_event_sha256'') (\<lambda>x_previous_stream_event_sha256.
      rbind (event_str obj ''retention_policy_id'') (\<lambda>x_retention_policy_id.
      rbind (event_str obj ''protocol_version'') (\<lambda>x_protocol_version.
      construct_event rt sha
         \<lparr>ev_event_id = x_event_id, ev_event_sha256 = x_event_sha256, ev_event_type = x_event_type,
          ev_event_version = x_event_version, ev_event_kind = cast_field obj ''event_kind'',
          ev_origin = cast_field obj ''origin'', ev_source = source, ev_stream_id = x_stream_id,
          ev_stream_type = x_stream_type, ev_stream_version = x_stream_version,
          ev_global_position = x_global_position, ev_organization_id = x_organization_id, ev_tenant_id = x_tenant_id,
          ev_repository_id = x_repository_id, ev_environment_id = x_environment_id, ev_principal_id = x_principal_id,
          ev_agent_client_id = x_agent_client_id, ev_actor_type = cast_field obj ''actor_type'',
          ev_actor_id = x_actor_id, ev_authorization_decision_id = x_authorization_decision_id,
          ev_request_id = x_request_id, ev_idempotency_key_sha256 = x_idempotency_key_sha256,
          ev_request_sha256 = x_request_sha256, ev_correlation_id = x_correlation_id,
          ev_causation_id = x_causation_id, ev_occurred_at = x_occurred_at, ev_recorded_at = x_recorded_at,
          ev_producer = x_producer, ev_producer_version = x_producer_version, ev_payload_schema = x_payload_schema,
          ev_payload_sha256 = x_payload_sha256, ev_previous_stream_event_sha256 = x_previous_stream_event_sha256,
          ev_classification = cast_field obj ''classification'', ev_retention_policy_id = x_retention_policy_id,
          ev_artifact_refs = artifact_refs, ev_payload = payload, ev_protocol_version = x_protocol_version\<rparr>))))))))))))))))))))))))))))))))))"

end
