(* ===== verification/CanonicalUnique.thy ===== *)
theory CanonicalUnique
  imports Canonical
begin

text \<open>
  Canonical JSON is unambiguous: two objects with the same keys and the same text have the same text
  in every field, and a string or an integer is determined by its text. So a content address commits
  to every field of a record, as far as the hash function tells texts apart. The proof reads the text
  from the left with a scanner that stops at the first delimiter outside of strings and brackets.
\<close>

section \<open>Strings\<close>

lemma hex_pad_plain: "x \<in> set (hex_pad w c) \<Longrightarrow> x \<noteq> 34 \<and> x \<noteq> 92"
proof -
  assume x: "x \<in> set (hex_pad w c)"
  have "hex_digit d \<noteq> 34 \<and> hex_digit d \<noteq> 92" for d by (auto simp: hex_digit_def)
  with x show ?thesis by (auto simp: hex_pad_def pad_left_def split: if_splits)
qed

lemma control_escapes:
  "list_all (\<lambda>c. length (hex_pad 4 c) = 4 \<and> list_all (\<lambda>c'. hex_pad 4 c = hex_pad 4 c' \<longrightarrow> c = c') [0..<32]) [0..<32]"
  by code_simp

lemma hex_pad_control: "c < 32 \<Longrightarrow> length (hex_pad 4 c) = 4" "c < 32 \<Longrightarrow> c' < 32 \<Longrightarrow> hex_pad 4 c = hex_pad 4 c' \<Longrightarrow> c = c'"
  using control_escapes by (auto simp: list_all_iff)

text \<open>How a character is written: itself, a backslash with one character, or a number.\<close>

lemma canonical_char_cases:
  obtains "c \<noteq> 34" "c \<noteq> 92" "32 \<le> c" "canonical_char c = [c]"
  | x where "canonical_char c = [92, x]" "x \<noteq> 117"
      "(c, x) \<in> {(34, 34), (92, 92), (10, 110), (13, 114), (9, 116), (12, 102), (8, 98)}"
  | "c < 32" "canonical_char c = [92, 117] @ hex_pad 4 c"
proof -
  consider "c \<noteq> 34" "c \<noteq> 92" "32 \<le> c" | "c \<in> {34, 92, 10, 13, 9, 12, 8}" | "c < 32" "c \<notin> {10, 13, 9, 12, 8}"
    by fastforce
  then show thesis
  proof cases
    case 1
    then show thesis using that(1) by (auto simp: canonical_char_def)
  next
    case 2
    then show thesis by (elim insertE emptyE) (auto simp: canonical_char_def json_char_def intro: that(2))
  next
    case 3
    then show thesis using that(3) by (auto simp: canonical_char_def json_char_def)
  qed
qed

lemma canonical_char_head: "\<exists>x xs. canonical_char c = x # xs \<and> x \<noteq> 34"
  by (cases c rule: canonical_char_cases) auto

lemma canonical_char_unique:
  assumes "canonical_char c @ r = canonical_char c' @ r'"
  shows "c = c' \<and> r = r'"
proof (cases c rule: canonical_char_cases)
  case 1
  then show ?thesis using assms by (cases c' rule: canonical_char_cases) auto
next
  case (2 x)
  then show ?thesis using assms by (cases c' rule: canonical_char_cases) auto
next
  case 3
  then show ?thesis using assms
    by (cases c' rule: canonical_char_cases) (auto simp: hex_pad_control(1) dest: hex_pad_control(2))
qed

lemma canonical_chars_unique:
  "concat (map canonical_char s) @ 34 # r = concat (map canonical_char s') @ 34 # r' \<Longrightarrow> s = s' \<and> r = r'"
proof (induction s arbitrary: s')
  case Nil
  then show ?case using canonical_char_head by (cases s') (auto, metis append_Cons list.inject)
next
  case (Cons c s)
  show ?case
  proof (cases s')
    case Nil
    then show ?thesis using Cons.prems canonical_char_head [of c] by auto
  next
    case (Cons c' t)
    then show ?thesis using Cons.prems Cons.IH [of t] canonical_char_unique [of c _ c'] by auto
  qed
qed

lemma canonical_string_unique: "canonical_string s @ r = canonical_string s' @ r' \<Longrightarrow> s = s' \<and> r = r'"
  using canonical_chars_unique [of s r s' r'] by (simp add: canonical_string_def)

lemma canonical_string_inj [simp]: "canonical_string s = canonical_string s' \<longleftrightarrow> s = s'"
  using canonical_string_unique [of s "[]" s' "[]"] by auto

section \<open>The scanner\<close>

datatype scan_mode = Outside | Inside | Escaped

text \<open>
  One character: the depth of open brackets and the mode. There is no next state at a delimiter that
  ends the value at depth 0.
\<close>

fun scan_step :: "nat \<times> scan_mode \<Rightarrow> nat \<Rightarrow> (nat \<times> scan_mode) option" where
  "scan_step (d, Outside) c =
     (if c = 34 then Some (d, Inside)
      else if c \<in> {91, 123} then Some (Suc d, Outside)
      else if c \<in> {93, 125} then (if d = 0 then None else Some (d - 1, Outside))
      else if c = 44 \<and> d = 0 then None else Some (d, Outside))"
| "scan_step (d, Inside) c = Some (d, if c = 34 then Outside else if c = 92 then Escaped else Inside)"
| "scan_step (d, Escaped) c = Some (d, Inside)"

fun scan :: "nat \<times> scan_mode \<Rightarrow> pystr \<Rightarrow> (nat \<times> scan_mode) option" where
  "scan st [] = Some st"
| "scan st (c # s) = Option.bind (scan_step st c) (\<lambda>st'. scan st' s)"

lemma scan_append: "scan st (a @ b) = Option.bind (scan st a) (\<lambda>st'. scan st' b)"
  by (induction a arbitrary: st) (auto split: Option.bind_splits)

lemma scan_inside: "\<forall>x\<in>set s. x \<noteq> 34 \<and> x \<noteq> 92 \<Longrightarrow> scan (d, Inside) s = Some (d, Inside)"
  by (induction s) auto

lemma scan_canonical_char: "scan (d, Inside) (canonical_char c) = Some (d, Inside)"
proof (cases c rule: canonical_char_cases)
  case 3
  have "scan (d, Inside) (hex_pad 4 c) = Some (d, Inside)" by (rule scan_inside) (auto dest: hex_pad_plain)
  with 3 show ?thesis by simp
qed auto

lemma scan_canonical_string [simp]: "scan (d, Outside) (canonical_string s) = Some (d, Outside)"
proof -
  have "scan (d, Inside) (concat (map canonical_char s)) = Some (d, Inside)"
    by (induction s) (simp_all add: scan_append scan_canonical_char)
  then show ?thesis by (simp add: canonical_string_def scan_append)
qed

lemma scan_plain: "\<forall>x\<in>set s. x \<notin> {34, 44, 91, 93, 123, 125} \<Longrightarrow> scan (d, Outside) s = Some (d, Outside)"
  by (induction s) auto

lemma scan_join:
  assumes "\<forall>t\<in>set ts. scan (Suc d, Outside) t = Some (Suc d, Outside)"
  shows "scan (Suc d, Outside) (join (u '','') ts) = Some (Suc d, Outside)"
  using assms by (induction "u '',''" ts rule: join.induct) (auto simp: scan_append u_def)

section \<open>Values\<close>

text \<open>How Python writes numbers: without the characters that structure JSON, and integers apart.\<close>

definition json_numbers :: "runtime \<Rightarrow> bool" where
  "json_numbers rt \<longleftrightarrow>
     (\<forall>n. \<forall>c\<in>set (rt_format_number rt n). c \<notin> {34, 44, 91, 93, 123, 125}) \<and>
     (\<forall>i j. rt_format_number rt (PyInt i) = rt_format_number rt (PyInt j) \<longrightarrow> i = j)"

lemma all_some_iff: "all_some xs = Some ys \<longleftrightarrow> xs = map Some ys"
proof (induction xs arbitrary: ys)
  case (Cons x xs)
  then show ?case by (cases x) (auto simp: Cons_eq_map_conv)
qed auto

lemma scan_bracket:
  assumes "\<forall>t\<in>set ts. scan (Suc d, Outside) t = Some (Suc d, Outside)"
  shows "scan (d, Outside) (u ''['' @ join (u '','') ts @ u '']'') = Some (d, Outside)"
    "scan (d, Outside) (u ''{'' @ join (u '','') ts @ u ''}'') = Some (d, Outside)"
  by (simp_all only: scan_append scan_join [OF assms] Option.bind.simps) (simp_all add: u_def scan_join [OF assms, unfolded u_def, simplified])

text \<open>A member of an object.\<close>

lemma scan_member: "scan (d, Outside) t = Some (d, Outside) \<Longrightarrow> scan (d, Outside) (canonical_string k @ u '':'' @ t) = Some (d, Outside)"
  by (simp add: scan_append) (simp add: u_def)

lemma scan_value:
  assumes "json_numbers rt"
  shows "canonical_json rt v = Some t \<Longrightarrow> scan (d, Outside) t = Some (d, Outside)"
  using assms
proof (induction rt v arbitrary: t d rule: canonical_json.induct)
  case (5 rt vs)
  then obtain ts where ts: "map (canonical_json rt) vs = map Some ts" and t: "t = u ''['' @ join (u '','') ts @ u '']''"
    by (auto simp: all_some_iff)
  have "scan (Suc d, Outside) x = Some (Suc d, Outside)" if "x \<in> set ts" for x
    using that ts 5 by (metis (no_types, lifting) imageE image_eqI list.set_map)
  then show ?case unfolding t by (intro scan_bracket) blast
next
  case (6 rt ps)
  let ?s = "sort_key (key_text \<circ> fst) ps"
  from 6(2) obtain ts where ts: "map (\<lambda>(k, v). canonical_json rt v) ?s = map Some ts"
    and t: "t = u ''{'' @ join (u '','') (map2 (\<lambda>k t. canonical_string k @ u '':'' @ t) (map (key_text \<circ> fst) ?s) ts) @ u ''}''"
    by (auto simp: all_some_iff)
  have "scan (Suc d, Outside) x = Some (Suc d, Outside)" if x: "x \<in> set ts" for x
  proof -
    have "Some x \<in> set (map (\<lambda>(k, v). canonical_json rt v) ?s)" unfolding ts using x by simp
    then obtain k v where "(k, v) \<in> set ?s" "canonical_json rt v = Some x" by auto
    then show ?thesis using 6(1) [of "(k, v)" k v x "Suc d"] 6(3) by simp
  qed
  then have "\<forall>m\<in>set (map2 (\<lambda>k t. canonical_string k @ u '':'' @ t) (map (key_text \<circ> fst) ?s) ts).
      scan (Suc d, Outside) m = Some (Suc d, Outside)"
    by (auto dest!: set_zip_rightD intro!: scan_member)
  then show ?case unfolding t by (rule scan_bracket)
next
  case (4 rt s)
  then show ?case using scan_canonical_string [of d s] by simp
qed (auto simp: json_numbers_def u_def split: if_splits intro!: scan_plain)

section \<open>Objects with the same keys\<close>

lemma delimiter_unique:
  assumes "a @ c # r = a' @ c' # r'" and "scan (0, Outside) a = Some (0, Outside)" "scan (0, Outside) a' = Some (0, Outside)"
    and "c \<in> {44, 93, 125}" "c' \<in> {44, 93, 125}"
  shows "a = a' \<and> c = c' \<and> r = r'"
proof -
  have stop: False if "b = a @ c # z" "scan (0, Outside) a = Some (0, Outside)" "scan (0, Outside) b = Some (0, Outside)"
      "c \<in> {44, 93, 125 :: nat}" for a b z c
    using that by (auto simp: scan_append)
  from assms(1) consider "a = a'" | z where "a' = a @ c # z" | z where "a = a' @ c' # z"
    by (auto simp: append_eq_append_conv2 Cons_eq_append_conv append_eq_Cons_conv)
  then show ?thesis using assms stop by cases auto
qed

lemma members_unique:
  "join (u '','') ms @ [125] = join (u '','') ms' @ [125] \<Longrightarrow> length ms = length ms' \<Longrightarrow>
   \<forall>m\<in>set ms \<union> set ms'. scan (0, Outside) m = Some (0, Outside) \<Longrightarrow> ms = ms'"
proof (induction ms arbitrary: ms')
  case (Cons m ms)
  then obtain m' ns where ms': "ms' = m' # ns" "length ms = length ns" by (cases ms') auto
  show ?case
  proof (cases "ms = []")
    case True
    then show ?thesis using Cons.prems(1) ms' by simp
  next
    case False
    then have "ns \<noteq> []" using ms' by auto
    then have "m @ 44 # join (u '','') ms @ [125] = m' @ 44 # join (u '','') ns @ [125]"
      using Cons.prems(1) False by (simp add: ms' join_Cons) (simp add: u_def)
    from delimiter_unique [OF this] show ?thesis using Cons.prems(3) Cons.IH [of ns] ms' by auto
  qed
qed simp

lemma map_insort_key: "map f (insort_key (\<lambda>x. k (f x)) x xs) = insort_key k (f x) (map f xs)"
  by (induction xs) auto

lemma map_sort_key: "map f (sort_key (\<lambda>x. k (f x)) xs) = sort_key k (map f xs)"
  by (induction xs) (simp_all add: map_insort_key)

lemma insort_key_same: "\<forall>y\<in>insert x (set xs). f y = g y \<Longrightarrow> insort_key f x xs = insort_key g x xs"
  by (induction xs) auto

lemma sort_key_same: "\<forall>x\<in>set xs. f x = g x \<Longrightarrow> sort_key f xs = sort_key g xs"
  by (induction xs) (auto intro!: insort_key_same)

lemma members_values:
  "length ks = length ts \<Longrightarrow> length ks = length ts' \<Longrightarrow>
   map2 (\<lambda>k t. canonical_string k @ u '':'' @ t) ks ts = map2 (\<lambda>k t. canonical_string k @ u '':'' @ t) ks ts' \<Longrightarrow> ts = ts'"
proof (induction ks arbitrary: ts ts')
  case (Cons k ks)
  then obtain t us t' us' where "ts = t # us" "ts' = t' # us'" by (metis length_Suc_conv)
  with Cons.prems Cons.IH [of us us'] show ?case by simp
qed simp

lemma canonical_text_iff:
  "canonical_text rt d = Some t \<longleftrightarrow>
     (\<exists>ts. map (canonical_json rt \<circ> snd) (sort_key fst d) = map Some ts \<and>
        t = u ''{'' @ join (u '','') (map2 (\<lambda>k t. canonical_string k @ u '':'' @ t) (map fst (sort_key fst d)) ts) @ u ''}'')"
proof -
  let ?f = "\<lambda>(k, v). (PStr k, v) :: pyval \<times> pyval"
  have "(\<lambda>x. (key_text \<circ> fst) (?f x)) = fst" by auto
  then have 1: "sort_key (key_text \<circ> fst) (map ?f d) = map ?f (sort_key fst d)"
    using map_sort_key [of ?f "key_text \<circ> fst" d] by (simp only:)
  have 2: "map (\<lambda>(k, v). canonical_json rt v) (map ?f (sort_key fst d)) = map (canonical_json rt \<circ> snd) (sort_key fst d)"
    "map (key_text \<circ> fst) (map ?f (sort_key fst d)) = map fst (sort_key fst d)"
    by auto
  show ?thesis unfolding canonical_text_def canonical_json.simps 1 2 all_some_iff map_option_eq_Some by metis
qed

lemma zip_same_keys: "map fst d = map fst d' \<Longrightarrow> p \<in> set (zip d d') \<Longrightarrow> fst (fst p) = fst (snd p)"
  by (induction d d' rule: list_induct2') auto

lemma same_text_same_fields:
  assumes num: "json_numbers rt" and keys: "map fst d = map fst d'"
    and d: "canonical_text rt d = Some t" and d': "canonical_text rt d' = Some t"
  shows "list_all2 (\<lambda>x y. canonical_json rt (snd x) = canonical_json rt (snd y)) d d'"
proof -
  define z where "z = sort_key (\<lambda>p. fst (fst p)) (zip d d')"
  have len: "length d = length d'" using keys by (metis length_map)
  have "map fst z = sort_key fst d" using map_sort_key [of fst fst "zip d d'"] len by (simp add: z_def)
  moreover have same: "\<forall>p\<in>set (zip d d'). fst (fst p) = fst (snd p)"
    using zip_same_keys [OF keys] by blast
  then have "map snd z = sort_key fst d'"
    using map_sort_key [of snd fst "zip d d'"] sort_key_same [OF same] len by (simp add: z_def)
  ultimately obtain ts ts' where
    ts: "map (canonical_json rt \<circ> snd) (map fst z) = map Some ts" "map (canonical_json rt \<circ> snd) (map snd z) = map Some ts'"
    and t: "t = u ''{'' @ join (u '','') (map2 (\<lambda>k t. canonical_string k @ u '':'' @ t) (map fst (map fst z)) ts) @ u ''}''"
      "t = u ''{'' @ join (u '','') (map2 (\<lambda>k t. canonical_string k @ u '':'' @ t) (map fst (map snd z)) ts') @ u ''}''"
    using d d' unfolding canonical_text_iff by metis
  have z: "set z = set (zip d d')" by (simp add: z_def)
  then have ks: "map fst (map snd z) = map fst (map fst z)" using same by simp
  have lens: "length ts = length z" "length ts' = length z" using ts by (metis length_map)+
  have scans: "scan (0, Outside) x = Some (0, Outside)" if "x \<in> set ts \<union> set ts'" for x
  proof -
    have "Some x \<in> set (map (canonical_json rt \<circ> snd) (map fst z)) \<union> set (map (canonical_json rt \<circ> snd) (map snd z))"
      unfolding ts using that by auto
    then obtain v where "canonical_json rt v = Some x" by auto
    then show ?thesis by (rule scan_value [OF num])
  qed
  have "map2 (\<lambda>k t. canonical_string k @ u '':'' @ t) (map fst (map fst z)) ts =
      map2 (\<lambda>k t. canonical_string k @ u '':'' @ t) (map fst (map fst z)) ts'"
  proof (rule members_unique)
    show "join (u '','') (map2 (\<lambda>k t. canonical_string k @ u '':'' @ t) (map fst (map fst z)) ts) @ [125] =
        join (u '','') (map2 (\<lambda>k t. canonical_string k @ u '':'' @ t) (map fst (map fst z)) ts') @ [125]"
      using t unfolding ks by (simp add: u_def)
  qed (use scans lens in \<open>auto dest!: set_zip_rightD intro!: scan_member\<close>)
  then have "ts = ts'" by (rule members_values [rotated -1]) (simp_all add: lens)
  with ts have "map (canonical_json rt \<circ> snd) (map fst z) = map (canonical_json rt \<circ> snd) (map snd z)" by (simp only:)
  then have "canonical_json rt (snd (fst p)) = canonical_json rt (snd (snd p))" if "p \<in> set z" for p
    using that by simp
  then show ?thesis using z len by (auto simp: list_all2_iff)
qed

lemma same_text_fields:
  assumes "json_numbers rt" and "canonical_text rt d = Some t" "canonical_text rt d' = Some t" and "map fst d = map fst d'"
    and "i < length d"
  shows "canonical_json rt (snd (d ! i)) = canonical_json rt (snd (d' ! i))"
  using same_text_same_fields [OF assms(1,4,2,3)] assms(5) by (simp add: list_all2_conv_all_nth)

lemma text_field_written: "canonical_text rt d = Some t \<Longrightarrow> x \<in> set d \<Longrightarrow> canonical_json rt (snd x) \<noteq> None"
proof -
  assume "canonical_text rt d = Some t" and x: "x \<in> set d"
  then obtain ts where "map (canonical_json rt \<circ> snd) (sort_key fst d) = map Some ts" by (auto simp: canonical_text_iff)
  then have "(canonical_json rt \<circ> snd) ` set (sort_key fst d) = Some ` set ts" by (metis list.set_map)
  moreover have "x \<in> set (sort_key fst d)" using x by simp
  ultimately have "canonical_json rt (snd x) \<in> Some ` set ts" by (metis comp_apply image_eqI)
  then show ?thesis by auto
qed

text \<open>Single values.\<close>

lemma canonical_string_start: "canonical_string s = 34 # tl (canonical_string s)"
  by (simp add: canonical_string_def)

lemma same_str_json [simp]: "canonical_json rt (PStr a) = canonical_json rt (PStr b) \<longleftrightarrow> a = b"
  by simp

lemma null_is_no_string: "u ''null'' \<noteq> canonical_string s" "canonical_string s \<noteq> u ''null''"
  by (simp_all add: canonical_string_def u_def)

lemma same_int_json:
  "json_numbers rt \<Longrightarrow> canonical_json rt (PNum (PyInt i)) \<noteq> None \<Longrightarrow>
   canonical_json rt (PNum (PyInt i)) = canonical_json rt (PNum (PyInt j)) \<Longrightarrow> i = j"
  by (auto simp: json_numbers_def split: if_splits)

text \<open>Lists: the same text has the same number of items, each with the same text.\<close>

lemma items_unique:
  "join (u '','') ms @ [93] = join (u '','') ms' @ [93] \<Longrightarrow>
   \<forall>m\<in>set ms \<union> set ms'. m \<noteq> [] \<and> scan (0, Outside) m = Some (0, Outside) \<Longrightarrow> ms = ms'"
proof (induction ms arbitrary: ms')
  case Nil
  have "m # ns = []" if "join (u '','') [] @ [93] = join (u '','') (m # ns) @ [93]" "m \<noteq> []" for m ns
    using that by (cases ns; cases m) auto
  with Nil show ?case by (cases ms') auto
next
  case (Cons m ms)
  have split: "join (u '','') (x # xs) @ [93] = x @ (if xs = [] then [93] else 44 # join (u '','') xs @ [93])" for x xs
    by (cases xs) (simp_all add: u_def)
  obtain m' ns where ms': "ms' = m' # ns"
    using Cons.prems by (cases ms'; cases ms; cases m) auto
  have "m @ (if ms = [] then [93] else 44 # join (u '','') ms @ [93]) = m' @ (if ns = [] then [93] else 44 # join (u '','') ns @ [93])"
    using Cons.prems(1) unfolding ms' split .
  then have "m = m' \<and> (ms = [] \<longleftrightarrow> ns = []) \<and> join (u '','') ms @ [93] = join (u '','') ns @ [93]"
    using delimiter_unique [of m 93 "[]" m' 93 "[]"] delimiter_unique [of m 93 "[]" m' 44 "join (u '','') ns @ [93]"]
      delimiter_unique [of m 44 "join (u '','') ms @ [93]" m' 93 "[]"]
      delimiter_unique [of m 44 "join (u '','') ms @ [93]" m' 44 "join (u '','') ns @ [93]"] Cons.prems(2)
    by (auto simp: ms' split: if_splits)
  with Cons.IH [of ns] Cons.prems(2) show ?case by (simp add: ms')
qed

lemma same_list_json:
  assumes num: "json_numbers rt" and t: "canonical_json rt (PList vs) = Some t" "canonical_json rt (PList ws) = Some t"
    and ne: "\<And>v x. v \<in> set vs \<union> set ws \<Longrightarrow> canonical_json rt v = Some x \<Longrightarrow> x \<noteq> []"
  shows "list_all2 (\<lambda>v w. canonical_json rt v = canonical_json rt w \<and> canonical_json rt v \<noteq> None) vs ws"
proof -
  obtain ts us where ts: "map (canonical_json rt) vs = map Some ts" "t = u ''['' @ join (u '','') ts @ u '']''"
    and us: "map (canonical_json rt) ws = map Some us" "t = u ''['' @ join (u '','') us @ u '']''"
    using t by (auto simp: all_some_iff)
  have item: "\<exists>v\<in>set vs \<union> set ws. canonical_json rt v = Some x" if "x \<in> set ts \<union> set us" for x
  proof -
    have "Some x \<in> set (map (canonical_json rt) vs) \<union> set (map (canonical_json rt) ws)" unfolding ts(1) us(1) using that by auto
    then show ?thesis by auto
  qed
  have "ts = us"
  proof (rule items_unique)
    show "join (u '','') ts @ [93] = join (u '','') us @ [93]" using ts(2) us(2) by (simp add: u_def)
    show "\<forall>m\<in>set ts \<union> set us. m \<noteq> [] \<and> scan (0, Outside) m = Some (0, Outside)"
      using item ne scan_value [OF num] by blast
  qed
  with ts(1) us(1) have e: "map (canonical_json rt) vs = map (canonical_json rt) ws" by (simp only:)
  then have len: "length vs = length ws" by (metis length_map)
  have "canonical_json rt (vs ! i) = canonical_json rt (ws ! i) \<and> canonical_json rt (vs ! i) \<noteq> None" if "i < length vs" for i
    using that len arg_cong [OF e, of "\<lambda>l. l ! i"] arg_cong [OF ts(1), of "\<lambda>l. l ! i"] arg_cong [OF ts(1), of length]
    by simp (metis not_Some_eq)
  with len show ?thesis unfolding list_all2_conv_all_nth by blast
qed

end
