(* ===== verification/EventFacts.thy ===== *)
theory EventFacts
  imports EventV1 CanonicalUnique
begin

text \<open>
  Streams of events: what the links of a stream imply, and that the digest of the last event commits
  to the whole stream. Reading an event that was written.
\<close>

section \<open>Valid events\<close>

text \<open>The text that is hashed: the tag of the protocol and the envelope without its digest.\<close>

definition signed_text :: "runtime \<Rightarrow> CanonicalEvent \<Rightarrow> pystr" where
  "signed_text rt e = EVENT_PROTOCOL_VERSION @ [0] @ the (canonical_text rt (canonical_event_fields e))"

lemma event_json_Inr_iff: "event_json rt v = Inr t \<longleftrightarrow> canonical_json rt v = Some t \<and> encodable t"
  by (auto simp: event_json_def split: option.splits)

lemma canonical_event_sha256_Inr:
  assumes "canonical_event_sha256 rt sha d = Inr x"
  obtains t where "canonical_text rt d = Some t" "x = u ''sha256:'' @ sha (EVENT_PROTOCOL_VERSION @ [0] @ t)"
  using assms that
  by (auto simp: canonical_event_sha256_def result_simps event_json_Inr_iff canonical_text_def str_keys_def event_sha256_def)

lemma valid_event_digest:
  assumes "canonical_event_error rt sha e = None"
  shows "canonical_text rt (canonical_event_fields e) \<noteq> None" "ev_event_sha256 e = u ''sha256:'' @ sha (signed_text rt e)"
proof -
  from assms have "event_digest_error rt sha e = None"
    unfolding canonical_event_error_def first_error_None_iff by simp
  then have "canonical_event_sha256 rt sha (canonical_event_fields e) = Inr (ev_event_sha256 e)"
    by (auto simp: event_digest_error_def split: sum.splits if_splits)
  then obtain t where "canonical_text rt (canonical_event_fields e) = Some t"
    "ev_event_sha256 e = u ''sha256:'' @ sha (EVENT_PROTOCOL_VERSION @ [0] @ t)"
    by (rule canonical_event_sha256_Inr)
  then show "canonical_text rt (canonical_event_fields e) \<noteq> None" "ev_event_sha256 e = u ''sha256:'' @ sha (signed_text rt e)"
    by (simp_all add: signed_text_def)
qed

lemma valid_event_versions:
  assumes "canonical_event_error rt sha e = None"
  shows "1 \<le> ev_event_version e" "ev_event_version e \<le> EVENT_MAX_VERSION" "1 \<le> ev_stream_version e"
    "ev_stream_version e \<le> EVENT_MAX_VERSION" "1 \<le> ev_global_position e" "ev_global_position e \<le> EVENT_MAX_VERSION"
  using assms unfolding canonical_event_error_def first_error_None_iff by (simp_all add: positive_version_def)

section \<open>Streams\<close>

text \<open>A stream, the newest event first: every event is valid and verified against its parent.\<close>

fun event_chain :: "runtime \<Rightarrow> (pystr \<Rightarrow> pystr) \<Rightarrow> CanonicalEvent list \<Rightarrow> bool" where
  "event_chain rt sha [] = True"
| "event_chain rt sha [e] \<longleftrightarrow> canonical_event_error rt sha e = None \<and> verify_event_parent e None = None"
| "event_chain rt sha (e # p # es) \<longleftrightarrow>
     canonical_event_error rt sha e = None \<and> verify_event_parent e (Some p) = None \<and> event_chain rt sha (p # es)"

definition stream_identity :: "CanonicalEvent \<Rightarrow> pystr list" where
  "stream_identity e = [ev_stream_id e, ev_stream_type e, ev_organization_id e, ev_tenant_id e, ev_repository_id e,
     ev_environment_id e]"

lemma parent_None_iff: "verify_event_parent e None = None \<longleftrightarrow> ev_stream_version e = 1"
  by (simp add: verify_event_parent_def)

lemma parent_Some:
  assumes "verify_event_parent e (Some p) = None"
  shows "ev_stream_version e \<noteq> 1" "ev_previous_stream_event_sha256 e = Some (ev_event_sha256 p)"
    "ev_stream_version e = ev_stream_version p + 1" "ev_global_position p < ev_global_position e"
    "stream_identity e = stream_identity p" "\<not> later_than (ev_recorded_at p) (ev_recorded_at e)"
  using assms unfolding verify_event_parent_def by (auto simp: stream_identity_def split: if_splits)

lemma chain_tail: "event_chain rt sha (e # es) \<Longrightarrow> event_chain rt sha es"
  by (cases es) auto

lemma chain_valid: "event_chain rt sha es \<Longrightarrow> e \<in> set es \<Longrightarrow> canonical_event_error rt sha e = None"
  by (induction rt sha es rule: event_chain.induct) auto

lemma chain_head_version: "event_chain rt sha (e # es) \<Longrightarrow> ev_stream_version e = int (Suc (length es))"
proof (induction es arbitrary: e)
  case Nil
  then show ?case by (simp add: parent_None_iff)
next
  case (Cons p es)
  then show ?case using parent_Some(3) [of e p] by auto
qed

lemma chain_order:
  "event_chain rt sha es \<Longrightarrow> sorted_wrt (\<lambda>e p. ev_global_position p < ev_global_position e) es"
proof (induction rt sha es rule: event_chain.induct)
  case (3 rt sha e p es)
  then have "ev_global_position p < ev_global_position e" using parent_Some(4) by auto
  moreover have "\<forall>x\<in>set es. ev_global_position x < ev_global_position p" using 3 by auto
  ultimately show ?case using 3 by fastforce
qed auto

lemma chain_identity: "event_chain rt sha (e # es) \<Longrightarrow> x \<in> set (e # es) \<Longrightarrow> stream_identity x = stream_identity e"
proof (induction es arbitrary: e)
  case (Cons p es)
  then show ?case using parent_Some(5) [of e p] by auto
qed auto

text \<open>Adding newer events, oldest first, one by one.\<close>

fun linked :: "CanonicalEvent option \<Rightarrow> CanonicalEvent list \<Rightarrow> bool" where
  "linked p [] = True"
| "linked p (e # es) \<longleftrightarrow> verify_event_parent e p = None \<and> linked (Some e) es"

definition head_of :: "'a list \<Rightarrow> 'a option" where
  "head_of xs = (case xs of [] \<Rightarrow> None | x # _ \<Rightarrow> Some x)"

lemma chain_extend:
  "event_chain rt sha es \<Longrightarrow> linked (head_of es) new \<Longrightarrow> \<forall>e\<in>set new. canonical_event_error rt sha e = None \<Longrightarrow>
   event_chain rt sha (rev new @ es)"
proof (induction new arbitrary: es)
  case (Cons e new)
  have "event_chain rt sha (e # es)" using Cons.prems by (cases es) (auto simp: head_of_def)
  then show ?case using Cons.IH [of "e # es"] Cons.prems by (simp add: head_of_def)
qed simp

section \<open>The digest commits to the event\<close>

definition same_event :: "runtime \<Rightarrow> CanonicalEvent \<Rightarrow> CanonicalEvent \<Rightarrow> bool" where
  "same_event rt e f \<longleftrightarrow> e\<lparr>ev_payload := []\<rparr> = f\<lparr>ev_payload := []\<rparr> \<and>
     canonical_json rt (PDict (ev_payload e)) = canonical_json rt (PDict (ev_payload f))"

lemma object_json: "canonical_json rt (PDict (str_keys d)) = canonical_text rt d"
  by (simp add: canonical_text_def str_keys_def)

lemma object_json_start: "canonical_json rt (PDict d) = Some t \<Longrightarrow> \<exists>x. t = 123 # x"
  by (auto simp: u_def)

lemma same_str_or_none: "canonical_json rt (str_or_none a) = canonical_json rt (str_or_none b) \<longleftrightarrow> a = b"
  by (cases a; cases b) (auto simp: str_or_none_def null_is_no_string)

lemma same_source:
  assumes "json_numbers rt" "canonical_json rt (PDict (str_keys (source_fields s))) = Some x"
    "canonical_json rt (PDict (str_keys (source_fields s'))) = Some x"
  shows "s = s'"
proof -
  have "map fst (source_fields s) = map fst (source_fields s')" by (simp add: source_fields_def)
  from same_text_same_fields [OF assms(1) this] assms(2,3)
  have "list_all2 (\<lambda>x y. canonical_json rt (snd x) = canonical_json rt (snd y)) (source_fields s) (source_fields s')"
    by (simp only: object_json)
  then show ?thesis by (simp add: source_fields_def EventSource.equality)
qed

lemma same_artifact_ref:
  assumes num: "json_numbers rt" and t: "canonical_json rt (PDict (str_keys (artifact_ref_fields r))) = Some x"
    "canonical_json rt (PDict (str_keys (artifact_ref_fields r'))) = Some x"
  shows "r = r'"
proof -
  have "map fst (artifact_ref_fields r) = map fst (artifact_ref_fields r')" by (simp add: artifact_ref_fields_def)
  from same_text_same_fields [OF num this] t
  have all: "list_all2 (\<lambda>x y. canonical_json rt (snd x) = canonical_json rt (snd y)) (artifact_ref_fields r) (artifact_ref_fields r')"
    by (simp only: object_json)
  have "(u ''size_bytes'', PNum (PyInt (ar_size_bytes r))) \<in> set (artifact_ref_fields r)" by (simp add: artifact_ref_fields_def)
  from text_field_written [OF t(1) [unfolded object_json] this]
  have "canonical_json rt (PNum (PyInt (ar_size_bytes r))) \<noteq> None" unfolding snd_conv .
  moreover from all have "canonical_json rt (PNum (PyInt (ar_size_bytes r))) = canonical_json rt (PNum (PyInt (ar_size_bytes r')))"
    by (simp only: artifact_ref_fields_def list_all2_Cons snd_conv)
  ultimately have "ar_size_bytes r = ar_size_bytes r'" by (rule same_int_json [OF num])
  with all show ?thesis
    by (simp only: artifact_ref_fields_def list_all2_Cons snd_conv same_str_json same_str_or_none) (simp add: EventArtifactRef.equality)
qed

lemma same_artifact_refs:
  assumes num: "json_numbers rt"
    and t: "canonical_json rt (PList (map (\<lambda>r. PDict (str_keys (artifact_ref_fields r))) rs)) = Some x"
      "canonical_json rt (PList (map (\<lambda>r. PDict (str_keys (artifact_ref_fields r))) rs')) = Some x"
  shows "rs = rs'"
proof -
  have "list_all2 (\<lambda>v w. canonical_json rt v = canonical_json rt w \<and> canonical_json rt v \<noteq> None)
      (map (\<lambda>r. PDict (str_keys (artifact_ref_fields r))) rs) (map (\<lambda>r. PDict (str_keys (artifact_ref_fields r))) rs')"
    by (rule same_list_json [OF num t]) (auto dest: object_json_start)
  then have "list_all2 (=) rs rs'"
    unfolding list_all2_map1 list_all2_map2
    by (rule list_all2_mono) (metis not_None_eq same_artifact_ref [OF num])
  then show ?thesis by (simp add: list_all2_eq)
qed

lemma same_optional_source:
  assumes num: "json_numbers rt" and t: "canonical_json rt (case a of None \<Rightarrow> PNone | Some s \<Rightarrow> PDict (str_keys (source_fields s))) = Some x"
    "canonical_json rt (case b of None \<Rightarrow> PNone | Some s \<Rightarrow> PDict (str_keys (source_fields s))) = Some x"
  shows "a = b"
proof -
  have no: "canonical_json rt PNone \<noteq> canonical_json rt (PDict d)" for d
    using object_json_start [of rt d "u ''null''"] by (auto simp: u_def simp del: canonical_json.simps(6))
  show ?thesis
  proof (cases a; cases b)
    fix s s' assume "a = Some s" "b = Some s'"
    then show ?thesis using same_source [OF num, of s x s'] t by simp
  qed (use t no in \<open>simp_all del: canonical_json.simps, metis+\<close>)
qed

lemma same_signed_text:
  assumes num: "json_numbers rt" and e: "canonical_event_error rt sha e = None" and f: "canonical_event_error rt sha f = None"
    and same: "signed_text rt e = signed_text rt f"
  shows "same_event rt e f"
proof -
  obtain t where t: "canonical_text rt (canonical_event_fields e) = Some t" "canonical_text rt (canonical_event_fields f) = Some t"
    using valid_event_digest(1) [OF e] valid_event_digest(1) [OF f] same by (auto simp: signed_text_def)
  have "map fst (canonical_event_fields e) = map fst (canonical_event_fields f)" by (simp add: canonical_event_fields_def)
  from same_text_same_fields [OF num this t]
  have all: "list_all2 (\<lambda>x y. canonical_json rt (snd x) = canonical_json rt (snd y)) (canonical_event_fields e) (canonical_event_fields f)" .
  have written: "canonical_json rt v \<noteq> None" if "(k, v) \<in> set (canonical_event_fields e)" for k v
    using text_field_written [OF t(1) that] by simp
  have num3: "canonical_json rt (PNum (PyInt (ev_event_version e))) \<noteq> None" "canonical_json rt (PNum (PyInt (ev_stream_version e))) \<noteq> None"
    "canonical_json rt (PNum (PyInt (ev_global_position e))) \<noteq> None"
    by (rule written [of "u ''event_version''"], simp add: canonical_event_fields_def,
        rule written [of "u ''stream_version''"], simp add: canonical_event_fields_def,
        rule written [of "u ''global_position''"], simp add: canonical_event_fields_def)
  note H = all [unfolded canonical_event_fields_def list_all2_Cons snd_conv same_str_json same_str_or_none]
  have "canonical_json rt (PNum (PyInt (ev_event_version e))) = canonical_json rt (PNum (PyInt (ev_event_version f)))"
    "canonical_json rt (PNum (PyInt (ev_stream_version e))) = canonical_json rt (PNum (PyInt (ev_stream_version f)))"
    "canonical_json rt (PNum (PyInt (ev_global_position e))) = canonical_json rt (PNum (PyInt (ev_global_position f)))"
    using H by - (elim conjE, assumption)+
  then have ints: "ev_event_version e = ev_event_version f" "ev_stream_version e = ev_stream_version f"
    "ev_global_position e = ev_global_position f"
    using same_int_json [OF num] num3 by blast+
  have "canonical_json rt (case ev_source e of None \<Rightarrow> PNone | Some s \<Rightarrow> PDict (str_keys (source_fields s))) =
      canonical_json rt (case ev_source f of None \<Rightarrow> PNone | Some s \<Rightarrow> PDict (str_keys (source_fields s)))"
    "canonical_json rt (PList (map (\<lambda>r. PDict (str_keys (artifact_ref_fields r))) (ev_artifact_refs e))) =
      canonical_json rt (PList (map (\<lambda>r. PDict (str_keys (artifact_ref_fields r))) (ev_artifact_refs f)))"
    and pay: "canonical_json rt (PDict (ev_payload e)) = canonical_json rt (PDict (ev_payload f))"
    using H by - (elim conjE, assumption)+
  moreover have "canonical_json rt (case ev_source e of None \<Rightarrow> PNone | Some s \<Rightarrow> PDict (str_keys (source_fields s))) \<noteq> None"
    "canonical_json rt (PList (map (\<lambda>r. PDict (str_keys (artifact_ref_fields r))) (ev_artifact_refs e))) \<noteq> None"
    by (rule written [of "u ''source''"], simp add: canonical_event_fields_def,
        rule written [of "u ''artifact_refs''"], simp add: canonical_event_fields_def)
  ultimately have nested: "ev_source e = ev_source f" "ev_artifact_refs e = ev_artifact_refs f"
    using same_optional_source [OF num] same_artifact_refs [OF num] by (metis not_None_eq)+
  have "ev_event_sha256 e = ev_event_sha256 f"
    using valid_event_digest(2) [OF e] valid_event_digest(2) [OF f] same by simp
  then have "e\<lparr>ev_payload := []\<rparr> = f\<lparr>ev_payload := []\<rparr>"
    by (intro CanonicalEvent.equality) (use H ints nested in \<open>simp_all del: canonical_json.simps\<close>)
  with pay show ?thesis by (simp add: same_event_def)
qed

text \<open>
  The streams agree from the newest event down to the first, as long as the digest tells apart the
  texts of their events.
\<close>

lemma same_head_same_chain:
  assumes num: "json_numbers rt"
  shows "event_chain rt sha (e # es) \<Longrightarrow> event_chain rt sha (f # fs) \<Longrightarrow> ev_event_sha256 e = ev_event_sha256 f \<Longrightarrow>
    \<forall>x\<in>set (e # es). \<forall>y\<in>set (f # fs). sha (signed_text rt x) = sha (signed_text rt y) \<longrightarrow> signed_text rt x = signed_text rt y \<Longrightarrow>
    list_all2 (same_event rt) (e # es) (f # fs)"
proof (induction es arbitrary: e f fs)
  case Nil
  have "signed_text rt e = signed_text rt f"
    using Nil.prems(3,4) valid_event_digest(2) chain_valid [OF Nil.prems(1), of e] chain_valid [OF Nil.prems(2), of f] by auto
  then have ef: "same_event rt e f"
    using same_signed_text [OF num] chain_valid [OF Nil.prems(1), of e] chain_valid [OF Nil.prems(2), of f] by auto
  then have "ev_stream_version e = ev_stream_version f" by (auto simp: same_event_def dest: arg_cong [of _ _ ev_stream_version])
  then have "fs = []" using chain_head_version [OF Nil.prems(1)] chain_head_version [OF Nil.prems(2)] by simp
  with ef show ?case by simp
next
  case (Cons p es)
  have "signed_text rt e = signed_text rt f"
    using Cons.prems(3,4) valid_event_digest(2) chain_valid [OF Cons.prems(1), of e] chain_valid [OF Cons.prems(2), of f] by auto
  then have ef: "same_event rt e f"
    using same_signed_text [OF num] chain_valid [OF Cons.prems(1), of e] chain_valid [OF Cons.prems(2), of f] by auto
  then have eq: "ev_stream_version e = ev_stream_version f" "ev_previous_stream_event_sha256 e = ev_previous_stream_event_sha256 f"
    by (auto simp: same_event_def dest: arg_cong [of _ _ ev_stream_version] arg_cong [of _ _ ev_previous_stream_event_sha256])
  then obtain q qs where fs: "fs = q # qs"
    using chain_head_version [OF Cons.prems(1)] chain_head_version [OF Cons.prems(2)] by (cases fs) auto
  have "ev_event_sha256 p = ev_event_sha256 q"
    using eq(2) parent_Some(2) [of e p] parent_Some(2) [of f q] Cons.prems(1,2) by (simp add: fs)
  then have "list_all2 (same_event rt) (p # es) (q # qs)"
    using Cons.IH [of p q qs] chain_tail [OF Cons.prems(1)] chain_tail [OF Cons.prems(2)] Cons.prems(4) by (simp add: fs)
  with ef show ?case by (simp add: fs)
qed

section \<open>Reading what was written\<close>

lemma object_entries_str_keys [simp]: "object_entries (str_keys d) = Some d"
  by (induction d) (auto simp: str_keys_def)

lemma checked_same: "y = x \<Longrightarrow> err x = None \<Longrightarrow> or_raise (err y) (Inr y) = Inr x"
  by simp

lemma parse_source_fields: "source_error s = None \<Longrightarrow> parse_source (PDict (str_keys (source_fields s))) = Inr s"
  by (simp add: parse_source_def as_object_def strict_object_def dict_keys_def event_str_def cast_field_def Let_def)
     (simp add: source_fields_def insert_commute checked_same)

lemma parse_artifact_ref_fields: "artifact_ref_error r = None \<Longrightarrow> parse_artifact_ref (PDict (str_keys (artifact_ref_fields r))) = Inr r"
proof -
  assume r: "artifact_ref_error r = None"
  have k: "set (dict_keys (artifact_ref_fields r)) = set ARTIFACT_REF_FIELDS"
    by (simp add: artifact_ref_fields_def ARTIFACT_REF_FIELDS_def dict_keys_def)
  have o: "event_optional_str (artifact_ref_fields r) ''encryption_key_id'' = Inr (ar_encryption_key_id r)"
    by (cases "ar_encryption_key_id r") (simp_all add: event_optional_str_def artifact_ref_fields_def str_or_none_def)
  have "event_str (artifact_ref_fields r) ''artifact_id'' = Inr (ar_artifact_id r)"
    "event_str (artifact_ref_fields r) ''content_sha256'' = Inr (ar_content_sha256 r)"
    "event_str (artifact_ref_fields r) ''media_type'' = Inr (ar_media_type r)"
    "event_int (artifact_ref_fields r) ''size_bytes'' = Inr (ar_size_bytes r)"
    "event_str (artifact_ref_fields r) ''retention_policy_id'' = Inr (ar_retention_policy_id r)"
    "cast_field (artifact_ref_fields r) ''classification'' = ar_classification r"
    "cast_field (artifact_ref_fields r) ''availability'' = ar_availability r"
    by (simp_all add: event_str_def event_int_def cast_field_def artifact_ref_fields_def)
  with r o k show ?thesis by (simp add: parse_artifact_ref_def as_object_def strict_object_def Let_def checked_same)
qed

lemma rmap_map_Inr: "\<forall>x\<in>set xs. f (g x) = Inr x \<Longrightarrow> rmap f (map g xs) = Inr xs"
  by (induction xs) auto

lemma event_field:
  "event_str (event_to_dict e) ''event_id'' = Inr (ev_event_id e)"
  "event_str (event_to_dict e) ''event_sha256'' = Inr (ev_event_sha256 e)"
  "event_str (event_to_dict e) ''event_type'' = Inr (ev_event_type e)"
  "event_int (event_to_dict e) ''event_version'' = Inr (ev_event_version e)"
  "cast_field (event_to_dict e) ''event_kind'' = ev_event_kind e"
  "cast_field (event_to_dict e) ''origin'' = ev_origin e"
  "event_str (event_to_dict e) ''stream_id'' = Inr (ev_stream_id e)"
  "event_str (event_to_dict e) ''stream_type'' = Inr (ev_stream_type e)"
  "event_int (event_to_dict e) ''stream_version'' = Inr (ev_stream_version e)"
  "event_int (event_to_dict e) ''global_position'' = Inr (ev_global_position e)"
  "event_str (event_to_dict e) ''organization_id'' = Inr (ev_organization_id e)"
  "event_str (event_to_dict e) ''tenant_id'' = Inr (ev_tenant_id e)"
  "event_str (event_to_dict e) ''repository_id'' = Inr (ev_repository_id e)"
  "event_str (event_to_dict e) ''environment_id'' = Inr (ev_environment_id e)"
  "event_str (event_to_dict e) ''principal_id'' = Inr (ev_principal_id e)"
  "event_str (event_to_dict e) ''agent_client_id'' = Inr (ev_agent_client_id e)"
  "cast_field (event_to_dict e) ''actor_type'' = ev_actor_type e"
  "event_str (event_to_dict e) ''actor_id'' = Inr (ev_actor_id e)"
  "event_str (event_to_dict e) ''authorization_decision_id'' = Inr (ev_authorization_decision_id e)"
  "event_str (event_to_dict e) ''request_id'' = Inr (ev_request_id e)"
  "event_str (event_to_dict e) ''idempotency_key_sha256'' = Inr (ev_idempotency_key_sha256 e)"
  "event_str (event_to_dict e) ''request_sha256'' = Inr (ev_request_sha256 e)"
  "event_str (event_to_dict e) ''correlation_id'' = Inr (ev_correlation_id e)"
  "event_str (event_to_dict e) ''recorded_at'' = Inr (ev_recorded_at e)"
  "event_str (event_to_dict e) ''producer'' = Inr (ev_producer e)"
  "event_str (event_to_dict e) ''producer_version'' = Inr (ev_producer_version e)"
  "event_str (event_to_dict e) ''payload_schema'' = Inr (ev_payload_schema e)"
  "event_str (event_to_dict e) ''payload_sha256'' = Inr (ev_payload_sha256 e)"
  "cast_field (event_to_dict e) ''classification'' = ev_classification e"
  "event_str (event_to_dict e) ''retention_policy_id'' = Inr (ev_retention_policy_id e)"
  "event_str (event_to_dict e) ''protocol_version'' = Inr (ev_protocol_version e)"
  by (simp_all add: event_str_def event_int_def cast_field_def event_to_dict_def canonical_event_fields_def)

lemma event_field_optional:
  "event_optional_str (event_to_dict e) ''causation_id'' = Inr (ev_causation_id e)"
  "event_optional_str (event_to_dict e) ''occurred_at'' = Inr (ev_occurred_at e)"
  "event_optional_str (event_to_dict e) ''previous_stream_event_sha256'' = Inr (ev_previous_stream_event_sha256 e)"
proof -
  have opt: "(case Some (str_or_none v) of Some PNone \<Rightarrow> Inr None | Some (PStr s) \<Rightarrow> Inr (Some s)
      | Some _ \<Rightarrow> Inl x | None \<Rightarrow> Inl y) = Inr v" for v x y
    by (cases v) (simp_all add: str_or_none_def)
  show "event_optional_str (event_to_dict e) ''causation_id'' = Inr (ev_causation_id e)"
    "event_optional_str (event_to_dict e) ''occurred_at'' = Inr (ev_occurred_at e)"
    "event_optional_str (event_to_dict e) ''previous_stream_event_sha256'' = Inr (ev_previous_stream_event_sha256 e)"
    by (simp_all add: event_optional_str_def event_to_dict_def canonical_event_fields_def opt [simplified])
qed

lemma event_to_dict_nested:
  "dict_get (event_to_dict e) (u ''source'') =
     Some (case ev_source e of None \<Rightarrow> PNone | Some s \<Rightarrow> PDict (str_keys (source_fields s)))"
  "dict_get (event_to_dict e) (u ''artifact_refs'') =
     Some (PList (map (\<lambda>r. PDict (str_keys (artifact_ref_fields r))) (ev_artifact_refs e)))"
  "dict_get (event_to_dict e) (u ''payload'') = Some (PDict (ev_payload e))"
  by (simp_all add: event_to_dict_def canonical_event_fields_def)

lemma event_to_dict_keys: "set (dict_keys (event_to_dict e)) = set EVENT_FIELDS"
  unfolding event_to_dict_def canonical_event_fields_def dict_keys_def EVENT_FIELDS_def list.map map_append list.set set_append fst_conv
  by blast

lemma parse_event_to_dict:
  assumes "canonical_event_error rt sha e = None" and "\<forall>s. ev_source e = Some s \<longrightarrow> source_error s = None"
    and "\<forall>r\<in>set (ev_artifact_refs e). artifact_ref_error r = None"
  shows "parse_canonical_event rt sha (event_to_dict e) = Inr e"
proof -
  have "parse_optional_source (Some (case ev_source e of None \<Rightarrow> PNone | Some s \<Rightarrow> PDict (str_keys (source_fields s)))) = Inr (ev_source e)"
    using assms(2) by (cases "ev_source e") (simp_all add: parse_optional_source_def parse_source_fields)
  moreover have "length (ev_artifact_refs e) \<le> 128"
    using assms(1) unfolding canonical_event_error_def first_error_None_iff by (simp add: artifact_ref_tuple_def)
  then have "parse_artifact_refs (Some (PList (map (\<lambda>r. PDict (str_keys (artifact_ref_fields r))) (ev_artifact_refs e)))) = Inr (ev_artifact_refs e)"
    using assms(3) by (simp add: parse_artifact_refs_def parse_artifact_ref_fields rmap_map_Inr)
  moreover have "parse_payload (Some (PDict (ev_payload e))) = Inr (ev_payload e)" by (simp add: parse_payload_def)
  ultimately show ?thesis
    unfolding parse_canonical_event_def event_to_dict_nested
    by (simp add: strict_object_def event_to_dict_keys event_field event_field_optional construct_event_def assms(1) checked_same)
qed

end
