(* ===== verification/EventText.thy ===== *)
theory EventText
  imports EventFacts DecisionPayload
begin

text \<open>
  The text of an event: \<^verbatim>\<open>dumps_canonical_event\<close> and \<^verbatim>\<open>loads_canonical_event\<close> of \<^verbatim>\<open>event_v1.py\<close>, with the bounded
  JSON reader of \<^verbatim>\<open>_ingestion.py\<close>. The decoder of Python is the field \<open>rt_json_loads\<close> of the host; a dictionary
  that it returns still lists repeated keys, which the hook of the reader refuses. The messages of Python's
  own errors are not modelled. Also the equality of
  events, which compares payloads as dictionaries.
\<close>

section \<open>Bounded JSON\<close>

abbreviation "EVENT_JSON_MAX_BYTES \<equiv> (1048576 :: nat)"
abbreviation "EVENT_JSON_MAX_DEPTH \<equiv> (32 :: nat)"
abbreviation "EVENT_JSON_MAX_NODES \<equiv> (10000 :: nat)"

text \<open>The loop over the pending values, the next one first.\<close>

definition json_too_large :: "pystr \<Rightarrow> nat \<Rightarrow> py_error" where
  "json_too_large description max_nodes =
     ValueError (description @ u '' JSON contains more than '' @ str_nat max_nodes @ u '' nodes'')"

lemma work_rev: "work (rev xs @ vs) = work (xs @ vs)"
  by (simp add: work_def flip: rev_map)

function bounded_walk :: "pystr \<Rightarrow> nat \<Rightarrow> nat \<Rightarrow> nat \<Rightarrow> (pyval \<times> nat) list \<Rightarrow> py_error option" where
  "bounded_walk description max_nodes max_depth node_count [] = None"
| "bounded_walk description max_nodes max_depth node_count ((value, depth) # pending) =
     (if max_depth < depth
      then Some (ValueError (description @ u '' JSON exceeds maximum depth of '' @ str_nat max_depth))
      else if max_nodes < Suc node_count then Some (json_too_large description max_nodes)
      else case value of
        PNum n \<Rightarrow>
          if \<not> is_finite_number n then Some (ValueError (description @ u '' JSON contains non-finite number''))
          else bounded_walk description max_nodes max_depth (Suc node_count) pending
      | PStr s \<Rightarrow>
          if \<not> encodable s then Some (ValueError (description @ u '' JSON contains an invalid Unicode string''))
          else bounded_walk description max_nodes max_depth (Suc node_count) pending
      | PList xs \<Rightarrow>
          if max_nodes - Suc node_count < length xs then Some (json_too_large description max_nodes)
          else bounded_walk description max_nodes max_depth (Suc node_count) (map (\<lambda>x. (x, Suc depth)) (rev xs) @ pending)
      | PDict d \<Rightarrow>
          if max_nodes - Suc node_count < length d then Some (json_too_large description max_nodes)
          else if \<not> list_all (encodable \<circ> key_text \<circ> fst) d
          then Some (ValueError (description @ u '' JSON contains an invalid Unicode key''))
          else bounded_walk description max_nodes max_depth (Suc node_count)
            (map (\<lambda>x. (x, Suc depth)) (rev (map snd d)) @ pending)
      | _ \<Rightarrow> bounded_walk description max_nodes max_depth (Suc node_count) pending)"
  by pat_completeness auto

termination bounded_walk
  by (relation "measure (\<lambda>(_, _, _, _, pending). work (map fst pending))")
     (auto simp del: map_map simp: work_Cons work_rev work_PList work_PDict)

declare bounded_walk.simps(2) [simp del]

definition parse_bounded_json :: "runtime \<Rightarrow> pystr \<Rightarrow> nat \<Rightarrow> nat \<Rightarrow> pystr \<Rightarrow> pyval result" where
  "parse_bounded_json rt description max_nodes max_depth source_text =
     rbind (case rt_json_loads rt source_text of
         JsonSyntaxError msg \<Rightarrow> Inl (ValueError (u ''invalid '' @ description @ u '' JSON: '' @ msg))
       | JsonTooDeep \<Rightarrow> Inl (ValueError (u ''invalid '' @ description @ u '' JSON: maximum recursion depth exceeded''))
       | JsonValue v \<Rightarrow> decode_pairs description v) (\<lambda>payload.
     or_raise (bounded_walk description max_nodes max_depth 0 [(payload, 0)]) (Inr payload))"

section \<open>Events as text\<close>

definition dumps_canonical_event :: "runtime \<Rightarrow> CanonicalEvent \<Rightarrow> pystr result" where
  "dumps_canonical_event rt event = event_json rt (PDict (str_keys (event_to_dict event)))"

fun invalid_json :: "py_error \<Rightarrow> py_error" where
  "invalid_json (ValueError msg) = ContractError (u ''TBM_EVENT_INVALID_JSON'') msg"
| "invalid_json e = e"

definition loads_object :: "runtime \<Rightarrow> pystr \<Rightarrow> pydict result" where
  "loads_object rt text =
     (case utf8_size text of
        None \<Rightarrow> Inl (ContractError (u ''TBM_EVENT_INVALID_JSON'') (u ''canonical event JSON is not UTF-8''))
      | Some n \<Rightarrow>
          if EVENT_JSON_MAX_BYTES < n
          then Inl (ContractError (u ''TBM_EVENT_INVALID_JSON'') (u ''canonical event JSON exceeds byte limit''))
          else case parse_bounded_json rt (u ''canonical event'') EVENT_JSON_MAX_NODES EVENT_JSON_MAX_DEPTH text of
            Inl e \<Rightarrow> Inl (invalid_json e)
          | Inr (PDict d) \<Rightarrow> Inr d
          | Inr _ \<Rightarrow> Inl (event_invalid (u ''canonical event JSON must be an object'')))"

definition loads_canonical_event :: "runtime \<Rightarrow> (pystr \<Rightarrow> pystr) \<Rightarrow> pystr \<Rightarrow> CanonicalEvent result" where
  "loads_canonical_event rt sha text =
     rbind (loads_object rt text) (\<lambda>d.
     rbind (as_object d (u ''CanonicalEvent'')) (parse_canonical_event rt sha))"

lemma parse_constructs: "parse_canonical_event rt sha obj = Inr e \<Longrightarrow> canonical_event_error rt sha e = None"
  unfolding parse_canonical_event_def by (auto simp: result_simps construct_event_def)

lemma loads_valid: "loads_canonical_event rt sha text = Inr e \<Longrightarrow> canonical_event_error rt sha e = None"
  by (auto simp: loads_canonical_event_def result_simps intro: parse_constructs)

section \<open>Equality of events\<close>

definition event_eq :: "CanonicalEvent \<Rightarrow> CanonicalEvent \<Rightarrow> bool" where
  "event_eq e f \<longleftrightarrow> e\<lparr>ev_payload := []\<rparr> = f\<lparr>ev_payload := []\<rparr> \<and> py_eq (PDict (ev_payload e)) (PDict (ev_payload f))"

lemma event_eq_fields:
  assumes "event_eq e f"
  shows "ev_event_id e = ev_event_id f" "ev_event_sha256 e = ev_event_sha256 f" "ev_stream_id e = ev_stream_id f"
    "ev_stream_version e = ev_stream_version f" "ev_global_position e = ev_global_position f"
    "ev_organization_id e = ev_organization_id f" "ev_tenant_id e = ev_tenant_id f" "ev_repository_id e = ev_repository_id f"
    "ev_environment_id e = ev_environment_id f" "ev_classification e = ev_classification f"
    "ev_previous_stream_event_sha256 e = ev_previous_stream_event_sha256 f" "ev_recorded_at e = ev_recorded_at f"
    "ev_stream_type e = ev_stream_type f" "ev_artifact_refs e = ev_artifact_refs f"
proof -
  have s: "e\<lparr>ev_payload := []\<rparr> = f\<lparr>ev_payload := []\<rparr>" using assms by (simp add: event_eq_def)
  show "ev_event_id e = ev_event_id f" using arg_cong [OF s, of ev_event_id] by simp
  show "ev_event_sha256 e = ev_event_sha256 f" using arg_cong [OF s, of ev_event_sha256] by simp
  show "ev_stream_id e = ev_stream_id f" using arg_cong [OF s, of ev_stream_id] by simp
  show "ev_stream_version e = ev_stream_version f" using arg_cong [OF s, of ev_stream_version] by simp
  show "ev_global_position e = ev_global_position f" using arg_cong [OF s, of ev_global_position] by simp
  show "ev_organization_id e = ev_organization_id f" using arg_cong [OF s, of ev_organization_id] by simp
  show "ev_tenant_id e = ev_tenant_id f" using arg_cong [OF s, of ev_tenant_id] by simp
  show "ev_repository_id e = ev_repository_id f" using arg_cong [OF s, of ev_repository_id] by simp
  show "ev_environment_id e = ev_environment_id f" using arg_cong [OF s, of ev_environment_id] by simp
  show "ev_classification e = ev_classification f" using arg_cong [OF s, of ev_classification] by simp
  show "ev_previous_stream_event_sha256 e = ev_previous_stream_event_sha256 f"
    using arg_cong [OF s, of ev_previous_stream_event_sha256] by simp
  show "ev_recorded_at e = ev_recorded_at f" using arg_cong [OF s, of ev_recorded_at] by simp
  show "ev_stream_type e = ev_stream_type f" using arg_cong [OF s, of ev_stream_type] by simp
  show "ev_artifact_refs e = ev_artifact_refs f" using arg_cong [OF s, of ev_artifact_refs] by simp
qed

lemma py_eq_refl: "json_ok is_finite_number v \<Longrightarrow> py_eq v v"
proof (induction v rule: measure_induct_rule [of size])
  case (less v)
  show ?case
  proof (cases v)
    case (PList xs)
    have "py_eq x y" if "(x, y) \<in> set (zip xs xs)" for x y
    proof -
      have "x = y" "x \<in> set xs" using that by (auto simp: zip_same)
      then show ?thesis using less PList by (auto simp: list_all_iff dest: size_in_list)
    qed
    then show ?thesis unfolding PList by (subst py_eq.simps) auto
  next
    case (PDict d)
    have "py_eq k k \<and> py_eq w w" if "(k, w) \<in> set d" for k w
    proof -
      have "(case k of PStr _ \<Rightarrow> True | _ \<Rightarrow> False) \<and> json_ok is_finite_number w"
        using less.prems that unfolding PDict by (auto simp: list_all_iff)
      moreover have "size w < size v" using size_pair_in_list [OF that] by (simp add: PDict)
      ultimately show ?thesis using less.IH by (cases k) (simp_all add: py_eq.simps [of "PStr x" "PStr y" for x y])
    qed
    then show ?thesis unfolding PDict by (subst py_eq.simps) fastforce
  next
    case (PNum n)
    then show ?thesis using less.prems by (subst py_eq.simps) (cases n; simp)
  qed (use less.prems in \<open>subst py_eq.simps; simp\<close>)+
qed

lemma copied_json_ok:
  "copy_json depth v n = Inr m \<Longrightarrow> json_ok is_finite_number v"
  "copy_items depth vs n = Inr m \<Longrightarrow> list_all (json_ok is_finite_number) vs"
  "copy_entries depth d n = Inr m \<Longrightarrow> json_ok is_finite_number (PDict d)"
proof (induction depth v n and depth vs n and depth d n arbitrary: m and m and m rule: copy_json_copy_items_copy_entries.induct)
  case (1 depth v n)
  then show ?case
    by (subst (asm) copy_json.simps) (cases v; auto split: if_splits simp: result_simps simp del: copy_json.simps)
next
  case (5 depth k v d n)
  then show ?case by (cases k) (auto simp: result_simps simp del: copy_json.simps)
qed (auto simp: result_simps simp del: copy_json.simps)

lemma event_eq_refl: "canonical_event_error rt sha e = None \<Longrightarrow> event_eq e e"
proof -
  assume "canonical_event_error rt sha e = None"
  then have "event_digest_error rt sha e = None"
    unfolding canonical_event_error_def first_error_None_iff by simp
  then obtain p where "event_payload_sha256 rt sha (ev_payload e) = Inr p"
    by (auto simp: event_digest_error_def split: sum.splits)
  then obtain n where "copy_json 0 (PDict (ev_payload e)) 0 = Inr n"
    by (auto simp: event_payload_sha256_def bounded_payload_copy_def result_simps simp del: copy_json.simps)
  from copied_json_ok(1) [OF this] py_eq_refl show ?thesis unfolding event_eq_def by blast
qed

end
