(* ===== verification/Ledger.thy ===== *)
theory Ledger
  imports EventText
begin

text \<open>
  The storage-neutral contract of an event ledger, \<^verbatim>\<open>ledger_port_v1.py\<close>: who may append and read, what a
  request, a receipt and a page must satisfy, and the test of an append against the head of its stream
  and of the ledger. Objects are records; \<open>x_error\<close> is \<^verbatim>\<open>__post_init__\<close> of the class \<open>x\<close>, so an object
  that the code holds is one without an error. The classes of exceptions are told apart by their code.
\<close>

section \<open>Errors and bounds\<close>

definition EVENT_LEDGER_PORT_VERSION :: pystr where
  "EVENT_LEDGER_PORT_VERSION = u ''tbm.event-ledger-port.v1''"

abbreviation "EVENT_LEDGER_MAX_APPEND_BATCH \<equiv> (100 :: nat)"
abbreviation "EVENT_LEDGER_MAX_READ_PAGE \<equiv> (1000 :: nat)"
abbreviation "EVENT_LEDGER_MAX_SUBSCRIPTION_POLL_SECONDS \<equiv> (60 :: int)"
abbreviation "EVENT_LEDGER_MAX_VERIFICATION_ISSUES \<equiv> (1000 :: nat)"

definition CLASSIFICATION_ORDER :: "pystr list" where
  "CLASSIFICATION_ORDER = map u [''public'', ''internal'', ''confidential'', ''restricted'']"

definition VERIFICATION_ISSUE_CODES :: "pystr list" where
  "VERIFICATION_ISSUE_CODES =
     map u [''EVENT_HASH_MISMATCH'', ''GLOBAL_POSITION_INVALID'', ''HASH_CHAIN_MISMATCH'', ''HEAD_MISMATCH'',
       ''PARTITION_MISMATCH'', ''STREAM_ID_MISMATCH'', ''STREAM_VERSION_GAP'', ''TRUSTED_CONTEXT_MISMATCH'']"

text \<open>\<^verbatim>\<open>^TBM_EVENT_LEDGER_[A-Z0-9_]{1,96}$\<close>\<close>

definition is_ledger_code :: "pystr \<Rightarrow> bool" where
  "is_ledger_code code \<longleftrightarrow>
     (case strip_prefix (u ''TBM_EVENT_LEDGER_'') code of
        None \<Rightarrow> False
      | Some s \<Rightarrow> 1 \<le> length s \<and> length s \<le> 96 \<and> list_all (\<lambda>c. 65 \<le> c \<and> c \<le> 90 \<or> 48 \<le> c \<and> c \<le> 57 \<or> c = 95) s)"

definition event_ledger_port_error :: "pystr \<Rightarrow> pystr \<Rightarrow> py_error" where
  "event_ledger_port_error code message =
     (if \<not> is_ledger_code code \<or> \<not> (1 \<le> length message \<and> length message \<le> 512) \<or> list_ex (\<lambda>c. c < 32) message
      then ContractError (u ''TBM_EVENT_LEDGER_INTERNAL'') (u ''event ledger operation failed'')
      else ContractError code message)"

definition ledger_invalid :: "pystr \<Rightarrow> py_error" where
  "ledger_invalid message = event_ledger_port_error (u ''TBM_EVENT_LEDGER_REQUEST_INVALID'') message"

definition ledger_conflict :: "string \<Rightarrow> string \<Rightarrow> py_error" where
  "ledger_conflict code message = event_ledger_port_error (u code) (u message)"

definition reject_if :: "bool \<Rightarrow> pystr \<Rightarrow> py_error option" where
  "reject_if b message = (if b then Some (ledger_invalid message) else None)"

definition conflict_if :: "bool \<Rightarrow> string \<Rightarrow> string \<Rightarrow> py_error option" where
  "conflict_if b code message = (if b then Some (ledger_conflict code message) else None)"

lemma reject_if_None_iff [simp]: "reject_if b m = None \<longleftrightarrow> \<not> b"
  by (simp add: reject_if_def)

lemma reject_if_simps [simp]: "reject_if False m = None" "reject_if True m = Some (ledger_invalid m)"
  by (simp_all add: reject_if_def)

lemma conflict_if_None_iff [simp]: "conflict_if b c m = None \<longleftrightarrow> \<not> b"
  by (simp add: conflict_if_def)

lemma conflict_if_simps [simp]: "conflict_if False c m = None" "conflict_if True c m = Some (ledger_conflict c m)"
  by (simp_all add: conflict_if_def)

text \<open>\<^verbatim>\<open>^[A-Za-z0-9][A-Za-z0-9._:-]{0,127}$\<close>\<close>

definition port_identifier :: "pystr \<Rightarrow> bool" where
  "port_identifier value \<longleftrightarrow>
     (case value of
        [] \<Rightarrow> False
      | c # cs \<Rightarrow> ascii_alnum c \<and> length cs \<le> 127 \<and> list_all (\<lambda>x. ascii_alnum x \<or> x \<in> {45, 46, 58, 95}) cs)"

definition ledger_identifier :: "pystr \<Rightarrow> string \<Rightarrow> py_error option" where
  "ledger_identifier value name = reject_if (\<not> port_identifier value) (u name @ u '' must be a bounded identifier'')"

definition ledger_digest :: "pystr \<Rightarrow> string \<Rightarrow> py_error option" where
  "ledger_digest value name =
     reject_if (\<not> tagged_digest (u ''sha256:'') value) (u name @ u '' must be a canonical sha256 digest'')"

definition positive_cursor :: "int \<Rightarrow> string \<Rightarrow> bool \<Rightarrow> py_error option" where
  "positive_cursor value name allow_zero =
     reject_if (\<not> ((if allow_zero then 0 else 1) \<le> value \<and> value \<le> EVENT_MAX_VERSION)) (u name @ u '' is out of bounds'')"

definition read_limit :: "int \<Rightarrow> py_error option" where
  "read_limit value = reject_if (\<not> (1 \<le> value \<and> value \<le> int EVENT_LEDGER_MAX_READ_PAGE)) (u ''read limit is out of bounds'')"

definition contract_version_error :: "pystr \<Rightarrow> py_error option" where
  "contract_version_error version =
     reject_if (version \<noteq> EVENT_LEDGER_PORT_VERSION) (u ''contract_version must be '' @ EVENT_LEDGER_PORT_VERSION)"

definition domain_sha256 :: "runtime \<Rightarrow> (pystr \<Rightarrow> pystr) \<Rightarrow> pystr \<Rightarrow> (pystr, pyval) dict \<Rightarrow> pystr result" where
  "domain_sha256 rt sha domain value =
     (case canonical_text rt value of
        None \<Rightarrow> Inl (ledger_conflict ''TBM_EVENT_LEDGER_NON_CANONICAL_JSON'' ''ledger descriptor is not canonical JSON'')
      | Some t \<Rightarrow>
          if encodable t then Inr (u ''sha256:'' @ sha (domain @ [0] @ t))
          else Inl (ledger_conflict ''TBM_EVENT_LEDGER_NON_CANONICAL_JSON'' ''ledger descriptor is not canonical JSON''))"

section \<open>Access\<close>

record LedgerTenantPartition =
  tp_organization_id :: pystr
  tp_tenant_id :: pystr
  tp_repository_id :: pystr
  tp_environment_id :: pystr

definition partition_error :: "LedgerTenantPartition \<Rightarrow> py_error option" where
  "partition_error p =
     first_error
       [ledger_identifier (tp_organization_id p) ''organization_id'', ledger_identifier (tp_tenant_id p) ''tenant_id'',
        ledger_identifier (tp_repository_id p) ''repository_id'', ledger_identifier (tp_environment_id p) ''environment_id'']"

definition partition_sha256 :: "runtime \<Rightarrow> (pystr \<Rightarrow> pystr) \<Rightarrow> LedgerTenantPartition \<Rightarrow> pystr result" where
  "partition_sha256 rt sha p =
     domain_sha256 rt sha (u ''tbm.event-ledger-partition.v1'')
       [(u ''organization_id'', PStr (tp_organization_id p)), (u ''tenant_id'', PStr (tp_tenant_id p)),
        (u ''repository_id'', PStr (tp_repository_id p)), (u ''environment_id'', PStr (tp_environment_id p))]"

record LedgerClassificationFilter =
  cf_allowed :: "pystr list"

definition filter_error :: "LedgerClassificationFilter \<Rightarrow> py_error option" where
  "filter_error f =
     first_error
       [reject_if (cf_allowed f = []) (u ''classification filter must be a non-empty tuple''),
        reject_if (list_ex (\<lambda>c. c \<notin> set CLASSIFICATION_ORDER) (cf_allowed f))
          (u ''classification filter contains an unsupported value''),
        reject_if (cf_allowed f \<noteq> [c \<leftarrow> CLASSIFICATION_ORDER. c \<in> set (cf_allowed f)] \<or> \<not> distinct (cf_allowed f))
          (u ''classification filter must be canonical and unique'')]"

definition filter_sha256 :: "runtime \<Rightarrow> (pystr \<Rightarrow> pystr) \<Rightarrow> LedgerClassificationFilter \<Rightarrow> pystr result" where
  "filter_sha256 rt sha f =
     domain_sha256 rt sha (u ''tbm.event-ledger-classification-filter.v1'') [(u ''allowed'', PList (map PStr (cf_allowed f)))]"

definition allows :: "LedgerClassificationFilter \<Rightarrow> pystr \<Rightarrow> bool" where
  "allows f classification \<longleftrightarrow> classification \<in> set (cf_allowed f)"

record LedgerAccessContext =
  ac_partition :: LedgerTenantPartition
  ac_principal_id :: pystr
  ac_agent_client_id :: pystr
  ac_actor_type :: pystr
  ac_actor_id :: pystr
  ac_authorization_decision_id :: pystr
  ac_classification_filter :: LedgerClassificationFilter

definition access_error :: "LedgerAccessContext \<Rightarrow> py_error option" where
  "access_error a =
     first_error
       [ledger_identifier (ac_principal_id a) ''principal_id'', ledger_identifier (ac_agent_client_id a) ''agent_client_id'',
        ledger_identifier (ac_actor_id a) ''actor_id'',
        ledger_identifier (ac_authorization_decision_id a) ''authorization_decision_id'',
        reject_if (ac_actor_type a \<notin> set ACTOR_TYPES) (u ''actor_type is not supported'')]"

definition event_trusted_context :: "LedgerAccessContext \<Rightarrow> EventTrustedContext" where
  "event_trusted_context a =
     \<lparr>tc_organization_id = tp_organization_id (ac_partition a), tc_tenant_id = tp_tenant_id (ac_partition a),
      tc_repository_id = tp_repository_id (ac_partition a), tc_environment_id = tp_environment_id (ac_partition a),
      tc_principal_id = ac_principal_id a, tc_agent_client_id = ac_agent_client_id a, tc_actor_type = ac_actor_type a,
      tc_actor_id = ac_actor_id a, tc_authorization_decision_id = ac_authorization_decision_id a\<rparr>"

definition verify_read_access :: "LedgerAccessContext \<Rightarrow> CanonicalEvent \<Rightarrow> py_error option" where
  "verify_read_access access event =
     (let p = ac_partition access in
      first_error
       [conflict_if (ev_organization_id event \<noteq> tp_organization_id p \<or> ev_tenant_id event \<noteq> tp_tenant_id p \<or>
            ev_repository_id event \<noteq> tp_repository_id p \<or> ev_environment_id event \<noteq> tp_environment_id p)
          ''TBM_EVENT_LEDGER_SCOPE_DENIED'' ''event is outside the authenticated tenant partition'',
        conflict_if (\<not> allows (ac_classification_filter access) (ev_classification event))
          ''TBM_EVENT_LEDGER_CLASSIFICATION_DENIED'' ''event classification is not allowed for read''])"

definition verify_event_parent_or_invalid :: "CanonicalEvent \<Rightarrow> CanonicalEvent \<Rightarrow> py_error option" where
  "verify_event_parent_or_invalid event previous =
     reject_if (verify_event_parent event (Some previous) \<noteq> None) (u ''event parent chain is invalid'')"

section \<open>Append requests\<close>

record LedgerIdempotency =
  id_idempotency_key_sha256 :: pystr
  id_command_sha256 :: pystr

definition idempotency_error :: "LedgerIdempotency \<Rightarrow> py_error option" where
  "idempotency_error i =
     first_error
       [ledger_digest (id_idempotency_key_sha256 i) ''idempotency_key_sha256'', ledger_digest (id_command_sha256 i) ''command_sha256'']"

record LedgerAppendRequest =
  rq_access :: LedgerAccessContext
  rq_stream_id :: pystr
  rq_expected_stream_version :: int
  rq_events :: "CanonicalEvent list"
  rq_idempotency :: LedgerIdempotency
  rq_contract_version :: pystr

text \<open>The loop over the events, with the version expected next and the previous event.\<close>

fun append_events_error :: "LedgerAppendRequest \<Rightarrow> int \<Rightarrow> CanonicalEvent option \<Rightarrow> CanonicalEvent list \<Rightarrow> py_error option" where
  "append_events_error q expected_version previous [] = None"
| "append_events_error q expected_version previous (event # events) =
     first_error
       [reject_if (ev_stream_id event \<noteq> rq_stream_id q) (u ''event stream_id does not match append request''),
        reject_if (ev_stream_version event \<noteq> expected_version) (u ''event stream_version does not follow expected head''),
        reject_if (verify_event_trusted_context event (event_trusted_context (rq_access q)) \<noteq> None)
          (u ''event trusted context does not match append access''),
        reject_if (ev_idempotency_key_sha256 event \<noteq> id_idempotency_key_sha256 (rq_idempotency q))
          (u ''event idempotency key does not match append request''),
        reject_if (ev_request_sha256 event \<noteq> id_command_sha256 (rq_idempotency q))
          (u ''event request digest does not match canonical command''),
        conflict_if (\<not> allows (ac_classification_filter (rq_access q)) (ev_classification event))
          ''TBM_EVENT_LEDGER_CLASSIFICATION_DENIED'' ''event classification is not allowed for append'',
        if_given (verify_event_parent_or_invalid event) previous,
        append_events_error q (expected_version + 1) (Some event) events]"

definition append_request_error :: "LedgerAppendRequest \<Rightarrow> py_error option" where
  "append_request_error q =
     first_error
       [contract_version_error (rq_contract_version q),
        ledger_identifier (rq_stream_id q) ''stream_id'',
        reject_if (\<not> (0 \<le> rq_expected_stream_version q \<and> rq_expected_stream_version q \<le> EVENT_MAX_VERSION))
          (u ''expected_stream_version must be a bounded integer''),
        reject_if (\<not> (1 \<le> length (rq_events q) \<and> length (rq_events q) \<le> EVENT_LEDGER_MAX_APPEND_BATCH))
          (u ''events must be a bounded non-empty tuple''),
        trusted_context_error (event_trusted_context (rq_access q)),
        append_events_error q (rq_expected_stream_version q + 1) None (rq_events q),
        (let previous = ev_previous_stream_event_sha256 (hd (rq_events q)) in
         if rq_expected_stream_version q = 0
         then reject_if (previous \<noteq> None) (u ''new stream append cannot name an existing parent'')
         else reject_if (previous = None) (u ''existing stream append must name the expected parent hash''))]"

definition request_sha256 :: "runtime \<Rightarrow> (pystr \<Rightarrow> pystr) \<Rightarrow> LedgerAppendRequest \<Rightarrow> pystr result" where
  "request_sha256 rt sha q =
     (let a = rq_access q in
      rbind (partition_sha256 rt sha (ac_partition a)) (\<lambda>partition.
      rbind (filter_sha256 rt sha (ac_classification_filter a)) (\<lambda>allowed.
      domain_sha256 rt sha (u ''tbm.event-ledger-append-request.v1'')
        [(u ''contract_version'', PStr (rq_contract_version q)), (u ''partition_sha256'', PStr partition),
         (u ''classification_filter_sha256'', PStr allowed), (u ''principal_id'', PStr (ac_principal_id a)),
         (u ''agent_client_id'', PStr (ac_agent_client_id a)), (u ''actor_type'', PStr (ac_actor_type a)),
         (u ''actor_id'', PStr (ac_actor_id a)), (u ''authorization_decision_id'', PStr (ac_authorization_decision_id a)),
         (u ''stream_id'', PStr (rq_stream_id q)),
         (u ''expected_stream_version'', PNum (PyInt (rq_expected_stream_version q))),
         (u ''event_sha256s'', PList (map (PStr \<circ> ev_event_sha256) (rq_events q))),
         (u ''idempotency_key_sha256'', PStr (id_idempotency_key_sha256 (rq_idempotency q))),
         (u ''command_sha256'', PStr (id_command_sha256 (rq_idempotency q)))])))"

text \<open>
  The test before a commit. A request holds at least one event; \<^verbatim>\<open>current_head\<close> is the newest event of the
  stream and \<^verbatim>\<open>next_global_position\<close> the first free position of the ledger.
\<close>

fun positions_from :: "int \<Rightarrow> CanonicalEvent list \<Rightarrow> py_error option" where
  "positions_from position [] = None"
| "positions_from position (event # events) =
     first_error
       [conflict_if (ev_global_position event \<noteq> position) ''TBM_EVENT_LEDGER_GLOBAL_POSITION_CONFLICT''
          ''append event global positions are not currently available'',
        positions_from (position + 1) events]"

definition stale_stream_version :: py_error where
  "stale_stream_version = ledger_conflict ''TBM_EVENT_LEDGER_STALE_STREAM_VERSION'' ''expected stream version is stale''"

definition verify_ledger_append_precondition ::
  "LedgerAppendRequest \<Rightarrow> CanonicalEvent option \<Rightarrow> int \<Rightarrow> py_error option" where
  "verify_ledger_append_precondition request current_head next_global_position =
     first_error
       [positive_cursor next_global_position ''next_global_position'' False,
        (if rq_expected_stream_version request = 0
         then if current_head \<noteq> None then Some stale_stream_version else None
         else case current_head of
           None \<Rightarrow> Some stale_stream_version
         | Some head \<Rightarrow>
             if ev_stream_id head \<noteq> rq_stream_id request \<or> ev_stream_version head \<noteq> rq_expected_stream_version request
             then Some stale_stream_version
             else conflict_if (verify_event_parent (hd (rq_events request)) (Some head) \<noteq> None)
               ''TBM_EVENT_LEDGER_HEAD_MISMATCH'' ''append event does not extend the exact stream head''),
        positions_from next_global_position (rq_events request)]"

section \<open>Receipts\<close>

record LedgerAppendReceipt =
  re_request_sha256 :: pystr
  re_idempotency_key_sha256 :: pystr
  re_command_sha256 :: pystr
  re_stream_id :: pystr
  re_previous_stream_version :: int
  re_current_stream_version :: int
  re_first_global_position :: int
  re_last_global_position :: int
  re_events :: "CanonicalEvent list"
  re_outcome :: pystr
  re_receipt_sha256 :: pystr
  re_contract_version :: pystr

text \<open>The digest does not cover the digest itself nor the contract version.\<close>

definition ledger_append_receipt_sha256 :: "runtime \<Rightarrow> (pystr \<Rightarrow> pystr) \<Rightarrow> LedgerAppendReceipt \<Rightarrow> pystr result" where
  "ledger_append_receipt_sha256 rt sha r =
     domain_sha256 rt sha (u ''tbm.event-ledger-append-receipt.v1'')
       [(u ''request_sha256'', PStr (re_request_sha256 r)),
        (u ''idempotency_key_sha256'', PStr (re_idempotency_key_sha256 r)),
        (u ''command_sha256'', PStr (re_command_sha256 r)), (u ''stream_id'', PStr (re_stream_id r)),
        (u ''previous_stream_version'', PNum (PyInt (re_previous_stream_version r))),
        (u ''current_stream_version'', PNum (PyInt (re_current_stream_version r))),
        (u ''first_global_position'', PNum (PyInt (re_first_global_position r))),
        (u ''last_global_position'', PNum (PyInt (re_last_global_position r))),
        (u ''event_sha256s'', PList (map (PStr \<circ> ev_event_sha256) (re_events r))), (u ''outcome'', PStr (re_outcome r))]"

fun receipt_events_error :: "pystr \<Rightarrow> int \<Rightarrow> CanonicalEvent option \<Rightarrow> CanonicalEvent list \<Rightarrow> py_error option" where
  "receipt_events_error stream expected_version previous [] = None"
| "receipt_events_error stream expected_version previous (event # events) =
     first_error
       [reject_if (ev_stream_id event \<noteq> stream) (u ''receipt event stream_id is inconsistent''),
        reject_if (ev_stream_version event \<noteq> expected_version) (u ''receipt event stream versions are not contiguous''),
        if_given (verify_event_parent_or_invalid event) previous,
        receipt_events_error stream (expected_version + 1) (Some event) events]"

definition append_receipt_error :: "runtime \<Rightarrow> (pystr \<Rightarrow> pystr) \<Rightarrow> LedgerAppendReceipt \<Rightarrow> py_error option" where
  "append_receipt_error rt sha r =
     first_error
       [contract_version_error (re_contract_version r),
        ledger_digest (re_request_sha256 r) ''request_sha256'',
        ledger_digest (re_idempotency_key_sha256 r) ''idempotency_key_sha256'',
        ledger_digest (re_command_sha256 r) ''command_sha256'', ledger_digest (re_receipt_sha256 r) ''receipt_sha256'',
        ledger_identifier (re_stream_id r) ''stream_id'',
        reject_if (re_previous_stream_version r < 0 \<or> re_current_stream_version r < 1 \<or>
            re_current_stream_version r < re_previous_stream_version r) (u ''receipt stream versions are invalid''),
        reject_if (re_first_global_position r < 1 \<or> re_last_global_position r < re_first_global_position r)
          (u ''receipt global positions are invalid''),
        reject_if (\<not> (1 \<le> length (re_events r) \<and> length (re_events r) \<le> EVENT_LEDGER_MAX_APPEND_BATCH))
          (u ''receipt events must be a bounded non-empty tuple''),
        reject_if (re_current_stream_version r \<noteq> re_previous_stream_version r + int (length (re_events r)))
          (u ''receipt stream versions do not match event count''),
        receipt_events_error (re_stream_id r) (re_previous_stream_version r + 1) None (re_events r),
        reject_if (re_first_global_position r \<noteq> ev_global_position (hd (re_events r)) \<or>
            re_last_global_position r \<noteq> ev_global_position (last (re_events r)))
          (u ''receipt global positions do not match events''),
        (let previous = ev_previous_stream_event_sha256 (hd (re_events r)) in
         if re_previous_stream_version r = 0
         then reject_if (previous \<noteq> None) (u ''new stream receipt cannot name an existing parent'')
         else reject_if (previous = None) (u ''existing stream receipt must name its prior head'')),
        reject_if (re_outcome r \<noteq> u ''committed'') (u ''receipt outcome is not supported''),
        (case ledger_append_receipt_sha256 rt sha r of
           Inl e \<Rightarrow> Some e
         | Inr d \<Rightarrow> reject_if (re_receipt_sha256 r \<noteq> d) (u ''receipt_sha256 does not match append receipt''))]"

definition build_ledger_append_receipt :: "runtime \<Rightarrow> (pystr \<Rightarrow> pystr) \<Rightarrow> LedgerAppendRequest \<Rightarrow> LedgerAppendReceipt result" where
  "build_ledger_append_receipt rt sha request =
     rbind (request_sha256 rt sha request) (\<lambda>d.
     let r = \<lparr>re_request_sha256 = d, re_idempotency_key_sha256 = id_idempotency_key_sha256 (rq_idempotency request),
           re_command_sha256 = id_command_sha256 (rq_idempotency request), re_stream_id = rq_stream_id request,
           re_previous_stream_version = rq_expected_stream_version request,
           re_current_stream_version = ev_stream_version (last (rq_events request)),
           re_first_global_position = ev_global_position (hd (rq_events request)),
           re_last_global_position = ev_global_position (last (rq_events request)), re_events = rq_events request,
           re_outcome = u ''committed'', re_receipt_sha256 = [], re_contract_version = EVENT_LEDGER_PORT_VERSION\<rparr>
     in rbind (ledger_append_receipt_sha256 rt sha r) (\<lambda>s.
        let receipt = r\<lparr>re_receipt_sha256 := s\<rparr> in or_raise (append_receipt_error rt sha receipt) (Inr receipt)))"

definition verify_ledger_append_receipt ::
  "runtime \<Rightarrow> (pystr \<Rightarrow> pystr) \<Rightarrow> LedgerAppendRequest \<Rightarrow> LedgerAppendReceipt \<Rightarrow> py_error option" where
  "verify_ledger_append_receipt rt sha request receipt =
     (case request_sha256 rt sha request of
        Inl e \<Rightarrow> Some e
      | Inr d \<Rightarrow> conflict_if
          (re_request_sha256 receipt \<noteq> d \<or>
           re_idempotency_key_sha256 receipt \<noteq> id_idempotency_key_sha256 (rq_idempotency request) \<or>
           re_command_sha256 receipt \<noteq> id_command_sha256 (rq_idempotency request) \<or>
           re_stream_id receipt \<noteq> rq_stream_id request \<or>
           re_previous_stream_version receipt \<noteq> rq_expected_stream_version request \<or>
           re_current_stream_version receipt \<noteq> rq_expected_stream_version request + int (length (rq_events request)) \<or>
           \<not> list_all2 event_eq (re_events receipt) (rq_events request) \<or>
           re_first_global_position receipt \<noteq> ev_global_position (hd (rq_events request)) \<or>
           re_last_global_position receipt \<noteq> ev_global_position (last (rq_events request)))
          ''TBM_EVENT_LEDGER_RECEIPT_MISMATCH'' ''ledger did not return the exact append result'')"

record LedgerAppendCommit =
  cm_receipt :: LedgerAppendReceipt
  cm_inserted :: bool

definition replayed :: "LedgerAppendCommit \<Rightarrow> bool" where
  "replayed c \<longleftrightarrow> \<not> cm_inserted c"

section \<open>Pages\<close>

record LedgerStreamReadRequest =
  sq_access :: LedgerAccessContext
  sq_stream_id :: pystr
  sq_from_version :: int
  sq_limit :: int

definition stream_read_request_error :: "LedgerStreamReadRequest \<Rightarrow> py_error option" where
  "stream_read_request_error q =
     first_error
       [ledger_identifier (sq_stream_id q) ''stream_id'', positive_cursor (sq_from_version q) ''from_version'' False,
        read_limit (sq_limit q)]"

record LedgerGlobalReadRequest =
  gq_access :: LedgerAccessContext
  gq_after_position :: int
  gq_limit :: int

definition global_read_request_error :: "LedgerGlobalReadRequest \<Rightarrow> py_error option" where
  "global_read_request_error q =
     first_error [positive_cursor (gq_after_position q) ''after_position'' True, read_limit (gq_limit q)]"

record LedgerPage =
  pg_read_kind :: pystr
  pg_events :: "CanonicalEvent list"
  pg_high_watermark_global_position :: int
  pg_next_stream_version :: "int option"
  pg_next_global_position :: "int option"
  pg_has_more :: bool
  pg_page_sha256 :: pystr
  pg_contract_version :: pystr

definition int_or_none :: "int option \<Rightarrow> pyval" where
  "int_or_none v = (case v of None \<Rightarrow> PNone | Some i \<Rightarrow> PNum (PyInt i))"

definition ledger_page_sha256 :: "runtime \<Rightarrow> (pystr \<Rightarrow> pystr) \<Rightarrow> LedgerPage \<Rightarrow> pystr result" where
  "ledger_page_sha256 rt sha p =
     domain_sha256 rt sha (u ''tbm.event-ledger-page.v1'')
       [(u ''read_kind'', PStr (pg_read_kind p)),
        (u ''event_sha256s'', PList (map (PStr \<circ> ev_event_sha256) (pg_events p))),
        (u ''high_watermark_global_position'', PNum (PyInt (pg_high_watermark_global_position p))),
        (u ''next_stream_version'', int_or_none (pg_next_stream_version p)),
        (u ''next_global_position'', int_or_none (pg_next_global_position p)), (u ''has_more'', PBool (pg_has_more p))]"

definition page_error :: "runtime \<Rightarrow> (pystr \<Rightarrow> pystr) \<Rightarrow> LedgerPage \<Rightarrow> py_error option" where
  "page_error rt sha p =
     first_error
       [contract_version_error (pg_contract_version p),
        reject_if (pg_read_kind p \<notin> {u ''stream'', u ''global''}) (u ''read_kind is not supported''),
        reject_if (EVENT_LEDGER_MAX_READ_PAGE < length (pg_events p)) (u ''page events are invalid or unbounded''),
        positive_cursor (pg_high_watermark_global_position p) ''high_watermark_global_position'' True,
        if_given (\<lambda>v. positive_cursor v ''next_stream_version'' False) (pg_next_stream_version p),
        if_given (\<lambda>v. positive_cursor v ''next_global_position'' True) (pg_next_global_position p),
        reject_if (pg_has_more p \<and> pg_events p = []) (u ''a page with more results must advance its cursor''),
        reject_if (list_ex (\<lambda>e. pg_high_watermark_global_position p < ev_global_position e) (pg_events p))
          (u ''page high watermark precedes a returned event''),
        reject_if (pg_has_more p \<and> list_ex (\<lambda>e. pg_high_watermark_global_position p \<le> ev_global_position e) (pg_events p))
          (u ''page with more results must retain a later high watermark''),
        ledger_digest (pg_page_sha256 p) ''page_sha256'',
        (case ledger_page_sha256 rt sha p of
           Inl e \<Rightarrow> Some e
         | Inr d \<Rightarrow> reject_if (pg_page_sha256 p \<noteq> d) (u ''page_sha256 does not match ledger page''))]"

definition build_ledger_page ::
  "runtime \<Rightarrow> (pystr \<Rightarrow> pystr) \<Rightarrow> string \<Rightarrow> CanonicalEvent list \<Rightarrow> int \<Rightarrow> int option \<Rightarrow> int option \<Rightarrow> bool \<Rightarrow> LedgerPage result" where
  "build_ledger_page rt sha read_kind events high_watermark next_stream_version next_global_position has_more =
     (let p = \<lparr>pg_read_kind = u read_kind, pg_events = events, pg_high_watermark_global_position = high_watermark,
           pg_next_stream_version = next_stream_version, pg_next_global_position = next_global_position,
           pg_has_more = has_more, pg_page_sha256 = [], pg_contract_version = EVENT_LEDGER_PORT_VERSION\<rparr>
      in rbind (ledger_page_sha256 rt sha p) (\<lambda>d.
         let page = p\<lparr>pg_page_sha256 := d\<rparr> in or_raise (page_error rt sha page) (Inr page)))"

text \<open>The loop over the events of a stream page returns the version expected next.\<close>

fun stream_page_events :: "LedgerStreamReadRequest \<Rightarrow> int \<Rightarrow> CanonicalEvent option \<Rightarrow> CanonicalEvent list \<Rightarrow> int result" where
  "stream_page_events q expected_version previous [] = Inr expected_version"
| "stream_page_events q expected_version previous (event # events) =
     or_raise (first_error
       [verify_read_access (sq_access q) event,
        reject_if (ev_stream_id event \<noteq> sq_stream_id q) (u ''stream page contains another stream''),
        reject_if (ev_stream_version event \<noteq> expected_version) (u ''stream page versions are not contiguous''),
        if_given (verify_event_parent_or_invalid event) previous])
     (stream_page_events q (expected_version + 1) (Some event) events)"

definition verify_ledger_stream_page :: "LedgerStreamReadRequest \<Rightarrow> LedgerPage \<Rightarrow> py_error option" where
  "verify_ledger_stream_page request page =
     (if pg_read_kind page \<noteq> u ''stream'' \<or> sq_limit request < int (length (pg_events page))
      then Some (ledger_invalid (u ''stream page does not match read request''))
      else case stream_page_events request (sq_from_version request) None (pg_events page) of
        Inl e \<Rightarrow> Some e
      | Inr expected_version \<Rightarrow>
          reject_if (pg_next_stream_version page \<noteq> (if pg_has_more page then Some expected_version else None) \<or>
              pg_next_global_position page \<noteq> None) (u ''stream page cursor is inconsistent''))"

fun global_page_events :: "LedgerGlobalReadRequest \<Rightarrow> int \<Rightarrow> CanonicalEvent list \<Rightarrow> int result" where
  "global_page_events q previous_position [] = Inr previous_position"
| "global_page_events q previous_position (event # events) =
     or_raise (first_error
       [verify_read_access (gq_access q) event,
        reject_if (ev_global_position event \<le> previous_position) (u ''global page positions are not strictly increasing'')])
     (global_page_events q (ev_global_position event) events)"

definition verify_ledger_global_page :: "LedgerGlobalReadRequest \<Rightarrow> LedgerPage \<Rightarrow> py_error option" where
  "verify_ledger_global_page request page =
     (if pg_read_kind page \<noteq> u ''global'' \<or> gq_limit request < int (length (pg_events page))
      then Some (ledger_invalid (u ''global page does not match read request''))
      else if pg_high_watermark_global_position page < gq_after_position request
      then Some (ledger_invalid (u ''global page high watermark precedes the read cursor''))
      else case global_page_events request (gq_after_position request) (pg_events page) of
        Inl e \<Rightarrow> Some e
      | Inr previous_position \<Rightarrow>
          reject_if (pg_next_global_position page \<noteq> (if pg_has_more page then Some previous_position else None) \<or>
              pg_next_stream_version page \<noteq> None) (u ''global page cursor is inconsistent''))"

section \<open>Verification and subscriptions\<close>

record LedgerStreamVerification =
  sv_stream_id :: pystr
  sv_partition_sha256 :: pystr
  sv_verified_stream_version :: int
  sv_verified_event_count :: int
  sv_head_event_sha256 :: "pystr option"
  sv_valid :: bool
  sv_issue_codes :: "pystr list"

definition stream_verification_error :: "LedgerStreamVerification \<Rightarrow> py_error option" where
  "stream_verification_error v =
     first_error
       [ledger_identifier (sv_stream_id v) ''stream_id'', ledger_digest (sv_partition_sha256 v) ''partition_sha256'',
        positive_cursor (sv_verified_stream_version v) ''verified_stream_version'' True,
        positive_cursor (sv_verified_event_count v) ''verified_event_count'' True,
        if_given (\<lambda>d. ledger_digest d ''head_event_sha256'') (sv_head_event_sha256 v),
        reject_if (EVENT_LEDGER_MAX_VERIFICATION_ISSUES < length (sv_issue_codes v) \<or>
            list_ex (\<lambda>c. c \<notin> set VERIFICATION_ISSUE_CODES) (sv_issue_codes v) \<or> \<not> distinct (sv_issue_codes v) \<or>
            sv_issue_codes v \<noteq> [c \<leftarrow> VERIFICATION_ISSUE_CODES. c \<in> set (sv_issue_codes v)])
          (u ''verification issue codes are invalid''),
        reject_if (sv_valid v \<longleftrightarrow> sv_issue_codes v \<noteq> []) (u ''verification validity and issue codes disagree''),
        (if sv_verified_stream_version v = 0
         then reject_if (sv_verified_event_count v \<noteq> 0 \<or> sv_head_event_sha256 v \<noteq> None)
           (u ''empty stream verification is inconsistent'')
         else reject_if (sv_verified_event_count v \<noteq> sv_verified_stream_version v \<or> sv_head_event_sha256 v = None)
           (u ''non-empty stream verification is inconsistent''))]"

definition verify_ledger_stream_verification ::
  "runtime \<Rightarrow> (pystr \<Rightarrow> pystr) \<Rightarrow> LedgerAccessContext \<Rightarrow> pystr \<Rightarrow> LedgerStreamVerification \<Rightarrow> py_error option" where
  "verify_ledger_stream_verification rt sha access stream_id verification =
     first_error
       [ledger_identifier stream_id ''stream_id'',
        (if sv_stream_id verification \<noteq> stream_id then Some (ledger_conflict ''TBM_EVENT_LEDGER_VERIFICATION_MISMATCH''
            ''stream verification does not match the requested partition'')
         else case partition_sha256 rt sha (ac_partition access) of
           Inl e \<Rightarrow> Some e
         | Inr d \<Rightarrow> conflict_if (sv_partition_sha256 verification \<noteq> d) ''TBM_EVENT_LEDGER_VERIFICATION_MISMATCH''
             ''stream verification does not match the requested partition'')]"

record LedgerSubscriptionRequest =
  bq_access :: LedgerAccessContext
  bq_after_position :: int
  bq_limit :: int
  bq_poll_timeout_seconds :: int

definition subscription_request_error :: "LedgerSubscriptionRequest \<Rightarrow> py_error option" where
  "subscription_request_error q =
     first_error
       [positive_cursor (bq_after_position q) ''after_position'' True, read_limit (bq_limit q),
        reject_if (\<not> (0 \<le> bq_poll_timeout_seconds q \<and> bq_poll_timeout_seconds q \<le> EVENT_LEDGER_MAX_SUBSCRIPTION_POLL_SECONDS))
          (u ''poll_timeout_seconds is out of bounds'')]"

record LedgerSubscriptionPage =
  sp_subscription_id :: pystr
  sp_delivery_id :: pystr
  sp_page :: LedgerPage
  sp_heartbeat :: bool

definition subscription_page_error :: "LedgerSubscriptionPage \<Rightarrow> py_error option" where
  "subscription_page_error p =
     first_error
       [ledger_identifier (sp_subscription_id p) ''subscription_id'', ledger_identifier (sp_delivery_id p) ''delivery_id'',
        reject_if (pg_read_kind (sp_page p) \<noteq> u ''global'') (u ''subscription page must contain one global LedgerPage''),
        reject_if (sp_heartbeat p \<and> pg_events (sp_page p) \<noteq> []) (u ''heartbeat subscription page cannot contain events'')]"

end
