(* ===== verification/LedgerFacts.thy ===== *)
theory LedgerFacts
  imports Ledger
begin

text \<open>
  What the contract of the ledger implies: an accepted append extends the chain of its stream, the
  receipt of a valid request exists and is accepted, and an accepted page is a linked part of a stream
  within the rights of the reader.
\<close>

section \<open>Appending\<close>

definition in_request :: "LedgerAppendRequest \<Rightarrow> CanonicalEvent \<Rightarrow> bool" where
  "in_request q e \<longleftrightarrow> ev_stream_id e = rq_stream_id q \<and>
     verify_event_trusted_context e (event_trusted_context (rq_access q)) = None \<and>
     ev_idempotency_key_sha256 e = id_idempotency_key_sha256 (rq_idempotency q) \<and>
     ev_request_sha256 e = id_command_sha256 (rq_idempotency q) \<and>
     allows (ac_classification_filter (rq_access q)) (ev_classification e)"

lemma append_events_error_Cons_iff:
  "append_events_error q v p (e # es) = None \<longleftrightarrow>
     in_request q e \<and> ev_stream_version e = v \<and> (\<forall>x. p = Some x \<longrightarrow> verify_event_parent e (Some x) = None) \<and>
     append_events_error q (v + 1) (Some e) es = None"
  by (auto simp: in_request_def verify_event_parent_or_invalid_def)

lemma append_events_in_request: "append_events_error q v p es = None \<Longrightarrow> \<forall>e\<in>set es. in_request q e"
  by (induction es arbitrary: v p) (auto simp: append_events_error_Cons_iff simp del: append_events_error.simps(2))

lemma append_events_linked: "append_events_error q v (Some p) es = None \<Longrightarrow> linked (Some p) es"
  by (induction es arbitrary: v p) (auto simp: append_events_error_Cons_iff simp del: append_events_error.simps(2))

lemma append_events_versions:
  "append_events_error q v p es = None \<Longrightarrow> i < length es \<Longrightarrow> ev_stream_version (es ! i) = v + int i"
proof (induction es arbitrary: v p i)
  case (Cons e es)
  then show ?case
    by (cases i) (auto simp: append_events_error_Cons_iff simp del: append_events_error.simps(2))
qed simp

lemma request_events:
  assumes "append_request_error q = None"
  shows "rq_events q \<noteq> []" "length (rq_events q) \<le> 100" "0 \<le> rq_expected_stream_version q"
    "rq_expected_stream_version q \<le> EVENT_MAX_VERSION"
    "append_events_error q (rq_expected_stream_version q + 1) None (rq_events q) = None"
    "rq_contract_version q = EVENT_LEDGER_PORT_VERSION" "port_identifier (rq_stream_id q)"
    "ev_previous_stream_event_sha256 (hd (rq_events q)) = None \<longleftrightarrow> rq_expected_stream_version q = 0"
  using assms unfolding append_request_error_def first_error_None_iff
  by (auto simp: Let_def contract_version_error_def ledger_identifier_def split: if_splits)

lemma positions_from_iff:
  "positions_from p es = None \<longleftrightarrow> (\<forall>i<length es. ev_global_position (es ! i) = p + int i)"
proof (induction es arbitrary: p)
  case (Cons e es)
  have "(\<forall>i<Suc (length es). ev_global_position ((e # es) ! i) = p + int i) \<longleftrightarrow>
      ev_global_position e = p \<and> (\<forall>i<length es. ev_global_position (es ! i) = p + 1 + int i)"
    by (simp only: All_less_Suc2) (simp add: algebra_simps)
  then show ?case by (simp add: Cons.IH)
qed simp

lemma precondition_positions:
  "verify_ledger_append_precondition q h n = None \<Longrightarrow> i < length (rq_events q) \<Longrightarrow>
   ev_global_position (rq_events q ! i) = n + int i"
  by (simp add: verify_ledger_append_precondition_def positions_from_iff)

lemma precondition_linked:
  assumes q: "append_request_error q = None" and pre: "verify_ledger_append_precondition q h n = None"
  shows "linked h (rq_events q)"
proof -
  obtain e es where es: "rq_events q = e # es" using request_events(1) [OF q] by (cases "rq_events q") auto
  have a: "append_events_error q (rq_expected_stream_version q + 1) None (e # es) = None"
    using request_events(5) [OF q] es by simp
  then have "linked (Some e) es" by (auto simp: append_events_error_Cons_iff simp del: append_events_error.simps(2) intro: append_events_linked)
  moreover have v: "ev_stream_version e = rq_expected_stream_version q + 1"
    using a by (auto simp: append_events_error_Cons_iff simp del: append_events_error.simps(2))
  have "verify_event_parent e h = None"
    using pre v by (auto simp: verify_ledger_append_precondition_def es parent_None_iff stale_stream_version_def split: if_splits option.splits)
  ultimately show ?thesis by (simp add: es)
qed

lemma append_extends:
  assumes "append_request_error q = None" and "verify_ledger_append_precondition q (head_of es) n = None"
    and "event_chain rt sha es" and "\<forall>e\<in>set (rq_events q). canonical_event_error rt sha e = None"
  shows "event_chain rt sha (rev (rq_events q) @ es)"
  using chain_extend [OF assms(3) precondition_linked [OF assms(1,2)] assms(4)] .

section \<open>Receipts\<close>

text \<open>An object that the code holds passed the checks of its constructor.\<close>

definition valid_access :: "LedgerAccessContext \<Rightarrow> bool" where
  "valid_access a \<longleftrightarrow> access_error a = None \<and> partition_error (ac_partition a) = None \<and>
     filter_error (ac_classification_filter a) = None"

definition valid_request :: "runtime \<Rightarrow> (pystr \<Rightarrow> pystr) \<Rightarrow> LedgerAppendRequest \<Rightarrow> bool" where
  "valid_request rt sha q \<longleftrightarrow> append_request_error q = None \<and> valid_access (rq_access q) \<and>
     idempotency_error (rq_idempotency q) = None \<and> (\<forall>e\<in>set (rq_events q). canonical_event_error rt sha e = None)"

lemma verified_receipt:
  assumes "verify_ledger_append_receipt rt sha q r = None"
  shows "request_sha256 rt sha q = Inr (re_request_sha256 r)" "list_all2 event_eq (re_events r) (rq_events q)"
    "re_idempotency_key_sha256 r = id_idempotency_key_sha256 (rq_idempotency q)"
    "re_command_sha256 r = id_command_sha256 (rq_idempotency q)" "re_stream_id r = rq_stream_id q"
    "re_previous_stream_version r = rq_expected_stream_version q"
    "re_current_stream_version r = rq_expected_stream_version q + int (length (rq_events q))"
    "re_first_global_position r = ev_global_position (hd (rq_events q))"
    "re_last_global_position r = ev_global_position (last (rq_events q))"
  using assms by (auto simp: verify_ledger_append_receipt_def split: sum.splits)

lemma last_version:
  assumes "append_request_error q = None"
  shows "ev_stream_version (last (rq_events q)) = rq_expected_stream_version q + int (length (rq_events q))"
proof -
  note q = request_events [OF assms]
  have "ev_stream_version (rq_events q ! (length (rq_events q) - 1)) = rq_expected_stream_version q + 1 + int (length (rq_events q) - 1)"
    by (rule append_events_versions [OF q(5)]) (use q(1) in \<open>cases "rq_events q"; simp\<close>)
  then show ?thesis using q(1) by (cases "rq_events q") (auto simp: last_conv_nth)
qed

lemma built_receipt_verified:
  assumes q: "valid_request rt sha q" and b: "build_ledger_append_receipt rt sha q = Inr r"
  shows "verify_ledger_append_receipt rt sha q r = None" "append_receipt_error rt sha r = None"
proof -
  have "list_all2 event_eq (rq_events q) (rq_events q)"
    using q by (auto simp: valid_request_def list_all2_same intro: event_eq_refl)
  moreover have "append_request_error q = None" using q by (simp add: valid_request_def)
  ultimately show "verify_ledger_append_receipt rt sha q r = None" "append_receipt_error rt sha r = None"
    using b last_version
    by (auto simp: build_ledger_append_receipt_def verify_ledger_append_receipt_def Let_def result_simps split: sum.splits)
qed

text \<open>Descriptors of plain values can be hashed.\<close>

lemma plain_list: "\<forall>v\<in>set vs. plain_value rt v \<Longrightarrow> plain_value rt (PList vs)"
proof -
  assume "\<forall>v\<in>set vs. plain_value rt v"
  then obtain ts where "all_some (map (canonical_json rt) vs) = Some ts" "\<forall>t\<in>set ts. encodable t" by (rule all_some_plain)
  then show ?thesis by (simp add: plain_value_def encodable_join)
qed

lemma domain_sha256_total:
  assumes "\<forall>x\<in>set value. encodable (fst x) \<and> plain_value rt (snd x)"
  shows "\<exists>d. domain_sha256 rt sha domain value = Inr d"
  using plain_digest [OF assms, of sha]
  by (auto simp: canonical_sha256_def domain_sha256_def utf8_size_None_iff split: option.splits if_splits)

lemma domain_sha256_digest:
  "hex_digests sha \<Longrightarrow> domain_sha256 rt sha domain value = Inr d \<Longrightarrow> tagged_digest (u ''sha256:'') d"
  by (auto simp: domain_sha256_def hex_digests_tagged split: option.splits if_splits)

lemma encodable_digest: "tagged_digest (u p) d \<Longrightarrow> encodable d"
proof -
  assume d: "tagged_digest (u p) d"
  have "encodable (drop (length p) d)"
    by (rule encodable_small) (use d in \<open>auto simp: tagged_digest_def list_all_iff is_hex_def\<close>)
  moreover have "d = u p @ drop (length p) d" using d by (metis append_take_drop_id length_u tagged_digest_def)
  ultimately show ?thesis by (metis encodable_append encodable_u)
qed

lemma encodable_identifier: "port_identifier s \<Longrightarrow> encodable s"
  by (rule encodable_small) (auto simp: port_identifier_def ascii_alnum_def lower_alnum_def list_all_iff split: list.splits)

lemma partition_sha256_total:
  assumes "partition_error p = None" and "hex_digests sha"
  obtains d where "partition_sha256 rt sha p = Inr d" "tagged_digest (u ''sha256:'') d"
proof -
  have "\<exists>d. partition_sha256 rt sha p = Inr d"
    unfolding partition_sha256_def
    by (rule domain_sha256_total)
       (use assms(1) in \<open>auto simp: partition_error_def ledger_identifier_def encodable_identifier\<close>)
  with that domain_sha256_digest [OF assms(2)] show thesis unfolding partition_sha256_def by blast
qed

lemma filter_sha256_total:
  assumes "filter_error f = None" and "hex_digests sha"
  obtains d where "filter_sha256 rt sha f = Inr d" "tagged_digest (u ''sha256:'') d"
proof -
  have "\<forall>c\<in>set (cf_allowed f). encodable c"
    using assms(1) by (auto simp: filter_error_def list_ex_iff CLASSIFICATION_ORDER_def)
  then have "plain_value rt (PList (map PStr (cf_allowed f)))" by (intro plain_list) auto
  then have "\<exists>d. filter_sha256 rt sha f = Inr d"
    unfolding filter_sha256_def by (intro domain_sha256_total) auto
  with that domain_sha256_digest [OF assms(2)] show thesis unfolding filter_sha256_def by blast
qed

lemma valid_event_hash: "canonical_event_error rt sha e = None \<Longrightarrow> tagged_digest (u ''sha256:'') (ev_event_sha256 e)"
proof -
  assume "canonical_event_error rt sha e = None"
  then have "event_digest (ev_event_sha256 e) (u ''event_sha256'') = None"
    unfolding canonical_event_error_def first_error_None_iff by simp
  then show ?thesis by (simp add: event_digest_def)
qed

lemma event_hashes_plain:
  assumes "\<forall>e\<in>set es. canonical_event_error rt sha e = None"
  shows "plain_value rt (PList (map (PStr \<circ> ev_event_sha256) es))"
proof (rule plain_list, rule ballI)
  fix v assume "v \<in> set (map (PStr \<circ> ev_event_sha256) es)"
  then obtain e where "e \<in> set es" "v = PStr (ev_event_sha256 e)" by auto
  with assms show "plain_value rt v" by (auto intro: encodable_digest valid_event_hash)
qed

lemma request_sha256_total:
  assumes q: "valid_request rt sha q" and num: "decimal_numbers rt" and hex: "hex_digests sha"
  obtains d where "request_sha256 rt sha q = Inr d" "tagged_digest (u ''sha256:'') d"
proof -
  let ?a = "rq_access q"
  note q' = request_events [of q]
  have a: "access_error ?a = None" "append_request_error q = None" "idempotency_error (rq_idempotency q) = None"
    "partition_error (ac_partition ?a) = None" "filter_error (ac_classification_filter ?a) = None"
    using q by (auto simp: valid_request_def valid_access_def)
  obtain p where p: "partition_sha256 rt sha (ac_partition ?a) = Inr p" "tagged_digest (u ''sha256:'') p"
    by (rule partition_sha256_total [OF a(4) hex])
  obtain f where f: "filter_sha256 rt sha (ac_classification_filter ?a) = Inr f" "tagged_digest (u ''sha256:'') f"
    by (rule filter_sha256_total [OF a(5) hex])
  have "plain_value rt (PList (map (PStr \<circ> ev_event_sha256) (rq_events q)))"
    by (rule event_hashes_plain [of _ rt sha]) (use q in \<open>simp add: valid_request_def\<close>)
  moreover have "plain_value rt (PNum (PyInt (rq_expected_stream_version q)))"
    by (rule plain_number [OF num]) (use q'(3,4) a(2) in auto)
  moreover have "encodable p" "encodable f" using p(2) f(2) encodable_digest by auto
  moreover have "encodable (id_idempotency_key_sha256 (rq_idempotency q))" "encodable (id_command_sha256 (rq_idempotency q))"
    using a(3) encodable_digest by (auto simp: idempotency_error_def ledger_digest_def)
  moreover have "encodable (ac_actor_type ?a)"
    using a(1) by (auto simp: access_error_def ACTOR_TYPES_def)
  moreover have "encodable (ac_principal_id ?a)" "encodable (ac_agent_client_id ?a)" "encodable (ac_actor_id ?a)"
    "encodable (ac_authorization_decision_id ?a)" "encodable (rq_stream_id q)"
    using a(1) q'(7) [OF a(2)] by (auto simp: access_error_def ledger_identifier_def encodable_identifier)
  moreover have "encodable (rq_contract_version q)" using q'(6) [OF a(2)] by (simp add: EVENT_LEDGER_PORT_VERSION_def)
  ultimately have "\<exists>d. request_sha256 rt sha q = Inr d"
    unfolding request_sha256_def Let_def p(1) f(1) rbind_simps
    by (intro domain_sha256_total) auto
  with that domain_sha256_digest [OF hex] p(1) f(1) show thesis by (fastforce simp: request_sha256_def Let_def)
qed

lemma append_events_receipt: "append_events_error q v p es = None \<Longrightarrow> receipt_events_error (rq_stream_id q) v p es = None"
  by (induction es arbitrary: v p)
     (auto simp: append_events_error_Cons_iff in_request_def verify_event_parent_or_invalid_def simp del: append_events_error.simps(2))

lemma linked_positions: "linked (Some p) es \<Longrightarrow> ev_global_position p \<le> ev_global_position (last (p # es))"
proof (induction es arbitrary: p)
  case (Cons e es)
  then have "ev_global_position p < ev_global_position e" using parent_Some(4) by auto
  with Cons show ?case by fastforce
qed simp

lemma request_positions:
  assumes "append_request_error q = None"
  shows "ev_global_position (hd (rq_events q)) \<le> ev_global_position (last (rq_events q))"
proof -
  obtain e es where es: "rq_events q = e # es" using request_events(1) [OF assms] by (cases "rq_events q") auto
  then have "append_events_error q (rq_expected_stream_version q + 1) None (e # es) = None" using request_events(5) [OF assms] by simp
  then have "linked (Some e) es"
    by (auto simp: append_events_error_Cons_iff simp del: append_events_error.simps(2) intro: append_events_linked)
  then show ?thesis using linked_positions es by simp
qed

lemma build_receipt_total:
  assumes v: "valid_request rt sha q" and num: "decimal_numbers rt" and hex: "hex_digests sha"
  shows "\<exists>r. build_ledger_append_receipt rt sha q = Inr r"
proof -
  have q: "append_request_error q = None" and i: "idempotency_error (rq_idempotency q) = None"
    and e: "\<forall>e\<in>set (rq_events q). canonical_event_error rt sha e = None"
    using v by (simp_all add: valid_request_def)
  note q' = request_events [OF q]
  obtain d where d: "request_sha256 rt sha q = Inr d" "tagged_digest (u ''sha256:'') d"
    by (rule request_sha256_total [OF assms])
  define r where "r = \<lparr>re_request_sha256 = d, re_idempotency_key_sha256 = id_idempotency_key_sha256 (rq_idempotency q),
           re_command_sha256 = id_command_sha256 (rq_idempotency q), re_stream_id = rq_stream_id q,
           re_previous_stream_version = rq_expected_stream_version q,
           re_current_stream_version = ev_stream_version (last (rq_events q)),
           re_first_global_position = ev_global_position (hd (rq_events q)),
           re_last_global_position = ev_global_position (last (rq_events q)), re_events = rq_events q,
           re_outcome = u ''committed'', re_receipt_sha256 = [], re_contract_version = EVENT_LEDGER_PORT_VERSION\<rparr>"
  have bounds: "1 \<le> ev_global_position x" "ev_global_position x \<le> EVENT_MAX_VERSION" "1 \<le> ev_stream_version x" "ev_stream_version x \<le> EVENT_MAX_VERSION"
    if "x \<in> {hd (rq_events q), last (rq_events q)}" for x
    by (rule valid_event_versions [of rt sha], use e q'(1) that in auto)+
  have num': "plain_value rt (PNum (PyInt i))" if "0 \<le> i" "i \<le> EVENT_MAX_VERSION" for i
    using plain_number [OF num] that by simp
  have ends: "plain_value rt (PNum (PyInt (ev_stream_version x)))" "plain_value rt (PNum (PyInt (ev_global_position x)))"
    if "x \<in> {hd (rq_events q), last (rq_events q)}" for x
    using bounds [OF that] by (intro num'; linarith)+
  have digests: "tagged_digest (u ''sha256:'') (id_idempotency_key_sha256 (rq_idempotency q))" "tagged_digest (u ''sha256:'') (id_command_sha256 (rq_idempotency q))"
    using i by (auto simp: idempotency_error_def ledger_digest_def)
  have "\<exists>s. ledger_append_receipt_sha256 rt sha r = Inr s"
    unfolding ledger_append_receipt_sha256_def
    by (rule domain_sha256_total)
       (use encodable_digest [OF d(2)] encodable_digest [OF digests(1)] encodable_digest [OF digests(2)] encodable_identifier [OF q'(7)]
          num' [OF q'(3,4)] ends event_hashes_plain [OF e] in \<open>auto simp: r_def\<close>)
  then obtain s where s: "ledger_append_receipt_sha256 rt sha r = Inr s" by blast
  have s': "ledger_append_receipt_sha256 rt sha (r\<lparr>re_receipt_sha256 := s\<rparr>) = Inr s"
    using s by (simp add: ledger_append_receipt_sha256_def)
  have "tagged_digest (u ''sha256:'') s" using domain_sha256_digest [OF hex] s by (auto simp: ledger_append_receipt_sha256_def)
  moreover have "1 \<le> length (rq_events q)" using q'(1) by (cases "rq_events q") auto
  moreover have "1 \<le> ev_global_position (hd (rq_events q))" using bounds by blast
  ultimately have "append_receipt_error rt sha (r\<lparr>re_receipt_sha256 := s\<rparr>) = None"
    unfolding append_receipt_error_def s'
    using d(2) digests q' last_version [OF q] request_positions [OF q] append_events_receipt [OF q'(5)]
    by (simp add: r_def contract_version_error_def ledger_digest_def ledger_identifier_def Let_def)
  with s show ?thesis unfolding build_ledger_append_receipt_def d(1) rbind_simps Let_def r_def [symmetric] by simp
qed

section \<open>Pages\<close>

lemma stream_page_events_iff:
  "stream_page_events q v p (e # es) = Inr w \<longleftrightarrow>
     verify_read_access (sq_access q) e = None \<and> ev_stream_id e = sq_stream_id q \<and> ev_stream_version e = v \<and>
     (\<forall>x. p = Some x \<longrightarrow> verify_event_parent e (Some x) = None) \<and> stream_page_events q (v + 1) (Some e) es = Inr w"
  by (auto simp: result_simps verify_event_parent_or_invalid_def)

lemma stream_page_contents:
  "stream_page_events q v p es = Inr w \<Longrightarrow>
     w = v + int (length es) \<and> (\<forall>i<length es. ev_stream_version (es ! i) = v + int i) \<and>
     (\<forall>e\<in>set es. verify_read_access (sq_access q) e = None \<and> ev_stream_id e = sq_stream_id q) \<and>
     (case p of Some x \<Rightarrow> linked (Some x) es | None \<Rightarrow> es \<noteq> [] \<longrightarrow> linked (Some (hd es)) (tl es))"
proof (induction es arbitrary: v p)
  case (Cons e es)
  then have e: "verify_read_access (sq_access q) e = None" "ev_stream_id e = sq_stream_id q" "ev_stream_version e = v"
    "\<forall>x. p = Some x \<longrightarrow> verify_event_parent e (Some x) = None" "stream_page_events q (v + 1) (Some e) es = Inr w"
    by (auto simp: stream_page_events_iff simp del: stream_page_events.simps(2))
  from Cons.IH [OF e(5)] have IH: "w = v + 1 + int (length es)" "\<forall>i<length es. ev_stream_version (es ! i) = v + 1 + int i"
    "\<forall>e\<in>set es. verify_read_access (sq_access q) e = None \<and> ev_stream_id e = sq_stream_id q" "linked (Some e) es" by auto
  then show ?case using e by (auto simp: nth_Cons split: nat.splits option.splits)
qed (auto split: option.splits)

lemma stream_page_accepted:
  "\<forall>i<length es. ev_stream_version (es ! i) = v + int i \<Longrightarrow>
   \<forall>e\<in>set es. verify_read_access (sq_access q) e = None \<and> ev_stream_id e = sq_stream_id q \<Longrightarrow>
   (case p of Some x \<Rightarrow> linked (Some x) es | None \<Rightarrow> es \<noteq> [] \<longrightarrow> linked (Some (hd es)) (tl es)) \<Longrightarrow>
   stream_page_events q v p es = Inr (v + int (length es))"
proof (induction es arbitrary: v p)
  case (Cons e es)
  have "\<forall>i<length es. ev_stream_version (es ! i) = v + 1 + int i"
  proof safe
    fix i assume "i < length es"
    then show "ev_stream_version (es ! i) = v + 1 + int i" using Cons.prems(1) [rule_format, of "Suc i"] by simp
  qed
  moreover have "linked (Some e) es" using Cons.prems(3) by (auto split: option.splits)
  ultimately have "stream_page_events q (v + 1) (Some e) es = Inr (v + 1 + int (length es))"
    using Cons.IH [of "v + 1" "Some e"] Cons.prems(2) by simp
  moreover have "ev_stream_version e = v" using Cons.prems(1) [rule_format, of 0] by simp
  ultimately show ?case using Cons.prems(2,3)
    by (auto simp: stream_page_events_iff simp del: stream_page_events.simps(2) split: option.splits)
qed simp

lemma verified_stream_page:
  assumes "verify_ledger_stream_page q p = None"
  shows "\<forall>i<length (pg_events p). ev_stream_version (pg_events p ! i) = sq_from_version q + int i"
    "\<forall>e\<in>set (pg_events p). verify_read_access (sq_access q) e = None \<and> ev_stream_id e = sq_stream_id q"
    "pg_events p \<noteq> [] \<Longrightarrow> linked (Some (hd (pg_events p))) (tl (pg_events p))" "int (length (pg_events p)) \<le> sq_limit q"
    "pg_next_stream_version p = (if pg_has_more p then Some (sq_from_version q + int (length (pg_events p))) else None)"
proof -
  obtain w where w: "stream_page_events q (sq_from_version q) None (pg_events p) = Inr w"
    and n: "pg_next_stream_version p = (if pg_has_more p then Some w else None)" "int (length (pg_events p)) \<le> sq_limit q"
    using assms by (auto simp: verify_ledger_stream_page_def split: if_splits sum.splits)
  note c = stream_page_contents [OF w]
  show "\<forall>i<length (pg_events p). ev_stream_version (pg_events p ! i) = sq_from_version q + int i"
    "\<forall>e\<in>set (pg_events p). verify_read_access (sq_access q) e = None \<and> ev_stream_id e = sq_stream_id q" using c by auto
  show "pg_events p \<noteq> [] \<Longrightarrow> linked (Some (hd (pg_events p))) (tl (pg_events p))" using c by simp
  show "int (length (pg_events p)) \<le> sq_limit q" using n by simp
  show "pg_next_stream_version p = (if pg_has_more p then Some (sq_from_version q + int (length (pg_events p))) else None)"
    using n c by simp
qed

end
