(* ===== verification/SqliteLedger.thy ===== *)
theory SqliteLedger
  imports LedgerFacts
begin

text \<open>
  The SQLite event ledger, \<^verbatim>\<open>sqlite_event_ledger_v1.py\<close> over the schema \<^verbatim>\<open>schemas/sqlite-v3-event-ledger.sql\<close>. The
  state is the contents of its tables, in the order of insertion. An \<^verbatim>\<open>INSERT\<close> or \<^verbatim>\<open>UPDATE\<close> that a constraint or
  a trigger of the schema refuses is \<open>None\<close> and becomes the persistence error of the operation; a \<^verbatim>\<open>SELECT\<close> is a
  filter and a sort of the rows. A transaction that raises leaves the tables as they were. The catalogue of
  the schema, the settings of the connection and its locks are taken as the code requires them; \<^verbatim>\<open>json_valid\<close> of a constraint holds
  of the canonical texts that are stored.
\<close>

section \<open>Tables\<close>

record event_row =
  er_event_id :: pystr
  er_event_sha256 :: pystr
  er_partition_sha256 :: pystr
  er_organization_id :: pystr
  er_tenant_id :: pystr
  er_repository_id :: pystr
  er_environment_id :: pystr
  er_stream_id :: pystr
  er_stream_version :: int
  er_global_position :: int
  er_previous_stream_event_sha256 :: "pystr option"
  er_classification :: pystr
  er_artifact_ref_count :: int
  er_canonical_event :: pystr

record artifact_row =
  aw_event_id :: pystr
  aw_ordinal :: int
  aw_artifact_id :: pystr
  aw_content_sha256 :: pystr
  aw_media_type :: pystr
  aw_size_bytes :: int
  aw_classification :: pystr
  aw_retention_policy_id :: pystr
  aw_encryption_key_id :: "pystr option"
  aw_availability :: pystr
  aw_descriptor :: pystr

record head_row =
  hd_partition_sha256 :: pystr
  hd_stream_id :: pystr
  hd_organization_id :: pystr
  hd_tenant_id :: pystr
  hd_repository_id :: pystr
  hd_environment_id :: pystr
  hd_current_stream_version :: int
  hd_current_event_id :: "pystr option"
  hd_current_event_sha256 :: "pystr option"

record idempotency_row =
  ir_partition_sha256 :: pystr
  ir_idempotency_key_sha256 :: pystr
  ir_command_sha256 :: pystr
  ir_request_sha256 :: pystr
  ir_stream_id :: pystr
  ir_previous_stream_version :: int
  ir_current_stream_version :: int
  ir_first_global_position :: int
  ir_last_global_position :: int
  ir_event_sha256s_json :: pystr
  ir_receipt_sha256 :: pystr

record ledger_db =
  db_events :: "event_row list"
  db_artifacts :: "artifact_row list"
  db_heads :: "head_row list"
  db_global_position :: int
  db_global_event_id :: "pystr option"
  db_global_event_sha256 :: "pystr option"
  db_idempotency :: "idempotency_row list"

definition empty_db :: ledger_db where
  "empty_db = \<lparr>db_events = [], db_artifacts = [], db_heads = [], db_global_position = 0, db_global_event_id = None,
     db_global_event_sha256 = None, db_idempotency = []\<rparr>"

section \<open>Constraints and triggers\<close>

definition byte_length_between :: "nat \<Rightarrow> nat \<Rightarrow> pystr \<Rightarrow> bool" where
  "byte_length_between low high text = (case utf8_size text of None \<Rightarrow> False | Some n \<Rightarrow> low \<le> n \<and> n \<le> high)"

definition event_row_allowed :: "ledger_db \<Rightarrow> event_row \<Rightarrow> bool" where
  "event_row_allowed db r \<longleftrightarrow>
     list_all (\<lambda>x. er_event_id x \<noteq> er_event_id r \<and> er_event_sha256 x \<noteq> er_event_sha256 r \<and>
       er_global_position x \<noteq> er_global_position r \<and>
       \<not> (er_partition_sha256 x = er_partition_sha256 r \<and> er_stream_id x = er_stream_id r \<and>
          er_stream_version x = er_stream_version r)) (db_events db) \<and>
     1 \<le> er_stream_version r \<and> 1 \<le> er_global_position r \<and> er_classification r \<in> set CLASSIFICATION_ORDER \<and>
     0 \<le> er_artifact_ref_count r \<and> er_artifact_ref_count r \<le> 128 \<and> byte_length_between 2 1048576 (er_canonical_event r) \<and>
     list_ex (\<lambda>h. hd_partition_sha256 h = er_partition_sha256 r \<and> hd_stream_id h = er_stream_id r \<and>
       hd_organization_id h = er_organization_id r \<and> hd_tenant_id h = er_tenant_id r \<and>
       hd_repository_id h = er_repository_id r \<and> hd_environment_id h = er_environment_id r \<and>
       hd_current_stream_version h = er_stream_version r - 1 \<and>
       hd_current_event_sha256 h = er_previous_stream_event_sha256 r) (db_heads db) \<and>
     db_global_position db = er_global_position r - 1"

definition insert_event_row :: "event_row \<Rightarrow> ledger_db \<Rightarrow> ledger_db option" where
  "insert_event_row r db = (if event_row_allowed db r then Some (db\<lparr>db_events := db_events db @ [r]\<rparr>) else None)"

definition STORED_AVAILABILITY :: "pystr list" where
  "STORED_AVAILABILITY = map u [''available'', ''erased'', ''external'', ''unavailable'']"

definition artifact_row_allowed :: "ledger_db \<Rightarrow> artifact_row \<Rightarrow> bool" where
  "artifact_row_allowed db a \<longleftrightarrow>
     list_all (\<lambda>x. \<not> (aw_event_id x = aw_event_id a \<and> (aw_ordinal x = aw_ordinal a \<or> aw_artifact_id x = aw_artifact_id a)))
       (db_artifacts db) \<and>
     0 \<le> aw_ordinal a \<and> 0 \<le> aw_size_bytes a \<and> aw_size_bytes a \<le> EVENT_ARTIFACT_MAX_BYTES \<and>
     aw_classification a \<in> set CLASSIFICATION_ORDER \<and> aw_availability a \<in> set STORED_AVAILABILITY \<and>
     byte_length_between 2 16384 (aw_descriptor a) \<and>
     list_ex (\<lambda>e. er_event_id e = aw_event_id a \<and> aw_ordinal a < er_artifact_ref_count e) (db_events db)"

definition insert_artifact_row :: "artifact_row \<Rightarrow> ledger_db \<Rightarrow> ledger_db option" where
  "insert_artifact_row a db = (if artifact_row_allowed db a then Some (db\<lparr>db_artifacts := db_artifacts db @ [a]\<rparr>) else None)"

definition insert_head_row :: "head_row \<Rightarrow> ledger_db \<Rightarrow> ledger_db option" where
  "insert_head_row h db =
     (if list_all (\<lambda>x. \<not> (hd_partition_sha256 x = hd_partition_sha256 h \<and> hd_stream_id x = hd_stream_id h)) (db_heads db) \<and>
         hd_current_stream_version h = 0 \<and> hd_current_event_id h = None \<and> hd_current_event_sha256 h = None
      then Some (db\<lparr>db_heads := db_heads db @ [h]\<rparr>) else None)"

definition insert_idempotency_row :: "idempotency_row \<Rightarrow> ledger_db \<Rightarrow> ledger_db option" where
  "insert_idempotency_row r db =
     (if list_all (\<lambda>x. \<not> (ir_partition_sha256 x = ir_partition_sha256 r \<and>
           ir_idempotency_key_sha256 x = ir_idempotency_key_sha256 r)) (db_idempotency db) \<and>
         0 \<le> ir_previous_stream_version r \<and> ir_previous_stream_version r < ir_current_stream_version r \<and>
         1 \<le> ir_first_global_position r \<and> ir_first_global_position r \<le> ir_last_global_position r \<and>
         byte_length_between 4 16384 (ir_event_sha256s_json r)
      then Some (db\<lparr>db_idempotency := db_idempotency db @ [r]\<rparr>) else None)"

text \<open>
  The two updates return the number of rows that matched. Their triggers ask for the next version or
  position and for the event of the new head.
\<close>

definition head_matches :: "pystr \<Rightarrow> CanonicalEvent \<Rightarrow> head_row \<Rightarrow> bool" where
  "head_matches pdigest event h \<longleftrightarrow> hd_partition_sha256 h = pdigest \<and> hd_stream_id h = ev_stream_id event \<and>
     hd_current_stream_version h = ev_stream_version event - 1 \<and>
     hd_current_event_sha256 h = ev_previous_stream_event_sha256 event"

definition advanced_head :: "CanonicalEvent \<Rightarrow> head_row \<Rightarrow> head_row" where
  "advanced_head event h = h\<lparr>hd_current_stream_version := ev_stream_version event,
     hd_current_event_id := Some (ev_event_id event), hd_current_event_sha256 := Some (ev_event_sha256 event)\<rparr>"

definition head_advance_allowed :: "ledger_db \<Rightarrow> head_row \<Rightarrow> head_row \<Rightarrow> bool" where
  "head_advance_allowed db old new \<longleftrightarrow>
     hd_current_stream_version new = hd_current_stream_version old + 1 \<and>
     list_ex (\<lambda>e. er_partition_sha256 e = hd_partition_sha256 new \<and> er_stream_id e = hd_stream_id new \<and>
       er_stream_version e = hd_current_stream_version new \<and> Some (er_event_id e) = hd_current_event_id new \<and>
       Some (er_event_sha256 e) = hd_current_event_sha256 new) (db_events db)"

definition update_stream_head :: "pystr \<Rightarrow> CanonicalEvent \<Rightarrow> ledger_db \<Rightarrow> (nat \<times> ledger_db) option" where
  "update_stream_head pdigest event db =
     (let hits = filter (head_matches pdigest event) (db_heads db) in
      if list_all (\<lambda>h. head_advance_allowed db h (advanced_head event h)) hits
      then Some (length hits, db\<lparr>db_heads :=
        map (\<lambda>h. if head_matches pdigest event h then advanced_head event h else h) (db_heads db)\<rparr>)
      else None)"

definition update_global_head :: "CanonicalEvent \<Rightarrow> ledger_db \<Rightarrow> (nat \<times> ledger_db) option" where
  "update_global_head event db =
     (if db_global_position db \<noteq> ev_global_position event - 1 then Some (0, db)
      else if list_ex (\<lambda>e. er_global_position e = ev_global_position event \<and> er_event_id e = ev_event_id event \<and>
          er_event_sha256 e = ev_event_sha256 event) (db_events db)
      then Some (1, db\<lparr>db_global_position := ev_global_position event, db_global_event_id := Some (ev_event_id event),
        db_global_event_sha256 := Some (ev_event_sha256 event)\<rparr>)
      else None)"

section \<open>Rows of an event\<close>

definition integrity_error :: "string \<Rightarrow> py_error" where
  "integrity_error message = ledger_conflict ''TBM_EVENT_LEDGER_SQLITE_INTEGRITY'' message"

definition persistence_error :: "string \<Rightarrow> py_error" where
  "persistence_error message = ledger_conflict ''TBM_EVENT_LEDGER_SQLITE_PERSISTENCE'' message"

definition executed :: "'a option \<Rightarrow> 'a result" where
  "executed r = (case r of None \<Rightarrow> Inl (persistence_error ''SQLite event ledger append failed atomically'') | Some x \<Rightarrow> Inr x)"

lemma executed_Inr_iff [result_simps]: "executed r = Inr x \<longleftrightarrow> r = Some x"
  by (cases r) (simp_all add: executed_def)

definition ledger_json :: "runtime \<Rightarrow> pyval \<Rightarrow> pystr result" where
  "ledger_json rt value =
     (case canonical_json rt value of
        None \<Rightarrow> Inl (ledger_conflict ''TBM_EVENT_LEDGER_NON_CANONICAL_JSON'' ''ledger value is not canonical JSON'')
      | Some t \<Rightarrow> Inr t)"

definition event_row_of :: "runtime \<Rightarrow> CanonicalEvent \<Rightarrow> pystr \<Rightarrow> event_row result" where
  "event_row_of rt event pdigest =
     rbind (dumps_canonical_event rt event) (\<lambda>descriptor.
     or_raise (reject_if (case utf8_size descriptor of None \<Rightarrow> True | Some n \<Rightarrow> EVENT_JSON_MAX_BYTES < n)
         (u ''canonical event exceeds the storage byte limit''))
     (Inr \<lparr>er_event_id = ev_event_id event, er_event_sha256 = ev_event_sha256 event, er_partition_sha256 = pdigest,
        er_organization_id = ev_organization_id event, er_tenant_id = ev_tenant_id event,
        er_repository_id = ev_repository_id event, er_environment_id = ev_environment_id event,
        er_stream_id = ev_stream_id event, er_stream_version = ev_stream_version event,
        er_global_position = ev_global_position event,
        er_previous_stream_event_sha256 = ev_previous_stream_event_sha256 event,
        er_classification = ev_classification event, er_artifact_ref_count = int (length (ev_artifact_refs event)),
        er_canonical_event = descriptor\<rparr>))"

definition artifact_row_of :: "runtime \<Rightarrow> CanonicalEvent \<Rightarrow> nat \<Rightarrow> artifact_row result" where
  "artifact_row_of rt event ordinal =
     (let artifact = ev_artifact_refs event ! ordinal in
      rbind (ledger_json rt (PDict (str_keys (artifact_ref_fields artifact)))) (\<lambda>descriptor.
      Inr \<lparr>aw_event_id = ev_event_id event, aw_ordinal = int ordinal, aw_artifact_id = ar_artifact_id artifact,
        aw_content_sha256 = ar_content_sha256 artifact, aw_media_type = ar_media_type artifact,
        aw_size_bytes = ar_size_bytes artifact, aw_classification = ar_classification artifact,
        aw_retention_policy_id = ar_retention_policy_id artifact, aw_encryption_key_id = ar_encryption_key_id artifact,
        aw_availability = ar_availability artifact, aw_descriptor = descriptor\<rparr>))"

definition artifact_rows_of :: "runtime \<Rightarrow> CanonicalEvent \<Rightarrow> artifact_row list result" where
  "artifact_rows_of rt event = rmap (artifact_row_of rt event) [0..<length (ev_artifact_refs event)]"

definition event_from_row :: "runtime \<Rightarrow> (pystr \<Rightarrow> pystr) \<Rightarrow> ledger_db \<Rightarrow> event_row \<Rightarrow> CanonicalEvent result" where
  "event_from_row rt sha db row =
     (case loads_canonical_event rt sha (er_canonical_event row) of
        Inl (ContractError _ _) \<Rightarrow> Inl (integrity_error ''stored canonical event bytes failed validation'')
      | Inl e \<Rightarrow> Inl e
      | Inr event \<Rightarrow>
          rbind (event_row_of rt event (er_partition_sha256 row)) (\<lambda>expected.
          if row \<noteq> expected then Inl (integrity_error ''stored event columns do not match canonical event bytes'')
          else rbind (artifact_rows_of rt event) (\<lambda>expected_artifacts.
            if sort_key aw_ordinal (filter (\<lambda>a. aw_event_id a = ev_event_id event) (db_artifacts db)) \<noteq> expected_artifacts
            then Inl (integrity_error ''stored artifact descriptors do not match canonical event'')
            else Inr event)))"

section \<open>Queries\<close>

definition select_event_by_sha256 ::
  "runtime \<Rightarrow> (pystr \<Rightarrow> pystr) \<Rightarrow> ledger_db \<Rightarrow> pystr \<Rightarrow> CanonicalEvent option result" where
  "select_event_by_sha256 rt sha db d =
     (case find (\<lambda>r. er_event_sha256 r = d) (db_events db) of
        None \<Rightarrow> Inr None
      | Some row \<Rightarrow> rbind (event_from_row rt sha db row) (Inr \<circ> Some))"

definition find_head :: "ledger_db \<Rightarrow> pystr \<Rightarrow> pystr \<Rightarrow> head_row option" where
  "find_head db pdigest stream_id = find (\<lambda>h. hd_partition_sha256 h = pdigest \<and> hd_stream_id h = stream_id) (db_heads db)"

definition select_head_event ::
  "runtime \<Rightarrow> (pystr \<Rightarrow> pystr) \<Rightarrow> LedgerAccessContext \<Rightarrow> ledger_db \<Rightarrow> pystr \<Rightarrow> CanonicalEvent option result" where
  "select_head_event rt sha access db stream_id =
     rbind (partition_sha256 rt sha (ac_partition access)) (\<lambda>pdigest.
     case find_head db pdigest stream_id of
       None \<Rightarrow> Inr None
     | Some h \<Rightarrow>
         if [hd_organization_id h, hd_tenant_id h, hd_repository_id h, hd_environment_id h] \<noteq>
            [tp_organization_id (ac_partition access), tp_tenant_id (ac_partition access),
             tp_repository_id (ac_partition access), tp_environment_id (ac_partition access)]
         then Inl (integrity_error ''stream head tenant partition is inconsistent'')
         else if hd_current_stream_version h = 0 \<and> hd_current_event_id h = None \<and> hd_current_event_sha256 h = None
         then Inr None
         else case hd_current_event_sha256 h of
           None \<Rightarrow> Inl (integrity_error ''stream head has an invalid shape'')
         | Some d \<Rightarrow>
             rbind (select_event_by_sha256 rt sha db d) (\<lambda>found.
             case found of
               None \<Rightarrow> Inl (integrity_error ''stream head does not match its current canonical event'')
             | Some event \<Rightarrow>
                 if Some (ev_event_id event) \<noteq> hd_current_event_id h \<or> ev_stream_id event \<noteq> stream_id \<or>
                    ev_stream_version event \<noteq> hd_current_stream_version h
                 then Inl (integrity_error ''stream head does not match its current canonical event'')
                 else Inr (Some event)))"

definition select_global_position :: "ledger_db \<Rightarrow> int result" where
  "select_global_position db =
     (if db_global_position db < 0 then Inl (integrity_error ''global ledger head is invalid'') else Inr (db_global_position db))"

definition select_idempotency :: "ledger_db \<Rightarrow> pystr \<Rightarrow> pystr \<Rightarrow> idempotency_row option" where
  "select_idempotency db pdigest key =
     find (\<lambda>r. ir_partition_sha256 r = pdigest \<and> ir_idempotency_key_sha256 r = key) (db_idempotency db)"

text \<open>The stored list of digests: a non-empty canonical JSON list.\<close>

fun digest_text :: "pyval \<Rightarrow> pystr result" where
  "digest_text (PStr s) =
     (if tagged_digest (u ''sha256:'') s then Inr s
      else Inl (integrity_error ''stored idempotency event list is noncanonical''))"
| "digest_text _ = Inl (integrity_error ''stored idempotency event list is noncanonical'')"

definition stored_digests :: "runtime \<Rightarrow> pystr \<Rightarrow> pystr list result" where
  "stored_digests rt text =
     (case rt_json_loads rt text of
        JsonSyntaxError _ \<Rightarrow> Inl (integrity_error ''stored idempotency event list is invalid'')
      | JsonTooDeep \<Rightarrow> Inl RecursionError
      | JsonValue (PList vs) \<Rightarrow>
          if vs = [] \<or> 100 < length vs then Inl (integrity_error ''stored idempotency event list is noncanonical'')
          else rbind (rmap digest_text vs) (\<lambda>ds.
            rbind (ledger_json rt (PList vs)) (\<lambda>t.
            if t \<noteq> text then Inl (integrity_error ''stored idempotency event list is noncanonical'') else Inr ds))
      | JsonValue _ \<Rightarrow> Inl (integrity_error ''stored idempotency event list is noncanonical''))"

definition event_of_digest :: "runtime \<Rightarrow> (pystr \<Rightarrow> pystr) \<Rightarrow> ledger_db \<Rightarrow> pystr \<Rightarrow> CanonicalEvent result" where
  "event_of_digest rt sha db d =
     rbind (select_event_by_sha256 rt sha db d) (\<lambda>found.
     case found of
       None \<Rightarrow> Inl (integrity_error ''stored idempotency record references a missing event'')
     | Some event \<Rightarrow> Inr event)"

fun invalid_receipt :: "py_error \<Rightarrow> py_error" where
  "invalid_receipt (ContractError c m) = integrity_error ''stored idempotency receipt failed contract validation''"
| "invalid_receipt e = e"

definition receipt_from_idempotency_row ::
  "runtime \<Rightarrow> (pystr \<Rightarrow> pystr) \<Rightarrow> ledger_db \<Rightarrow> pystr \<Rightarrow> idempotency_row \<Rightarrow> LedgerAppendReceipt result" where
  "receipt_from_idempotency_row rt sha db key row =
     rbind (stored_digests rt (ir_event_sha256s_json row)) (\<lambda>ds.
     rbind (rmap (event_of_digest rt sha db) ds) (\<lambda>events.
     let receipt = \<lparr>re_request_sha256 = ir_request_sha256 row, re_idempotency_key_sha256 = key,
           re_command_sha256 = ir_command_sha256 row, re_stream_id = ir_stream_id row,
           re_previous_stream_version = ir_previous_stream_version row,
           re_current_stream_version = ir_current_stream_version row,
           re_first_global_position = ir_first_global_position row, re_last_global_position = ir_last_global_position row,
           re_events = events, re_outcome = u ''committed'', re_receipt_sha256 = ir_receipt_sha256 row,
           re_contract_version = EVENT_LEDGER_PORT_VERSION\<rparr>
     in or_raise (map_option invalid_receipt (append_receipt_error rt sha receipt)) (Inr receipt)))"

section \<open>Appending\<close>

definition insert_artifacts :: "runtime \<Rightarrow> CanonicalEvent \<Rightarrow> ledger_db \<Rightarrow> ledger_db result" where
  "insert_artifacts rt event =
     rfold (\<lambda>ordinal db. rbind (artifact_row_of rt event ordinal) (\<lambda>a. executed (insert_artifact_row a db)))
       [0..<length (ev_artifact_refs event)]"

definition advance_stream_head :: "pystr \<Rightarrow> CanonicalEvent \<Rightarrow> ledger_db \<Rightarrow> ledger_db result" where
  "advance_stream_head pdigest event db =
     rbind (executed (update_stream_head pdigest event db)) (\<lambda>(rowcount, db').
     or_raise (conflict_if (rowcount \<noteq> 1) ''TBM_EVENT_LEDGER_STALE_STREAM_VERSION'' ''stream head changed during append'') (Inr db'))"

definition advance_global_head :: "CanonicalEvent \<Rightarrow> ledger_db \<Rightarrow> ledger_db result" where
  "advance_global_head event db =
     rbind (executed (update_global_head event db)) (\<lambda>(rowcount, db').
     or_raise (conflict_if (rowcount \<noteq> 1) ''TBM_EVENT_LEDGER_GLOBAL_POSITION_CONFLICT''
       ''global ledger head changed during append'') (Inr db'))"

definition insert_event :: "runtime \<Rightarrow> pystr \<Rightarrow> CanonicalEvent \<Rightarrow> ledger_db \<Rightarrow> ledger_db result" where
  "insert_event rt pdigest event db =
     rbind (event_row_of rt event pdigest) (\<lambda>row.
     rbind (executed (insert_event_row row db)) (\<lambda>db1.
     rbind (insert_artifacts rt event db1) (\<lambda>db2.
     rbind (advance_stream_head pdigest event db2) (advance_global_head event))))"

definition new_head :: "pystr \<Rightarrow> LedgerTenantPartition \<Rightarrow> pystr \<Rightarrow> head_row" where
  "new_head pdigest p stream_id =
     \<lparr>hd_partition_sha256 = pdigest, hd_stream_id = stream_id, hd_organization_id = tp_organization_id p,
      hd_tenant_id = tp_tenant_id p, hd_repository_id = tp_repository_id p, hd_environment_id = tp_environment_id p,
      hd_current_stream_version = 0, hd_current_event_id = None, hd_current_event_sha256 = None\<rparr>"

definition idempotency_row_of :: "pystr \<Rightarrow> LedgerAppendReceipt \<Rightarrow> pystr \<Rightarrow> idempotency_row" where
  "idempotency_row_of pdigest r text =
     \<lparr>ir_partition_sha256 = pdigest, ir_idempotency_key_sha256 = re_idempotency_key_sha256 r,
      ir_command_sha256 = re_command_sha256 r, ir_request_sha256 = re_request_sha256 r, ir_stream_id = re_stream_id r,
      ir_previous_stream_version = re_previous_stream_version r, ir_current_stream_version = re_current_stream_version r,
      ir_first_global_position = re_first_global_position r, ir_last_global_position = re_last_global_position r,
      ir_event_sha256s_json = text, ir_receipt_sha256 = re_receipt_sha256 r\<rparr>"

text \<open>The receipt that is read from the tables, checked against the request.\<close>

definition retained_receipt ::
  "runtime \<Rightarrow> (pystr \<Rightarrow> pystr) \<Rightarrow> LedgerAppendRequest \<Rightarrow> ledger_db \<Rightarrow> idempotency_row \<Rightarrow> LedgerAppendReceipt result" where
  "retained_receipt rt sha request db row =
     rbind (receipt_from_idempotency_row rt sha db (id_idempotency_key_sha256 (rq_idempotency request)) row) (\<lambda>retained.
     or_raise (verify_ledger_append_receipt rt sha request retained) (Inr retained))"

definition append_new ::
  "runtime \<Rightarrow> (pystr \<Rightarrow> pystr) \<Rightarrow> LedgerAccessContext \<Rightarrow> pystr \<Rightarrow> LedgerAppendRequest \<Rightarrow> ledger_db \<Rightarrow>
   (LedgerAppendCommit \<times> ledger_db) result" where
  "append_new rt sha access pdigest request db =
     rbind (select_head_event rt sha access db (rq_stream_id request)) (\<lambda>current_head.
     rbind (select_global_position db) (\<lambda>position.
     or_raise (verify_ledger_append_precondition request current_head (position + 1))
     (rbind (if current_head = None then executed (insert_head_row (new_head pdigest (ac_partition access) (rq_stream_id request)) db)
             else Inr db) (\<lambda>db1.
      rbind (rfold (insert_event rt pdigest) (rq_events request) db1) (\<lambda>db2.
      rbind (build_ledger_append_receipt rt sha request) (\<lambda>receipt.
      rbind (ledger_json rt (PList (map (PStr \<circ> ev_event_sha256) (rq_events request)))) (\<lambda>text.
      rbind (executed (insert_idempotency_row (idempotency_row_of pdigest receipt text) db2)) (\<lambda>db3.
      case select_idempotency db3 pdigest (id_idempotency_key_sha256 (rq_idempotency request)) of
        None \<Rightarrow> Inl (integrity_error (''committed idempotency receipt could not be read b'' @ ''ack''))
      | Some row \<Rightarrow>
          rbind (retained_receipt rt sha request db3 row) (\<lambda>retained.
          Inr (\<lparr>cm_receipt = retained, cm_inserted = True\<rparr>, db3))))))))))"

definition append_in_transaction ::
  "runtime \<Rightarrow> (pystr \<Rightarrow> pystr) \<Rightarrow> LedgerAccessContext \<Rightarrow> LedgerAppendRequest \<Rightarrow> ledger_db \<Rightarrow>
   (LedgerAppendCommit \<times> ledger_db) result" where
  "append_in_transaction rt sha access request db =
     or_raise (raise_if (rq_access request \<noteq> access) (u ''request access must match the bound ledger access''))
     (rbind (partition_sha256 rt sha (ac_partition access)) (\<lambda>pdigest.
      case select_idempotency db pdigest (id_idempotency_key_sha256 (rq_idempotency request)) of
        Some row \<Rightarrow>
          rbind (request_sha256 rt sha request) (\<lambda>d.
          or_raise (conflict_if (ir_command_sha256 row \<noteq> id_command_sha256 (rq_idempotency request) \<or> ir_request_sha256 row \<noteq> d)
              ''TBM_EVENT_LEDGER_IDEMPOTENCY_CONFLICT'' ''idempotency key is bound to another command'')
          (rbind (retained_receipt rt sha request db row) (\<lambda>retained.
           Inr (\<lparr>cm_receipt = retained, cm_inserted = False\<rparr>, db))))
      | None \<Rightarrow> append_new rt sha access pdigest request db))"

text \<open>A call and the tables after it.\<close>

definition append_once ::
  "runtime \<Rightarrow> (pystr \<Rightarrow> pystr) \<Rightarrow> LedgerAccessContext \<Rightarrow> pystr \<Rightarrow> int \<Rightarrow> CanonicalEvent list \<Rightarrow> LedgerIdempotency \<Rightarrow>
   ledger_db \<Rightarrow> LedgerAppendCommit result \<times> ledger_db" where
  "append_once rt sha access stream_id expected_version events idempotency db =
     (let request = \<lparr>rq_access = access, rq_stream_id = stream_id, rq_expected_stream_version = expected_version,
           rq_events = events, rq_idempotency = idempotency, rq_contract_version = EVENT_LEDGER_PORT_VERSION\<rparr>
      in case or_raise (append_request_error request) (append_in_transaction rt sha access request db) of
        Inl e \<Rightarrow> (Inl e, db)
      | Inr (commit, db') \<Rightarrow> (Inr commit, db'))"

definition append_stream ::
  "runtime \<Rightarrow> (pystr \<Rightarrow> pystr) \<Rightarrow> LedgerAccessContext \<Rightarrow> pystr \<Rightarrow> int \<Rightarrow> CanonicalEvent list \<Rightarrow> LedgerIdempotency \<Rightarrow>
   ledger_db \<Rightarrow> LedgerAppendReceipt result \<times> ledger_db" where
  "append_stream rt sha access stream_id expected_version events idempotency db =
     (case append_once rt sha access stream_id expected_version events idempotency db of
        (commit, db') \<Rightarrow> (rbind commit (Inr \<circ> cm_receipt), db'))"

end
