(* ===== verification/SqliteReads.thy ===== *)
theory SqliteReads
  imports SqliteLedger
begin

text \<open>
  Reading the SQLite ledger: pages of a stream and of the whole ledger, the verification of a stream, and
  the polling subscription. A read changes nothing.
\<close>

section \<open>Pages\<close>

definition stream_rows :: "ledger_db \<Rightarrow> pystr \<Rightarrow> pystr \<Rightarrow> int \<Rightarrow> event_row list" where
  "stream_rows db pdigest stream_id from_version =
     sort_key er_stream_version
       (filter (\<lambda>r. er_partition_sha256 r = pdigest \<and> er_stream_id r = stream_id \<and> from_version \<le> er_stream_version r) (db_events db))"

definition read_stream ::
  "runtime \<Rightarrow> (pystr \<Rightarrow> pystr) \<Rightarrow> LedgerAccessContext \<Rightarrow> pystr \<Rightarrow> int \<Rightarrow> int \<Rightarrow> ledger_db \<Rightarrow> LedgerPage result" where
  "read_stream rt sha access stream_id from_version max_events db =
     (let request = \<lparr>sq_access = access, sq_stream_id = stream_id, sq_from_version = from_version, sq_limit = max_events\<rparr> in
      or_raise (stream_read_request_error request)
      (rbind (partition_sha256 rt sha (ac_partition access)) (\<lambda>pdigest.
       rbind (rmap (event_from_row rt sha db) (take (nat (max_events + 1)) (stream_rows db pdigest stream_id from_version))) (\<lambda>events.
       let has_more = max_events < int (length events); selected = take (nat max_events) events in
       rbind (select_global_position db) (\<lambda>position.
       rbind (build_ledger_page rt sha ''stream'' selected position
           (if has_more \<and> selected \<noteq> [] then Some (ev_stream_version (last selected) + 1) else None) None has_more) (\<lambda>page.
       or_raise (verify_ledger_stream_page request page) (Inr page)))))))"

definition global_rows :: "ledger_db \<Rightarrow> pystr \<Rightarrow> int \<Rightarrow> pystr list \<Rightarrow> event_row list" where
  "global_rows db pdigest after_position allowed =
     sort_key er_global_position
       (filter (\<lambda>r. er_partition_sha256 r = pdigest \<and> after_position < er_global_position r \<and> er_classification r \<in> set allowed)
         (db_events db))"

definition read_global ::
  "runtime \<Rightarrow> (pystr \<Rightarrow> pystr) \<Rightarrow> LedgerAccessContext \<Rightarrow> int \<Rightarrow> int \<Rightarrow> ledger_db \<Rightarrow> LedgerPage result" where
  "read_global rt sha access after_position max_events db =
     (let request = \<lparr>gq_access = access, gq_after_position = after_position, gq_limit = max_events\<rparr> in
      or_raise (global_read_request_error request)
      (rbind (partition_sha256 rt sha (ac_partition access)) (\<lambda>pdigest.
       rbind (rmap (event_from_row rt sha db)
           (take (nat (max_events + 1)) (global_rows db pdigest after_position (cf_allowed (ac_classification_filter access))))) (\<lambda>events.
       let has_more = max_events < int (length events); selected = take (nat max_events) events in
       rbind (select_global_position db) (\<lambda>position.
       rbind (build_ledger_page rt sha ''global'' selected position None
           (if has_more \<and> selected \<noteq> [] then Some (ev_global_position (last selected)) else None) has_more) (\<lambda>page.
       or_raise (verify_ledger_global_page request page) (Inr page)))))))"

section \<open>Verification\<close>

definition is_integrity_error :: "py_error \<Rightarrow> bool" where
  "is_integrity_error e = (case e of ContractError c _ \<Rightarrow> c = u ''TBM_EVENT_LEDGER_SQLITE_INTEGRITY'' | _ \<Rightarrow> False)"

text \<open>A row that cannot be read is an issue; other errors are raised.\<close>

definition loaded_or_issue :: "runtime \<Rightarrow> (pystr \<Rightarrow> pystr) \<Rightarrow> ledger_db \<Rightarrow> event_row \<Rightarrow> CanonicalEvent option result" where
  "loaded_or_issue rt sha db row =
     (case event_from_row rt sha db row of
        Inr event \<Rightarrow> Inr (Some event) | Inl e \<Rightarrow> if is_integrity_error e then Inr None else Inl e)"

definition issue_if :: "bool \<Rightarrow> string \<Rightarrow> pystr list" where
  "issue_if b code = (if b then [u code] else [])"

fun chain_issues ::
  "LedgerAccessContext \<Rightarrow> pystr \<Rightarrow> int \<Rightarrow> CanonicalEvent option \<Rightarrow> int \<Rightarrow> CanonicalEvent option list \<Rightarrow> pystr list result" where
  "chain_issues access stream_id index previous previous_global [] = Inr []"
| "chain_issues access stream_id index previous previous_global (None # events) =
     chain_issues access stream_id (index + 1) None previous_global events"
| "chain_issues access stream_id index previous previous_global (Some event # events) =
     or_raise (conflict_if (\<not> allows (ac_classification_filter access) (ev_classification event))
         ''TBM_EVENT_LEDGER_CLASSIFICATION_DENIED'' ''stream classification is not allowed for verification'')
     (rbind (chain_issues access stream_id (index + 1) (Some event) (ev_global_position event) events) (\<lambda>issues.
      Inr (issue_if (ev_stream_id event \<noteq> stream_id) ''STREAM_ID_MISMATCH'' @
        issue_if (ev_stream_version event \<noteq> index) ''STREAM_VERSION_GAP'' @
        issue_if (ev_organization_id event \<noteq> tp_organization_id (ac_partition access) \<or>
            ev_tenant_id event \<noteq> tp_tenant_id (ac_partition access) \<or>
            ev_repository_id event \<noteq> tp_repository_id (ac_partition access) \<or>
            ev_environment_id event \<noteq> tp_environment_id (ac_partition access)) ''PARTITION_MISMATCH'' @
        issue_if (ev_global_position event \<le> previous_global) ''GLOBAL_POSITION_INVALID'' @
        issue_if (case previous of
            None \<Rightarrow> 1 < index \<or> ev_previous_stream_event_sha256 event \<noteq> None
          | Some p \<Rightarrow> verify_event_parent event (Some p) \<noteq> None) ''HASH_CHAIN_MISMATCH'' @ issues)))"

definition ZERO_DIGEST :: pystr where
  "ZERO_DIGEST = u ''sha256:'' @ replicate 64 48"

definition head_mismatch :: "event_row list \<Rightarrow> CanonicalEvent option list \<Rightarrow> head_row option \<Rightarrow> bool" where
  "head_mismatch rows events head =
     (if rows \<noteq> []
      then case (head, last events) of
          (Some h, Some e) \<Rightarrow> hd_current_stream_version h \<noteq> int (length rows) \<or> hd_current_event_id h \<noteq> Some (ev_event_id e) \<or>
            hd_current_event_sha256 h \<noteq> Some (ev_event_sha256 e)
        | _ \<Rightarrow> True
      else case head of None \<Rightarrow> False
        | Some h \<Rightarrow> \<not> (hd_current_stream_version h = 0 \<and> hd_current_event_id h = None \<and> hd_current_event_sha256 h = None))"

definition observed_head :: "event_row list \<Rightarrow> pystr option" where
  "observed_head rows =
     (if rows = [] then None
      else Some (if tagged_digest (u ''sha256:'') (er_event_sha256 (last rows)) then er_event_sha256 (last rows) else ZERO_DIGEST))"

definition verification_result ::
  "runtime \<Rightarrow> (pystr \<Rightarrow> pystr) \<Rightarrow> LedgerAccessContext \<Rightarrow> pystr \<Rightarrow> ledger_db \<Rightarrow> LedgerStreamVerification result" where
  "verification_result rt sha access stream_id db =
     rbind (partition_sha256 rt sha (ac_partition access)) (\<lambda>pdigest.
     let rows = sort_key er_stream_version
           (filter (\<lambda>r. er_partition_sha256 r = pdigest \<and> er_stream_id r = stream_id) (db_events db));
         head = find_head db pdigest stream_id in
     rbind (rmap (loaded_or_issue rt sha db) rows) (\<lambda>events.
     rbind (chain_issues access stream_id 1 None 0 events) (\<lambda>issues.
     let all_issues = issue_if (None \<in> set events) ''EVENT_HASH_MISMATCH'' @ issues @
           issue_if (head_mismatch rows events head) ''HEAD_MISMATCH'';
         ordered = [c \<leftarrow> VERIFICATION_ISSUE_CODES. c \<in> set all_issues];
         result = \<lparr>sv_stream_id = stream_id, sv_partition_sha256 = pdigest, sv_verified_stream_version = int (length rows),
           sv_verified_event_count = int (length rows), sv_head_event_sha256 = observed_head rows, sv_valid = (ordered = []),
           sv_issue_codes = ordered\<rparr>
     in or_raise (first_error [stream_verification_error result, verify_ledger_stream_verification rt sha access stream_id result])
          (Inr result))))"

definition verify_stream ::
  "runtime \<Rightarrow> (pystr \<Rightarrow> pystr) \<Rightarrow> LedgerAccessContext \<Rightarrow> pystr \<Rightarrow> ledger_db \<Rightarrow> LedgerStreamVerification result" where
  "verify_stream rt sha access stream_id db =
     or_raise (stream_read_request_error \<lparr>sq_access = access, sq_stream_id = stream_id, sq_from_version = 1, sq_limit = 1\<rparr>)
     (verification_result rt sha access stream_id db)"

section \<open>Subscriptions\<close>

text \<open>The random parts of the identifiers are arguments.\<close>

record ledger_subscription =
  ls_request :: LedgerSubscriptionRequest
  ls_cursor :: int
  ls_outstanding :: "LedgerSubscriptionPage option"
  ls_closed :: bool
  ls_subscription_id :: pystr

definition subscribe :: "LedgerAccessContext \<Rightarrow> int \<Rightarrow> int \<Rightarrow> int \<Rightarrow> pystr \<Rightarrow> ledger_subscription result" where
  "subscribe access after_position max_events poll_timeout hex =
     (let request = \<lparr>bq_access = access, bq_after_position = after_position, bq_limit = max_events,
           bq_poll_timeout_seconds = poll_timeout\<rparr>
      in or_raise (subscription_request_error request)
        (Inr \<lparr>ls_request = request, ls_cursor = after_position, ls_outstanding = None, ls_closed = False,
           ls_subscription_id = u ''subscription_'' @ hex\<rparr>))"

definition subscription_closed :: "ledger_subscription \<Rightarrow> py_error option" where
  "subscription_closed s = reject_if (ls_closed s) (u ''event ledger subscription is closed'')"

definition poll ::
  "runtime \<Rightarrow> (pystr \<Rightarrow> pystr) \<Rightarrow> ledger_db \<Rightarrow> pystr \<Rightarrow> ledger_subscription \<Rightarrow>
   (LedgerSubscriptionPage \<times> ledger_subscription) result" where
  "poll rt sha db hex s =
     or_raise (subscription_closed s)
     (case ls_outstanding s of
        Some delivery \<Rightarrow> Inr (delivery, s)
      | None \<Rightarrow>
          rbind (read_global rt sha (bq_access (ls_request s)) (ls_cursor s) (bq_limit (ls_request s)) db) (\<lambda>page.
          let delivery = \<lparr>sp_subscription_id = ls_subscription_id s, sp_delivery_id = u ''delivery_'' @ hex, sp_page = page,
                sp_heartbeat = (pg_events page = [])\<rparr>
          in or_raise (subscription_page_error delivery) (Inr (delivery, s\<lparr>ls_outstanding := Some delivery\<rparr>))))"

definition acknowledge :: "pystr \<Rightarrow> int option \<Rightarrow> ledger_subscription \<Rightarrow> ledger_subscription result" where
  "acknowledge delivery_id expected_next_global_position s =
     or_raise (subscription_closed s)
     (case ls_outstanding s of
        None \<Rightarrow> Inl (ledger_conflict ''TBM_EVENT_LEDGER_SUBSCRIPTION_CONFLICT''
          ''subscription acknowledgement does not match delivery'')
      | Some o' \<Rightarrow>
          or_raise (conflict_if (delivery_id \<noteq> sp_delivery_id o' \<or>
              expected_next_global_position \<noteq> pg_next_global_position (sp_page o'))
            ''TBM_EVENT_LEDGER_SUBSCRIPTION_CONFLICT'' ''subscription acknowledgement does not match delivery'')
          (let events = pg_events (sp_page o') in
           Inr (s\<lparr>ls_cursor := (if events = [] then ls_cursor s else ev_global_position (last events)), ls_outstanding := None\<rparr>)))"

definition close_subscription :: "ledger_subscription \<Rightarrow> ledger_subscription" where
  "close_subscription s = s\<lparr>ls_closed := True, ls_outstanding := None\<rparr>"

end
