(* ===== verification/SqliteFacts.thy ===== *)
theory SqliteFacts
  imports SqliteReads
begin

text \<open>
  What the tables of the SQLite ledger keep. The constraints and triggers alone keep the structure: the
  events are numbered in the order of insertion, every stream has one head and the head names the last
  event of its stream. The reads at the end of an append then show that the new rows can be read, and the
  test against the head of the stream that they extend its chain.
\<close>

section \<open>Structure\<close>

definition stream_of :: "ledger_db \<Rightarrow> pystr \<Rightarrow> pystr \<Rightarrow> event_row list" where
  "stream_of db p s = filter (\<lambda>r. er_partition_sha256 r = p \<and> er_stream_id r = s) (db_events db)"

definition head_key :: "head_row \<Rightarrow> pystr \<times> pystr" where
  "head_key h = (hd_partition_sha256 h, hd_stream_id h)"

definition row_key :: "event_row \<Rightarrow> pystr \<times> pystr" where
  "row_key r = (er_partition_sha256 r, er_stream_id r)"

definition head_fits :: "event_row list \<Rightarrow> head_row \<Rightarrow> bool" where
  "head_fits rs h \<longleftrightarrow> hd_current_stream_version h = int (length rs) \<and>
     hd_current_event_id h = (if rs = [] then None else Some (er_event_id (last rs))) \<and>
     hd_current_event_sha256 h = (if rs = [] then None else Some (er_event_sha256 (last rs))) \<and>
     (\<forall>i<length rs. er_stream_version (rs ! i) = int i + 1) \<and>
     (\<forall>r\<in>set rs. er_organization_id r = hd_organization_id h \<and> er_tenant_id r = hd_tenant_id h \<and>
       er_repository_id r = hd_repository_id h \<and> er_environment_id r = hd_environment_id h)"

definition numbered :: "ledger_db \<Rightarrow> bool" where
  "numbered db \<longleftrightarrow> (\<forall>i<length (db_events db). er_global_position (db_events db ! i) = int i + 1) \<and>
     db_global_position db = int (length (db_events db)) \<and> distinct (map er_event_sha256 (db_events db)) \<and>
     distinct (map er_event_id (db_events db))"

definition heads_ok :: "ledger_db \<Rightarrow> bool" where
  "heads_ok db \<longleftrightarrow> distinct (map head_key (db_heads db)) \<and>
     (\<forall>h\<in>set (db_heads db). head_fits (stream_of db (hd_partition_sha256 h) (hd_stream_id h)) h) \<and>
     (\<forall>r\<in>set (db_events db). row_key r \<in> head_key ` set (db_heads db))"

definition artifacts_ok :: "ledger_db \<Rightarrow> bool" where
  "artifacts_ok db \<longleftrightarrow> (\<forall>a\<in>set (db_artifacts db). aw_availability a \<in> set STORED_AVAILABILITY)"

definition tables_ok :: "ledger_db \<Rightarrow> bool" where
  "tables_ok db \<longleftrightarrow> numbered db \<and> heads_ok db \<and> artifacts_ok db"

lemma insert_head_ok:
  assumes "tables_ok db" and "insert_head_row h db = Some db'"
  shows "tables_ok db'"
proof -
  have db': "db' = db\<lparr>db_heads := db_heads db @ [h]\<rparr>" and new: "head_key h \<notin> head_key ` set (db_heads db)"
    and v: "hd_current_stream_version h = 0" "hd_current_event_id h = None" "hd_current_event_sha256 h = None"
    using assms(2) by (auto simp: insert_head_row_def head_key_def list_all_iff split: if_splits)
  have same: "stream_of db' p s = stream_of db p s" for p s by (simp add: stream_of_def db')
  have "row_key r \<noteq> head_key h" if "r \<in> set (db_events db)" for r
    using assms(1) new that unfolding tables_ok_def heads_ok_def by metis
  then have "stream_of db (hd_partition_sha256 h) (hd_stream_id h) = []"
    by (simp add: stream_of_def filter_empty_conv row_key_def head_key_def)
  then have "head_fits (stream_of db (hd_partition_sha256 h) (hd_stream_id h)) h" by (simp add: head_fits_def v)
  then show ?thesis using assms(1) new unfolding tables_ok_def heads_ok_def numbered_def same by (auto simp: db' artifacts_ok_def)
qed

lemma insert_idempotency_rows: "insert_idempotency_row r db = Some db' \<Longrightarrow> db' = db\<lparr>db_idempotency := db_idempotency db @ [r]\<rparr>"
  by (auto simp: insert_idempotency_row_def split: if_splits)

lemma insert_idempotency_ok: "tables_ok db \<Longrightarrow> insert_idempotency_row r db = Some db' \<Longrightarrow> tables_ok db'"
  by (auto dest!: insert_idempotency_rows simp: tables_ok_def numbered_def heads_ok_def stream_of_def artifacts_ok_def)

lemma insert_artifacts_rows:
  assumes "insert_artifacts rt e db = Inr db'"
  obtains arts where "artifact_rows_of rt e = Inr arts" "db' = db\<lparr>db_artifacts := db_artifacts db @ arts\<rparr>"
    "\<forall>a\<in>set arts. aw_availability a \<in> set STORED_AVAILABILITY"
proof -
  have "\<exists>arts. rmap (artifact_row_of rt e) os = Inr arts \<and> db' = db\<lparr>db_artifacts := db_artifacts db @ arts\<rparr> \<and>
      (\<forall>a\<in>set arts. aw_availability a \<in> set STORED_AVAILABILITY)"
    if "rfold (\<lambda>o' db. rbind (artifact_row_of rt e o') (\<lambda>a. executed (insert_artifact_row a db))) os db = Inr db'" for os
    using that
  proof (induction os arbitrary: db)
    case (Cons x os)
    then obtain a db1 where a: "artifact_row_of rt e x = Inr a" "insert_artifact_row a db = Some db1"
      and r: "rfold (\<lambda>o' db. rbind (artifact_row_of rt e o') (\<lambda>a. executed (insert_artifact_row a db))) os db1 = Inr db'"
      by (auto simp: result_simps)
    have "db1 = db\<lparr>db_artifacts := db_artifacts db @ [a]\<rparr>" "aw_availability a \<in> set STORED_AVAILABILITY"
      using a(2) by (auto simp: insert_artifact_row_def artifact_row_allowed_def split: if_splits)
    with Cons.IH [OF r] a(1) show ?case by auto
  qed simp
  with assms that show thesis unfolding insert_artifacts_def artifact_rows_of_def by blast
qed

lemma event_row_of_fields:
  assumes "event_row_of rt e pd = Inr row"
  shows "er_event_id row = ev_event_id e" "er_event_sha256 row = ev_event_sha256 e" "er_partition_sha256 row = pd"
    "er_stream_id row = ev_stream_id e" "er_stream_version row = ev_stream_version e"
    "er_global_position row = ev_global_position e" "er_previous_stream_event_sha256 row = ev_previous_stream_event_sha256 e"
    "er_classification row = ev_classification e" "er_organization_id row = ev_organization_id e" "er_tenant_id row = ev_tenant_id e"
    "er_repository_id row = ev_repository_id e" "er_environment_id row = ev_environment_id e"
  using assms by (auto simp: event_row_of_def result_simps)

text \<open>What one inserted event changes.\<close>

lemma insert_event_tables:
  assumes "insert_event rt pd e db = Inr db'"
  obtains row arts where "event_row_of rt e pd = Inr row" "event_row_allowed db row" "artifact_rows_of rt e = Inr arts"
    "db_events db' = db_events db @ [row]" "db_artifacts db' = db_artifacts db @ arts" "db_idempotency db' = db_idempotency db"
    "db_heads db' = map (\<lambda>h. if head_matches pd e h then advanced_head e h else h) (db_heads db)"
    "db_global_position db' = ev_global_position e" "\<forall>a\<in>set arts. aw_availability a \<in> set STORED_AVAILABILITY"
proof -
  from assms obtain row db1 db2 db3 where 1: "event_row_of rt e pd = Inr row" "insert_event_row row db = Some db1"
      "insert_artifacts rt e db1 = Inr db2" "advance_stream_head pd e db2 = Inr db3" "advance_global_head e db3 = Inr db'"
    by (auto simp: insert_event_def result_simps)
  have 2: "event_row_allowed db row" "db1 = db\<lparr>db_events := db_events db @ [row]\<rparr>"
    using 1(2) by (auto simp: insert_event_row_def split: if_splits)
  obtain arts where 3: "artifact_rows_of rt e = Inr arts" "db2 = db1\<lparr>db_artifacts := db_artifacts db1 @ arts\<rparr>"
      "\<forall>a\<in>set arts. aw_availability a \<in> set STORED_AVAILABILITY"
    using 1(3) by (rule insert_artifacts_rows)
  have 4: "db3 = db2\<lparr>db_heads := map (\<lambda>h. if head_matches pd e h then advanced_head e h else h) (db_heads db2)\<rparr>"
    using 1(4) by (auto simp: advance_stream_head_def update_stream_head_def Let_def result_simps split: if_splits)
  have 5: "db' = db3\<lparr>db_global_position := ev_global_position e, db_global_event_id := Some (ev_event_id e),
      db_global_event_sha256 := Some (ev_event_sha256 e)\<rparr>"
    using 1(5) by (auto simp: advance_global_head_def update_global_head_def result_simps split: if_splits)
  show thesis by (rule that [OF 1(1) 2(1) 3(1)]) (simp_all add: 5 4 3(2,3) 2(2))
qed

lemma heads_unique:
  "heads_ok db \<Longrightarrow> h \<in> set (db_heads db) \<Longrightarrow> h' \<in> set (db_heads db) \<Longrightarrow> head_key h = head_key h' \<Longrightarrow> h = h'"
  unfolding heads_ok_def by (metis distinct_map inj_onD)

lemma advanced_head_key [simp]: "head_key (advanced_head e h) = head_key h" "hd_partition_sha256 (advanced_head e h) = hd_partition_sha256 h"
  "hd_stream_id (advanced_head e h) = hd_stream_id h"
  by (simp_all add: advanced_head_def head_key_def)

lemma insert_event_numbered:
  assumes "numbered db" and "event_row_allowed db row" and "event_row_of rt e pd = Inr row"
    and "db_events db' = db_events db @ [row]" and "db_global_position db' = ev_global_position e"
  shows "numbered db'"
proof -
  have "ev_global_position e = int (length (db_events db)) + 1"
    using assms(1,2) event_row_of_fields(6) [OF assms(3)] by (simp add: event_row_allowed_def numbered_def)
  moreover have "er_event_sha256 row \<notin> er_event_sha256 ` set (db_events db)" "er_event_id row \<notin> er_event_id ` set (db_events db)"
    using assms(2) by (auto simp: event_row_allowed_def list_all_iff)
  ultimately show ?thesis
    using assms(1,4,5) event_row_of_fields(6) [OF assms(3)] by (auto simp: numbered_def nth_append less_Suc_eq)
qed

lemma insert_event_heads:
  assumes ok: "heads_ok db" and allowed: "event_row_allowed db row" and row: "event_row_of rt e pd = Inr row"
    and events: "db_events db' = db_events db @ [row]"
    and heads: "db_heads db' = map (\<lambda>h. if head_matches pd e h then advanced_head e h else h) (db_heads db)"
  shows "heads_ok db'"
proof -
  note f = event_row_of_fields [OF row]
  obtain h0 where h0: "h0 \<in> set (db_heads db)" "head_key h0 = (pd, ev_stream_id e)" "head_matches pd e h0"
    and org: "hd_organization_id h0 = er_organization_id row" "hd_tenant_id h0 = er_tenant_id row"
      "hd_repository_id h0 = er_repository_id row" "hd_environment_id h0 = er_environment_id row"
    using allowed by (auto simp: event_row_allowed_def list_ex_iff head_key_def head_matches_def f)
  have matches: "head_matches pd e h \<longleftrightarrow> h = h0" if "h \<in> set (db_heads db)" for h
    using heads_unique [OF ok that h0(1)] h0 by (auto simp: head_matches_def head_key_def)
  have stream: "stream_of db' p s = stream_of db p s @ (if (p, s) = head_key h0 then [row] else [])" for p s
    by (simp add: stream_of_def events h0(2) f)
  have fits0: "head_fits (stream_of db pd (ev_stream_id e)) h0"
    using ok h0 by (force simp: heads_ok_def head_key_def)
  have v: "hd_current_stream_version h0 = ev_stream_version e - 1" using h0(3) by (simp add: head_matches_def)
  have "head_fits (stream_of db pd (ev_stream_id e) @ [row]) (advanced_head e h0)"
    using fits0 v org by (auto simp: head_fits_def advanced_head_def f nth_append less_Suc_eq)
  moreover have "stream_of db' pd (ev_stream_id e) = stream_of db pd (ev_stream_id e) @ [row]" using stream h0(2) by simp
  ultimately have fit: "head_fits (stream_of db' (hd_partition_sha256 h) (hd_stream_id h)) (if head_matches pd e h then advanced_head e h else h)"
    if "h \<in> set (db_heads db)" for h
  proof (cases "h = h0")
    case True
    then show ?thesis using \<open>head_fits (stream_of db pd (ev_stream_id e) @ [row]) (advanced_head e h0)\<close> h0(2,3) stream
      by (simp add: head_key_def)
  next
    case False
    then have "head_key h \<noteq> head_key h0" using heads_unique [OF ok that h0(1)] by blast
    then have "stream_of db' (hd_partition_sha256 h) (hd_stream_id h) = stream_of db (hd_partition_sha256 h) (hd_stream_id h)"
      using stream by (simp add: head_key_def [of h])
    then show ?thesis using ok that matches [OF that] False by (simp add: heads_ok_def)
  qed
  have keys: "map head_key (db_heads db') = map head_key (db_heads db)" by (simp add: heads)
  have "row_key r \<in> head_key ` set (db_heads db')" if "r \<in> set (db_events db')" for r
  proof -
    have "row_key r \<in> head_key ` set (db_heads db)"
    proof (cases "r = row")
      case True
      then have "row_key r = head_key h0" using h0(2) by (simp add: row_key_def f)
      with h0(1) show ?thesis by simp
    next
      case False
      with that ok show ?thesis by (simp add: events heads_ok_def)
    qed
    then show ?thesis using keys by (metis list.set_map)
  qed
  moreover have "head_fits (stream_of db' (hd_partition_sha256 h') (hd_stream_id h')) h'" if "h' \<in> set (db_heads db')" for h'
  proof -
    obtain h where h: "h \<in> set (db_heads db)" "h' = (if head_matches pd e h then advanced_head e h else h)"
      using \<open>h' \<in> set (db_heads db')\<close> unfolding heads by auto
    then show ?thesis using fit [OF h(1)] by (cases "head_matches pd e h") simp_all
  qed
  ultimately show ?thesis using ok unfolding heads_ok_def keys by blast
qed

lemma insert_event_ok: "tables_ok db \<Longrightarrow> insert_event rt pd e db = Inr db' \<Longrightarrow> tables_ok db'"
  unfolding tables_ok_def
  by (elim conjE insert_event_tables) (auto simp: artifacts_ok_def intro: insert_event_numbered insert_event_heads)

section \<open>Rows are only added\<close>

definition ledger_extends :: "ledger_db \<Rightarrow> ledger_db \<Rightarrow> bool" where
  "ledger_extends db db' \<longleftrightarrow> (\<exists>es as is. db_events db' = db_events db @ es \<and> db_artifacts db' = db_artifacts db @ as \<and>
     db_idempotency db' = db_idempotency db @ is \<and> (\<forall>a\<in>set as. aw_event_id a \<notin> er_event_id ` set (db_events db)))"

lemma ledger_extends_refl [simp]: "ledger_extends db db"
  by (simp add: ledger_extends_def)

lemma ledger_extends_trans:
  assumes "ledger_extends a b" "ledger_extends b c"
  shows "ledger_extends a c"
proof -
  obtain es as "is" where 1: "db_events b = db_events a @ es" "db_artifacts b = db_artifacts a @ as"
    "db_idempotency b = db_idempotency a @ is" "\<forall>x\<in>set as. aw_event_id x \<notin> er_event_id ` set (db_events a)"
    using assms(1) by (auto simp: ledger_extends_def)
  obtain es' as' is' where 2: "db_events c = db_events b @ es'" "db_artifacts c = db_artifacts b @ as'"
    "db_idempotency c = db_idempotency b @ is'" "\<forall>x\<in>set as'. aw_event_id x \<notin> er_event_id ` set (db_events b)"
    using assms(2) by (auto simp: ledger_extends_def)
  show ?thesis unfolding ledger_extends_def
    by (rule exI [of _ "es @ es'"], rule exI [of _ "as @ as'"], rule exI [of _ "is @ is'"]) (use 1 2 in auto)
qed

lemma artifact_rows_ids:
  assumes "artifact_rows_of rt e = Inr as" "a \<in> set as"
  shows "aw_event_id a = ev_event_id e"
proof -
  have "list_all2 (\<lambda>i a. artifact_row_of rt e i = Inr a) [0..<length (ev_artifact_refs e)] as"
    using assms(1) by (simp add: artifact_rows_of_def rmap_Inr_iff)
  then obtain i where "artifact_row_of rt e i = Inr a" using assms(2) by (auto simp: list_all2_conv_all_nth in_set_conv_nth)
  then show ?thesis by (auto simp: artifact_row_of_def Let_def result_simps)
qed

lemma insert_event_extends:
  assumes "insert_event rt pd e db = Inr db'"
  shows "ledger_extends db db'"
  using assms
proof (rule insert_event_tables)
  fix row "as"
  assume r: "event_row_of rt e pd = Inr row" "event_row_allowed db row" and a: "artifact_rows_of rt e = Inr as"
    and db': "db_events db' = db_events db @ [row]" "db_artifacts db' = db_artifacts db @ as" "db_idempotency db' = db_idempotency db"
  have "aw_event_id x \<notin> er_event_id ` set (db_events db)" if "x \<in> set as" for x
    using r(2) artifact_rows_ids [OF a that] event_row_of_fields(1) [OF r(1)] by (auto simp: event_row_allowed_def list_all_iff)
  then show ?thesis using db' by (auto simp: ledger_extends_def)
qed

lemma event_from_row_iff:
  "event_from_row rt sha db row = Inr e \<longleftrightarrow>
     loads_canonical_event rt sha (er_canonical_event row) = Inr e \<and> event_row_of rt e (er_partition_sha256 row) = Inr row \<and>
     artifact_rows_of rt e = Inr (sort_key aw_ordinal (filter (\<lambda>a. aw_event_id a = ev_event_id e) (db_artifacts db)))"
  by (auto simp: event_from_row_def result_simps split: sum.splits py_error.splits if_splits)

lemma event_from_row_stable:
  assumes "ledger_extends db db'" "row \<in> set (db_events db)" "event_from_row rt sha db row = Inr e"
  shows "event_from_row rt sha db' row = Inr e"
proof -
  note e = assms(3) [unfolded event_from_row_iff]
  obtain as where as: "db_artifacts db' = db_artifacts db @ as" "\<forall>a\<in>set as. aw_event_id a \<notin> er_event_id ` set (db_events db)"
    using assms(1) by (auto simp: ledger_extends_def)
  have "er_event_id row = ev_event_id e" using event_row_of_fields(1) e by blast
  then have "filter (\<lambda>a. aw_event_id a = ev_event_id e) as = []" using as(2) assms(2) by (force simp: filter_empty_conv)
  then show ?thesis using e by (simp add: event_from_row_iff as(1))
qed

lemma find_append: "find P (xs @ ys) = (case find P xs of None \<Rightarrow> find P ys | Some x \<Rightarrow> Some x)"
  by (induction xs) auto

lemma select_event_stable:
  assumes "ledger_extends db db'" "select_event_by_sha256 rt sha db d = Inr (Some e)"
  shows "select_event_by_sha256 rt sha db' d = Inr (Some e)"
proof -
  obtain row where row: "find (\<lambda>r. er_event_sha256 r = d) (db_events db) = Some row" "event_from_row rt sha db row = Inr e"
    using assms(2) by (auto simp: select_event_by_sha256_def result_simps split: option.splits)
  have "row \<in> set (db_events db)" using row(1) by (auto simp: find_Some_iff)
  moreover have "find (\<lambda>r. er_event_sha256 r = d) (db_events db') = Some row"
    using assms(1) row(1) by (auto simp: ledger_extends_def find_append)
  ultimately show ?thesis using event_from_row_stable [OF assms(1) _ row(2)] by (simp add: select_event_by_sha256_def)
qed

lemma event_of_digest_Inr_iff: "event_of_digest rt sha db d = Inr e \<longleftrightarrow> select_event_by_sha256 rt sha db d = Inr (Some e)"
  by (auto simp: event_of_digest_def result_simps split: option.splits)

lemma receipt_stable:
  assumes "ledger_extends db db'" "receipt_from_idempotency_row rt sha db key row = Inr r"
  shows "receipt_from_idempotency_row rt sha db' key row = Inr r"
proof -
  obtain ds es where d: "stored_digests rt (ir_event_sha256s_json row) = Inr ds" "rmap (event_of_digest rt sha db) ds = Inr es"
    using assms(2) by (auto simp: receipt_from_idempotency_row_def result_simps)
  have "rmap (event_of_digest rt sha db') ds = Inr es"
    using d(2) unfolding rmap_Inr_iff event_of_digest_Inr_iff
    by (rule list_all2_mono) (rule select_event_stable [OF assms(1)])
  then show ?thesis using assms(2) d by (simp add: receipt_from_idempotency_row_def)
qed

lemma retained_stable:
  "ledger_extends db db' \<Longrightarrow> retained_receipt rt sha q db row = Inr r \<Longrightarrow> retained_receipt rt sha q db' row = Inr r"
  by (auto simp: retained_receipt_def result_simps intro: receipt_stable)

section \<open>Reading what an append wrote\<close>

definition row_event :: "runtime \<Rightarrow> (pystr \<Rightarrow> pystr) \<Rightarrow> ledger_db \<Rightarrow> event_row \<Rightarrow> CanonicalEvent" where
  "row_event rt sha db row = projr (event_from_row rt sha db row)"

definition rows_readable :: "runtime \<Rightarrow> (pystr \<Rightarrow> pystr) \<Rightarrow> ledger_db \<Rightarrow> bool" where
  "rows_readable rt sha db \<longleftrightarrow> (\<forall>r\<in>set (db_events db). \<exists>e. event_from_row rt sha db r = Inr e)"

definition stream_events :: "runtime \<Rightarrow> (pystr \<Rightarrow> pystr) \<Rightarrow> ledger_db \<Rightarrow> pystr \<Rightarrow> pystr \<Rightarrow> CanonicalEvent list" where
  "stream_events rt sha db p s = map (row_event rt sha db) (stream_of db p s)"

definition ledger_ok :: "runtime \<Rightarrow> (pystr \<Rightarrow> pystr) \<Rightarrow> ledger_db \<Rightarrow> bool" where
  "ledger_ok rt sha db \<longleftrightarrow> tables_ok db \<and> rows_readable rt sha db \<and>
     (\<forall>p s. event_chain rt sha (rev (stream_events rt sha db p s)))"

lemma row_event_eq: "event_from_row rt sha db row = Inr e \<Longrightarrow> row_event rt sha db row = e"
  by (simp add: row_event_def)

lemma readable_row: "rows_readable rt sha db \<Longrightarrow> r \<in> set (db_events db) \<Longrightarrow> event_from_row rt sha db r = Inr (row_event rt sha db r)"
  by (auto simp: rows_readable_def row_event_def)

lemma row_event_fields:
  assumes "event_from_row rt sha db row = Inr e"
  shows "er_event_id row = ev_event_id e" "er_event_sha256 row = ev_event_sha256 e" "er_stream_id row = ev_stream_id e"
    "er_stream_version row = ev_stream_version e" "er_global_position row = ev_global_position e"
    "er_classification row = ev_classification e"
proof -
  have "event_row_of rt e (er_partition_sha256 row) = Inr row" using assms by (simp add: event_from_row_iff)
  from event_row_of_fields [OF this] show "er_event_id row = ev_event_id e" "er_event_sha256 row = ev_event_sha256 e"
    "er_stream_id row = ev_stream_id e" "er_stream_version row = ev_stream_version e" "er_global_position row = ev_global_position e"
    "er_classification row = ev_classification e" by simp_all
qed

lemma insert_events_tables:
  assumes "rfold (insert_event rt pd) es db = Inr db'"
  shows "ledger_extends db db' \<and> (tables_ok db \<longrightarrow> tables_ok db') \<and> db_idempotency db' = db_idempotency db \<and>
    (\<exists>rows. list_all2 (\<lambda>e row. event_row_of rt e pd = Inr row) es rows \<and> db_events db' = db_events db @ rows)"
  using assms
proof (induction es arbitrary: db)
  case (Cons e es)
  then obtain db1 where 1: "insert_event rt pd e db = Inr db1" "rfold (insert_event rt pd) es db1 = Inr db'"
    by (auto simp: result_simps)
  obtain row where row: "event_row_of rt e pd = Inr row" "db_events db1 = db_events db @ [row]" "db_idempotency db1 = db_idempotency db"
    using 1(1) by (rule insert_event_tables)
  obtain rows where rows: "list_all2 (\<lambda>e row. event_row_of rt e pd = Inr row) es rows" "db_events db' = db_events db1 @ rows"
    using Cons.IH [OF 1(2)] by blast
  have "list_all2 (\<lambda>e row. event_row_of rt e pd = Inr row) (e # es) (row # rows) \<and> db_events db' = db_events db @ row # rows"
    using rows row by simp
  moreover have "ledger_extends db db'" using ledger_extends_trans [OF insert_event_extends [OF 1(1)]] Cons.IH [OF 1(2)] by blast
  moreover have "tables_ok db \<longrightarrow> tables_ok db'" using insert_event_ok [OF _ 1(1)] Cons.IH [OF 1(2)] by blast
  moreover have "db_idempotency db' = db_idempotency db" using Cons.IH [OF 1(2)] row(3) by simp
  ultimately show ?case by blast
qed simp

text \<open>A row with a digest is the row that the digest selects.\<close>

lemma select_row:
  assumes "numbered db" "row \<in> set (db_events db)"
  shows "find (\<lambda>r. er_event_sha256 r = er_event_sha256 row) (db_events db) = Some row"
proof (cases "find (\<lambda>r. er_event_sha256 r = er_event_sha256 row) (db_events db)")
  case None
  then show ?thesis using assms(2) unfolding find_None_iff by blast
next
  case (Some x)
  then have "x \<in> set (db_events db)" "er_event_sha256 x = er_event_sha256 row" by (auto simp: find_Some_iff)
  moreover have "inj_on er_event_sha256 (set (db_events db))" using assms(1) by (simp add: numbered_def distinct_map)
  ultimately have "x = row" using assms(2) by (simp add: inj_onD)
  with Some show ?thesis by simp
qed

lemma retained_receipt_events:
  assumes r: "retained_receipt rt sha q db irow = Inr r"
  shows "verify_ledger_append_receipt rt sha q r = None"
    and "\<exists>ds. list_all2 (\<lambda>d e. select_event_by_sha256 rt sha db d = Inr (Some e)) ds (re_events r)"
proof -
  obtain key where v: "receipt_from_idempotency_row rt sha db key irow = Inr r" "verify_ledger_append_receipt rt sha q r = None"
    using r by (auto simp: retained_receipt_def result_simps)
  then obtain ds es where "rmap (event_of_digest rt sha db) ds = Inr es" "re_events r = es"
    by (auto simp: receipt_from_idempotency_row_def result_simps Let_def)
  then show "\<exists>ds. list_all2 (\<lambda>d e. select_event_by_sha256 rt sha db d = Inr (Some e)) ds (re_events r)"
    by (auto simp: rmap_Inr_iff event_of_digest_Inr_iff)
  show "verify_ledger_append_receipt rt sha q r = None" by (rule v(2))
qed

lemma retained_rows:
  assumes num: "numbered db" and r: "retained_receipt rt sha q db irow = Inr r"
    and rows: "list_all2 (\<lambda>e row. event_row_of rt e pd = Inr row) (rq_events q) rows" "set rows \<subseteq> set (db_events db)"
  shows "list_all2 (\<lambda>e row. \<exists>e'. event_from_row rt sha db row = Inr e' \<and> event_eq e' e) (rq_events q) rows"
proof -
  define es where "es = re_events r"
  have eq: "list_all2 event_eq es (rq_events q)"
    using verified_receipt(2) [OF retained_receipt_events(1) [OF r]] by (simp add: es_def)
  obtain ds where sel: "list_all2 (\<lambda>d e. select_event_by_sha256 rt sha db d = Inr (Some e)) ds es"
    using retained_receipt_events(2) [OF r] by (auto simp: es_def)
  have "\<exists>e'. event_from_row rt sha db (rows ! i) = Inr e' \<and> event_eq e' (rq_events q ! i)" if i: "i < length (rq_events q)" for i
  proof -
    have len: "length es = length (rq_events q)" "length ds = length es" "length rows = length (rq_events q)"
      using eq sel rows(1) by (auto dest: list_all2_lengthD)
    have e: "event_eq (es ! i) (rq_events q ! i)" using eq i len by (auto simp: list_all2_conv_all_nth)
    have "select_event_by_sha256 rt sha db (ds ! i) = Inr (Some (es ! i))" using sel i len by (auto simp: list_all2_conv_all_nth)
    then obtain x where x: "find (\<lambda>r. er_event_sha256 r = ds ! i) (db_events db) = Some x" "event_from_row rt sha db x = Inr (es ! i)"
      by (auto simp: select_event_by_sha256_def result_simps split: option.splits)
    have row: "event_row_of rt (rq_events q ! i) pd = Inr (rows ! i)" "rows ! i \<in> set (db_events db)"
      using rows i len by (auto simp: list_all2_conv_all_nth)
    have "er_event_sha256 x = er_event_sha256 (rows ! i)"
      using row_event_fields(2) [OF x(2)] event_eq_fields(2) [OF e] event_row_of_fields(2) [OF row(1)] by simp
    moreover have "x \<in> set (db_events db)" using x(1) by (auto simp: find_Some_iff)
    ultimately have "x = rows ! i" using select_row [OF num row(2)] select_row [OF num, of x] by simp
    with x(2) e show ?thesis by blast
  qed
  then show ?thesis using list_all2_lengthD [OF rows(1)] by (simp add: list_all2_conv_all_nth)
qed

section \<open>An append keeps the ledger\<close>

lemma find_head_Some: "find_head db p s = Some h \<Longrightarrow> h \<in> set (db_heads db) \<and> hd_partition_sha256 h = p \<and> hd_stream_id h = s"
  by (auto simp: find_head_def find_Some_iff)

lemma find_head_None:
  assumes "heads_ok db" "find_head db p s = None"
  shows "stream_of db p s = []"
proof -
  have "(p, s) \<notin> head_key ` set (db_heads db)" using assms(2) by (auto simp: find_head_def find_None_iff head_key_def)
  moreover have "row_key r \<in> head_key ` set (db_heads db)" if "r \<in> set (db_events db)" for r
    using assms(1) that by (simp add: heads_ok_def)
  ultimately show ?thesis by (force simp: stream_of_def filter_empty_conv row_key_def)
qed

lemma select_head:
  assumes ok: "ledger_ok rt sha db" and p: "partition_sha256 rt sha (ac_partition a) = Inr pd"
    and sel: "select_head_event rt sha a db s = Inr head"
  shows "head = head_of (rev (stream_events rt sha db pd s))"
proof (cases "find_head db pd s")
  case None
  then show ?thesis
    using find_head_None [of db pd s] ok sel p
    by (simp add: select_head_event_def stream_events_def head_of_def ledger_ok_def tables_ok_def)
next
  case (Some h)
  let ?rs = "stream_of db pd s"
  have fit: "head_fits ?rs h"
    using find_head_Some [OF Some] ok unfolding ledger_ok_def tables_ok_def heads_ok_def by blast
  show ?thesis
  proof (cases "?rs = []")
    case True
    then show ?thesis using fit sel p Some
      by (auto simp: head_fits_def select_head_event_def stream_events_def head_of_def result_simps split: if_splits)
  next
    case False
    then obtain xs x where rs: "?rs = xs @ [x]" by (metis rev_exhaust)
    then have "x \<in> set ?rs" by simp
    then have x: "x \<in> set (db_events db)" by (simp add: stream_of_def)
    have num: "numbered db" "rows_readable rt sha db" using ok by (auto simp: ledger_ok_def tables_ok_def)
    have "select_event_by_sha256 rt sha db (er_event_sha256 x) = Inr (Some (row_event rt sha db x))"
      using select_row [OF num(1) x] readable_row [OF num(2) x] by (simp add: select_event_by_sha256_def)
    moreover have "hd_current_event_sha256 h = Some (er_event_sha256 x)" using fit by (simp add: head_fits_def rs)
    ultimately have "head = Some (row_event rt sha db x)"
      using sel unfolding select_head_event_def p rbind_simps Some by (simp split: if_splits)
    then show ?thesis by (simp add: head_of_def stream_events_def rs)
  qed
qed

lemma verify_parent_eq:
  "event_eq e' e \<Longrightarrow> rel_option event_eq p' p \<Longrightarrow> verify_event_parent e' p' = verify_event_parent e p"
  by (cases p; cases p') (simp_all add: verify_event_parent_def event_eq_fields)

lemma linked_eq: "linked p es \<Longrightarrow> list_all2 event_eq es' es \<Longrightarrow> rel_option event_eq p' p \<Longrightarrow> linked p' es'"
proof (induction es arbitrary: es' p p')
  case (Cons e es)
  then obtain e' fs where es': "es' = e' # fs" "event_eq e' e" "list_all2 event_eq fs es" by (auto simp: list_all2_Cons2)
  have "linked (Some e') fs" by (rule Cons.IH [of "Some e"]) (use Cons.prems es' in simp_all)
  then show ?case using verify_parent_eq [OF es'(2) Cons.prems(3)] Cons.prems(1) es'(1) by simp
qed simp

text \<open>The states of a successful append.\<close>

lemma append_new_states:
  assumes "append_new rt sha a pd q db = Inr (c, db')"
  obtains head db1 db2 receipt json irow where
    "select_head_event rt sha a db (rq_stream_id q) = Inr head"
    "verify_ledger_append_precondition q head (db_global_position db + 1) = None"
    "if head = None then insert_head_row (new_head pd (ac_partition a) (rq_stream_id q)) db = Some db1 else db1 = db"
    "rfold (insert_event rt pd) (rq_events q) db1 = Inr db2" "build_ledger_append_receipt rt sha q = Inr receipt"
    "insert_idempotency_row (idempotency_row_of pd receipt json) db2 = Some db'"
    "select_idempotency db' pd (id_idempotency_key_sha256 (rq_idempotency q)) = Some irow"
    "retained_receipt rt sha q db' irow = Inr (cm_receipt c)" "cm_inserted c"
proof -
  obtain head position where 1: "select_head_event rt sha a db (rq_stream_id q) = Inr head" "select_global_position db = Inr position"
      "verify_ledger_append_precondition q head (position + 1) = None"
    and r: "rbind (if head = None then executed (insert_head_row (new_head pd (ac_partition a) (rq_stream_id q)) db) else Inr db) (\<lambda>db1.
      rbind (rfold (insert_event rt pd) (rq_events q) db1) (\<lambda>db2.
      rbind (build_ledger_append_receipt rt sha q) (\<lambda>receipt.
      rbind (ledger_json rt (PList (map (PStr \<circ> ev_event_sha256) (rq_events q)))) (\<lambda>json.
      rbind (executed (insert_idempotency_row (idempotency_row_of pd receipt json) db2)) (\<lambda>db3.
      case select_idempotency db3 pd (id_idempotency_key_sha256 (rq_idempotency q)) of
        None \<Rightarrow> Inl (integrity_error (''committed idempotency receipt could not be read b'' @ ''ack''))
      | Some row \<Rightarrow>
          rbind (retained_receipt rt sha q db3 row) (\<lambda>retained.
          Inr (\<lparr>cm_receipt = retained, cm_inserted = True\<rparr>, db3))))))) = Inr (c, db')"
    using assms unfolding append_new_def rbind_Inr_iff or_raise_Inr_iff by blast
  have pos: "position = db_global_position db" using 1(2) by (simp add: select_global_position_def split: if_splits)
  from r obtain db1 db2 receipt json db3 where 2:
      "(if head = None then executed (insert_head_row (new_head pd (ac_partition a) (rq_stream_id q)) db) else Inr db) = Inr db1"
      "rfold (insert_event rt pd) (rq_events q) db1 = Inr db2" "build_ledger_append_receipt rt sha q = Inr receipt"
      "insert_idempotency_row (idempotency_row_of pd receipt json) db2 = Some db3"
    and r3: "(case select_idempotency db3 pd (id_idempotency_key_sha256 (rq_idempotency q)) of
        None \<Rightarrow> Inl (integrity_error (''committed idempotency receipt could not be read b'' @ ''ack''))
      | Some row \<Rightarrow>
          rbind (retained_receipt rt sha q db3 row) (\<lambda>retained.
          Inr (\<lparr>cm_receipt = retained, cm_inserted = True\<rparr>, db3))) = Inr (c, db')"
    unfolding rbind_Inr_iff executed_Inr_iff by blast
  from r3 obtain irow where 3: "select_idempotency db' pd (id_idempotency_key_sha256 (rq_idempotency q)) = Some irow"
      "retained_receipt rt sha q db' irow = Inr (cm_receipt c)" "cm_inserted c" "db3 = db'"
    by (auto simp: result_simps split: option.splits)
  show thesis
    by (rule that [OF 1(1) _ _ 2(2,3) _ 3(1-3)]) (use 1(3) pos 2(1,4) 3(4) in \<open>auto simp: result_simps split: if_splits\<close>)
qed

lemma rows_of_request:
  assumes q: "append_request_error q = None" and rows: "list_all2 (\<lambda>e row. event_row_of rt e pd = Inr row) (rq_events q) rows" and r: "r \<in> set rows"
  shows "er_partition_sha256 r = pd" "er_stream_id r = rq_stream_id q"
proof -
  obtain i where i: "i < length rows" "r = rows ! i" using r by (auto simp: in_set_conv_nth)
  then have e: "event_row_of rt (rq_events q ! i) pd = Inr r" "rq_events q ! i \<in> set (rq_events q)"
    using rows by (auto simp: list_all2_conv_all_nth)
  have "in_request q (rq_events q ! i)" using append_events_in_request [OF request_events(5) [OF q]] e(2) by blast
  then show "er_partition_sha256 r = pd" "er_stream_id r = rq_stream_id q"
    using event_row_of_fields(3,4) [OF e(1)] by (simp_all add: in_request_def)
qed

lemma append_new_extends:
  assumes "append_new rt sha a pd q db = Inr (c, db')" and "tables_ok db"
  shows "ledger_extends db db' \<and> tables_ok db' \<and>
    (\<exists>rows. list_all2 (\<lambda>e row. event_row_of rt e pd = Inr row) (rq_events q) rows \<and> db_events db' = db_events db @ rows)"
  using assms(1)
proof (rule append_new_states)
  fix head db1 db2 receipt json
  assume h: "if head = None then insert_head_row (new_head pd (ac_partition a) (rq_stream_id q)) db = Some db1 else db1 = db"
    and f: "rfold (insert_event rt pd) (rq_events q) db1 = Inr db2"
    and i: "insert_idempotency_row (idempotency_row_of pd receipt json) db2 = Some db'"
  have 1: "ledger_extends db db1" "tables_ok db1" "db_events db1 = db_events db"
    using h assms(2) insert_head_ok by (auto simp: ledger_extends_def insert_head_row_def split: if_splits)
  note 2 = insert_events_tables [OF f]
  have 3: "ledger_extends db2 db'" "db_events db' = db_events db2" using insert_idempotency_rows [OF i] by (simp_all add: ledger_extends_def)
  have "tables_ok db2" using 1(2) 2 by blast
  then have "tables_ok db'" using insert_idempotency_ok i by blast
  moreover have "ledger_extends db db'" using ledger_extends_trans [OF 1(1)] ledger_extends_trans [OF _ 3(1)] 2 by blast
  ultimately show ?thesis using 2 3(2) 1(3) by auto
qed

lemma append_new_readable:
  assumes ok: "ledger_ok rt sha db" and app: "append_new rt sha a pd q db = Inr (c, db')"
    and rows: "list_all2 (\<lambda>e row. event_row_of rt e pd = Inr row) (rq_events q) rows" "db_events db' = db_events db @ rows"
  shows "rows_readable rt sha db'" "list_all2 event_eq (map (row_event rt sha db') rows) (rq_events q)"
proof -
  have ext: "ledger_extends db db'" "numbered db'"
    using append_new_extends [OF app] ok by (auto simp: ledger_ok_def tables_ok_def)
  have new: "list_all2 (\<lambda>e row. \<exists>e'. event_from_row rt sha db' row = Inr e' \<and> event_eq e' e) (rq_events q) rows"
    using app by (rule append_new_states) (rule retained_rows [OF ext(2) _ rows(1)], auto simp: rows(2))
  have "\<exists>e'. event_from_row rt sha db' r = Inr e'" if "r \<in> set rows" for r
    using new that by (auto simp: list_all2_conv_all_nth in_set_conv_nth)
  moreover have "\<exists>e'. event_from_row rt sha db' r = Inr e'" if "r \<in> set (db_events db)" for r
    using event_from_row_stable [OF ext(1) that] ok that by (fastforce simp: ledger_ok_def rows_readable_def)
  ultimately show "rows_readable rt sha db'" by (auto simp: rows_readable_def rows(2))
  show "list_all2 event_eq (map (row_event rt sha db') rows) (rq_events q)"
    using new by (auto simp: list_all2_conv_all_nth row_event_def)
qed

lemma append_new_ok:
  assumes ok: "ledger_ok rt sha db" and q: "append_request_error q = None" and p: "partition_sha256 rt sha (ac_partition a) = Inr pd"
    and app: "append_new rt sha a pd q db = Inr (c, db')"
  shows "ledger_ok rt sha db' \<and> ledger_extends db db' \<and>
    (\<exists>new. list_all2 event_eq new (rq_events q) \<and>
      (\<forall>x s. stream_events rt sha db' x s = stream_events rt sha db x s @ (if (x, s) = (pd, rq_stream_id q) then new else [])))"
proof -
  obtain rows where ext: "ledger_extends db db'" and tables: "tables_ok db'"
    and rows: "list_all2 (\<lambda>e row. event_row_of rt e pd = Inr row) (rq_events q) rows" "db_events db' = db_events db @ rows"
    using append_new_extends [OF app] ok by (auto simp: ledger_ok_def)
  note new = append_new_readable [OF ok app rows]
  let ?new = "map (row_event rt sha db') rows"
  have old: "row_event rt sha db' r = row_event rt sha db r" if "r \<in> set (db_events db)" for r
    using event_from_row_stable [OF ext that] readable_row [of rt sha db r] ok that by (simp add: ledger_ok_def row_event_def)
  have split: "stream_of db' x s = stream_of db x s @ (if (x, s) = (pd, rq_stream_id q) then rows else [])" for x s
    using rows_of_request [OF q rows(1)] by (auto simp: stream_of_def rows(2) filter_empty_conv intro!: filter_True)
  have streams: "stream_events rt sha db' x s = stream_events rt sha db x s @ (if (x, s) = (pd, rq_stream_id q) then ?new else [])" for x s
  proof -
    have "map (row_event rt sha db') (stream_of db x s) = map (row_event rt sha db) (stream_of db x s)"
      using old by (simp add: stream_of_def)
    then show ?thesis by (simp add: stream_events_def split)
  qed
  have valid: "\<forall>e\<in>set ?new. canonical_event_error rt sha e = None"
  proof
    fix e assume "e \<in> set ?new"
    then obtain r where r: "r \<in> set (db_events db')" "e = row_event rt sha db' r" using rows(2) by auto
    from readable_row [OF new(1) r(1)] show "canonical_event_error rt sha e = None"
      by (auto simp: event_from_row_iff r(2) intro: loads_valid)
  qed
  have "linked (head_of (rev (stream_events rt sha db pd (rq_stream_id q)))) (rq_events q)"
    using app
  proof (rule append_new_states)
    fix head
    assume "select_head_event rt sha a db (rq_stream_id q) = Inr head"
      "verify_ledger_append_precondition q head (db_global_position db + 1) = None"
    then show ?thesis using select_head [OF ok p] precondition_linked [OF q] by metis
  qed
  moreover have "rel_option event_eq (head_of (rev (stream_events rt sha db pd (rq_stream_id q)))) (head_of (rev (stream_events rt sha db pd (rq_stream_id q))))"
  proof -
    have "event_eq e e" if "e \<in> set (stream_events rt sha db pd (rq_stream_id q))" for e
      using chain_valid [of rt sha "rev (stream_events rt sha db pd (rq_stream_id q))" e] ok that
      by (auto simp: ledger_ok_def intro: event_eq_refl)
    then show ?thesis by (cases "rev (stream_events rt sha db pd (rq_stream_id q))") (auto simp: head_of_def rev_swap)
  qed
  ultimately have "linked (head_of (rev (stream_events rt sha db pd (rq_stream_id q)))) ?new"
    by (rule linked_eq [OF _ new(2)])
  then have "event_chain rt sha (rev ?new @ rev (stream_events rt sha db pd (rq_stream_id q)))"
    using chain_extend valid ok by (simp add: ledger_ok_def)
  then have "event_chain rt sha (rev (stream_events rt sha db' x s))" for x s
    using ok by (cases "(x, s) = (pd, rq_stream_id q)") (simp_all add: streams ledger_ok_def)
  then show ?thesis using tables new streams ext by (auto simp: ledger_ok_def)
qed

section \<open>Calls\<close>

definition request_of :: "LedgerAccessContext \<Rightarrow> pystr \<Rightarrow> int \<Rightarrow> CanonicalEvent list \<Rightarrow> LedgerIdempotency \<Rightarrow> LedgerAppendRequest" where
  "request_of a s v es i = \<lparr>rq_access = a, rq_stream_id = s, rq_expected_stream_version = v, rq_events = es, rq_idempotency = i,
     rq_contract_version = EVENT_LEDGER_PORT_VERSION\<rparr>"

lemma append_once_Inr_iff:
  "append_once rt sha a s v es i db = (Inr c, db') \<longleftrightarrow>
     append_request_error (request_of a s v es i) = None \<and>
     append_in_transaction rt sha a (request_of a s v es i) db = Inr (c, db')"
  unfolding append_once_def request_of_def [symmetric] Let_def
  by (cases "append_request_error (request_of a s v es i)") (auto split: sum.splits prod.splits)

lemma append_once_Inl: "append_once rt sha a s v es i db = (Inl e, db') \<Longrightarrow> db' = db"
  unfolding append_once_def Let_def by (auto split: sum.splits prod.splits)

lemma append_in_transaction_cases:
  assumes "append_in_transaction rt sha a q db = Inr (c, db')"
  obtains (replay) pd row where "partition_sha256 rt sha (ac_partition a) = Inr pd"
      "select_idempotency db pd (id_idempotency_key_sha256 (rq_idempotency q)) = Some row"
      "request_sha256 rt sha q = Inr (ir_request_sha256 row)" "ir_command_sha256 row = id_command_sha256 (rq_idempotency q)"
      "retained_receipt rt sha q db row = Inr (cm_receipt c)" "\<not> cm_inserted c" "db' = db"
  | (fresh) pd where "partition_sha256 rt sha (ac_partition a) = Inr pd"
      "select_idempotency db pd (id_idempotency_key_sha256 (rq_idempotency q)) = None" "append_new rt sha a pd q db = Inr (c, db')"
proof -
  from assms obtain pd where pd: "partition_sha256 rt sha (ac_partition a) = Inr pd"
    and r: "(case select_idempotency db pd (id_idempotency_key_sha256 (rq_idempotency q)) of
        Some row \<Rightarrow>
          rbind (request_sha256 rt sha q) (\<lambda>d.
          or_raise (conflict_if (ir_command_sha256 row \<noteq> id_command_sha256 (rq_idempotency q) \<or> ir_request_sha256 row \<noteq> d)
              ''TBM_EVENT_LEDGER_IDEMPOTENCY_CONFLICT'' ''idempotency key is bound to another command'')
          (rbind (retained_receipt rt sha q db row) (\<lambda>retained.
           Inr (\<lparr>cm_receipt = retained, cm_inserted = False\<rparr>, db))))
      | None \<Rightarrow> append_new rt sha a pd q db) = Inr (c, db')"
    unfolding append_in_transaction_def rbind_Inr_iff or_raise_Inr_iff by blast
  show thesis
  proof (cases "select_idempotency db pd (id_idempotency_key_sha256 (rq_idempotency q))")
    case None
    then show thesis using fresh pd r by simp
  next
    case (Some row)
    then show thesis using r by (intro replay [OF pd Some]) (auto simp: result_simps)
  qed
qed

lemma append_once_ok:
  assumes "ledger_ok rt sha db" and "append_once rt sha a s v es i db = (r, db')"
  shows "ledger_ok rt sha db' \<and> ledger_extends db db'"
proof (cases r)
  case (Inl e)
  then have "db' = db" using assms(2) append_once_Inl by blast
  then show ?thesis using assms(1) by simp
next
  case (Inr c)
  then have q: "append_request_error (request_of a s v es i) = None"
    and t: "append_in_transaction rt sha a (request_of a s v es i) db = Inr (c, db')"
    using assms(2) by (simp_all add: append_once_Inr_iff)
  from t show ?thesis
  proof (cases rule: append_in_transaction_cases)
    case (fresh pd)
    then show ?thesis using append_new_ok [OF assms(1) q] by blast
  qed (use assms(1) in simp)
qed

text \<open>Any number of callers, one call after the other.\<close>

datatype ledger_call = AppendOnce LedgerAccessContext pystr int "CanonicalEvent list" LedgerIdempotency

fun ledger_step :: "runtime \<Rightarrow> (pystr \<Rightarrow> pystr) \<Rightarrow> ledger_call \<Rightarrow> ledger_db \<Rightarrow> ledger_db result" where
  "ledger_step rt sha (AppendOnce a s v es i) db =
     (case append_once rt sha a s v es i db of (Inl e, _) \<Rightarrow> Inl e | (Inr c, db') \<Rightarrow> Inr db')"

fun call_ledger :: "runtime \<Rightarrow> (pystr \<Rightarrow> pystr) \<Rightarrow> ledger_call \<Rightarrow> ledger_db \<Rightarrow> ledger_db" where
  "call_ledger rt sha (AppendOnce a s v es i) db = snd (append_once rt sha a s v es i db)"

definition run_ledger :: "runtime \<Rightarrow> (pystr \<Rightarrow> pystr) \<Rightarrow> ledger_call list \<Rightarrow> ledger_db \<Rightarrow> ledger_db" where
  "run_ledger rt sha calls = fold (call_ledger rt sha) calls"

lemma empty_ledger_ok: "ledger_ok rt sha empty_db"
  by (simp add: ledger_ok_def empty_db_def tables_ok_def numbered_def heads_ok_def artifacts_ok_def rows_readable_def stream_events_def stream_of_def)

lemma ledger_step_ok:
  assumes "ledger_ok rt sha db" and "ledger_step rt sha call db = Inr db'"
  shows "ledger_ok rt sha db' \<and> ledger_extends db db'"
proof (cases call)
  case (AppendOnce a s v es i)
  obtain c where "append_once rt sha a s v es i db = (Inr c, db')"
    using assms(2) by (auto simp: AppendOnce split: prod.splits sum.splits)
  then show ?thesis using append_once_ok [OF assms(1)] by blast
qed

interpretation sqlite: monotone_machine "ledger_step rt sha" "\<lambda>db. db = empty_db" "ledger_ok rt sha" ledger_extends for rt sha
proof unfold_locales
  show "ledger_extends s v" if "ledger_extends s t" "ledger_extends t v" for s t v using that by (rule ledger_extends_trans)
qed (auto simp: empty_ledger_ok dest: ledger_step_ok)

lemma exec_call: "sqlite.exec rt sha call db = call_ledger rt sha call db"
proof (cases call)
  case (AppendOnce a s v es i)
  then show ?thesis
    by (cases "append_once rt sha a s v es i db") (auto simp: sqlite.exec_def dest: append_once_Inl split: sum.splits)
qed

lemma run_exec: "run_ledger rt sha calls db = fold (sqlite.exec rt sha) calls db"
  unfolding run_ledger_def by (rule arg_cong [of _ _ "\<lambda>f. fold f calls db"]) (simp add: fun_eq_iff exec_call)

lemma run_ledger_ok: "ledger_ok rt sha (run_ledger rt sha calls empty_db)"
  unfolding run_exec by (rule sqlite.run_inv) simp

lemma run_reached: "sqlite.reachable rt sha (run_ledger rt sha calls empty_db)"
  unfolding run_exec by (rule sqlite.run_reachable) (rule sqlite.reachable.initial, simp)

lemma later_extends: "ledger_extends (run_ledger rt sha calls empty_db) (run_ledger rt sha later (run_ledger rt sha calls empty_db))"
  using sqlite.run_le [OF run_reached] by (simp add: run_exec)

section \<open>Replays\<close>

definition bound_to ::
  "runtime \<Rightarrow> (pystr \<Rightarrow> pystr) \<Rightarrow> LedgerAccessContext \<Rightarrow> LedgerAppendRequest \<Rightarrow> LedgerAppendReceipt \<Rightarrow> ledger_db \<Rightarrow> bool" where
  "bound_to rt sha a q r db \<longleftrightarrow> (\<exists>pd row. partition_sha256 rt sha (ac_partition a) = Inr pd \<and>
     select_idempotency db pd (id_idempotency_key_sha256 (rq_idempotency q)) = Some row \<and>
     request_sha256 rt sha q = Inr (ir_request_sha256 row) \<and> ir_command_sha256 row = id_command_sha256 (rq_idempotency q) \<and>
     retained_receipt rt sha q db row = Inr r)"

lemma select_idempotency_stable:
  "ledger_extends db db' \<Longrightarrow> select_idempotency db pd key = Some row \<Longrightarrow> select_idempotency db' pd key = Some row"
  by (auto simp: ledger_extends_def select_idempotency_def find_append)

lemma bound_stable: "ledger_extends db db' \<Longrightarrow> bound_to rt sha a q r db \<Longrightarrow> bound_to rt sha a q r db'"
  unfolding bound_to_def using select_idempotency_stable retained_stable by meson

lemma bound_replay:
  "bound_to rt sha a q r db \<Longrightarrow> rq_access q = a \<Longrightarrow>
   append_in_transaction rt sha a q db = Inr (\<lparr>cm_receipt = r, cm_inserted = False\<rparr>, db)"
  by (auto simp: bound_to_def append_in_transaction_def)

lemma append_binds:
  assumes "append_in_transaction rt sha a q db = Inr (c, db')"
  shows "bound_to rt sha a q (cm_receipt c) db'"
  using assms
proof (cases rule: append_in_transaction_cases)
  case (replay pd row)
  then show ?thesis by (auto simp: bound_to_def)
next
  case (fresh pd)
  from fresh(3) show ?thesis
  proof (rule append_new_states)
    fix head db1 db2 receipt json irow
    assume h: "if head = None then insert_head_row (new_head pd (ac_partition a) (rq_stream_id q)) db = Some db1 else db1 = db"
      and f: "rfold (insert_event rt pd) (rq_events q) db1 = Inr db2" and b: "build_ledger_append_receipt rt sha q = Inr receipt"
      and i: "insert_idempotency_row (idempotency_row_of pd receipt json) db2 = Some db'"
      and sel: "select_idempotency db' pd (id_idempotency_key_sha256 (rq_idempotency q)) = Some irow"
      and ret: "retained_receipt rt sha q db' irow = Inr (cm_receipt c)"
    have "db_idempotency db1 = db_idempotency db" using h by (auto simp: insert_head_row_def split: if_splits)
    then have "db_idempotency db' = db_idempotency db @ [idempotency_row_of pd receipt json]"
      using insert_events_tables [OF f] insert_idempotency_rows [OF i] by simp
    then have "irow = idempotency_row_of pd receipt json"
      using sel fresh(2) by (auto simp: select_idempotency_def find_append split: if_splits)
    then have "request_sha256 rt sha q = Inr (ir_request_sha256 irow) \<and> ir_command_sha256 irow = id_command_sha256 (rq_idempotency q)"
      using b by (auto simp: build_ledger_append_receipt_def idempotency_row_of_def Let_def result_simps)
    then show ?thesis using fresh(1) sel ret by (auto simp: bound_to_def)
  qed
qed

lemma append_replayed:
  assumes ok: "ledger_ok rt sha db" and first: "append_once rt sha a s v es i db = (Inr c, db')" and later: "ledger_extends db' db''"
  shows "append_once rt sha a s v es i db'' = (Inr (c\<lparr>cm_inserted := False\<rparr>), db'')"
proof -
  have q: "append_request_error (request_of a s v es i) = None"
    and t: "append_in_transaction rt sha a (request_of a s v es i) db = Inr (c, db')"
    using first by (simp_all add: append_once_Inr_iff)
  have "bound_to rt sha a (request_of a s v es i) (cm_receipt c) db''" using bound_stable [OF later append_binds [OF t]] .
  then have "append_in_transaction rt sha a (request_of a s v es i) db'' = Inr (\<lparr>cm_receipt = cm_receipt c, cm_inserted = False\<rparr>, db'')"
    by (rule bound_replay) (simp add: request_of_def)
  moreover have "\<lparr>cm_receipt = cm_receipt c, cm_inserted = False\<rparr> = c\<lparr>cm_inserted := False\<rparr>" by simp
  ultimately show ?thesis using q by (simp add: append_once_Inr_iff)
qed

section \<open>Artifacts that cannot be stored\<close>

lemma loaded_artifacts:
  assumes ok: "artifacts_ok db" and e: "event_from_row rt sha db row = Inr e" and r: "r \<in> set (ev_artifact_refs e)"
  shows "ar_availability r \<in> set STORED_AVAILABILITY"
proof -
  obtain i where i: "i < length (ev_artifact_refs e)" "r = ev_artifact_refs e ! i" using r by (auto simp: in_set_conv_nth)
  let ?rows = "sort_key aw_ordinal (filter (\<lambda>a. aw_event_id a = ev_event_id e) (db_artifacts db))"
  have "list_all2 (\<lambda>i a. artifact_row_of rt e i = Inr a) [0..<length (ev_artifact_refs e)] ?rows"
    using e by (simp add: event_from_row_iff artifact_rows_of_def rmap_Inr_iff)
  then have row: "artifact_row_of rt e i = Inr (?rows ! i)" "i < length ?rows"
    using i(1) unfolding list_all2_conv_all_nth by (metis add_0 length_upt minus_nat.diff_0 nth_upt)+
  have "?rows ! i \<in> set ?rows" using row(2) by (rule nth_mem)
  then have "aw_availability (?rows ! i) \<in> set STORED_AVAILABILITY" using ok by (simp add: artifacts_ok_def)
  moreover have "aw_availability a = ar_availability r" if "artifact_row_of rt e i = Inr a" for a
    using that i(2) by (auto simp: artifact_row_of_def Let_def result_simps)
  ultimately show ?thesis using row(1) by metis
qed

lemma append_stores_artifacts:
  assumes ok: "ledger_ok rt sha db" and app: "append_once rt sha a s v es i db = (Inr c, db')"
    and e: "e \<in> set es" and r: "r \<in> set (ev_artifact_refs e)"
  shows "ar_availability r \<in> set STORED_AVAILABILITY"
proof -
  have ok': "artifacts_ok db'" using append_once_ok [OF ok app] by (simp add: ledger_ok_def tables_ok_def)
  have "append_in_transaction rt sha a (request_of a s v es i) db = Inr (c, db')" using app by (simp add: append_once_Inr_iff)
  from append_binds [OF this] obtain row where "retained_receipt rt sha (request_of a s v es i) db' row = Inr (cm_receipt c)"
    by (auto simp: bound_to_def)
  note kept = retained_receipt_events [OF this]
  obtain e' where e': "e' \<in> set (re_events (cm_receipt c))" "event_eq e' e"
    using verified_receipt(2) [OF kept(1)] e by (auto simp: request_of_def in_set_conv_nth dest: list_all2_nthD2 list_all2_lengthD) (metis list_all2_conv_all_nth nth_mem)
  obtain ds where "list_all2 (\<lambda>d x. select_event_by_sha256 rt sha db' d = Inr (Some x)) ds (re_events (cm_receipt c))"
    using kept(2) by blast
  then obtain d where "select_event_by_sha256 rt sha db' d = Inr (Some e')"
    using e'(1) by (auto simp: list_all2_conv_all_nth in_set_conv_nth)
  then obtain x where "event_from_row rt sha db' x = Inr e'"
    by (auto simp: select_event_by_sha256_def result_simps split: option.splits)
  from loaded_artifacts [OF ok' this] r event_eq_fields(14) [OF e'(2)] show ?thesis by simp
qed

end
