(* ===== verification/SqliteReadFacts.thy ===== *)
theory SqliteReadFacts
  imports SqliteFacts
begin

text \<open>
  What a reader sees: the pages of a stream are exactly its events, in order and without gaps, and the
  verification of a stream that only appends have touched finds no issue.
\<close>

section \<open>Rows of a stream\<close>

lemma stream_versions:
  assumes "tables_ok db" and "i < length (stream_of db p s)"
  shows "er_stream_version (stream_of db p s ! i) = int i + 1"
proof -
  let ?r = "stream_of db p s ! i"
  have r: "?r \<in> set (stream_of db p s)" using assms(2) by simp
  then have "?r \<in> set (db_events db)" "row_key ?r = (p, s)" by (auto simp: stream_of_def row_key_def)
  then obtain h where h: "h \<in> set (db_heads db)" "head_key h = (p, s)"
    using assms(1) unfolding tables_ok_def heads_ok_def by (metis imageE)
  then have "head_fits (stream_of db p s) h" using assms(1) by (auto simp: tables_ok_def heads_ok_def head_key_def)
  then show ?thesis using assms(2) by (simp add: head_fits_def)
qed

lemma filter_from:
  "\<forall>i<length xs. f (xs ! i) = int i + c \<Longrightarrow> filter (\<lambda>x. k \<le> f x) xs = drop (nat (k - c)) xs"
proof (induction xs arbitrary: c)
  case (Cons x xs)
  have "\<forall>i<length xs. f (xs ! i) = int i + (c + 1)"
  proof safe
    fix i assume "i < length xs"
    then show "f (xs ! i) = int i + (c + 1)" using Cons.prems [rule_format, of "Suc i"] by simp
  qed
  from Cons.IH [OF this] have IH: "filter (\<lambda>x. k \<le> f x) xs = drop (nat (k - (c + 1))) xs" .
  have x: "f x = c" using Cons.prems [rule_format, of 0] by simp
  show ?case
  proof (cases "k \<le> c")
    case True
    then show ?thesis using x IH by simp
  next
    case False
    then have "nat (k - c) = Suc (nat (k - (c + 1)))" by simp
    then show ?thesis using False x IH by simp
  qed
qed simp

lemma sorted_from:
  assumes "\<forall>i<length xs. f (xs ! i) = int i + c"
  shows "sorted (map f xs)"
  unfolding sorted_iff_nth_mono using assms by simp

lemma stream_rows_eq:
  assumes "tables_ok db"
  shows "stream_rows db p s k = drop (nat (k - 1)) (stream_of db p s)"
proof -
  have v: "\<forall>i<length (stream_of db p s). er_stream_version (stream_of db p s ! i) = int i + 1"
    using stream_versions [OF assms] by blast
  have "filter (\<lambda>r. er_partition_sha256 r = p \<and> er_stream_id r = s \<and> k \<le> er_stream_version r) (db_events db) =
      filter (\<lambda>r. k \<le> er_stream_version r) (stream_of db p s)"
    by (simp add: stream_of_def conj_ac)
  also have "\<dots> = drop (nat (k - 1)) (stream_of db p s)" by (rule filter_from [OF v])
  finally have e: "filter (\<lambda>r. er_partition_sha256 r = p \<and> er_stream_id r = s \<and> k \<le> er_stream_version r) (db_events db) =
      drop (nat (k - 1)) (stream_of db p s)" .
  have "sorted (map er_stream_version (drop (nat (k - 1)) (stream_of db p s)))"
    using sorted_from [OF v] by (simp add: drop_map [symmetric] sorted_wrt_drop)
  then show ?thesis unfolding stream_rows_def e by (rule sort_key_id_if_sorted)
qed

lemma rmap_rows:
  assumes "rows_readable rt sha db" and "set rows \<subseteq> set (db_events db)"
  shows "rmap (event_from_row rt sha db) rows = Inr (map (row_event rt sha db) rows)"
  unfolding rmap_Inr_iff using readable_row [OF assms(1) subsetD [OF assms(2) nth_mem]] by (simp add: list_all2_conv_all_nth)

section \<open>Links of a stream, the oldest event first\<close>

lemma linked_append:
  "linked p (es @ fs) \<longleftrightarrow> linked p es \<and> linked (if es = [] then p else Some (last es)) fs"
  by (induction es arbitrary: p) auto

lemma chain_linked: "event_chain rt sha (rev es) \<Longrightarrow> linked None es"
proof (induction es rule: rev_induct)
  case (snoc e es)
  then have "event_chain rt sha (e # rev es)" by simp
  then have "linked None es" "verify_event_parent e (if es = [] then None else Some (last es)) = None"
    using chain_tail [of rt sha e "rev es"] snoc.IH by (cases "rev es"; force simp: last_rev)+
  then show ?case by (simp add: linked_append)
qed simp

lemma linked_slice:
  assumes "linked p es" and "xs = take n (drop m es)" and "xs \<noteq> []"
  shows "linked (Some (hd xs)) (tl xs)"
proof -
  have es: "es = take m es @ xs @ drop n (drop m es)" unfolding assms(2) append_take_drop_id ..
  have "\<exists>q. linked q xs" using assms(1) by (subst (asm) es) (auto simp: linked_append)
  then show ?thesis using assms(3) by (cases xs) auto
qed

lemma stream_positions:
  assumes "event_chain rt sha (rev es)" and "i < j" "j < length es"
  shows "ev_global_position (es ! i) < ev_global_position (es ! j)"
proof -
  have "sorted_wrt (\<lambda>e p. ev_global_position p < ev_global_position e) (rev es)" by (rule chain_order [OF assms(1)])
  then have "sorted_wrt (\<lambda>p e. ev_global_position p < ev_global_position e) es" by (simp add: sorted_wrt_rev)
  then show ?thesis using assms(2,3) by (simp add: sorted_wrt_iff_nth_less)
qed

section \<open>Pages of a stream\<close>

lemma valid_stream_event:
  assumes ok: "ledger_ok rt sha db" and e: "e \<in> set (stream_events rt sha db p s)"
  shows "canonical_event_error rt sha e = None" "ev_stream_id e = s" "1 \<le> ev_global_position e"
    "ev_global_position e \<le> db_global_position db"
proof -
  have chain: "event_chain rt sha (rev (stream_events rt sha db p s))" using ok by (simp add: ledger_ok_def)
  show v: "canonical_event_error rt sha e = None" using chain_valid [OF chain, of e] e by simp
  obtain r where r: "r \<in> set (stream_of db p s)" "e = row_event rt sha db r" using e by (auto simp: stream_events_def)
  then have rd: "r \<in> set (db_events db)" "er_stream_id r = s" by (auto simp: stream_of_def)
  have f: "event_from_row rt sha db r = Inr e" using readable_row [OF _ rd(1)] ok r(2) by (simp add: ledger_ok_def)
  show "ev_stream_id e = s" using row_event_fields(3) [OF f] rd(2) by simp
  show "1 \<le> ev_global_position e" by (rule valid_event_versions [OF v])
  obtain i where "i < length (db_events db)" "r = db_events db ! i" using rd(1) by (auto simp: in_set_conv_nth)
  then show "ev_global_position e \<le> db_global_position db"
    using ok row_event_fields(5) [OF f] by (auto simp: ledger_ok_def tables_ok_def numbered_def)
qed

lemma global_position_bounded:
  assumes ok: "ledger_ok rt sha db"
  shows "0 \<le> db_global_position db \<and> db_global_position db \<le> EVENT_MAX_VERSION"
proof (cases "db_events db" rule: rev_cases)
  case Nil
  then show ?thesis using ok by (simp add: ledger_ok_def tables_ok_def numbered_def)
next
  case (snoc rs r)
  have "r \<in> set (db_events db)" by (simp add: snoc)
  then obtain e where f: "event_from_row rt sha db r = Inr e" using ok by (auto simp: ledger_ok_def rows_readable_def)
  have "er_global_position (db_events db ! length rs) = int (length rs) + 1"
    using ok by (auto simp: ledger_ok_def tables_ok_def numbered_def snoc)
  then have "ev_global_position e = db_global_position db"
    using ok row_event_fields(5) [OF f] by (simp add: ledger_ok_def tables_ok_def numbered_def snoc)
  moreover have v: "canonical_event_error rt sha e = None" using f by (auto simp: event_from_row_iff intro: loads_valid)
  ultimately show ?thesis using valid_event_versions(5,6) [OF v] by simp
qed

lemma build_page_total:
  assumes num: "decimal_numbers rt" and hex: "hex_digests sha" and k: "kind \<in> {''stream'', ''global''}"
    and ev: "\<forall>e\<in>set es. canonical_event_error rt sha e = None \<and> ev_global_position e \<le> high \<and> (has_more \<longrightarrow> ev_global_position e < high)"
    and bounds: "0 \<le> high" "high \<le> EVENT_MAX_VERSION" "length es \<le> 1000" "has_more \<longrightarrow> es \<noteq> []"
      "\<forall>v. ns = Some v \<longrightarrow> 1 \<le> v \<and> v \<le> EVENT_MAX_VERSION" "\<forall>v. ng = Some v \<longrightarrow> 0 \<le> v \<and> v \<le> EVENT_MAX_VERSION"
  shows "\<exists>d. build_ledger_page rt sha kind es high ns ng has_more =
    Inr \<lparr>pg_read_kind = u kind, pg_events = es, pg_high_watermark_global_position = high, pg_next_stream_version = ns,
      pg_next_global_position = ng, pg_has_more = has_more, pg_page_sha256 = d, pg_contract_version = EVENT_LEDGER_PORT_VERSION\<rparr>"
proof -
  define p where "p = \<lparr>pg_read_kind = u kind, pg_events = es, pg_high_watermark_global_position = high, pg_next_stream_version = ns,
      pg_next_global_position = ng, pg_has_more = has_more, pg_page_sha256 = [], pg_contract_version = EVENT_LEDGER_PORT_VERSION\<rparr>"
  have n: "plain_value rt (PNum (PyInt v))" if "0 \<le> v" "v \<le> EVENT_MAX_VERSION" for v
    using plain_number [OF num] that by simp
  have o: "plain_value rt (int_or_none v)" if "\<forall>i. v = Some i \<longrightarrow> 0 \<le> i \<and> i \<le> EVENT_MAX_VERSION" for v
    using that n by (cases v) (simp_all add: int_or_none_def)
  have "plain_value rt (PBool has_more)" by (simp add: plain_value_def)
  moreover have "plain_value rt (PList (map (PStr \<circ> ev_event_sha256) es))" by (rule event_hashes_plain [of _ rt sha]) (use ev in blast)
  moreover have "plain_value rt (PNum (PyInt high))" by (rule n [OF bounds(1,2)])
  moreover have "plain_value rt (int_or_none ns)" "plain_value rt (int_or_none ng)" by (rule o; use bounds(5,6) in force)+
  ultimately have "\<exists>d. ledger_page_sha256 rt sha p = Inr d"
    unfolding ledger_page_sha256_def by (intro domain_sha256_total) (simp add: p_def)
  then obtain d where d: "ledger_page_sha256 rt sha p = Inr d" by blast
  then have d': "ledger_page_sha256 rt sha (p\<lparr>pg_page_sha256 := d\<rparr>) = Inr d" "tagged_digest (u ''sha256:'') d"
    using domain_sha256_digest [OF hex] by (auto simp: ledger_page_sha256_def)
  have "page_error rt sha (p\<lparr>pg_page_sha256 := d\<rparr>) = None"
    unfolding page_error_def d'(1) using k ev bounds d'(2)
    by (simp add: p_def contract_version_error_def positive_cursor_def ledger_digest_def list_ex_iff not_less not_le)
  then show ?thesis
    unfolding build_ledger_page_def Let_def p_def [symmetric] d rbind_simps by (auto simp: p_def)
qed

text \<open>The part of a stream that a request asks for.\<close>

definition stream_slice :: "runtime \<Rightarrow> (pystr \<Rightarrow> pystr) \<Rightarrow> ledger_db \<Rightarrow> pystr \<Rightarrow> pystr \<Rightarrow> int \<Rightarrow> int \<Rightarrow> CanonicalEvent list" where
  "stream_slice rt sha db p s k m = take (nat m) (drop (nat (k - 1)) (stream_events rt sha db p s))"

definition slice_page :: "runtime \<Rightarrow> (pystr \<Rightarrow> pystr) \<Rightarrow> ledger_db \<Rightarrow> pystr \<Rightarrow> pystr \<Rightarrow> int \<Rightarrow> int \<Rightarrow> pystr \<Rightarrow> LedgerPage" where
  "slice_page rt sha db p s k m d =
     (let rest = k - 1 + m < int (length (stream_events rt sha db p s)) in
      \<lparr>pg_read_kind = u ''stream'', pg_events = stream_slice rt sha db p s k m,
       pg_high_watermark_global_position = db_global_position db,
       pg_next_stream_version = (if rest then Some (k + m) else None), pg_next_global_position = None, pg_has_more = rest,
       pg_page_sha256 = d, pg_contract_version = EVENT_LEDGER_PORT_VERSION\<rparr>)"

lemma slice_nth:
  "1 \<le> k \<Longrightarrow> i < length (stream_slice rt sha db p s k m) \<Longrightarrow>
   stream_slice rt sha db p s k m ! i = stream_events rt sha db p s ! (nat (k - 1) + i)"
  using nth_drop [of "nat (k - 1)" "stream_events rt sha db p s" i] by (auto simp: stream_slice_def)

lemma stream_event_versions:
  assumes ok: "ledger_ok rt sha db" and i: "i < length (stream_events rt sha db p s)"
  shows "ev_stream_version (stream_events rt sha db p s ! i) = int i + 1"
proof -
  let ?r = "stream_of db p s ! i"
  have i': "i < length (stream_of db p s)" using i by (simp add: stream_events_def)
  then have "?r \<in> set (stream_of db p s)" by simp
  then have "?r \<in> set (db_events db)" by (simp add: stream_of_def)
  then have "event_from_row rt sha db ?r = Inr (row_event rt sha db ?r)" using readable_row ok by (simp add: ledger_ok_def)
  from row_event_fields(4) [OF this] stream_versions [OF _ i'] ok i' show ?thesis
    by (simp add: stream_events_def ledger_ok_def)
qed

lemma slice_page_built:
  assumes ok: "ledger_ok rt sha db" and num: "decimal_numbers rt" and hex: "hex_digests sha"
    and k: "1 \<le> k" and m: "1 \<le> m" "m \<le> 1000" and rest: "rest = (k - 1 + m < int (length (stream_events rt sha db p s)))"
  shows "\<exists>d. build_ledger_page rt sha ''stream'' (stream_slice rt sha db p s k m) (db_global_position db)
    (if rest \<and> stream_slice rt sha db p s k m \<noteq> [] then Some (ev_stream_version (last (stream_slice rt sha db p s k m)) + 1) else None) None rest =
    Inr (slice_page rt sha db p s k m d)"
proof -
  let ?se = "stream_events rt sha db p s" and ?sl = "stream_slice rt sha db p s k m"
  have chain: "event_chain rt sha (rev ?se)" using ok by (simp add: ledger_ok_def)
  have len: "rest \<Longrightarrow> length ?sl = nat m" using rest k m by (simp add: stream_slice_def)
  then have ne: "rest \<Longrightarrow> ?sl \<noteq> []" using m(1) by auto
  have next_in: "nat (k - 1) + nat m < length ?se" if rest using rest that k m by linarith
  have last: "ev_stream_version (last ?sl) + 1 = k + m" if rest
  proof -
    have "last ?sl = ?se ! (nat (k - 1) + (nat m - 1))"
      using slice_nth [OF k, of "nat m - 1"] ne [OF that] len [OF that] m(1) by (simp add: last_conv_nth)
    then show ?thesis using stream_event_versions [OF ok, of "nat (k - 1) + (nat m - 1)"] next_in [OF that] k m by simp
  qed
  have version: "k + m \<le> EVENT_MAX_VERSION" if rest
  proof -
    let ?e = "?se ! (nat (k - 1) + nat m)"
    have e: "?e \<in> set ?se" using next_in [OF that] by simp
    have "ev_stream_version ?e = k + m" using stream_event_versions [OF ok next_in [OF that]] k m by simp
    then show ?thesis using valid_event_versions(4) [OF valid_stream_event(1) [OF ok e]] by simp
  qed
  have events: "canonical_event_error rt sha e = None \<and> ev_global_position e \<le> db_global_position db \<and>
      (rest \<longrightarrow> ev_global_position e < db_global_position db)" if e: "e \<in> set ?sl" for e
  proof -
    have in_se: "e \<in> set ?se" using e by (auto simp: stream_slice_def dest: in_set_takeD in_set_dropD)
    obtain i where i: "i < length ?sl" "e = ?sl ! i" using e by (auto simp: in_set_conv_nth)
    have "ev_global_position e < db_global_position db" if rest
    proof -
      have "e = ?se ! (nat (k - 1) + i)" using i slice_nth [OF k i(1)] by simp
      moreover have "nat (k - 1) + i < nat (k - 1) + nat m" using i(1) len [OF that] by simp
      ultimately have "ev_global_position e < ev_global_position (?se ! (nat (k - 1) + nat m))"
        using stream_positions [OF chain _ next_in [OF that]] by simp
      moreover have "ev_global_position (?se ! (nat (k - 1) + nat m)) \<le> db_global_position db"
        by (rule valid_stream_event(4) [OF ok, of _ p s]) (use next_in [OF that] in simp)
      ultimately show ?thesis by simp
    qed
    then show ?thesis using valid_stream_event [OF ok in_se] by blast
  qed
  have "length ?sl \<le> 1000" using m(2) by (simp add: stream_slice_def)
  moreover have "(if rest \<and> ?sl \<noteq> [] then Some (ev_stream_version (last ?sl) + 1) else None) = (if rest then Some (k + m) else None)"
    using last ne by auto
  ultimately show ?thesis
    using build_page_total [OF num hex, of "''stream''" ?sl "db_global_position db" rest "if rest then Some (k + m) else None" None]
      events global_position_bounded [OF ok] ne version k m
    by (simp add: slice_page_def rest [symmetric] split: if_splits)
qed

lemma slice_accepted:
  assumes ok: "ledger_ok rt sha db" and k: "1 \<le> k" and m: "1 \<le> m"
  shows "verify_ledger_stream_page \<lparr>sq_access = a, sq_stream_id = s, sq_from_version = k, sq_limit = m\<rparr> (slice_page rt sha db p s k m d) = None \<longleftrightarrow>
    (\<forall>e\<in>set (stream_slice rt sha db p s k m). verify_read_access a e = None)"
proof -
  let ?q = "\<lparr>sq_access = a, sq_stream_id = s, sq_from_version = k, sq_limit = m\<rparr>" and ?se = "stream_events rt sha db p s"
    and ?sl = "stream_slice rt sha db p s k m"
  have chain: "event_chain rt sha (rev ?se)" using ok by (simp add: ledger_ok_def)
  have short: "int (length ?sl) \<le> m" using m by (simp add: stream_slice_def)
  show ?thesis
  proof
    assume "verify_ledger_stream_page ?q (slice_page rt sha db p s k m d) = None"
    from verified_stream_page(2) [OF this] show "\<forall>e\<in>set ?sl. verify_read_access a e = None" by (simp add: slice_page_def Let_def)
  next
    assume acc: "\<forall>e\<in>set ?sl. verify_read_access a e = None"
    have "\<forall>i<length ?sl. ev_stream_version (?sl ! i) = k + int i"
    proof safe
      fix i assume i: "i < length ?sl"
      then have "nat (k - 1) + i < length ?se" by (auto simp: stream_slice_def)
      from stream_event_versions [OF ok this] slice_nth [OF k i] k show "ev_stream_version (?sl ! i) = k + int i" by simp
    qed
    moreover have "ev_stream_id e = s" if "e \<in> set ?sl" for e
      by (rule valid_stream_event(2) [OF ok, of _ p]) (use that in \<open>auto simp: stream_slice_def dest: in_set_takeD in_set_dropD\<close>)
    moreover have "?sl \<noteq> [] \<longrightarrow> linked (Some (hd ?sl)) (tl ?sl)"
      using linked_slice [OF chain_linked [OF chain] stream_slice_def [of rt sha db p s k m]] by blast
    ultimately have "stream_page_events ?q k None ?sl = Inr (k + int (length ?sl))"
      using acc by (intro stream_page_accepted) simp_all
    moreover have "int (length ?sl) = m" if "k - 1 + m < int (length ?se)" using that k m by (simp add: stream_slice_def)
    ultimately show "verify_ledger_stream_page ?q (slice_page rt sha db p s k m d) = None"
      using short by (simp add: verify_ledger_stream_page_def slice_page_def Let_def)
  qed
qed

lemma read_stream_exact:
  assumes ok: "ledger_ok rt sha db" and num: "decimal_numbers rt" and hex: "hex_digests sha"
    and p: "partition_sha256 rt sha (ac_partition a) = Inr pd" and s: "port_identifier s"
    and k: "1 \<le> k" "k \<le> EVENT_MAX_VERSION" and m: "1 \<le> m" "m \<le> 1000"
  shows "\<exists>d. read_stream rt sha a s k m db =
    or_raise (verify_ledger_stream_page \<lparr>sq_access = a, sq_stream_id = s, sq_from_version = k, sq_limit = m\<rparr> (slice_page rt sha db pd s k m d))
      (Inr (slice_page rt sha db pd s k m d))"
proof -
  let ?se = "stream_events rt sha db pd s" and ?rows = "take (nat (m + 1)) (stream_rows db pd s k)"
  have "set ?rows \<subseteq> set (db_events db)" by (auto simp: stream_rows_def dest: in_set_takeD)
  then have "rmap (event_from_row rt sha db) ?rows = Inr (map (row_event rt sha db) ?rows)"
    using rmap_rows ok by (simp add: ledger_ok_def)
  moreover have "map (row_event rt sha db) ?rows = take (nat (m + 1)) (drop (nat (k - 1)) ?se)"
    using stream_rows_eq [of db pd s k] ok by (simp add: ledger_ok_def stream_events_def take_map drop_map)
  ultimately have rows: "rmap (event_from_row rt sha db) ?rows = Inr (take (nat (m + 1)) (drop (nat (k - 1)) ?se))" by simp
  have rest: "(m < int (length (take (nat (m + 1)) (drop (nat (k - 1)) ?se)))) = (k - 1 + m < int (length ?se))" using k m by auto
  have sel: "take (nat m) (take (nat (m + 1)) (drop (nat (k - 1)) ?se)) = stream_slice rt sha db pd s k m"
    using m by (simp add: stream_slice_def min_def)
  have req: "stream_read_request_error \<lparr>sq_access = a, sq_stream_id = s, sq_from_version = k, sq_limit = m\<rparr> = None"
    using s k m by (simp add: stream_read_request_error_def ledger_identifier_def positive_cursor_def read_limit_def)
  have pos: "select_global_position db = Inr (db_global_position db)"
    using global_position_bounded [OF ok] by (simp add: select_global_position_def)
  obtain d where "build_ledger_page rt sha ''stream'' (stream_slice rt sha db pd s k m) (db_global_position db)
    (if (k - 1 + m < int (length ?se)) \<and> stream_slice rt sha db pd s k m \<noteq> [] then Some (ev_stream_version (last (stream_slice rt sha db pd s k m)) + 1) else None) None
      (k - 1 + m < int (length ?se)) = Inr (slice_page rt sha db pd s k m d)"
    using slice_page_built [OF ok num hex k(1) m refl] by blast
  then show ?thesis unfolding read_stream_def Let_def req or_raise_simps p rbind_simps rows rest sel pos by auto
qed

section \<open>Verification of a stream\<close>

lemma first_event_parent:
  assumes "canonical_event_error rt sha e = None" "ev_stream_version e = 1"
  shows "ev_previous_stream_event_sha256 e = None"
proof -
  have "(if ev_stream_version e = 1
         then deny_if (ev_previous_stream_event_sha256 e \<noteq> None) (u ''first stream event cannot name a previous event hash'')
         else case ev_previous_stream_event_sha256 e of
           None \<Rightarrow> Some (event_invalid (u ''previous_stream_event_sha256 must be a canonical sha256 digest''))
         | Some d \<Rightarrow> event_digest d (u ''previous_stream_event_sha256'')) = None"
    using assms(1) unfolding canonical_event_error_def first_error_None_iff by simp
  then show ?thesis using assms(2) by simp
qed

lemma linked_positions_after: "linked (Some p) es \<Longrightarrow> x \<in> set es \<Longrightarrow> ev_global_position p < ev_global_position x"
proof (induction es arbitrary: p)
  case (Cons e es)
  have "ev_global_position p < ev_global_position e" using Cons.prems(1) parent_Some(4) by auto
  then show ?case using Cons by fastforce
qed simp

lemma chain_issues_clean:
  assumes "\<forall>e\<in>set es. verify_read_access a e = None \<and> ev_stream_id e = s \<and> g < ev_global_position e \<and> canonical_event_error rt sha e = None"
    and "\<forall>i<length es. ev_stream_version (es ! i) = idx + int i" and "linked p es" and "p = None \<longrightarrow> idx = 1"
  shows "chain_issues a s idx p g (map Some es) = Inr []"
  using assms
proof (induction es arbitrary: idx p g)
  case (Cons e es)
  have v: "ev_stream_version e = idx" using Cons.prems(2) [rule_format, of 0] by simp
  have "chain_issues a s (idx + 1) (Some e) (ev_global_position e) (map Some es) = Inr []"
  proof (rule Cons.IH)
    show "\<forall>x\<in>set es. verify_read_access a x = None \<and> ev_stream_id x = s \<and> ev_global_position e < ev_global_position x \<and>
        canonical_event_error rt sha x = None"
      using Cons.prems(1,3) linked_positions_after by auto
    show "\<forall>i<length es. ev_stream_version (es ! i) = idx + 1 + int i"
    proof safe
      fix i assume "i < length es"
      then show "ev_stream_version (es ! i) = idx + 1 + int i" using Cons.prems(2) [rule_format, of "Suc i"] by simp
    qed
  qed (use Cons.prems(3) in simp_all)
  moreover have "p = None \<Longrightarrow> ev_previous_stream_event_sha256 e = None"
    using first_event_parent [of rt sha e] Cons.prems(1,4) v by simp
  moreover have "verify_event_parent e p = None" using Cons.prems(3) by simp
  moreover have "verify_read_access a e = None" "ev_stream_id e = s" "g < ev_global_position e" using Cons.prems(1) by auto
  ultimately show ?case using v Cons.prems(4)
    by (cases p) (auto simp: issue_if_def verify_read_access_def Let_def)
qed simp

lemma verify_stream_clean:
  assumes ok: "ledger_ok rt sha db" and hex: "hex_digests sha" and p: "partition_sha256 rt sha (ac_partition a) = Inr pd"
    and s: "port_identifier s" and acc: "\<forall>e\<in>set (stream_events rt sha db pd s). verify_read_access a e = None"
  shows "verify_stream rt sha a s db = Inr \<lparr>sv_stream_id = s, sv_partition_sha256 = pd,
      sv_verified_stream_version = int (length (stream_events rt sha db pd s)),
      sv_verified_event_count = int (length (stream_events rt sha db pd s)),
      sv_head_event_sha256 = (if stream_events rt sha db pd s = [] then None
        else Some (ev_event_sha256 (last (stream_events rt sha db pd s)))), sv_valid = True, sv_issue_codes = []\<rparr>"
proof -
  let ?se = "stream_events rt sha db pd s" and ?rs = "stream_of db pd s"
  have t: "tables_ok db" and rd: "rows_readable rt sha db" and chain: "event_chain rt sha (rev ?se)" using ok by (auto simp: ledger_ok_def)
  have v: "\<forall>i<length ?rs. er_stream_version (?rs ! i) = int i + 1" using stream_versions [OF t] by blast
  have sub: "set ?rs \<subseteq> set (db_events db)" by (auto simp: stream_of_def)
  have rows: "sort_key er_stream_version (filter (\<lambda>r. er_partition_sha256 r = pd \<and> er_stream_id r = s) (db_events db)) = ?rs"
    unfolding stream_of_def [symmetric] by (rule sort_key_id_if_sorted) (rule sorted_from [OF v])
  have "loaded_or_issue rt sha db r = Inr (Some (row_event rt sha db r))" if "r \<in> set ?rs" for r
    using readable_row [OF rd subsetD [OF sub that]] by (simp add: loaded_or_issue_def)
  then have load: "rmap (loaded_or_issue rt sha db) ?rs = Inr (map Some ?se)"
    unfolding rmap_Inr_iff by (auto simp: list_all2_conv_all_nth stream_events_def)
  have issues: "chain_issues a s 1 None 0 (map Some ?se) = Inr []"
  proof (rule chain_issues_clean [of _ _ _ _ rt sha])
    show "\<forall>e\<in>set ?se. verify_read_access a e = None \<and> ev_stream_id e = s \<and> 0 < ev_global_position e \<and> canonical_event_error rt sha e = None"
      using acc valid_stream_event [OF ok] by fastforce
    show "\<forall>i<length ?se. ev_stream_version (?se ! i) = 1 + int i" using stream_event_versions [OF ok] by simp
  qed (use chain_linked [OF chain] in simp_all)
  have last: "er_event_sha256 (last ?rs) = ev_event_sha256 (last ?se)" "er_event_id (last ?rs) = ev_event_id (last ?se)"
    "last ?se \<in> set ?se" "last ?se = row_event rt sha db (last ?rs)" if "?rs \<noteq> []"
  proof -
    have "last ?rs \<in> set (db_events db)" using sub last_in_set [OF that] by blast
    then have f: "event_from_row rt sha db (last ?rs) = Inr (row_event rt sha db (last ?rs))" by (rule readable_row [OF rd])
    show e: "last ?se = row_event rt sha db (last ?rs)" using that by (simp add: stream_events_def last_map)
    show "er_event_sha256 (last ?rs) = ev_event_sha256 (last ?se)" "er_event_id (last ?rs) = ev_event_id (last ?se)"
      using row_event_fields [OF f] e by simp_all
    show "last ?se \<in> set ?se" unfolding e using last_in_set [OF that] by (simp add: stream_events_def)
  qed
  have head: "\<not> head_mismatch ?rs (map Some ?se) (find_head db pd s)"
  proof (cases "find_head db pd s")
    case None
    then show ?thesis using find_head_None [of db pd s] t by (simp add: head_mismatch_def tables_ok_def)
  next
    case (Some h)
    then have "head_fits ?rs h" using find_head_Some [OF Some] t unfolding tables_ok_def heads_ok_def by blast
    moreover have "?rs \<noteq> [] \<Longrightarrow> last (map Some ?se) = Some (last ?se)" by (simp add: stream_events_def last_map)
    ultimately show ?thesis using last by (auto simp: head_mismatch_def head_fits_def Some)
  qed
  have digest: "tagged_digest (u ''sha256:'') (ev_event_sha256 (last ?se))" if "?rs \<noteq> []"
    using valid_event_hash [OF valid_stream_event(1) [OF ok last(3) [OF that]]] .
  have obs: "observed_head ?rs = (if ?se = [] then None else Some (ev_event_sha256 (last ?se)))"
    using last digest by (auto simp: observed_head_def stream_events_def)
  have len: "int (length ?se) \<le> EVENT_MAX_VERSION"
  proof (cases "?rs = []")
    case False
    have "ev_stream_version (last ?se) = int (length ?se)"
      using stream_event_versions [OF ok, of "length ?se - 1" pd s] False
      by (cases "length ?rs") (simp_all add: last_conv_nth stream_events_def)
    then show ?thesis using valid_event_versions(4) [OF valid_stream_event(1) [OF ok last(3) [OF False]]] by simp
  qed (simp add: stream_events_def)
  have pd: "tagged_digest (u ''sha256:'') pd" using domain_sha256_digest [OF hex] p by (auto simp: partition_sha256_def)
  have lens: "length ?rs = length ?se" by (simp add: stream_events_def)
  have req: "stream_read_request_error \<lparr>sq_access = a, sq_stream_id = s, sq_from_version = 1, sq_limit = 1\<rparr> = None"
    using s by (simp add: stream_read_request_error_def ledger_identifier_def positive_cursor_def read_limit_def)
  have none: "None \<notin> set (map Some ?se)" by auto
  show ?thesis
    unfolding verify_stream_def req or_raise_simps verification_result_def p rbind_simps Let_def rows load issues obs lens
    using head none s pd len digest
    by (simp add: issue_if_def stream_verification_error_def verify_ledger_stream_verification_def p ledger_identifier_def
        ledger_digest_def positive_cursor_def lens [symmetric] del: length_map) (auto simp: stream_events_def if_given_def)
qed

end
