(* ===== verification/SubscriptionFacts.thy ===== *)
theory SubscriptionFacts
  imports SqliteReadFacts "HOL-Library.Sublist"
begin

text \<open>
  What a subscriber of the SQLite ledger receives. A consumer polls and acknowledges in rounds, and other
  clients append between the rounds: the events that it receives are those it may see, each once and in
  the order of the ledger.
\<close>

section \<open>The visible part of the ledger\<close>

definition visible_rows :: "ledger_db \<Rightarrow> pystr \<Rightarrow> pystr list \<Rightarrow> int \<Rightarrow> event_row list" where
  "visible_rows db p allowed k =
     filter (\<lambda>r. er_partition_sha256 r = p \<and> k < er_global_position r \<and> er_classification r \<in> set allowed) (db_events db)"

definition visible_events :: "runtime \<Rightarrow> (pystr \<Rightarrow> pystr) \<Rightarrow> ledger_db \<Rightarrow> pystr \<Rightarrow> pystr list \<Rightarrow> int \<Rightarrow> CanonicalEvent list" where
  "visible_events rt sha db p allowed k = map (row_event rt sha db) (visible_rows db p allowed k)"

lemma rows_ascending:
  assumes "numbered db"
  shows "sorted_wrt (\<lambda>r r'. er_global_position r < er_global_position r') (db_events db)"
  using assms by (auto simp: numbered_def sorted_wrt_iff_nth_less)

lemma visible_rows_ascending:
  assumes "numbered db"
  shows "sorted_wrt (\<lambda>r r'. er_global_position r < er_global_position r') (visible_rows db p allowed k)"
  unfolding visible_rows_def by (rule sorted_wrt_filter [OF rows_ascending [OF assms]])

lemma global_rows_eq:
  assumes "numbered db"
  shows "global_rows db p k allowed = visible_rows db p allowed k"
proof -
  have "sorted (map er_global_position (visible_rows db p allowed k))"
    using visible_rows_ascending [OF assms] unfolding sorted_map by (rule sorted_wrt_mono_rel [rotated]) simp
  then show ?thesis unfolding global_rows_def visible_rows_def by (rule sort_key_id_if_sorted)
qed

lemma visible_row:
  assumes ok: "ledger_ok rt sha db" and r: "r \<in> set (visible_rows db p allowed k)"
  shows "event_from_row rt sha db r = Inr (row_event rt sha db r)"
    "ev_global_position (row_event rt sha db r) = er_global_position r" "k < er_global_position r"
    "er_global_position r \<le> db_global_position db" "canonical_event_error rt sha (row_event rt sha db r) = None"
proof -
  have in_db: "r \<in> set (db_events db)" and k: "k < er_global_position r" using r by (auto simp: visible_rows_def)
  show f: "event_from_row rt sha db r = Inr (row_event rt sha db r)" using readable_row [OF _ in_db] ok by (simp add: ledger_ok_def)
  show "ev_global_position (row_event rt sha db r) = er_global_position r" using row_event_fields(5) [OF f] by simp
  show "k < er_global_position r" by (rule k)
  show "er_global_position r \<le> db_global_position db"
    using in_db ok by (auto simp: ledger_ok_def tables_ok_def numbered_def in_set_conv_nth)
  show "canonical_event_error rt sha (row_event rt sha db r) = None" using f by (auto simp: event_from_row_iff intro: loads_valid)
qed

lemma visible_event:
  assumes "ledger_ok rt sha db" and "e \<in> set (visible_events rt sha db p allowed k)"
  shows "canonical_event_error rt sha e = None" "k < ev_global_position e" "ev_global_position e \<le> db_global_position db"
  using assms(2) visible_row [OF assms(1)] by (auto simp: visible_events_def)

lemma visible_ascending:
  assumes ok: "ledger_ok rt sha db"
  shows "sorted_wrt (\<lambda>e f. ev_global_position e < ev_global_position f) (visible_events rt sha db p allowed k)"
proof -
  have "numbered db" using ok by (simp add: ledger_ok_def tables_ok_def)
  note asc = visible_rows_ascending [OF this, of p allowed k]
  show ?thesis unfolding visible_events_def sorted_wrt_map
    by (rule sorted_wrt_mono_rel [OF _ asc]) (simp add: visible_row(2) [OF ok])
qed

lemma drop_after:
  assumes "sorted_wrt (\<lambda>x y. f x < (f y :: int)) xs" and "n < length xs"
  shows "filter (\<lambda>x. f (xs ! n) < f x) xs = drop (Suc n) xs"
  using assms
proof (induction xs arbitrary: n)
  case (Cons x xs)
  show ?case
  proof (cases n)
    case 0
    then show ?thesis using Cons.prems(1) by simp
  next
    case (Suc j)
    then have "\<not> f (xs ! j) < f x" using Cons.prems by (simp add: not_less order.strict_implies_order)
    then show ?thesis using Cons.IH [of j] Cons.prems Suc by simp
  qed
qed simp

text \<open>The cursor after some events of the visible part.\<close>

definition cursor_after :: "int \<Rightarrow> CanonicalEvent list \<Rightarrow> int" where
  "cursor_after k es = (if es = [] then k else ev_global_position (last es))"

lemma visible_after:
  assumes ok: "ledger_ok rt sha db" and es: "prefix es (visible_events rt sha db p allowed k)"
  shows "visible_events rt sha db p allowed (cursor_after k es) = drop (length es) (visible_events rt sha db p allowed k)"
proof (cases es rule: rev_cases)
  case Nil
  then show ?thesis by (simp add: cursor_after_def)
next
  case (snoc ds d)
  let ?V = "visible_events rt sha db p allowed k"
  obtain zs where V: "?V = ds @ d # zs" using es snoc by (auto simp: prefix_def)
  then have d: "d = ?V ! length ds" "length ds < length ?V" by simp_all
  have "d \<in> set ?V" by (simp add: V)
  then have k: "k < ev_global_position d" using visible_event(2) [OF ok] by blast
  have "visible_events rt sha db p allowed (ev_global_position d) =
      map (row_event rt sha db) (filter (\<lambda>r. ev_global_position d < er_global_position r) (visible_rows db p allowed k))"
    unfolding visible_events_def visible_rows_def filter_filter
    using k by (intro arg_cong [where f = "map (row_event rt sha db)"] filter_cong) auto
  also have "\<dots> = filter (\<lambda>e. ev_global_position d < ev_global_position e) ?V"
    unfolding visible_events_def filter_map comp_def using visible_row(2) [OF ok] by (auto intro!: arg_cong [where f = "map (row_event rt sha db)"] filter_cong)
  also have "\<dots> = drop (Suc (length ds)) ?V" using drop_after [OF visible_ascending [OF ok] d(2)] d(1) by simp
  finally show ?thesis using snoc by (simp add: cursor_after_def)
qed

lemma visible_extends:
  assumes ok: "ledger_ok rt sha db" and ext: "ledger_extends db db'"
  shows "prefix (visible_events rt sha db p allowed k) (visible_events rt sha db' p allowed k)"
proof -
  obtain es where es: "db_events db' = db_events db @ es" using ext by (auto simp: ledger_extends_def)
  have "row_event rt sha db' r = row_event rt sha db r" if "r \<in> set (visible_rows db p allowed k)" for r
    using event_from_row_stable [OF ext _ visible_row(1) [OF ok that]] that by (auto simp: visible_rows_def row_event_def)
  then have "map (row_event rt sha db') (visible_rows db p allowed k) = visible_events rt sha db p allowed k"
    by (simp add: visible_events_def)
  then show ?thesis unfolding visible_events_def [of _ _ db'] visible_rows_def [of db'] es
    by (simp add: visible_rows_def prefix_def)
qed


section \<open>Pages of the ledger\<close>

definition visible_page ::
  "runtime \<Rightarrow> (pystr \<Rightarrow> pystr) \<Rightarrow> ledger_db \<Rightarrow> pystr \<Rightarrow> pystr list \<Rightarrow> int \<Rightarrow> int \<Rightarrow> pystr \<Rightarrow> LedgerPage" where
  "visible_page rt sha db p allowed k m d =
     (let events = visible_events rt sha db p allowed k; selected = take (nat m) events; rest = m < int (length events) in
      \<lparr>pg_read_kind = u ''global'', pg_events = selected, pg_high_watermark_global_position = db_global_position db,
       pg_next_stream_version = None,
       pg_next_global_position = (if rest then Some (ev_global_position (last selected)) else None), pg_has_more = rest,
       pg_page_sha256 = d, pg_contract_version = EVENT_LEDGER_PORT_VERSION\<rparr>)"

lemma visible_page_built:
  assumes ok: "ledger_ok rt sha db" and num: "decimal_numbers rt" and hex: "hex_digests sha" and k: "0 \<le> k" and m: "1 \<le> m" "m \<le> 1000"
    and V: "V = visible_events rt sha db p allowed k" and rest: "rest = (m < int (length V))"
  shows "\<exists>d. build_ledger_page rt sha ''global'' (take (nat m) V) (db_global_position db) None
    (if rest \<and> take (nat m) V \<noteq> [] then Some (ev_global_position (last (take (nat m) V))) else None) rest =
    Inr (visible_page rt sha db p allowed k m d)"
proof -
  let ?sl = "take (nat m) V"
  note asc = visible_ascending [OF ok, of p allowed k, folded V]
  note ev = visible_event [OF ok, where p = p and allowed = allowed and k = k, folded V]
  have ne: "?sl \<noteq> []" if rest using that rest m by auto
  have events: "canonical_event_error rt sha e = None \<and> ev_global_position e \<le> db_global_position db \<and>
      (rest \<longrightarrow> ev_global_position e < db_global_position db)" if e: "e \<in> set ?sl" for e
  proof -
    obtain i where i: "i < nat m" "i < length V" "e = V ! i" using e by (auto simp: in_set_conv_nth)
    have "ev_global_position e < db_global_position db" if rest
    proof -
      have len: "nat m < length V" using that rest m by simp
      then have "ev_global_position e < ev_global_position (V ! nat m)" using asc i by (simp add: sorted_wrt_iff_nth_less)
      moreover have "ev_global_position (V ! nat m) \<le> db_global_position db" using ev(3) len by simp
      ultimately show ?thesis by simp
    qed
    then show ?thesis using ev [of e] i by simp
  qed
  have last: "0 \<le> ev_global_position (last ?sl) \<and> ev_global_position (last ?sl) \<le> EVENT_MAX_VERSION" if rest
  proof -
    have "last ?sl \<in> set V" using last_in_set [OF ne [OF that]] by (rule in_set_takeD)
    then show ?thesis using ev(2,3) [of "last ?sl"] k global_position_bounded [OF ok] by simp
  qed
  have next_pos: "(if rest \<and> ?sl \<noteq> [] then Some (ev_global_position (last ?sl)) else None) = (if rest then Some (ev_global_position (last ?sl)) else None)"
    using ne by auto
  have "length ?sl \<le> 1000" using m by simp
  then show ?thesis
    unfolding next_pos
    using build_page_total [OF num hex, of "''global''" ?sl "db_global_position db" rest None "if rest then Some (ev_global_position (last ?sl)) else None"]
      events global_position_bounded [OF ok] ne last
    by (simp add: visible_page_def Let_def V [symmetric] rest [symmetric] split: if_splits)
qed

lemma global_page_events_accepted:
  "sorted_wrt (\<lambda>e f. ev_global_position e < ev_global_position f) es \<Longrightarrow>
   \<forall>e\<in>set es. k < ev_global_position e \<and> verify_read_access (gq_access q) e = None \<Longrightarrow>
   global_page_events q k es = Inr (cursor_after k es)"
proof (induction es arbitrary: k)
  case (Cons e es)
  have "global_page_events q (ev_global_position e) es = Inr (cursor_after (ev_global_position e) es)"
    using Cons by simp
  moreover have "k < ev_global_position e" "verify_read_access (gq_access q) e = None" using Cons.prems by auto
  ultimately show ?case by (simp add: cursor_after_def)
qed (simp add: cursor_after_def)

lemma visible_page_accepted:
  assumes ok: "ledger_ok rt sha db" and k: "k \<le> db_global_position db" and m: "1 \<le> m"
    and acc: "\<forall>e\<in>set (visible_events rt sha db p allowed k). verify_read_access a e = None"
  shows "verify_ledger_global_page \<lparr>gq_access = a, gq_after_position = k, gq_limit = m\<rparr> (visible_page rt sha db p allowed k m d) = None"
proof -
  let ?V = "visible_events rt sha db p allowed k" and ?q = "\<lparr>gq_access = a, gq_after_position = k, gq_limit = m\<rparr>"
  have "\<forall>e\<in>set (take (nat m) ?V). k < ev_global_position e \<and> verify_read_access a e = None"
    using acc visible_event(2) [OF ok] by (auto dest!: in_set_takeD)
  then have "global_page_events ?q k (take (nat m) ?V) = Inr (cursor_after k (take (nat m) ?V))"
    using global_page_events_accepted [OF sorted_wrt_take [OF visible_ascending [OF ok]], where k = k and q = ?q] by simp
  moreover have "m < int (length ?V) \<Longrightarrow> take (nat m) ?V \<noteq> []" using m by auto
  ultimately show ?thesis using k m by (auto simp: verify_ledger_global_page_def visible_page_def Let_def cursor_after_def)
qed

lemma read_global_exact:
  assumes ok: "ledger_ok rt sha db" and num: "decimal_numbers rt" and hex: "hex_digests sha"
    and p: "partition_sha256 rt sha (ac_partition a) = Inr pd" and k: "0 \<le> k" "k \<le> db_global_position db" and m: "1 \<le> m" "m \<le> 1000"
    and acc: "\<forall>e\<in>set (visible_events rt sha db pd (cf_allowed (ac_classification_filter a)) k). verify_read_access a e = None"
  shows "\<exists>d. read_global rt sha a k m db = Inr (visible_page rt sha db pd (cf_allowed (ac_classification_filter a)) k m d)"
proof -
  let ?al = "cf_allowed (ac_classification_filter a)"
  define V where V: "V = visible_events rt sha db pd ?al k"
  let ?rows = "take (nat (m + 1)) (global_rows db pd k ?al)"
  have t: "numbered db" "rows_readable rt sha db" using ok by (simp_all add: ledger_ok_def tables_ok_def)
  have "set ?rows \<subseteq> set (db_events db)" by (auto simp: global_rows_def dest: in_set_takeD)
  then have rows: "rmap (event_from_row rt sha db) ?rows = Inr (take (nat (m + 1)) V)"
    using rmap_rows [OF t(2)] by (simp add: global_rows_eq [OF t(1)] V visible_events_def take_map)
  have rest: "(m < int (length (take (nat (m + 1)) V))) = (m < int (length V))" using m by auto
  have sel: "take (nat m) (take (nat (m + 1)) V) = take (nat m) V" using m by (simp add: min_def)
  have req: "global_read_request_error \<lparr>gq_access = a, gq_after_position = k, gq_limit = m\<rparr> = None"
    using k m global_position_bounded [OF ok] by (simp add: global_read_request_error_def positive_cursor_def read_limit_def)
  have pos: "select_global_position db = Inr (db_global_position db)"
    using global_position_bounded [OF ok] by (simp add: select_global_position_def)
  obtain d where "build_ledger_page rt sha ''global'' (take (nat m) V) (db_global_position db) None
    (if (m < int (length V)) \<and> take (nat m) V \<noteq> [] then Some (ev_global_position (last (take (nat m) V))) else None) (m < int (length V)) =
    Inr (visible_page rt sha db pd ?al k m d)"
    using visible_page_built [OF ok num hex k(1) m V refl] by blast
  then show ?thesis
    unfolding read_global_def Let_def req or_raise_simps p rbind_simps rows rest sel pos
    using visible_page_accepted [OF ok k(2) m(1) acc] by auto
qed


section \<open>A consumer\<close>

text \<open>
  A round polls and acknowledges what it received. Before each round, other clients may append. The
  identifiers end in the 32 hexadecimal digits of a random UUID.
\<close>

definition consume_round ::
  "runtime \<Rightarrow> (pystr \<Rightarrow> pystr) \<Rightarrow> ledger_db \<Rightarrow> pystr \<Rightarrow> ledger_subscription \<Rightarrow> (CanonicalEvent list \<times> ledger_subscription) result" where
  "consume_round rt sha db hex s =
     rbind (poll rt sha db hex s) (\<lambda>(delivery, s').
     rbind (acknowledge (sp_delivery_id delivery) (pg_next_global_position (sp_page delivery)) s') (\<lambda>s''.
     Inr (pg_events (sp_page delivery), s'')))"

fun consume ::
  "runtime \<Rightarrow> (pystr \<Rightarrow> pystr) \<Rightarrow> (ledger_call list \<times> pystr) list \<Rightarrow> ledger_db \<Rightarrow> ledger_subscription \<Rightarrow>
   (CanonicalEvent list \<times> ledger_db \<times> ledger_subscription) result" where
  "consume rt sha [] db s = Inr ([], db, s)"
| "consume rt sha ((calls, hex) # rounds) db s =
     (let db' = run_ledger rt sha calls db in
      rbind (consume_round rt sha db' hex s) (\<lambda>(es, s').
      rbind (consume rt sha rounds db' s') (\<lambda>(fs, db'', s''). Inr (es @ fs, db'', s''))))"

definition uuid_hex :: "pystr \<Rightarrow> bool" where
  "uuid_hex h \<longleftrightarrow> length h = 32 \<and> list_all (\<lambda>c. 48 \<le> c \<and> c \<le> 57 \<or> 97 \<le> c \<and> c \<le> 102) h"

lemma uuid_identifiers: "uuid_hex h \<Longrightarrow> port_identifier (u ''delivery_'' @ h)" "uuid_hex h \<Longrightarrow> port_identifier (u ''subscription_'' @ h)"
  by (auto simp: uuid_hex_def port_identifier_def u_def ascii_alnum_def lower_alnum_def list_all_iff)

text \<open>An open subscription of the access context \<open>a\<close> with page size \<open>m\<close> at the cursor \<open>c\<close>, nothing outstanding.\<close>

definition subscribed :: "LedgerAccessContext \<Rightarrow> int \<Rightarrow> int \<Rightarrow> ledger_subscription \<Rightarrow> bool" where
  "subscribed a m c s \<longleftrightarrow> bq_access (ls_request s) = a \<and> bq_limit (ls_request s) = m \<and> ls_cursor s = c \<and> ls_outstanding s = None \<and>
     \<not> ls_closed s \<and> port_identifier (ls_subscription_id s)"

lemma subscribed_cursor: "subscribed a m c s \<Longrightarrow> subscribed a m c' (s\<lparr>ls_cursor := c'\<rparr>)"
  by (simp add: subscribed_def)

lemma subscribe_subscribed:
  assumes "subscribe a k m t hex = Inr s" and "uuid_hex hex"
  shows "subscribed a m k s" "0 \<le> k" "1 \<le> m" "m \<le> 1000"
proof -
  let ?q = "\<lparr>bq_access = a, bq_after_position = k, bq_limit = m, bq_poll_timeout_seconds = t\<rparr>"
  have e: "subscription_request_error ?q = None" and s: "s = \<lparr>ls_request = ?q, ls_cursor = k, ls_outstanding = None, ls_closed = False,
      ls_subscription_id = u ''subscription_'' @ hex\<rparr>"
    using assms(1) by (simp_all add: subscribe_def Let_def result_simps)
  show "subscribed a m k s" using uuid_identifiers(2) [OF assms(2)] by (simp add: s subscribed_def)
  show "0 \<le> k" "1 \<le> m" "m \<le> 1000" using e by (simp_all add: subscription_request_error_def positive_cursor_def read_limit_def)
qed

lemma consume_round_exact:
  assumes ok: "ledger_ok rt sha db" and num: "decimal_numbers rt" and hex: "hex_digests sha"
    and p: "partition_sha256 rt sha (ac_partition a) = Inr pd" and c: "0 \<le> c" "c \<le> db_global_position db" and m: "1 \<le> m" "m \<le> 1000"
    and V: "V = visible_events rt sha db pd (cf_allowed (ac_classification_filter a)) c" and acc: "\<forall>e\<in>set V. verify_read_access a e = None"
    and s: "subscribed a m c s" and h: "uuid_hex h"
  shows "consume_round rt sha db h s = Inr (take (nat m) V, s\<lparr>ls_cursor := cursor_after c (take (nat m) V)\<rparr>)"
proof -
  obtain d where read: "read_global rt sha a c m db = Inr (visible_page rt sha db pd (cf_allowed (ac_classification_filter a)) c m d)"
    using read_global_exact [OF ok num hex p c m] acc V by blast
  define page where "page = visible_page rt sha db pd (cf_allowed (ac_classification_filter a)) c m d"
  have page: "pg_events page = take (nat m) V" "pg_read_kind page = u ''global''" by (simp_all add: page_def visible_page_def Let_def V)
  define delivery where "delivery = \<lparr>sp_subscription_id = ls_subscription_id s, sp_delivery_id = u ''delivery_'' @ h, sp_page = page,
      sp_heartbeat = (pg_events page = [])\<rparr>"
  have "subscription_page_error delivery = None"
    using s uuid_identifiers(1) [OF h] by (auto simp: subscription_page_error_def delivery_def ledger_identifier_def page subscribed_def)
  then have "poll rt sha db h s = Inr (delivery, s\<lparr>ls_outstanding := Some delivery\<rparr>)"
    using s read by (simp add: poll_def subscription_closed_def subscribed_def Let_def delivery_def page_def)
  moreover have "acknowledge (sp_delivery_id delivery) (pg_next_global_position (sp_page delivery)) (s\<lparr>ls_outstanding := Some delivery\<rparr>) =
      Inr (s\<lparr>ls_cursor := cursor_after c (take (nat m) V)\<rparr>)"
    using s page by (cases s) (auto simp: acknowledge_def subscription_closed_def subscribed_def delivery_def Let_def cursor_after_def)
  ultimately show ?thesis by (simp add: consume_round_def) (simp add: delivery_def page)
qed

lemma consume_append:
  "consume rt sha (xs @ ys) db s =
     rbind (consume rt sha xs db s) (\<lambda>(es, db', s'). rbind (consume rt sha ys db' s') (\<lambda>(fs, db'', s''). Inr (es @ fs, db'', s'')))"
proof (induction rt sha xs db s rule: consume.induct)
  case (1 rt sha db s)
  then show ?case by (cases "consume rt sha ys db s") auto
next
  case (2 rt sha calls hex rounds db s)
  show ?case
  proof (cases "consume_round rt sha (run_ledger rt sha calls db) hex s")
    case (Inr x)
    then show ?thesis using 2 by (cases x) (auto simp: Let_def rbind_def split: sum.splits)
  qed (simp add: Let_def)
qed


lemma cursor_after_append: "cursor_after k (es @ fs) = cursor_after (cursor_after k es) fs"
  by (simp add: cursor_after_def)

lemma cursor_after_bounds:
  assumes "ledger_ok rt sha db" and "prefix es (visible_events rt sha db p allowed k)" and "0 \<le> k" and "k \<le> db_global_position db"
  shows "0 \<le> cursor_after k es" "cursor_after k es \<le> db_global_position db"
proof -
  have "last es \<in> set (visible_events rt sha db p allowed k)" if "es \<noteq> []"
    using set_mono_prefix [OF assms(2)] last_in_set [OF that] by blast
  then show "0 \<le> cursor_after k es" "cursor_after k es \<le> db_global_position db"
    using visible_event(2,3) [OF assms(1)] assms(3,4) by (fastforce simp: cursor_after_def)+
qed

lemma run_ledger_append: "run_ledger rt sha later (run_ledger rt sha calls db) = run_ledger rt sha (calls @ later) db"
  by (simp add: run_ledger_def)

lemma run_position: "db_global_position (run_ledger rt sha calls empty_db) \<le> db_global_position (run_ledger rt sha (calls @ later) empty_db)"
proof -
  obtain es where "db_events (run_ledger rt sha (calls @ later) empty_db) = db_events (run_ledger rt sha calls empty_db) @ es"
    using later_extends [of rt sha calls later] by (auto simp: ledger_extends_def run_ledger_append)
  then show ?thesis
    using run_ledger_ok [of rt sha calls] run_ledger_ok [of rt sha "calls @ later"] by (simp add: ledger_ok_def tables_ok_def numbered_def)
qed

lemma consume_prefix:
  assumes num: "decimal_numbers rt" and hex: "hex_digests sha" and p: "partition_sha256 rt sha (ac_partition a) = Inr pd"
    and m: "1 \<le> m" "m \<le> 1000" and al: "allowed = cf_allowed (ac_classification_filter a)"
  shows "subscribed a m c s \<Longrightarrow> 0 \<le> c \<Longrightarrow> c \<le> db_global_position (run_ledger rt sha before empty_db) \<Longrightarrow> \<forall>x\<in>set rounds. uuid_hex (snd x) \<Longrightarrow>
    \<forall>e\<in>set (visible_events rt sha (run_ledger rt sha (before @ concat (map fst rounds)) empty_db) pd allowed c). verify_read_access a e = None \<Longrightarrow>
    \<exists>es. consume rt sha rounds (run_ledger rt sha before empty_db) s =
        Inr (es, run_ledger rt sha (before @ concat (map fst rounds)) empty_db, s\<lparr>ls_cursor := cursor_after c es\<rparr>) \<and>
      prefix es (visible_events rt sha (run_ledger rt sha (before @ concat (map fst rounds)) empty_db) pd allowed c)"
proof (induction rounds arbitrary: s c before)
  case Nil
  then show ?case by (auto simp: cursor_after_def subscribed_def intro!: exI [of _ "[]"])
next
  case (Cons x rounds)
  obtain calls h where x: "x = (calls, h)" by (cases x)
  let ?db = "run_ledger rt sha (before @ calls) empty_db" and ?fin = "run_ledger rt sha (before @ calls @ concat (map fst rounds)) empty_db"
  let ?V = "visible_events rt sha ?db pd allowed c" and ?W = "visible_events rt sha ?fin pd allowed c"
  let ?es = "take (nat m) ?V" and ?c = "cursor_after c (take (nat m) ?V)"
  have ext: "ledger_extends ?db ?fin" using later_extends [of rt sha "before @ calls"] by (simp add: run_ledger_append)
  have VW: "prefix ?V ?W" by (rule visible_extends [OF run_ledger_ok ext])
  have acc: "\<forall>e\<in>set ?W. verify_read_access a e = None" using Cons.prems(5) by (simp add: x)
  then have accV: "\<forall>e\<in>set ?V. verify_read_access a e = None" using set_mono_prefix [OF VW] by blast
  have c: "c \<le> db_global_position ?db" using Cons.prems(3) run_position [of rt sha before calls] by linarith
  have round: "consume_round rt sha ?db h s = Inr (?es, s\<lparr>ls_cursor := ?c\<rparr>)"
    by (rule consume_round_exact [OF run_ledger_ok num hex p Cons.prems(2) c m _ accV Cons.prems(1)])
       (use Cons.prems(4) in \<open>simp_all add: x al\<close>)
  have esV: "prefix ?es ?V" by (rule take_is_prefix)
  then have esW: "prefix ?es ?W" using VW by (rule prefix_order.trans)
  have after: "visible_events rt sha ?fin pd allowed ?c = drop (length ?es) ?W" by (rule visible_after [OF run_ledger_ok esW])
  have "\<forall>e\<in>set (visible_events rt sha ?fin pd allowed ?c). verify_read_access a e = None"
    unfolding after using acc by (auto dest: in_set_dropD)
  then obtain fs where fs: "consume rt sha rounds ?db (s\<lparr>ls_cursor := ?c\<rparr>) =
        Inr (fs, ?fin, s\<lparr>ls_cursor := ?c\<rparr>\<lparr>ls_cursor := cursor_after ?c fs\<rparr>)" "prefix fs (drop (length ?es) ?W)"
    using Cons.IH [OF subscribed_cursor [OF Cons.prems(1)] cursor_after_bounds [OF run_ledger_ok esV Cons.prems(2) c]] Cons.prems(4)
    by (auto simp: after)
  have "prefix (?es @ fs) ?W"
  proof -
    obtain zs where "?W = ?es @ zs" using esW by (auto simp: prefix_def)
    then show ?thesis using fs(2) by simp
  qed
  moreover have "consume rt sha (x # rounds) (run_ledger rt sha before empty_db) s =
      Inr (?es @ fs, ?fin, s\<lparr>ls_cursor := cursor_after c (?es @ fs)\<rparr>)"
    using round fs(1) by (simp add: x run_ledger_append Let_def cursor_after_append)
  ultimately show ?case by (auto simp: x intro!: exI [of _ "?es @ fs"])
qed

lemma consume_quiet:
  assumes num: "decimal_numbers rt" and hex: "hex_digests sha" and p: "partition_sha256 rt sha (ac_partition a) = Inr pd"
    and m: "1 \<le> m" "m \<le> 1000" and al: "allowed = cf_allowed (ac_classification_filter a)" and ok: "ledger_ok rt sha db"
  shows "subscribed a m c s \<Longrightarrow> 0 \<le> c \<Longrightarrow> c \<le> db_global_position db \<Longrightarrow> \<forall>x\<in>set quiet. fst x = [] \<and> uuid_hex (snd x) \<Longrightarrow>
    \<forall>e\<in>set (visible_events rt sha db pd allowed c). verify_read_access a e = None \<Longrightarrow>
    \<exists>s'. consume rt sha quiet db s = Inr (take (length quiet * nat m) (visible_events rt sha db pd allowed c), db, s')"
proof (induction quiet arbitrary: s c)
  case (Cons x quiet)
  obtain h where x: "x = ([], h)" using Cons.prems(4) by (cases x) auto
  let ?V = "visible_events rt sha db pd allowed c"
  let ?es = "take (nat m) ?V" and ?c = "cursor_after c (take (nat m) ?V)"
  have round: "consume_round rt sha db h s = Inr (?es, s\<lparr>ls_cursor := ?c\<rparr>)"
    by (rule consume_round_exact [OF ok num hex p Cons.prems(2,3) m _ Cons.prems(5,1)]) (use Cons.prems(4) in \<open>simp_all add: x al\<close>)
  have es: "prefix ?es ?V" by (rule take_is_prefix)
  have "drop (length ?es) ?V = drop (nat m) ?V" by (cases "nat m \<le> length ?V") simp_all
  then have after: "visible_events rt sha db pd allowed ?c = drop (nat m) ?V" using visible_after [OF ok es] by simp
  then have "\<forall>e\<in>set (visible_events rt sha db pd allowed ?c). verify_read_access a e = None"
    using Cons.prems(5) by (auto dest: in_set_dropD)
  then obtain s' where "consume rt sha quiet db (s\<lparr>ls_cursor := ?c\<rparr>) = Inr (take (length quiet * nat m) (drop (nat m) ?V), db, s')"
    using Cons.IH [OF subscribed_cursor [OF Cons.prems(1)] cursor_after_bounds [OF ok es Cons.prems(2,3)]] Cons.prems(4)
    by (auto simp: after)
  then show ?case using round by (simp add: x run_ledger_def Let_def take_add)
qed simp

lemma subscription_complete:
  assumes num: "decimal_numbers rt" and hex: "hex_digests sha" and p: "partition_sha256 rt sha (ac_partition a) = Inr pd"
    and sub: "subscribe a k m t h = Inr s" "uuid_hex h" and k: "k \<le> db_global_position (run_ledger rt sha before empty_db)"
    and ids: "\<forall>x\<in>set rounds. uuid_hex (snd x)" "\<forall>x\<in>set quiet. fst x = [] \<and> uuid_hex (snd x)"
    and W: "W = visible_events rt sha (run_ledger rt sha (before @ concat (map fst rounds)) empty_db) pd (cf_allowed (ac_classification_filter a)) k"
    and acc: "\<forall>e\<in>set W. verify_read_access a e = None" and enough: "length W \<le> length quiet * nat m"
  shows "\<exists>s'. consume rt sha (rounds @ quiet) (run_ledger rt sha before empty_db) s =
    Inr (W, run_ledger rt sha (before @ concat (map fst rounds)) empty_db, s')"
proof -
  let ?al = "cf_allowed (ac_classification_filter a)" and ?db = "run_ledger rt sha (before @ concat (map fst rounds)) empty_db"
  note s = subscribe_subscribed [OF sub]
  obtain es where es: "consume rt sha rounds (run_ledger rt sha before empty_db) s = Inr (es, ?db, s\<lparr>ls_cursor := cursor_after k es\<rparr>)"
    "prefix es W"
    using consume_prefix [OF num hex p s(3,4) refl s(1,2) k ids(1)] acc W by blast
  have kdb: "k \<le> db_global_position ?db" using k run_position [of rt sha before] by (rule order.trans)
  note pre = es(2) [unfolded W]
  have after: "visible_events rt sha ?db pd ?al (cursor_after k es) = drop (length es) W"
    using visible_after [OF run_ledger_ok pre] W by simp
  have "\<forall>e\<in>set (drop (length es) W). verify_read_access a e = None" using acc by (auto dest: in_set_dropD)
  then obtain s' where "consume rt sha quiet ?db (s\<lparr>ls_cursor := cursor_after k es\<rparr>) =
      Inr (take (length quiet * nat m) (drop (length es) W), ?db, s')"
    using consume_quiet [OF num hex p s(3,4) refl run_ledger_ok subscribed_cursor [OF s(1)] cursor_after_bounds [OF run_ledger_ok pre s(2) kdb] ids(2)]
    unfolding after by blast
  moreover have "es @ take (length quiet * nat m) (drop (length es) W) = W"
    using es(2) enough by (auto simp: prefix_def)
  ultimately show ?thesis using es(1) by (simp add: consume_append)
qed

end
