(* ===== verification/CanonicalSize.thy ===== *)
theory CanonicalSize
  imports EventFacts
begin

text \<open>The length of canonical JSON: an object is no longer than its keys, its values and their separators.\<close>

lemma sum_list_bound: "\<forall>x\<in>set xs. f x \<le> (n :: nat) \<Longrightarrow> sum_list (map f xs) \<le> length xs * n"
  by (induction xs) (auto intro: add_mono)

lemma length_join_bound: "length (join s ts) \<le> sum_list (map (\<lambda>t. length t + length s) ts)"
  by (induction s ts rule: join.induct) auto

lemma length_canonical_char: "length (canonical_char c) \<le> 6"
proof -
  have "length (digits_rev 16 c) \<le> 2" if "c < 32"
    using that by (subst digits_rev.simps, subst digits_rev.simps) auto
  then show ?thesis by (auto simp: canonical_char_def json_char_def hex_pad_def pad_left_def)
qed

lemma length_canonical_string: "length (canonical_string s) \<le> 6 * length s + 2"
proof -
  have "length (concat (map canonical_char s)) \<le> 6 * length s"
    using length_canonical_char by (induction s) (auto intro: add_mono)
  then show ?thesis by (simp add: canonical_string_def)
qed

definition text_within :: "runtime \<Rightarrow> nat \<Rightarrow> pyval \<Rightarrow> bool" where
  "text_within rt n v \<longleftrightarrow> (\<forall>t. canonical_json rt v = Some t \<longrightarrow> length t \<le> n)"

lemma all_some_within:
  "all_some (map f xs) = Some ts \<Longrightarrow> \<forall>x\<in>set xs. \<forall>t. f x = Some t \<longrightarrow> length t \<le> n \<Longrightarrow> \<forall>t\<in>set ts. length t \<le> n"
proof (induction xs arbitrary: ts)
  case (Cons x xs)
  then show ?case by (cases "f x") auto
qed simp

lemma object_within:
  assumes d: "\<forall>x\<in>set d. length (fst x) \<le> k \<and> text_within rt n (snd x)"
  shows "text_within rt (2 + length d * (6 * k + n + 4)) (PDict (str_keys d))"
  unfolding text_within_def
proof (intro allI impI)
  fix t assume "canonical_json rt (PDict (str_keys d)) = Some t"
  let ?s = "sort_key (key_text \<circ> fst) (str_keys d)" and ?m = "\<lambda>k t. canonical_string k @ u '':'' @ t"
  obtain ts where ts: "all_some (map (\<lambda>(k, v). canonical_json rt v) ?s) = Some ts"
    and t: "t = u ''{'' @ join (u '','') (map2 ?m (map (key_text \<circ> fst) ?s) ts) @ u ''}''"
    using \<open>canonical_json rt (PDict (str_keys d)) = Some t\<close> by auto
  have "\<forall>t\<in>set ts. length t \<le> n"
    by (rule all_some_within [OF ts]) (use d in \<open>auto simp: text_within_def str_keys_def\<close>)
  then have e: "length x + length (u '','') \<le> 6 * k + n + 4" if x: "x \<in> set (map2 ?m (map (key_text \<circ> fst) ?s) ts)" for x
  proof -
    obtain a b where "x = ?m a b" "a \<in> set (map (key_text \<circ> fst) ?s)" "b \<in> set ts"
      using x by (auto elim!: in_set_zipE)
    moreover from this have "length a \<le> k" using d by (auto simp: str_keys_def)
    ultimately show ?thesis using length_canonical_string [of a] \<open>\<forall>t\<in>set ts. length t \<le> n\<close> by fastforce
  qed
  have "length (join (u '','') (map2 ?m (map (key_text \<circ> fst) ?s) ts)) \<le> length (map2 ?m (map (key_text \<circ> fst) ?s) ts) * (6 * k + n + 4)"
    by (rule order_trans [OF length_join_bound sum_list_bound]) (use e in auto)
  also have "\<dots> \<le> length d * (6 * k + n + 4)" by (rule mult_le_mono1) (simp add: str_keys_def)
  finally show "length t \<le> 2 + length d * (6 * k + n + 4)" by (simp add: t)
qed

lemma string_within: "length s \<le> n \<Longrightarrow> text_within rt (6 * n + 2) (PStr s)"
  using length_canonical_string [of s] by (simp add: text_within_def)

lemma text_within_mono: "text_within rt m v \<Longrightarrow> m \<le> n \<Longrightarrow> text_within rt n v"
  unfolding text_within_def using le_trans by blast

lemma within_bytes:
  assumes "text_within rt n v" and "canonical_json rt v = Some t" and "encodable t"
  obtains m where "utf8_size t = Some m" "m \<le> 4 * n"
proof -
  obtain m where m: "utf8_size t = Some m" using assms(3) utf8_size_None_iff [of t] by (cases "utf8_size t") auto
  moreover have "length t \<le> n" using assms by (simp add: text_within_def del: canonical_json.simps)
  ultimately show thesis using that utf8_size_bounds [OF m] by (meson le_trans mult_le_mono2)
qed

end
