(* ===== verification/SampleEvent.thy ===== *)
theory SampleEvent
  imports LedgerFacts SampleOutbox CanonicalSize
begin

text \<open>A concrete event, the first of its stream, and an append of it, on a host that writes integers in decimal.\<close>

definition number_text :: "pynum \<Rightarrow> pystr" where
  "number_text n = (case n of PyInt i \<Rightarrow> (if i < 0 then [45] else []) @ str_nat (nat \<bar>i\<bar>) | _ \<Rightarrow> u ''1.5'')"

definition sample_digest :: pystr where
  "sample_digest = u ''sha256:'' @ sample_hex"

definition ledger_event :: CanonicalEvent where
  "ledger_event =
     \<lparr>ev_event_id = u ''evt_1'', ev_event_sha256 = sample_digest, ev_event_type = u ''tbm.gate.opened'', ev_event_version = 1,
      ev_event_kind = u ''domain'', ev_origin = u ''native'', ev_source = None, ev_stream_id = u ''stream'',
      ev_stream_type = u ''gate'', ev_stream_version = 1, ev_global_position = 1, ev_organization_id = u ''org'',
      ev_tenant_id = u ''tenant'', ev_repository_id = u ''repo'', ev_environment_id = u ''env'', ev_principal_id = u ''me'',
      ev_agent_client_id = u ''agent'', ev_actor_type = u ''service'', ev_actor_id = u ''me'',
      ev_authorization_decision_id = u ''auth'', ev_request_id = u ''req'', ev_idempotency_key_sha256 = sample_digest,
      ev_request_sha256 = sample_digest, ev_correlation_id = u ''corr'', ev_causation_id = None,
      ev_occurred_at = Some (day 1), ev_recorded_at = day 2, ev_producer = u ''tbm'', ev_producer_version = u ''1'',
      ev_payload_schema = u ''tbm.gate.v1'', ev_payload_sha256 = sample_digest, ev_previous_stream_event_sha256 = None,
      ev_classification = u ''internal'', ev_retention_policy_id = u ''keep'', ev_artifact_refs = [],
      ev_payload = [(PStr (u ''state''), PStr (u ''open''))], ev_protocol_version = EVENT_PROTOCOL_VERSION\<rparr>"

text \<open>The decoder of this host reads the two texts that an append of this event stores: a list of its digest, and the event.\<close>

definition event_loads :: "pystr \<Rightarrow> json_outcome" where
  "event_loads t = JsonValue (if take 1 t = [91] then PList [PStr sample_digest] else PDict (str_keys (event_to_dict ledger_event)))"

definition event_runtime :: runtime where
  "event_runtime = sample_runtime\<lparr>rt_format_number := number_text, rt_json_loads := event_loads\<rparr>"

lemma str_nat_chars: "c \<in> set (str_nat n) \<Longrightarrow> 48 \<le> c \<and> c < 58"
  using digits_rev_bound [of 10 n] by (auto simp: str_nat_def dec_digits_def)

lemma str_nat_inj [simp]: "str_nat m = str_nat n \<longleftrightarrow> m = n"
proof
  assume "str_nat m = str_nat n"
  then have "dec_digits m = dec_digits n" unfolding str_nat_def by (rule map_injective) (simp add: inj_def)
  then show "m = n" by (metis dec_digits_def digits_value_rev)
qed simp

lemma number_text_chars: "c \<in> set (number_text n) \<Longrightarrow> c < 58 \<and> c \<notin> {34, 44}"
  using str_nat_chars by (cases n) (fastforce simp: number_text_def u_def split: if_splits)+

lemma sign_no_digit: "45 # x \<noteq> str_nat n" "str_nat n \<noteq> 45 # x"
proof -
  have "45 \<notin> set (str_nat n)" using str_nat_chars [of 45 n] by auto
  then show "45 # x \<noteq> str_nat n" "str_nat n \<noteq> 45 # x" by (metis list.set_intros(1))+
qed

lemma event_json_numbers: "json_numbers event_runtime"
proof -
  have "number_text (PyInt i) = number_text (PyInt j) \<Longrightarrow> i = j" for i j
    by (auto simp: number_text_def sign_no_digit split: if_splits)
  then show ?thesis using number_text_chars by (fastforce simp: json_numbers_def event_runtime_def)
qed

lemma event_decimal_numbers: "decimal_numbers event_runtime"
proof -
  have "encodable (number_text (PyInt i))" for i
    by (rule encodable_small) (use number_text_chars in fastforce)
  then show ?thesis by (simp add: decimal_numbers_def event_runtime_def sample_runtime_def)
qed

section \<open>The event\<close>

lemma sample_sha_digest: "event_sha256 sample_sha t = sample_digest"
  by (simp add: event_sha256_def sample_sha_def sample_digest_def)

lemma sample_digest_tagged: "tagged_digest (u ''sha256:'') sample_digest"
  by (simp add: sample_digest_def sample_tagged)

lemma encodable_sample_digest [simp]: "encodable sample_digest"
  using sample_digest_tagged by (rule encodable_digest)

lemma plain_member: "plain_value rt (PDict (str_keys d)) \<longleftrightarrow> (\<exists>t. canonical_text rt d = Some t \<and> encodable t)"
  by (simp add: plain_value_def object_json del: canonical_json.simps)

lemma plain_object: "\<forall>x\<in>set d. encodable (fst x) \<and> plain_value rt (snd x) \<Longrightarrow> \<exists>t. canonical_text rt d = Some t \<and> encodable t"
  using plain_digest [of d rt "\<lambda>t. t"] by (auto simp: canonical_sha256_def utf8_size_None_iff split: option.splits if_splits)

lemma length_digest [simp]: "length sample_digest = 71"
  by (simp add: sample_digest_def sample_hex_def)

lemma length_day: "1 \<le> n \<Longrightarrow> n \<le> 31 \<Longrightarrow> length (day n) \<le> 71"
  by (simp add: day_def isoformat_z_def day_time_def date_time_text_def zero_pad_digits(1))

lemma short_within:
  "length s \<le> 71 \<Longrightarrow> text_within event_runtime 428 (PStr s)" "text_within event_runtime 428 PNone"
  "text_within event_runtime 428 (PNum (PyInt 1))" "text_within event_runtime 428 (PList [])"
proof -
  show "length s \<le> 71 \<Longrightarrow> text_within event_runtime 428 (PStr s)" using string_within [of s 71] by simp
  show "text_within event_runtime 428 PNone" "text_within event_runtime 428 (PNum (PyInt 1))" "text_within event_runtime 428 (PList [])"
    by (simp_all add: text_within_def event_runtime_def number_text_def str_nat_def dec_digits_def digits_rev.simps)
qed

text \<open>The event with any list of references that can be written.\<close>

definition refs_event :: "EventArtifactRef list \<Rightarrow> CanonicalEvent" where
  "refs_event refs = ledger_event\<lparr>ev_artifact_refs := refs\<rparr>"

lemma refs_event_Nil [simp]: "refs_event [] = ledger_event"
  by (simp add: refs_event_def ledger_event_def)

definition refs_plain :: "EventArtifactRef list \<Rightarrow> bool" where
  "refs_plain refs \<longleftrightarrow> (\<forall>r\<in>set refs. \<forall>x\<in>set (artifact_ref_fields r). encodable (fst x) \<and> plain_value event_runtime (snd x))"

lemma refs_plain_Nil [simp]: "refs_plain []"
  by (simp add: refs_plain_def)

lemma refs_event_plain:
  assumes "refs_plain refs"
  shows "\<forall>x\<in>set (event_to_dict (refs_event refs)). encodable (fst x) \<and> plain_value event_runtime (snd x)"
proof -
  have payload: "PDict (ev_payload (refs_event refs)) = PDict (str_keys [(u ''state'', PStr (u ''open''))])"
    by (simp add: refs_event_def ledger_event_def str_keys_def)
  have "plain_value event_runtime (PDict (ev_payload (refs_event refs)))"
    unfolding payload plain_member by (rule plain_object) simp
  moreover have "plain_value event_runtime (PNum (PyInt 1))" by (rule plain_number [OF event_decimal_numbers]) simp_all
  moreover have "plain_value event_runtime (PDict (str_keys (artifact_ref_fields r)))" if "r \<in> set refs" for r
    unfolding plain_member by (rule plain_object) (use assms that in \<open>simp add: refs_plain_def\<close>)
  then have "plain_value event_runtime (PList (map (\<lambda>r. PDict (str_keys (artifact_ref_fields r))) refs))"
    by (intro plain_list) auto
  ultimately show ?thesis
    unfolding event_to_dict_def canonical_event_fields_def
    by (simp add: refs_event_def ledger_event_def str_or_none_def encodable_day EVENT_PROTOCOL_VERSION_def)
qed

lemmas ledger_event_plain = refs_event_plain [OF refs_plain_Nil, unfolded refs_event_Nil]

lemma refs_event_text:
  assumes "refs_plain refs"
  obtains t where "event_json event_runtime (PDict (str_keys (canonical_event_fields (refs_event refs)))) = Inr t"
proof -
  have "\<forall>x\<in>set (canonical_event_fields (refs_event refs)). encodable (fst x) \<and> plain_value event_runtime (snd x)"
    using refs_event_plain [OF assms] unfolding event_to_dict_def by simp
  from plain_object [OF this] that show thesis by (auto simp: event_json_def object_json simp del: canonical_json.simps)
qed

lemma refs_event_digests:
  assumes "refs_plain refs"
  shows "event_digest_error event_runtime sample_sha (refs_event refs) = None"
proof -
  let ?e = "refs_event refs"
  have payload: "ev_payload ?e = [(PStr (u ''state''), PStr (u ''open''))]" by (simp add: refs_event_def ledger_event_def)
  have "copy_json 0 (PDict (ev_payload ?e)) 0 = Inr 2"
    by (simp add: payload event_utf8_def)
  moreover obtain t where "event_json event_runtime (PDict (ev_payload ?e)) = Inr t" "utf8_size t = Some 16"
    by (simp add: payload event_json_def) (simp add: canonical_string_def canonical_char_def u_def utf8_char_size_def)
  moreover have "\<not> has_secret event_runtime (PDict (ev_payload ?e))"
    by (simp add: payload normalized_key_def FORBIDDEN_SECRET_KEYS_def event_runtime_def sample_runtime_def)
       (simp add: u_def ascii_lower_def lower_alnum_def)
  ultimately have "event_payload_sha256 event_runtime sample_sha (ev_payload ?e) = Inr sample_digest"
    by (simp add: event_payload_sha256_def bounded_payload_copy_def sample_sha_digest del: copy_json.simps)
  moreover obtain t where "event_json event_runtime (PDict (str_keys (canonical_event_fields ?e))) = Inr t"
    by (rule refs_event_text [OF assms])
  then have "canonical_event_sha256 event_runtime sample_sha (canonical_event_fields ?e) = Inr sample_digest"
    by (simp add: canonical_event_sha256_def sample_sha_digest) (simp add: canonical_event_fields_def dict_has_def)
  ultimately show ?thesis by (simp add: event_digest_error_def) (simp add: refs_event_def ledger_event_def)
qed

lemma visible_identifier:
  assumes "v \<noteq> []" "length v \<le> n" and c: "list_all (\<lambda>c. 33 \<le> c \<and> c < 127) v"
  shows "bounded_identifier n v"
proof -
  have ns: "\<not> py_isspace c" if "c \<in> set v" for c using c that by (auto simp: list_all_iff py_isspace_def)
  have l: "dropWhile py_isspace x = x" if "\<forall>c\<in>set x. \<not> py_isspace c" for x using that by (cases x) simp_all
  have "strip v = v" using ns by (simp add: strip_def rstrip_def lstrip_def l)
  then show ?thesis using assms by (auto simp: bounded_identifier_def list_all_iff)
qed

lemma short_identifier [simp]: "s \<noteq> [] \<Longrightarrow> length s \<le> n \<Longrightarrow> list_all (\<lambda>c. 33 \<le> c \<and> c < 127) (u s) \<Longrightarrow> bounded_identifier n (u s)"
  by (rule visible_identifier) simp_all

lemma refs_event_valid:
  assumes "refs_plain refs" and "artifact_ref_tuple refs = None" and "\<forall>r\<in>set refs. ar_classification r = u ''internal''"
  shows "canonical_event_error event_runtime sample_sha (refs_event refs) = None"
proof -
  have ids: "\<forall>s\<in>set [''stream'', ''gate'', ''org'', ''tenant'', ''repo'', ''env'', ''me'', ''agent'', ''auth'', ''req'', ''corr'', ''keep'', ''tbm'', ''1''].
      bounded_identifier 128 (u s) \<and> bounded_identifier 256 (u s)"
    by (simp, intro conjI; (rule short_identifier, simp, simp, simp add: u_def))
  then have i: "event_identifier (u s) n = None" "event_code (u s) n = None"
    if "s \<in> set [''stream'', ''gate'', ''org'', ''tenant'', ''repo'', ''env'', ''me'', ''agent'', ''auth'', ''req'', ''corr'', ''keep'', ''tbm'', ''1'']" for s n
    using that by (auto simp: event_identifier_def event_code_def event_utf8_def)
  have "\<not> list_ex (\<lambda>r. classification_rank (u ''internal'') < classification_rank (ar_classification r)) refs"
    using assms(3) by (auto simp: list_ex_iff)
  then show ?thesis
    unfolding canonical_event_error_def first_error_None_iff using refs_event_digests [OF assms(1)] assms(2)
    by (simp add: refs_event_def ledger_event_def i sample_digest_tagged event_digest_def canonical_day parse_day instant_day
        event_id_error_def positive_version_def enum_error_def event_kind_error_def event_time_error_def later_than_def event_timestamp_def
        EVENT_KINDS_def EVENT_ORIGINS_def ACTOR_TYPES_def CLASSIFICATION_RANK_def dict_keys_def)
       (simp add: is_event_id_def is_event_type_def is_payload_schema_def type_segment_def ascii_alnum_def lower_alnum_def u_def strip_prefix_def)
qed

lemma ledger_event_valid: "canonical_event_error event_runtime sample_sha ledger_event = None"
  using refs_event_valid [of "[]"] by (simp add: artifact_ref_tuple_def)

section \<open>An append of it\<close>

definition sample_access :: LedgerAccessContext where
  "sample_access =
     \<lparr>ac_partition = \<lparr>tp_organization_id = u ''org'', tp_tenant_id = u ''tenant'', tp_repository_id = u ''repo'', tp_environment_id = u ''env''\<rparr>,
      ac_principal_id = u ''me'', ac_agent_client_id = u ''agent'', ac_actor_type = u ''service'', ac_actor_id = u ''me'',
      ac_authorization_decision_id = u ''auth'',
      ac_classification_filter = \<lparr>cf_allowed = [u ''public'', u ''internal'']\<rparr>\<rparr>"

definition ledger_append :: LedgerAppendRequest where
  "ledger_append =
     \<lparr>rq_access = sample_access, rq_stream_id = u ''stream'', rq_expected_stream_version = 0, rq_events = [ledger_event],
      rq_idempotency = \<lparr>id_idempotency_key_sha256 = sample_digest, id_command_sha256 = sample_digest\<rparr>,
      rq_contract_version = EVENT_LEDGER_PORT_VERSION\<rparr>"

lemma port_identifiers: "s \<in> set [''org'', ''tenant'', ''repo'', ''env'', ''me'', ''agent'', ''auth'', ''stream''] \<Longrightarrow> port_identifier (u s)"
  by (auto simp: port_identifier_def ascii_alnum_def lower_alnum_def u_def)

lemma sample_access_valid: "valid_access sample_access"
  by (simp add: valid_access_def sample_access_def access_error_def partition_error_def filter_error_def ledger_identifier_def
      port_identifiers ACTOR_TYPES_def CLASSIFICATION_ORDER_def)

lemma refs_append_valid:
  assumes "canonical_event_error event_runtime sample_sha (refs_event refs) = None"
  shows "valid_request event_runtime sample_sha (ledger_append\<lparr>rq_events := [refs_event refs]\<rparr>)"
proof -
  let ?q = "ledger_append\<lparr>rq_events := [refs_event refs]\<rparr>"
  have ids: "event_identifier (u s) n = None" if "s \<in> set [''org'', ''tenant'', ''repo'', ''env'', ''me'', ''agent'', ''auth'']" for s n
  proof -
    have "bounded_identifier 128 (u s)" by (rule short_identifier) (use that in \<open>auto simp: u_def\<close>)
    then show ?thesis by (simp add: event_identifier_def event_utf8_def)
  qed
  have "trusted_context_error (event_trusted_context sample_access) = None"
    by (simp add: trusted_context_error_def event_trusted_context_def sample_access_def ids enum_error_def ACTOR_TYPES_def)
  moreover have "append_events_error ?q 1 None [refs_event refs] = None"
    by (simp add: ledger_append_def refs_event_def ledger_event_def verify_event_trusted_context_def event_trusted_context_def sample_access_def allows_def)
  ultimately have "append_request_error ?q = None"
    unfolding append_request_error_def first_error_None_iff
    by (simp add: contract_version_error_def ledger_identifier_def ledger_append_def port_identifiers del: append_events_error.simps)
       (simp add: refs_event_def ledger_event_def)
  moreover have "idempotency_error (rq_idempotency ?q) = None"
    by (simp add: idempotency_error_def ledger_digest_def ledger_append_def sample_digest_tagged)
  ultimately show ?thesis
    using sample_access_valid assms by (simp add: valid_request_def) (simp add: ledger_append_def)
qed

lemma ledger_append_valid: "valid_request event_runtime sample_sha ledger_append"
proof -
  have "ledger_append\<lparr>rq_events := [refs_event []]\<rparr> = ledger_append" by (simp add: ledger_append_def)
  then show ?thesis using refs_append_valid [of "[]"] ledger_event_valid by simp
qed

lemma ledger_append_allowed: "verify_ledger_append_precondition ledger_append None 1 = None"
  by (simp add: verify_ledger_append_precondition_def positive_cursor_def ledger_append_def ledger_event_def)

end
