(* ===== verification/SampleLedger.thy ===== *)
theory SampleLedger
  imports SubscriptionFacts SampleEvent
begin

text \<open>The append of the sample event to an empty SQLite ledger, on the host of that event: the call commits.\<close>

section \<open>The text of the event\<close>

lemma dumped_event:
  obtains t n where "dumps_canonical_event event_runtime ledger_event = Inr t" "utf8_size t = Some n" "2 \<le> n" "n \<le> 1048576"
    "event_loads t = JsonValue (PDict (str_keys (event_to_dict ledger_event)))"
proof -
  let ?d = "str_keys (event_to_dict ledger_event)"
  obtain t where t: "canonical_json event_runtime (PDict ?d) = Some t" "encodable t"
    using plain_object [OF ledger_event_plain] by (auto simp: object_json simp del: canonical_json.simps)
  have "text_within event_runtime 428 (PDict (ev_payload ledger_event))"
    using object_within [of "[(u ''state'', PStr (u ''open''))]" 5 event_runtime 26] string_within [of "u ''open''" 4]
    by (simp add: ledger_event_def str_keys_def text_within_def)
  then have "\<forall>x\<in>set (event_to_dict ledger_event). length (fst x) \<le> 32 \<and> text_within event_runtime 428 (snd x)"
    unfolding event_to_dict_def canonical_event_fields_def
    by (simp add: ledger_event_def str_or_none_def short_within length_day EVENT_PROTOCOL_VERSION_def)
  then have "text_within event_runtime (2 + length (event_to_dict ledger_event) * (6 * 32 + 428 + 4)) (PDict ?d)" by (rule object_within)
  then obtain n where n: "utf8_size t = Some n" "n \<le> 4 * (2 + length (event_to_dict ledger_event) * (6 * 32 + 428 + 4))"
    using t by (rule within_bytes)
  then have max: "n \<le> 1048576" by (simp add: event_to_dict_def canonical_event_fields_def)
  have start: "take 1 t \<noteq> [91]" "t \<noteq> []" using object_json_start [OF t(1)] by auto
  have "length t \<noteq> 1" using t(1) by (auto simp: u_def)
  moreover have "length t \<noteq> 0" using start(2) by simp
  ultimately have "2 \<le> length t" by linarith
  then have "2 \<le> n" using utf8_size_bounds [OF n(1)] by linarith
  moreover have "dumps_canonical_event event_runtime ledger_event = Inr t"
    using t by (simp add: dumps_canonical_event_def event_json_def del: canonical_json.simps)
  moreover have "event_loads t = JsonValue (PDict ?d)" using start(1) by (simp add: event_loads_def)
  ultimately show thesis using that n max by blast
qed

lemma decoded_event:
  "decode_pairs (u ''canonical event'') (PDict (str_keys (event_to_dict ledger_event))) = Inr (PDict (str_keys (event_to_dict ledger_event)))"
  by (simp add: event_to_dict_def canonical_event_fields_def ledger_event_def str_keys_def str_or_none_def dict_has_def)

lemma walked_event:
  "bounded_walk (u ''canonical event'') EVENT_JSON_MAX_NODES EVENT_JSON_MAX_DEPTH 0 [(PDict (str_keys (event_to_dict ledger_event)), 0)] = None"
  by (simp add: event_to_dict_def canonical_event_fields_def ledger_event_def str_keys_def str_or_none_def bounded_walk.simps encodable_day
    EVENT_PROTOCOL_VERSION_def)


lemma loaded_event:
  assumes "utf8_size t = Some n" "n \<le> 1048576" "event_loads t = JsonValue (PDict (str_keys (event_to_dict ledger_event)))"
  shows "loads_canonical_event event_runtime sample_sha t = Inr ledger_event"
proof -
  have "rt_json_loads event_runtime t = event_loads t" by (simp add: event_runtime_def)
  then have "parse_bounded_json event_runtime (u ''canonical event'') EVENT_JSON_MAX_NODES EVENT_JSON_MAX_DEPTH t =
      Inr (PDict (str_keys (event_to_dict ledger_event)))"
    using assms(3) by (simp add: parse_bounded_json_def decoded_event walked_event del: decode_pairs.simps)
  then have "loads_object event_runtime t = Inr (str_keys (event_to_dict ledger_event))"
    using assms(1,2) by (simp add: loads_object_def)
  moreover have "parse_canonical_event event_runtime sample_sha (event_to_dict ledger_event) = Inr ledger_event"
    by (rule parse_event_to_dict [OF ledger_event_valid]) (simp_all add: ledger_event_def)
  ultimately show ?thesis by (simp add: loads_canonical_event_def as_object_def)
qed

section \<open>The append\<close>

lemma sample_partition: "partition_sha256 event_runtime sample_sha (ac_partition sample_access) = Inr sample_digest"
proof -
  have "partition_error (ac_partition sample_access) = None" using sample_access_valid by (simp add: valid_access_def)
  from partition_sha256_total [OF this sample_hex_digests] obtain d
    where "partition_sha256 event_runtime sample_sha (ac_partition sample_access) = Inr d" by blast
  then show ?thesis
    by (auto simp: partition_sha256_def domain_sha256_def sample_sha_def sample_digest_def split: option.splits if_splits)
qed

definition ledger_row :: event_row where
  "ledger_row =
     \<lparr>er_event_id = u ''evt_1'', er_event_sha256 = sample_digest, er_partition_sha256 = sample_digest, er_organization_id = u ''org'',
      er_tenant_id = u ''tenant'', er_repository_id = u ''repo'', er_environment_id = u ''env'', er_stream_id = u ''stream'',
      er_stream_version = 1, er_global_position = 1, er_previous_stream_event_sha256 = None, er_classification = u ''internal'',
      er_artifact_ref_count = 0, er_canonical_event = projr (dumps_canonical_event event_runtime ledger_event)\<rparr>"

lemma ledger_rows:
  "event_row_of event_runtime ledger_event sample_digest = Inr ledger_row" "byte_length_between 2 1048576 (er_canonical_event ledger_row)"
  "event_from_row event_runtime sample_sha db ledger_row =
     (if filter (\<lambda>a. aw_event_id a = u ''evt_1'') (db_artifacts db) = [] then Inr ledger_event
      else Inl (integrity_error ''stored artifact descriptors do not match canonical event''))"
proof -
  obtain t n where t: "dumps_canonical_event event_runtime ledger_event = Inr t" "utf8_size t = Some n" "2 \<le> n" "n \<le> 1048576"
    "event_loads t = JsonValue (PDict (str_keys (event_to_dict ledger_event)))" by (rule dumped_event)
  show row: "event_row_of event_runtime ledger_event sample_digest = Inr ledger_row"
    unfolding ledger_row_def event_row_of_def using t by simp (simp add: ledger_event_def)
  have cols: "er_canonical_event ledger_row = t" "er_partition_sha256 ledger_row = sample_digest"
    using t by (simp_all add: ledger_row_def)
  show "byte_length_between 2 1048576 (er_canonical_event ledger_row)" using cols t by (simp add: byte_length_between_def)
  have "artifact_rows_of event_runtime ledger_event = Inr []" by (simp add: artifact_rows_of_def ledger_event_def)
  moreover have "ev_event_id ledger_event = u ''evt_1''" by (simp add: ledger_event_def)
  ultimately show "event_from_row event_runtime sample_sha db ledger_row =
     (if filter (\<lambda>a. aw_event_id a = u ''evt_1'') (db_artifacts db) = [] then Inr ledger_event
      else Inl (integrity_error ''stored artifact descriptors do not match canonical event''))"
    unfolding event_from_row_def cols using loaded_event [OF t(2,4,5)] row by simp
qed


abbreviation "sample_idempotency \<equiv> rq_idempotency ledger_append"

definition first_receipt :: LedgerAppendReceipt where
  "first_receipt = projr (build_ledger_append_receipt event_runtime sample_sha ledger_append)"

definition first_head :: head_row where
  "first_head = new_head sample_digest (ac_partition sample_access) (u ''stream'')"

definition digests_text :: pystr where
  "digests_text = u ''['' @ canonical_string sample_digest @ u '']''"

definition first_events :: ledger_db where
  "first_events = \<lparr>db_events = [ledger_row], db_artifacts = [], db_heads = [advanced_head ledger_event first_head], db_global_position = 1,
     db_global_event_id = Some (u ''evt_1''), db_global_event_sha256 = Some sample_digest, db_idempotency = []\<rparr>"

definition first_ledger :: ledger_db where
  "first_ledger = first_events\<lparr>db_idempotency := [idempotency_row_of sample_digest first_receipt digests_text]\<rparr>"

lemma first_insert:
  "insert_event event_runtime sample_digest ledger_event (empty_db\<lparr>db_heads := [first_head]\<rparr>) = Inr first_events"
proof -
  let ?db = "empty_db\<lparr>db_heads := [first_head]\<rparr>" and ?db' = "empty_db\<lparr>db_heads := [first_head], db_events := [ledger_row]\<rparr>"
  have "insert_event_row ledger_row ?db = Some ?db'"
    using ledger_rows(2) unfolding insert_event_row_def event_row_allowed_def
    by (simp add: empty_db_def ledger_row_def first_head_def new_head_def sample_access_def CLASSIFICATION_ORDER_def)
  moreover have "insert_artifacts event_runtime ledger_event ?db' = Inr ?db'"
    by (simp add: insert_artifacts_def ledger_event_def)
  moreover have "advance_stream_head sample_digest ledger_event ?db' = Inr (?db'\<lparr>db_heads := [advanced_head ledger_event first_head]\<rparr>)"
    by (simp add: advance_stream_head_def update_stream_head_def head_matches_def head_advance_allowed_def advanced_head_def executed_def
        ledger_row_def first_head_def new_head_def Let_def) (simp add: ledger_event_def ledger_row_def)
  moreover have "advance_global_head ledger_event (?db'\<lparr>db_heads := [advanced_head ledger_event first_head]\<rparr>) = Inr first_events"
    by (simp add: advance_global_head_def update_global_head_def executed_def empty_db_def first_events_def)
       (simp add: ledger_event_def ledger_row_def)
  ultimately show ?thesis using ledger_rows(1) by (simp add: insert_event_def executed_def)
qed


lemma first_receipt_built:
  "build_ledger_append_receipt event_runtime sample_sha ledger_append = Inr first_receipt"
  "append_receipt_error event_runtime sample_sha first_receipt = None"
  "verify_ledger_append_receipt event_runtime sample_sha ledger_append first_receipt = None"
proof -
  show b: "build_ledger_append_receipt event_runtime sample_sha ledger_append = Inr first_receipt"
    using build_receipt_total [OF ledger_append_valid event_decimal_numbers sample_hex_digests] by (auto simp: first_receipt_def)
  show "append_receipt_error event_runtime sample_sha first_receipt = None"
    "verify_ledger_append_receipt event_runtime sample_sha ledger_append first_receipt = None"
    using built_receipt_verified [OF ledger_append_valid b] by auto
qed

lemma first_receipt_cols:
  "re_stream_id first_receipt = u ''stream''" "re_previous_stream_version first_receipt = 0" "re_current_stream_version first_receipt = 1"
  "re_first_global_position first_receipt = 1" "re_last_global_position first_receipt = 1" "re_events first_receipt = [ledger_event]"
  "re_idempotency_key_sha256 first_receipt = sample_digest" "re_outcome first_receipt = u ''committed''"
  "re_contract_version first_receipt = EVENT_LEDGER_PORT_VERSION"
proof -
  obtain d s where "\<lparr>re_request_sha256 = d, re_idempotency_key_sha256 = id_idempotency_key_sha256 sample_idempotency,
           re_command_sha256 = id_command_sha256 sample_idempotency, re_stream_id = rq_stream_id ledger_append,
           re_previous_stream_version = rq_expected_stream_version ledger_append,
           re_current_stream_version = ev_stream_version (last (rq_events ledger_append)),
           re_first_global_position = ev_global_position (hd (rq_events ledger_append)),
           re_last_global_position = ev_global_position (last (rq_events ledger_append)), re_events = rq_events ledger_append,
           re_outcome = u ''committed'', re_receipt_sha256 = s, re_contract_version = EVENT_LEDGER_PORT_VERSION\<rparr> = first_receipt"
    using first_receipt_built(1) unfolding build_ledger_append_receipt_def by (auto simp: result_simps Let_def)
  note r = this [symmetric, unfolded ledger_append_def ledger_event_def, simplified]
  show "re_stream_id first_receipt = u ''stream''" "re_previous_stream_version first_receipt = 0" "re_current_stream_version first_receipt = 1"
  "re_first_global_position first_receipt = 1" "re_last_global_position first_receipt = 1" "re_events first_receipt = [ledger_event]"
  "re_idempotency_key_sha256 first_receipt = sample_digest" "re_outcome first_receipt = u ''committed''"
  "re_contract_version first_receipt = EVENT_LEDGER_PORT_VERSION"
    unfolding r by (simp_all add: ledger_event_def)
qed

lemma digests_json: "ledger_json event_runtime (PList [PStr sample_digest]) = Inr digests_text"
  by (simp add: ledger_json_def digests_text_def)

lemma digests_loaded: "stored_digests event_runtime digests_text = Inr [sample_digest]"
proof -
  have "rt_json_loads event_runtime digests_text = JsonValue (PList [PStr sample_digest])"
    by (simp add: event_runtime_def event_loads_def digests_text_def u_def)
  then show ?thesis using digests_json by (simp add: stored_digests_def sample_digest_tagged)
qed

lemma first_receipt_read:
  "retained_receipt event_runtime sample_sha ledger_append first_ledger (idempotency_row_of sample_digest first_receipt digests_text) = Inr first_receipt"
proof -
  have "event_of_digest event_runtime sample_sha first_ledger sample_digest = Inr ledger_event"
    by (simp add: event_of_digest_def select_event_by_sha256_def first_ledger_def first_events_def ledger_rows(3)) (simp add: ledger_row_def)
  moreover have "first_receipt = \<lparr>re_request_sha256 = re_request_sha256 first_receipt, re_idempotency_key_sha256 = sample_digest,
           re_command_sha256 = re_command_sha256 first_receipt, re_stream_id = re_stream_id first_receipt,
           re_previous_stream_version = re_previous_stream_version first_receipt,
           re_current_stream_version = re_current_stream_version first_receipt,
           re_first_global_position = re_first_global_position first_receipt, re_last_global_position = re_last_global_position first_receipt,
           re_events = [ledger_event], re_outcome = u ''committed'', re_receipt_sha256 = re_receipt_sha256 first_receipt,
           re_contract_version = EVENT_LEDGER_PORT_VERSION\<rparr>"
    using first_receipt_cols by simp
  moreover have "id_idempotency_key_sha256 sample_idempotency = sample_digest" by (simp add: ledger_append_def)
  ultimately show ?thesis
    unfolding retained_receipt_def receipt_from_idempotency_row_def
    using first_receipt_built(2,3) digests_loaded by (simp add: idempotency_row_of_def Let_def)
qed


lemma first_idempotency:
  "insert_idempotency_row (idempotency_row_of sample_digest first_receipt digests_text) first_events = Some first_ledger"
proof -
  have "byte_length_between 4 16384 digests_text"
  proof -
    have "encodable digests_text" using encodable_sample_digest by (simp add: digests_text_def)
    then obtain n where n: "utf8_size digests_text = Some n" using utf8_size_None_iff by (cases "utf8_size digests_text") auto
    have "length sample_digest = 71" by (simp add: sample_digest_def sample_hex_def)
    then have "length digests_text \<le> 500" using length_canonical_string [of sample_digest] by (simp add: digests_text_def)
    moreover have "4 \<le> length digests_text" by (simp add: digests_text_def canonical_string_def)
    ultimately show ?thesis using n utf8_size_bounds [OF n] by (simp add: byte_length_between_def)
  qed
  then show ?thesis
    by (simp add: insert_idempotency_row_def first_events_def first_ledger_def idempotency_row_of_def first_receipt_cols)
qed

lemma first_commit:
  "append_once event_runtime sample_sha sample_access (u ''stream'') 0 [ledger_event] sample_idempotency empty_db =
     (Inr \<lparr>cm_receipt = first_receipt, cm_inserted = True\<rparr>, first_ledger)"
proof -
  have q: "request_of sample_access (u ''stream'') 0 [ledger_event] sample_idempotency = ledger_append"
    by (simp add: request_of_def ledger_append_def)
  have "select_head_event event_runtime sample_sha sample_access empty_db (u ''stream'') = Inr None"
    by (simp add: select_head_event_def sample_partition find_head_def empty_db_def)
  moreover have "select_global_position empty_db = Inr 0" by (simp add: select_global_position_def empty_db_def)
  moreover have "insert_head_row first_head empty_db = Some (empty_db\<lparr>db_heads := [first_head]\<rparr>)"
    by (simp add: insert_head_row_def empty_db_def first_head_def new_head_def)
  moreover have "select_idempotency first_ledger sample_digest sample_digest = Some (idempotency_row_of sample_digest first_receipt digests_text)"
    by (simp add: select_idempotency_def first_ledger_def idempotency_row_of_def first_receipt_cols)
  moreover have rq: "rq_stream_id ledger_append = u ''stream''" "rq_events ledger_append = [ledger_event]"
    "id_idempotency_key_sha256 sample_idempotency = sample_digest" "rq_access ledger_append = sample_access" "ev_event_sha256 ledger_event = sample_digest"
    by (simp_all add: ledger_append_def) (simp add: ledger_event_def)
  ultimately have "append_new event_runtime sample_sha sample_access sample_digest ledger_append empty_db =
      Inr (\<lparr>cm_receipt = first_receipt, cm_inserted = True\<rparr>, first_ledger)"
    using ledger_append_allowed first_insert first_receipt_built(1) digests_json first_idempotency first_receipt_read
    by (simp add: append_new_def executed_def flip: first_head_def)
  moreover have "select_idempotency empty_db sample_digest sample_digest = None" by (simp add: select_idempotency_def empty_db_def)
  ultimately have "append_in_transaction event_runtime sample_sha sample_access ledger_append empty_db =
      Inr (\<lparr>cm_receipt = first_receipt, cm_inserted = True\<rparr>, first_ledger)"
    by (simp add: append_in_transaction_def rq sample_partition)
  moreover have "append_request_error ledger_append = None" using ledger_append_valid by (simp add: valid_request_def)
  ultimately show ?thesis by (simp add: append_once_Inr_iff q)
qed


abbreviation "first_calls \<equiv> [AppendOnce sample_access (u ''stream'') 0 [ledger_event] sample_idempotency]"

lemma first_run: "run_ledger event_runtime sample_sha first_calls empty_db = first_ledger"
  using first_commit by (simp add: run_ledger_def)

lemma first_stream: "stream_events event_runtime sample_sha first_ledger sample_digest (u ''stream'') = [ledger_event]"
  by (simp add: stream_events_def stream_of_def first_ledger_def first_events_def row_event_def ledger_rows(3)) (simp add: ledger_row_def)

lemma first_visible: "verify_read_access sample_access ledger_event = None"
  by (simp add: verify_read_access_def sample_access_def ledger_event_def allows_def)

definition sample_uuid :: pystr where
  "sample_uuid = replicate 32 97"

lemma sample_uuid_hex: "uuid_hex sample_uuid"
  by (simp add: uuid_hex_def sample_uuid_def list_all_iff)

definition sample_subscription :: ledger_subscription where
  "sample_subscription =
     \<lparr>ls_request = \<lparr>bq_access = sample_access, bq_after_position = 0, bq_limit = 10, bq_poll_timeout_seconds = 0\<rparr>, ls_cursor = 0,
      ls_outstanding = None, ls_closed = False, ls_subscription_id = u ''subscription_'' @ sample_uuid\<rparr>"

lemma sample_subscribed: "subscribe sample_access 0 10 0 sample_uuid = Inr sample_subscription"
  by (simp add: subscribe_def sample_subscription_def subscription_request_error_def positive_cursor_def read_limit_def)

lemma first_seen:
  "visible_events event_runtime sample_sha first_ledger sample_digest (cf_allowed (ac_classification_filter sample_access)) 0 = [ledger_event]"
  by (simp add: visible_events_def visible_rows_def first_ledger_def first_events_def row_event_def ledger_rows(3))
     (simp add: ledger_row_def sample_access_def)

section \<open>A pending artifact\<close>

definition pending_ref :: EventArtifactRef where
  "pending_ref =
     \<lparr>ar_artifact_id = u ''artifact_sha256_'' @ sample_hex, ar_content_sha256 = sample_digest, ar_media_type = u ''text/plain'',
      ar_size_bytes = 1, ar_classification = u ''internal'', ar_retention_policy_id = u ''keep'', ar_encryption_key_id = None,
      ar_availability = u ''pending''\<rparr>"

lemma pending_ref_valid: "artifact_ref_error pending_ref = None"
proof -
  have "bounded_identifier 128 (u ''keep'')" "bounded_identifier 128 (u ''text/plain'')" "bounded_identifier 256 (u ''text/plain'')"
    by (rule short_identifier; simp add: u_def)+
  then have "event_identifier (u ''keep'') n = None" "event_code (u ''text/plain'') n = None" for n
    by (simp_all add: event_identifier_def event_code_def event_utf8_def)
  then show ?thesis
    unfolding artifact_ref_error_def first_error_None_iff
    by (simp add: pending_ref_def event_digest_def sample_digest_tagged sample_tagged enum_error_def CLASSIFICATION_RANK_def
        ARTIFACT_AVAILABILITY_def dict_keys_def) (simp add: sample_digest_def u_def)
qed

lemma pending_append_valid: "valid_request event_runtime sample_sha (ledger_append\<lparr>rq_events := [refs_event [pending_ref]]\<rparr>)"
proof (rule refs_append_valid, rule refs_event_valid)
  have "encodable (ar_artifact_id pending_ref)"
    using encodable_digest [OF sample_tagged [of "u ''artifact_sha256_''"]] by (simp add: pending_ref_def)
  moreover have "plain_value event_runtime (PNum (PyInt 1))" by (rule plain_number [OF event_decimal_numbers]) simp_all
  ultimately show "refs_plain [pending_ref]"
    by (simp add: refs_plain_def artifact_ref_fields_def pending_ref_def str_or_none_def)
qed (simp_all add: artifact_ref_tuple_def pending_ref_def)

end
