(* ===== verification/GateSessionEvent.thy ===== *)
theory GateSessionEvent
  imports GateSessionFacts EventFacts
begin

text \<open>
  The events of a gate session, \<^verbatim>\<open>gate_session_event_v1.py\<close>: every revision of a session is one event of the stream
  of the session, whose payload holds the revision and its digests, and whose envelope is determined by
  the revision and the trusted context. An event is accepted only after its revision is recomputed from the
  previous one. The JSON schema of the payload is not modelled. A handler \<^verbatim>\<open>except Exception\<close> is \<open>any_error\<close>.
\<close>

section \<open>Types of events\<close>

definition GATE_SESSION_EVENT_CONTRACT_VERSION :: pystr where
  "GATE_SESSION_EVENT_CONTRACT_VERSION = u ''tbm.gate-session-event.v1''"

definition GATE_SESSION_EVENT_STREAM_TYPE :: pystr where
  "GATE_SESSION_EVENT_STREAM_TYPE = u ''gate_session''"

definition GATE_SESSION_EVENT_PRODUCER :: pystr where
  "GATE_SESSION_EVENT_PRODUCER = u ''trace_backed_memory''"

definition GATE_SESSION_EVENT_PRODUCER_VERSION :: pystr where
  "GATE_SESSION_EVENT_PRODUCER_VERSION = u ''0.1.0''"

definition GATE_SESSION_EVENT_RETENTION_POLICY_ID :: pystr where
  "GATE_SESSION_EVENT_RETENTION_POLICY_ID = u ''retention_engineering_memory''"

abbreviation "GATE_SESSION_EVENT_VERSION \<equiv> (1 :: int)"

definition GATE_SESSION_CREATED_EVENT :: pystr where
  "GATE_SESSION_CREATED_EVENT = u ''tbm.gate_session.created''"

definition GATE_SESSION_LEASE_RENEWED_EVENT :: pystr where
  "GATE_SESSION_LEASE_RENEWED_EVENT = u ''tbm.gate_session.lease_renewed''"

definition STATUS_EVENT_TYPES :: "(pystr, pystr) dict" where
  "STATUS_EVENT_TYPES =
     [(u ''created'', GATE_SESSION_CREATED_EVENT), (u ''prepared'', u ''tbm.gate_session.prepared''),
      (u ''awaiting_decision'', u ''tbm.semantic_gate.requested''), (u ''decided'', u ''tbm.semantic_gate.decided''),
      (u ''finalized'', u ''tbm.usage_decision.finalized''), (u ''executing'', u ''tbm.execution.started''),
      (u ''completed'', u ''tbm.gate_session.completed''), (u ''canceled'', u ''tbm.gate_session.canceled''),
      (u ''expired'', u ''tbm.gate_session.expired''), (u ''abandoned'', u ''tbm.execution.abandoned'')]"

definition GATE_SESSION_EVENT_TYPES :: "pystr list" where
  "GATE_SESSION_EVENT_TYPES = sort (GATE_SESSION_LEASE_RENEWED_EVENT # map snd STATUS_EVENT_TYPES)"

definition revision_invalid :: "string \<Rightarrow> py_error" where
  "revision_invalid message = ContractError (u ''TBM_GATE_SESSION_EVENT_INVALID'') (u message)"

definition revision_if :: "bool \<Rightarrow> string \<Rightarrow> py_error option" where
  "revision_if b message = (if b then Some (revision_invalid message) else None)"

lemma revision_if_None_iff [simp]: "revision_if b m = None \<longleftrightarrow> \<not> b"
  by (simp add: revision_if_def)

lemma revision_if_simps [simp]: "revision_if False m = None" "revision_if True m = Some (revision_invalid m)"
  by (simp_all add: revision_if_def)

definition any_error :: "string \<Rightarrow> 'a result \<Rightarrow> 'a result" where
  "any_error message r = (case r of Inl _ \<Rightarrow> Inl (revision_invalid message) | Inr x \<Rightarrow> Inr x)"

lemma any_error_Inr_iff [result_simps]: "any_error m r = Inr x \<longleftrightarrow> r = Inr x"
  by (cases r) (simp_all add: any_error_def)

definition gate_session_event_type :: "GateSession \<Rightarrow> GateSession option \<Rightarrow> pystr result" where
  "gate_session_event_type session previous_session =
     (case previous_session of
        None \<Rightarrow>
          or_raise (revision_if (gs_status session \<noteq> u ''created'' \<or> gs_version session \<noteq> 1)
              ''the first GateSession event must contain revision 1 created'')
            (Inr GATE_SESSION_CREATED_EVENT)
      | Some p \<Rightarrow>
          or_raise (first_error
            [revision_if (gs_session_id session \<noteq> gs_session_id p) ''GateSession event revisions must retain session_id'',
             revision_if (gs_version session \<noteq> gs_version p + 1) ''GateSession event revisions must advance by one''])
          (if gs_status session = gs_status p then Inr GATE_SESSION_LEASE_RENEWED_EVENT
           else case dict_get STATUS_EVENT_TYPES (gs_status session) of
             None \<Rightarrow> Inl (KeyError (gs_status session)) | Some t \<Rightarrow> Inr t))"

section \<open>Digests\<close>

definition revision_domain_sha256 :: "runtime \<Rightarrow> (pystr \<Rightarrow> pystr) \<Rightarrow> string \<Rightarrow> (pystr, pyval) dict \<Rightarrow> pystr result" where
  "revision_domain_sha256 rt sha domain value =
     (case canonical_text rt value of
        None \<Rightarrow> Inl (revision_invalid ''GateSession event value is not canonical JSON'')
      | Some t \<Rightarrow>
          if encodable t then Inr (u ''sha256:'' @ sha (u domain @ [0] @ t))
          else Inl (revision_invalid ''GateSession event value is not canonical JSON''))"

definition gate_session_revision_sha256 :: "runtime \<Rightarrow> (pystr \<Rightarrow> pystr) \<Rightarrow> GateSession \<Rightarrow> pystr result" where
  "gate_session_revision_sha256 rt sha session =
     rbind (session_to_dict session) (revision_domain_sha256 rt sha ''tbm.gate-session-revision.v1'')"

definition event_identity_sha256 :: "runtime \<Rightarrow> (pystr \<Rightarrow> pystr) \<Rightarrow> pystr \<Rightarrow> int \<Rightarrow> pystr result" where
  "event_identity_sha256 rt sha session_id session_version =
     revision_domain_sha256 rt sha ''tbm.gate-session-event-identity.v1''
       [(u ''session_id'', PStr session_id), (u ''session_version'', PNum (PyInt session_version))]"

definition event_command_sha256 ::
  "runtime \<Rightarrow> (pystr \<Rightarrow> pystr) \<Rightarrow> pystr \<Rightarrow> (pystr, pyval) dict \<Rightarrow> pystr \<Rightarrow> pystr result" where
  "event_command_sha256 rt sha event_type payload authorization_decision_id =
     revision_domain_sha256 rt sha ''tbm.gate-session-event-command.v1''
       [(u ''event_type'', PStr event_type), (u ''payload'', PDict (str_keys payload)),
        (u ''authorization_decision_id'', PStr authorization_decision_id)]"

definition correlation_sha256 :: "runtime \<Rightarrow> (pystr \<Rightarrow> pystr) \<Rightarrow> pystr \<Rightarrow> pystr result" where
  "correlation_sha256 rt sha session_id =
     revision_domain_sha256 rt sha ''tbm.gate-session-correlation.v1'' [(u ''session_id'', PStr session_id)]"

text \<open>\<^verbatim>\<open>removeprefix("sha256:")\<close>\<close>

definition digest_hex :: "pystr \<Rightarrow> pystr" where
  "digest_hex d = (case strip_prefix (u ''sha256:'') d of None \<Rightarrow> d | Some h \<Rightarrow> h)"

definition gate_session_event_id :: "runtime \<Rightarrow> (pystr \<Rightarrow> pystr) \<Rightarrow> GateSession \<Rightarrow> pystr result" where
  "gate_session_event_id rt sha session =
     rbind (event_identity_sha256 rt sha (gs_session_id session) (gs_version session)) (\<lambda>d.
     Inr (u ''evt_gate_'' @ digest_hex d))"

section \<open>Checks\<close>

definition PAYLOAD_FIELDS :: "pystr list" where
  "PAYLOAD_FIELDS =
     map u [''contract_version'', ''session'', ''session_sha256'', ''previous_session_sha256'', ''transition_authorization_event_id'']"

definition plain_payload :: "pydict \<Rightarrow> string \<Rightarrow> (pystr, pyval) dict result" where
  "plain_payload d name =
     (case object_entries d of None \<Rightarrow> Inl (revision_invalid (name @ '' must be an object'')) | Some obj \<Rightarrow> Inr obj)"

definition payload_session :: "(pystr, pyval) dict \<Rightarrow> string \<Rightarrow> string \<Rightarrow> GateSession result" where
  "payload_session payload name message =
     rbind (case dict_get payload (u ''session'') of
         Some (PDict d) \<Rightarrow> plain_payload d name | _ \<Rightarrow> Inl (revision_invalid (name @ '' must be an object''))) (\<lambda>session_payload.
     any_error message (parse_gate_session session_payload))"

definition envelope_invalid :: "CanonicalEvent \<Rightarrow> bool" where
  "envelope_invalid event \<longleftrightarrow>
     ev_event_version event \<noteq> GATE_SESSION_EVENT_VERSION \<or> ev_event_kind event \<noteq> u ''domain'' \<or> ev_origin event \<noteq> u ''native'' \<or>
     ev_source event \<noteq> None \<or> ev_stream_type event \<noteq> GATE_SESSION_EVENT_STREAM_TYPE \<or>
     ev_payload_schema event \<noteq> ev_event_type event @ u ''.v1'' \<or> ev_classification event \<noteq> u ''internal'' \<or>
     ev_retention_policy_id event \<noteq> GATE_SESSION_EVENT_RETENTION_POLICY_ID \<or> ev_artifact_refs event \<noteq> []"

definition verify_context :: "GateSession \<Rightarrow> EventTrustedContext \<Rightarrow> py_error option" where
  "verify_context session c =
     revision_if (gs_tenant_id session \<noteq> tc_tenant_id c \<or> gs_repository_id session \<noteq> tc_repository_id c \<or>
         gs_principal_id session \<noteq> tc_principal_id c \<or> gs_agent_client_id session \<noteq> tc_agent_client_id c)
       ''GateSession and trusted event context do not match''"

definition verify_event_identity :: "GateSession \<Rightarrow> CanonicalEvent \<Rightarrow> py_error option" where
  "verify_event_identity session event =
     revision_if (gs_tenant_id session \<noteq> ev_tenant_id event \<or> gs_repository_id session \<noteq> ev_repository_id event \<or>
         gs_principal_id session \<noteq> ev_principal_id event \<or> gs_agent_client_id session \<noteq> ev_agent_client_id event)
       ''GateSession event trusted identity is invalid''"

definition causation_of :: "runtime \<Rightarrow> (pystr \<Rightarrow> pystr) \<Rightarrow> GateSession \<Rightarrow> pystr option result" where
  "causation_of rt sha session =
     (if gs_version session = 1 then Inr None
      else rbind (event_identity_sha256 rt sha (gs_session_id session) (gs_version session - 1)) (\<lambda>d.
        Inr (Some (u ''evt_gate_'' @ digest_hex d))))"

definition verify_deterministic_envelope ::
  "runtime \<Rightarrow> (pystr \<Rightarrow> pystr) \<Rightarrow> GateSession \<Rightarrow> CanonicalEvent \<Rightarrow> (pystr, pyval) dict \<Rightarrow> unit result" where
  "verify_deterministic_envelope rt sha session event payload =
     rbind (event_identity_sha256 rt sha (gs_session_id session) (gs_version session)) (\<lambda>identity.
     rbind (correlation_sha256 rt sha (gs_session_id session)) (\<lambda>correlation.
     rbind (causation_of rt sha session) (\<lambda>causation.
     rbind (canonical_rfc3339 (gs_updated_at session)) (\<lambda>time.
     or_raise (revision_if (ev_event_id event \<noteq> u ''evt_gate_'' @ digest_hex identity \<or>
         ev_request_id event \<noteq> u ''gate_request_'' @ take 48 (digest_hex identity) \<or>
         ev_idempotency_key_sha256 event \<noteq> identity) ''GateSession event deterministic envelope is invalid'')
     (rbind (event_command_sha256 rt sha (ev_event_type event) payload (ev_authorization_decision_id event)) (\<lambda>command.
      or_raise (revision_if (ev_request_sha256 event \<noteq> command \<or>
          ev_correlation_id event \<noteq> u ''gate_correlation_'' @ take 40 (digest_hex correlation) \<or>
          ev_causation_id event \<noteq> causation \<or> ev_occurred_at event \<noteq> Some time \<or> ev_recorded_at event \<noteq> time \<or>
          ev_producer event \<noteq> GATE_SESSION_EVENT_PRODUCER \<or> ev_producer_version event \<noteq> GATE_SESSION_EVENT_PRODUCER_VERSION)
        ''GateSession event deterministic envelope is invalid'')
      (Inr ())))))))"

definition plausible_event_types :: "GateSession \<Rightarrow> pystr list result" where
  "plausible_event_types session =
     (if gs_version session = 1 then Inr [GATE_SESSION_CREATED_EVENT]
      else case dict_get STATUS_EVENT_TYPES (gs_status session) of
        None \<Rightarrow> Inl (KeyError (gs_status session))
      | Some t \<Rightarrow> Inr (t # (if gs_status session \<in> set ACTIVE_LEASE_STATUSES then [GATE_SESSION_LEASE_RENEWED_EVENT] else [])))"

text \<open>The keyword arguments that a transition to the status of the session takes from it.\<close>

definition revision_fields :: "GateSession \<Rightarrow> transition_fields" where
  "revision_fields session =
     (let status = gs_status session in
      \<lparr>tf_lease_expires_at = (if status = u ''prepared'' then gs_lease_expires_at session else None),
       tf_retrieval_snapshot_id = (if status = u ''prepared'' then gs_retrieval_snapshot_id session else None),
       tf_system_gate_evaluation_id = (if status = u ''prepared'' then gs_system_gate_evaluation_id session else None),
       tf_semantic_gate_attempt_ids = (if status = u ''decided'' then Some (gs_semantic_gate_attempt_ids session) else None),
       tf_decision_id = (if status = u ''decided'' then gs_decision_id session else None),
       tf_final_memory_revision_ids = (if status = u ''finalized'' then Some (gs_final_memory_revision_ids session) else None),
       tf_injection_artifact_id = (if status = u ''finalized'' then gs_injection_artifact_id session else None),
       tf_usage_decision_id = (if status = u ''finalized'' then gs_usage_decision_id session else None),
       tf_run_outcome_id = (if status = u ''completed'' then gs_run_outcome_id session else None),
       tf_terminal_reason =
         (if status \<in> {u ''canceled'', u ''expired'', u ''abandoned''} then gs_terminal_reason session else None)\<rparr>)"

text \<open>A renewal without a lease raises: the status has no lease, or the text of the lease is missing.\<close>

definition expected_revision :: "GateSession \<Rightarrow> GateSession \<Rightarrow> GateSession result" where
  "expected_revision p session =
     (if gs_status session = gs_status p
      then any_error ''GateSession lease-renewal event is invalid''
        (case gs_lease_expires_at session of
           None \<Rightarrow> Inl (session_invalid (u ''lease renewal timestamps must be timezone-aware RFC 3339''))
         | Some lease \<Rightarrow> renew_gate_session_lease p (gs_version p) (gs_updated_at session) lease)
      else any_error ''GateSession transition event is invalid''
        (transition_gate_session p (gs_status session) (gs_version p) (gs_updated_at session) (revision_fields session)))"

definition verify_revision_transition :: "GateSession option \<Rightarrow> GateSession \<Rightarrow> unit result" where
  "verify_revision_transition previous_session session =
     (case previous_session of
        None \<Rightarrow> Inr ()
      | Some p \<Rightarrow>
          rbind (expected_revision p session) (\<lambda>expected.
          or_raise (revision_if (expected \<noteq> session) ''GateSession event revision is not the exact domain transition'') (Inr ())))"

definition verify_parent_revision ::
  "runtime \<Rightarrow> (pystr \<Rightarrow> pystr) \<Rightarrow> CanonicalEvent \<Rightarrow> GateSession \<Rightarrow> unit result" where
  "verify_parent_revision rt sha parent previous =
     rbind (plausible_event_types previous) (\<lambda>types.
     or_raise (revision_if (ev_event_type parent \<notin> set types \<or> envelope_invalid parent \<or>
         ev_stream_id parent \<noteq> gs_session_id previous \<or> ev_stream_version parent \<noteq> gs_version previous)
       ''GateSession event parent is invalid'')
     (rbind (plain_payload (ev_payload parent) ''GateSession parent event payload'') (\<lambda>payload.
      or_raise (first_error
        [revision_if (set (dict_keys payload) \<noteq> set PAYLOAD_FIELDS) ''GateSession parent event payload fields are invalid'',
         revision_if (dict_get payload (u ''contract_version'') \<noteq> Some (PStr GATE_SESSION_EVENT_CONTRACT_VERSION))
           ''GateSession parent event contract version is invalid''])
      (rbind (payload_session payload ''GateSession parent event session'' ''GateSession parent event contains an invalid revision'') (\<lambda>session.
       or_raise (revision_if (session \<noteq> previous) ''GateSession parent does not contain the previous revision'')
       (rbind (gate_session_revision_sha256 rt sha session) (\<lambda>d.
        or_raise (first_error
          [revision_if (dict_get payload (u ''session_sha256'') \<noteq> Some (PStr d)) ''GateSession parent revision digest is invalid'',
           (if gs_version session = 1
            then revision_if (dict_get payload (u ''previous_session_sha256'') \<noteq> Some PNone)
              ''first GateSession parent cannot name a prior revision''
            else revision_if (case dict_get payload (u ''previous_session_sha256'') of
                Some (PStr x) \<Rightarrow> \<not> tagged_digest (u ''sha256:'') x | _ \<Rightarrow> True)
              ''GateSession parent prior revision digest is invalid''),
           revision_if (dict_get payload (u ''transition_authorization_event_id'') \<noteq> Some (PStr (ev_authorization_decision_id parent)))
             ''GateSession parent authorization linkage is invalid'',
           verify_event_identity session parent])
        (verify_deterministic_envelope rt sha session parent payload))))))))"

section \<open>Reading and writing\<close>

definition previous_sha256 :: "runtime \<Rightarrow> (pystr \<Rightarrow> pystr) \<Rightarrow> GateSession option \<Rightarrow> pyval result" where
  "previous_sha256 rt sha previous_session =
     (case previous_session of None \<Rightarrow> Inr PNone | Some p \<Rightarrow> rbind (gate_session_revision_sha256 rt sha p) (Inr \<circ> PStr))"

definition verify_parent_link ::
  "runtime \<Rightarrow> (pystr \<Rightarrow> pystr) \<Rightarrow> CanonicalEvent \<Rightarrow> GateSession option \<Rightarrow> CanonicalEvent option \<Rightarrow> unit result" where
  "verify_parent_link rt sha event previous_session parent_event =
     (case (parent_event, previous_session) of
        (None, _) \<Rightarrow> Inr ()
      | (Some parent, None) \<Rightarrow> Inl (revision_invalid ''first GateSession event cannot have a parent'')
      | (Some parent, Some p) \<Rightarrow>
          rbind (verify_parent_revision rt sha parent p) (\<lambda>_.
          or_raise (revision_if (verify_event_parent event (Some parent) \<noteq> None) ''GateSession event parent chain is invalid'') (Inr ())))"

definition parse_gate_session_event ::
  "runtime \<Rightarrow> (pystr \<Rightarrow> pystr) \<Rightarrow> CanonicalEvent \<Rightarrow> GateSession option \<Rightarrow> CanonicalEvent option \<Rightarrow> GateSession result" where
  "parse_gate_session_event rt sha event previous_session parent_event =
     or_raise (first_error
       [revision_if (ev_event_type event \<notin> set GATE_SESSION_EVENT_TYPES) ''event is not a GateSession revision event'',
        revision_if (envelope_invalid event) ''GateSession event envelope is invalid''])
     (rbind (plain_payload (ev_payload event) ''GateSession event payload'') (\<lambda>payload.
      or_raise (first_error
        [revision_if (set (dict_keys payload) \<noteq> set PAYLOAD_FIELDS) ''GateSession event payload fields are invalid'',
         revision_if (dict_get payload (u ''contract_version'') \<noteq> Some (PStr GATE_SESSION_EVENT_CONTRACT_VERSION))
           ''GateSession event payload contract version is invalid''])
      (rbind (payload_session payload ''GateSession event session'' ''GateSession event contains an invalid revision'') (\<lambda>session.
       rbind (gate_session_revision_sha256 rt sha session) (\<lambda>d.
       or_raise (revision_if (dict_get payload (u ''session_sha256'') \<noteq> Some (PStr d)) ''GateSession event session digest is invalid'')
       (rbind (previous_sha256 rt sha previous_session) (\<lambda>expected_previous.
        or_raise (first_error
          [revision_if (dict_get payload (u ''previous_session_sha256'') \<noteq> Some expected_previous)
             ''GateSession event previous revision digest is invalid'',
           revision_if (dict_get payload (u ''transition_authorization_event_id'') \<noteq> Some (PStr (ev_authorization_decision_id event)))
             ''GateSession event authorization linkage is invalid'',
           revision_if (ev_stream_id event \<noteq> gs_session_id session \<or> ev_stream_version event \<noteq> gs_version session)
             ''GateSession event stream identity is invalid'',
           verify_event_identity session event])
        (rbind (gate_session_event_type session previous_session) (\<lambda>event_type.
         or_raise (revision_if (event_type \<noteq> ev_event_type event) ''GateSession event type does not match its revision'')
         (rbind (verify_deterministic_envelope rt sha session event payload) (\<lambda>_.
          rbind (verify_parent_link rt sha event previous_session parent_event) (\<lambda>_.
          rbind (verify_revision_transition previous_session session) (\<lambda>_.
          Inr session)))))))))))))"

definition parent_fits :: "GateSession \<Rightarrow> CanonicalEvent \<Rightarrow> bool" where
  "parent_fits session parent \<longleftrightarrow> ev_stream_id parent = gs_session_id session \<and>
     ev_stream_type parent = GATE_SESSION_EVENT_STREAM_TYPE \<and> ev_stream_version parent = gs_version session - 1 \<and>
     ev_event_type parent \<in> set GATE_SESSION_EVENT_TYPES"

definition verify_build_parent ::
  "runtime \<Rightarrow> (pystr \<Rightarrow> pystr) \<Rightarrow> GateSession \<Rightarrow> GateSession option \<Rightarrow> CanonicalEvent option \<Rightarrow> unit result" where
  "verify_build_parent rt sha session previous_session parent_event =
     (case (previous_session, parent_event) of
        (None, None) \<Rightarrow> Inr ()
      | (Some p, Some parent) \<Rightarrow>
          or_raise (revision_if (\<not> parent_fits session parent) ''GateSession event parent is invalid'') (verify_parent_revision rt sha parent p)
      | _ \<Rightarrow> Inl (revision_invalid ''GateSession event parent and previous revision must align''))"

definition revision_payload :: "(pystr, pyval) dict \<Rightarrow> pystr \<Rightarrow> pyval \<Rightarrow> pystr \<Rightarrow> (pystr, pyval) dict" where
  "revision_payload session_payload session_sha256 previous authorization =
     [(u ''contract_version'', PStr GATE_SESSION_EVENT_CONTRACT_VERSION), (u ''session'', PDict (str_keys session_payload)),
      (u ''session_sha256'', PStr session_sha256), (u ''previous_session_sha256'', previous),
      (u ''transition_authorization_event_id'', PStr authorization)]"

text \<open>The keyword arguments of \<^verbatim>\<open>build_canonical_event\<close>; the fields that it sets itself are empty here.\<close>

definition revision_request ::
  "GateSession \<Rightarrow> pystr \<Rightarrow> pystr \<Rightarrow> pystr \<Rightarrow> pystr \<Rightarrow> pystr \<Rightarrow> (pystr, pyval) dict \<Rightarrow> CanonicalEvent option \<Rightarrow> int \<Rightarrow> CanonicalEvent" where
  "revision_request session event_type event_id identity command correlation payload parent_event global_position =
     \<lparr>ev_event_id = event_id, ev_event_sha256 = [], ev_event_type = event_type, ev_event_version = GATE_SESSION_EVENT_VERSION,
      ev_event_kind = u ''domain'', ev_origin = u ''native'', ev_source = None, ev_stream_id = gs_session_id session,
      ev_stream_type = GATE_SESSION_EVENT_STREAM_TYPE, ev_stream_version = gs_version session, ev_global_position = global_position,
      ev_organization_id = [], ev_tenant_id = [], ev_repository_id = [], ev_environment_id = [], ev_principal_id = [],
      ev_agent_client_id = [], ev_actor_type = [], ev_actor_id = [], ev_authorization_decision_id = [],
      ev_request_id = u ''gate_request_'' @ take 48 (digest_hex identity), ev_idempotency_key_sha256 = identity,
      ev_request_sha256 = command, ev_correlation_id = u ''gate_correlation_'' @ take 40 (digest_hex correlation),
      ev_causation_id = map_option ev_event_id parent_event, ev_occurred_at = Some (gs_updated_at session),
      ev_recorded_at = gs_updated_at session, ev_producer = GATE_SESSION_EVENT_PRODUCER,
      ev_producer_version = GATE_SESSION_EVENT_PRODUCER_VERSION, ev_payload_schema = event_type @ u ''.v1'', ev_payload_sha256 = [],
      ev_previous_stream_event_sha256 = map_option ev_event_sha256 parent_event, ev_classification = u ''internal'',
      ev_retention_policy_id = GATE_SESSION_EVENT_RETENTION_POLICY_ID, ev_artifact_refs = [], ev_payload = str_keys payload,
      ev_protocol_version = []\<rparr>"

definition build_gate_session_event ::
  "runtime \<Rightarrow> (pystr \<Rightarrow> pystr) \<Rightarrow> GateSession \<Rightarrow> GateSession option \<Rightarrow> CanonicalEvent option \<Rightarrow> int \<Rightarrow> EventTrustedContext \<Rightarrow>
   CanonicalEvent result" where
  "build_gate_session_event rt sha session previous_session parent_event global_position trusted_context =
     rbind (gate_session_event_type session previous_session) (\<lambda>event_type.
     or_raise (verify_context session trusted_context)
     (rbind (verify_build_parent rt sha session previous_session parent_event) (\<lambda>_.
      rbind (session_to_dict session) (\<lambda>session_payload.
      rbind (gate_session_revision_sha256 rt sha session) (\<lambda>d.
      rbind (previous_sha256 rt sha previous_session) (\<lambda>previous.
      let payload = revision_payload session_payload d previous (tc_authorization_decision_id trusted_context) in
      rbind (event_command_sha256 rt sha event_type payload (tc_authorization_decision_id trusted_context)) (\<lambda>command.
      rbind (event_identity_sha256 rt sha (gs_session_id session) (gs_version session)) (\<lambda>identity.
      rbind (gate_session_event_id rt sha session) (\<lambda>event_id.
      rbind (correlation_sha256 rt sha (gs_session_id session)) (\<lambda>correlation.
      rbind (build_canonical_event rt sha trusted_context
          (revision_request session event_type event_id identity command correlation payload parent_event global_position)) (\<lambda>event.
      or_raise (revision_if (verify_event_parent event parent_event \<noteq> None) ''GateSession event parent chain is invalid'')
      (rbind (parse_gate_session_event rt sha event previous_session parent_event) (\<lambda>_.
       Inr event)))))))))))))"

end
