(* ===== verification/GateSessionEventFacts.thy ===== *)
theory GateSessionEventFacts
  imports GateSessionEvent
begin

text \<open>
  What an accepted history of gate session events shows: each event records the next step of the session
  machine, so the history keeps identity and evidence, counts the revisions and stops at a terminal status.
  A revision whose predecessor has a creation time that is not canonical cannot be recorded.
\<close>

section \<open>Accepted events\<close>

lemma parsed_session_valid: "parse_gate_session d = Inr s \<Longrightarrow> session_error s = None"
  unfolding parse_gate_session_def by (auto simp: result_simps)

lemma payload_session_valid: "payload_session payload n m = Inr s \<Longrightarrow> session_error s = None"
  by (auto simp: payload_session_def result_simps intro: parsed_session_valid)

lemma parsed_event:
  assumes "parse_gate_session_event rt sha e prev parent = Inr s"
  shows "session_error s = None" "ev_stream_id e = gs_session_id s" "ev_stream_version e = gs_version s"
    "prev = None \<Longrightarrow> gs_status s = u ''created'' \<and> gs_version s = 1"
    "\<And>p. prev = Some p \<Longrightarrow> expected_revision p s = Inr s" "\<And>p. parent = Some p \<Longrightarrow> verify_event_parent e (Some p) = None"
    "\<exists>payload. object_entries (ev_payload e) = Some payload \<and> payload_session payload ''GateSession event session'' ''GateSession event contains an invalid revision'' = Inr s"
proof -
  obtain payload where p: "object_entries (ev_payload e) = Some payload"
    "payload_session payload ''GateSession event session'' ''GateSession event contains an invalid revision'' = Inr s"
    and i: "ev_stream_id e = gs_session_id s" "ev_stream_version e = gs_version s"
    and t: "\<exists>t. gate_session_event_type s prev = Inr t" and l: "verify_parent_link rt sha e prev parent = Inr ()"
    and v: "verify_revision_transition prev s = Inr ()"
    using assms unfolding parse_gate_session_event_def plain_payload_def by (auto simp: result_simps split: option.splits)
  show "session_error s = None" using p(2) by (rule payload_session_valid)
  show "ev_stream_id e = gs_session_id s" "ev_stream_version e = gs_version s" by (rule i)+
  show "prev = None \<Longrightarrow> gs_status s = u ''created'' \<and> gs_version s = 1" using t by (auto simp: gate_session_event_type_def result_simps)
  show "prev = Some p \<Longrightarrow> expected_revision p s = Inr s" for p using v by (auto simp: verify_revision_transition_def result_simps)
  show "parent = Some p \<Longrightarrow> verify_event_parent e (Some p) = None" for p
    using l by (auto simp: verify_parent_link_def result_simps split: option.splits)
  show "\<exists>payload. object_entries (ev_payload e) = Some payload \<and>
      payload_session payload ''GateSession event session'' ''GateSession event contains an invalid revision'' = Inr s" using p by blast
qed

lemma expected_is_step: "expected_revision p s = Inr t \<Longrightarrow> \<exists>op. session_step op p = Inr t"
proof -
  assume e: "expected_revision p s = Inr t"
  show ?thesis
  proof (cases "gs_status s = gs_status p")
    case True
    then obtain l where "renew_gate_session_lease p (gs_version p) (gs_updated_at s) l = Inr t"
      using e by (auto simp: expected_revision_def result_simps split: option.splits)
    then show ?thesis by (intro exI [of _ "RenewLease (gs_version p) (gs_updated_at s) l"]) (simp add: session_step_def)
  next
    case False
    then have "transition_gate_session p (gs_status s) (gs_version p) (gs_updated_at s) (revision_fields s) = Inr t"
      using e by (simp add: expected_revision_def result_simps)
    then show ?thesis
      by (intro exI [of _ "Transition (gs_status s) (gs_version p) (gs_updated_at s) (revision_fields s)"]) (simp add: session_step_def)
  qed
qed

section \<open>Histories\<close>

text \<open>The history of one session: every revision is read against the previous one and kept in its written form.\<close>

fun replay_session :: "runtime \<Rightarrow> (pystr \<Rightarrow> pystr) \<Rightarrow> GateSession option \<Rightarrow> CanonicalEvent list \<Rightarrow> GateSession option result" where
  "replay_session rt sha prev [] = Inr prev"
| "replay_session rt sha prev (e # es) =
     rbind (parse_gate_session_event rt sha e prev None) (\<lambda>s.
     rbind (canonical_session s) (\<lambda>c. replay_session rt sha (Some c) es))"

lemma replay_append:
  "replay_session rt sha prev (xs @ ys) = rbind (replay_session rt sha prev xs) (\<lambda>b. replay_session rt sha b ys)"
proof (induction xs arbitrary: prev)
  case (Cons e xs)
  show ?case
  proof (cases "parse_gate_session_event rt sha e prev None")
    case (Inr s)
    then show ?thesis using Cons.IH by (cases "canonical_session s") simp_all
  qed simp
qed simp

lemma canonical_session_fields:
  assumes "canonical_session s = Inr c"
  shows "gs_session_id c = gs_session_id s" "gs_version c = gs_version s" "gs_status c = gs_status s"
    "evidence_kept b s \<Longrightarrow> evidence_kept b c" "canonical_rfc3339 (gs_created_at s) = Inr (gs_created_at c)"
    "canonical_rfc3339 (gs_expires_at s) = Inr (gs_expires_at c)"
  using assms by (auto simp: canonical_session_def evidence_kept_def result_simps)

lemma canonical_identity:
  assumes c: "canonical_session s = Inr c" and p: "canonical_session p = Inr p" and s: "session_identity s = session_identity p"
  shows "session_identity c = session_identity p"
proof -
  obtain a b x l where "canonical_rfc3339 (gs_created_at s) = Inr a" "canonical_rfc3339 (gs_expires_at s) = Inr x"
    and eq: "c = s\<lparr>gs_created_at := a, gs_updated_at := b, gs_expires_at := x, gs_lease_expires_at := l\<rparr>"
    using c by (auto simp: canonical_session_def result_simps)
  moreover have t: "gs_created_at s = gs_created_at p" "gs_expires_at s = gs_expires_at p" using s by (simp_all add: session_identity_def)
  ultimately have "a = gs_created_at p" "x = gs_expires_at p" using canonical_session_fields(5,6) [OF p] by simp_all
  then show ?thesis using s by (simp add: eq session_identity_def)
qed

definition recorded :: "GateSession \<Rightarrow> bool" where
  "recorded s \<longleftrightarrow> session_error s = None \<and> canonical_session s = Inr s"

lemma replay_first:
  assumes "parse_gate_session_event rt sha e None None = Inr s" and "canonical_session s = Inr c"
  shows "recorded c \<and> gs_version c = 1 \<and> ev_stream_id e = gs_session_id c \<and> ev_stream_version e = 1"
  using parsed_event [OF assms(1)] canonical_session_Inr [OF assms(2)] canonical_session_fields [OF assms(2)] same_session_valid
  by (auto simp: recorded_def)

definition revision_after :: "GateSession \<Rightarrow> GateSession \<Rightarrow> bool" where
  "revision_after p c \<longleftrightarrow> session_identity c = session_identity p \<and> evidence_kept p c"

lemma revision_after_refl: "revision_after p p"
  by (simp add: revision_after_def evidence_kept_def kept_def kept_list_def)

lemma revision_after_trans: "revision_after a b \<Longrightarrow> revision_after b c \<Longrightarrow> revision_after a c"
  unfolding revision_after_def evidence_kept_def by (intro conjI) (simp | (elim conjE, metis kept_trans))+

lemma replay_next:
  assumes p: "recorded p" and s: "parse_gate_session_event rt sha e (Some p) None = Inr s" and c: "canonical_session s = Inr c"
  shows "recorded c \<and> gs_version c = gs_version p + 1 \<and> revision_after p c \<and> gs_status p \<notin> set TERMINAL_STATUSES \<and>
    ev_stream_id e = gs_session_id c \<and> ev_stream_version e = gs_version c"
proof -
  obtain op where op: "session_step op p = Inr s" using expected_is_step parsed_event(5) [OF s] by blast
  have v: "session_error p = None" "canonical_session p = Inr p" using p by (simp_all add: recorded_def)
  note f = step_forward [OF v(1) op]
  have "session_identity c = session_identity p" by (rule canonical_identity [OF c v(2) f(2)])
  moreover have "evidence_kept p c" by (rule canonical_session_fields(4) [OF c step_keeps_evidence [OF v(1) op]])
  ultimately show ?thesis
    using f canonical_session_Inr [OF c] same_session_valid canonical_session_fields [OF c] parsed_event(2,3) [OF s]
    by (auto simp: recorded_def revision_after_def)
qed

lemma replay_from:
  assumes "recorded p" and "replay_session rt sha (Some p) es = Inr r"
  shows "\<exists>c. r = Some c \<and> recorded c \<and> gs_version c = gs_version p + int (length es) \<and> revision_after p c \<and>
    (gs_status p \<in> set TERMINAL_STATUSES \<longrightarrow> es = []) \<and>
    (\<forall>i<length es. ev_stream_id (es ! i) = gs_session_id p \<and> ev_stream_version (es ! i) = gs_version p + int i + 1)"
  using assms
proof (induction es arbitrary: p)
  case Nil
  then show ?case using revision_after_refl by auto
next
  case (Cons e es)
  then obtain s c where s: "parse_gate_session_event rt sha e (Some p) None = Inr s" "canonical_session s = Inr c"
    and rest: "replay_session rt sha (Some c) es = Inr r"
    by (auto simp: result_simps)
  note n = replay_next [OF Cons.prems(1) s]
  then obtain d where d: "r = Some d" "recorded d" "gs_version d = gs_version c + int (length es)" "revision_after c d"
    "\<forall>i<length es. ev_stream_id (es ! i) = gs_session_id c \<and> ev_stream_version (es ! i) = gs_version c + int i + 1"
    using Cons.IH [OF _ rest] by blast
  have id: "gs_session_id c = gs_session_id p" using n by (simp add: revision_after_def session_identity_def)
  have "ev_stream_id ((e # es) ! i) = gs_session_id p \<and> ev_stream_version ((e # es) ! i) = gs_version p + int i + 1"
    if "i < length (e # es)" for i
    using that n d(5) id by (cases i) auto
  moreover have "revision_after p d" using n d(4) revision_after_trans by blast
  ultimately show ?case using n d by auto
qed

lemma replay_history:
  assumes "replay_session rt sha None es = Inr (Some c)"
  shows "recorded c \<and> gs_version c = int (length es) \<and>
    (\<forall>i<length es. ev_stream_id (es ! i) = gs_session_id c \<and> ev_stream_version (es ! i) = int i + 1)"
proof (cases es)
  case Nil
  then show ?thesis using assms by simp
next
  case (Cons e xs)
  then obtain s b where s: "parse_gate_session_event rt sha e None None = Inr s" "canonical_session s = Inr b"
    and rest: "replay_session rt sha (Some b) xs = Inr (Some c)" using assms by (auto simp: result_simps)
  note f = replay_first [OF s]
  from replay_from [OF _ rest] f have "recorded c" "gs_version c = 1 + int (length xs)" "revision_after b c"
    "\<forall>i<length xs. ev_stream_id (xs ! i) = gs_session_id b \<and> ev_stream_version (xs ! i) = 1 + int i + 1" by auto
  moreover have "gs_session_id c = gs_session_id b" using \<open>revision_after b c\<close> by (simp add: revision_after_def session_identity_def)
  ultimately show ?thesis using f Cons by (auto simp: nth_Cons split: nat.splits)
qed

section \<open>Creation times that are not canonical\<close>

lemma canonical_rfc3339_fix: "canonical_rfc3339 t = Inr c \<Longrightarrow> canonical_rfc3339 c = Inr c"
  using canonical_rfc3339_Inr by blast

lemma built_payload:
  assumes "build_canonical_event rt sha ctx q = Inr e"
  shows "ev_payload e = ev_payload q"
  using assms unfolding build_canonical_event_def Let_def
  by (auto simp: result_simps construct_event_def in_context_def bounded_payload_copy_def split: option.splits if_splits)

lemma built_canonical: "build_canonical_event rt sha ctx q = Inr e \<Longrightarrow> canonical_event_error rt sha e = None"
  unfolding build_canonical_event_def Let_def by (auto simp: result_simps construct_event_def split: option.splits if_splits)

lemma built_event:
  assumes b: "build_gate_session_event rt sha s prev parent g ctx = Inr e"
  shows "\<exists>d r v a. session_to_dict s = Inr d \<and> ev_payload e = str_keys (revision_payload d r v a)"
    "\<exists>z. parse_gate_session_event rt sha e prev parent = Inr z" "verify_event_parent e parent = None"
    "canonical_event_error rt sha e = None"
proof -
  obtain d q r v a t i x y c where d: "session_to_dict s = Inr d"
    and e: "build_canonical_event rt sha ctx (revision_request s t i x y c (revision_payload d r v a) parent g) = Inr e"
    and p: "verify_event_parent e parent = None" "parse_gate_session_event rt sha e prev parent = Inr q"
    using b unfolding build_gate_session_event_def Let_def by (auto simp: result_simps)
  show "\<exists>d r v a. session_to_dict s = Inr d \<and> ev_payload e = str_keys (revision_payload d r v a)"
    using d built_payload [OF e] by (auto simp: revision_request_def)
  show "\<exists>z. parse_gate_session_event rt sha e prev parent = Inr z" "verify_event_parent e parent = None" using p by blast+
  show "canonical_event_error rt sha e = None" by (rule built_canonical [OF e])
qed

lemma built_revision:
  assumes b: "build_gate_session_event rt sha s prev parent g ctx = Inr e" and v: "session_error s = None"
  shows "\<exists>c. canonical_session s = Inr c \<and> parse_gate_session_event rt sha e prev parent = Inr c"
proof -
  obtain d r w a z where d: "session_to_dict s = Inr d" and e: "ev_payload e = str_keys (revision_payload d r w a)"
    and z: "parse_gate_session_event rt sha e prev parent = Inr z" using built_event [OF b] by blast
  obtain c where c: "canonical_session s = Inr c" and f: "d = session_fields c" using d by (auto simp: session_to_dict_def result_simps)
  have "session_error c = None" using canonical_session_Inr(1) [OF c] v same_session_valid by blast
  then have "parse_gate_session d = Inr c" unfolding f by (rule parse_session_fields)
  moreover have "payload_session (revision_payload d r w a) ''GateSession event session'' ''GateSession event contains an invalid revision'' = Inr z"
    using parsed_event(7) [OF z] by (simp add: e)
  ultimately have "z = c" by (simp add: payload_session_def revision_payload_def plain_payload_def result_simps)
  then show ?thesis using c z by blast
qed

lemma noncanonical_step_refused:
  assumes p: "canonical_rfc3339 (gs_created_at p) \<noteq> Inr (gs_created_at p)" "session_error p = None" and v: "session_error s = None"
  shows "\<exists>x. build_gate_session_event rt sha s (Some p) parent g ctx = Inl x"
proof (cases "build_gate_session_event rt sha s (Some p) parent g ctx")
  case (Inr e)
  obtain c where c: "canonical_session s = Inr c" and parsed: "parse_gate_session_event rt sha e (Some p) parent = Inr c"
    using built_revision [OF Inr v] by blast
  obtain op where op: "session_step op p = Inr c" using expected_is_step parsed_event(5) [OF parsed] by blast
  have "gs_created_at c = gs_created_at p" using step_forward(2) [OF p(2) op] by (simp add: session_identity_def)
  moreover have "canonical_rfc3339 (gs_created_at c) = Inr (gs_created_at c)"
    using canonical_rfc3339_fix canonical_session_fields(5) [OF c] by blast
  ultimately show ?thesis using p(1) by simp
qed simp

end
