(* ===== verification/GateSessionReducer.thy ===== *)
theory GateSessionReducer
  imports GateSessionEventFacts
begin

text \<open>
  The projection of gate sessions, \<^verbatim>\<open>gate_session_reducer_v1.py\<close>: a fold over the whole event log that keeps, per
  session, its current written form and the head of its stream. The state is a JSON object. Of the typed view of
  an event and of the event of a reducer, the fields that the transition reads are modelled. Run on any log
  it computes, for each session, the history of its own stream.
\<close>

section \<open>The reducer\<close>

record TypedEventView =
  tv_event_type :: pystr
  tv_target_version :: int
  tv_payload :: pydict

record ReducerEvent =
  rv_source_event :: CanonicalEvent
  rv_typed_event :: "TypedEventView option"

definition reducer_rejected :: "string \<Rightarrow> py_error" where
  "reducer_rejected message = ContractError (u ''TBM_GATE_SESSION_REDUCER_EVENT_INVALID'') (u message)"

definition reducer_state_invalid :: "string \<Rightarrow> py_error" where
  "reducer_state_invalid message = ContractError (u ''TBM_GATE_SESSION_REDUCER_STATE_INVALID'') (u message)"

definition reducer_if :: "bool \<Rightarrow> string \<Rightarrow> py_error option" where
  "reducer_if b message = (if b then Some (reducer_rejected message) else None)"

lemma reducer_if_None_iff [simp]: "reducer_if b m = None \<longleftrightarrow> \<not> b"
  by (simp add: reducer_if_def)

definition initial_projection :: "(pystr, pyval) dict" where
  "initial_projection = [(u ''sessions'', PDict []), (u ''heads'', PDict [])]"

definition mapping_copy :: "pyval option \<Rightarrow> string \<Rightarrow> (pystr, pyval) dict result" where
  "mapping_copy value name =
     (case (case value of Some (PDict d) \<Rightarrow> object_entries d | _ \<Rightarrow> None) of
        None \<Rightarrow> Inl (reducer_rejected (name @ '' projection state is invalid'')) | Some obj \<Rightarrow> Inr obj)"

text \<open>A dictionary that was written by \<^verbatim>\<open>to_dict\<close>, read by the parser of sessions.\<close>

definition parse_written :: "pyval \<Rightarrow> GateSession result" where
  "parse_written v =
     (case v of
        PDict d \<Rightarrow> (case object_entries d of Some obj \<Rightarrow> parse_gate_session obj | None \<Rightarrow> Inl (session_invalid (u ''GateSession payload must be an object'')))
      | _ \<Rightarrow> Inl (session_invalid (u ''GateSession payload must be an object'')))"

definition retained_session :: "(pystr, pyval) dict \<Rightarrow> pystr \<Rightarrow> GateSession option result" where
  "retained_session sessions stream_id =
     (case dict_get sessions stream_id of
        None \<Rightarrow> Inr None
      | Some PNone \<Rightarrow> Inr None
      | Some v \<Rightarrow>
          (case parse_written v of
             Inl _ \<Rightarrow> Inl (reducer_state_invalid ''retained GateSession projection state is invalid'')
           | Inr s \<Rightarrow> Inr (Some s)))"

fun reducer_event_error :: "py_error \<Rightarrow> py_error" where
  "reducer_event_error (ContractError code message) =
     (if code = u ''TBM_GATE_SESSION_EVENT_INVALID'' then reducer_rejected ''GateSession event cannot update the projection''
      else ContractError code message)"
| "reducer_event_error e = e"

definition HEAD_FIELDS :: "pystr list" where
  "HEAD_FIELDS =
     map u [''session_version'', ''event_id'', ''event_sha256'', ''global_position'', ''organization_id'', ''tenant_id'', ''repository_id'',
       ''environment_id'', ''authorization_decision_id'']"

text \<open>\<^verbatim>\<open>raw_head.get(name) == value\<close>\<close>

definition head_value :: "(pystr, pyval) dict \<Rightarrow> string \<Rightarrow> pyval \<Rightarrow> bool" where
  "head_value head name value = py_eq (case dict_get head (u name) of None \<Rightarrow> PNone | Some v \<Rightarrow> v) value"

definition head_extended :: "(pystr, pyval) dict \<Rightarrow> CanonicalEvent \<Rightarrow> bool" where
  "head_extended head source \<longleftrightarrow>
     set (dict_keys head) = set HEAD_FIELDS \<and>
     head_value head ''session_version'' (PNum (PyInt (ev_stream_version source - 1))) \<and>
     head_value head ''event_sha256'' (str_or_none (ev_previous_stream_event_sha256 source)) \<and>
     head_value head ''event_id'' (str_or_none (ev_causation_id source)) \<and>
     (case dict_get head (u ''global_position'') of Some (PNum (PyInt g)) \<Rightarrow> g < ev_global_position source | _ \<Rightarrow> False) \<and>
     head_value head ''organization_id'' (PStr (ev_organization_id source)) \<and> head_value head ''tenant_id'' (PStr (ev_tenant_id source)) \<and>
     head_value head ''repository_id'' (PStr (ev_repository_id source)) \<and> head_value head ''environment_id'' (PStr (ev_environment_id source))"

definition head_error :: "(pystr, pyval) dict \<Rightarrow> CanonicalEvent \<Rightarrow> py_error option" where
  "head_error heads source =
     (case dict_get heads (ev_stream_id source) of
        Some v \<Rightarrow>
          (case (case v of PDict d \<Rightarrow> object_entries d | _ \<Rightarrow> None) of
             None \<Rightarrow> Some (reducer_rejected ''retained GateSession projection head is invalid'')
           | Some head \<Rightarrow> reducer_if (\<not> head_extended head source) ''GateSession event does not extend the retained head'')
      | None \<Rightarrow> reducer_if (ev_stream_version source \<noteq> 1) ''GateSession projection cannot start after revision 1'')"

definition projection_head :: "GateSession \<Rightarrow> CanonicalEvent \<Rightarrow> (pystr, pyval) dict" where
  "projection_head session source =
     [(u ''session_version'', PNum (PyInt (gs_version session))), (u ''event_id'', PStr (ev_event_id source)),
      (u ''event_sha256'', PStr (ev_event_sha256 source)), (u ''global_position'', PNum (PyInt (ev_global_position source))),
      (u ''organization_id'', PStr (ev_organization_id source)), (u ''tenant_id'', PStr (ev_tenant_id source)),
      (u ''repository_id'', PStr (ev_repository_id source)), (u ''environment_id'', PStr (ev_environment_id source)),
      (u ''authorization_decision_id'', PStr (ev_authorization_decision_id source))]"

definition typed_event_error :: "ReducerEvent \<Rightarrow> py_error option" where
  "typed_event_error reducer_event =
     (case rv_typed_event reducer_event of
        None \<Rightarrow> Some (reducer_rejected ''typed GateSession event is required'')
      | Some typed \<Rightarrow> first_error
          [reducer_if (tv_target_version typed \<noteq> 1 \<or> tv_event_type typed \<noteq> ev_event_type (rv_source_event reducer_event))
             ''typed GateSession event version is invalid'',
           reducer_if (\<not> py_eq (PDict (tv_payload typed)) (PDict (ev_payload (rv_source_event reducer_event))))
             ''typed GateSession payload differs from its source event''])"

definition session_transition ::
  "runtime \<Rightarrow> (pystr \<Rightarrow> pystr) \<Rightarrow> (pystr, pyval) dict \<Rightarrow> ReducerEvent \<Rightarrow> (pystr, pyval) dict result" where
  "session_transition rt sha state reducer_event =
     or_raise (typed_event_error reducer_event)
     (rbind (mapping_copy (dict_get state (u ''sessions'')) ''sessions'') (\<lambda>sessions.
      rbind (mapping_copy (dict_get state (u ''heads'')) ''heads'') (\<lambda>heads.
      let source = rv_source_event reducer_event in
      rbind (retained_session sessions (ev_stream_id source)) (\<lambda>previous.
      case parse_gate_session_event rt sha source previous None of
        Inl e \<Rightarrow> Inl (reducer_event_error e)
      | Inr session \<Rightarrow>
          or_raise (head_error heads source)
          (rbind (session_to_dict session) (\<lambda>written.
           Inr [(u ''sessions'', PDict (str_keys (dict_set (ev_stream_id source) (PDict (str_keys written)) sessions))),
                (u ''heads'', PDict (str_keys (dict_set (ev_stream_id source) (PDict (str_keys (projection_head session source))) heads)))]))))))"

section \<open>Reading the projection\<close>

definition projected_gate_session :: "(pystr, pyval) dict \<Rightarrow> pystr \<Rightarrow> GateSession result" where
  "projected_gate_session state session_id =
     (case (case dict_get state (u ''sessions'') of Some (PDict d) \<Rightarrow> object_entries d | _ \<Rightarrow> None) of
        None \<Rightarrow> Inl (reducer_rejected ''GateSession is absent from projection state'')
      | Some sessions \<Rightarrow>
          (case dict_get sessions session_id of
             None \<Rightarrow> Inl (reducer_rejected ''GateSession is absent from projection state'')
           | Some (PDict d) \<Rightarrow>
               (case parse_written (PDict d) of
                  Inl _ \<Rightarrow> Inl (reducer_state_invalid ''projected GateSession payload is invalid'') | Inr s \<Rightarrow> Inr s)
           | Some _ \<Rightarrow> Inl (reducer_rejected ''projected GateSession payload is invalid'')))"

definition expected_sessions :: "GateSession list \<Rightarrow> (pystr, GateSession) dict" where
  "expected_sessions sessions = fold (\<lambda>s d. dict_set (gs_session_id s) s d) sessions []"

definition verify_gate_session_projection_parity :: "(pystr, pyval) dict \<Rightarrow> GateSession list \<Rightarrow> py_error option" where
  "verify_gate_session_projection_parity state sessions =
     (let expected = expected_sessions sessions in
      case (case dict_get state (u ''sessions'') of Some (PDict d) \<Rightarrow> object_entries d | _ \<Rightarrow> None) of
        None \<Rightarrow> Some (reducer_rejected ''GateSession projection identity set differs from authority rows'')
      | Some projected \<Rightarrow>
          first_error
            (reducer_if (set (dict_keys projected) \<noteq> set (dict_keys expected))
               ''GateSession projection identity set differs from authority rows'' #
             map (\<lambda>(session_id, session).
               case projected_gate_session state session_id of
                 Inl e \<Rightarrow> Some e
               | Inr s \<Rightarrow> reducer_if (s \<noteq> session) ''GateSession projection differs from authority row'') expected))"

section \<open>The projection of a log\<close>

fun project_sessions ::
  "runtime \<Rightarrow> (pystr \<Rightarrow> pystr) \<Rightarrow> (pystr, pyval) dict \<Rightarrow> ReducerEvent list \<Rightarrow> (pystr, pyval) dict result" where
  "project_sessions rt sha state [] = Inr state"
| "project_sessions rt sha state (e # es) = rbind (session_transition rt sha state e) (\<lambda>state'. project_sessions rt sha state' es)"

definition stream_log :: "ReducerEvent list \<Rightarrow> pystr \<Rightarrow> CanonicalEvent list" where
  "stream_log es i = filter (\<lambda>e. ev_stream_id e = i) (map rv_source_event es)"

definition written :: "GateSession \<Rightarrow> pyval" where
  "written c = PDict (str_keys (session_fields c))"

lemma parse_written_written: "session_error c = None \<Longrightarrow> parse_written (written c) = Inr c"
  by (simp add: parse_written_def written_def parse_session_fields)

definition projects :: "runtime \<Rightarrow> (pystr \<Rightarrow> pystr) \<Rightarrow> (pystr, pyval) dict \<Rightarrow> (pystr \<Rightarrow> CanonicalEvent list) \<Rightarrow> bool" where
  "projects rt sha state history \<longleftrightarrow> (\<exists>S H. state = [(u ''sessions'', PDict (str_keys S)), (u ''heads'', PDict (str_keys H))] \<and>
     (\<forall>i. \<exists>r. replay_session rt sha None (history i) = Inr r \<and> dict_get S i = map_option written r))"

lemma initial_projects: "projects rt sha initial_projection (\<lambda>_. [])"
  unfolding projects_def initial_projection_def by (intro exI [of _ "[]"]) (auto simp: str_keys_def)

lemma transition_projects:
  assumes p: "projects rt sha state history" and t: "session_transition rt sha state e = Inr state'"
  shows "projects rt sha state' (\<lambda>i. history i @ (if ev_stream_id (rv_source_event e) = i then [rv_source_event e] else []))"
proof -
  let ?src = "rv_source_event e" and ?i = "ev_stream_id (rv_source_event e)"
  obtain S H where st: "state = [(u ''sessions'', PDict (str_keys S)), (u ''heads'', PDict (str_keys H))]"
    and hist: "\<And>i. \<exists>r. replay_session rt sha None (history i) = Inr r \<and> dict_get S i = map_option written r"
    using p unfolding projects_def by blast
  have cp: "mapping_copy (dict_get state (u ''sessions'')) ''sessions'' = Inr S" "mapping_copy (dict_get state (u ''heads'')) ''heads'' = Inr H"
    by (simp_all add: st mapping_copy_def)
  obtain r where r: "replay_session rt sha None (history ?i) = Inr r" "dict_get S ?i = map_option written r" using hist by blast
  have "recorded c" if "r = Some c" for c using replay_history r(1) that by blast
  then have prev: "retained_session S ?i = Inr r"
    using r(2) parse_written_written by (cases r) (auto simp: retained_session_def recorded_def written_def)
  obtain s d where s: "parse_gate_session_event rt sha ?src r None = Inr s" and d: "session_to_dict s = Inr d"
    and st': "state' = [(u ''sessions'', PDict (str_keys (dict_set ?i (PDict (str_keys d)) S))),
        (u ''heads'', PDict (str_keys (dict_set ?i (PDict (str_keys (projection_head s ?src))) H)))]"
    using t unfolding session_transition_def cp rbind_simps prev Let_def by (auto simp: result_simps prev split: sum.splits)
  obtain c where c: "canonical_session s = Inr c" "d = session_fields c" using d by (auto simp: session_to_dict_def result_simps)
  have "\<exists>r. replay_session rt sha None (history i @ (if ?i = i then [?src] else [])) = Inr r \<and>
      dict_get (dict_set ?i (PDict (str_keys d)) S) i = map_option written r" for i
  proof (cases "?i = i")
    case True
    then show ?thesis using r(1) s c by (simp add: replay_append written_def dict_get_set)
  next
    case False
    then show ?thesis using hist [of i] by (auto simp: dict_get_set)
  qed
  then show ?thesis unfolding projects_def st' by blast
qed

lemma project_projects:
  "projects rt sha state history \<Longrightarrow> project_sessions rt sha state es = Inr state' \<Longrightarrow>
   projects rt sha state' (\<lambda>i. history i @ stream_log es i)"
proof (induction es arbitrary: state history)
  case (Cons e es)
  then obtain mid where m: "session_transition rt sha state e = Inr mid" "project_sessions rt sha mid es = Inr state'" by (auto simp: result_simps)
  have "(\<lambda>i. (history i @ (if ev_stream_id (rv_source_event e) = i then [rv_source_event e] else [])) @ stream_log es i) =
      (\<lambda>i. history i @ stream_log (e # es) i)"
    by (rule ext) (simp add: stream_log_def)
  then show ?case using Cons.IH [OF transition_projects [OF Cons.prems(1) m(1)] m(2)] by simp
qed (simp add: stream_log_def)

lemma projection_exact:
  assumes "project_sessions rt sha initial_projection es = Inr state"
  shows "\<exists>r. replay_session rt sha None (stream_log es i) = Inr r \<and>
    projected_gate_session state i =
      (case r of None \<Rightarrow> Inl (reducer_rejected ''GateSession is absent from projection state'') | Some c \<Rightarrow> Inr c)"
proof -
  have "projects rt sha state (stream_log es)" using project_projects [OF initial_projects assms] by simp
  then obtain S H r where st: "state = [(u ''sessions'', PDict (str_keys S)), (u ''heads'', PDict (str_keys H))]"
    and r: "replay_session rt sha None (stream_log es i) = Inr r" "dict_get S i = map_option written r"
    unfolding projects_def by blast
  show ?thesis
  proof (cases r)
    case None
    then show ?thesis using r by (simp add: projected_gate_session_def st)
  next
    case (Some c)
    then have "session_error c = None" using replay_history r(1) by (auto simp: recorded_def)
    then have "parse_written (written c) = Inr c" by (rule parse_written_written)
    then show ?thesis using r Some by (simp add: projected_gate_session_def st written_def)
  qed
qed

end
