(* ===== verification/SampleSessionEvent.thy ===== *)
theory SampleSessionEvent
  imports GateSessionReducer SampleEvent
begin

text \<open>The first two events of the concrete session: the first one is built, both are read back and projected.\<close>

definition session_event :: "GateSession \<Rightarrow> pystr \<Rightarrow> pyval \<Rightarrow> CanonicalEvent" where
  "session_event s t prev =
     (let payload = revision_payload (session_fields s) sample_digest prev (u ''auth'') in
      (revision_request s t (u ''evt_gate_'' @ sample_hex) sample_digest sample_digest sample_digest payload None (gs_version s))
      \<lparr>ev_event_sha256 := sample_digest, ev_organization_id := u ''org'', ev_environment_id := u ''env'',
       ev_tenant_id := gs_tenant_id s, ev_repository_id := gs_repository_id s, ev_principal_id := gs_principal_id s,
       ev_agent_client_id := gs_agent_client_id s, ev_actor_type := u ''service'', ev_actor_id := u ''me'',
       ev_authorization_decision_id := u ''auth'',
       ev_causation_id := (if gs_version s = 1 then None else Some (u ''evt_gate_'' @ sample_hex)),
       ev_previous_stream_event_sha256 := (if gs_version s = 1 then None else Some sample_digest),
       ev_payload_sha256 := sample_digest, ev_protocol_version := EVENT_PROTOCOL_VERSION\<rparr>)"

lemma revision_digest:
  assumes "\<forall>x\<in>set d. encodable (fst x) \<and> plain_value rt (snd x)"
  shows "revision_domain_sha256 rt sample_sha domain d = Inr sample_digest"
  using plain_object [OF assms] by (auto simp: revision_domain_sha256_def sample_sha_def sample_digest_def)

lemma digest_hex_sample: "digest_hex sample_digest = sample_hex"
  by (simp add: digest_hex_def sample_digest_def strip_prefix_append)

lemma canonical_updated: "canonical_session s = Inr s \<Longrightarrow> canonical_rfc3339 (gs_updated_at s) = Inr (gs_updated_at s)"
proof -
  assume "canonical_session s = Inr s"
  then obtain a b c l where b: "canonical_rfc3339 (gs_updated_at s) = Inr b"
    and eq: "s\<lparr>gs_created_at := a, gs_updated_at := b, gs_expires_at := c, gs_lease_expires_at := l\<rparr> = s"
    unfolding canonical_session_def by (auto simp: result_simps)
  have "gs_updated_at (s\<lparr>gs_created_at := a, gs_updated_at := b, gs_expires_at := c, gs_lease_expires_at := l\<rparr>) = b" by simp
  then show ?thesis using b unfolding eq by simp
qed

text \<open>A session in canonical form whose fields can be written.\<close>

definition writable :: "GateSession \<Rightarrow> bool" where
  "writable s \<longleftrightarrow> session_error s = None \<and> canonical_session s = Inr s \<and> encodable (gs_session_id s) \<and> 1 \<le> gs_version s \<and>
     gs_version s < 10 ^ 20 \<and> (\<forall>x\<in>set (session_fields s). encodable (fst x) \<and> plain_value event_runtime (snd x))"

lemma writable_digests:
  assumes "writable s"
  shows "gate_session_revision_sha256 event_runtime sample_sha s = Inr sample_digest"
    "event_identity_sha256 event_runtime sample_sha (gs_session_id s) (gs_version s) = Inr sample_digest"
    "event_identity_sha256 event_runtime sample_sha (gs_session_id s) (gs_version s - 1) = Inr sample_digest"
    "correlation_sha256 event_runtime sample_sha (gs_session_id s) = Inr sample_digest"
  using assms plain_number [OF event_decimal_numbers]
  by (auto simp: writable_def gate_session_revision_sha256_def session_to_dict_def event_identity_sha256_def correlation_sha256_def
      intro!: revision_digest)

lemma revision_payload_plain:
  assumes "writable s" and "plain_value event_runtime prev"
  shows "plain_value event_runtime (PDict (str_keys (revision_payload (session_fields s) sample_digest prev (u ''auth''))))"
proof -
  have "plain_value event_runtime (PDict (str_keys (session_fields s)))"
    unfolding plain_member by (rule plain_object) (use assms in \<open>simp add: writable_def\<close>)
  then show ?thesis
    by (intro iffD2 [OF plain_member plain_object])
       (use assms in \<open>simp add: revision_payload_def GATE_SESSION_EVENT_CONTRACT_VERSION_def\<close>)
qed

lemma writable_command:
  assumes "writable s" and "encodable t" and "plain_value event_runtime prev"
  shows "event_command_sha256 event_runtime sample_sha t (revision_payload (session_fields s) sample_digest prev (u ''auth'')) (u ''auth'') =
    Inr sample_digest"
  using assms revision_payload_plain by (simp add: event_command_sha256_def revision_digest)

lemma session_event_parses:
  assumes s: "writable s" and t: "t \<in> set GATE_SESSION_EVENT_TYPES" "gate_session_event_type s prev = Inr t" "encodable t"
    and p: "previous_sha256 event_runtime sample_sha prev = Inr p" "plain_value event_runtime p"
    and v: "verify_revision_transition prev s = Inr ()"
  shows "parse_gate_session_event event_runtime sample_sha (session_event s t p) prev None = Inr s"
proof -
  let ?p = "revision_payload (session_fields s) sample_digest p (u ''auth'')" and ?e = "session_event s t p"
  note e = session_event_def revision_request_def Let_def
  have env: "\<not> envelope_invalid ?e" by (simp add: envelope_invalid_def e)
  have time: "canonical_rfc3339 (gs_updated_at s) = Inr (gs_updated_at s)"
    using s canonical_updated by (simp add: writable_def)
  have "verify_deterministic_envelope event_runtime sample_sha s ?e ?p = Inr ()"
    unfolding verify_deterministic_envelope_def using writable_digests [OF s] writable_command [OF s t(3) p(2)] time
    by (simp add: e causation_of_def digest_hex_sample)
  moreover have "payload_session ?p ''GateSession event session'' ''GateSession event contains an invalid revision'' = Inr s"
    using s by (simp add: payload_session_def revision_payload_def plain_payload_def writable_def parse_session_fields any_error_def)
  ultimately show ?thesis
    unfolding parse_gate_session_event_def
    using env t(1,2) writable_digests(1) [OF s] p(1) v
    by (simp add: e plain_payload_def PAYLOAD_FIELDS_def dict_keys_def verify_event_identity_def verify_parent_link_def)
       (auto simp: revision_payload_def)
qed

section \<open>The first two events\<close>

lemma encodable_fingerprint [simp]: "encodable sample_fingerprint"
proof -
  have "sample_fingerprint = sample_digest" by (simp add: sample_fingerprint_def sample_digest_def sample_hex_def)
  then show ?thesis by simp
qed

lemma sample_writable: "writable sample_session" "writable sample_prepared_session"
proof -
  have n: "plain_value event_runtime (PNum (PyInt 1))" "plain_value event_runtime (PNum (PyInt 2))"
    by (rule plain_number [OF event_decimal_numbers]; simp)+
  have e: "plain_value event_runtime (PList [])" by (rule plain_list) simp
  show "writable sample_session"
    using sample_session_valid n e
    by (simp add: writable_def canonical_session_def canonical_optional_def sample_session_def canonical_day session_fields_def encodable_day
        optional_value_def GATE_SESSION_CONTRACT_VERSION_def)
  show "writable sample_prepared_session"
    using sample_prepared_valid n e
    by (simp add: writable_def canonical_session_def canonical_optional_def sample_session_def sample_prepared_session_def sample_prepared_def
        no_fields_def transitioned_def given_opt_def GateSession.given_def TERMINAL_STATUSES_def canonical_day session_fields_def encodable_day
        optional_value_def GATE_SESSION_CONTRACT_VERSION_def)
qed

definition session_events :: "CanonicalEvent list" where
  "session_events = [session_event sample_session GATE_SESSION_CREATED_EVENT PNone,
     session_event sample_prepared_session (u ''tbm.gate_session.prepared'') (PStr sample_digest)]"

lemma sample_revision_fields: "revision_fields sample_prepared_session = sample_prepared"
  by (simp add: revision_fields_def sample_session_defs TERMINAL_STATUSES_def)

lemma sample_expected: "expected_revision sample_session sample_prepared_session = Inr sample_prepared_session"
proof -
  have "transition_gate_session sample_session (u ''prepared'') 1 (day 2) sample_prepared = Inr sample_prepared_session"
    using sample_steps(1) by (simp add: session_step_def)
  then show ?thesis by (simp add: expected_revision_def sample_session_fields sample_revision_fields any_error_def)
qed

lemma sample_events_parse:
  "parse_gate_session_event event_runtime sample_sha (session_events ! 0) None None = Inr sample_session"
  "parse_gate_session_event event_runtime sample_sha (session_events ! 1) (Some sample_session) None = Inr sample_prepared_session"
proof -
  have types: "GATE_SESSION_CREATED_EVENT \<in> set GATE_SESSION_EVENT_TYPES" "u ''tbm.gate_session.prepared'' \<in> set GATE_SESSION_EVENT_TYPES"
    unfolding GATE_SESSION_EVENT_TYPES_def set_sort by (simp_all add: STATUS_EVENT_TYPES_def)
  have "gate_session_event_type sample_session None = Inr GATE_SESSION_CREATED_EVENT"
    by (simp add: gate_session_event_type_def sample_session_fields)
  then show "parse_gate_session_event event_runtime sample_sha (session_events ! 0) None None = Inr sample_session"
    unfolding session_events_def nth_Cons_0
    by (intro session_event_parses sample_writable types)
       (simp_all add: GATE_SESSION_CREATED_EVENT_def previous_sha256_def verify_revision_transition_def)
  have "gs_session_id sample_prepared_session = gs_session_id sample_session" by (simp add: sample_session_defs)
  then have "gate_session_event_type sample_prepared_session (Some sample_session) = Inr (u ''tbm.gate_session.prepared'')"
    by (simp add: gate_session_event_type_def sample_session_fields STATUS_EVENT_TYPES_def)
  moreover have "previous_sha256 event_runtime sample_sha (Some sample_session) = Inr (PStr sample_digest)"
    by (simp add: previous_sha256_def writable_digests [OF sample_writable(1)])
  moreover have "verify_revision_transition (Some sample_session) sample_prepared_session = Inr ()"
    by (simp add: verify_revision_transition_def sample_expected)
  ultimately have "parse_gate_session_event event_runtime sample_sha
      (session_event sample_prepared_session (u ''tbm.gate_session.prepared'') (PStr sample_digest)) (Some sample_session) None = Inr sample_prepared_session"
    by (intro session_event_parses sample_writable types) simp_all
  then show "parse_gate_session_event event_runtime sample_sha (session_events ! 1) (Some sample_session) None = Inr sample_prepared_session"
    by (simp add: session_events_def)
qed

lemma sample_replay:
  "replay_session event_runtime sample_sha None (take 1 session_events) = Inr (Some sample_session)"
  "replay_session event_runtime sample_sha None session_events = Inr (Some sample_prepared_session)"
  using sample_events_parse sample_writable by (simp_all add: session_events_def writable_def)

definition reducer_log :: "ReducerEvent list" where
  "reducer_log = map (\<lambda>e. \<lparr>rv_source_event = e,
     rv_typed_event = Some \<lparr>tv_event_type = ev_event_type e, tv_target_version = 1, tv_payload = ev_payload e\<rparr>\<rparr>) session_events"

lemma revision_payload_json:
  "json_ok is_finite_number prev \<Longrightarrow> json_ok is_finite_number (PDict (str_keys (revision_payload (session_fields s) d prev a)))"
  by (simp add: revision_payload_def session_fields_def str_keys_def optional_value_def list_all_iff split: option.splits)

lemma reducer_log_typed: "r \<in> set reducer_log \<Longrightarrow> typed_event_error r = None"
proof -
  have "py_eq (PDict (ev_payload (session_event s t prev))) (PDict (ev_payload (session_event s t prev)))" if "json_ok is_finite_number prev" for s t prev
    using py_eq_refl revision_payload_json that by (simp add: session_event_def revision_request_def Let_def del: json_ok.simps)
  then show "r \<in> set reducer_log \<Longrightarrow> typed_event_error r = None"
    by (auto simp: typed_event_error_def reducer_log_def session_events_def)
qed

definition projection_of :: "GateSession \<Rightarrow> CanonicalEvent \<Rightarrow> (pystr, pyval) dict" where
  "projection_of s e =
     [(u ''sessions'', PDict (str_keys [(gs_session_id s, written s)])),
      (u ''heads'', PDict (str_keys [(gs_session_id s, PDict (str_keys (projection_head s e)))]))]"

lemma py_eq_text [simp]: "py_eq (PStr s) (PStr s)" "py_eq (PNum (PyInt i)) (PNum (PyInt i))" "py_eq PNone PNone"
  by (simp_all add: py_eq_refl)

lemma first_projected:
  "session_transition event_runtime sample_sha initial_projection (reducer_log ! 0) = Inr (projection_of sample_session (session_events ! 0))"
proof -
  have e: "rv_source_event (reducer_log ! 0) = session_events ! 0" "ev_stream_id (session_events ! 0) = gs_session_id sample_session"
    "ev_stream_version (session_events ! 0) = 1" "reducer_log ! 0 \<in> set reducer_log"
    by (simp_all add: reducer_log_def session_events_def session_event_def revision_request_def Let_def sample_session_fields)
  show ?thesis
    unfolding session_transition_def reducer_log_typed [OF e(4)]
    using sample_events_parse(1) sample_writable(1)
    by (simp add: e initial_projection_def mapping_copy_def retained_session_def head_error_def reducer_if_def session_to_dict_def writable_def
        projection_of_def written_def Let_def object_entries_str_keys [of "[]", unfolded str_keys_def, simplified])
qed

lemma second_projected:
  "session_transition event_runtime sample_sha (projection_of sample_session (session_events ! 0)) (reducer_log ! 1) =
   Inr (projection_of sample_prepared_session (session_events ! 1))"
proof -
  have i: "gs_session_id sample_prepared_session = gs_session_id sample_session" by (simp add: sample_session_defs)
  have e: "rv_source_event (reducer_log ! 1) = session_events ! 1" "ev_stream_id (session_events ! 1) = gs_session_id sample_session"
    "reducer_log ! 1 \<in> set reducer_log"
    by (simp_all add: reducer_log_def session_events_def session_event_def revision_request_def Let_def i)
  have h: "head_extended (projection_head sample_session (session_events ! 0)) (session_events ! 1)"
    by (simp add: head_extended_def head_value_def projection_head_def HEAD_FIELDS_def dict_keys_def session_events_def session_event_def
        revision_request_def Let_def sample_session_fields str_or_none_def) (simp add: sample_session_defs)
  have r: "retained_session [(gs_session_id sample_session, written sample_session)] (gs_session_id sample_session) = Inr (Some sample_session)"
    using parse_written_written [OF sample_session_valid] by (simp add: retained_session_def written_def)
  have heads: "head_error [(gs_session_id sample_session, PDict (str_keys (projection_head sample_session (session_events ! 0))))] (session_events ! 1) = None"
    using h by (simp add: head_error_def e del: One_nat_def)
  have "session_to_dict sample_prepared_session = Inr (session_fields sample_prepared_session)"
    using sample_writable(2) by (simp add: session_to_dict_def writable_def)
  then show ?thesis
    unfolding session_transition_def reducer_log_typed [OF e(3)]
    using r heads sample_events_parse(2)
    by (simp add: e projection_of_def i mapping_copy_def Let_def del: One_nat_def) (simp add: written_def)
qed

lemma sample_projection:
  "project_sessions event_runtime sample_sha initial_projection reducer_log = Inr (projection_of sample_prepared_session (session_events ! 1))"
proof -
  have "reducer_log = [reducer_log ! 0, reducer_log ! 1]" by (simp add: reducer_log_def session_events_def)
  then show ?thesis using first_projected second_projected by (metis project_sessions.simps rbind_simps(2))
qed

section \<open>The first event is built\<close>

abbreviation "first_event \<equiv> session_event sample_session GATE_SESSION_CREATED_EVENT PNone"

lemma first_payload:
  "ev_payload first_event = str_keys (revision_payload (session_fields sample_session) sample_digest PNone (u ''auth''))"
  by (simp add: session_event_def revision_request_def Let_def)

lemma length_fingerprint [simp]: "length sample_fingerprint = 71"
  by (simp add: sample_fingerprint_def)

lemma first_session_within: "text_within event_runtime 15602 (PDict (str_keys (session_fields sample_session)))"
proof -
  have "text_within event_runtime (2 + length (session_fields sample_session) * (6 * 32 + 428 + 4)) (PDict (str_keys (session_fields sample_session)))"
    by (rule object_within)
       (simp add: session_fields_def sample_session_def optional_value_def short_within length_day GATE_SESSION_CONTRACT_VERSION_def)
  moreover have "length (session_fields sample_session) = 25" by (simp add: session_fields_def)
  ultimately show ?thesis by (simp only:) simp
qed

lemma first_payload_within: "text_within event_runtime 79022 (PDict (ev_payload first_event))"
proof -
  note w = text_within_mono [OF short_within(1), of _ 15602] text_within_mono [OF short_within(2), of 15602]
  let ?p = "revision_payload (session_fields sample_session) sample_digest PNone (u ''auth'')"
  have "text_within event_runtime (2 + length ?p * (6 * 33 + 15602 + 4)) (PDict (str_keys ?p))"
    by (rule object_within) (simp add: revision_payload_def first_session_within w GATE_SESSION_EVENT_CONTRACT_VERSION_def)
  then show ?thesis by (simp add: first_payload revision_payload_def text_within_def del: canonical_json.simps)
qed

lemma first_payload_copied: "bounded_payload_copy event_runtime (ev_payload first_event) = Inr (ev_payload first_event)"
proof -
  have "\<exists>n. copy_json 0 (PDict (ev_payload first_event)) 0 = Inr n"
    unfolding first_payload
    by (simp add: revision_payload_def session_fields_def sample_session_def optional_value_def str_keys_def event_utf8_def
        encodable_day GATE_SESSION_CONTRACT_VERSION_def GATE_SESSION_EVENT_CONTRACT_VERSION_def)
  moreover have "\<exists>t. event_json event_runtime (PDict (ev_payload first_event)) = Inr t \<and> (\<exists>n. utf8_size t = Some n \<and> n \<le> EVENT_PAYLOAD_MAX_BYTES)"
  proof -
    have "plain_value event_runtime (PDict (ev_payload first_event))"
      unfolding first_payload by (rule revision_payload_plain [OF sample_writable(1)]) simp
    then obtain t where t: "canonical_json event_runtime (PDict (ev_payload first_event)) = Some t" "encodable t"
      by (auto simp: plain_value_def simp del: canonical_json.simps)
    obtain n where "utf8_size t = Some n" "n \<le> 4 * 79022" by (rule within_bytes [OF first_payload_within t])
    then show ?thesis using t by (simp add: event_json_def del: canonical_json.simps)
  qed
  moreover have "\<not> has_secret event_runtime (PDict (ev_payload first_event))"
    unfolding first_payload
    by (simp add: revision_payload_def session_fields_def optional_value_def str_keys_def sample_session_def
        normalized_key_def FORBIDDEN_SECRET_KEYS_def event_runtime_def sample_runtime_def)
       (simp add: u_def ascii_lower_def lower_alnum_def)
  ultimately show ?thesis by (auto simp: bounded_payload_copy_def simp del: copy_json.simps)
qed

definition session_context :: EventTrustedContext where
  "session_context =
     \<lparr>tc_organization_id = u ''org'', tc_tenant_id = u ''tenant'', tc_repository_id = u ''repo'', tc_environment_id = u ''env'',
      tc_principal_id = u ''ana'', tc_agent_client_id = u ''cli'', tc_actor_type = u ''service'', tc_actor_id = u ''me'',
      tc_authorization_decision_id = u ''auth''\<rparr>"

lemmas first_event_fields = session_event_def revision_request_def Let_def sample_session_def

lemma hex_text [simp]: "encodable sample_hex" "encodable (take n sample_hex)"
proof -
  show "encodable sample_hex" by (rule encodable_small) (simp add: sample_hex_def)
  then show "encodable (take n sample_hex)" by (auto simp: encodable_def dest: in_set_takeD)
qed

lemma hex_identifier:
  assumes "list_all (\<lambda>c. 33 \<le> c \<and> c < 127) (u s)" "s \<noteq> []" "length s + n \<le> 128"
  shows "event_identifier (u s @ take n sample_hex) m = None"
proof -
  have "list_all (\<lambda>c. 33 \<le> c \<and> c < 127) (take n sample_hex)" by (auto simp: list_all_iff sample_hex_def dest: in_set_takeD)
  then have "bounded_identifier 128 (u s @ take n sample_hex)" by (intro visible_identifier) (use assms in \<open>auto simp: min_def\<close>)
  then show ?thesis by (simp add: event_identifier_def event_utf8_def)
qed

lemma first_event_digests:
  "canonical_event_sha256 event_runtime sample_sha (canonical_event_fields first_event) = Inr sample_digest"
  "event_payload_sha256 event_runtime sample_sha (ev_payload first_event) = Inr sample_digest"
proof -
  have p: "plain_value event_runtime (PDict (ev_payload first_event))"
    unfolding first_payload by (rule revision_payload_plain [OF sample_writable(1)]) simp
  moreover have "plain_value event_runtime (PNum (PyInt 1))" by (rule plain_number [OF event_decimal_numbers]) simp_all
  moreover have "plain_value event_runtime (PList [])" by (rule plain_list) simp
  ultimately have "\<forall>x\<in>set (canonical_event_fields first_event). encodable (fst x) \<and> plain_value event_runtime (snd x)"
    unfolding canonical_event_fields_def first_payload
    by (simp add: first_event_fields str_or_none_def encodable_day digest_hex_sample)
       (simp add: EVENT_PROTOCOL_VERSION_def GATE_SESSION_CREATED_EVENT_def GATE_SESSION_EVENT_STREAM_TYPE_def GATE_SESSION_EVENT_PRODUCER_def
        GATE_SESSION_EVENT_PRODUCER_VERSION_def GATE_SESSION_EVENT_RETENTION_POLICY_ID_def)
  from plain_object [OF this]
  obtain t where "event_json event_runtime (PDict (str_keys (canonical_event_fields first_event))) = Inr t"
    by (auto simp: event_json_def object_json simp del: canonical_json.simps)
  then show "canonical_event_sha256 event_runtime sample_sha (canonical_event_fields first_event) = Inr sample_digest"
    by (simp add: canonical_event_sha256_def sample_sha_digest) (simp add: canonical_event_fields_def dict_has_def)
  obtain t where "event_json event_runtime (PDict (ev_payload first_event)) = Inr t"
    using p by (auto simp: event_json_def plain_value_def simp del: canonical_json.simps)
  then show "event_payload_sha256 event_runtime sample_sha (ev_payload first_event) = Inr sample_digest"
    by (simp add: event_payload_sha256_def first_payload_copied sample_sha_digest)
qed

lemma first_event_valid: "canonical_event_error event_runtime sample_sha first_event = None"
proof -
  have ids: "\<forall>s\<in>set [''session_1'', ''gate_session'', ''org'', ''tenant'', ''repo'', ''env'', ''ana'', ''cli'', ''me'', ''auth'',
      ''retention_engineering_memory'', ''trace_backed_memory'', ''0.1.0'']. bounded_identifier 128 (u s) \<and> bounded_identifier 256 (u s)"
    by (simp, intro conjI; (rule short_identifier, simp, simp, simp add: u_def))
  then have i: "event_identifier (u s) n = None" "event_code (u s) n = None"
    if "s \<in> set [''session_1'', ''gate_session'', ''org'', ''tenant'', ''repo'', ''env'', ''ana'', ''cli'', ''me'', ''auth'',
      ''retention_engineering_memory'', ''trace_backed_memory'', ''0.1.0'']" for s n
    using that by (auto simp: event_identifier_def event_code_def event_utf8_def)
  have h: "event_identifier (u ''gate_request_'' @ take 48 sample_hex) n = None" "event_identifier (u ''gate_correlation_'' @ take 40 sample_hex) n = None" for n
    by (rule hex_identifier; simp add: u_def)+
  have "event_digest_error event_runtime sample_sha first_event = None"
    by (simp add: event_digest_error_def first_event_digests) (simp add: first_event_fields)
  moreover have "is_event_type GATE_SESSION_CREATED_EVENT" "is_payload_schema (GATE_SESSION_CREATED_EVENT @ u ''.v1'')"
    by (simp_all add: is_event_type_def is_payload_schema_def type_segment_def lower_alnum_def u_def GATE_SESSION_CREATED_EVENT_def)
  moreover have "is_event_id (u ''evt_gate_'' @ sample_hex)"
    by (simp add: is_event_id_def u_def strip_prefix_def sample_hex_def ascii_alnum_def lower_alnum_def list_all_iff)
  ultimately show ?thesis
    unfolding canonical_event_error_def first_error_None_iff
    by (simp add: first_event_fields i h digest_hex_sample sample_digest_tagged event_digest_def canonical_day parse_day instant_day
        event_id_error_def positive_version_def enum_error_def event_kind_error_def event_time_error_def later_than_def event_timestamp_def
        EVENT_KINDS_def EVENT_ORIGINS_def ACTOR_TYPES_def CLASSIFICATION_RANK_def dict_keys_def artifact_ref_tuple_def
        GATE_SESSION_EVENT_STREAM_TYPE_def GATE_SESSION_EVENT_PRODUCER_def
        GATE_SESSION_EVENT_PRODUCER_VERSION_def GATE_SESSION_EVENT_RETENTION_POLICY_ID_def)
qed

lemma first_event_built: "build_gate_session_event event_runtime sample_sha sample_session None None 1 session_context = Inr first_event"
proof -
  let ?p = "revision_payload (session_fields sample_session) sample_digest PNone (u ''auth'')"
  let ?q = "revision_request sample_session GATE_SESSION_CREATED_EVENT (u ''evt_gate_'' @ sample_hex) sample_digest sample_digest sample_digest ?p None 1"
  let ?c = "in_context session_context ?q"
  have q: "ev_payload ?q = ev_payload first_event" "ev_artifact_refs ?q = []" "ev_occurred_at ?q = Some (day 1)" "ev_recorded_at ?q = day 1"
    by (simp_all add: revision_request_def first_event_fields)
  have "(?c\<lparr>ev_protocol_version := EVENT_PROTOCOL_VERSION, ev_occurred_at := Some (day 1), ev_recorded_at := day 1,
      ev_payload_sha256 := sample_digest, ev_artifact_refs := [], ev_payload := ev_payload first_event\<rparr>)\<lparr>ev_event_sha256 := sample_digest\<rparr> = first_event"
    by (simp add: in_context_def session_context_def first_event_fields)
  moreover have "canonical_event_fields (?c\<lparr>ev_protocol_version := EVENT_PROTOCOL_VERSION, ev_occurred_at := Some (day 1), ev_recorded_at := day 1,
      ev_payload_sha256 := sample_digest, ev_artifact_refs := [], ev_payload := ev_payload first_event\<rparr>) = canonical_event_fields first_event"
    by (simp add: in_context_def session_context_def first_event_fields canonical_event_fields_def)
  ultimately have b: "build_canonical_event event_runtime sample_sha session_context ?q = Inr first_event"
    unfolding build_canonical_event_def q
    by (simp add: first_payload_copied first_event_digests canonical_event_timestamp_def canonical_day parse_day construct_event_def first_event_valid
        Let_def)
  note w = sample_writable(1)
  have i: "gs_session_id sample_session = u ''session_1''" "gs_version sample_session = 1" by (simp_all add: sample_session_def)
  have d: "session_to_dict sample_session = Inr (session_fields sample_session)" using w by (simp add: session_to_dict_def writable_def)
  have t: "gate_session_event_type sample_session None = Inr GATE_SESSION_CREATED_EVENT"
    by (simp add: gate_session_event_type_def sample_session_fields)
  have c: "verify_context sample_session session_context = None" by (simp add: verify_context_def sample_session_def session_context_def)
  have v: "verify_event_parent first_event None = None" by (simp add: verify_event_parent_def first_event_fields)
  have p: "parse_gate_session_event event_runtime sample_sha first_event None None = Inr sample_session"
    using sample_events_parse(1) by (simp add: session_events_def)
  have a: "tc_authorization_decision_id session_context = u ''auth''" by (simp add: session_context_def)
  have m: "event_command_sha256 event_runtime sample_sha GATE_SESSION_CREATED_EVENT ?p (u ''auth'') = Inr sample_digest"
    by (rule writable_command [OF w]) (simp_all add: GATE_SESSION_CREATED_EVENT_def)
  have e: "gate_session_event_id event_runtime sample_sha sample_session = Inr (u ''evt_gate_'' @ sample_hex)"
    by (simp add: gate_session_event_id_def writable_digests [OF w] digest_hex_sample)
  show ?thesis
    unfolding build_gate_session_event_def t a c d rbind_simps or_raise_simps Let_def
    by (simp add: verify_build_parent_def writable_digests [OF w] previous_sha256_def m e b v p)
qed

end
