(* ===== verification/Spec2Isabelle.thy ===== *)
theory Spec2Isabelle
  imports SampleRun SnapshotFacts RetrievalFacts SampleOutbox SampleLedger SampleSessionEvent "HOL-Library.Multiset"
    "HOL-Library.Sublist"
begin

text \<open>
  \<^bold>\<open>trace-backed-memory\<close>: a verification development.

  The program keeps memory for coding agents: traces of runs, failure cases and lessons drawn from them and
  project policies. A deterministic System Gate and a semantic gate (an untrusted model) decide which
  memories may enter a prompt, every use is logged, and measured outcomes are written to logs and traces.
  Version 3 adds durable contracts around this core: gate sessions with leases, a completion outbox with
  a delivery worker, canonical events with content addresses, and an append-only event ledger with a
  SQLite adapter. All sources named below are under \<^verbatim>\<open>src/src/trace_backed_memory/\<close>.

  \<^bold>\<open>Conventions.\<close> Python strings are lists of code points (\<open>pystr\<close>, literal \<open>u ''abc''\<close>), integers are \<open>int\<close> or
  \<open>nat\<close>, a dataclass is a record, a dictionary an association list in insertion order, an exception a value
  \<open>Inl\<close> of \<open>py_error\<close> with its code and message. A validator returns the first error (\<open>first_error\<close>); \<open>rbind\<close>,
  \<open>rmap\<close> and \<open>rfold\<close> compose calls that may raise. An operation takes the state and returns the next one; a
  call that raises leaves the state of the store or of the database as it was, as the code commits last or
  undoes its transaction. Arguments are taken to have their annotated types: the checks on dynamic types are
  modelled where the code reads JSON (\<open>pyval\<close>) and left out where they only repeat an annotation.

  \<^bold>\<open>Parameters.\<close> What is not in the repository is a parameter. The record \<open>runtime\<close> (\<open>PyText\<close>) is the
  host: clock, Unicode tables, formatting of numbers and the JSON decoder of Python. \<open>sha\<close> is SHA-256 as a function
  from texts to hexadecimal digests. The repositories of the workers and the consumer of a delivery are arbitrary
  functions; ancestry evidence of git is an argument. Hypotheses on them are named (\<open>valid_clock\<close>, \<open>ascii_decimals\<close>,
  \<open>decimal_numbers\<close>, \<open>json_numbers\<close>, \<open>hex_digests\<close>) and hold of the sample host of the witnesses.

  \<^bold>\<open>Theories.\<close>
  \<^item> \<open>Prelude\<close>, \<open>PyText\<close>, \<open>Effects\<close>: results, dictionaries (locale \<open>ordered_dict\<close>), state machines (locales \<open>machine\<close>,
    \<open>invariant_machine\<close>, \<open>monotone_machine\<close>), Python's text and numbers, calls with side effects.
  \<^item> \<open>Timestamps\<close>, \<open>Instants\<close>: \<^verbatim>\<open>_timestamps.py\<close>, RFC 3339 texts and the instants they denote.
  \<^item> \<open>Models\<close>: \<^verbatim>\<open>models.py\<close>. \<open>Policy\<close>, \<open>Decision\<close>, \<open>DecisionPayload\<close>: \<^verbatim>\<open>policy.py\<close>, that is the System Gate, the prompt,
    the decision of the semantic gate and its parser, and the injected snippet. \<open>JsonSize\<close> gives the sizes against which the
    budget loops are specified. \<open>GateFacts\<close> (locale \<open>candidate_gate\<close>, with the System Gate and the bounded gate as
    instances), \<open>InjectionFacts\<close> and \<open>DecisionFacts\<close> hold their lemmas.
  \<^item> \<open>Lifecycle\<close>: \<^verbatim>\<open>lifecycle.py\<close>, from a failed trace to a verified case and an active lesson.
  \<^item> \<open>TraceJson\<close>, \<open>Validation\<close>, \<open>Store\<close>, \<open>Runs\<close>, \<open>Retrieval\<close>, \<open>Gate\<close>, \<open>Snapshot\<close>, \<open>Lessons\<close>: \<^verbatim>\<open>store.py\<close>, its validators, the records, the
    logs and runs, candidate retrieval, the lifecycle of a gate request, snapshots with the limits of
    \<^verbatim>\<open>_ingestion.py\<close>, and the batch load of the lessons of a file. The state is the record \<open>store\<close>. \<open>StoreInv\<close>, \<open>RunsInv\<close>, \<open>GateInv\<close>, \<open>GateLife\<close>, \<open>RetrievalFacts\<close>,
    \<open>SnapshotFacts\<close> prove the invariants of these parts, and \<open>StoreMachine\<close> makes the store one machine over
    all public operations that change it: every reachable store satisfies \<open>store_ok\<close> and evidence only grows.
  \<^item> \<open>Canonical\<close>, \<open>CanonicalUnique\<close>: canonical JSON and its digests (\<^verbatim>\<open>contracts_v3.py\<close>); equal texts mean equal fields.
  \<^item> \<open>GateSession\<close>, \<open>GateSessionFacts\<close>, \<open>GateWorker\<close>: \<^verbatim>\<open>gate_session_v3.py\<close> and \<^verbatim>\<open>gate_worker_v3.py\<close>, a session as a
    machine whose revisions are bounded in number, and one pass of the recovery worker.
  \<^item> \<open>Outbox\<close>, \<open>OutboxFacts\<close>, \<open>OutboxWorker\<close>: \<^verbatim>\<open>completion_outbox_v3.py\<close> and \<^verbatim>\<open>completion_outbox_worker_v3.py\<close>.
  \<^item> \<open>EventV1\<close>, \<open>EventFacts\<close>, \<open>EventText\<close>: \<^verbatim>\<open>event_v1.py\<close> with the JSON reader of \<^verbatim>\<open>_ingestion.py\<close>; chains of events, the
    commitment of a head digest to its stream, and reading what was written. \<open>CanonicalSize\<close> bounds the length of the texts.
  \<^item> \<open>GateSessionEvent\<close>, \<open>GateSessionEventFacts\<close>, \<open>GateSessionReducer\<close>: \<^verbatim>\<open>gate_session_event_v1.py\<close> and \<^verbatim>\<open>gate_session_reducer_v1.py\<close>, the
    revisions of a session as events of its stream, the history that they replay, and the projection of an event log
    to the current sessions with its parity check.
  \<^item> \<open>Ledger\<close>, \<open>LedgerFacts\<close>: the contract \<^verbatim>\<open>ledger_port_v1.py\<close> of an event ledger.
  \<^item> \<open>SqliteLedger\<close>, \<open>SqliteReads\<close>, \<open>SqliteFacts\<close>, \<open>SqliteReadFacts\<close>, \<open>SubscriptionFacts\<close>: \<^verbatim>\<open>sqlite_event_ledger_v1.py\<close> over the tables, constraints
    and triggers of \<^verbatim>\<open>sqlite-v3-event-ledger.sql\<close>. The state is the record \<open>ledger_db\<close>; the ledger is a machine of appends
    whose invariant \<open>ledger_ok\<close> gives exact reads, replays and subscriptions.
  \<^item> \<open>Sample\<close>, \<open>SampleRun\<close>, \<open>SampleSession\<close>, \<open>SampleOutbox\<close>, \<open>SampleEvent\<close>, \<open>SampleSessionEvent\<close>, \<open>SampleLedger\<close>: concrete hosts, records and runs, on which
    the properties are instantiated.

  \<^bold>\<open>Properties.\<close> The theorems of this theory state, per part: what the gates can and cannot allow; the invariants of every
  reachable store and what later calls keep; requests and their finalization; runs, audits and metrics; retrieval; the
  decision contract, its parser and its budgets; the snippet; the lifecycle of cases and retirements; gate sessions; the
  outbox and its worker; the recovery worker; snapshots; events, their chains and the events of
  gate sessions with their projection; and the SQLite ledger. A theorem
  whose text names no claim is kept as a further fact of its component.

  \<^bold>\<open>Loops and bounds.\<close> No definition uses fuel. Loops over data are structural or have a measure (the
  size of the pending values for the two budget walks and the JSON reader), so every model is total. The numeric
  bounds are those of the code and appear as constants with its names; Python integers do not overflow, and
  the places where a text of digits or a date can be out of range are modelled as errors.

  \<^bold>\<open>Not modelled.\<close> The command line, servers, SDK and daemon, and command execution, capture and file access, which are
  input and output. Of the store: the text of the YAML files of lessons, both reading and writing it (the load of the
  records that were read is modelled), and the files of snapshots. The PostgreSQL adapters and the other SQLite adapters, which repeat the contracts over a database
  engine. Of the SQLite ledger: projection checkpoints and activations, statistics, backup, the check of
  the whole file, the comparison of the schema catalogue, and connections with their locks. Of the version 3
  contracts: the registries, the payload builders and reducers of event types other than those of gate sessions, the
  JSON schema and the descriptor of the reducer of gate sessions, outcomes, evidence and artifacts,
  memory revisions and publication, authorization, retrieval v3, and the services that compose them. Concurrency
  inside a process is modelled as the order of the calls, since each operation holds the lock of its
  store or the transaction of its database.
\<close>

section \<open>The gates\<close>

text \<open>
  C1: The semantic gate cannot reopen what the System Gate blocked. Whatever decision comes back,
  every memory that is finally allowed is a candidate for which the System Gate found no reason,
  the final decision lists exactly these memories in order, every id blocked by the System Gate is
  still blocked, no id is both allowed and blocked, and memory is used exactly when some is allowed.
\<close>

theorem llm_cannot_reopen_blocks:
  assumes "system_gate rt cx cs = Inr (a, b)" and "apply_llm_gate_decision rt a b d = Inr (ms, d')"
  shows "set ms \<subseteq> set cs \<and> (\<forall>m\<in>set ms. blocked_reason rt cx m = None) \<and>
    md_allowed_memory_ids d' = map mi_memory_id ms \<and> distinct (md_allowed_memory_ids d') \<and>
    set (dict_keys b) \<subseteq> set (md_blocked_memory_ids d') \<and>
    set (md_allowed_memory_ids d') \<inter> set (md_blocked_memory_ids d') = {} \<and>
    (md_use_memory d' \<longleftrightarrow> ms \<noteq> [])"
proof -
  from assms(2) have d: "decision_accepted d" and r: "ms = granted_items a d" "d' = combined_decision a b d"
    by (simp_all add: apply_llm_gate_decision_Inr_iff)
  then show ?thesis
    using sys.decided_are_safe [OF assms(1)] sys.decided_split [OF assms(1), of d] distinct_granted_ids [OF d]
    by (auto simp: combined_decision_def)
qed

theorem llm_cannot_reopen_blocks_witness:
  "set [sample_item] \<subseteq> set [sample_item] \<and>
   blocked_reason sample_runtime sample_context sample_item = None"
proof -
  have "apply_llm_gate_decision sample_runtime [sample_item] [] sample_decision =
      Inr (granted_items [sample_item] sample_decision, combined_decision [sample_item] [] sample_decision)"
    by (rule sys.decide_total [OF sample_gate sample_decision_accepted])
  moreover have "granted_items [sample_item] sample_decision = [sample_item]"
    by (simp add: granted_items_def granted_ids_def memory_requested_def sample_item_def sample_decision_def
        List.map_filter_simps)
  ultimately show ?thesis
    using llm_cannot_reopen_blocks [OF sample_gate, of sample_decision] by fastforce
qed

section \<open>The store\<close>

text \<open>
  C2: The invariant of a store. After any sequence of calls on a new store or on one that was loaded
  from any snapshot, of either format, at any times and with any arguments, whether they succeed or raise (the batch load of the
  lessons read from a file is one of these calls), every record is valid and stored under its own id,
  ids are unique across the kinds of memory, cases and lessons stand on their evidence, every log
  is linked to its trace and to known memories, the decision index is exact, and the windows of
  pending and finalized requests are consistent.
\<close>

theorem store_invariant:
  assumes "s = new_store token session_id \<or> from_snapshot rt max_each max_all token session_id data = Inr s"
  shows "store_ok rt (run_calls rt calls s)"
proof (rule run_calls_ok)
  show "first_store rt s" using assms unfolding first_store_def by blast
qed

theorem store_invariant_witness:
  "store_ok sample_runtime (run_calls sample_runtime sample_calls sample_store0)"
  by (rule store_invariant [OF disjI1 [OF sample_store0_def]])

text \<open>
  C3: No memory without evidence. In every store a client can have, an active lesson stands on a
  failure case that is verified, reviewed by a named person, fixed by a named commit and backed by
  a passed regression, and that case on a recorded trace that failed at the case's commit in a
  clean checkout; the lesson is confined to the repository and tenant of that trace.
\<close>

theorem active_lesson_evidence:
  assumes "reached rt s" and "dict_get (st_lessons s) i = Some l" and "ls_status l = u ''active''"
  shows "ls_lesson_id l = i \<and>
    (\<exists>c t. dict_get (st_failure_cases s) (ls_source_case_id l) = Some c \<and>
       dict_get (st_traces s) (fc_source_trace_id c) = Some t \<and>
       fc_status c = u ''verified'' \<and> fc_regression_passed c \<and>
       truthy (fc_reviewed_by c) \<and> truthy (fc_root_cause c) \<and> truthy (fc_fix c) \<and> truthy (fc_fix_commit_sha c) \<and>
       tr_eval_result t \<in> {u ''fail'', u ''error''} \<and> tr_commit_sha t = fc_commit_sha c \<and> \<not> tr_dirty t \<and>
       (\<forall>v. tr_repo t = Some v \<longrightarrow> dict_get (ls_scope l) (u ''repo'') = Some v) \<and>
       (\<forall>v. tr_tenant t = Some v \<longrightarrow> dict_get (ls_scope l) (u ''tenant'') = Some v))"
proof -
  note ok = reached_ok(2) [OF assms(1)]
  from ok assms(2) have id: "ls_lesson_id l = i" and sup: "lesson_supported s l"
    by (auto simp: memory_ok_def lessons_ok_def)
  from sup assms(3) obtain c t where c: "dict_get (st_failure_cases s) (ls_source_case_id l) = Some c"
    and t: "dict_get (st_traces s) (fc_source_trace_id c) = Some t"
    and rest: "fc_status c = u ''verified''" "fc_regression_passed c" "\<not> tr_dirty t"
      "\<forall>v. tr_repo t = Some v \<longrightarrow> dict_get (ls_scope l) (u ''repo'') = Some v"
      "\<forall>v. tr_tenant t = Some v \<longrightarrow> dict_get (ls_scope l) (u ''tenant'') = Some v"
    unfolding lesson_supported_def by blast
  note cs = case_get [OF ok c]
  have "tr_eval_result t \<in> {u ''fail'', u ''error''} \<and> tr_commit_sha t = fc_commit_sha c"
    using cs(3) t by (simp add: case_supported_def)
  moreover have "truthy (fc_reviewed_by c) \<and> truthy (fc_root_cause c) \<and> truthy (fc_fix c) \<and> truthy (fc_fix_commit_sha c)"
    using cs(2) rest(1) by (auto simp: validate_failure_case_def)
  ultimately show ?thesis using id c t rest by blast
qed

theorem active_lesson_evidence_witness:
  "ls_lesson_id sample_lesson = u ''lesson_1'' \<and>
   (\<exists>c. dict_get (st_failure_cases sample_store3) (u ''case_1'') = Some c \<and> fc_status c = u ''verified'')"
  using active_lesson_evidence [OF sample_reached(1), of "u ''lesson_1''" sample_lesson]
  by (auto simp: sample_store3_fields sample_lesson_def)

text \<open>
  C4: Evidence is never rewritten. Whatever is called later, a recorded trace keeps its identity and,
  once its outcome is measured, everything else; a decision log keeps its place and everything but
  its outcome, and a sealed outcome is final; an obsolete lesson stays exactly as it is.
\<close>

theorem evidence_is_kept:
  fixes rt :: runtime and s :: store and calls :: "(datetime \<times> store_op) list"
  assumes "reached rt s"
  defines "s' \<equiv> run_calls rt calls s"
  shows "(\<forall>i t. dict_get (st_traces s) i = Some t \<longrightarrow>
        (\<exists>t'. dict_get (st_traces s') i = Some t' \<and> trace_identity t' = trace_identity t \<and> (measured t \<longrightarrow> t' = t))) \<and>
    length (st_usage_logs s) \<le> length (st_usage_logs s') \<and>
    (\<forall>i<length (st_usage_logs s). log_identity (st_usage_logs s' ! i) = log_identity (st_usage_logs s ! i) \<and>
        (sealed (st_usage_logs s ! i) \<longrightarrow> st_usage_logs s' ! i = st_usage_logs s ! i)) \<and>
    (\<forall>i l. dict_get (st_lessons s) i = Some l \<longrightarrow> ls_status l = u ''obsolete'' \<longrightarrow> dict_get (st_lessons s') i = Some l)"
proof -
  note ev = evolvesD [OF reached_evolves [OF assms(1), of calls]]
  have "dict_get (st_lessons s') i = Some l" if "dict_get (st_lessons s) i = Some l" "ls_status l = u ''obsolete''" for i l
  proof -
    have "obsolete_lesson l = l" using that(2) by (cases l) (simp add: obsolete_lesson_def)
    then show ?thesis using ev(3) that(1) unfolding keeps_def lesson_after_def s'_def by metis
  qed
  moreover have "\<exists>t'. dict_get (st_traces s') i = Some t' \<and> trace_identity t' = trace_identity t \<and> (measured t \<longrightarrow> t' = t)"
    if "dict_get (st_traces s) i = Some t" for i t
    using ev(1) that unfolding keeps_def trace_step_def s'_def by blast
  ultimately show ?thesis using ev(5) unfolding logs_grow_def log_step_def s'_def by blast
qed

theorem evidence_is_kept_witness:
  "dict_get (st_traces (run_calls sample_runtime sample_calls sample_store3)) (u ''trace_1'') =
     Some (sample_trace ''trace_1'' ''fail'')"
proof -
  have "dict_get (st_traces sample_store3) (u ''trace_1'') = Some (sample_trace ''trace_1'' ''fail'')"
    "measured (sample_trace ''trace_1'' ''fail'')"
    by (simp_all add: sample_store3_fields measured_def store_constants)
  then show ?thesis using evidence_is_kept [OF sample_reached(1), of sample_calls] by blast
qed

text \<open>
  C5: What is injected. When a request is finalized, every allowed memory is an item of a record
  that is in the store at that moment, was a candidate of the request and passes every check of the
  System Gate now, whatever the semantic gate answered and whatever changed since the request was
  prepared; every other candidate is reported as blocked, and the snippet is rendered from exactly
  the allowed items.
\<close>

theorem finalize_injects_only_safe_memory:
  assumes "reached rt s" and "finalize_memory rt request payload trace_id res caused s = Inr (g, s')"
  shows "\<exists>ms. gm_allowed_memory_ids g = map mi_memory_id ms \<and> distinct (map mi_memory_id ms) \<and>
    (\<forall>m\<in>set ms. memory_item_at rt s (mi_memory_id m) = Inr (Some m) \<and> backed s m \<and>
       blocked_reason rt (gr_context request) m = None) \<and>
    gm_snippet g = snippet_text (gm_recommended_injection g) ms \<and>
    (gm_use_memory g \<longleftrightarrow> ms \<noteq> []) \<and>
    set (gm_allowed_memory_ids g) \<subseteq> set (gr_candidate_memory_ids request) \<and>
    set (gr_candidate_memory_ids request) - set (gm_allowed_memory_ids g) \<subseteq> set (gm_blocked_memory_ids g) \<and>
    set (gm_allowed_memory_ids g) \<inter> set (gm_blocked_memory_ids g) = {}"
  using finalize_grants [OF reached_ok(2) [OF assms(1)] assms(2)] by (metis Diff_subset_conv)

theorem finalize_injects_only_safe_memory_witness:
  "\<exists>ms. gm_allowed_memory_ids sample_result = map mi_memory_id ms \<and>
     (\<forall>m\<in>set ms. memory_item_at sample_runtime sample_store4 (mi_memory_id m) = Inr (Some m) \<and> backed sample_store4 m)"
  using finalize_injects_only_safe_memory [OF sample_reached(2) sample_finalize] by blast

text \<open>
  C6: Every injection is auditable. A finalization appends one log: it names the decision, the
  trace and its run, the request, the candidates, and exactly the memories that were allowed, and
  it passes the checks of the store's own log validation.
\<close>

theorem finalize_is_logged:
  assumes "reached rt s" and "finalize_memory rt request payload trace_id res caused s = Inr (g, s')"
  shows "\<exists>l t. st_usage_logs s' = st_usage_logs s @ [l] \<and> log_ok s l \<and> ul_decision_id l = gm_decision_id g \<and>
    dict_get (st_traces s) trace_id = Some t \<and> ul_trace_id l = Some trace_id \<and> ul_run_id l = tr_run_id t \<and>
    ul_request_id l = Some (gr_request_id request) \<and>
    ul_candidate_memory_ids l = gr_candidate_memory_ids request \<and>
    ul_used_memory_ids l = gm_allowed_memory_ids g \<and> ul_blocked_memory_ids l = gm_blocked_memory_ids g"
proof (rule finalize_logs [OF assms(2), of rt])
  fix l t
  assume l: "st_usage_logs s' = st_usage_logs s @ [l]" "log_ok s l" "ul_decision_id l = gm_decision_id g"
    "dict_get (st_traces s) trace_id = Some t" "ul_trace_id l = Some (tr_trace_id t)" "ul_run_id l = tr_run_id t"
    "ul_request_id l = Some (gr_request_id request)" "ul_blocked_memory_ids l = gm_blocked_memory_ids g"
    "ul_used_memory_ids l = (if gm_use_memory g then gm_allowed_memory_ids g else [])"
    "ul_candidate_memory_ids l = gr_candidate_memory_ids request \<or> \<not> memory_ok rt s"
  note ok = reached_ok(2) [OF assms(1)]
  have "tr_trace_id t = trace_id" using ok l(4) by (auto simp: memory_ok_def traces_ok_def)
  moreover have "gm_use_memory g \<or> gm_allowed_memory_ids g = []"
    by (rule finalize_grants [OF ok assms(2)]) auto
  ultimately show ?thesis using l ok by auto
qed

theorem finalize_is_logged_witness:
  "\<exists>l. st_usage_logs sample_store5 = [l] \<and> ul_used_memory_ids l = [u ''lesson_1''] \<and> ul_trace_id l = Some (u ''trace_2'')"
  using finalize_is_logged [OF sample_reached(2) sample_finalize]
  by (auto simp: sample_store4_fields sample_result_def)

text \<open>
  C7: A request ends once. After a request has been finalized it can be neither finalized nor
  cancelled again, with any arguments and after any further calls, even when its id has left the
  window of remembered requests.
\<close>

theorem request_ends_once:
  assumes "reached rt s" and "finalize_memory rt request payload trace_id res caused s = Inr (g, s')"
  shows "\<exists>e1 e2. finalize_memory rt' request payload' trace_id' res' caused' (run_calls rt calls s') = Inl e1 \<and>
    cancel_memory_request request (run_calls rt calls s') = Inl e2"
proof -
  have "store_step rt (rt_now rt, FinalizeMemory request payload trace_id res caused) s = Inr s'"
    using assms(2) by (simp add: store_step_def next_store_def)
  then have "reached rt s'" by (rule reached_step [OF assms(1)])
  moreover have "spent (gr_request_id request) s'" by (rule ended_spent(1) [OF reached_ok(1) [OF assms(1)] assms(2)])
  ultimately have "spent (gr_request_id request) (run_calls rt calls s')" by (rule reached_spent)
  then show ?thesis using spent_refused by blast
qed

theorem request_ends_once_witness:
  "\<exists>e. cancel_memory_request sample_request (run_calls sample_runtime sample_calls sample_store5) = Inl e"
  using request_ends_once [OF sample_reached(2) sample_finalize] by blast

text \<open>
  C8: An obsolete lesson is not injected. When the lesson behind a candidate is obsolete at the time
  of finalization, for example because it was retired after the request was prepared, no answer of
  the semantic gate can put it into the allowed set.
\<close>

theorem obsolete_lesson_not_injected:
  assumes "reached rt s" and "finalize_memory rt request payload trace_id res caused s = Inr (g, s')"
    and "dict_get (st_lessons s) i = Some l" and "ls_status l = u ''obsolete''"
  shows "i \<notin> set (gm_allowed_memory_ids g)"
proof (rule finalize_grants [OF reached_ok(2) [OF assms(1)] assms(2)], rule notI)
  fix ms
  assume al: "gm_allowed_memory_ids g = map mi_memory_id ms"
    and safe: "\<And>m. m \<in> set ms \<Longrightarrow> memory_item_at rt s (mi_memory_id m) = Inr (Some m) \<and> backed s m \<and> blocked_reason rt (gr_context request) m = None"
    and i: "i \<in> set (gm_allowed_memory_ids g)"
  from al i obtain m where m: "m \<in> set ms" "mi_memory_id m = i" by auto
  have none: "dict_get (st_failure_cases s) i = None" "dict_get (st_project_policies s) i = None"
    using reached_ok(2) [OF assms(1)] assms(3) by (auto simp: memory_ok_def ids_ok_def dest!: spec [of _ i])
  with safe [OF m(1)] m(2) assms(3,4) have "mi_status m = u ''obsolete''" by (auto simp: backed_def)
  moreover have "mi_status m \<in> set ALLOWED_STATUSES" using safe [OF m(1)] by (simp add: blocked_reason_None_iff)
  ultimately show False by (simp add: policy_constants)
qed

theorem obsolete_lesson_not_injected_witness:
  "\<exists>g s'. finalize_memory sample_runtime sample_request (PyMapping (decision_dict sample_decision)) (u ''trace_2'')
     None False sample_obsolete_store = Inr (g, s') \<and> u ''lesson_1'' \<notin> set (gm_allowed_memory_ids g)"
proof -
  have l: "dict_get (st_lessons sample_obsolete_store) (u ''lesson_1'') = Some (obsolete_lesson sample_lesson)"
    "ls_status (obsolete_lesson sample_lesson) = u ''obsolete''"
    by (simp_all add: sample_obsolete_fields obsolete_lesson_def)
  then show ?thesis
    using sample_refused obsolete_lesson_not_injected [OF sample_obsolete_reached _ l] by blast
qed

text \<open>
  Decision ids never clash. On a host that reads the ASCII digits as decimal digits, the id that
  the next decision gets is unused, so that appending its log cannot raise, whatever ids the logs
  already carry.
\<close>

theorem decision_ids_fresh:
  assumes "reached rt s" and "ascii_decimals rt"
    and "ul_decision_id l = u ''decision_'' @ format_06d (st_next_decision_number s)"
  shows "\<exists>s'. append_usage_log rt l s = Inr s' \<and> st_usage_logs s' = st_usage_logs s @ [l] \<and>
    distinct (map ul_decision_id (st_usage_logs s @ [l]))"
proof -
  have fresh: "\<not> dict_has (st_usage_log_indexes s) (ul_decision_id l)"
    using reached_ok(4) [OF assms(1)] decision_id_fresh [OF _ assms(2)] by (simp add: gate_ok_def assms(3))
  have "ul_decision_id l \<notin> ul_decision_id ` set (st_usage_logs s)"
  proof
    assume "ul_decision_id l \<in> ul_decision_id ` set (st_usage_logs s)"
    then obtain i where "i < length (st_usage_logs s)" "ul_decision_id (st_usage_logs s ! i) = ul_decision_id l"
      by (auto simp: in_set_conv_nth)
    then have "dict_get (st_usage_log_indexes s) (ul_decision_id l) = Some i"
      using reached_ok(3) [OF assms(1)] by (auto simp: logs_ok_def)
    with fresh show False by (simp add: dict_has_iff)
  qed
  then show ?thesis
    using fresh logs_ok_distinct [OF reached_ok(3) [OF assms(1)]] by (auto simp: append_usage_log_Inr_iff)
qed

theorem decision_ids_fresh_witness:
  "\<exists>s'. append_usage_log sample_runtime
     (sample_log\<lparr>ul_decision_id := u ''decision_'' @ format_06d (st_next_decision_number sample_store5)\<rparr>) sample_store5 = Inr s'"
  using decision_ids_fresh [OF sample_reached(3) sample_decimals,
      of "sample_log\<lparr>ul_decision_id := u ''decision_'' @ format_06d (st_next_decision_number sample_store5)\<rparr>"]
  by auto

text \<open>
  The windows are bounded. A store never holds more than 1000 pending requests or 100000
  pending candidate ids, remembers at most 10000 finalized requests, and no id is both pending and
  finalized.
\<close>

theorem request_windows_bounded:
  assumes "reached rt s"
  shows "length (st_pending_gate_requests s) \<le> 1000 \<and> pending_candidate_ids s \<le> 100000 \<and>
    length (st_finalized_gate_request_order s) \<le> 10000 \<and> distinct (st_finalized_gate_request_order s) \<and>
    set (st_finalized_gate_request_ids s) = set (st_finalized_gate_request_order s) \<and>
    (\<forall>i. i \<in> set (st_finalized_gate_request_ids s) \<longrightarrow> dict_get (st_pending_gate_requests s) i = None)"
proof -
  have "gate_ok rt s" by (rule reached_ok(4) [OF assms])
  then show ?thesis unfolding gate_ok_def requests_ok_def finalized_ok_def by blast
qed

theorem request_windows_bounded_witness:
  "length (st_pending_gate_requests sample_store4) \<le> 1000"
  using request_windows_bounded [OF sample_reached(2)] by blast

section \<open>Runs\<close>

text \<open>
  C15: A batch completes every run in it. When a batch of measured results is accepted, each
  decision in it ends with exactly its outcome, in its log and in its trace, and the store keeps
  its invariant.
\<close>

theorem batch_completes_every_run:
  assumes "reached rt s" and "complete_memory_runs rt results s = Inr (completions, s')" and "x \<in> set results"
  shows "run_complete s' (rr_decision_id x) (rr_eval_result x) (rr_memory_caused_failure x) \<and> store_ok rt s'"
  using complete_memory_runs_done [OF reached_ok(2,3) [OF assms(1)] assms(2,3)]
    runs_advance_store_ok [OF complete_memory_runs_advance [OF reached_ok(2,3) [OF assms(1)] assms(2)] reached_ok(1) [OF assms(1)]]
  by simp

theorem batch_completes_every_run_witness:
  "\<exists>s'. run_complete s' (u ''decision_000001'') (u ''pass'') False"
  using sample_completed batch_completes_every_run [OF sample_reached(3), of "[sample_outcome]" _ _ sample_outcome]
  by (fastforce simp: sample_outcome_def)

text \<open>
  Audits cover every decision. In every store a client can have, the audit of all runs returns
  one audit per decision log, in the order of the decision ids.
\<close>

theorem audits_cover_decisions:
  assumes "reached rt s"
  shows "\<exists>audits. memory_run_audits s = Inr audits \<and> sorted (map ra_decision_id audits) \<and>
    distinct (map ra_decision_id audits) \<and> set (map ra_decision_id audits) = ul_decision_id ` set (st_usage_logs s)"
proof (rule memory_run_audits_total [OF reached_ok(3) [OF assms]])
  fix as
  assume as: "memory_run_audits s = Inr as"
    and ids: "map ra_decision_id as = map ul_decision_id (sort_key ul_decision_id (st_usage_logs s))"
  have "mset (map ra_decision_id as) = mset (map ul_decision_id (st_usage_logs s))"
    unfolding ids by simp
  then have "distinct (map ra_decision_id as)"
    using logs_ok_distinct [OF reached_ok(3) [OF assms]] by (metis mset_eq_imp_distinct_iff)
  with as ids show ?thesis by (metis set_map set_sort sorted_sort_key)
qed

theorem audits_cover_decisions_witness:
  "\<exists>audits. memory_run_audits sample_store5 = Inr audits \<and> set (map ra_decision_id audits) = {u ''decision_000001''}"
  using audits_cover_decisions [OF sample_reached(3)]
  by (auto simp: sample_store5_def sample_log_def)

text \<open>
  The counters add up. The run metrics of every store a client can have are defined, count
  every decision once, and the five statuses partition the decisions.
\<close>

theorem run_metrics_partition:
  assumes "reached rt s"
  shows "\<exists>x. memory_run_metrics s = Inr x \<and> rm_decision_count x = length (st_usage_logs s) \<and>
    rm_pending_count x + rm_trace_only_count x + rm_decision_only_count x + rm_complete_count x +
      rm_conflict_count x = rm_decision_count x \<and>
    rm_recoverable_count x = rm_auto_recoverable_count x + rm_attribution_required_count x"
proof (rule memory_run_metrics_total [OF reached_ok(3) [OF assms]])
  fix as x
  assume as: "rmap (memory_run_audit s) (st_usage_logs s) = Inr as" and x: "memory_run_metrics s = Inr x"
    and eq: "x = (counts \<lparr>rm_decision_count = 0, rm_pending_count = 0, rm_trace_only_count = 0, rm_decision_only_count = 0,
        rm_complete_count = 0, rm_conflict_count = 0, rm_recoverable_count = 0,
        rm_auto_recoverable_count = 0, rm_attribution_required_count = 0\<rparr> as)
        \<lparr>rm_recoverable_count := count_action ''recover'' as + count_action ''recover_with_attribution'' as\<rparr>"
    and known: "\<forall>a\<in>set as. known_status (ra_status a)"
  have "length as = length (st_usage_logs s)" using as by (rule rmap_Inr_length)
  then show ?thesis using x eq count_status_total [OF known] by (auto simp: counts_def)
qed

theorem run_metrics_partition_witness:
  "\<exists>x. memory_run_metrics sample_store5 = Inr x \<and> rm_decision_count x = 1"
  using run_metrics_partition [OF sample_reached(3)] by (auto simp: sample_store5_def)

section \<open>Retrieval\<close>

text \<open>
  C16: Retrieval offers only memories of the store. Every retrieved item belongs to a record of the
  store, its whole scope matches the context, and with ancestry evidence its anchor commit, if it
  has one, is recorded as an ancestor; without scores the result is ordered by id and within the
  limit, with scores it is ordered by descending score and then id, within the requested number.
\<close>

theorem retrieval_offers_stored_memory:
  assumes "reached rt s"
    and "retrieve_memories rt s cx query scores max_candidates minimum evidence limit = Inr ms"
  shows "(\<forall>m\<in>set ms. backed s m \<and> has_metadata_match (mi_scope m) (context_values cx) \<and> anchored s evidence m) \<and>
    (scores = None \<longrightarrow> sorted (map mi_memory_id ms) \<and> (\<forall>n. limit = Some n \<longrightarrow> length ms \<le> n)) \<and>
    (\<forall>d. scores = Some d \<longrightarrow> int (length ms) \<le> the max_candidates \<and>
       sorted (map (\<lambda>m. (- score_of d m, mi_memory_id m)) ms))"
  using retrieved [OF reached_ok(2) [OF assms(1)] assms(2)] by (auto simp: offered_for_def)

theorem retrieval_offers_stored_memory_witness:
  "backed sample_store3 sample_stored_item \<and>
   has_metadata_match (mi_scope sample_stored_item) (context_values sample_context)"
  using retrieval_offers_stored_memory [OF sample_reached(1) sample_retrieval [of 999]] by simp

section \<open>Gates and decisions\<close>

text \<open>
  C17: The System Gate in closed form. It accepts exactly a valid context and candidates with
  distinct well-formed ids; it then allows, in order, the candidates for which no check gives a
  reason and pairs every other candidate with its first reason.
\<close>

theorem system_gate_closed_form:
  "system_gate rt cx candidates = Inr (allowed, blocked) \<longleftrightarrow>
     validate_memory_context cx = None \<and> distinct (map mi_memory_id candidates) \<and>
     list_all (\<lambda>m. mi_memory_id m \<noteq> [] \<and> length (mi_memory_id m) \<le> MEMORY_ID_MAX_CHARS) candidates \<and>
     allowed = filter (\<lambda>m. blocked_reason rt cx m = None) candidates \<and>
     blocked = List.map_filter (\<lambda>m. map_option (Pair (mi_memory_id m)) (blocked_reason rt cx m)) candidates"
  by (auto simp: system_gate_Inr_iff validated_memory_collection_None_iff list_all_iff)

text \<open>
  C18: The bounded gate refines the System Gate. What it allows is the front of what the System Gate
  allows, at most 50 memories, and every other candidate is blocked with a reason: the one the
  System Gate gave, or that the limit was exceeded.
\<close>

theorem bounded_gate_refines_system_gate:
  assumes "bounded_system_gate rt cx candidates = Inr (allowed, blocked)"
  shows "\<exists>allowed0 blocked0. system_gate rt cx candidates = Inr (allowed0, blocked0) \<and>
    allowed = take 50 allowed0 \<and> length allowed \<le> 50 \<and>
    set (dict_keys blocked) = mi_memory_id ` set candidates - mi_memory_id ` set allowed \<and>
    (\<forall>i r. (i, r) \<in> set blocked \<longrightarrow> (i, r) \<in> set blocked0 \<or> r = LLM_GATE_CANDIDATE_LIMIT_REASON)"
proof (rule bounded_system_gate_InrE [OF assms])
  fix a0 b0
  assume g: "system_gate rt cx candidates = Inr (a0, b0)" and a: "allowed = take LLM_GATE_MAX_CANDIDATES a0"
    and b: "blocked = fold (\<lambda>m d. dict_set (mi_memory_id m) LLM_GATE_CANDIDATE_LIMIT_REASON d)
       (drop LLM_GATE_MAX_CANDIDATES a0) b0"
  have "(i, r) \<in> set b0 \<or> r = LLM_GATE_CANDIDATE_LIMIT_REASON" if "(i, r) \<in> set blocked" for i r
    by (rule in_fold_set) (use that in \<open>simp only: b\<close>)
  then show ?thesis using g a bounded.gate_blocked [OF assms] by (intro exI [of _ a0] exI [of _ b0]) simp
qed

theorem bounded_gate_refines_system_gate_witness:
  "\<exists>a b. system_gate sample_runtime sample_context [sample_stored_item] = Inr (a, b) \<and> [sample_stored_item] = take 50 a"
  using bounded_gate_refines_system_gate [OF sample_bounded_gate(1)] by blast

text \<open>
  C19: A parsed decision satisfies the contract. Whatever text or mapping a model returned, a decision
  that the parser accepts lists at most 50 distinct well-formed ids on each side, has a bounded
  nonblank reason and known risk and injection modes, and uses memory exactly when it allows some
  and recommends an injection.
\<close>

theorem parsed_decision_contract:
  assumes "parse_memory_decision rt payload = Inr d"
  shows "length (md_allowed_memory_ids d) \<le> 50 \<and> length (md_blocked_memory_ids d) \<le> 50 \<and>
    distinct (md_allowed_memory_ids d) \<and> distinct (md_blocked_memory_ids d) \<and>
    list_all (\<lambda>i. i \<noteq> [] \<and> length i \<le> MEMORY_ID_MAX_CHARS) (md_allowed_memory_ids d @ md_blocked_memory_ids d) \<and>
    \<not> blank (md_reason d) \<and> length (md_reason d) \<le> MEMORY_DECISION_REASON_MAX_CHARS \<and>
    md_risk d \<in> set Policy.DECISION_RISKS \<and> md_recommended_injection d \<in> set Policy.RECOMMENDED_INJECTIONS \<and>
    (md_use_memory d \<longleftrightarrow> md_allowed_memory_ids d \<noteq> []) \<and>
    (md_use_memory d \<longleftrightarrow> md_recommended_injection d \<noteq> u ''none'')"
  using parse_memory_decision_accepted [OF assms]
  by (auto simp: decision_accepted_def validated_decision_fields_Inr_iff decision_consistent_def list_all_iff)

theorem parsed_decision_contract_witness: "length (md_allowed_memory_ids sample_decision) \<le> 50"
  using parsed_decision_contract
    [OF parse_decision_dict [OF sample_payload_budget sample_decision_accepted sample_decision_consistent, of sample_runtime]]
  by blast

text \<open>
  C20: Decisions round trip. A consistent decision within the response budget, written as a mapping
  of its fields, is read back unchanged.
\<close>

theorem decision_round_trip:
  assumes "decision_accepted d" and "decision_consistent d" and "within_budget (PDict (decision_dict d))"
  shows "parse_memory_decision rt (PyMapping (decision_dict d)) = Inr d"
  by (rule parse_decision_dict [OF assms(3,1,2)])

theorem decision_round_trip_witness:
  "parse_memory_decision sample_runtime (PyMapping (decision_dict sample_decision)) = Inr sample_decision"
  by (rule decision_round_trip [OF sample_decision_accepted sample_decision_consistent sample_payload_budget])

text \<open>
  The response budget is exact. The iterative walk over a decision payload accepts it exactly
  when it has at most the allowed number of nodes, depth and bytes of encodable text and only
  finite numbers, in terms of the recursive size of the value.
\<close>

theorem decision_budget_exact:
  "validate_memory_decision_payload_budget d = None \<longleftrightarrow>
     json_nodes (PDict d) \<le> LLM_GATE_RESPONSE_MAX_NODES \<and> json_ok is_finite_number (PDict d) \<and>
     json_depth 0 (PDict d) \<le> LLM_GATE_RESPONSE_MAX_DEPTH \<and>
     text_fits (json_strings (PDict d)) LLM_GATE_RESPONSE_MAX_BYTES"
  by (simp only: budget_exact within_budget_def)

text \<open>
  C21: The trace JSON budget is exact. The shared, iterative validation of the three JSON lists of a
  trace accepts it exactly when every value in them is JSON within the depth limit and all of them
  together are within the node and byte limits.
\<close>

theorem trace_budget_exact:
  "(\<exists>budget. validate_trace_json rt trace = Inr budget) \<longleftrightarrow>
     (let lists = [tr_retrieved_context trace, tr_tool_calls trace, tr_tool_outputs trace];
          values = map json_list lists
      in sum_list (map json_nodes values) \<le> TRACE_JSON_MAX_NODES \<and>
         json_items_ok rt (concat lists) \<and>
         text_fits (concat (map json_strings values)) TRACE_JSON_MAX_TEXT_BYTES)"
  by (simp only: validate_trace_json_exact trace_json_within_def)

text \<open>
  C22: What the gates agree on can be rendered. After the gate and any accepted decision, building
  the snippet can fail only because it would exceed the number of memories or of characters; all
  its other checks hold by construction.
\<close>

theorem agreed_memory_is_rendered:
  assumes "bounded_system_gate rt cx candidates = Inr (a, b)" and "apply_llm_gate_decision rt a b d = Inr (ms, d')"
    and "length ms \<le> INJECTION_MAX_MEMORIES"
    and "length (snippet_text (md_recommended_injection d') ms) \<le> INJECTION_SNIPPET_MAX_CHARS"
  shows "build_injection_snippet rt ms None (Some d') (Some cx) =
    Inr (snippet_text (md_recommended_injection d') ms)"
proof -
  from assms(2) have d: "decision_accepted d" and r: "ms = granted_items a d" "d' = combined_decision a b d"
    by (simp_all add: apply_llm_gate_decision_Inr_iff)
  show ?thesis using bounded.rendered_iff [OF assms(1) d] assms(3,4) unfolding r by blast
qed

theorem agreed_memory_is_rendered_witness:
  "build_injection_snippet sample_runtime [sample_stored_item] None (Some sample_decision) (Some sample_context) =
     Inr sample_snippet"
proof -
  have "length sample_snippet \<le> INJECTION_SNIPPET_MAX_CHARS"
    using sample_rendered by (simp add: build_injection_snippet_Inr_iff)
  then show ?thesis
    using agreed_memory_is_rendered [OF sample_bounded_gate(1) sample_decided]
    by (simp add: sample_snippet_def sample_decision_def)
qed

text \<open>
  C23: The snippet cannot be broken by memory text. Every character of a snippet is printable ASCII or
  a line feed, and the number of its lines depends only on the number of memories and the mode, so
  no memory text can forge a line; and it is within the character limit.
\<close>

theorem snippet_shape:
  assumes "build_injection_snippet rt ms requested decision cx = Inr snippet"
  shows "(\<forall>c. c \<in> set snippet \<longrightarrow> c = 10 \<or> 32 \<le> c \<and> c \<le> 126) \<and>
    length snippet \<le> INJECTION_SNIPPET_MAX_CHARS \<and>
    (snippet \<noteq> [] \<longrightarrow> count_list snippet 10 = length ms * lines_per_memory (injection_mode requested decision))"
proof -
  from assms have s: "snippet = snippet_text (injection_mode requested decision) ms"
    and len: "length snippet \<le> INJECTION_SNIPPET_MAX_CHARS"
    unfolding build_injection_snippet_Inr_iff by blast+
  moreover have "count_list snippet 10 = length ms * lines_per_memory (injection_mode requested decision)" if "snippet \<noteq> []"
    unfolding s by (rule snippet_text_newlines) (use that s in \<open>auto simp: snippet_text_def\<close>)
  ultimately show ?thesis using snippet_text_chars by blast
qed

theorem snippet_shape_witness: "length sample_snippet \<le> INJECTION_SNIPPET_MAX_CHARS"
  using snippet_shape [OF sample_rendered] by blast

text \<open>
  Nothing is rendered that a guardrail refuses. A snippet is built from memories only together
  with a decision that uses memory, allows each of them, blocks none and recommends the mode that is
  used; and every memory passes the guardrails on status, type, source, sensitivity and leakage.
\<close>

theorem snippet_needs_decision:
  assumes "build_injection_snippet rt ms requested decision cx = Inr snippet" and "ms \<noteq> []"
  shows "(\<exists>d. decision = Some d \<and> md_use_memory d \<and> injection_mode requested decision = md_recommended_injection d \<and>
      mi_memory_id ` set ms \<subseteq> set (md_allowed_memory_ids d) - set (md_blocked_memory_ids d)) \<and>
    (\<forall>m. m \<in> set ms \<longrightarrow> snippet_guardrail_error rt m = None) \<and> length ms \<le> INJECTION_MAX_MEMORIES"
proof -
  from assms(1) have v: "validate_injection_inputs rt ms decision requested = None" "length ms \<le> INJECTION_MAX_MEMORIES"
    by (simp_all add: build_injection_snippet_Inr_iff)
  from validate_injection_inputs_None(1) [OF v(1) assms(2)] obtain d where d: "decision = Some d" "md_use_memory d"
      "requested = None \<or> requested = Some (md_recommended_injection d)"
      "mi_memory_id ` set ms \<subseteq> set (md_allowed_memory_ids d)" "mi_memory_id ` set ms \<inter> set (md_blocked_memory_ids d) = {}"
    by blast
  then have "injection_mode requested decision = md_recommended_injection d" by (auto simp: injection_mode_def)
  with d validate_injection_inputs_None(2) [OF v(1) assms(2)] v(2) show ?thesis by blast
qed

theorem snippet_needs_decision_witness: "snippet_guardrail_error sample_runtime sample_stored_item = None"
  using snippet_needs_decision [OF sample_rendered] by simp

section \<open>Records\<close>

text \<open>
  C24: Events round trip. A valid event, with valid source evidence and artifact references, written as a
  dictionary is read back unchanged.
\<close>

theorem canonical_event_round_trip:
  assumes "canonical_event_error rt sha e = None" and "\<forall>s. ev_source e = Some s \<longrightarrow> source_error s = None"
    and "\<forall>r\<in>set (ev_artifact_refs e). artifact_ref_error r = None"
  shows "parse_canonical_event rt sha (event_to_dict e) = Inr e"
  by (rule parse_event_to_dict [OF assms])

theorem canonical_event_round_trip_witness:
  "parse_canonical_event event_runtime sample_sha (event_to_dict ledger_event) = Inr ledger_event"
  by (rule canonical_event_round_trip [OF ledger_event_valid]) (simp_all add: ledger_event_def)

text \<open>
  C25: A case is verified only through review. Along any sequence of the transitions of a failure
  case that starts from a draft, a case that is verified in the end carries the complete evidence:
  identity, description, review and fix with a passed regression; and the case keeps its id, its
  source trace and its commit.
\<close>

theorem verified_case_was_reviewed:
  assumes "(case_step rt)\<^sup>*\<^sup>* c c'" and "fc_status c = u ''draft''" and "valid_clock rt"
  shows "(fc_status c' = u ''verified'' \<longrightarrow> verified_evidence c') \<and> fc_case_id c' = fc_case_id c \<and>
    fc_source_trace_id c' = fc_source_trace_id c \<and> fc_commit_sha c' = fc_commit_sha c"
  using assms(1)
proof (induction rule: rtranclp_induct)
  case base
  then show ?case using assms(2) by simp
next
  case (step b c)
  then show ?case using case_step_status [OF step.hyps(2) assms(3)] by simp
qed

theorem verified_case_was_reviewed_witness: "verified_evidence sample_verified_case"
proof -
  have "case_step sample_runtime sample_case sample_reviewed_case"
    "case_step sample_runtime sample_reviewed_case sample_verified_case"
    by (rule case_step.review [OF sample_reviewed], rule case_step.verify [OF sample_verified])
  then have "(case_step sample_runtime)\<^sup>*\<^sup>* sample_case sample_verified_case" by (meson r_into_rtranclp rtranclp_trans)
  from verified_case_was_reviewed [OF this _ sample_clock] show ?thesis by (simp add: sample_case_defs)
qed

text \<open>
  C26: Retiring cascades. A batch of retirements makes every requested case, lesson and policy obsolete, and every
  lesson of a requested case with it. Every other record, of any kind, is as before, no record appears or
  disappears, and no other part of the store changes. The batch returns the records now stored under the requested ids, in order.
\<close>

theorem retirement_cascades:
  assumes "reached rt s" and "obsolete_memories rt requests s = Inr (records, s')"
  shows "(\<forall>i. dict_get (st_failure_cases s') i =
      map_option (\<lambda>c. if i \<in> set (requested_ids (u ''failure_case'') requests) then obsolete_failure_case c else c)
        (dict_get (st_failure_cases s) i)) \<and>
    (\<forall>i. dict_get (st_lessons s') i =
      map_option (\<lambda>l. if i \<in> set (requested_ids (u ''lesson'') requests) \<or>
             ls_source_case_id l \<in> set (requested_ids (u ''failure_case'') requests) then obsolete_lesson l else l)
        (dict_get (st_lessons s) i)) \<and>
    (\<forall>i. dict_get (st_project_policies s') i =
      map_option (\<lambda>p. if i \<in> set (requested_ids (u ''project_policy'') requests) then obsolete_project_policy p else p)
        (dict_get (st_project_policies s) i)) \<and>
    s'\<lparr>st_failure_cases := st_failure_cases s, st_lessons := st_lessons s, st_project_policies := st_project_policies s\<rparr> = s \<and>
    rmap (requested_record s') requests = Inr records"
proof -
  note s' = obsolete_memories_Inr(1) [OF assms(2)] and ok = reached_ok(2) [OF assms(1)]
  have "rmap (requested_record s') requests = Inr records" by (rule retired_records [OF ok assms(2)])
  moreover have "s'\<lparr>st_failure_cases := st_failure_cases s, st_lessons := st_lessons s,
      st_project_policies := st_project_policies s\<rparr> = s"
    by (simp add: s' retired_store_def)
  ultimately show ?thesis unfolding s' by (simp add: retired_case [OF ok] retired_lesson [OF ok] retired_policy [OF ok])
qed

theorem retirement_cascades_witness:
  "\<exists>records t. obsolete_memories sample_runtime [sample_retirement] sample_store3 = Inr (records, t) \<and>
     dict_get (st_lessons t) (u ''lesson_1'') = Some (obsolete_lesson sample_lesson) \<and>
     rmap (requested_record t) [sample_retirement] = Inr records"
proof -
  obtain records t where t: "obsolete_memories sample_runtime [sample_retirement] sample_store3 = Inr (records, t)"
    using sample_retired by blast
  note c = retirement_cascades [OF sample_reached(1) t]
  have "dict_get (st_lessons sample_store3) (u ''lesson_1'') = Some sample_lesson"
    "ls_source_case_id sample_lesson \<in> set (requested_ids (u ''failure_case'') [sample_retirement])"
    by (simp add: sample_store3_fields, simp add: sample_lesson_def requested_ids_def sample_retirement_def)
  then have "dict_get (st_lessons t) (u ''lesson_1'') = Some (obsolete_lesson sample_lesson)" using c by simp
  with t c show ?thesis by blast
qed

section \<open>Gate sessions\<close>

text \<open>
  C27: The life of a gate session. After any calls on a created session, refused ones included, the
  record is valid; whatever is called later, it keeps its identity and every piece of evidence it
  has recorded, and its version never decreases; a completed session has the whole chain of
  evidence, and a terminal session never changes again.
\<close>

theorem gate_session_life:
  assumes "create_gate_session r = Inr s0" and "s = run_session ops s0" and "t = run_session later s"
  shows "session_error s = None \<and> session_identity t = session_identity s \<and> evidence_kept s t \<and>
    gs_version s \<le> gs_version t \<and>
    (gs_status s = u ''completed'' \<longrightarrow>
       gs_retrieval_snapshot_id s \<noteq> None \<and> gs_system_gate_evaluation_id s \<noteq> None \<and> gs_decision_id s \<noteq> None \<and>
       gs_injection_artifact_id s \<noteq> None \<and> gs_usage_decision_id s \<noteq> None \<and> gs_run_outcome_id s \<noteq> None) \<and>
    (gs_status s \<in> set TERMINAL_STATUSES \<longrightarrow> t = s)"
proof -
  have c: "session_created s0" using assms(1) by (auto simp: session_created_def)
  from run_session_ok [OF c] have v: "session_error s = None" by (simp add: assms(2) session_ok_def)
  note sh = session_shape [OF v] and st = session_status_shape(5) [OF v]
  have "session_later s t"
    unfolding assms(2,3) by (rule run_session_from_reachable [OF run_session_reachable [OF c]])
  then show ?thesis
    using v sh(1,3,4,5,7) st terminal_run [OF v] unfolding session_later_def assms(3) by blast
qed

theorem gate_session_life_witness:
  "session_error sample_decided_session = None \<and>
   evidence_kept sample_decided_session (run_session sample_session_ops sample_decided_session)"
  using gate_session_life [OF sample_created(1) sample_session_run [symmetric] refl] by blast

text \<open>
  C28: Every life is finite. A session has at most as many revisions as there are microseconds
  between its creation and its expiry, plus two, however often leases are renewed.
\<close>

theorem gate_session_life_bounded:
  assumes "create_gate_session r = Inr s" and "instant_of (sr_created_at r) = Some c"
    and "instant_of (sr_expires_at r) = Some e"
  shows "gs_version (run_session ops s) \<le> 2 + (e - c)"
proof -
  have "session_created s" using assms(1) by (auto simp: session_created_def)
  note k = run_session_ok [OF this, of ops] run_session_later [OF this, of ops]
  from assms(1) have "gs_created_at s = sr_created_at r" "gs_expires_at s = sr_expires_at r"
    by (auto simp: create_gate_session_def)
  with k assms(2,3) show ?thesis by (simp add: session_ok_def session_later_def session_identity_def time_of_def)
qed

theorem gate_session_life_bounded_witness:
  "gs_version sample_decided_session \<le> 2 + 8 * 86400000000"
proof -
  have "instant_of (sr_created_at sample_session_request) = Some (instant (day_time 1))"
    "instant_of (sr_expires_at sample_session_request) = Some (instant (day_time 1) + 8 * 86400000000)"
    by (simp_all add: sample_session_request_def instant_day)
  from gate_session_life_bounded [OF sample_created(1) this, of sample_session_ops] show ?thesis by (simp add: sample_session_run)
qed

text \<open>
  Sessions round trip. A valid session that can be written is read back as a valid session that
  differs only in how its timestamps are written, not in the instants they denote, and that is
  written in the same way.
\<close>

theorem gate_session_round_trip:
  assumes "session_error s = None" and "session_to_dict s = Inr d"
  shows "\<exists>c. parse_gate_session d = Inr c \<and> same_session s c \<and> session_error c = None \<and> session_to_dict c = Inr d"
  using session_round_trip [OF assms] same_session_valid [OF _ assms(1)] by metis

theorem gate_session_round_trip_witness:
  "\<exists>c. parse_gate_session (session_fields sample_session) = Inr c \<and> same_session sample_session c"
proof -
  have "canonical_session sample_session = Inr sample_session"
    by (simp add: canonical_session_def canonical_optional_def sample_session_def canonical_day)
  then have "session_to_dict sample_session = Inr (session_fields sample_session)" by (simp add: session_to_dict_def)
  from gate_session_round_trip [OF sample_session_valid this] show ?thesis by blast
qed

text \<open>
  A lapsed lease blocks a decided session. Once the lease of a decided or finalized session has
  run out, no transition and no renewal at that time or later is accepted, whatever the arguments.
\<close>

theorem lapsed_lease_blocks:
  assumes "session_error s = None" and "gs_status s \<in> {u ''decided'', u ''finalized''}"
    and "gs_lease_expires_at s = Some lease" and "time_le lease now"
  shows "\<exists>e1 e2. transition_gate_session s target v now f = Inl e1 \<and> renew_gate_session_lease s w now lease' = Inl e2"
  using lapsed_lease_no_step [OF assms] by blast

theorem lapsed_lease_blocks_witness:
  "\<exists>e. transition_gate_session sample_decided_session (u ''finalized'') 4 (day 6) no_fields = Inl e"
  using lapsed_lease_blocks [OF sample_decided_valid _ sample_session_fields(14), of "day 6"]
  by (simp add: sample_session_fields time_le_def instant_day)

text \<open>
  Every other session can be ended. From each other status that is not terminal, at every time
  after its last revision, even after the lease and the expiry, the session can be canceled, or
  abandoned when it is executing; the result is valid, terminal and holds no lease.
\<close>

theorem gate_session_can_end:
  assumes "session_error s = None"
    and "gs_status s \<in> {u ''created'', u ''prepared'', u ''awaiting_decision'', u ''executing''}"
    and "time_less (gs_updated_at s) now" and "required_reason reason (u ''terminal_reason'') = None"
  shows "\<exists>t. transition_gate_session s (if gs_status s = u ''executing'' then u ''abandoned'' else u ''canceled'')
      (gs_version s) now (end_fields reason) = Inr t \<and>
    session_error t = None \<and> gs_status t \<in> set TERMINAL_STATUSES \<and> gs_lease_expires_at t = None"
  using session_can_end [OF assms] ended_valid [OF assms]
  by (auto simp: end_status_def transitioned_def TERMINAL_STATUSES_def)

theorem gate_session_can_end_witness:
  "\<exists>t. transition_gate_session sample_session (u ''canceled'') 1 (day 20) (end_fields (u ''stop'')) = Inr t"
  using gate_session_can_end [OF sample_session_valid, of "day 20" "u ''stop''"]
  by (auto simp: sample_session_fields time_less_def instant_day required_reason_def py_isspace_def)

text \<open>
  C29: Which sessions can be written. Take any accepted request and any calls on the session, refused ones
  included. When all timestamps of the record have a date in UTC, the session is written, and what was written is read back as the same
  session at the same instants. Otherwise writing raises an overflow error instead of a contract error. A request may be accepted with such a
  timestamp, a valid one that lies before the first or after the last UTC date of the calendar; then no later revision can be written.
\<close>

theorem unwritable_session:
  assumes "create_gate_session q = Inr s" and "t = run_session ops s"
  shows "(if list_all utc_date (session_timestamps t)
      then \<exists>d c. session_to_dict t = Inr d \<and> parse_gate_session d = Inr c \<and> same_session t c
      else session_to_dict t = Inl OverflowError) \<and>
    (\<not> utc_date (sr_created_at q) \<or> \<not> utc_date (sr_expires_at q) \<longrightarrow> session_to_dict t = Inl OverflowError)"
proof -
  have c: "session_created s" using assms(1) by (auto simp: session_created_def)
  have v: "session_error t = None" using run_session_ok [OF c] by (simp add: assms(2) session_ok_def)
  have "session_identity t = session_identity s" using run_session_later [OF c, of ops] by (simp add: assms(2) session_later_def)
  moreover have "gs_created_at s = sr_created_at q" "gs_expires_at s = sr_expires_at q"
    using assms(1) by (auto simp: create_gate_session_def)
  ultimately have "sr_created_at q \<in> set (session_timestamps t)" "sr_expires_at q \<in> set (session_timestamps t)"
    by (simp_all add: session_timestamps_def session_identity_def)
  then show ?thesis using written_or_overflow [OF v] session_round_trip [OF v] by (auto simp: list_all_iff split: if_splits) metis
qed

theorem unwritable_session_witness:
  "create_gate_session sample_endless_request = Inr sample_endless_session \<and>
   session_to_dict (run_session sample_session_ops sample_endless_session) = Inl OverflowError"
  using unwritable_session [OF sample_endless_created refl, of sample_session_ops] sample_deadline_no_utc_date sample_endless_created
  by (simp add: sample_endless_request_def)

section \<open>The completion outbox\<close>

text \<open>
  C30: The life of a delivery. After any calls on the first delivery of an event, refused ones
  included, the revision is valid and belongs to the event; there are at most 1000 attempts and 2001
  revisions; later calls keep the event, and never lower the version, the attempts or the time; a
  delivered or dead-lettered delivery never changes again.
\<close>

theorem outbox_delivery_life:
  assumes "build_initial_completion_outbox_delivery rt sha event = Inr d"
    and "e = run_delivery rt sha ops d" and "f = run_delivery rt sha (ops @ ops') d"
  shows "delivery_error rt sha e = None \<and> od_event_id e = oe_event_id event \<and>
    od_version e \<le> 2 * od_attempt_count e + 1 \<and> od_attempt_count e \<le> 1000 \<and> delivery_later e f \<and>
    (od_status e \<in> {u ''delivered'', u ''dead_letter''} \<longrightarrow> f = e)"
proof -
  have b: "delivery_begins rt sha d" using assms(1) by (auto simp: delivery_begins_def)
  have ok: "delivery_error rt sha e = None" "od_version e \<le> 2 * od_attempt_count e + 1"
    using run_delivery_ok [OF b, of ops] by (auto simp: assms(2) delivery_ok_def split: if_splits)
  have "od_event_id d = oe_event_id event"
    using assms(1) by (auto simp: build_initial_completion_outbox_delivery_def build_delivery_def result_simps Let_def revision_def)
  moreover have "delivery_later d e" using run_delivery_later [OF b, of "[]" ops] by (simp add: assms(2) run_delivery_def)
  moreover have "f = run_delivery rt sha ops' e" by (simp add: assms(2,3) run_delivery_def)
  ultimately show ?thesis
    using ok delivery_valid_parts(6) [OF ok(1)] run_delivery_later [OF b, of ops ops'] ended_run
    by (auto simp: assms(2,3) delivery_later_def)
qed

theorem outbox_delivery_life_witness:
  "delivery_error sample_runtime sample_sha (run_delivery sample_runtime sample_sha [Claim (u ''w'') (day 2) 60] sample_pending) = None"
  using outbox_delivery_life [OF sample_begins(1) refl refl] by blast

text \<open>
  C31: Only the owner settles a delivery. Whoever acknowledges a delivery or reports its failure with
  success holds its lease, and the lease has not run out at that time.
\<close>

theorem outbox_settled_by_owner:
  assumes "acknowledge_completion_outbox_delivery rt sha d worker t response = Inr e \<or>
    fail_completion_outbox_delivery rt sha d worker t code delay limit = Inr e"
  shows "od_status d = u ''leased'' \<and> od_worker_id d = Some worker \<and>
    not_after (instant_of (od_updated_at d)) (instant_of t) \<and> not_after (instant_of t) (moment (od_lease_expires_at d)) \<and>
    od_status e \<in> {u ''delivered'', u ''retry_wait'', u ''dead_letter''}"
proof -
  have "require_active_lease d worker t = None" "od_status e \<in> {u ''delivered'', u ''retry_wait'', u ''dead_letter''}"
    using assms acknowledge_Inr fail_Inr by (auto split: if_splits)
  then show ?thesis using active_lease_None by blast
qed

theorem outbox_settled_by_owner_witness:
  "od_worker_id (sample_leased 2 1) = Some (u ''w'')"
  using outbox_settled_by_owner [OF disjI1 [OF sample_acknowledged]] by blast

text \<open>
  C32: A due delivery can be claimed. Take a valid delivery with attempts left, at revision 2001 or earlier (no delivery has
  more revisions), and a claim at a canonical time that is not before the last change of the delivery. When the
  delivery waits and is available at that time, or is leased and its lease has run out by then, the claim is accepted:
  for any worker whose id is a trimmed text of 1 to 128 characters without control characters that can be encoded, and any lease of 1 to 86400 seconds that
  ends within the calendar. Of the host, the digest function returns 64 hexadecimal digits,
  integers are written as texts that can be encoded, and the limit on their digits is off or at least 640, as documented.
\<close>

theorem outbox_claim_progress:
  assumes "delivery_error rt sha d = None" and "hex_digests sha" and "decimal_numbers rt"
    and "bounded_identifier 128 worker" and "encodable worker" and "1 \<le> seconds" and "seconds \<le> 86400"
    and "canonical_rfc3339 t = Inr t" and "od_attempt_count d < 1000"
    and "not_after (instant_of (od_updated_at d)) (instant_of t)"
    and "od_status d \<in> {u ''pending'', u ''retry_wait''} \<and> not_after (moment (od_available_at d)) (instant_of t) \<or>
      od_status d = u ''leased'' \<and> not_after (moment (od_lease_expires_at d)) (instant_of t)"
    and "timestamp_plus_seconds t seconds (u ''lease_expires_at'') = Inr lease" and "od_version d \<le> 2001"
  shows "\<exists>e. claim_completion_outbox_delivery rt sha d worker t seconds = Inr e"
proof -
  have "claimable_error d t = None"
    unfolding claimable_error_def first_error_None_iff using assms(9-11) by auto
  then show ?thesis using claim_total assms by blast
qed

theorem outbox_claim_progress_witness:
  "\<exists>e. claim_completion_outbox_delivery sample_runtime sample_sha sample_pending (u ''w'') (day 2) 86400 = Inr e"
proof -
  have "timestamp_plus_seconds (day 2) 86400 (u ''lease_expires_at'') = Inr (day 3)"
    by (simp add: timestamp_plus_seconds_def parse_day next_day aware_datetime_to_rfc3339_def astimezone_utc_def)
       (simp add: day_def day_time_def)
  from outbox_claim_progress [OF sample_pending_valid sample_hex_digests sample_decimal_numbers sample_worker _ _ _ _ _ _ _ this]
  show ?thesis by (simp add: canonical_day sample_pending_def revision_def instant_day moment_def)
qed

text \<open>
  C33: The last attempt must be reported. When the worker of the thousandth attempt does not answer
  within its lease, the delivery stays leased for ever: it can no longer be claimed, acknowledged or
  failed, and it does not become a dead letter.
\<close>

theorem exhausted_delivery_stuck:
  assumes "od_status d = u ''leased''" and "od_attempt_count d = 1000" and "od_lease_expires_at d = Some l"
    and "instant_of l = Some i" and "instant_of t = Some n" and "i < n"
  shows "\<exists>x y z. claim_completion_outbox_delivery rt sha d worker t seconds = Inl x \<and>
    acknowledge_completion_outbox_delivery rt sha d worker t response = Inl y \<and>
    fail_completion_outbox_delivery rt sha d worker t code delay limit = Inl z"
  using exhausted_no_step [OF assms] by blast

theorem exhausted_delivery_stuck_witness:
  "delivery_error sample_runtime sample_sha (sample_leased 2000 1000) = None \<and>
   (\<exists>x. claim_completion_outbox_delivery sample_runtime sample_sha (sample_leased 2000 1000) (u ''v'') (day 4) 60 = Inl x)"
  using sample_leased_valid [of 2000 1000]
    exhausted_delivery_stuck [of "sample_leased 2000 1000" "day 3" _ "day 4"]
  by (simp add: sample_leased_def revision_def instant_day)

section \<open>The workers\<close>

text \<open>
  C34: The delivery worker reports the truth. Whatever the repository and the consumer do, a pass that returns was given
  claims by the repository, within the limit, for distinct events and leased to this worker, and it reports one result
  for each, in order. For every claim the consumer was called once with its event. When its receipt was good the
  delivery was acknowledged with the consumer's response, otherwise it was failed with the code of what went wrong; the
  result names the event, revision and attempt of the claim. What is reported as delivered, waiting or dead-lettered is the
  revision that this write returned: the legal next one, with the status, response and error code that belong to the consumer's
  answer, and reading the delivery back returned the same. When the write raised, what is reported is the
  revision then read: superseded when it is newer, requiring recovery when it is the claim itself.
\<close>

theorem outbox_worker_truthful:
  assumes "outbox_run_once repo consumer worker lease limit delay m s = (Inr results, t)"
  shows "\<exists>claims s0. or_claim_due repo worker lease limit s = (Inr claims, s0) \<and>
    int (length claims) \<le> limit \<and> distinct (map (oe_event_id \<circ> fst) claims) \<and>
    list_all (\<lambda>c. od_event_id (snd c) = oe_event_id (fst c) \<and> od_status (snd c) = u ''leased'' \<and>
      od_worker_id (snd c) = Some worker) claims \<and>
    in_turn (delivery_report repo consumer worker delay m) claims s0 results t"
proof -
  obtain claims s0 where c: "or_claim_due repo worker lease limit s = (Inr claims, s0)"
    and v: "validate_claims worker limit claims = None"
    and r: "in_turn (delivery_report repo consumer worker delay m) claims s0 results t"
    by (rule outbox_run_once_reports [OF assms])
  from v have "int (length claims) \<le> limit" "distinct (map (oe_event_id \<circ> fst) claims)" and k: "list_all (claim_ok worker) claims"
    by (simp_all add: validate_claims_def split: if_splits)
  moreover from k have "list_all (\<lambda>c. od_event_id (snd c) = oe_event_id (fst c) \<and> od_status (snd c) = u ''leased'' \<and>
      od_worker_id (snd c) = Some worker) claims"
    by (rule list.pred_mono_strong) (auto simp: claim_ok_def)
  ultimately show ?thesis using c r by blast
qed

theorem outbox_worker_truthful_witness:
  "delivery_report sample_repository (\<lambda>event s. (Receipt None, s)) (u ''w'') 60 5 (sample_event, sample_leased 2 1) (sample_leased 2 1)
     (worker_result (sample_leased 2 1) (u ''delivered'') sample_delivered) sample_delivered"
proof -
  have "or_claim_due sample_repository (u ''w'') 60 100 sample_pending = (Inr [(sample_event, sample_leased 2 1)], sample_leased 2 1)"
    by (simp add: sample_repository_def)
  then show ?thesis using outbox_worker_truthful [OF sample_pass] by auto
qed

text \<open>
  C35: The recovery worker reports the truth. Whatever the repository does, a pass that returns was given due sessions by
  the repository, within the limit, distinct and with an active lease status, and it reports one result for each, in order, with the id,
  revision and status it observed and the session that the last read of the repository returned. A session is reported as expired only when it was prepared or
  awaiting a decision, the repository answered the expiry with the next revision, in which nothing but
  the status, the reason, the time of change and the lease differs, and the read returned that revision. Otherwise no expiry was due, or
  it failed, and the session read has the same identity: it is superseded when its revision is newer, and requires recovery when it is the observed session itself.
\<close>

theorem gate_worker_truthful:
  assumes "gate_run_once repo limit s = (Inr results, t)"
  shows "\<exists>candidates s0. sp_list_due repo limit s = (Inr candidates, s0) \<and>
    int (length candidates) \<le> limit \<and> distinct (map gs_session_id candidates) \<and>
    list_all (\<lambda>c. gs_status c \<in> set ACTIVE_LEASE_STATUSES) candidates \<and>
    in_turn (recovery_report repo) candidates s0 results t"
proof -
  obtain candidates s0 where c: "sp_list_due repo limit s = (Inr candidates, s0)" "candidates_error limit candidates = None"
    and r: "in_turn (recovery_report repo) candidates s0 results t"
    by (rule gate_run_once_reports [OF assms])
  from c(2) have "int (length candidates) \<le> limit" "distinct (map gs_session_id candidates)"
    "list_all (\<lambda>c. gs_status c \<in> set ACTIVE_LEASE_STATUSES) candidates"
    by (simp_all add: candidates_error_def split: if_splits)
  then show ?thesis using c(1) r by blast
qed

theorem gate_worker_truthful_witness:
  "recovery_report sample_session_repository sample_awaiting_session sample_awaiting_session
     (recovery_result sample_awaiting_session (u ''expired'') sample_expired_session) sample_expired_session"
proof -
  have "sp_list_due sample_session_repository 100 sample_awaiting_session = (Inr [sample_awaiting_session], sample_awaiting_session)"
    by (simp add: sample_session_repository_def)
  then show ?thesis using gate_worker_truthful [OF sample_recovery] by auto
qed

section \<open>Snapshots\<close>

text \<open>
  C36: A store is loaded back from its snapshot. The snapshot of every store a client can have is
  accepted exactly when its collections are within the limits; the loaded store satisfies the
  invariant, has the same records under the same ids and the same logs in the order of their ids,
  no pending request, and writes the same snapshot.
\<close>

theorem snapshot_round_trip:
  assumes "reached rt s"
  shows "(\<exists>t. from_snapshot rt max_each max_all token session_id (to_snapshot s) = Inr t \<and> store_ok rt t \<and>
      same_records s t \<and> to_snapshot t = to_snapshot s \<and> st_pending_gate_requests t = []) \<longleftrightarrow>
    within_limits s max_each max_all"
  using snapshot_restores [OF reached_ok(1) [OF assms]] unwritable_limit [OF reached_ok(1) [OF assms]]
  by (metis Inl_Inr_False)

theorem snapshot_round_trip_witness:
  "\<exists>t. from_snapshot sample_runtime (Some 2) None 1 [] (to_snapshot sample_store3) = Inr t \<and>
     dict_get (st_lessons t) (u ''lesson_1'') = Some sample_lesson"
proof -
  have "within_limits sample_store3 (Some 2) None" by (simp add: within_limits_def over_limit_def sample_store3_fields)
  then obtain t where "from_snapshot sample_runtime (Some 2) None 1 [] (to_snapshot sample_store3) = Inr t"
    "same_records sample_store3 t"
    using snapshot_round_trip [OF sample_reached(1), of "Some 2" None 1 "[]"] by blast
  then show ?thesis by (simp add: same_records_def sample_store3_fields)
qed

section \<open>Events and ledgers\<close>

text \<open>
  C37: Streams are tamper evident. When the newest events of two verified streams carry the same digest,
  the streams have the same length and agree event by event in every field, the payload up to the order
  of its keys, provided that the hash function has no collision among the signed texts of these events.
\<close>

theorem event_stream_tamper_evident:
  assumes "json_numbers rt" and "event_chain rt sha (e # es)" and "event_chain rt sha (f # fs)"
    and "ev_event_sha256 e = ev_event_sha256 f"
    and "\<forall>x\<in>set (e # es). \<forall>y\<in>set (f # fs). sha (signed_text rt x) = sha (signed_text rt y) \<longrightarrow> signed_text rt x = signed_text rt y"
  shows "list_all2 (same_event rt) (e # es) (f # fs)"
  by (rule same_head_same_chain [OF assms])

theorem event_stream_tamper_evident_witness: "same_event event_runtime ledger_event ledger_event"
proof -
  have "event_chain event_runtime sample_sha [ledger_event]"
    using ledger_event_valid by (simp add: parent_None_iff) (simp add: ledger_event_def)
  from event_stream_tamper_evident [OF event_json_numbers this this refl] show ?thesis by simp
qed

section \<open>Events of gate sessions\<close>

text \<open>
  C38: Events carry the history of a session. When the events of a stream replay to a revision, and a first part of
  them to an earlier one, then the last revision is valid and counts the events; it keeps the identity and the
  evidence of the earlier one; nothing follows a terminal revision; and the events belong to the stream of the
  session with versions from one on, without a gap.
\<close>

theorem session_history_kept:
  assumes "replay_session rt sha None xs = Inr (Some b)" and "replay_session rt sha None (xs @ ys) = Inr (Some c)"
  shows "session_error c = None \<and> gs_version c = int (length (xs @ ys)) \<and> session_identity c = session_identity b \<and>
    evidence_kept b c \<and> (gs_status b \<in> set TERMINAL_STATUSES \<longrightarrow> ys = []) \<and>
    (\<forall>i<length (xs @ ys). ev_stream_id ((xs @ ys) ! i) = gs_session_id c \<and> ev_stream_version ((xs @ ys) ! i) = int i + 1)"
proof -
  have "replay_session rt sha (Some b) ys = Inr (Some c)" using assms by (simp add: replay_append)
  from replay_from [OF _ this] replay_history [OF assms(1)] show ?thesis
    using replay_history [OF assms(2)] unfolding revision_after_def recorded_def by blast
qed

theorem session_history_kept_witness:
  "session_error sample_prepared_session = None \<and> gs_version sample_prepared_session = int (length session_events) \<and>
   session_identity sample_prepared_session = session_identity sample_session \<and> evidence_kept sample_session sample_prepared_session"
  using session_history_kept [OF sample_replay(1), of "drop 1 session_events"] sample_replay(2) by simp

text \<open>
  C39: An event that is built can be read. When the event of a valid revision is built, it is a valid event that extends
  its parent, and it is read back, against the same previous revision and the same parent, as that revision in
  canonical form.
\<close>

theorem session_event_round_trip:
  assumes "build_gate_session_event rt sha s prev parent g ctx = Inr e" and "session_error s = None"
  shows "canonical_event_error rt sha e = None \<and> verify_event_parent e parent = None \<and>
    (\<exists>c. canonical_session s = Inr c \<and> parse_gate_session_event rt sha e prev parent = Inr c)"
  using built_event(3,4) [OF assms(1)] built_revision [OF assms] by blast

theorem session_event_round_trip_witness:
  "canonical_event_error event_runtime sample_sha first_event = None \<and>
   (\<exists>c. canonical_session sample_session = Inr c \<and> parse_gate_session_event event_runtime sample_sha first_event None None = Inr c)"
  using session_event_round_trip [OF first_event_built sample_session_valid] by blast

text \<open>
  C40: The projection is the replay of each stream. When an event log is projected from the empty state, the stream
  of every session replays, and reading the session from the projection gives the revision of that replay, or the
  error of an absent session when the log has no event of it, however the streams are interleaved.
\<close>

theorem session_projection_exact:
  assumes "project_sessions rt sha initial_projection es = Inr state"
  shows "\<exists>r. replay_session rt sha None (stream_log es i) = Inr r \<and>
    projected_gate_session state i =
      (case r of None \<Rightarrow> Inl (reducer_rejected ''GateSession is absent from projection state'') | Some c \<Rightarrow> Inr c)"
  by (rule projection_exact [OF assms])

theorem session_projection_exact_witness:
  "projected_gate_session (projection_of sample_prepared_session (session_events ! 1)) (u ''session_1'') = Inr sample_prepared_session"
proof -
  have "stream_log reducer_log (u ''session_1'') = session_events"
    by (simp add: stream_log_def reducer_log_def session_events_def session_event_def revision_request_def Let_def sample_session_defs)
  then show ?thesis using session_projection_exact [OF sample_projection, of "u ''session_1''"] sample_replay(2) by auto
qed

section \<open>The SQLite event ledger\<close>

text \<open>
  C9: The ledger keeps whole streams. After any sequence of appends, failing ones included, the rows are
  numbered from one to the global head without a gap, with distinct ids and digests; every row is read from
  its columns, its text and its artifact rows; every stream of every partition is a chain of
  valid events, each verified against its parent; and later calls only add rows.
\<close>

theorem sqlite_ledger_invariant:
  "let db = run_ledger rt sha calls empty_db in
     map er_global_position (db_events db) = map int [1..<Suc (length (db_events db))] \<and>
     db_global_position db = int (length (db_events db)) \<and>
     distinct (map er_event_id (db_events db)) \<and> distinct (map er_event_sha256 (db_events db)) \<and>
     rmap (event_from_row rt sha db) (db_events db) = Inr (map (row_event rt sha db) (db_events db)) \<and>
     (\<forall>p s. event_chain rt sha (rev (stream_events rt sha db p s))) \<and>
     (\<forall>later. prefix (db_events db) (db_events (run_ledger rt sha later db)))"
proof -
  let ?db = "run_ledger rt sha calls empty_db"
  have ok: "tables_ok ?db" "rows_readable rt sha ?db" "\<forall>p s. event_chain rt sha (rev (stream_events rt sha ?db p s))"
    using run_ledger_ok [of rt sha calls] by (simp_all add: ledger_ok_def)
  then have num: "numbered ?db" by (simp add: tables_ok_def)
  then have "map er_global_position (db_events ?db) = map int [1..<Suc (length (db_events ?db))]"
    by (intro nth_equalityI) (auto simp: numbered_def simp del: upt_Suc)
  moreover have "rmap (event_from_row rt sha ?db) (db_events ?db) = Inr (map (row_event rt sha ?db) (db_events ?db))"
    using readable_row [OF ok(2)] by (simp add: rmap_Inr_iff list_all2_conv_all_nth)
  moreover have "prefix (db_events ?db) (db_events (run_ledger rt sha later ?db))" for later
    using later_extends [of rt sha calls later] by (auto simp: ledger_extends_def)
  ultimately show ?thesis using num ok(3) by (simp add: Let_def numbered_def)
qed

text \<open>
  C10: An append takes effect once. Whatever was appended before and is appended afterwards, repeating a call that
  has committed returns the receipt of the first time, marked as not inserted, and writes nothing.
\<close>

theorem append_takes_effect_once:
  assumes "append_once rt sha a s v es i (run_ledger rt sha earlier empty_db) = (Inr c, db)"
  shows "append_once rt sha a s v es i (run_ledger rt sha later db) = (Inr (c\<lparr>cm_inserted := False\<rparr>), run_ledger rt sha later db)"
proof -
  have "db = run_ledger rt sha (earlier @ [AppendOnce a s v es i]) empty_db" using assms by (simp add: run_ledger_def)
  then have "ledger_extends db (run_ledger rt sha later db)" using later_extends by simp
  from append_replayed [OF run_ledger_ok assms this] show ?thesis .
qed

theorem append_takes_effect_once_witness:
  "append_once event_runtime sample_sha sample_access (u ''stream'') 0 [ledger_event] sample_idempotency first_ledger =
     (Inr \<lparr>cm_receipt = first_receipt, cm_inserted = False\<rparr>, first_ledger)"
  using append_takes_effect_once [where earlier = "[]" and later = "[]", unfolded run_ledger_def, simplified, OF first_commit] by simp

text \<open>
  C11: Pages are slices. For every partition, stream, first version and limit that the contract admits, a page
  of a stream is exactly the slice of the stream, with the high watermark of the ledger and the next version when
  events remain; it is refused as a whole when the reader may not see one of its events.
\<close>

theorem stream_pages_exact:
  assumes "decimal_numbers rt" and "hex_digests sha" and "partition_error (ac_partition a) = None" and "port_identifier s"
    and "1 \<le> k" and "k \<le> EVENT_MAX_VERSION" and "1 \<le> m" and "m \<le> 1000"
  shows "\<exists>p d. partition_sha256 rt sha (ac_partition a) = Inr p \<and>
    (let db = run_ledger rt sha calls empty_db in
     if \<forall>e\<in>set (stream_slice rt sha db p s k m). verify_read_access a e = None
     then read_stream rt sha a s k m db = Inr (slice_page rt sha db p s k m d)
     else \<exists>e. read_stream rt sha a s k m db = Inl e)"
proof -
  let ?db = "run_ledger rt sha calls empty_db"
  obtain p where p: "partition_sha256 rt sha (ac_partition a) = Inr p" using partition_sha256_total [OF assms(3,2)] by blast
  let ?check = "\<lambda>d. verify_ledger_stream_page \<lparr>sq_access = a, sq_stream_id = s, sq_from_version = k, sq_limit = m\<rparr> (slice_page rt sha ?db p s k m d)"
  obtain d where read: "read_stream rt sha a s k m ?db = or_raise (?check d) (Inr (slice_page rt sha ?db p s k m d))"
    using read_stream_exact [OF run_ledger_ok assms(1,2) p assms(4-8)] by blast
  have "?check d = None \<longleftrightarrow> (\<forall>e\<in>set (stream_slice rt sha ?db p s k m). verify_read_access a e = None)"
    by (rule slice_accepted [OF run_ledger_ok assms(5,7)])
  then have "if \<forall>e\<in>set (stream_slice rt sha ?db p s k m). verify_read_access a e = None
     then read_stream rt sha a s k m ?db = Inr (slice_page rt sha ?db p s k m d) else \<exists>e. read_stream rt sha a s k m ?db = Inl e"
    using read by (cases "?check d") simp_all
  then show ?thesis unfolding Let_def using p by blast
qed

theorem stream_pages_exact_witness:
  "\<exists>d. read_stream event_runtime sample_sha sample_access (u ''stream'') 1 1000 first_ledger =
     Inr (slice_page event_runtime sample_sha first_ledger sample_digest (u ''stream'') 1 1000 d)"
proof -
  have "partition_error (ac_partition sample_access) = None" using sample_access_valid by (simp add: valid_access_def)
  from stream_pages_exact [OF event_decimal_numbers sample_hex_digests this, of "u ''stream''" 1 1000 first_calls]
  show ?thesis by (auto simp: port_identifiers sample_partition first_run stream_slice_def first_stream first_visible Let_def)
qed

text \<open>
  C12: A reached ledger verifies. For a reader who may see the events of a stream, the verification of the stream
  finds no issue and reports its length and the digest of its last event.
\<close>

theorem reached_stream_verifies:
  assumes "hex_digests sha" and "partition_sha256 rt sha (ac_partition a) = Inr p" and "port_identifier s"
    and "\<forall>e\<in>set (stream_events rt sha (run_ledger rt sha calls empty_db) p s). verify_read_access a e = None"
  shows "let es = stream_events rt sha (run_ledger rt sha calls empty_db) p s in
    verify_stream rt sha a s (run_ledger rt sha calls empty_db) =
      Inr \<lparr>sv_stream_id = s, sv_partition_sha256 = p, sv_verified_stream_version = int (length es),
        sv_verified_event_count = int (length es),
        sv_head_event_sha256 = (if es = [] then None else Some (ev_event_sha256 (last es))), sv_valid = True, sv_issue_codes = []\<rparr>"
  unfolding Let_def by (rule verify_stream_clean [OF run_ledger_ok assms])

theorem reached_stream_verifies_witness:
  "\<exists>r. verify_stream event_runtime sample_sha sample_access (u ''stream'') first_ledger = Inr r \<and> sv_valid r \<and>
     sv_verified_event_count r = 1 \<and> sv_head_event_sha256 r = Some sample_digest"
  using reached_stream_verifies [OF sample_hex_digests sample_partition, of "u ''stream''" first_calls]
  by (simp add: first_run first_stream first_visible port_identifiers Let_def) (simp add: ledger_event_def)

text \<open>
  C14: A pending artifact cannot be stored. Although the contract of events admits artifacts whose availability is
  pending, the table of artifacts does not: in every reached ledger an append of an event with such an artifact
  fails, and nothing is written.
\<close>

theorem pending_artifact_refused:
  assumes "e \<in> set es" and "r \<in> set (ev_artifact_refs e)" and "ar_availability r = u ''pending''"
  shows "\<exists>x. append_once rt sha a s v es i (run_ledger rt sha calls empty_db) = (Inl x, run_ledger rt sha calls empty_db)"
proof (cases "append_once rt sha a s v es i (run_ledger rt sha calls empty_db)")
  case (Pair res db)
  show ?thesis
  proof (cases res)
    case (Inl x)
    then show ?thesis using Pair append_once_Inl by blast
  next
    case (Inr c)
    then have "ar_availability r \<in> set STORED_AVAILABILITY"
      using append_stores_artifacts [OF run_ledger_ok _ assms(1,2)] Pair by blast
    then show ?thesis using assms(3) by (simp add: STORED_AVAILABILITY_def)
  qed
qed

theorem pending_artifact_refused_witness:
  "artifact_ref_error pending_ref = None \<and>
   valid_request event_runtime sample_sha (request_of sample_access (u ''stream'') 0 [refs_event [pending_ref]] sample_idempotency) \<and>
   (\<exists>x. append_once event_runtime sample_sha sample_access (u ''stream'') 0 [refs_event [pending_ref]] sample_idempotency empty_db =
      (Inl x, empty_db))"
proof -
  have "request_of sample_access (u ''stream'') 0 [refs_event [pending_ref]] sample_idempotency = ledger_append\<lparr>rq_events := [refs_event [pending_ref]]\<rparr>"
    by (simp add: request_of_def ledger_append_def)
  then show ?thesis
    using pending_artifact_refused [where e = "refs_event [pending_ref]" and r = pending_ref and es = "[refs_event [pending_ref]]" and calls = "[]"]
      pending_ref_valid pending_append_valid
    by (auto simp: refs_event_def pending_ref_def run_ledger_def)
qed

text \<open>
  C13: Subscribers miss nothing. A subscriber that polls and acknowledges in rounds, while other clients append
  between them, receives after enough further rounds exactly the events of its partition and classifications that
  were recorded after its start, each once and in the order of the ledger, if it starts inside the ledger and may read them.
\<close>

theorem subscription_delivers_everything:
  assumes "decimal_numbers rt" and "hex_digests sha" and "partition_sha256 rt sha (ac_partition a) = Inr p"
    and "subscribe a k m t h = Inr s" and "uuid_hex h" and "k \<le> db_global_position (run_ledger rt sha before empty_db)"
    and "\<forall>x\<in>set rounds. uuid_hex (snd x)" and "\<forall>x\<in>set quiet. fst x = [] \<and> uuid_hex (snd x)"
    and "W = visible_events rt sha (run_ledger rt sha (before @ concat (map fst rounds)) empty_db) p (cf_allowed (ac_classification_filter a)) k"
    and "\<forall>e\<in>set W. verify_read_access a e = None" and "length W \<le> length quiet * nat m"
  shows "\<exists>s'. consume rt sha (rounds @ quiet) (run_ledger rt sha before empty_db) s =
    Inr (W, run_ledger rt sha (before @ concat (map fst rounds)) empty_db, s')"
  by (rule subscription_complete [OF assms])

theorem subscription_delivers_everything_witness:
  "\<exists>s'. consume event_runtime sample_sha [(first_calls, sample_uuid), ([], sample_uuid)] empty_db sample_subscription =
     Inr ([ledger_event], first_ledger, s')"
proof -
  have e: "run_ledger event_runtime sample_sha [] empty_db = empty_db" by (simp add: run_ledger_def)
  show ?thesis
    using subscription_delivers_everything [OF event_decimal_numbers sample_hex_digests sample_partition sample_subscribed sample_uuid_hex,
        where before = "[]" and rounds = "[(first_calls, sample_uuid)]" and quiet = "[([], sample_uuid)]" and W = "[ledger_event]"]
    by (simp add: e first_run first_seen first_visible sample_uuid_hex) (simp add: empty_db_def)
qed

end
